(* ===== verification/Prelude.thy ===== *)
theory Prelude
  imports Main "HOL-Library.Product_Lexorder"
begin

text \<open>
  Shared vocabulary of the development: the state-and-error computations every operation of the
  services is written in, the step-relation calculus that frame and invariant proofs use, and
  keyed tables (lists of rows with a key column) with the lemmas that the components share.

  A computation takes the world and returns an error or a value together with the world it leaves.
  The world is returned in the error case as well: what a failed statement changed is undone by the
  transaction that encloses it, and by nothing else.
\<close>

named_theorems run_simps "what a computation that returns a given outcome must have done"
named_theorems yields_intros "introduction rules of the step-relation calculus"

section \<open>Computations\<close>

type_synonym ('w, 'e, 'a) comp = "'w \<Rightarrow> ('e + 'a) \<times> 'w"

definition return :: "'a \<Rightarrow> ('w, 'e, 'a) comp" where
  "return x w = (Inr x, w)"

definition raise :: "'e \<Rightarrow> ('w, 'e, 'a) comp" where
  "raise e w = (Inl e, w)"

definition seq :: "('w, 'e, 'a) comp \<Rightarrow> ('a \<Rightarrow> ('w, 'e, 'b) comp) \<Rightarrow> ('w, 'e, 'b) comp" where
  "seq m f w = (case m w of (Inl e, w') \<Rightarrow> (Inl e, w') | (Inr x, w') \<Rightarrow> f x w')"

definition lift :: "'e + 'a \<Rightarrow> ('w, 'e, 'a) comp" where
  "lift r w = (r, w)"

definition ensure :: "bool \<Rightarrow> 'e \<Rightarrow> ('w, 'e, unit) comp" where
  "ensure P e = (if P then return () else raise e)"

definition gets :: "('w \<Rightarrow> 'a) \<Rightarrow> ('w, 'e, 'a) comp" where
  "gets f w = (Inr (f w), w)"

definition modify :: "('w \<Rightarrow> 'w) \<Rightarrow> ('w, 'e, unit) comp" where
  "modify f w = (Inr (), f w)"

text \<open>\<open>caught\<close> is a call whose error the code keeps in a variable and looks at.\<close>

definition caught :: "('w, 'e, 'a) comp \<Rightarrow> ('w, 'e, 'e + 'a) comp" where
  "caught m w = (case m w of (r, w') \<Rightarrow> (Inr r, w'))"

primrec foreach :: "('x \<Rightarrow> ('w, 'e, 'a) comp) \<Rightarrow> 'x list \<Rightarrow> ('w, 'e, 'a list) comp" where
  "foreach f [] = return []"
| "foreach f (x # xs) = seq (f x) (\<lambda>y. seq (foreach f xs) (\<lambda>ys. return (y # ys)))"

lemma return_run [run_simps]:
  "return x w = (Inr y, w') \<longleftrightarrow> y = x \<and> w' = w"
  "return x w = (Inl e, w') \<longleftrightarrow> False"
  by (auto simp: return_def)

lemma raise_run [run_simps]:
  "raise e w = (Inr y, w') \<longleftrightarrow> False"
  "raise e w = (Inl e', w') \<longleftrightarrow> e' = e \<and> w' = w"
  by (auto simp: raise_def)

lemma seq_run [run_simps]:
  "seq m f w = (Inr y, w') \<longleftrightarrow> (\<exists>x w1. m w = (Inr x, w1) \<and> f x w1 = (Inr y, w'))"
  "seq m f w = (Inl e, w') \<longleftrightarrow>
     m w = (Inl e, w') \<or> (\<exists>x w1. m w = (Inr x, w1) \<and> f x w1 = (Inl e, w'))"
  by (auto simp: seq_def split: prod.splits sum.splits)

lemma lift_run [run_simps]:
  "lift r w = (Inr y, w') \<longleftrightarrow> r = Inr y \<and> w' = w"
  "lift r w = (Inl e, w') \<longleftrightarrow> r = Inl e \<and> w' = w"
  by (auto simp: lift_def)

lemma ensure_run [run_simps]:
  "ensure P e w = (Inr u, w') \<longleftrightarrow> P \<and> w' = w"
  "ensure P e w = (Inl e', w') \<longleftrightarrow> \<not> P \<and> e' = e \<and> w' = w"
  by (auto simp: ensure_def run_simps)

lemma gets_run [run_simps]:
  "gets f w = (Inr y, w') \<longleftrightarrow> y = f w \<and> w' = w"
  "gets f w = (Inl e, w') \<longleftrightarrow> False"
  by (auto simp: gets_def)

lemma modify_run [run_simps]:
  "modify f w = (Inr u, w') \<longleftrightarrow> w' = f w"
  "modify f w = (Inl e, w') \<longleftrightarrow> False"
  by (auto simp: modify_def)

lemma caught_run [run_simps]:
  "caught m w = (Inr r, w') \<longleftrightarrow> m w = (r, w')"
  "caught m w = (Inl e, w') \<longleftrightarrow> False"
  by (auto simp: caught_def split: prod.splits)

text \<open>A row the code requires: its absence is an error.\<close>

lemma required_run:
  "(case x of None \<Rightarrow> raise e | Some y \<Rightarrow> f y) w = (Inr z, w') \<longleftrightarrow> (\<exists>y. x = Some y \<and> f y w = (Inr z, w'))"
  by (cases x) (auto simp: raise_run)

lemma seq_assoc: "seq (seq m f) g = seq m (\<lambda>x. seq (f x) g)"
  by (rule ext) (simp add: seq_def split: prod.splits sum.splits)

lemma seq_return [simp]: "seq (return x) f = f x"
  by (rule ext) (simp add: seq_def return_def)

lemma seq_raise [simp]: "seq (raise e) f = raise e"
  by (rule ext) (simp add: seq_def raise_def)

section \<open>What every successful run of a computation does\<close>

definition yields :: "('w \<Rightarrow> 'w \<Rightarrow> bool) \<Rightarrow> ('w, 'e, 'a) comp \<Rightarrow> bool" where
  "yields R m \<longleftrightarrow> (\<forall>w x w'. m w = (Inr x, w') \<longrightarrow> R w w')"

lemma yieldsD: "yields R m \<Longrightarrow> m w = (Inr x, w') \<Longrightarrow> R w w'"
  by (auto simp: yields_def)

lemma yieldsI: "(\<And>w x w'. m w = (Inr x, w') \<Longrightarrow> R w w') \<Longrightarrow> yields R m"
  by (auto simp: yields_def)

text \<open>
  A step relation is reflexive and transitive: what a whole computation does to the world is then
  what its parts do. Frame conditions (a column keeps its value), invariants and monotonicity of
  version counters are all step relations, so their proofs share the lemmas of this locale.
\<close>

locale step_relation =
  fixes R :: "'w \<Rightarrow> 'w \<Rightarrow> bool"
  assumes step_refl: "R w w"
    and step_trans: "R u v \<Longrightarrow> R v w \<Longrightarrow> R u w"
begin

lemma y_return: "yields R (return x)"
  by (auto simp: yields_def run_simps intro: step_refl)

lemma y_raise: "yields R (raise e)"
  by (auto simp: yields_def run_simps)

lemma y_lift: "yields R (lift r)"
  by (auto simp: yields_def run_simps intro: step_refl)

lemma y_ensure: "yields R (ensure P e)"
  by (auto simp: yields_def run_simps intro: step_refl)

lemma y_gets: "yields R (gets f)"
  by (auto simp: yields_def run_simps intro: step_refl)

lemma y_seq: "yields R m \<Longrightarrow> (\<And>x. yields R (f x)) \<Longrightarrow> yields R (seq m f)"
  by (rule yieldsI) (auto simp: run_simps intro: step_trans dest: yieldsD)

lemma y_if: "(P \<Longrightarrow> yields R m) \<Longrightarrow> (\<not> P \<Longrightarrow> yields R n) \<Longrightarrow> yields R (if P then m else n)"
  by simp

lemma y_option:
  "(x = None \<Longrightarrow> yields R m) \<Longrightarrow> (\<And>y. x = Some y \<Longrightarrow> yields R (f y)) \<Longrightarrow>
   yields R (case x of None \<Rightarrow> m | Some y \<Rightarrow> f y)"
  by (cases x) auto

lemma y_foreach: "(\<And>x. yields R (f x)) \<Longrightarrow> yields R (foreach f xs)"
  by (induction xs) (auto intro!: y_return y_seq)

lemmas y_intros = y_return y_raise y_lift y_ensure y_gets y_seq y_if y_option y_foreach

end

text \<open>The two shapes of step relation the components use most.\<close>

definition kept :: "('w \<Rightarrow> 'b) \<Rightarrow> 'w \<Rightarrow> 'w \<Rightarrow> bool" where
  "kept f w w' \<longleftrightarrow> f w' = f w"

definition preserved :: "('w \<Rightarrow> bool) \<Rightarrow> 'w \<Rightarrow> 'w \<Rightarrow> bool" where
  "preserved I w w' \<longleftrightarrow> (I w \<longrightarrow> I w')"

interpretation kept: step_relation "kept f" for f
  by unfold_locales (auto simp: kept_def)

interpretation preserved: step_relation "preserved I" for I
  by unfold_locales (auto simp: preserved_def)

section \<open>Keyed tables\<close>

definition row_of :: "('r \<Rightarrow> 'k) \<Rightarrow> 'k \<Rightarrow> 'r list \<Rightarrow> 'r option" where
  "row_of key k rows = find (\<lambda>r. key r = k) rows"

definition change_row :: "('r \<Rightarrow> 'k) \<Rightarrow> 'k \<Rightarrow> ('r \<Rightarrow> 'r) \<Rightarrow> 'r list \<Rightarrow> 'r list" where
  "change_row key k f rows = map (\<lambda>r. if key r = k then f r else r) rows"

definition keyed :: "('r \<Rightarrow> 'k) \<Rightarrow> 'r list \<Rightarrow> bool" where
  "keyed key rows \<longleftrightarrow> distinct (map key rows)"

lemma row_of_simps [simp]:
  "row_of key k [] = None"
  "row_of key k (r # rs) = (if key r = k then Some r else row_of key k rs)"
  by (auto simp: row_of_def)

lemma row_of_SomeD: "row_of key k rows = Some r \<Longrightarrow> r \<in> set rows \<and> key r = k"
  by (induction rows) (auto split: if_splits)

lemma row_of_None_iff: "row_of key k rows = None \<longleftrightarrow> k \<notin> key ` set rows"
  by (induction rows) auto

lemma row_of_keyed: "keyed key rows \<Longrightarrow> r \<in> set rows \<Longrightarrow> row_of key (key r) rows = Some r"
  by (induction rows) (auto simp: keyed_def)

lemma row_of_append:
  "row_of key k (xs @ ys) = (case row_of key k xs of None \<Rightarrow> row_of key k ys | Some r \<Rightarrow> Some r)"
  by (induction xs) auto

lemma change_row_simps [simp]:
  "change_row key k f [] = []"
  "change_row key k f (r # rs) = (if key r = k then f r else r) # change_row key k f rs"
  by (auto simp: change_row_def)

lemma map_key_change_row [simp]:
  "(\<And>r. key (f r) = key r) \<Longrightarrow> map key (change_row key k f rows) = map key rows"
  by (induction rows) auto

lemma keyed_change_row [simp]:
  "(\<And>r. key (f r) = key r) \<Longrightarrow> keyed key (change_row key k f rows) = keyed key rows"
  by (simp add: keyed_def)

lemma row_of_change_row:
  "(\<And>r. key (f r) = key r) \<Longrightarrow>
   row_of key j (change_row key k f rows) =
     (if j = k then map_option f (row_of key j rows) else row_of key j rows)"
  by (induction rows) auto

lemma keyed_append [simp]:
  "keyed key (rows @ [r]) \<longleftrightarrow> keyed key rows \<and> row_of key (key r) rows = None"
  by (auto simp: keyed_def row_of_None_iff)

lemma set_change_row:
  "r \<in> set (change_row key k f rows) \<longleftrightarrow>
     (r \<in> set rows \<and> key r \<noteq> k) \<or> (\<exists>r0 \<in> set rows. key r0 = k \<and> r = f r0)"
  by (induction rows) auto

lemma length_change_row [simp]: "length (change_row key k f rows) = length rows"
  by (simp add: change_row_def)

lemma change_row_absent: "k \<notin> key ` set rows \<Longrightarrow> change_row key k f rows = rows"
  by (induction rows) auto

text \<open>
  An UPDATE of one row by its key, an INSERT that the primary key may refuse, and ORDER BY: ascending
  is \<open>sort_key\<close>, descending its reverse, and LIMIT 1 the first row of either.
\<close>

definition put_row :: "('r \<Rightarrow> 'k) \<Rightarrow> 'r \<Rightarrow> 'r list \<Rightarrow> 'r list" where
  "put_row key r' rows = map (\<lambda>r. if key r = key r' then r' else r) rows"

definition order_desc :: "('r \<Rightarrow> 'k::linorder) \<Rightarrow> 'r list \<Rightarrow> 'r list" where
  "order_desc key rows = rev (sort_key key rows)"

fun first_row :: "'r list \<Rightarrow> 'r option" where
  "first_row [] = None"
| "first_row (r # _) = Some r"

lemma put_row_simps [simp]:
  "put_row key r' [] = []"
  "put_row key r' (r # rs) = (if key r = key r' then r' else r) # put_row key r' rs"
  by (auto simp: put_row_def)

lemma map_key_put_row [simp]: "map key (put_row key r' rows) = map key rows"
  by (induction rows) auto

lemma keyed_put_row [simp]: "keyed key (put_row key r' rows) = keyed key rows"
  by (simp add: keyed_def)

lemma key_set_put_row [simp]: "key ` set (put_row key r' rows) = key ` set rows"
  by (induction rows) auto

lemma row_of_put_row:
  "row_of key k (put_row key r' rows) =
     (if k = key r' then map_option (\<lambda>_. r') (row_of key k rows) else row_of key k rows)"
  by (induction rows) auto

lemma set_put_row:
  "r \<in> set (put_row key r' rows) \<longleftrightarrow>
     (r \<in> set rows \<and> key r \<noteq> key r') \<or> (r = r' \<and> key r' \<in> key ` set rows)"
  by (induction rows) auto

lemma row_of_map:
  "(\<And>r. key (f r) = key r) \<Longrightarrow> row_of key k (map f rows) = map_option f (row_of key k rows)"
  by (induction rows) auto

lemma length_put_row [simp]: "length (put_row key r' rows) = length rows"
  by (simp add: put_row_def)

lemma set_order_desc [simp]: "set (order_desc key rows) = set rows"
  by (simp add: order_desc_def)

lemma first_row_set: "first_row rows = Some r \<Longrightarrow> r \<in> set rows"
  by (cases rows) auto

lemma first_row_None [simp]: "first_row rows = None \<longleftrightarrow> rows = []"
  by (cases rows) auto

lemma last_sort_key_max:
  "r \<in> set rows \<Longrightarrow> key r \<le> key (last (sort_key key rows))"
proof -
  assume r: "r \<in> set rows"
  have ne: "sort_key key rows \<noteq> []"
    using r by (metis empty_iff empty_set set_sort)
  have "sorted (map key (sort_key key rows))" by simp
  then have "\<forall>x \<in> set (sort_key key rows). key x \<le> key (last (sort_key key rows))"
  proof (induction "sort_key key rows" arbitrary: rows)
    case Nil
    then show ?case by simp
  next
    case (Cons a xs)
    have *: "sort_key key rows = butlast (sort_key key rows) @ [last (sort_key key rows)]"
      using Cons.hyps(2) by (metis append_butlast_last_id list.distinct(1))
    have "sorted (map key (butlast (sort_key key rows) @ [last (sort_key key rows)]))"
      using Cons.prems * by simp
    then have "\<forall>x \<in> set (butlast (sort_key key rows)). key x \<le> key (last (sort_key key rows))"
      by (simp add: sorted_append)
    then show ?case
      by (metis * Un_iff empty_iff list.set(1) list.set(2) insert_iff order_refl set_append)
  qed
  with r show ?thesis by simp
qed

text \<open>The first row of a descending order carries the greatest key.\<close>

lemma first_desc_max:
  assumes "first_row (order_desc key rows) = Some r" "r' \<in> set rows"
  shows "key r' \<le> key r"
proof -
  have ne: "sort_key key rows \<noteq> []"
    using assms(2) by (metis empty_iff empty_set set_sort)
  have "r = last (sort_key key rows)"
    using assms(1) ne unfolding order_desc_def
    by (cases "sort_key key rows" rule: rev_cases) auto
  then show ?thesis
    using last_sort_key_max[OF assms(2)] by simp
qed

text \<open>Columns that stay distinct.\<close>

lemma put_row_absent: "key r' \<notin> key ` set rows \<Longrightarrow> put_row key r' rows = rows"
  by (induction rows) auto

text \<open>A row replaced by one that agrees on what is looked at.\<close>

lemma map_filter_put_row:
  assumes "keyed key rows" "row_of key (key r') rows = Some r" "P r' = P r" "f r' = f r"
  shows "map f (filter P (put_row key r' rows)) = map f (filter P rows)"
  using assms
proof (induction rows)
  case (Cons x rows)
  then show ?case
    by (cases "key x = key r'") (auto simp: keyed_def put_row_absent)
qed simp

lemma distinct_filter_change:
  assumes "\<And>r. P (f r) \<Longrightarrow> P r \<and> col (f r) = col r" "distinct (map col (filter P rows))"
  shows "distinct (map col (filter P (change_row key k f rows)))"
proof -
  have sub: "set (map col (filter P (change_row key k f rs))) \<subseteq> set (map col (filter P rs))" for rs
    using assms(1) by (induction rs) auto
  show ?thesis
    using assms(2)
  proof (induction rows)
    case (Cons x rows)
    then have IH: "distinct (map col (filter P (change_row key k f rows)))"
      by (cases "P x") auto
    let ?x = "if key x = k then f x else x"
    have "col ?x \<notin> set (map col (filter P (change_row key k f rows)))" if "P ?x"
    proof -
      have "P x" "col ?x = col x" using that assms(1)[of x] by (auto split: if_splits)
      then show ?thesis using Cons.prems sub[of rows] by auto
    qed
    then show ?case using IH by auto
  qed simp
qed

lemma distinct_filter_append:
  assumes "distinct (map col (filter P rows))" "\<not> list_ex (\<lambda>r. P r \<and> col r = col x) rows"
  shows "distinct (map col (filter P (rows @ [x])))"
  using assms by (auto simp: list_ex_iff)

section \<open>Tables whose rows only move forward\<close>

definition rows_advanced :: "('r \<Rightarrow> 'k) \<Rightarrow> ('r \<Rightarrow> 'r \<Rightarrow> bool) \<Rightarrow> 'r list \<Rightarrow> 'r list \<Rightarrow> bool" where
  "rows_advanced key adv xs ys \<longleftrightarrow>
     (\<forall>k r. row_of key k xs = Some r \<longrightarrow> (\<exists>r'. row_of key k ys = Some r' \<and> adv r r'))"

lemma rows_advanced_refl: "(\<And>r. adv r r) \<Longrightarrow> rows_advanced key adv xs xs"
  by (auto simp: rows_advanced_def)

lemma rows_advanced_trans:
  assumes "\<And>r s t. adv r s \<Longrightarrow> adv s t \<Longrightarrow> adv r t" "rows_advanced key adv xs ys" "rows_advanced key adv ys zs"
  shows "rows_advanced key adv xs zs"
  using assms unfolding rows_advanced_def by meson

lemma rows_advanced_append: "(\<And>r. adv r r) \<Longrightarrow> rows_advanced key adv xs (xs @ ys)"
  by (auto simp: rows_advanced_def row_of_append)

lemma rows_advanced_change:
  assumes "\<And>r. key (f r) = key r" "\<And>r. adv r r" "\<And>r. adv r (f r)"
  shows "rows_advanced key adv xs (change_row col k f xs)"
proof -
  have "row_of key j (change_row col k f xs) = map_option (\<lambda>r. if col r = k then f r else r) (row_of key j xs)" for j
    unfolding change_row_def by (rule row_of_map) (simp add: assms(1))
  then show ?thesis using assms by (auto simp: rows_advanced_def)
qed

lemma rows_advanced_put:
  assumes "row_of key (key r') xs = Some r" "adv r r'" "\<And>r. adv r r"
  shows "rows_advanced key adv xs (put_row key r' xs)"
  using assms by (auto simp: rows_advanced_def row_of_put_row)

section \<open>Texts\<close>

text \<open>A text is blank when trimming leaves nothing (Go's \<open>strings.TrimSpace\<close> on ASCII text).\<close>

definition is_space :: "char \<Rightarrow> bool" where
  "is_space c \<longleftrightarrow> c \<in> set [CHR 0x09, CHR 0x0A, CHR 0x0B, CHR 0x0C, CHR 0x0D, CHR '' '']"

text \<open>A number as Go's \<open>%d\<close> prints it.\<close>

function digits :: "int \<Rightarrow> string" where
  "digits n = (if n < 10 then [char_of (48 + n)] else digits (n div 10) @ [char_of (48 + n mod 10)])"
  by auto
termination
  by (relation "measure nat") auto

declare digits.simps [simp del]

definition decimal :: "int \<Rightarrow> string" where
  "decimal i = (if i < 0 then CHR ''-'' # digits (- i) else digits i)"

definition TrimSpace :: "string \<Rightarrow> string" where
  "TrimSpace s = rev (dropWhile is_space (rev (dropWhile is_space s)))"

definition blank :: "string \<Rightarrow> bool" where
  "blank s \<longleftrightarrow> TrimSpace s = []"

lemma blank_Nil [simp]: "blank []"
  by (simp add: blank_def TrimSpace_def)

lemma find_in: "find P xs = Some x \<Longrightarrow> x \<in> set xs \<and> P x"
  by (auto simp: find_Some_iff)

end
