(* ===== verification/Failure.thy ===== *)
theory Failure
  imports Prelude
begin

text \<open>
  The refusals of the services. Each constructor is one sentinel of the Go sources, tagged with its
  package where several packages declare one of the same name and grouped by package and subject
  otherwise; a wrapped error is the sentinel \<open>errors.Is\<close> finds in it. \<open>ErrInternal\<close> is an error with no
  sentinel: a failed statement, a value that cannot be decoded, a process built wrong.
\<close>

datatype package =
    PkgTenant | PkgMembership | PkgOffboarding | PkgInvitation | PkgOrganization | PkgWorkspace
  | PkgContext | PkgAuthority | PkgProjection | PkgDb

datatype tenant_sentinel =
    ProvisioningNotRealized_error | SponsorNotActive_error | NoProvisioningRequest_error
  | AmbiguousCorrelation_error | OutcomeAlreadyRecorded_error | ProvisioningNotRequested_error

datatype membership_sentinel =
    Revoked_error | AdvanceReasonRequired_error | NoTransition_error | BatchNotFound_error
  | BatchExpired_error | BatchNotPreviewed_error | BatchTooLarge_error | BatchExecuting_error
  | BatchLeaseLost_error

datatype offboarding_sentinel =
    StageRefused_error | ObligationsOutstanding_error | LegalHold_error | WrongDomain_error
  | AlreadyResolved_error | AmbiguousOutcome_error | DeprovisioningIncomplete_error | NotReversible_error
  | ResendRefused_error

datatype invitation_sentinel =
    Settled_error | Expired_error | NotAcceptable_error | IdentityUnavailable_error
  | TenantNotActive_error | AlreadyMember_error | TTL_error | Token_error

datatype registry_sentinel =
    TenantsNotRetired_error | MembershipsPresent_error

datatype context_sentinel =
    NotRegistered_error | RequestRequired_error

datatype consumer_sentinel =
    ConsumerUnregistered_error | NoSnapshotMark_error | MarkWentBackwards_error
  | ReportMarkRequired_error | PageSize_error | Cursor_error | NotSubscribed_error | ConsumerNotFound_error

datatype letter_sentinel =
    DeadLetterNotFound_error | ConsumerNotSubscribed_error | DeadLetterResolved_error
  | Unreplayable_error | NoAppliedEvidence_error | NotSuperseded_error | NotWaivable_error
  | AlreadyWaived_error

datatype grant_sentinel =
    AlreadyGranted_error | GrantNotFound_error | AlreadyRevoked_error | LastGrant_error
  | GrantsExist_error | BootstrapInvalid_error

datatype activation_sentinel =
    ActivationInvalid_error | ActivationTooLong_error | EmergencyGrant_error | NotHolder_error
  | ActivationInForce_error | ActivationPending_error | ActivationNotFound_error | ActivationDecided_error
  | SelfApproval_error | ActivationNotInForce_error

datatype administrator_sentinel =
    PauseInvalid_error | TenantAdminInvalid_error | AdminTenantNotFound_error
  | AdminTenantNotActive_error | AlreadyAdministrator_error | MembershipSuspended_error
  | AdminGrantNotFound_error | AdminGrantRevoked_error

datatype review_sentinel =
    ReporterInvalid_error | ReporterRegistered_error | ReporterNotFound_error | ReporterRetired_error
  | ReporterVersion_error | AccessQueryInvalid_error | ReviewInvalid_error | SelfReview_error

datatype error =
    ErrInvalid package
  | ErrUnknownAction package
  | ErrTransitionRefused package
  | ErrRetired package
  | ErrNotFound package
  | ErrVersionMismatch package
  | ErrReasonRequired package
  | ErrNoScope
  | ErrWrongScope
  | ErrListLimit
  | ErrReplayed int string
  | ErrIdempotencyConflict
  | ErrIdempotencyInProgress
  | TenantError tenant_sentinel
  | MembershipError membership_sentinel
  | OffboardingError offboarding_sentinel
  | InvitationError invitation_sentinel
  | RegistryError registry_sentinel
  | ContextError context_sentinel
  | ConsumerError consumer_sentinel
  | LetterError letter_sentinel
  | GrantError grant_sentinel
  | ActivationError activation_sentinel
  | AdministratorError administrator_sentinel
  | ReviewError review_sentinel
  | ErrInternal string

text \<open>The sentinels under the names the packages give them.\<close>

abbreviation ErrProvisioningNotRealized :: error where "ErrProvisioningNotRealized \<equiv> TenantError ProvisioningNotRealized_error"
abbreviation ErrSponsorNotActive :: error where "ErrSponsorNotActive \<equiv> TenantError SponsorNotActive_error"
abbreviation ErrNoProvisioningRequest :: error where "ErrNoProvisioningRequest \<equiv> TenantError NoProvisioningRequest_error"
abbreviation ErrAmbiguousCorrelation :: error where "ErrAmbiguousCorrelation \<equiv> TenantError AmbiguousCorrelation_error"
abbreviation ErrOutcomeAlreadyRecorded :: error where "ErrOutcomeAlreadyRecorded \<equiv> TenantError OutcomeAlreadyRecorded_error"
abbreviation ErrProvisioningNotRequested :: error where "ErrProvisioningNotRequested \<equiv> TenantError ProvisioningNotRequested_error"

abbreviation ErrRevoked :: error where "ErrRevoked \<equiv> MembershipError Revoked_error"
abbreviation ErrAdvanceReasonRequired :: error where "ErrAdvanceReasonRequired \<equiv> MembershipError AdvanceReasonRequired_error"
abbreviation ErrNoTransition :: error where "ErrNoTransition \<equiv> MembershipError NoTransition_error"
abbreviation ErrBatchNotFound :: error where "ErrBatchNotFound \<equiv> MembershipError BatchNotFound_error"
abbreviation ErrBatchExpired :: error where "ErrBatchExpired \<equiv> MembershipError BatchExpired_error"
abbreviation ErrBatchNotPreviewed :: error where "ErrBatchNotPreviewed \<equiv> MembershipError BatchNotPreviewed_error"
abbreviation ErrBatchTooLarge :: error where "ErrBatchTooLarge \<equiv> MembershipError BatchTooLarge_error"
abbreviation ErrBatchExecuting :: error where "ErrBatchExecuting \<equiv> MembershipError BatchExecuting_error"
abbreviation ErrBatchLeaseLost :: error where "ErrBatchLeaseLost \<equiv> MembershipError BatchLeaseLost_error"

abbreviation ErrStageRefused :: error where "ErrStageRefused \<equiv> OffboardingError StageRefused_error"
abbreviation ErrObligationsOutstanding :: error where "ErrObligationsOutstanding \<equiv> OffboardingError ObligationsOutstanding_error"
abbreviation ErrLegalHold :: error where "ErrLegalHold \<equiv> OffboardingError LegalHold_error"
abbreviation ErrWrongDomain :: error where "ErrWrongDomain \<equiv> OffboardingError WrongDomain_error"
abbreviation ErrAlreadyResolved :: error where "ErrAlreadyResolved \<equiv> OffboardingError AlreadyResolved_error"
abbreviation ErrAmbiguousOutcome :: error where "ErrAmbiguousOutcome \<equiv> OffboardingError AmbiguousOutcome_error"
abbreviation ErrDeprovisioningIncomplete :: error where "ErrDeprovisioningIncomplete \<equiv> OffboardingError DeprovisioningIncomplete_error"
abbreviation ErrNotReversible :: error where "ErrNotReversible \<equiv> OffboardingError NotReversible_error"
abbreviation ErrResendRefused :: error where "ErrResendRefused \<equiv> OffboardingError ResendRefused_error"

abbreviation ErrSettled :: error where "ErrSettled \<equiv> InvitationError Settled_error"
abbreviation ErrExpired :: error where "ErrExpired \<equiv> InvitationError Expired_error"
abbreviation ErrNotAcceptable :: error where "ErrNotAcceptable \<equiv> InvitationError NotAcceptable_error"
abbreviation ErrIdentityUnavailable :: error where "ErrIdentityUnavailable \<equiv> InvitationError IdentityUnavailable_error"
abbreviation ErrTenantNotActive :: error where "ErrTenantNotActive \<equiv> InvitationError TenantNotActive_error"
abbreviation ErrAlreadyMember :: error where "ErrAlreadyMember \<equiv> InvitationError AlreadyMember_error"
abbreviation ErrTTL :: error where "ErrTTL \<equiv> InvitationError TTL_error"
abbreviation ErrToken :: error where "ErrToken \<equiv> InvitationError Token_error"

abbreviation ErrTenantsNotRetired :: error where "ErrTenantsNotRetired \<equiv> RegistryError TenantsNotRetired_error"
abbreviation ErrMembershipsPresent :: error where "ErrMembershipsPresent \<equiv> RegistryError MembershipsPresent_error"

abbreviation ErrNotRegistered :: error where "ErrNotRegistered \<equiv> ContextError NotRegistered_error"
abbreviation ErrRequestRequired :: error where "ErrRequestRequired \<equiv> ContextError RequestRequired_error"

abbreviation ErrConsumerUnregistered :: error where "ErrConsumerUnregistered \<equiv> ConsumerError ConsumerUnregistered_error"
abbreviation ErrNoSnapshotMark :: error where "ErrNoSnapshotMark \<equiv> ConsumerError NoSnapshotMark_error"
abbreviation ErrMarkWentBackwards :: error where "ErrMarkWentBackwards \<equiv> ConsumerError MarkWentBackwards_error"
abbreviation ErrReportMarkRequired :: error where "ErrReportMarkRequired \<equiv> ConsumerError ReportMarkRequired_error"
abbreviation ErrPageSize :: error where "ErrPageSize \<equiv> ConsumerError PageSize_error"
abbreviation ErrCursor :: error where "ErrCursor \<equiv> ConsumerError Cursor_error"
abbreviation ErrNotSubscribed :: error where "ErrNotSubscribed \<equiv> ConsumerError NotSubscribed_error"
abbreviation ErrConsumerNotFound :: error where "ErrConsumerNotFound \<equiv> ConsumerError ConsumerNotFound_error"

abbreviation ErrDeadLetterNotFound :: error where "ErrDeadLetterNotFound \<equiv> LetterError DeadLetterNotFound_error"
abbreviation ErrConsumerNotSubscribed :: error where "ErrConsumerNotSubscribed \<equiv> LetterError ConsumerNotSubscribed_error"
abbreviation ErrDeadLetterResolved :: error where "ErrDeadLetterResolved \<equiv> LetterError DeadLetterResolved_error"
abbreviation ErrUnreplayable :: error where "ErrUnreplayable \<equiv> LetterError Unreplayable_error"
abbreviation ErrNoAppliedEvidence :: error where "ErrNoAppliedEvidence \<equiv> LetterError NoAppliedEvidence_error"
abbreviation ErrNotSuperseded :: error where "ErrNotSuperseded \<equiv> LetterError NotSuperseded_error"
abbreviation ErrNotWaivable :: error where "ErrNotWaivable \<equiv> LetterError NotWaivable_error"
abbreviation ErrAlreadyWaived :: error where "ErrAlreadyWaived \<equiv> LetterError AlreadyWaived_error"

abbreviation ErrAlreadyGranted :: error where "ErrAlreadyGranted \<equiv> GrantError AlreadyGranted_error"
abbreviation ErrGrantNotFound :: error where "ErrGrantNotFound \<equiv> GrantError GrantNotFound_error"
abbreviation ErrAlreadyRevoked :: error where "ErrAlreadyRevoked \<equiv> GrantError AlreadyRevoked_error"
abbreviation ErrLastGrant :: error where "ErrLastGrant \<equiv> GrantError LastGrant_error"
abbreviation ErrGrantsExist :: error where "ErrGrantsExist \<equiv> GrantError GrantsExist_error"
abbreviation ErrBootstrapInvalid :: error where "ErrBootstrapInvalid \<equiv> GrantError BootstrapInvalid_error"

abbreviation ErrActivationInvalid :: error where "ErrActivationInvalid \<equiv> ActivationError ActivationInvalid_error"
abbreviation ErrActivationTooLong :: error where "ErrActivationTooLong \<equiv> ActivationError ActivationTooLong_error"
abbreviation ErrEmergencyGrant :: error where "ErrEmergencyGrant \<equiv> ActivationError EmergencyGrant_error"
abbreviation ErrNotHolder :: error where "ErrNotHolder \<equiv> ActivationError NotHolder_error"
abbreviation ErrActivationInForce :: error where "ErrActivationInForce \<equiv> ActivationError ActivationInForce_error"
abbreviation ErrActivationPending :: error where "ErrActivationPending \<equiv> ActivationError ActivationPending_error"
abbreviation ErrActivationNotFound :: error where "ErrActivationNotFound \<equiv> ActivationError ActivationNotFound_error"
abbreviation ErrActivationDecided :: error where "ErrActivationDecided \<equiv> ActivationError ActivationDecided_error"
abbreviation ErrSelfApproval :: error where "ErrSelfApproval \<equiv> ActivationError SelfApproval_error"
abbreviation ErrActivationNotInForce :: error where "ErrActivationNotInForce \<equiv> ActivationError ActivationNotInForce_error"

abbreviation ErrPauseInvalid :: error where "ErrPauseInvalid \<equiv> AdministratorError PauseInvalid_error"
abbreviation ErrTenantAdminInvalid :: error where "ErrTenantAdminInvalid \<equiv> AdministratorError TenantAdminInvalid_error"
abbreviation ErrAdminTenantNotFound :: error where "ErrAdminTenantNotFound \<equiv> AdministratorError AdminTenantNotFound_error"
abbreviation ErrAdminTenantNotActive :: error where "ErrAdminTenantNotActive \<equiv> AdministratorError AdminTenantNotActive_error"
abbreviation ErrAlreadyAdministrator :: error where "ErrAlreadyAdministrator \<equiv> AdministratorError AlreadyAdministrator_error"
abbreviation ErrMembershipSuspended :: error where "ErrMembershipSuspended \<equiv> AdministratorError MembershipSuspended_error"
abbreviation ErrAdminGrantNotFound :: error where "ErrAdminGrantNotFound \<equiv> AdministratorError AdminGrantNotFound_error"
abbreviation ErrAdminGrantRevoked :: error where "ErrAdminGrantRevoked \<equiv> AdministratorError AdminGrantRevoked_error"

abbreviation ErrReporterInvalid :: error where "ErrReporterInvalid \<equiv> ReviewError ReporterInvalid_error"
abbreviation ErrReporterRegistered :: error where "ErrReporterRegistered \<equiv> ReviewError ReporterRegistered_error"
abbreviation ErrReporterNotFound :: error where "ErrReporterNotFound \<equiv> ReviewError ReporterNotFound_error"
abbreviation ErrReporterRetired :: error where "ErrReporterRetired \<equiv> ReviewError ReporterRetired_error"
abbreviation ErrReporterVersion :: error where "ErrReporterVersion \<equiv> ReviewError ReporterVersion_error"
abbreviation ErrAccessQueryInvalid :: error where "ErrAccessQueryInvalid \<equiv> ReviewError AccessQueryInvalid_error"
abbreviation ErrReviewInvalid :: error where "ErrReviewInvalid \<equiv> ReviewError ReviewInvalid_error"
abbreviation ErrSelfReview :: error where "ErrSelfReview \<equiv> ReviewError SelfReview_error"

text \<open>Identifiers, with the nil identifier 0, and instants in nanoseconds, with Go's zero time 0.\<close>

type_synonym uuid = nat
type_synonym instant = int

abbreviation IsNil :: "uuid \<Rightarrow> bool" where
  "IsNil u \<equiv> u = 0"

abbreviation IsZero :: "instant \<Rightarrow> bool" where
  "IsZero t \<equiv> t = 0"

text \<open>
  PostgreSQL's \<open>bigint\<close>: an addition that leaves the range raises, it does not wrap.
\<close>

definition bigint_max :: int where
  "bigint_max = 2 ^ 63 - 1"

definition bigint_incr :: "int \<Rightarrow> error + int" where
  "bigint_incr v = (if v < bigint_max then Inr (v + 1) else Inl (ErrInternal ''bigint out of range''))"

lemma bigint_incr_Inr: "bigint_incr v = Inr v' \<longleftrightarrow> v < bigint_max \<and> v' = v + 1"
  by (auto simp: bigint_incr_def)

end
