(* ===== verification/Lifecycle.thy ===== *)
theory Lifecycle
  imports Failure
begin

text \<open>
  The contract that the lifecycle machines of the five aggregates share. Every machine is a table
  from actions to the states an action is permitted from and the state it leads to, with terminal
  states that refuse every action; the lemmas about sequences of attempted actions are proved here
  once and each machine interprets the locale with its own \<open>Resolve\<close>.
\<close>

primrec attempt :: "('a \<Rightarrow> 's \<Rightarrow> 'e + 's) \<Rightarrow> 'a list \<Rightarrow> 's \<Rightarrow> 's" where
  "attempt resolve [] s = s"
| "attempt resolve (a # as) s =
     attempt resolve as (case resolve a s of Inl e \<Rightarrow> s | Inr t \<Rightarrow> t)"

lemma attempt_append:
  "attempt resolve (as @ bs) s = attempt resolve bs (attempt resolve as s)"
  by (induction as arbitrary: s) auto

locale lifecycle =
  fixes resolve :: "'a \<Rightarrow> 's \<Rightarrow> error + 's"
    and terminal :: "'s \<Rightarrow> bool"
  assumes terminal_refuses: "terminal s \<Longrightarrow> \<exists>e. resolve a s = Inl e"
begin

lemma terminal_forever: "terminal s \<Longrightarrow> attempt resolve as s = s"
proof (induction as)
  case (Cons a as)
  then obtain e where "resolve a s = Inl e"
    using terminal_refuses by blast
  with Cons show ?case by simp
qed simp

lemma attempt_invariant:
  assumes "P s" and "\<And>a s t. P s \<Longrightarrow> resolve a s = Inr t \<Longrightarrow> P t"
  shows "P (attempt resolve as s)"
  using assms(1)
proof (induction as arbitrary: s)
  case (Cons a as)
  then have "P (case resolve a s of Inl e \<Rightarrow> s | Inr t \<Rightarrow> t)"
    using assms(2) by (auto split: sum.splits)
  then show ?case using Cons.IH by simp
qed simp

end

locale table_machine = lifecycle resolve terminal
  for resolve :: "'a \<Rightarrow> 's \<Rightarrow> error + 's" and terminal :: "'s \<Rightarrow> bool" +
  fixes rule_of :: "'a \<Rightarrow> ('s list \<times> 's) option"
  assumes resolve_table:
    "resolve a s = Inr t \<longleftrightarrow> \<not> terminal s \<and> (\<exists>from. rule_of a = Some (from, t) \<and> s \<in> set from)"
begin

lemma same_destination:
  "resolve a s = Inr t \<Longrightarrow> resolve a s' = Inr t' \<Longrightarrow> t = t'"
  by (auto simp: resolve_table)

lemma unknown_refused: "rule_of a = None \<Longrightarrow> \<exists>e. resolve a s = Inl e"
  using resolve_table [of a s] by (cases "resolve a s") auto

text \<open>Every state a machine moves to is a destination of its table.\<close>

lemma attempt_destination:
  "attempt resolve as s = s \<or> (\<exists>a from. rule_of a = Some (from, attempt resolve as s))"
proof (rule attempt_invariant [of "\<lambda>t. t = s \<or> (\<exists>a from. rule_of a = Some (from, t))"])
  show "s = s \<or> (\<exists>a from. rule_of a = Some (from, s))" by simp
next
  fix a u t
  assume "resolve a u = Inr t"
  then show "t = s \<or> (\<exists>a from. rule_of a = Some (from, t))"
    by (auto simp: resolve_table)
qed

end

end
