(* ===== verification/Tenant_Machine.thy ===== *)
theory Tenant_Machine
  imports Lifecycle
begin

text \<open>
  The Tenant lifecycle of \<open>src/internal/tenant/state.go\<close>: states, actions, the transition table with
  its security-version column, the event types and the dispatch lane derived from them.

  A Go \<open>State\<close> or \<open>Action\<close> is a string, so each datatype has a constructor for the values outside
  the declared set. \<open>event.ParseType\<close> belongs to the shared platform module: whether it accepts a
  name is the parameter \<open>parses\<close>, and the type it returns is the name.
\<close>

section \<open>States and actions\<close>

datatype tenant_state =
    TenantRequested | TenantProvisioning | TenantActive | TenantFailed
  | TenantSuspended | TenantOffboarding | TenantRetired
  | TenantStateOther string

fun tenant_Valid :: "tenant_state \<Rightarrow> bool" where
  "tenant_Valid (TenantStateOther _) = False"
| "tenant_Valid _ = True"

datatype tenant_action =
    TenantProvision | TenantFail | TenantActivate | TenantSuspend | TenantRestore
  | TenantBeginOffboarding | TenantRetire
  | TenantCancelOffboardingToActive | TenantCancelOffboardingToSuspended
  | TenantActionOther string

section \<open>The transition table\<close>

record tenant_rule =
  r_from :: "tenant_state list"
  r_to :: tenant_state
  r_securityVersion :: bool
  r_stamp :: string
  r_clear :: string

fun tenant_transitions :: "tenant_action \<Rightarrow> tenant_rule option" where
  "tenant_transitions TenantProvision = Some
     \<lparr>r_from = [TenantRequested, TenantFailed], r_to = TenantProvisioning,
      r_securityVersion = False, r_stamp = '''', r_clear = ''''\<rparr>"
| "tenant_transitions TenantFail = Some
     \<lparr>r_from = [TenantProvisioning], r_to = TenantFailed,
      r_securityVersion = False, r_stamp = '''', r_clear = ''''\<rparr>"
| "tenant_transitions TenantActivate = Some
     \<lparr>r_from = [TenantProvisioning], r_to = TenantActive,
      r_securityVersion = False, r_stamp = ''activated_at'', r_clear = ''''\<rparr>"
| "tenant_transitions TenantSuspend = Some
     \<lparr>r_from = [TenantActive], r_to = TenantSuspended,
      r_securityVersion = True, r_stamp = ''suspended_at'', r_clear = ''''\<rparr>"
| "tenant_transitions TenantRestore = Some
     \<lparr>r_from = [TenantSuspended], r_to = TenantActive,
      r_securityVersion = True, r_stamp = '''', r_clear = ''suspended_at''\<rparr>"
| "tenant_transitions TenantBeginOffboarding = Some
     \<lparr>r_from = [TenantActive, TenantSuspended], r_to = TenantOffboarding,
      r_securityVersion = True, r_stamp = ''offboarding_started_at'', r_clear = ''''\<rparr>"
| "tenant_transitions TenantRetire = Some
     \<lparr>r_from = [TenantOffboarding], r_to = TenantRetired,
      r_securityVersion = True, r_stamp = ''retired_at'', r_clear = ''''\<rparr>"
| "tenant_transitions TenantCancelOffboardingToActive = Some
     \<lparr>r_from = [TenantOffboarding], r_to = TenantActive,
      r_securityVersion = True, r_stamp = '''', r_clear = ''offboarding_started_at''\<rparr>"
| "tenant_transitions TenantCancelOffboardingToSuspended = Some
     \<lparr>r_from = [TenantOffboarding], r_to = TenantSuspended,
      r_securityVersion = True, r_stamp = '''', r_clear = ''offboarding_started_at''\<rparr>"
| "tenant_transitions (TenantActionOther _) = None"

definition tenant_Resolve :: "tenant_action \<Rightarrow> tenant_state \<Rightarrow> error + tenant_state" where
  "tenant_Resolve action current =
     (case tenant_transitions action of
        None \<Rightarrow> Inl (ErrUnknownAction PkgTenant)
      | Some r \<Rightarrow>
          if current = TenantRetired then Inl (ErrRetired PkgTenant)
          else if current \<in> set (r_from r) then Inr (r_to r)
          else Inl (ErrTransitionRefused PkgTenant))"

definition tenant_IncrementsSecurityVersion :: "tenant_action \<Rightarrow> bool" where
  "tenant_IncrementsSecurityVersion action =
     (case tenant_transitions action of None \<Rightarrow> False | Some r \<Rightarrow> r_securityVersion r)"

section \<open>Events\<close>

fun tenant_eventTypes :: "tenant_action \<Rightarrow> string option" where
  "tenant_eventTypes TenantActivate = Some ''com.scnehaux.organization.tenant.lifecycle.activated''"
| "tenant_eventTypes TenantSuspend = Some ''com.scnehaux.organization.tenant.security.suspended''"
| "tenant_eventTypes TenantRestore = Some ''com.scnehaux.organization.tenant.security.restored''"
| "tenant_eventTypes TenantBeginOffboarding =
     Some ''com.scnehaux.organization.tenant.security.suspended''"
| "tenant_eventTypes TenantRetire = Some ''com.scnehaux.organization.tenant.lifecycle.retired''"
| "tenant_eventTypes TenantCancelOffboardingToActive =
     Some ''com.scnehaux.organization.tenant.security.restored''"
| "tenant_eventTypes TenantCancelOffboardingToSuspended =
     Some ''com.scnehaux.organization.tenant.security.suspended''"
| "tenant_eventTypes _ = None"

fun tenant_silentActions :: "tenant_action \<Rightarrow> bool" where
  "tenant_silentActions TenantProvision = True"
| "tenant_silentActions TenantFail = True"
| "tenant_silentActions _ = False"

text \<open>\<open>EventType\<close> answers the validated type, or \<open>None\<close> for an action that is silent by design.\<close>

definition tenant_EventType :: "(string \<Rightarrow> bool) \<Rightarrow> tenant_action \<Rightarrow> error + string option" where
  "tenant_EventType parses action =
     (if tenant_silentActions action then Inr None
      else case tenant_eventTypes action of
             None \<Rightarrow> Inl (ErrUnknownAction PkgTenant)
           | Some name \<Rightarrow>
               if parses name then Inr (Some name) else Inl (ErrInternal ''event.ParseType''))"

fun splitDots_loop :: "string \<Rightarrow> string list \<Rightarrow> string \<Rightarrow> string list" where
  "splitDots_loop [] parts current = parts @ [current]"
| "splitDots_loop (r # rest) parts current =
     (if r = CHR ''.'' then splitDots_loop rest (parts @ [current]) []
      else splitDots_loop rest parts (current @ [r]))"

definition splitDots :: "string \<Rightarrow> string list" where
  "splitDots value = (if value = [] then [] else splitDots_loop value [] [])"

definition classification :: "string \<Rightarrow> string" where
  "classification eventType =
     (let segments = splitDots eventType in if length segments < 5 then [] else segments ! 4)"

definition tenant_Priority :: "tenant_action \<Rightarrow> bool" where
  "tenant_Priority action =
     (classification (case tenant_eventTypes action of None \<Rightarrow> [] | Some t \<Rightarrow> t) = ''security'')"

section \<open>The machine satisfies the lifecycle contract\<close>

definition tenant_rule_of :: "tenant_action \<Rightarrow> (tenant_state list \<times> tenant_state) option" where
  "tenant_rule_of action = map_option (\<lambda>r. (r_from r, r_to r)) (tenant_transitions action)"

interpretation tenant_machine: table_machine tenant_Resolve "\<lambda>s. s = TenantRetired" tenant_rule_of
  by unfold_locales
    (auto simp: tenant_Resolve_def tenant_rule_of_def split: option.splits if_splits)

lemma tenant_Resolve_iff:
  "tenant_Resolve a s = Inr t \<longleftrightarrow>
     (a, s, t) \<in> {(TenantProvision, TenantRequested, TenantProvisioning),
       (TenantProvision, TenantFailed, TenantProvisioning),
       (TenantFail, TenantProvisioning, TenantFailed),
       (TenantActivate, TenantProvisioning, TenantActive),
       (TenantSuspend, TenantActive, TenantSuspended),
       (TenantRestore, TenantSuspended, TenantActive),
       (TenantBeginOffboarding, TenantActive, TenantOffboarding),
       (TenantBeginOffboarding, TenantSuspended, TenantOffboarding),
       (TenantRetire, TenantOffboarding, TenantRetired),
       (TenantCancelOffboardingToActive, TenantOffboarding, TenantActive),
       (TenantCancelOffboardingToSuspended, TenantOffboarding, TenantSuspended)}"
  by (cases a) (auto simp: tenant_Resolve_def)

lemma tenant_Resolve_valid: "tenant_Resolve a s = Inr t \<Longrightarrow> tenant_Valid t"
  by (auto simp: tenant_Resolve_iff)

section \<open>Splitting an event type\<close>

fun join_dots :: "string list \<Rightarrow> string" where
  "join_dots [] = []"
| "join_dots [p] = p"
| "join_dots (p # q # ps) = p @ ''.'' @ join_dots (q # ps)"

lemma join_dots_snoc:
  "join_dots (ps @ [p]) = (if ps = [] then p else join_dots ps @ ''.'' @ p)"
  by (induction ps rule: join_dots.induct) auto

lemma join_dots_snoc_char: "join_dots (ps @ [p @ [c]]) = join_dots (ps @ [p]) @ [c]"
  by (simp add: join_dots_snoc)

lemma splitDots_loop_join:
  "join_dots (splitDots_loop s parts current) = join_dots (parts @ [current]) @ s"
proof (induction s arbitrary: parts current)
  case (Cons c s)
  have "join_dots ((parts @ [current]) @ [[]]) = join_dots (parts @ [current]) @ ''.''"
    by (subst join_dots_snoc) simp
  with Cons show ?case by (simp add: join_dots_snoc_char)
qed simp

lemma splitDots_loop_segments:
  "list_all (\<lambda>p. CHR ''.'' \<notin> set p) (current # parts) \<Longrightarrow>
   list_all (\<lambda>p. CHR ''.'' \<notin> set p) (splitDots_loop s parts current)"
proof (induction s arbitrary: parts current)
  case (Cons c s)
  show ?case
  proof (cases "c = CHR ''.''")
    case True
    have "list_all (\<lambda>p. CHR ''.'' \<notin> set p) (splitDots_loop s (parts @ [current]) [])"
      by (rule Cons.IH) (use Cons.prems in simp)
    with True show ?thesis by simp
  next
    case False
    have "list_all (\<lambda>p. CHR ''.'' \<notin> set p) (splitDots_loop s parts (current @ [c]))"
      by (rule Cons.IH) (use Cons.prems False in simp)
    with False show ?thesis by simp
  qed
qed simp

text \<open>
  Splitting loses nothing and no segment holds a dot, so a type's fifth segment is its class.
\<close>

lemma splitDots_join: "join_dots (splitDots s) = s"
  by (simp add: splitDots_def splitDots_loop_join)

lemma splitDots_segments: "p \<in> set (splitDots s) \<Longrightarrow> CHR ''.'' \<notin> set p"
  using splitDots_loop_segments [of "[]" "[]" s]
  by (auto simp: splitDots_def list_all_iff split: if_splits)

end
