(* ===== verification/Membership_Machine.thy ===== *)
theory Membership_Machine
  imports Lifecycle
begin

text \<open>
  The Membership lifecycle of \<open>src/internal/membership/state.go\<close>. A grant has no source state: it
  creates the Membership, and \<open>Resolve\<close> permits it whatever state it is asked about.
\<close>

datatype membership_state =
    MembershipActive | MembershipSuspended | MembershipRevoked | MembershipStateOther string

fun membership_Valid :: "membership_state \<Rightarrow> bool" where
  "membership_Valid (MembershipStateOther _) = False"
| "membership_Valid _ = True"

datatype membership_action =
    MembershipGrant | MembershipSuspend | MembershipRevoke | MembershipRestore
  | MembershipActionOther string

record membership_rule =
  mr_from :: "membership_state list"
  mr_to :: membership_state
  mr_priority :: bool

fun membership_transitions :: "membership_action \<Rightarrow> membership_rule option" where
  "membership_transitions MembershipGrant = Some
     \<lparr>mr_from = [], mr_to = MembershipActive, mr_priority = False\<rparr>"
| "membership_transitions MembershipSuspend = Some
     \<lparr>mr_from = [MembershipActive], mr_to = MembershipSuspended, mr_priority = True\<rparr>"
| "membership_transitions MembershipRevoke = Some
     \<lparr>mr_from = [MembershipActive, MembershipSuspended], mr_to = MembershipRevoked, mr_priority = True\<rparr>"
| "membership_transitions MembershipRestore = Some
     \<lparr>mr_from = [MembershipSuspended], mr_to = MembershipActive, mr_priority = False\<rparr>"
| "membership_transitions (MembershipActionOther _) = None"

definition membership_Resolve ::
    "membership_action \<Rightarrow> membership_state \<Rightarrow> error + (membership_state \<times> bool)" where
  "membership_Resolve action current =
     (case membership_transitions action of
        None \<Rightarrow> Inl (ErrUnknownAction PkgMembership)
      | Some rule \<Rightarrow>
          if action = MembershipGrant then Inr (mr_to rule, mr_priority rule)
          else if current = MembershipRevoked then Inl ErrRevoked
          else if current \<in> set (mr_from rule) then Inr (mr_to rule, mr_priority rule)
          else Inl (ErrTransitionRefused PkgMembership))"

definition membership_Priority :: "membership_action \<Rightarrow> bool" where
  "membership_Priority action =
     (case membership_transitions action of None \<Rightarrow> False | Some rule \<Rightarrow> mr_priority rule)"

fun membership_eventTypes :: "membership_action \<Rightarrow> string option" where
  "membership_eventTypes MembershipGrant =
     Some ''com.scnehaux.organization.membership.lifecycle.granted''"
| "membership_eventTypes MembershipRestore =
     Some ''com.scnehaux.organization.membership.lifecycle.restored''"
| "membership_eventTypes MembershipSuspend =
     Some ''com.scnehaux.organization.membership.security.suspended''"
| "membership_eventTypes MembershipRevoke =
     Some ''com.scnehaux.organization.membership.security.revoked''"
| "membership_eventTypes (MembershipActionOther _) = None"

definition membership_EventType :: "(string \<Rightarrow> bool) \<Rightarrow> membership_action \<Rightarrow> error + string" where
  "membership_EventType parses action =
     (case membership_eventTypes action of
        None \<Rightarrow> Inl (ErrUnknownAction PkgMembership)
      | Some name \<Rightarrow> if parses name then Inr name else Inl (ErrInternal ''event.ParseType''))"

text \<open>
  The lifecycle contract is about the Memberships that exist, so it is stated for the state an
  action on one leads to: a grant creates another row and moves none.
\<close>

definition membership_move :: "membership_action \<Rightarrow> membership_state \<Rightarrow> error + membership_state" where
  "membership_move action current =
     (if action = MembershipGrant then Inl (ErrTransitionRefused PkgMembership)
      else case membership_Resolve action current of Inl e \<Rightarrow> Inl e | Inr (to, _) \<Rightarrow> Inr to)"

definition membership_rule_of ::
    "membership_action \<Rightarrow> (membership_state list \<times> membership_state) option" where
  "membership_rule_of action = map_option (\<lambda>r. (mr_from r, mr_to r)) (membership_transitions action)"

interpretation membership_machine:
  table_machine membership_move "\<lambda>s. s = MembershipRevoked" membership_rule_of
  by unfold_locales
    (auto simp: membership_move_def membership_Resolve_def membership_rule_of_def
       split: option.splits if_splits sum.splits prod.splits)

lemma membership_Resolve_iff:
  "membership_Resolve a s = Inr (t, p) \<longleftrightarrow>
     (a = MembershipGrant \<and> t = MembershipActive \<and> \<not> p) \<or>
     (a, s, t, p) \<in> {(MembershipSuspend, MembershipActive, MembershipSuspended, True),
       (MembershipRevoke, MembershipActive, MembershipRevoked, True),
       (MembershipRevoke, MembershipSuspended, MembershipRevoked, True),
       (MembershipRestore, MembershipSuspended, MembershipActive, False)}"
  by (cases a) (auto simp: membership_Resolve_def)

lemma membership_Resolve_priority:
  "membership_Resolve a s = Inr (t, p) \<Longrightarrow> p = membership_Priority a"
  by (auto simp: membership_Resolve_iff membership_Priority_def)

end
