(* ===== verification/Registry_Machines.thy ===== *)
theory Registry_Machines
  imports Lifecycle
begin

text \<open>
  The Organization registry and Workspace lifecycles, \<open>src/internal/organization/organization.go\<close>
  and \<open>src/internal/workspace/workspace.go\<close>.
\<close>

section \<open>Organization\<close>

datatype classification_kind =
    ClassificationProvider | ClassificationCustomer | ClassificationPartner
  | ClassificationPublisher | ClassificationOther string

fun classification_Valid :: "classification_kind \<Rightarrow> bool" where
  "classification_Valid (ClassificationOther _) = False"
| "classification_Valid _ = True"

datatype org_state = OrgActive | OrgSuspended | OrgRetired | OrgStateOther string

fun org_Valid :: "org_state \<Rightarrow> bool" where
  "org_Valid (OrgStateOther _) = False"
| "org_Valid _ = True"

datatype org_action = OrgSuspend | OrgRestore | OrgRetire | OrgActionOther string

fun org_transitions :: "org_action \<Rightarrow> (org_state list \<times> org_state) option" where
  "org_transitions OrgSuspend = Some ([OrgActive], OrgSuspended)"
| "org_transitions OrgRestore = Some ([OrgSuspended], OrgActive)"
| "org_transitions OrgRetire = Some ([OrgActive, OrgSuspended], OrgRetired)"
| "org_transitions (OrgActionOther _) = None"

definition org_Resolve :: "org_action \<Rightarrow> org_state \<Rightarrow> error + org_state" where
  "org_Resolve action current =
     (case org_transitions action of
        None \<Rightarrow> Inl (ErrUnknownAction PkgOrganization)
      | Some (from, to) \<Rightarrow>
          if current = OrgRetired then Inl (ErrRetired PkgOrganization)
          else if current \<in> set from then Inr to
          else Inl (ErrTransitionRefused PkgOrganization))"

fun org_eventTypes :: "org_action \<Rightarrow> string option" where
  "org_eventTypes OrgSuspend = Some ''com.scnehaux.organization.organization.registry.suspended''"
| "org_eventTypes OrgRestore = Some ''com.scnehaux.organization.organization.registry.restored''"
| "org_eventTypes OrgRetire = Some ''com.scnehaux.organization.organization.registry.retired''"
| "org_eventTypes (OrgActionOther _) = None"

definition org_EventType :: "(string \<Rightarrow> bool) \<Rightarrow> org_action \<Rightarrow> error + string" where
  "org_EventType parses action =
     (case org_eventTypes action of
        None \<Rightarrow> Inl (ErrUnknownAction PkgOrganization)
      | Some name \<Rightarrow> if parses name then Inr name else Inl (ErrInternal ''event.ParseType''))"

interpretation org_machine: table_machine org_Resolve "\<lambda>s. s = OrgRetired" org_transitions
  by unfold_locales (auto simp: org_Resolve_def split: option.splits if_splits)

section \<open>Workspace\<close>

datatype ws_state = WsActive | WsArchived | WsRetired | WsStateOther string

fun ws_Valid :: "ws_state \<Rightarrow> bool" where
  "ws_Valid (WsStateOther _) = False"
| "ws_Valid _ = True"

datatype ws_action = WsArchive | WsRestore | WsRetire | WsActionOther string

fun ws_transitions :: "ws_action \<Rightarrow> (ws_state list \<times> ws_state) option" where
  "ws_transitions WsArchive = Some ([WsActive], WsArchived)"
| "ws_transitions WsRestore = Some ([WsArchived], WsActive)"
| "ws_transitions WsRetire = Some ([WsArchived], WsRetired)"
| "ws_transitions (WsActionOther _) = None"

definition ws_Resolve :: "ws_action \<Rightarrow> ws_state \<Rightarrow> error + ws_state" where
  "ws_Resolve action current =
     (case ws_transitions action of
        None \<Rightarrow> Inl (ErrUnknownAction PkgWorkspace)
      | Some (from, to) \<Rightarrow>
          if current = WsRetired then Inl (ErrRetired PkgWorkspace)
          else if current \<in> set from then Inr to
          else Inl (ErrTransitionRefused PkgWorkspace))"

fun ws_eventTypes :: "ws_action \<Rightarrow> string option" where
  "ws_eventTypes WsArchive = Some ''com.scnehaux.organization.workspace.lifecycle.archived''"
| "ws_eventTypes WsRestore = Some ''com.scnehaux.organization.workspace.lifecycle.restored''"
| "ws_eventTypes WsRetire = Some ''com.scnehaux.organization.workspace.lifecycle.retired''"
| "ws_eventTypes (WsActionOther _) = None"

definition ws_EventType :: "(string \<Rightarrow> bool) \<Rightarrow> ws_action \<Rightarrow> error + string" where
  "ws_EventType parses action =
     (case ws_eventTypes action of
        None \<Rightarrow> Inl (ErrUnknownAction PkgWorkspace)
      | Some name \<Rightarrow> if parses name then Inr name else Inl (ErrInternal ''event.ParseType''))"

interpretation ws_machine: table_machine ws_Resolve "\<lambda>s. s = WsRetired" ws_transitions
  by unfold_locales (auto simp: ws_Resolve_def split: option.splits if_splits)

end
