(* ===== verification/Process_Machines.thy ===== *)
theory Process_Machines
  imports Lifecycle
begin

text \<open>
  The invitation lifecycle (\<open>src/internal/invitation/state.go\<close>), and the offboarding stages and
  obligation states (\<open>src/internal/offboarding/state.go\<close>).
\<close>

section \<open>Invitation\<close>

datatype invitation_state =
    InvitationPending | InvitationAccepted | InvitationExpired | InvitationRevoked
  | InvitationStateOther string

fun invitation_Valid :: "invitation_state \<Rightarrow> bool" where
  "invitation_Valid (InvitationStateOther _) = False"
| "invitation_Valid _ = True"

definition invitation_Outstanding :: "invitation_state \<Rightarrow> bool" where
  "invitation_Outstanding s \<longleftrightarrow> s = InvitationPending"

datatype invitation_action =
    InvitationAccept | InvitationRevoke | InvitationExpire | InvitationActionOther string

fun invitation_transitions ::
    "invitation_action \<Rightarrow> (invitation_state list \<times> invitation_state) option" where
  "invitation_transitions InvitationAccept = Some ([InvitationPending], InvitationAccepted)"
| "invitation_transitions InvitationRevoke = Some ([InvitationPending], InvitationRevoked)"
| "invitation_transitions InvitationExpire = Some ([InvitationPending], InvitationExpired)"
| "invitation_transitions (InvitationActionOther _) = None"

definition invitation_Resolve :: "invitation_action \<Rightarrow> invitation_state \<Rightarrow> error + invitation_state" where
  "invitation_Resolve action current =
     (case invitation_transitions action of
        None \<Rightarrow> Inl (ErrUnknownAction PkgInvitation)
      | Some (from, to) \<Rightarrow>
          if \<not> invitation_Outstanding current then Inl ErrSettled
          else if current \<in> set from then Inr to
          else Inl (ErrTransitionRefused PkgInvitation))"

fun invitation_eventTypes :: "invitation_action \<Rightarrow> string option" where
  "invitation_eventTypes InvitationAccept =
     Some ''com.scnehaux.organization.membership.invitation.accepted''"
| "invitation_eventTypes InvitationRevoke =
     Some ''com.scnehaux.organization.membership.invitation.revoked''"
| "invitation_eventTypes InvitationExpire =
     Some ''com.scnehaux.organization.membership.invitation.expired''"
| "invitation_eventTypes (InvitationActionOther _) = None"

definition invitation_EventType :: "(string \<Rightarrow> bool) \<Rightarrow> invitation_action \<Rightarrow> error + string" where
  "invitation_EventType parses action =
     (case invitation_eventTypes action of
        None \<Rightarrow> Inl (ErrUnknownAction PkgInvitation)
      | Some name \<Rightarrow> if parses name then Inr name else Inl (ErrInternal ''event.ParseType''))"

interpretation invitation_machine:
  table_machine invitation_Resolve "\<lambda>s. \<not> invitation_Outstanding s" invitation_transitions
  by unfold_locales (auto simp: invitation_Resolve_def split: option.splits if_splits)

section \<open>Offboarding stages\<close>

datatype stage =
    StageFreeze | StageObligations | StageRelease | StageRetired | StageCancelled | StageOther string

fun stage_Valid :: "stage \<Rightarrow> bool" where
  "stage_Valid (StageOther _) = False"
| "stage_Valid _ = True"

definition stage_Cancellable :: "stage \<Rightarrow> bool" where
  "stage_Cancellable s \<longleftrightarrow> s = StageFreeze \<or> s = StageObligations"

text \<open>\<open>Next\<close> reads the \<open>stageOrder\<close> table; \<open>None\<close> is a terminal stage.\<close>

fun stage_Next :: "stage \<Rightarrow> stage option" where
  "stage_Next StageFreeze = Some StageObligations"
| "stage_Next StageObligations = Some StageRelease"
| "stage_Next StageRelease = Some StageRetired"
| "stage_Next _ = None"

text \<open>Every advance climbs, so a stage once left is never entered again.\<close>

fun stage_rank :: "stage \<Rightarrow> nat" where
  "stage_rank StageFreeze = 0"
| "stage_rank StageObligations = 1"
| "stage_rank StageRelease = 2"
| "stage_rank _ = 3"

lemma stage_Next_rank: "stage_Next s = Some t \<Longrightarrow> stage_rank t = Suc (stage_rank s)"
  by (cases s) auto

section \<open>Obligations\<close>

datatype obligation_state =
    ObligationOpen | ObligationCompleted | ObligationWaived | ObligationFailed
  | ObligationCancelled | ObligationStateOther string

fun obligation_Valid :: "obligation_state \<Rightarrow> bool" where
  "obligation_Valid (ObligationStateOther _) = False"
| "obligation_Valid _ = True"

definition obligation_Resolved :: "obligation_state \<Rightarrow> bool" where
  "obligation_Resolved o' \<longleftrightarrow> o' = ObligationCompleted \<or> o' = ObligationWaived"

section \<open>Offboarding events\<close>

definition offboarding_eventTypes :: "string \<Rightarrow> string option" where
  "offboarding_eventTypes name = map_of
     [(''started'', ''com.scnehaux.organization.tenant.offboarding.started''),
      (''frozen'', ''com.scnehaux.organization.tenant.offboarding.frozen''),
      (''obligation-raised'', ''com.scnehaux.organization.tenant.offboarding.obligation-raised''),
      (''released'', ''com.scnehaux.organization.tenant.offboarding.released''),
      (''cancelled'', ''com.scnehaux.organization.tenant.offboarding.cancelled'')] name"

definition offboarding_EventType :: "(string \<Rightarrow> bool) \<Rightarrow> string \<Rightarrow> error + string" where
  "offboarding_EventType parses name =
     (case offboarding_eventTypes name of
        None \<Rightarrow> Inl (ErrInternal ''not a published event of this process'')
      | Some raw \<Rightarrow> if parses raw then Inr raw else Inl (ErrInternal ''event.ParseType''))"

fun stageEventName :: "stage \<Rightarrow> string option" where
  "stageEventName StageObligations = Some ''frozen''"
| "stageEventName StageRelease = Some ''released''"
| "stageEventName _ = None"

end
