(* ===== verification/World.thy ===== *)
theory World
  imports Tenant_Machine Membership_Machine Registry_Machines Process_Machines
begin

text \<open>
  The database the services share, one record per table of \<open>src/schema.hcl\<close> they read or write,
  and the surroundings a request runs in.

  A row is the Go struct the package documents as that row; a NULL identifier or instant of a column
  that Go reads into a plain value is the nil identifier or the zero time, as \<open>scanMembership\<close> and
  its siblings read it. \<open>updated_at\<close> is housekeeping no code reads and is left out.

  Code of the shared platform module is not part of this repository. Its calls are parameters of the
  environment record \<open>env\<close>: which identifiers are minted, whether an event type parses, whether an
  outbox append or a commit succeeds, what an idempotency claim answers. What the services hand to it
  is recorded: \<open>outbox\<close> holds the appended messages and \<open>idem_log\<close> the claims and completions, in the
  transaction that made the call.
\<close>

section \<open>Rows\<close>

datatype isolation_profile =
    ProfilePooled | ProfileBridge | ProfileSilo | ProfileRegional | ProfileOther string

fun profile_Valid :: "isolation_profile \<Rightarrow> bool" where
  "profile_Valid (ProfileOther _) = False"
| "profile_Valid _ = True"

record tenant_record =
  TenantID :: uuid
  OrganizationID :: uuid
  DisplayName :: string
  Status :: tenant_state
  IsolationProfile :: isolation_profile
  ResidencyRegion :: string
  Version :: int
  SecurityVersion :: int
  ActivatedAt :: "instant option"
  SuspendedAt :: "instant option"
  OffboardingStartedAt :: "instant option"
  RetiredAt :: "instant option"
  CreatedAt :: instant

datatype request_state =
    RequestRequested | RequestRealized | RequestFailed | RequestUnresolved | RequestOther string

fun request_Valid :: "request_state \<Rightarrow> bool" where
  "request_Valid (RequestOther _) = False"
| "request_Valid _ = True"

datatype operation = OpProvision | OpDeprovision

text \<open>
  \<open>desired_profile\<close> is a JSON document; the statements read its \<open>operation\<close> and \<open>offboarding_id\<close>
  members, and write \<open>isolation_profile\<close> and \<open>residency_region\<close>. An absent member is \<open>None\<close>.
\<close>

record provisioning_request =
  pr_request :: uuid
  pr_tenant :: uuid
  pr_operation :: "operation option"
  pr_isolation :: "isolation_profile option"
  pr_region :: "string option"
  pr_offboarding :: "uuid option"
  pr_state :: request_state
  pr_correlation :: uuid
  pr_requested_at :: instant
  pr_resolved_at :: "instant option"
  pr_detail :: "string option"

record tenant_event =
  te_event :: uuid
  te_tenant :: uuid
  te_securityVersion :: int
  te_type :: string

record membership =
  m_id :: uuid
  m_principal :: uuid
  m_tenant :: uuid
  m_workspace :: uuid
  m_subject :: string
  m_status :: membership_state
  m_version :: int
  m_validFrom :: instant
  m_validUntil :: instant
  m_provenance :: string

record membership_event =
  me_event :: uuid
  me_membership :: uuid
  me_tenant :: uuid
  me_version :: int
  me_type :: string
  me_actor :: uuid
  me_correlation :: uuid
  me_reason :: string
  me_recorded_at :: instant

record organization =
  o_id :: uuid
  o_name :: string
  o_class :: classification_kind
  o_status :: org_state
  o_parent :: "uuid option"
  o_version :: int
  o_created :: instant

record workspace =
  ws_id :: uuid
  ws_tenant :: uuid
  ws_name :: string
  ws_type :: string
  ws_status :: ws_state
  ws_version :: int
  ws_created :: instant

record offboarding =
  ob_id :: uuid
  ob_tenant :: uuid
  ob_stage :: stage
  ob_initiatedBy :: uuid
  ob_reason :: string
  ob_legalHold :: bool
  ob_correlation :: uuid
  ob_startedAt :: instant
  ob_frozenAt :: "instant option"
  ob_releasedAt :: "instant option"
  ob_retiredAt :: "instant option"
  ob_priorStatus :: "tenant_state option"
  ob_cancelledBy :: "uuid option"
  ob_cancelReason :: "string option"
  ob_cancelledAt :: "instant option"

record obligation =
  bl_id :: uuid
  bl_offboarding :: uuid
  bl_tenant :: uuid
  bl_domain :: string
  bl_type :: string
  bl_state :: obligation_state
  bl_dueAt :: "instant option"
  bl_completedAt :: "instant option"
  bl_detail :: string
  bl_resolvedBy :: "uuid option"
  bl_resolvedAt :: "instant option"

record freeze_row =
  fz_offboarding :: uuid
  fz_tenant :: uuid
  fz_membership :: uuid
  fz_restoredAt :: "instant option"

record invitation =
  iv_id :: uuid
  iv_tenant :: uuid
  iv_workspace :: "uuid option"
  iv_target :: string
  iv_targetHash :: string
  iv_tokenHash :: string
  iv_subject :: string
  iv_invitedBy :: uuid
  iv_reason :: string
  iv_state :: invitation_state
  iv_correlation :: uuid
  iv_principal :: "uuid option"
  iv_expiresAt :: instant
  iv_createdAt :: instant
  iv_acceptedAt :: "instant option"
  iv_revokedAt :: "instant option"

record problem =
  pb_type :: string
  pb_title :: string
  pb_status :: int
  pb_detail :: string

datatype batch_state = BatchPreviewed | BatchExecuting | BatchExecuted | BatchExpired | BatchStateOther string

datatype item_outcome =
    OutcomeSucceeded instant uuid int
  | OutcomeFailed problem
  | OutcomeNotAttempted string

record batch_item =
  bi_batch :: uuid
  bi_tenant :: uuid
  bi_position :: nat
  bi_membership :: uuid
  bi_principal :: "uuid option"
  bi_current :: "membership_state option"
  bi_versionRead :: "int option"
  bi_resulting :: "membership_state option"
  bi_refusal :: "problem option"
  bi_outcome :: "item_outcome option"

record batch_row =
  ba_id :: uuid
  ba_tenant :: uuid
  ba_action :: membership_action
  ba_state :: batch_state
  ba_reason :: "string option"
  ba_correlation :: uuid
  ba_continues :: "uuid option"
  ba_createdBy :: uuid
  ba_createdAt :: instant
  ba_expiresAt :: instant
  ba_wouldChange :: nat
  ba_wouldNotChange :: nat
  ba_failOnErrors :: "int option"
  ba_executedBy :: "uuid option"
  ba_executedAt :: "instant option"
  ba_completedAt :: "instant option"
  ba_heartbeatAt :: "instant option"
  ba_resumedBy :: "uuid option"
  ba_resumedAt :: "instant option"
  ba_lease :: "uuid option"

section \<open>Caller records\<close>

text \<open>
  What this service has recorded about the callers it admits: provider grants and their activations,
  tenant administration grants, reporters, projection consumers, the pauses of Tenant administration and
  the reviews of privileged access; and beside them the platform's tables of what a consumer is owed and
  has acknowledged. A column Go reads through \<open>coalesce\<close> is the value it reads.
\<close>

datatype grant_kind = KindEligible | KindEmergency | KindOther string

datatype decision = DecisionApproved | DecisionDenied | DecisionLapsed | DecisionOther string

record provider_grant =
  pg_id :: uuid
  pg_principal :: uuid
  pg_scope :: string
  pg_kind :: grant_kind
  pg_grantedBy :: "uuid option"
  pg_operator :: string
  pg_reason :: string
  pg_grantedAt :: instant
  pg_revokedAt :: "instant option"
  pg_revokedBy :: "uuid option"
  pg_revokeReason :: string
  pg_version :: int

record activation =
  act_id :: uuid
  act_grant :: uuid
  act_principal :: uuid
  act_scope :: string
  act_reason :: string
  act_duration :: int
  act_approval :: bool
  act_requestedAt :: instant
  act_decidedBy :: "uuid option"
  act_decision :: "decision option"
  act_decisionReason :: string
  act_decidedAt :: "instant option"
  act_endsAt :: "instant option"
  act_endedBy :: "uuid option"
  act_endReason :: string
  act_endedAt :: "instant option"

record grant_event =
  ge_event :: uuid
  ge_grant :: uuid
  ge_version :: int
  ge_type :: string

record emergency_use =
  eu_grant :: uuid
  eu_firstUsed :: instant
  eu_lastUsed :: instant
  eu_uses :: int

record pause =
  pz_id :: uuid
  pz_paused :: bool
  pz_reason :: string
  pz_actor :: "uuid option"
  pz_correlation :: "uuid option"
  pz_recordedAt :: "instant option"

record reporter =
  rp_id :: uuid
  rp_principal :: uuid
  rp_reports :: string
  rp_purpose :: string
  rp_version :: int
  rp_registeredAt :: instant
  rp_registeredBy :: uuid
  rp_registerReason :: string
  rp_retiredAt :: "instant option"
  rp_retiredBy :: "uuid option"
  rp_retireReason :: string

record admin_grant =
  ag_id :: uuid
  ag_tenant :: uuid
  ag_principal :: uuid
  ag_grantedBy :: uuid
  ag_reason :: string
  ag_grantedAt :: instant
  ag_revokedAt :: "instant option"
  ag_revokedBy :: "uuid option"
  ag_revokeReason :: string

text \<open>
  A non-negative \<open>float64\<close> is its bit pattern: the patterns are ordered as the numbers are.
\<close>

type_synonym float64 = nat

datatype stale_behavior = StaleUseWithMarker | StaleRevalidate | StaleFailClosed | StaleOther string

record consumer =
  co_id :: string
  co_principal :: uuid
  co_projectionVersion :: string
  co_maxAcceptedAge :: int
  co_staleBehavior :: stale_behavior
  co_registeredAt :: instant
  co_retiredAt :: "instant option"
  co_snapshotMark :: "int option"
  co_reportedMark :: "int option"
  co_reportedAt :: "instant option"
  co_reconciledAt :: "instant option"
  co_reconciledMark :: "int option"
  co_reconciledFindings :: "nat option"
  co_extraFindings :: "nat option"
  co_interval :: int
  co_reconcileRequested :: "instant option"
  co_calls :: int
  co_requests :: "int option"
  co_ratio :: "float64 option"

datatype review_outcome = OutcomeAppropriate | OutcomeEscalated | OutcomeOther string

record review =
  rv_id :: uuid
  rv_actor :: uuid
  rv_from :: instant
  rv_to :: instant
  rv_outcome :: review_outcome
  rv_statement :: string
  rv_accesses :: nat
  rv_emergency :: nat
  rv_reviewedBy :: uuid
  rv_reviewedAt :: instant
  rv_correlation :: uuid

text \<open>
  The tables of the platform module that this service reads: subscriptions, deliveries owed, receipts
  and dead letters. The module and its dispatcher write them; this service writes the resolution and waiver
  columns of a dead letter. An envelope is the text the row retains.
\<close>

record subscription =
  su_consumer :: string
  su_types :: "string list"
  su_retiredAt :: "instant option"

record delivery =
  dv_event :: uuid
  dv_consumer :: string
  dv_sequence :: int
  dv_high :: bool
  dv_published :: bool
  dv_publishedAt :: "instant option"
  dv_createdAt :: instant
  dv_failureClass :: "string option"

record receipt =
  rc_event :: uuid
  rc_consumer :: string
  rc_evidence :: string
  rc_recordedAt :: instant

record dead_letter =
  dl_event :: uuid
  dl_consumer :: "string option"
  dl_type :: string
  dl_envelope :: string
  dl_aggregate :: "uuid option"
  dl_high :: "bool option"
  dl_version :: "int option"
  dl_failureClass :: string
  dl_failureDetail :: string
  dl_attempts :: nat
  dl_firstFailedAt :: instant
  dl_deadLetteredAt :: instant
  dl_resolvedAt :: "instant option"
  dl_resolutionType :: "string option"
  dl_resolvedBy :: "uuid option"
  dl_reference :: "string option"
  dl_waivedAt :: "instant option"
  dl_waivedUntil :: "instant option"
  dl_waivedBy :: "uuid option"
  dl_waiverReason :: "string option"

record caller_records =
  provider_grants :: "provider_grant list"
  activations :: "activation list"
  grant_events :: "grant_event list"
  emergency_uses :: "emergency_use list"
  pauses :: "pause list"
  reporters :: "reporter list"
  admin_grants :: "admin_grant list"
  consumers :: "consumer list"
  reviews :: "review list"
  subscriptions :: "subscription list"
  deliveries :: "delivery list"
  receipts :: "receipt list"
  dead_letters :: "dead_letter list"

definition no_callers :: caller_records where
  "no_callers = \<lparr>provider_grants = [], activations = [], grant_events = [], emergency_uses = [], pauses = [],
     reporters = [], admin_grants = [], consumers = [], reviews = [], subscriptions = [], deliveries = [],
     receipts = [], dead_letters = []\<rparr>"

section \<open>Messages\<close>

record tenant_payload =
  tp_tenant :: uuid
  tp_organization :: uuid
  tp_status :: tenant_state
  tp_version :: int
  tp_securityVersion :: int

record membership_payload =
  mp_membership :: uuid
  mp_principal :: uuid
  mp_tenant :: uuid
  mp_workspace :: "uuid option"
  mp_status :: membership_state
  mp_version :: int
  mp_tenantSecurityVersion :: int

record invitation_payload =
  ip_invitation :: uuid
  ip_tenant :: uuid
  ip_workspace :: "uuid option"
  ip_subject :: string
  ip_state :: invitation_state
  ip_correlation :: uuid
  ip_principal :: "uuid option"

record grant_state =
  gs_grant :: uuid
  gs_principal :: uuid
  gs_scope :: string
  gs_kind :: grant_kind
  gs_revoked :: bool
  gs_version :: int
  gs_activation :: "(uuid \<times> instant) option"

datatype finding_class = ClassMissing | ClassExtra | ClassMismatch

record repaired_state =
  rst_membership :: uuid
  rst_principal :: uuid
  rst_tenant :: uuid
  rst_workspace :: "uuid option"
  rst_status :: membership_state
  rst_version :: int
  rst_securityVersion :: int

record finding =
  fi_class :: finding_class
  fi_membership :: uuid
  fi_tenant :: uuid
  fi_principal :: uuid
  fi_authoritative :: int
  fi_projected :: int
  fi_state :: "repaired_state option"

record reconciliation =
  rn_consumer :: string
  rn_mark :: int
  rn_runAt :: instant
  rn_findings :: "finding list"

datatype payload =
    TenantPayload tenant_payload
  | TenantRequestedPayload tenant_payload string isolation_profile string uuid uuid
  | MembershipPayload membership_payload
  | InvitationPayload invitation_payload
  | StagePayload uuid uuid stage bool
  | ObligationPayload uuid uuid uuid string string "instant option"
  | OrganizationPayload uuid string classification_kind org_state "uuid option" int
  | WorkspacePayload uuid uuid string string ws_state int
  | GrantPayload grant_state
  | ReconciledPayload reconciliation

record message =
  msg_id :: uuid
  msg_aggregate :: uuid
  msg_type :: string
  msg_at :: instant
  msg_payload :: payload
  msg_priority :: bool

section \<open>Results\<close>

text \<open>
  \<open>tenant_head\<close> is \<open>tenant.Tenant\<close>, the columns a transition reads and writes. \<open>result\<close> is the
  values the services hand to \<open>db.Respond\<close>, whose parameter is an \<open>any\<close>.
\<close>

record tenant_head =
  th_tenant :: uuid
  th_organization :: uuid
  th_status :: tenant_state
  th_version :: int
  th_securityVersion :: int

record tenant_result =
  tr_tenant :: tenant_head
  tr_acceptedAt :: instant
  tr_published :: bool

record membership_result =
  mr_membership :: membership
  mr_acceptedAt :: instant
  mr_securityVersion :: int
  mr_event :: uuid

record deprovisioning =
  dp_state :: request_state
  dp_detail :: "string option"
  dp_requestedAt :: instant
  dp_resolvedAt :: "instant option"

text \<open>\<open>offboarding.Offboarding\<close> as an operation answers it: the row and the parts derived from others.\<close>

record offboarding_view =
  ov_row :: offboarding
  ov_activeMemberships :: nat
  ov_frozenMemberships :: nat
  ov_restorePending :: nat
  ov_deprovisioning :: "deprovisioning option"

datatype result =
    ResTenant tenant_result
  | ResRequested tenant_record uuid uuid instant
  | ResMembership membership_result
  | ResBatch batch_row "batch_item list"
  | ResOffboarding offboarding_view
  | ResObligation obligation
  | ResIssued invitation string
  | ResAcceptance invitation membership_result
  | ResInvitation invitation
  | ResOrganization organization
  | ResWorkspace workspace
  | ResGrant provider_grant
  | ResActivation activation
  | ResAdministrator admin_grant uuid bool
  | ResAdminGrant admin_grant
  | ResReporter reporter
  | ResPause pause
  | ResReview review
  | ResConsumer consumer "string list"

section \<open>Scopes, evidence and claims\<close>

datatype authority_kind =
    NoAuthority | AuthorityEmergency | AuthorityActivation | AuthorityEligible
  | AuthorityConsumer | AuthorityReporter

record authority =
  au_kind :: authority_kind
  au_activation :: uuid

record scope =
  sc_tenant :: uuid
  sc_provider :: bool
  sc_consumer :: bool
  sc_self :: bool
  sc_resolver :: bool
  sc_actor :: uuid
  sc_correlation :: uuid
  sc_acting :: bool
  sc_authority :: authority

record access =
  ac_id :: uuid
  ac_actor :: uuid
  ac_correlation :: uuid
  ac_reason :: string
  ac_authority :: authority_kind
  ac_activation :: uuid
  ac_tenant :: uuid
  ac_operation :: string
  ac_occurredAt :: instant

record claim =
  cl_scope :: string
  cl_key :: string
  cl_digest :: string

record pending =
  pe_claim :: claim
  pe_consumed :: bool
  pe_made :: bool
  pe_adopted :: bool
  pe_completed :: bool
  pe_withheld :: "string list"

datatype idem_call =
    CallClaim claim
  | CallComplete claim int string "string list"

datatype idem_reply =
    IdemClaimed | IdemReplay int string | IdemConflict | IdemInProgress | IdemUnknown | IdemFail

section \<open>The world\<close>

record store =
  tenants :: "tenant_record list"
  provisioning :: "provisioning_request list"
  tenant_events :: "tenant_event list"
  memberships :: "membership list"
  membership_events :: "membership_event list"
  organizations :: "organization list"
  workspaces :: "workspace list"
  offboardings :: "offboarding list"
  obligations :: "obligation list"
  freezes :: "freeze_row list"
  invitations :: "invitation list"
  batches :: "batch_row list"
  batch_items :: "batch_item list"
  callers :: caller_records
  outbox :: "message list"
  audit :: "access list"
  idem_log :: "idem_call list"

text \<open>
  \<open>ticks\<close> counts the readings of the clock and the transactions opened, \<open>minted\<close> the identifiers
  asked for: the environment answers each in turn. Neither is undone by a rollback.
\<close>

record world =
  store :: store
  ticks :: nat
  minted :: nat
  pend :: "pending option"

record env =
  clock :: "nat \<Rightarrow> instant"
  db_clock :: "nat \<Rightarrow> instant"
  mint :: "nat \<Rightarrow> uuid option"
  event_id :: "nat \<Rightarrow> uuid option"
  parses :: "string \<Rightarrow> bool"
  appends :: "message \<Rightarrow> bool"
  commits :: "nat \<Rightarrow> bool"
  locked :: "nat \<Rightarrow> uuid \<Rightarrow> bool"
  seam :: "string \<Rightarrow> bool"
  cancelled :: "nat \<Rightarrow> bool"
  idem_claim :: "claim \<Rightarrow> idem_call list \<Rightarrow> idem_reply"
  idem_complete :: "claim \<Rightarrow> int \<Rightarrow> string \<Rightarrow> string list \<Rightarrow> idem_call list \<Rightarrow> bool"
  uuid_text :: "uuid \<Rightarrow> string"
  entropy :: "nat \<Rightarrow> (nat \<Rightarrow> nat) option"
  sha256_hex :: "string \<Rightarrow> string"
  matcher :: "(uuid \<Rightarrow> string \<Rightarrow> bool option) option"
  f64_div :: "int \<Rightarrow> int \<Rightarrow> float64"
  text_rank :: "string \<Rightarrow> nat"
  sequence_at :: "nat \<Rightarrow> int"
  subscribe :: "string \<Rightarrow> string list \<Rightarrow> subscription list \<Rightarrow> subscription list option"
  unsubscribe :: "string \<Rightarrow> subscription list \<Rightarrow> subscription list option"
  abandon :: "string \<Rightarrow> string \<Rightarrow> delivery list \<Rightarrow> delivery list option"
  envelope_of :: "string \<Rightarrow> message option"
  owes :: "string \<Rightarrow> message \<Rightarrow> subscription list \<Rightarrow> bool"
  receipt_reference :: "uuid \<Rightarrow> string \<Rightarrow> string"
  time_text :: "instant \<Rightarrow> string"
  quoted_text :: "string \<Rightarrow> string"
  displayNameMax :: nat
  timeout :: int
  activationMax :: int
  approvalRequired :: bool

record ctx =
  cx_scope :: "scope option"
  cx_operation :: string
  cx_routeTenant :: uuid
  cx_adopt :: bool
  cx_claiming :: bool
  cx_responder :: "(result \<Rightarrow> (int \<times> string) option) option"

type_synonym 'a tx = "(world, error, 'a) comp"

text \<open>
  What a request leaves behind besides its idempotency bookkeeping. Every table but \<open>idem_log\<close> is
  read through it, so a computation that keeps \<open>data\<close> changes no row of the services.
\<close>

definition data :: "world \<Rightarrow> store" where
  "data w = (store w)\<lparr>idem_log := []\<rparr>"

section \<open>Primitive steps\<close>

definition now :: "env \<Rightarrow> instant tx" where
  "now env w = (Inr (clock env (ticks w)), w\<lparr>ticks := Suc (ticks w)\<rparr>)"

definition newID :: "env \<Rightarrow> uuid tx" where
  "newID env w =
     (case mint env (minted w) of None \<Rightarrow> Inl (ErrInternal ''mint identifier'') | Some u \<Rightarrow> Inr u,
      w\<lparr>minted := Suc (minted w)\<rparr>)"

definition read_db :: "(store \<Rightarrow> 'a) \<Rightarrow> 'a tx" where
  "read_db f w = (Inr (f (store w)), w)"

definition write_db :: "(store \<Rightarrow> store) \<Rightarrow> unit tx" where
  "write_db f w = (Inr (), w\<lparr>store := f (store w)\<rparr>)"

text \<open>
  A test seam: a hook that is nil in production. \<open>seam env name\<close> says the hook of that name is set
  and returns an error.
\<close>

definition hook :: "env \<Rightarrow> string \<Rightarrow> unit tx" where
  "hook env name = ensure (\<not> seam env name) (ErrInternal name)"

text \<open>
  \<open>event.New\<close> builds the envelope and \<open>outbox.Append\<close> writes it with the caller's transaction. The
  message carries exactly what the caller passed: aggregate, type, instant, payload and lane.
\<close>

definition event_New :: "env \<Rightarrow> uuid tx" where
  "event_New env w =
     (case event_id env (minted w) of None \<Rightarrow> Inl (ErrInternal ''build envelope'') | Some u \<Rightarrow> Inr u,
      w\<lparr>minted := Suc (minted w)\<rparr>)"

definition outbox_Append :: "env \<Rightarrow> message \<Rightarrow> unit tx" where
  "outbox_Append env m =
     seq (ensure (appends env m) (ErrInternal ''append event'')) (\<lambda>_.
     write_db (\<lambda>s. s\<lparr>outbox := outbox s @ [m]\<rparr>))"

definition publish :: "env \<Rightarrow> uuid \<Rightarrow> string \<Rightarrow> instant \<Rightarrow> payload \<Rightarrow> bool \<Rightarrow> uuid tx" where
  "publish env aggregate etype at body priority =
     seq (event_New env) (\<lambda>eventID.
     seq (outbox_Append env \<lparr>msg_id = eventID, msg_aggregate = aggregate, msg_type = etype, msg_at = at,
            msg_payload = body, msg_priority = priority\<rparr>) (\<lambda>_.
     return eventID))"

text \<open>The database's own clock, which the column defaults and \<open>now()\<close> read.\<close>

definition db_now :: "env \<Rightarrow> instant tx" where
  "db_now env = gets (\<lambda>w. db_clock env (ticks w))"

lemma now_run [run_simps]:
  "now env w = (Inr t, w') \<longleftrightarrow> t = clock env (ticks w) \<and> w' = w\<lparr>ticks := Suc (ticks w)\<rparr>"
  "now env w = (Inl e, w') \<longleftrightarrow> False"
  by (auto simp: now_def)

lemma newID_run [run_simps]:
  "newID env w = (Inr u, w') \<longleftrightarrow> mint env (minted w) = Some u \<and> w' = w\<lparr>minted := Suc (minted w)\<rparr>"
  by (auto simp: newID_def split: option.splits)

lemma event_New_run [run_simps]:
  "event_New env w = (Inr u, w') \<longleftrightarrow>
     event_id env (minted w) = Some u \<and> w' = w\<lparr>minted := Suc (minted w)\<rparr>"
  by (auto simp: event_New_def split: option.splits)

lemma read_db_run [run_simps]:
  "read_db f w = (Inr y, w') \<longleftrightarrow> y = f (store w) \<and> w' = w"
  "read_db f w = (Inl e, w') \<longleftrightarrow> False"
  by (auto simp: read_db_def)

lemma write_db_run [run_simps]:
  "write_db f w = (Inr u, w') \<longleftrightarrow> w' = w\<lparr>store := f (store w)\<rparr>"
  "write_db f w = (Inl e, w') \<longleftrightarrow> False"
  by (auto simp: write_db_def)

lemma hook_run [run_simps]:
  "hook env name w = (Inr u, w') \<longleftrightarrow> \<not> seam env name \<and> w' = w"
  by (auto simp: hook_def run_simps)

lemma outbox_Append_run [run_simps]:
  "outbox_Append env m w = (Inr u, w') \<longleftrightarrow>
     appends env m \<and> w' = w\<lparr>store := (store w)\<lparr>outbox := outbox (store w) @ [m]\<rparr>\<rparr>"
  by (auto simp: outbox_Append_def run_simps)

lemma publish_run [run_simps]:
  "publish env aggregate etype at body priority w = (Inr eventID, w') \<longleftrightarrow>
     (let m = \<lparr>msg_id = eventID, msg_aggregate = aggregate, msg_type = etype, msg_at = at,
            msg_payload = body, msg_priority = priority\<rparr>
      in event_id env (minted w) = Some eventID \<and> appends env m \<and>
         w' = w\<lparr>minted := Suc (minted w), store := (store w)\<lparr>outbox := outbox (store w) @ [m]\<rparr>\<rparr>)"
  by (auto simp: publish_def run_simps Let_def)

lemma db_now_run [run_simps]:
  "db_now env w = (Inr t, w') \<longleftrightarrow> t = db_clock env (ticks w) \<and> w' = w"
  "db_now env w = (Inl e, w') \<longleftrightarrow> False"
  by (auto simp: db_now_def run_simps)

text \<open>Step relations on the store see through the clock and the identifier source.\<close>

definition on_store :: "(store \<Rightarrow> store \<Rightarrow> bool) \<Rightarrow> world \<Rightarrow> world \<Rightarrow> bool" where
  "on_store R w w' \<longleftrightarrow> R (store w) (store w')"

locale store_relation =
  fixes R :: "store \<Rightarrow> store \<Rightarrow> bool"
  assumes store_refl: "R s s"
    and store_trans: "R s t \<Longrightarrow> R t u \<Longrightarrow> R s u"
begin

sublocale sr: step_relation "on_store R"
  by unfold_locales (auto simp: on_store_def store_refl intro: store_trans)

lemma y_now: "yields (on_store R) (now env)"
  by (auto simp: yields_def run_simps on_store_def store_refl)

lemma y_newID: "yields (on_store R) (newID env)"
  by (auto simp: yields_def run_simps on_store_def store_refl)

lemma y_event_New: "yields (on_store R) (event_New env)"
  by (auto simp: yields_def run_simps on_store_def store_refl)

lemma y_read_db: "yields (on_store R) (read_db f)"
  by (auto simp: yields_def run_simps on_store_def store_refl)

lemma y_hook: "yields (on_store R) (hook env name)"
  by (auto simp: yields_def run_simps on_store_def store_refl)

lemma y_write_db: "(\<And>s. R s (f s)) \<Longrightarrow> yields (on_store R) (write_db f)"
  by (auto simp: yields_def run_simps on_store_def)

lemma y_outbox_Append:
  "(\<And>s ms. R s (s\<lparr>outbox := ms\<rparr>)) \<Longrightarrow> yields (on_store R) (outbox_Append env m)"
  by (auto simp: yields_def run_simps on_store_def)

lemma y_publish:
  "(\<And>s ms. R s (s\<lparr>outbox := ms\<rparr>)) \<Longrightarrow> yields (on_store R) (publish env aggregate etype at body priority)"
  by (auto simp: yields_def run_simps on_store_def Let_def)

lemma y_db_now: "yields (on_store R) (db_now env)"
  by (auto simp: yields_def run_simps on_store_def store_refl)

lemmas y_store_intros =
  y_publish y_db_now sr.y_intros y_now y_newID y_event_New y_read_db y_hook y_write_db y_outbox_Append

end

end
