(* ===== verification/Scope_Binding.thy ===== *)
theory Scope_Binding
  imports World
begin

text \<open>
  The single binding path, \<open>src/internal/db/binding.go\<close>, \<open>db/idempotency.go\<close> and
  \<open>src/internal/access/access.go\<close>: how a scope is made, which entry point admits which scope, what
  evidence is written before a cross-Tenant transaction, and how a request's idempotency claim and
  its recorded response ride in the transaction of its effect.

  A binding is what the policies of \<open>controldb/rls.sql\<close> read: the settings \<open>app.tenant_id\<close>,
  \<open>app.provider_scope\<close>, \<open>app.principal_id\<close>, \<open>app.invitation_token_hash\<close> and
  \<open>app.invitation_resolve_hash\<close>, one of which each entry point sets before the body runs.
\<close>

section \<open>Transactions\<close>

text \<open>
  \<open>InTx\<close> commits when its body succeeds and rolls back otherwise. A commit can fail, which stands
  for every failure of the connection or of a statement that no branch of the code distinguishes:
  the store is then the one the transaction started from. Identifiers minted, clock readings and the
  request's claim flags are process state and are not undone.
\<close>

definition InTx :: "env \<Rightarrow> 'a tx \<Rightarrow> 'a tx" where
  "InTx env body w =
     (case body (w\<lparr>ticks := Suc (ticks w)\<rparr>) of
        (Inl e, w') \<Rightarrow> (Inl e, w'\<lparr>store := store w\<rparr>)
      | (Inr x, w') \<Rightarrow>
          if commits env (ticks w) then (Inr x, w')
          else (Inl (ErrInternal ''commit''), w'\<lparr>store := store w\<rparr>))"

text \<open>A transaction declared READ ONLY refuses the first statement that writes.\<close>

definition read_only :: "'a tx \<Rightarrow> 'a tx" where
  "read_only body w =
     (case body w of
        (Inl e, w') \<Rightarrow> (Inl e, w')
      | (Inr x, w') \<Rightarrow>
          if store w' = store w then (Inr x, w')
          else (Inl (ErrInternal ''read-only transaction''), w'))"

text \<open>Reading a store through its \<open>data\<close>.\<close>

lemma data_sel [simp]:
  "tenants (data w) = tenants (store w)" "provisioning (data w) = provisioning (store w)"
  "tenant_events (data w) = tenant_events (store w)" "memberships (data w) = memberships (store w)"
  "membership_events (data w) = membership_events (store w)"
  "organizations (data w) = organizations (store w)" "workspaces (data w) = workspaces (store w)"
  "offboardings (data w) = offboardings (store w)" "obligations (data w) = obligations (store w)"
  "freezes (data w) = freezes (store w)" "invitations (data w) = invitations (store w)"
  "batches (data w) = batches (store w)" "batch_items (data w) = batch_items (store w)"
  "callers (data w) = callers (store w)"
  "outbox (data w) = outbox (store w)" "audit (data w) = audit (store w)"
  by (simp_all add: data_def)

lemma InTx_run [run_simps]:
  "InTx env body w = (Inr x, w') \<longleftrightarrow>
     body (w\<lparr>ticks := Suc (ticks w)\<rparr>) = (Inr x, w') \<and> commits env (ticks w)"
  by (auto simp: InTx_def split: prod.splits sum.splits if_splits)

lemma InTx_rolls_back: "InTx env body w = (Inl e, w') \<Longrightarrow> store w' = store w"
  by (auto simp: InTx_def split: prod.splits sum.splits if_splits)

lemma InTx_refused:
  "body (w\<lparr>ticks := Suc (ticks w)\<rparr>) = (Inl e, w') \<Longrightarrow> fst (InTx env body w) = Inl e"
  by (simp add: InTx_def)

lemma read_only_run [run_simps]:
  "read_only body w = (Inr x, w') \<longleftrightarrow> body w = (Inr x, w') \<and> store w' = store w"
  by (auto simp: read_only_def split: prod.splits sum.splits if_splits)

section \<open>Scopes and authorities\<close>

definition no_authority :: authority where
  "no_authority = \<lparr>au_kind = NoAuthority, au_activation = 0\<rparr>"

definition EmergencyAuthority :: authority where
  "EmergencyAuthority = \<lparr>au_kind = AuthorityEmergency, au_activation = 0\<rparr>"

definition ActivationAuthority :: "uuid \<Rightarrow> authority" where
  "ActivationAuthority activation = \<lparr>au_kind = AuthorityActivation, au_activation = activation\<rparr>"

definition EligibleAuthority :: authority where
  "EligibleAuthority = \<lparr>au_kind = AuthorityEligible, au_activation = 0\<rparr>"

definition ReporterAuthority :: authority where
  "ReporterAuthority = \<lparr>au_kind = AuthorityReporter, au_activation = 0\<rparr>"

definition authority_valid :: "authority \<Rightarrow> bool" where
  "authority_valid a =
     (case au_kind a of
        AuthorityEmergency \<Rightarrow> IsNil (au_activation a)
      | AuthorityEligible \<Rightarrow> IsNil (au_activation a)
      | AuthorityReporter \<Rightarrow> IsNil (au_activation a)
      | AuthorityActivation \<Rightarrow> \<not> IsNil (au_activation a)
      | _ \<Rightarrow> False)"

text \<open>The zero \<open>Scope\<close> of Go, from which each constructor sets the fields it names.\<close>

definition zero_scope :: scope where
  "zero_scope = \<lparr>sc_tenant = 0, sc_provider = False, sc_consumer = False, sc_self = False,
     sc_resolver = False, sc_actor = 0, sc_correlation = 0, sc_acting = False,
     sc_authority = no_authority\<rparr>"

definition TenantScope :: "uuid \<Rightarrow> uuid \<Rightarrow> uuid \<Rightarrow> error + scope" where
  "TenantScope tenantID actor correlation =
     (if IsNil tenantID then Inl (ErrInternal ''a tenant scope requires a tenant identifier'')
      else if IsNil actor then Inl (ErrInternal ''a tenant scope requires an acting subject'')
      else Inr (zero_scope\<lparr>sc_tenant := tenantID, sc_actor := actor, sc_correlation := correlation\<rparr>))"

definition ProviderScope :: "uuid \<Rightarrow> uuid \<Rightarrow> authority \<Rightarrow> error + scope" where
  "ProviderScope actor correlation authority =
     (if IsNil actor then Inl (ErrInternal ''a provider scope requires an acting subject'')
      else if IsNil correlation then Inl (ErrInternal ''a provider scope requires a correlation identifier'')
      else if \<not> authority_valid authority then Inl (ErrInternal ''a provider scope requires the authority that admitted it'')
      else Inr (zero_scope\<lparr>sc_provider := True, sc_actor := actor, sc_correlation := correlation,
        sc_authority := authority\<rparr>))"

definition ConsumerScope :: "uuid \<Rightarrow> uuid \<Rightarrow> error + scope" where
  "ConsumerScope actor correlation =
     (if IsNil actor then Inl (ErrInternal ''a consumer scope requires an acting subject'')
      else if IsNil correlation then Inl (ErrInternal ''a consumer scope requires a correlation identifier'')
      else Inr (zero_scope\<lparr>sc_consumer := True, sc_actor := actor, sc_correlation := correlation,
        sc_authority := \<lparr>au_kind = AuthorityConsumer, au_activation = 0\<rparr>\<rparr>))"

definition SelfScope :: "uuid \<Rightarrow> uuid \<Rightarrow> error + scope" where
  "SelfScope actor correlation =
     (if IsNil actor then Inl (ErrInternal ''a self scope requires an acting subject'')
      else if IsNil correlation then Inl (ErrInternal ''a self scope requires a correlation identifier'')
      else Inr (zero_scope\<lparr>sc_self := True, sc_actor := actor, sc_correlation := correlation\<rparr>))"

definition InvitationResolverScope :: "uuid \<Rightarrow> uuid \<Rightarrow> error + scope" where
  "InvitationResolverScope actor correlation =
     (if IsNil actor then Inl (ErrInternal ''an invitation resolver scope requires an acting subject'')
      else if IsNil correlation
        then Inl (ErrInternal ''an invitation resolver scope requires a correlation identifier'')
      else Inr (zero_scope\<lparr>sc_resolver := True, sc_actor := actor, sc_correlation := correlation,
        sc_authority := ReporterAuthority\<rparr>))"

text \<open>The scopes the constructors make: what the authorization layer can put in a context.\<close>

definition constructed :: "scope \<Rightarrow> bool" where
  "constructed s \<longleftrightarrow>
     (\<exists>t a c. TenantScope t a c = Inr s) \<or> (\<exists>a c u. ProviderScope a c u = Inr s) \<or>
     (\<exists>a c. ConsumerScope a c = Inr s) \<or> (\<exists>a c. SelfScope a c = Inr s) \<or>
     (\<exists>a c. InvitationResolverScope a c = Inr s)"

section \<open>Evidence\<close>

text \<open>
  \<open>Scope.Evidence\<close>; the identifier is minted by the writer. A \<open>ProviderAccess\<close> is an \<open>access\<close> whose
  identifier is still nil.
\<close>

definition Evidence :: "scope \<Rightarrow> ctx \<Rightarrow> string \<Rightarrow> access" where
  "Evidence s cx reason =
     \<lparr>ac_id = 0, ac_actor = sc_actor s, ac_correlation = sc_correlation s, ac_reason = reason,
      ac_authority = au_kind (sc_authority s), ac_activation = au_activation (sc_authority s),
      ac_tenant = (if sc_acting s then sc_tenant s else cx_routeTenant cx),
      ac_operation = cx_operation cx, ac_occurredAt = 0\<rparr>"

definition authorized :: "access \<Rightarrow> bool" where
  "authorized a =
     (if ac_authority a = AuthorityConsumer then IsNil (ac_activation a)
      else authority_valid \<lparr>au_kind = ac_authority a, au_activation = ac_activation a\<rparr>)"

definition RecordAccessInTx :: "env \<Rightarrow> access \<Rightarrow> unit tx" where
  "RecordAccessInTx env a =
     seq (ensure (\<not> IsNil (ac_actor a)) (ErrInternal ''evidence requires an acting subject'')) (\<lambda>_.
     seq (ensure (\<not> IsNil (ac_correlation a)) (ErrInternal ''evidence requires a correlation identifier'')) (\<lambda>_.
     seq (ensure (ac_reason a \<noteq> []) (ErrReasonRequired PkgDb)) (\<lambda>_.
     seq (ensure (authorized a) (ErrInternal ''evidence requires the authority the access acted on'')) (\<lambda>_.
     seq (newID env) (\<lambda>accessID.
     seq (db_now env) (\<lambda>occurred.
     write_db (\<lambda>s. s\<lparr>audit := audit s @ [a\<lparr>ac_id := accessID, ac_occurredAt := occurred\<rparr>]\<rparr>)))))))"

definition RecordProviderAccess :: "env \<Rightarrow> access \<Rightarrow> unit tx" where
  "RecordProviderAccess env a =
     seq (ensure (\<not> IsNil (ac_actor a)) (ErrInternal ''evidence requires an acting subject'')) (\<lambda>_.
     seq (ensure (\<not> IsNil (ac_correlation a)) (ErrInternal ''evidence requires a correlation identifier'')) (\<lambda>_.
     seq (ensure (ac_reason a \<noteq> []) (ErrReasonRequired PkgDb)) (\<lambda>_.
     InTx env (RecordAccessInTx env a))))"

section \<open>Idempotency\<close>

definition claim_valid :: "claim \<Rightarrow> bool" where
  "claim_valid c \<longleftrightarrow> \<not> blank (cl_scope c) \<and> \<not> blank (cl_key c) \<and> \<not> blank (cl_digest c)"

definition WithClaim :: "claim \<Rightarrow> world \<Rightarrow> world" where
  "WithClaim c w =
     (if claim_valid c
      then w\<lparr>pend := Some \<lparr>pe_claim = c, pe_consumed = False, pe_made = False, pe_adopted = False,
                           pe_completed = False, pe_withheld = []\<rparr>\<rparr>
      else w)"

definition set_pend :: "pending \<Rightarrow> unit tx" where
  "set_pend p = modify (\<lambda>w. w\<lparr>pend := Some p\<rparr>)"

definition idempotency_Claim :: "env \<Rightarrow> claim \<Rightarrow> idem_reply tx" where
  "idempotency_Claim env c =
     seq (read_db (\<lambda>s. idem_claim env c (idem_log s))) (\<lambda>reply.
     seq (write_db (\<lambda>s. s\<lparr>idem_log := idem_log s @ [CallClaim c]\<rparr>)) (\<lambda>_.
     return reply))"

definition claimWithin :: "env \<Rightarrow> ctx \<Rightarrow> ctx tx" where
  "claimWithin env cx =
     seq (gets pend) (\<lambda>held.
     case held of
       None \<Rightarrow> return cx
     | Some p \<Rightarrow>
         if pe_consumed p then return cx
         else
           seq (set_pend (p\<lparr>pe_consumed := True\<rparr>)) (\<lambda>_.
           seq (idempotency_Claim env (pe_claim p)) (\<lambda>reply.
           case reply of
             IdemInProgress \<Rightarrow>
               if cx_adopt cx
               then seq (set_pend (p\<lparr>pe_consumed := True, pe_adopted := True, pe_made := True\<rparr>)) (\<lambda>_.
                    return (cx\<lparr>cx_claiming := True\<rparr>))
               else seq (set_pend (p\<lparr>pe_consumed := False\<rparr>)) (\<lambda>_. raise ErrIdempotencyInProgress)
           | IdemConflict \<Rightarrow> seq (set_pend (p\<lparr>pe_consumed := False\<rparr>)) (\<lambda>_. raise ErrIdempotencyConflict)
           | IdemFail \<Rightarrow> seq (set_pend (p\<lparr>pe_consumed := False\<rparr>)) (\<lambda>_. raise (ErrInternal ''idempotency''))
           | IdemReplay status body \<Rightarrow> raise (ErrReplayed status body)
           | IdemClaimed \<Rightarrow>
               seq (set_pend (p\<lparr>pe_consumed := True, pe_made := True\<rparr>)) (\<lambda>_.
               return (cx\<lparr>cx_claiming := True\<rparr>))
           | IdemUnknown \<Rightarrow> raise (ErrInternal ''unrecognised idempotency state''))))"

definition Respond :: "env \<Rightarrow> ctx \<Rightarrow> result \<Rightarrow> unit tx" where
  "Respond env cx result =
     seq (gets pend) (\<lambda>held.
     case held of
       None \<Rightarrow> return ()
     | Some p \<Rightarrow>
         if \<not> cx_claiming cx \<or> pe_completed p then return ()
         else case cx_responder cx of
           None \<Rightarrow> return ()
         | Some responder \<Rightarrow>
             (case responder result of
                None \<Rightarrow> return ()
              | Some (status, body) \<Rightarrow>
                  if status < 200 \<or> status > 299 then return ()
                  else
                    seq (read_db (\<lambda>s. idem_complete env (pe_claim p) status body (pe_withheld p) (idem_log s))) (\<lambda>ok.
                    seq (ensure ok (ErrInternal ''record the response with the effect'')) (\<lambda>_.
                    seq (write_db (\<lambda>s. s\<lparr>idem_log :=
                           idem_log s @ [CallComplete (pe_claim p) status body (pe_withheld p)]\<rparr>)) (\<lambda>_.
                    set_pend (p\<lparr>pe_completed := True\<rparr>))))))"

definition ClaimAdopted :: "bool tx" where
  "ClaimAdopted = gets (\<lambda>w. case pend w of None \<Rightarrow> False | Some p \<Rightarrow> pe_adopted p)"

definition WithholdFromRecord :: "string list \<Rightarrow> world \<Rightarrow> world" where
  "WithholdFromRecord pointers w =
     (case pend w of
        None \<Rightarrow> w
      | Some p \<Rightarrow> if pointers = [] then w else w\<lparr>pend := Some (p\<lparr>pe_withheld := pointers\<rparr>)\<rparr>)"

definition ClaimStore_Complete :: "env \<Rightarrow> claim \<Rightarrow> int \<Rightarrow> string \<Rightarrow> unit tx" where
  "ClaimStore_Complete env c status body =
     seq (ensure (claim_valid c) (ErrInternal ''a complete claim is required'')) (\<lambda>_.
     InTx env (
       seq (read_db (\<lambda>s. idem_complete env c status body [] (idem_log s))) (\<lambda>ok.
       seq (ensure ok (ErrInternal ''complete'')) (\<lambda>_.
       write_db (\<lambda>s. s\<lparr>idem_log := idem_log s @ [CallComplete c status body []]\<rparr>)))))"

section \<open>Entry points\<close>

datatype binding =
    BoundTenant uuid "uuid option"
  | BoundProvider
  | BoundSelf uuid
  | BoundInvitation string
  | BoundResolve string

text \<open>
  The row-level policies of the tenant-owned tables: a bound Tenant sees the rows of that Tenant, the
  provider scope sees every row. The self and resolver roles have no policy on those tables beyond
  the reads written with them.
\<close>

fun sees :: "binding \<Rightarrow> uuid \<Rightarrow> bool" where
  "sees (BoundTenant t _) tenant = (tenant = t)"
| "sees BoundProvider tenant = True"
| "sees _ tenant = False"

type_synonym 'a body = "binding \<Rightarrow> ctx \<Rightarrow> 'a tx"

definition ScopeFrom :: "ctx \<Rightarrow> scope tx" where
  "ScopeFrom cx = (case cx_scope cx of None \<Rightarrow> raise ErrNoScope | Some s \<Rightarrow> return s)"

definition bindTenant :: "scope \<Rightarrow> binding" where
  "bindTenant s = BoundTenant (sc_tenant s) (if sc_acting s then Some (sc_actor s) else None)"

definition WithTenantScope :: "env \<Rightarrow> ctx \<Rightarrow> 'a body \<Rightarrow> 'a tx" where
  "WithTenantScope env cx fn =
     seq (ScopeFrom cx) (\<lambda>scope.
     seq (ensure (\<not> sc_provider scope) ErrWrongScope) (\<lambda>_.
     seq (ensure (\<not> (sc_consumer scope \<or> sc_self scope \<or> IsNil (sc_tenant scope))) ErrWrongScope) (\<lambda>_.
     InTx env (seq (claimWithin env cx) (fn (bindTenant scope))))))"

definition WithTenantRead :: "env \<Rightarrow> ctx \<Rightarrow> 'a body \<Rightarrow> 'a tx" where
  "WithTenantRead env cx fn =
     seq (ScopeFrom cx) (\<lambda>scope.
     seq (ensure (\<not> (sc_provider scope \<or> sc_consumer scope \<or> sc_self scope \<or> IsNil (sc_tenant scope)))
            ErrWrongScope) (\<lambda>_.
     InTx env (read_only (fn (bindTenant scope) cx))))"

definition WithSelfRead :: "env \<Rightarrow> ctx \<Rightarrow> 'a body \<Rightarrow> 'a tx" where
  "WithSelfRead env cx fn =
     seq (ScopeFrom cx) (\<lambda>scope.
     seq (ensure (sc_self scope) ErrWrongScope) (\<lambda>_.
     InTx env (read_only (fn (BoundSelf (sc_actor scope)) cx))))"

definition WithSelfInvitation :: "env \<Rightarrow> ctx \<Rightarrow> string \<Rightarrow> 'a body \<Rightarrow> 'a tx" where
  "WithSelfInvitation env cx tokenHash fn =
     seq (ensure (tokenHash \<noteq> []) (ErrInternal ''an invitation read requires the token hash'')) (\<lambda>_.
     seq (ScopeFrom cx) (\<lambda>scope.
     seq (ensure (sc_self scope) ErrWrongScope) (\<lambda>_.
     InTx env (read_only (fn (BoundInvitation tokenHash) cx)))))"

definition InvitationResolvePurpose :: string where
  "InvitationResolvePurpose = ''invitation:resolve''"

definition WithInvitationResolver :: "env \<Rightarrow> ctx \<Rightarrow> string \<Rightarrow> 'a body \<Rightarrow> 'a tx" where
  "WithInvitationResolver env cx tokenHash fn =
     seq (ensure (tokenHash \<noteq> []) (ErrInternal ''an invitation resolve requires the token hash'')) (\<lambda>_.
     seq (ScopeFrom cx) (\<lambda>scope.
     seq (ensure (sc_resolver scope) ErrWrongScope) (\<lambda>_.
     seq (RecordProviderAccess env ((Evidence scope cx InvitationResolvePurpose)\<lparr>ac_tenant := 0\<rparr>)) (\<lambda>_.
     InTx env (read_only (fn (BoundResolve tokenHash) cx))))))"

definition WithSelfInTenant :: "env \<Rightarrow> ctx \<Rightarrow> uuid \<Rightarrow> 'a body \<Rightarrow> 'a tx" where
  "WithSelfInTenant env cx tenantID fn =
     seq (ScopeFrom cx) (\<lambda>scope.
     seq (ensure (sc_self scope) ErrWrongScope) (\<lambda>_.
     seq (ensure (\<not> IsNil tenantID) (ErrInternal ''a self caller acting in a Tenant must name it'')) (\<lambda>_.
     let acting = zero_scope\<lparr>sc_tenant := tenantID, sc_actor := sc_actor scope,
                             sc_correlation := sc_correlation scope\<rparr>;
         cx' = cx\<lparr>cx_scope := Some acting\<rparr>
     in InTx env (seq (claimWithin env cx') (fn (bindTenant acting))))))"

definition WithProviderInTenant :: "env \<Rightarrow> ctx \<Rightarrow> uuid \<Rightarrow> string \<Rightarrow> 'a body \<Rightarrow> 'a tx" where
  "WithProviderInTenant env cx tenantID reason fn =
     seq (ScopeFrom cx) (\<lambda>scope.
     seq (ensure (sc_provider scope) ErrWrongScope) (\<lambda>_.
     seq (ensure (\<not> IsNil tenantID) (ErrInternal ''a provider acting in a Tenant must name the Tenant'')) (\<lambda>_.
     seq (ensure (reason \<noteq> []) (ErrReasonRequired PkgDb)) (\<lambda>_.
     let acting = zero_scope\<lparr>sc_tenant := tenantID, sc_actor := sc_actor scope,
                             sc_correlation := sc_correlation scope, sc_acting := True,
                             sc_authority := sc_authority scope\<rparr>;
         cx' = cx\<lparr>cx_scope := Some acting\<rparr>
     in seq (RecordProviderAccess env (Evidence acting cx reason)) (\<lambda>_.
        InTx env (seq (claimWithin env cx') (fn (bindTenant acting))))))))"

definition withRecordedScope ::
  "env \<Rightarrow> ctx \<Rightarrow> string \<Rightarrow> bool \<Rightarrow> bool \<Rightarrow> 'a body \<Rightarrow> 'a tx" where
  "withRecordedScope env cx reason snapshot consumer fn =
     seq (ScopeFrom cx) (\<lambda>scope.
     seq (ensure (\<not> sc_self scope) ErrWrongScope) (\<lambda>_.
     seq (ensure (consumer \<longrightarrow> sc_consumer scope) ErrWrongScope) (\<lambda>_.
     seq (ensure (\<not> consumer \<longrightarrow> sc_provider scope) ErrWrongScope) (\<lambda>_.
     seq (ensure (reason \<noteq> []) (ErrReasonRequired PkgDb)) (\<lambda>_.
     seq (RecordProviderAccess env (Evidence scope cx reason)) (\<lambda>_.
     InTx env (if snapshot then read_only (fn BoundProvider cx)
               else seq (claimWithin env cx) (fn BoundProvider))))))))"

definition WithProviderScope :: "env \<Rightarrow> ctx \<Rightarrow> string \<Rightarrow> 'a body \<Rightarrow> 'a tx" where
  "WithProviderScope env cx reason fn = withRecordedScope env cx reason False False fn"

definition WithProviderSnapshot :: "env \<Rightarrow> ctx \<Rightarrow> string \<Rightarrow> 'a body \<Rightarrow> 'a tx" where
  "WithProviderSnapshot env cx reason fn = withRecordedScope env cx reason True False fn"

definition WithConsumerScope :: "env \<Rightarrow> ctx \<Rightarrow> string \<Rightarrow> 'a body \<Rightarrow> 'a tx" where
  "WithConsumerScope env cx reason fn = withRecordedScope env cx reason False True fn"

definition WithResolutionScope :: "env \<Rightarrow> ctx \<Rightarrow> string \<Rightarrow> 'a body \<Rightarrow> 'a tx" where
  "WithResolutionScope env cx reason fn = withRecordedScope env cx reason False False fn"

definition WithConsumerReconciliation :: "env \<Rightarrow> ctx \<Rightarrow> string \<Rightarrow> 'a body \<Rightarrow> 'a tx" where
  "WithConsumerReconciliation env cx reason fn = withRecordedScope env cx reason False True fn"

definition WithConsumerReconciliationSnapshot :: "env \<Rightarrow> ctx \<Rightarrow> string \<Rightarrow> 'a body \<Rightarrow> 'a tx" where
  "WithConsumerReconciliationSnapshot env cx reason fn = withRecordedScope env cx reason True True fn"

definition WithConsumerSnapshot :: "env \<Rightarrow> ctx \<Rightarrow> string \<Rightarrow> 'a body \<Rightarrow> 'a tx" where
  "WithConsumerSnapshot env cx reason fn = withRecordedScope env cx reason True True fn"

section \<open>What the bookkeeping leaves alone\<close>

text \<open>
  The claim and the recorded response touch the idempotency log and the request's flags; no table of
  the services, no clock reading, no identifier.
\<close>

definition bookkept :: "world \<Rightarrow> world \<Rightarrow> bool" where
  "bookkept w w' \<longleftrightarrow> data w' = data w \<and> ticks w' = ticks w \<and> minted w' = minted w"

interpretation bookkept: step_relation bookkept
  by unfold_locales (auto simp: bookkept_def)

lemma bookkept_set_pend: "yields bookkept (set_pend p)"
  by (auto simp: yields_def bookkept_def set_pend_def run_simps data_def)

lemma bookkept_read: "yields bookkept (read_db f)"
  by (auto simp: yields_def bookkept_def run_simps)

lemma bookkept_log: "yields bookkept (write_db (\<lambda>s. s\<lparr>idem_log := g s\<rparr>))"
  by (auto simp: yields_def bookkept_def run_simps data_def)

lemmas bookkept_intros =
  bookkept.y_intros bookkept_set_pend bookkept_read bookkept_log

lemma claimWithin_bookkept: "yields bookkept (claimWithin env cx)"
  unfolding claimWithin_def idempotency_Claim_def
  by (intro bookkept_intros) (simp_all split: idem_reply.split, auto intro!: bookkept_intros)

lemma Respond_bookkept: "yields bookkept (Respond env cx result)"
  unfolding Respond_def
  by (intro bookkept_intros) (simp_all split: option.split prod.split, auto intro!: bookkept_intros)

definition marked :: "ctx \<Rightarrow> ctx \<Rightarrow> bool" where
  "marked cx cx' \<longleftrightarrow> cx' = cx \<or> cx' = cx\<lparr>cx_claiming := True\<rparr>"

lemma claimWithin_run:
  assumes "claimWithin env cx w = (Inr cx', w')"
  shows "bookkept w w'" "marked cx cx'"
proof -
  show "bookkept w w'"
    using claimWithin_bookkept assms by (rule yieldsD)
  show "marked cx cx'"
    using assms unfolding claimWithin_def marked_def
    by (auto simp: run_simps split: option.splits if_splits idem_reply.splits)
      (metis idem_reply.exhaust)+
qed

lemma Respond_run:
  "Respond env cx result w = (Inr u, w') \<Longrightarrow> bookkept w w'"
  using Respond_bookkept by (rule yieldsD)

lemma marked_fields:
  "marked cx cx' \<Longrightarrow> cx_scope cx' = cx_scope cx \<and> cx_operation cx' = cx_operation cx \<and>
     cx_routeTenant cx' = cx_routeTenant cx \<and> cx_responder cx' = cx_responder cx"
  by (auto simp: marked_def)

lemma data_fields:
  assumes "data w' = data w"
  shows "tenants (store w') = tenants (store w)"
    "provisioning (store w') = provisioning (store w)"
    "tenant_events (store w') = tenant_events (store w)"
    "memberships (store w') = memberships (store w)"
    "membership_events (store w') = membership_events (store w)"
    "organizations (store w') = organizations (store w)"
    "workspaces (store w') = workspaces (store w)"
    "offboardings (store w') = offboardings (store w)"
    "obligations (store w') = obligations (store w)"
    "freezes (store w') = freezes (store w)"
    "invitations (store w') = invitations (store w)"
    "batches (store w') = batches (store w)"
    "batch_items (store w') = batch_items (store w)"
    "outbox (store w') = outbox (store w)"
    "audit (store w') = audit (store w)"
    "callers (store w') = callers (store w)"
  using assms by (cases "store w"; cases "store w'"; simp add: data_def)+

section \<open>Entering a scope\<close>

text \<open>
  What a successful scoped operation did before and around its body, in one step each: the scope it
  ran under, the evidence it wrote, and a body run in a world that differs from the caller's by the
  evidence and the bookkeeping alone.
\<close>

definition with_audit :: "access list \<Rightarrow> store \<Rightarrow> store" where
  "with_audit rows s = s\<lparr>audit := audit s @ rows\<rparr>"

definition entered :: "access list \<Rightarrow> world \<Rightarrow> world \<Rightarrow> bool" where
  "entered rows w w1 \<longleftrightarrow> data w1 = with_audit rows (data w)"

lemma entered_fields:
  assumes "entered rows w w1"
  shows "tenants (store w1) = tenants (store w)"
    "provisioning (store w1) = provisioning (store w)"
    "tenant_events (store w1) = tenant_events (store w)"
    "memberships (store w1) = memberships (store w)"
    "membership_events (store w1) = membership_events (store w)"
    "organizations (store w1) = organizations (store w)"
    "workspaces (store w1) = workspaces (store w)"
    "offboardings (store w1) = offboardings (store w)"
    "obligations (store w1) = obligations (store w)"
    "freezes (store w1) = freezes (store w)"
    "invitations (store w1) = invitations (store w)"
    "batches (store w1) = batches (store w)"
    "batch_items (store w1) = batch_items (store w)"
    "outbox (store w1) = outbox (store w)"
    "audit (store w1) = audit (store w) @ rows"
    "callers (store w1) = callers (store w)"
  using assms by (cases "store w"; cases "store w1"; simp add: entered_def data_def with_audit_def)+

lemma RecordAccessInTx_run:
  "RecordAccessInTx env a w = (Inr u, w') \<longleftrightarrow>
     \<not> IsNil (ac_actor a) \<and> \<not> IsNil (ac_correlation a) \<and> ac_reason a \<noteq> [] \<and> authorized a \<and>
     (\<exists>i. mint env (minted w) = Some (fst i) \<and> snd i = db_clock env (ticks w) \<and>
        w' = w\<lparr>minted := Suc (minted w), store := with_audit [a\<lparr>ac_id := fst i, ac_occurredAt := snd i\<rparr>] (store w)\<rparr>)"
  by (auto simp: RecordAccessInTx_def run_simps with_audit_def)

lemma RecordProviderAccess_run:
  "RecordProviderAccess env a w = (Inr u, w') \<longleftrightarrow>
     commits env (ticks w) \<and> RecordAccessInTx env a (w\<lparr>ticks := Suc (ticks w)\<rparr>) = (Inr u, w')"
  by (auto simp: RecordProviderAccess_def run_simps RecordAccessInTx_run)

lemma RecordProviderAccess_writes:
  assumes "RecordProviderAccess env a w = (Inr u, w')"
  obtains i where "authorized a" "store w' = with_audit [a\<lparr>ac_id := fst i, ac_occurredAt := snd i\<rparr>] (store w)"
  using assms by (auto simp: RecordProviderAccess_run RecordAccessInTx_run)

lemma ScopeFrom_run [run_simps]:
  "ScopeFrom cx w = (Inr s, w') \<longleftrightarrow> cx_scope cx = Some s \<and> w' = w"
  "ScopeFrom cx w = (Inl e, w') \<longleftrightarrow> cx_scope cx = None \<and> e = ErrNoScope \<and> w' = w"
  by (auto simp: ScopeFrom_def run_simps split: option.splits)

lemma WithTenantScope_enters:
  assumes "WithTenantScope env cx fn w = (Inr x, w')"
  obtains scope cx1 w1 where
    "cx_scope cx = Some scope" "\<not> sc_provider scope" "\<not> sc_consumer scope" "\<not> sc_self scope"
    "\<not> IsNil (sc_tenant scope)" "marked cx cx1" "entered [] w w1"
    "fn (bindTenant scope) cx1 w1 = (Inr x, w')"
proof -
  from assms obtain scope cx1 w1 where
    s: "cx_scope cx = Some scope" "\<not> sc_provider scope" "\<not> sc_consumer scope" "\<not> sc_self scope"
      "\<not> IsNil (sc_tenant scope)"
    and c: "claimWithin env cx (w\<lparr>ticks := Suc (ticks w)\<rparr>) = (Inr cx1, w1)"
    and f: "fn (bindTenant scope) cx1 w1 = (Inr x, w')"
    by (auto simp: WithTenantScope_def run_simps)
  have "entered [] w w1"
    using claimWithin_run(1)[OF c] by (simp add: entered_def bookkept_def with_audit_def data_def)
  then show thesis
    using that s f claimWithin_run(2)[OF c] by blast
qed

lemma withRecordedScope_enters_at:
  assumes "withRecordedScope env cx reason False consumer fn w = (Inr x, w')"
  obtains scope i cx1 w1 where
    "cx_scope cx = Some scope" "\<not> sc_self scope" "if consumer then sc_consumer scope else sc_provider scope"
    "reason \<noteq> []" "authorized (Evidence scope cx reason)" "marked cx cx1"
    "entered [(Evidence scope cx reason)\<lparr>ac_id := fst i, ac_occurredAt := snd i\<rparr>] w w1" "fn BoundProvider cx1 w1 = (Inr x, w')"
    "ticks w1 = Suc (Suc (ticks w))"
proof -
  from assms obtain scope cx1 w0 w1 where
    s: "cx_scope cx = Some scope" "\<not> sc_self scope" "if consumer then sc_consumer scope else sc_provider scope"
      "reason \<noteq> []"
    and p: "RecordProviderAccess env (Evidence scope cx reason) w = (Inr (), w0)"
    and c: "claimWithin env cx (w0\<lparr>ticks := Suc (ticks w0)\<rparr>) = (Inr cx1, w1)"
    and f: "fn BoundProvider cx1 w1 = (Inr x, w')"
    by (cases consumer) (auto simp: withRecordedScope_def run_simps)
  from p obtain i where a: "authorized (Evidence scope cx reason)"
    and r: "store w0 = with_audit [(Evidence scope cx reason)\<lparr>ac_id := fst i, ac_occurredAt := snd i\<rparr>] (store w)"
    by (rule RecordProviderAccess_writes)
  have "entered [(Evidence scope cx reason)\<lparr>ac_id := fst i, ac_occurredAt := snd i\<rparr>] w w1"
    using claimWithin_run(1)[OF c] r by (simp add: entered_def bookkept_def with_audit_def data_def)
  moreover have "ticks w1 = Suc (Suc (ticks w))"
    using claimWithin_run(1)[OF c] p by (auto simp: bookkept_def RecordProviderAccess_run RecordAccessInTx_run)
  ultimately show thesis
    using that s a f claimWithin_run(2)[OF c] by blast
qed

lemma withRecordedScope_enters:
  assumes "withRecordedScope env cx reason False consumer fn w = (Inr x, w')"
  obtains scope i cx1 w1 where
    "cx_scope cx = Some scope" "\<not> sc_self scope" "if consumer then sc_consumer scope else sc_provider scope"
    "reason \<noteq> []" "authorized (Evidence scope cx reason)" "marked cx cx1"
    "entered [(Evidence scope cx reason)\<lparr>ac_id := fst i, ac_occurredAt := snd i\<rparr>] w w1" "fn BoundProvider cx1 w1 = (Inr x, w')"
  using assms by (rule withRecordedScope_enters_at)

lemma WithProviderScope_enters:
  assumes "WithProviderScope env cx reason fn w = (Inr x, w')"
  obtains scope i cx1 w1 where
    "cx_scope cx = Some scope" "sc_provider scope" "marked cx cx1"
    "entered [(Evidence scope cx reason)\<lparr>ac_id := fst i, ac_occurredAt := snd i\<rparr>] w w1" "fn BoundProvider cx1 w1 = (Inr x, w')"
  using assms unfolding WithProviderScope_def by (rule withRecordedScope_enters) (auto split: if_splits)

lemma WithProviderScope_enters_at:
  assumes "WithProviderScope env cx reason fn w = (Inr x, w')"
  obtains scope i cx1 w1 where
    "cx_scope cx = Some scope" "sc_provider scope" "marked cx cx1"
    "entered [(Evidence scope cx reason)\<lparr>ac_id := fst i, ac_occurredAt := snd i\<rparr>] w w1" "fn BoundProvider cx1 w1 = (Inr x, w')"
    "ticks w1 = Suc (Suc (ticks w))"
  using assms unfolding WithProviderScope_def by (rule withRecordedScope_enters_at) (auto split: if_splits)

lemma WithProviderInTenant_enters:
  assumes "WithProviderInTenant env cx tenantID reason fn w = (Inr x, w')"
  obtains scope acting i cx1 w1 where
    "cx_scope cx = Some scope" "sc_provider scope" "\<not> IsNil tenantID" "reason \<noteq> []"
    "acting = zero_scope\<lparr>sc_tenant := tenantID, sc_actor := sc_actor scope,
       sc_correlation := sc_correlation scope, sc_acting := True, sc_authority := sc_authority scope\<rparr>"
    "marked (cx\<lparr>cx_scope := Some acting\<rparr>) cx1"
    "entered [(Evidence acting cx reason)\<lparr>ac_id := fst i, ac_occurredAt := snd i\<rparr>] w w1"
    "fn (BoundTenant tenantID (Some (sc_actor scope))) cx1 w1 = (Inr x, w')"
proof -
  from assms obtain scope where
    s: "cx_scope cx = Some scope" "sc_provider scope" "\<not> IsNil tenantID" "reason \<noteq> []"
    by (auto simp: WithProviderInTenant_def run_simps Let_def)
  define acting where "acting = zero_scope\<lparr>sc_tenant := tenantID, sc_actor := sc_actor scope,
       sc_correlation := sc_correlation scope, sc_acting := True, sc_authority := sc_authority scope\<rparr>"
  from assms s obtain cx1 w0 w1 where
    p: "RecordProviderAccess env (Evidence acting cx reason) w = (Inr (), w0)"
    and c: "claimWithin env (cx\<lparr>cx_scope := Some acting\<rparr>) (w0\<lparr>ticks := Suc (ticks w0)\<rparr>) = (Inr cx1, w1)"
    and f: "fn (bindTenant acting) cx1 w1 = (Inr x, w')"
    by (auto simp: WithProviderInTenant_def run_simps Let_def acting_def[symmetric])
  from p obtain i where
    r: "store w0 = with_audit [(Evidence acting cx reason)\<lparr>ac_id := fst i, ac_occurredAt := snd i\<rparr>] (store w)"
    by (rule RecordProviderAccess_writes)
  have "entered [(Evidence acting cx reason)\<lparr>ac_id := fst i, ac_occurredAt := snd i\<rparr>] w w1"
    using claimWithin_run(1)[OF c] r by (simp add: entered_def bookkept_def with_audit_def data_def)
  moreover have "bindTenant acting = BoundTenant tenantID (Some (sc_actor scope))"
    by (simp add: acting_def bindTenant_def)
  ultimately show thesis
    using that s acting_def f claimWithin_run(2)[OF c] by simp
qed

section \<open>What a refused operation leaves\<close>

text \<open>
  A refused operation leaves every table as it found it but the evidence of its attempt: at most one
  record, written and committed before the transaction of the work was opened.
\<close>

definition attempted :: "world \<Rightarrow> world \<Rightarrow> bool" where
  "attempted w w' \<longleftrightarrow> (\<exists>rows. length rows \<le> 1 \<and> store w' = with_audit rows (store w))"

definition undone :: "world \<Rightarrow> world \<Rightarrow> bool" where
  "undone w w' \<longleftrightarrow> store w' = store w"

definition aborts :: "(world \<Rightarrow> world \<Rightarrow> bool) \<Rightarrow> 'a tx \<Rightarrow> bool" where
  "aborts Q m \<longleftrightarrow> (\<forall>w e w'. m w = (Inl e, w') \<longrightarrow> Q w w')"

definition quiet :: "'a tx \<Rightarrow> bool" where
  "quiet m \<longleftrightarrow> (\<forall>w r w'. m w = (r, w') \<longrightarrow> store w' = store w)"

lemma aborts_seq_quiet:
  assumes "quiet m" "\<And>x. aborts undone (f x)"
  shows "aborts undone (seq m f)"
  using assms unfolding aborts_def quiet_def undone_def seq_run by metis

lemma aborts_seq_quiet_attempted:
  assumes "quiet m" "\<And>x. aborts attempted (f x)"
  shows "aborts attempted (seq m f)"
  unfolding aborts_def
proof (intro allI impI)
  fix w e w' assume "seq m f w = (Inl e, w')"
  then consider "m w = (Inl e, w')" | x w1 where "m w = (Inr x, w1)" "f x w1 = (Inl e, w')"
    by (auto simp: run_simps)
  then show "attempted w w'"
  proof cases
    case 1
    then have "store w' = with_audit [] (store w)"
      using assms(1) by (simp add: quiet_def with_audit_def)
    then show ?thesis
      unfolding attempted_def by (intro exI[of _ "[]"]) simp
  next
    case (2 x w1)
    then show ?thesis
      using assms unfolding aborts_def quiet_def attempted_def by metis
  qed
qed

lemma quiet_steps:
  "quiet (return x)" "quiet (raise e)" "quiet (lift r)" "quiet (ensure P e')" "quiet (gets g)"
  "quiet (now env)" "quiet (newID env)" "quiet (ScopeFrom cx)" "quiet (read_db h)" "quiet (hook env name)"
  by (auto simp: quiet_def return_def raise_def lift_def ensure_def gets_def now_def newID_def
      ScopeFrom_def read_db_def hook_def split: option.splits)

lemma aborts_InTx: "aborts undone (InTx env body)"
  by (auto simp: aborts_def undone_def dest: InTx_rolls_back)

lemma aborts_seq_return:
  "aborts Q m \<Longrightarrow> aborts Q (seq m (\<lambda>x. return (f x)))"
  by (auto simp: aborts_def run_simps)

lemma RecordProviderAccess_aborts: "aborts undone (RecordProviderAccess env a)"
  unfolding RecordProviderAccess_def
  by (intro aborts_seq_quiet quiet_steps aborts_InTx)

lemma recorded_aborts:
  "aborts attempted (seq (RecordProviderAccess env a) (\<lambda>_. InTx env body))"
  unfolding aborts_def
proof (intro allI impI)
  fix w e w' assume "seq (RecordProviderAccess env a) (\<lambda>_. InTx env body) w = (Inl e, w')"
  then consider "RecordProviderAccess env a w = (Inl e, w')"
    | w1 where "RecordProviderAccess env a w = (Inr (), w1)" "InTx env body w1 = (Inl e, w')"
    by (auto simp: run_simps)
  then show "attempted w w'"
  proof cases
    case 1
    then have "store w' = with_audit [] (store w)"
      using RecordProviderAccess_aborts by (auto simp: aborts_def undone_def with_audit_def)
    then show ?thesis
      unfolding attempted_def by (intro exI[of _ "[]"]) simp
  next
    case 2
    then obtain i where "store w' = with_audit [a\<lparr>ac_id := fst i, ac_occurredAt := snd i\<rparr>] (store w)"
      by (metis RecordProviderAccess_writes InTx_rolls_back)
    then show ?thesis
      unfolding attempted_def by (intro exI[of _ "[a\<lparr>ac_id := fst i, ac_occurredAt := snd i\<rparr>]"]) simp
  qed
qed

lemma WithTenantScope_aborts: "aborts undone (WithTenantScope env cx fn)"
  unfolding WithTenantScope_def by (intro aborts_seq_quiet quiet_steps aborts_InTx)

lemma withRecordedScope_aborts: "aborts attempted (withRecordedScope env cx reason snapshot consumer fn)"
  unfolding withRecordedScope_def
  by (intro aborts_seq_quiet_attempted quiet_steps recorded_aborts)

lemma WithProviderScope_aborts: "aborts attempted (WithProviderScope env cx reason fn)"
  unfolding WithProviderScope_def by (rule withRecordedScope_aborts)

lemma WithProviderInTenant_aborts: "aborts attempted (WithProviderInTenant env cx tenantID reason fn)"
  unfolding WithProviderInTenant_def Let_def
  by (intro aborts_seq_quiet_attempted quiet_steps recorded_aborts)

lemma WithSelfInTenant_aborts: "aborts undone (WithSelfInTenant env cx tenantID fn)"
  unfolding WithSelfInTenant_def Let_def by (intro aborts_seq_quiet quiet_steps aborts_InTx)

lemma aborts_raise: "aborts attempted (raise e)"
  unfolding aborts_def
proof (intro allI impI)
  fix w w' :: world and e' assume "raise e w = (Inl e', w')"
  then have "store w' = with_audit [] (store w)" by (simp add: raise_def with_audit_def)
  then show "attempted w w'" unfolding attempted_def by (intro exI[of _ "[]"]) simp
qed

lemma undone_attempted: "aborts undone m \<Longrightarrow> aborts attempted m"
  unfolding aborts_def
proof (intro allI impI)
  fix w e w' assume "\<forall>w e w'. m w = (Inl e, w') \<longrightarrow> undone w w'" "m w = (Inl e, w')"
  then have "store w' = store w" by (simp add: undone_def)
  then have "store w' = with_audit [] (store w)" by (simp add: with_audit_def)
  then show "attempted w w'" unfolding attempted_def by (intro exI[of _ "[]"]) simp
qed

section \<open>Whole operations as steps of the store\<close>

text \<open>
  \<open>always R m\<close>: whatever \<open>m\<close> answers, the store it leaves is \<open>R\<close>-related to the one it found. Inside
  a transaction it is enough that a run that succeeds is related, because a run that fails is undone.
  A relation that tolerates the bookkeeping every operation does (evidence, claims, published
  messages and the event tables beside them) is a \<open>table_relation\<close>.
\<close>

definition always :: "(store \<Rightarrow> store \<Rightarrow> bool) \<Rightarrow> 'a tx \<Rightarrow> bool" where
  "always R m \<longleftrightarrow> (\<forall>w r w'. m w = (r, w') \<longrightarrow> R (store w) (store w'))"

lemma alwaysD: "always R m \<Longrightarrow> m w = (r, w') \<Longrightarrow> R (store w) (store w')"
  by (auto simp: always_def)

context store_relation
begin

lemma a_quiet: "quiet m \<Longrightarrow> always R m"
  by (simp add: always_def quiet_def store_refl)

lemma a_seq: "always R m \<Longrightarrow> (\<And>x. always R (f x)) \<Longrightarrow> always R (seq m f)"
  unfolding always_def seq_def by (auto split: prod.splits sum.splits) (metis store_trans)

lemma a_seq_quiet: "quiet m \<Longrightarrow> (\<And>x. always R (f x)) \<Longrightarrow> always R (seq m f)"
  by (rule a_seq[OF a_quiet])

lemma a_return: "always R (return x)"
  by (simp add: a_quiet quiet_steps)

lemma a_raise: "always R (raise e)"
  by (simp add: a_quiet quiet_steps)

lemma a_if: "(P \<Longrightarrow> always R m) \<Longrightarrow> (\<not> P \<Longrightarrow> always R n) \<Longrightarrow> always R (if P then m else n)"
  by simp

lemma a_option:
  "(x = None \<Longrightarrow> always R m) \<Longrightarrow> (\<And>y. x = Some y \<Longrightarrow> always R (f y)) \<Longrightarrow>
   always R (case x of None \<Rightarrow> m | Some y \<Rightarrow> f y)"
  by (cases x) auto

lemma a_caught: "always R m \<Longrightarrow> always R (caught m)"
  by (auto simp: always_def run_simps caught_def split: prod.splits)

lemma a_InTx: "yields (on_store R) m \<Longrightarrow> always R (InTx env m)"
  unfolding always_def
proof (intro allI impI)
  fix w r w' assume y: "yields (on_store R) m" and run: "InTx env m w = (r, w')"
  show "R (store w) (store w')"
  proof (cases r)
    case (Inl e)
    then show ?thesis using run InTx_rolls_back store_refl by metis
  next
    case (Inr x)
    then show ?thesis using run yieldsD[OF y] by (fastforce simp: run_simps on_store_def)
  qed
qed

lemma a_InTx_read_only: "always R (InTx env (read_only m))"
  by (rule a_InTx) (auto simp: yields_def run_simps on_store_def store_refl)

end

locale table_relation = store_relation R for R +
  assumes keeps_idem: "R s (s\<lparr>idem_log := calls\<rparr>)"
    and keeps_audit: "R s (s\<lparr>audit := rows\<rparr>)"
    and keeps_outbox: "R s (s\<lparr>outbox := messages\<rparr>)"
    and keeps_tenant_events: "R s (s\<lparr>tenant_events := tevents\<rparr>)"
    and keeps_membership_events: "R s (s\<lparr>membership_events := mevents\<rparr>)"
begin

lemma y_set_pend: "yields (on_store R) (set_pend p)"
  by (auto simp: yields_def set_pend_def run_simps on_store_def store_refl)

lemma y_claimWithin: "yields (on_store R) (claimWithin env cx)"
  unfolding claimWithin_def idempotency_Claim_def
  by (intro y_set_pend y_store_intros keeps_idem)
    (simp split: idem_reply.split, auto intro!: y_set_pend y_store_intros)

lemma y_Respond: "yields (on_store R) (Respond env cx result)"
  unfolding Respond_def
  by (intro y_set_pend y_store_intros keeps_idem)
    (simp split: prod.split, auto intro!: y_set_pend y_store_intros keeps_idem)

lemma y_published: "yields (on_store R) (publish env aggregate etype at body priority)"
  by (rule y_publish) (rule keeps_outbox)

lemma y_RecordAccessInTx: "yields (on_store R) (RecordAccessInTx env a)"
  unfolding RecordAccessInTx_def by (intro y_store_intros keeps_audit)

lemma a_RecordProviderAccess: "always R (RecordProviderAccess env a)"
  unfolding RecordProviderAccess_def
  by (intro a_seq_quiet quiet_steps a_InTx y_RecordAccessInTx)

lemma y_marked_body:
  assumes "\<And>cx'. marked cx cx' \<Longrightarrow> yields (on_store R) (fn cx')"
  shows "yields (on_store R) (seq (claimWithin env cx) fn)"
proof (rule yieldsI)
  fix w x w' assume "seq (claimWithin env cx) fn w = (Inr x, w')"
  then obtain cx' w1 where c: "claimWithin env cx w = (Inr cx', w1)" and f: "fn cx' w1 = (Inr x, w')"
    by (auto simp: run_simps)
  have "on_store R w w1" using y_claimWithin c by (rule yieldsD)
  moreover have "on_store R w1 w'" using assms[OF claimWithin_run(2)[OF c]] f by (rule yieldsD)
  ultimately show "on_store R w w'" by (rule sr.step_trans)
qed

lemma a_ScopeFrom:
  assumes "\<And>scope. cx_scope cx = Some scope \<Longrightarrow> always R (f scope)"
  shows "always R (seq (ScopeFrom cx) f)"
  using assms by (cases "cx_scope cx") (auto simp: ScopeFrom_def a_raise)

lemma a_WithTenantScope:
  assumes "\<And>scope cx'. cx_scope cx = Some scope \<Longrightarrow> marked cx cx' \<Longrightarrow>
      yields (on_store R) (fn (bindTenant scope) cx')"
  shows "always R (WithTenantScope env cx fn)"
  unfolding WithTenantScope_def
  by (intro a_ScopeFrom a_seq_quiet quiet_steps a_InTx y_marked_body assms)

lemma a_withRecordedScope:
  assumes "\<And>scope cx'. cx_scope cx = Some scope \<Longrightarrow> marked cx cx' \<Longrightarrow>
      yields (on_store R) (fn BoundProvider cx')"
  shows "always R (withRecordedScope env cx reason False consumer fn)"
  unfolding withRecordedScope_def if_False
  by (intro a_ScopeFrom a_seq[OF a_RecordProviderAccess] a_seq_quiet[OF quiet_steps(4)] a_InTx
      y_marked_body assms)

lemma a_WithProviderScope:
  assumes "\<And>scope cx'. cx_scope cx = Some scope \<Longrightarrow> marked cx cx' \<Longrightarrow>
      yields (on_store R) (fn BoundProvider cx')"
  shows "always R (WithProviderScope env cx reason fn)"
  unfolding WithProviderScope_def by (rule a_withRecordedScope) (rule assms)

lemma a_WithProviderInTenant:
  assumes "\<And>actor scope cx'. marked (cx\<lparr>cx_scope := Some scope\<rparr>) cx' \<Longrightarrow> sc_tenant scope = tenantID \<Longrightarrow>
      yields (on_store R) (fn (BoundTenant tenantID (Some actor)) cx')"
  shows "always R (WithProviderInTenant env cx tenantID reason fn)"
  unfolding WithProviderInTenant_def Let_def bindTenant_def
  by (intro a_ScopeFrom a_seq[OF a_RecordProviderAccess] a_seq_quiet[OF quiet_steps(4)] a_InTx
      y_marked_body, simp, rule assms, auto)

lemma a_WithSelfInTenant:
  assumes "\<And>scope cx'. marked (cx\<lparr>cx_scope := Some scope\<rparr>) cx' \<Longrightarrow> sc_tenant scope = tenantID \<Longrightarrow>
      yields (on_store R) (fn (BoundTenant tenantID None) cx')"
  shows "always R (WithSelfInTenant env cx tenantID fn)"
  unfolding WithSelfInTenant_def Let_def bindTenant_def
  by (intro a_ScopeFrom a_seq_quiet[OF quiet_steps(4)] a_InTx y_marked_body, simp add: zero_scope_def,
      rule assms, auto)

lemma a_reads:
  "always R (WithTenantRead env cx fn)"
  "always R (WithSelfRead env cx fn)"
  "always R (WithSelfInvitation env cx h fn)"
  "always R (WithInvitationResolver env cx h fn)"
  unfolding WithTenantRead_def WithSelfRead_def WithSelfInvitation_def WithInvitationResolver_def
  by (intro a_ScopeFrom a_seq[OF a_RecordProviderAccess] a_seq_quiet[OF quiet_steps(4)] a_InTx_read_only)+

text \<open>An operation of one transaction whose success is known by its effect on the data.\<close>

lemma a_by_effect:
  assumes "aborts attempted m" "\<And>w x w'. m w = (Inr x, w') \<Longrightarrow> R (data w) (data w')"
  shows "always R m"
  unfolding always_def
proof (intro allI impI)
  fix w r w' assume run: "m w = (r, w')"
  show "R (store w) (store w')"
  proof (cases r)
    case (Inl e)
    then obtain rows where "store w' = with_audit rows (store w)"
      using assms(1) run unfolding aborts_def attempted_def by blast
    then show ?thesis by (simp add: with_audit_def keeps_audit)
  next
    case (Inr x)
    have "R (store w) (data w)" by (simp add: data_def keeps_idem)
    moreover have "R (data w) (data w')" using assms(2) run Inr by simp
    moreover have "R (data w') (store w')"
    proof -
      have "store w' = (data w')\<lparr>idem_log := idem_log (store w')\<rparr>" by (simp add: data_def)
      then show ?thesis using keeps_idem by metis
    qed
    ultimately show ?thesis using store_trans by blast
  qed
qed

end

end
