(* ===== verification/Optimistic.thy ===== *)
theory Optimistic
  imports Scope_Binding
begin

text \<open>
  The contract of a command that carries the version its caller was shown. It succeeds only on that
  version and leaves the next one, and versions never fall; so of two callers who were shown the same
  version at most one succeeds, whatever ran in between.
\<close>

locale optimistic =
  fixes run :: "'c \<Rightarrow> 'r tx"
    and target :: "'c \<Rightarrow> uuid"
    and expected :: "'c \<Rightarrow> int"
    and version_of :: "uuid \<Rightarrow> store \<Rightarrow> int option"
    and later :: "store \<Rightarrow> store \<Rightarrow> bool"
  assumes needs: "run c w = (Inr r, w') \<Longrightarrow> version_of (target c) (store w) = Some (expected c)"
    and bumps: "run c w = (Inr r, w') \<Longrightarrow> version_of (target c) (store w') = Some (expected c + 1)"
    and grows: "later s s' \<Longrightarrow> version_of k s = Some v \<Longrightarrow> \<exists>v' \<ge> v. version_of k s' = Some v'"
begin

lemma no_lost_update:
  assumes first: "run c w = (Inr r, w')" and between: "later (store w') (store v)"
    and same: "target d = target c" "expected d = expected c"
  shows "\<exists>e. fst (run d v) = Inl e"
proof (cases "run d v")
  case (Pair res v')
  obtain n where n: "n \<ge> expected c + 1" "version_of (target c) (store v) = Some n"
    using grows[OF between bumps[OF first]] by blast
  show ?thesis
  proof (cases res)
    case (Inr x)
    then have "version_of (target d) (store v) = Some (expected d)"
      using Pair needs by simp
    then show ?thesis using n same by simp
  qed (simp add: Pair)
qed

end

end
