(* ===== verification/Tenant_Service.thy ===== *)
theory Tenant_Service
  imports Optimistic
begin

text \<open>
  Authoritative Tenant transitions: \<open>src/internal/tenant/service.go\<close> and the row, command and payload
  of \<open>tenant/state.go\<close>. Every UPDATE constant of the package is a transformer of one row; the lemma
  that each is the one its rule in \<open>transitions\<close> asks for is what
  \<open>TestEveryTransitionStatementMatchesItsRule\<close> tests.
\<close>

section \<open>Commands\<close>

record tenant_command =
  tc_tenant :: uuid
  tc_reason :: string
  tc_expectedVersion :: int

definition tenant_validate :: "tenant_command \<Rightarrow> error + unit" where
  "tenant_validate c =
     (if IsNil (tc_tenant c) then Inl (ErrInvalid PkgTenant)
      else if tc_reason c = [] then Inl (ErrInvalid PkgTenant)
      else if tc_expectedVersion c \<le> 0 then Inl (ErrInvalid PkgTenant)
      else Inr ())"

definition tenant_NewPayload :: "tenant_head \<Rightarrow> tenant_payload" where
  "tenant_NewPayload t =
     \<lparr>tp_tenant = th_tenant t, tp_organization = th_organization t, tp_status = th_status t,
      tp_version = th_version t, tp_securityVersion = th_securityVersion t\<rparr>"

definition Narrow :: "tenant_record \<Rightarrow> tenant_head" where
  "Narrow r =
     \<lparr>th_tenant = TenantID r, th_organization = OrganizationID r, th_status = Status r,
      th_version = Version r, th_securityVersion = SecurityVersion r\<rparr>"

section \<open>Statements\<close>

text \<open>\<open>FOR UPDATE\<close> by primary key, under the policy of the binding.\<close>

definition tenant_row :: "binding \<Rightarrow> uuid \<Rightarrow> store \<Rightarrow> tenant_record option" where
  "tenant_row b tenantID s =
     (case row_of TenantID tenantID (tenants s) of
        Some r \<Rightarrow> if sees b (TenantID r) then Some r else None
      | None \<Rightarrow> None)"

definition tenant_load :: "binding \<Rightarrow> uuid \<Rightarrow> tenant_head tx" where
  "tenant_load b tenantID =
     seq (read_db (tenant_row b tenantID)) (\<lambda>row.
     case row of
       None \<Rightarrow> raise (ErrNotFound PkgTenant)
     | Some r \<Rightarrow>
         seq (ensure (tenant_Valid (Status r)) (ErrInternal ''stored status'')) (\<lambda>_.
         return (Narrow r)))"

definition bump_version :: "tenant_record \<Rightarrow> error + tenant_record" where
  "bump_version r = (case bigint_incr (Version r) of Inl e \<Rightarrow> Inl e | Inr v \<Rightarrow> Inr (r\<lparr>Version := v\<rparr>))"

definition bump_versions :: "tenant_record \<Rightarrow> error + tenant_record" where
  "bump_versions r =
     (case bump_version r of
        Inl e \<Rightarrow> Inl e
      | Inr r' \<Rightarrow>
          (case bigint_incr (SecurityVersion r) of
             Inl e \<Rightarrow> Inl e
           | Inr v \<Rightarrow> Inr (r'\<lparr>SecurityVersion := v\<rparr>)))"

type_synonym tenant_statement = "tenant_state \<Rightarrow> instant \<Rightarrow> tenant_record \<Rightarrow> error + tenant_record"

definition applyPlain :: tenant_statement where
  "applyPlain next at r = map_sum id (\<lambda>r. r\<lparr>Status := next\<rparr>) (bump_version r)"

definition applyActivate :: tenant_statement where
  "applyActivate next at r = map_sum id (\<lambda>r. r\<lparr>Status := next, ActivatedAt := Some at\<rparr>) (bump_version r)"

definition applySuspend :: tenant_statement where
  "applySuspend next at r = map_sum id (\<lambda>r. r\<lparr>Status := next, SuspendedAt := Some at\<rparr>) (bump_versions r)"

definition applyRestore :: tenant_statement where
  "applyRestore next at r = map_sum id (\<lambda>r. r\<lparr>Status := next, SuspendedAt := None\<rparr>) (bump_versions r)"

definition applyBeginOffboarding :: tenant_statement where
  "applyBeginOffboarding next at r =
     map_sum id (\<lambda>r. r\<lparr>Status := next, OffboardingStartedAt := Some at\<rparr>) (bump_versions r)"

definition applyRetire :: tenant_statement where
  "applyRetire next at r = map_sum id (\<lambda>r. r\<lparr>Status := next, RetiredAt := Some at\<rparr>) (bump_versions r)"

definition applyCancelOffboarding :: tenant_statement where
  "applyCancelOffboarding next at r =
     map_sum id (\<lambda>r. r\<lparr>Status := next, OffboardingStartedAt := None\<rparr>) (bump_versions r)"

fun applyStatement :: "tenant_action \<Rightarrow> tenant_statement option" where
  "applyStatement TenantProvision = Some applyPlain"
| "applyStatement TenantFail = Some applyPlain"
| "applyStatement TenantActivate = Some applyActivate"
| "applyStatement TenantSuspend = Some applySuspend"
| "applyStatement TenantRestore = Some applyRestore"
| "applyStatement TenantBeginOffboarding = Some applyBeginOffboarding"
| "applyStatement TenantRetire = Some applyRetire"
| "applyStatement TenantCancelOffboardingToActive = Some applyCancelOffboarding"
| "applyStatement TenantCancelOffboardingToSuspended = Some applyCancelOffboarding"
| "applyStatement (TenantActionOther _) = None"

definition tenant_apply ::
  "binding \<Rightarrow> tenant_action \<Rightarrow> uuid \<Rightarrow> tenant_state \<Rightarrow> instant \<Rightarrow> (int \<times> int) tx" where
  "tenant_apply b action tenantID next acceptedAt =
     (case applyStatement action of
        None \<Rightarrow> raise (ErrUnknownAction PkgTenant)
      | Some statement \<Rightarrow>
          seq (read_db (tenant_row b tenantID)) (\<lambda>row.
          case row of
            None \<Rightarrow> raise (ErrInternal ''apply: no row'')
          | Some r \<Rightarrow>
              seq (lift (statement next acceptedAt r)) (\<lambda>r'.
              seq (write_db (\<lambda>s. s\<lparr>tenants := put_row TenantID r' (tenants s)\<rparr>)) (\<lambda>_.
              return (Version r', SecurityVersion r')))))"

text \<open>The event table's keys: the event identifier, and one event per security version of a Tenant.\<close>

definition recordTenantEvent :: "uuid \<Rightarrow> uuid \<Rightarrow> int \<Rightarrow> string \<Rightarrow> unit tx" where
  "recordTenantEvent eventID tenantID securityVersion etype =
     seq (read_db (\<lambda>s. list_ex (\<lambda>r. te_event r = eventID \<or>
            (te_tenant r = tenantID \<and> te_securityVersion r = securityVersion)) (tenant_events s))) (\<lambda>clash.
     seq (ensure (\<not> clash) (ErrInternal ''tenant_event keys'')) (\<lambda>_.
     write_db (\<lambda>s. s\<lparr>tenant_events := tenant_events s @
       [\<lparr>te_event = eventID, te_tenant = tenantID, te_securityVersion = securityVersion, te_type = etype\<rparr>]\<rparr>)))"

definition tenant_appendEvent ::
  "env \<Rightarrow> tenant_action \<Rightarrow> tenant_head \<Rightarrow> instant \<Rightarrow> bool tx" where
  "tenant_appendEvent env action record occurredAt =
     seq (hook env ''tenant.beforeAppend'') (\<lambda>_.
     seq (lift (tenant_EventType (parses env) action)) (\<lambda>etype.
     case etype of
       None \<Rightarrow> return False
     | Some eventType \<Rightarrow>
         seq (publish env (th_tenant record) eventType occurredAt
                (TenantPayload (tenant_NewPayload record)) (tenant_Priority action)) (\<lambda>eventID.
         seq (recordTenantEvent eventID (th_tenant record) (th_securityVersion record) eventType) (\<lambda>_.
         return True))))"

section \<open>The transition\<close>

type_synonym tenant_guard = "tenant_head \<Rightarrow> unit tx"

definition no_guard :: tenant_guard where
  "no_guard current = return ()"

definition tenant_transitionWithin ::
  "env \<Rightarrow> binding \<Rightarrow> tenant_action \<Rightarrow> tenant_command \<Rightarrow> tenant_guard \<Rightarrow> tenant_result tx" where
  "tenant_transitionWithin env b action cmd check =
     seq (now env) (\<lambda>acceptedAt.
     seq (tenant_load b (tc_tenant cmd)) (\<lambda>current.
     seq (lift (tenant_Resolve action (th_status current))) (\<lambda>next.
     seq (ensure (th_version current = tc_expectedVersion cmd) (ErrVersionMismatch PkgTenant)) (\<lambda>_.
     seq (check current) (\<lambda>_.
     seq (tenant_apply b action (tc_tenant cmd) next acceptedAt) (\<lambda>updated.
     let current' = current\<lparr>th_status := next, th_version := fst updated, th_securityVersion := snd updated\<rparr>
     in seq (tenant_appendEvent env action current' acceptedAt) (\<lambda>published.
        return \<lparr>tr_tenant = current', tr_acceptedAt = acceptedAt, tr_published = published\<rparr>)))))))"

definition tenant_TransitionWithin ::
  "env \<Rightarrow> binding \<Rightarrow> tenant_action \<Rightarrow> tenant_command \<Rightarrow> tenant_result tx" where
  "tenant_TransitionWithin env b action cmd =
     seq (lift (tenant_validate cmd)) (\<lambda>_. tenant_transitionWithin env b action cmd no_guard)"

definition tenant_transition ::
  "env \<Rightarrow> ctx \<Rightarrow> tenant_action \<Rightarrow> tenant_command \<Rightarrow> (binding \<Rightarrow> tenant_guard) \<Rightarrow> tenant_result tx" where
  "tenant_transition env cx action cmd check =
     seq (lift (tenant_validate cmd)) (\<lambda>_.
     WithProviderScope env cx (tc_reason cmd) (\<lambda>b cx.
       seq (tenant_transitionWithin env b action cmd (check b)) (\<lambda>result.
       seq (Respond env cx (ResTenant result)) (\<lambda>_.
       return result))))"

section \<open>Activation\<close>

definition is_provision :: "provisioning_request \<Rightarrow> bool" where
  "is_provision r \<longleftrightarrow> pr_operation r = None \<or> pr_operation r = Some OpProvision"

definition latest_provision :: "uuid \<Rightarrow> store \<Rightarrow> provisioning_request option" where
  "latest_provision tenantID s =
     first_row (order_desc (\<lambda>r. (pr_requested_at r, pr_request r))
       (filter (\<lambda>r. pr_tenant r = tenantID \<and> is_provision r) (provisioning s)))"

definition provisioningRealized :: "uuid \<Rightarrow> bool tx" where
  "provisioningRealized tenantID =
     read_db (\<lambda>s. case latest_provision tenantID s of
                    None \<Rightarrow> False
                  | Some r \<Rightarrow> pr_state r = RequestRealized)"

definition sponsorActive :: "uuid \<Rightarrow> unit tx" where
  "sponsorActive organizationID =
     seq (read_db (\<lambda>s. row_of o_id organizationID (organizations s))) (\<lambda>row.
     case row of
       None \<Rightarrow> raise (ErrInternal ''read sponsoring organization'')
     | Some r \<Rightarrow> ensure (o_status r = OrgActive) ErrSponsorNotActive)"

definition activation_guard :: "binding \<Rightarrow> tenant_guard" where
  "activation_guard b current =
     seq (provisioningRealized (th_tenant current)) (\<lambda>realized.
     seq (ensure realized ErrProvisioningNotRealized) (\<lambda>_.
     sponsorActive (th_organization current)))"

definition tenant_Activate :: "env \<Rightarrow> ctx \<Rightarrow> tenant_command \<Rightarrow> tenant_result tx" where
  "tenant_Activate env cx cmd = tenant_transition env cx TenantActivate cmd activation_guard"

definition tenant_Suspend :: "env \<Rightarrow> ctx \<Rightarrow> tenant_command \<Rightarrow> tenant_result tx" where
  "tenant_Suspend env cx cmd = tenant_transition env cx TenantSuspend cmd (\<lambda>_. no_guard)"

definition tenant_Restore :: "env \<Rightarrow> ctx \<Rightarrow> tenant_command \<Rightarrow> tenant_result tx" where
  "tenant_Restore env cx cmd = tenant_transition env cx TenantRestore cmd (\<lambda>_. no_guard)"


section \<open>What a rule asks of a statement\<close>

text \<open>
  The row a rule of \<open>transitions\<close> describes: the destination, the version, the security version when
  the rule increments it, one stamped and one cleared column. The reference every statement is
  compared with.
\<close>

definition stamp_column :: "string \<Rightarrow> instant option \<Rightarrow> tenant_record \<Rightarrow> tenant_record" where
  "stamp_column column v r =
     (if column = ''activated_at'' then r\<lparr>ActivatedAt := v\<rparr>
      else if column = ''suspended_at'' then r\<lparr>SuspendedAt := v\<rparr>
      else if column = ''offboarding_started_at'' then r\<lparr>OffboardingStartedAt := v\<rparr>
      else if column = ''retired_at'' then r\<lparr>RetiredAt := v\<rparr>
      else r)"

definition rule_effect :: "tenant_rule \<Rightarrow> instant \<Rightarrow> tenant_record \<Rightarrow> tenant_record" where
  "rule_effect rule at r =
     stamp_column (r_clear rule) None (stamp_column (r_stamp rule) (Some at)
       (r\<lparr>Status := r_to rule, Version := Version r + 1,
          SecurityVersion := SecurityVersion r + (if r_securityVersion rule then 1 else 0)\<rparr>))"

definition has_room :: "tenant_rule \<Rightarrow> tenant_record \<Rightarrow> bool" where
  "has_room rule r \<longleftrightarrow>
     Version r < bigint_max \<and> (r_securityVersion rule \<longrightarrow> SecurityVersion r < bigint_max)"

lemmas statement_defs =
  applyPlain_def applyActivate_def applySuspend_def applyRestore_def applyBeginOffboarding_def
  applyRetire_def applyCancelOffboarding_def bump_version_def bump_versions_def bigint_incr_def

lemma statement_matches:
  assumes "tenant_transitions action = Some rule"
  obtains statement where "applyStatement action = Some statement"
    "statement (r_to rule) at r =
       (if has_room rule r then Inr (rule_effect rule at r)
        else Inl (ErrInternal ''bigint out of range''))"
proof -
  have "\<exists>statement. applyStatement action = Some statement \<and>
    statement (r_to rule) at r =
       (if has_room rule r then Inr (rule_effect rule at r)
        else Inl (ErrInternal ''bigint out of range''))"
    using assms
    by (cases action; clarsimp; simp add: statement_defs has_room_def rule_effect_def stamp_column_def)
  then show thesis using that by blast
qed

lemma rule_effect_simps [simp]:
  "TenantID (rule_effect rule at r) = TenantID r"
  "OrganizationID (rule_effect rule at r) = OrganizationID r"
  "DisplayName (rule_effect rule at r) = DisplayName r"
  "Status (rule_effect rule at r) = r_to rule"
  "Version (rule_effect rule at r) = Version r + 1"
  "SecurityVersion (rule_effect rule at r) =
     SecurityVersion r + (if r_securityVersion rule then 1 else 0)"
  by (simp_all add: rule_effect_def stamp_column_def)

section \<open>The effect of a transition\<close>

interpretation same: store_relation "(=)"
  by unfold_locales auto

text \<open>A guard that only reads: it may refuse, and a run it lets through changed no table.\<close>

abbreviation reads_only :: "'a tx \<Rightarrow> bool" where
  "reads_only m \<equiv> yields (on_store (=)) m"

lemma reads_only_no_guard: "reads_only (no_guard h)"
  unfolding no_guard_def by (rule same.sr.y_return)

lemma reads_only_activation_guard: "reads_only (activation_guard b h)"
  unfolding activation_guard_def provisioningRealized_def sponsorActive_def
  by (intro same.y_store_intros)

text \<open>The message a transition publishes about the row it wrote, and the table row beside it.\<close>

definition tenant_message :: "tenant_action \<Rightarrow> string \<Rightarrow> instant \<Rightarrow> tenant_record \<Rightarrow> uuid \<Rightarrow> message" where
  "tenant_message action etype at r eventID =
     \<lparr>msg_id = eventID, msg_aggregate = TenantID r, msg_type = etype, msg_at = at,
      msg_payload = TenantPayload (tenant_NewPayload (Narrow r)), msg_priority = tenant_Priority action\<rparr>"

definition tenant_written ::
  "tenant_action \<Rightarrow> instant \<Rightarrow> tenant_record \<Rightarrow> uuid \<Rightarrow> store \<Rightarrow> store" where
  "tenant_written action at r' eventID s =
     (case tenant_eventTypes action of
        None \<Rightarrow> s\<lparr>tenants := put_row TenantID r' (tenants s)\<rparr>
      | Some etype \<Rightarrow>
          s\<lparr>tenants := put_row TenantID r' (tenants s),
            outbox := outbox s @ [tenant_message action etype at r' eventID],
            tenant_events := tenant_events s @
              [\<lparr>te_event = eventID, te_tenant = TenantID r', te_securityVersion = SecurityVersion r',
                te_type = etype\<rparr>]\<rparr>)"

lemma tenant_load_run [run_simps]:
  "tenant_load b tenantID w = (Inr h, w') \<longleftrightarrow>
     (\<exists>r. tenant_row b tenantID (store w) = Some r \<and> tenant_Valid (Status r) \<and> h = Narrow r) \<and> w' = w"
  by (auto simp: tenant_load_def run_simps split: option.splits)

lemma tenant_row_SomeD:
  "tenant_row b tenantID s = Some r \<Longrightarrow>
     row_of TenantID tenantID (tenants s) = Some r \<and> TenantID r = tenantID \<and> sees b tenantID"
  by (auto simp: tenant_row_def split: option.splits if_splits dest: row_of_SomeD)

lemma tenant_silent_iff:
  "tenant_transitions action \<noteq> None \<Longrightarrow> tenant_silentActions action \<longleftrightarrow> tenant_eventTypes action = None"
  by (cases action) auto

lemma tenant_transitionWithin_effect:
  assumes run: "tenant_transitionWithin env b action cmd check w = (Inr result, w')"
    and guard: "\<And>h. yields (kept (\<lambda>w. tenants (store w))) (check h)"
  obtains r rule w1 w2 eventID where
    "tenant_row b (tc_tenant cmd) (store w) = Some r" "tenant_Valid (Status r)"
    "tenant_transitions action = Some rule" "tenant_Resolve action (Status r) = Inr (r_to rule)"
    "Version r = tc_expectedVersion cmd" "has_room rule r"
    "store w1 = store w" "check (Narrow r) w1 = (Inr (), w2)"
    "store w' = tenant_written action (clock env (ticks w)) (rule_effect rule (clock env (ticks w)) r)
       eventID (store w2)"
    "result = \<lparr>tr_tenant = Narrow (rule_effect rule (clock env (ticks w)) r),
       tr_acceptedAt = clock env (ticks w), tr_published = (tenant_eventTypes action \<noteq> None)\<rparr>"
proof -
  define at where "at = clock env (ticks w)"
  define w1 where "w1 = w\<lparr>ticks := Suc (ticks w)\<rparr>"
  from run obtain r to w2 updated w3 published where
    r: "tenant_row b (tc_tenant cmd) (store w) = Some r" "tenant_Valid (Status r)"
    and n: "tenant_Resolve action (Status r) = Inr to"
    and v: "Version r = tc_expectedVersion cmd"
    and c: "check (Narrow r) w1 = (Inr (), w2)"
    and a: "tenant_apply b action (tc_tenant cmd) to at w2 = (Inr updated, w3)"
    and e: "tenant_appendEvent env action ((Narrow r)\<lparr>th_status := to, th_version := fst updated,
              th_securityVersion := snd updated\<rparr>) at w3 = (Inr published, w')"
    and res: "result = \<lparr>tr_tenant = (Narrow r)\<lparr>th_status := to, th_version := fst updated,
              th_securityVersion := snd updated\<rparr>, tr_acceptedAt = at, tr_published = published\<rparr>"
    by (auto simp: tenant_transitionWithin_def run_simps Let_def at_def w1_def Narrow_def)
  from n obtain rule where rule: "tenant_transitions action = Some rule" "to = r_to rule"
    by (auto simp: tenant_Resolve_def split: option.splits if_splits)
  have kept: "tenants (store w2) = tenants (store w)"
    using yieldsD[OF guard c] by (simp add: kept_def w1_def)
  then have row2: "tenant_row b (tc_tenant cmd) (store w2) = Some r"
    using r by (simp add: tenant_row_def)
  obtain st where st: "applyStatement action = Some st"
    "st (r_to rule) at r = (if has_room rule r then Inr (rule_effect rule at r)
        else Inl (ErrInternal ''bigint out of range''))"
    using statement_matches[OF rule(1)] by blast
  define r' where "r' = rule_effect rule at r"
  from a st row2 rule(2) have room: "has_room rule r"
    and upd: "updated = (Version r', SecurityVersion r')"
    and w3: "w3 = w2\<lparr>store := (store w2)\<lparr>tenants := put_row TenantID r' (tenants (store w2))\<rparr>\<rparr>"
    by (auto simp: tenant_apply_def run_simps r'_def split: if_splits)
  have head: "(Narrow r)\<lparr>th_status := to, th_version := fst updated, th_securityVersion := snd updated\<rparr>
      = Narrow r'"
    by (simp add: Narrow_def r'_def rule(2) upd)
  have "\<exists>eventID. store w' = tenant_written action at r' eventID (store w2) \<and>
      published = (tenant_eventTypes action \<noteq> None)"
  proof (cases "tenant_eventTypes action")
    case None
    then have "tenant_silentActions action"
      using rule(1) tenant_silent_iff by simp
    then show ?thesis
      using e None w3 by (auto simp: tenant_appendEvent_def tenant_EventType_def run_simps tenant_written_def)
  next
    case (Some etype)
    then have "\<not> tenant_silentActions action"
      using rule(1) tenant_silent_iff by simp
    then show ?thesis
      using e Some w3 unfolding head
      by (auto simp: tenant_appendEvent_def tenant_EventType_def run_simps tenant_written_def
          recordTenantEvent_def tenant_message_def Let_def Narrow_def split: if_splits)
  qed
  then obtain eventID where "store w' = tenant_written action at r' eventID (store w2)"
    "published = (tenant_eventTypes action \<noteq> None)" by blast
  then show thesis
    using that[of r rule w1 w2 eventID] r n v c rule room res head
    by (simp add: w1_def at_def r'_def)
qed


section \<open>Relations every Tenant operation respects\<close>

text \<open>
  A relation that tolerates the two writes of the Tenant table, the insertion of a requested Tenant
  and the effect of a permitted transition, is respected by every operation that moves a Tenant.
\<close>

definition fresh_tenant :: "tenant_record \<Rightarrow> bool" where
  "fresh_tenant r \<longleftrightarrow>
     Status r = TenantRequested \<and> Version r = 1 \<and> SecurityVersion r = 1 \<and> ActivatedAt r = None \<and>
     SuspendedAt r = None \<and> OffboardingStartedAt r = None \<and> RetiredAt r = None"

text \<open>
  \<open>allowed\<close> narrows the actions a relation tolerates: the transitions of this service and of the
  provisioning coordinator always, those that enter and leave an offboarding only when it says so.
\<close>

fun standalone :: "tenant_action \<Rightarrow> bool" where
  "standalone TenantBeginOffboarding = False"
| "standalone TenantRetire = False"
| "standalone TenantCancelOffboardingToActive = False"
| "standalone TenantCancelOffboardingToSuspended = False"
| "standalone _ = True"

locale tenant_relation = table_relation R for R +
  fixes allowed :: "tenant_action \<Rightarrow> bool"
  assumes standalone_allowed: "standalone a \<Longrightarrow> allowed a"
    and tenant_insert:
    "row_of TenantID (TenantID r) (tenants s) = None \<Longrightarrow> fresh_tenant r \<Longrightarrow>
     row_of o_id (OrganizationID r) (organizations s) = Some org \<Longrightarrow> o_status org \<noteq> OrgRetired \<Longrightarrow>
     R s (s\<lparr>tenants := tenants s @ [r]\<rparr>)"
    and tenant_step:
    "allowed a \<Longrightarrow> row_of TenantID (TenantID r) (tenants s) = Some r \<Longrightarrow>
     tenant_transitions a = Some rule \<Longrightarrow> tenant_Resolve a (Status r) = Inr (r_to rule) \<Longrightarrow> has_room rule r \<Longrightarrow>
     R s (s\<lparr>tenants := put_row TenantID (rule_effect rule at r) (tenants s)\<rparr>)"
begin

lemma tenant_written_related:
  assumes "allowed a" "row_of TenantID (TenantID r) (tenants s) = Some r" "tenant_transitions a = Some rule"
    "tenant_Resolve a (Status r) = Inr (r_to rule)" "has_room rule r"
  shows "R s (tenant_written a at (rule_effect rule at r) eventID s)"
proof (cases "tenant_eventTypes a")
  case None
  then show ?thesis using tenant_step[OF assms] by (simp add: tenant_written_def)
next
  case (Some etype)
  let ?s = "s\<lparr>tenants := put_row TenantID (rule_effect rule at r) (tenants s)\<rparr>"
  have "R s (?s\<lparr>outbox := ms, tenant_events := es\<rparr>)" for ms es
    using store_trans[OF store_trans[OF tenant_step[OF assms] keeps_outbox] keeps_tenant_events] .
  then show ?thesis
    using Some by (simp add: tenant_written_def)
qed

lemma y_transitionWithin:
  assumes "\<And>h. yields (on_store R) (check h)" "\<And>h. yields (kept (\<lambda>w. tenants (store w))) (check h)"
    and "allowed action"
  shows "yields (on_store R) (tenant_transitionWithin env b action cmd check)"
proof (rule yieldsI)
  fix w result w' assume "tenant_transitionWithin env b action cmd check w = (Inr result, w')"
  then obtain r rule w1 w2 eventID where
    r: "tenant_row b (tc_tenant cmd) (store w) = Some r" "tenant_transitions action = Some rule"
      "tenant_Resolve action (Status r) = Inr (r_to rule)" "has_room rule r"
    and c: "store w1 = store w" "check (Narrow r) w1 = (Inr (), w2)"
    and e: "store w' = tenant_written action (clock env (ticks w)) (rule_effect rule (clock env (ticks w)) r)
       eventID (store w2)"
    by (rule tenant_transitionWithin_effect[OF _ assms(2)])
  have "row_of TenantID (TenantID r) (tenants (store w2)) = Some r"
    using yieldsD[OF assms(2) c(2)] c(1) tenant_row_SomeD[OF r(1)] by (simp add: kept_def)
  then have "R (store w2) (store w')"
    unfolding e using r assms(3) by (intro tenant_written_related) auto
  then show "on_store R w w'"
    using yieldsD[OF assms(1) c(2)] c(1) store_trans by (auto simp: on_store_def)
qed

lemma y_guarded:
  assumes "\<And>h. reads_only (check h)" "allowed action"
  shows "yields (on_store R) (tenant_transitionWithin env b action cmd check)"
proof (rule y_transitionWithin[OF _ _ assms(2)])
  fix h
  show "yields (on_store R) (check h)"
    using assms(1)[of h] store_refl by (auto simp: yields_def on_store_def)
  show "yields (kept (\<lambda>w. tenants (store w))) (check h)"
    using assms(1)[of h] by (auto simp: yields_def on_store_def kept_def)
qed

lemma y_TenantTransitionWithin:
  "allowed action \<Longrightarrow> yields (on_store R) (tenant_TransitionWithin env b action cmd)"
  unfolding tenant_TransitionWithin_def
  by (intro y_store_intros y_guarded reads_only_no_guard)

lemma a_transition:
  assumes "\<And>b h. reads_only (check b h)" "allowed action"
  shows "always R (tenant_transition env cx action cmd check)"
  unfolding tenant_transition_def
  by (intro a_seq_quiet quiet_steps a_WithProviderScope y_store_intros y_guarded y_Respond assms)

lemma a_commands:
  "always R (tenant_Activate env cx cmd)"
  "always R (tenant_Suspend env cx cmd)"
  "always R (tenant_Restore env cx cmd)"
  unfolding tenant_Activate_def tenant_Suspend_def tenant_Restore_def
  by (intro a_transition reads_only_activation_guard reads_only_no_guard standalone_allowed standalone.simps TrueI;
      simp)+

end

section \<open>Progress of a Tenant\<close>

text \<open>
  How one Tenant row may differ from an earlier reading of it: versions never fall, the row is
  unchanged when its version is, a Tenant that stopped being active has a greater security version,
  a retired Tenant is as it was, and nothing moves it to another sponsor.
\<close>

definition tenant_advanced :: "tenant_record \<Rightarrow> tenant_record \<Rightarrow> bool" where
  "tenant_advanced r r' \<longleftrightarrow>
     OrganizationID r' = OrganizationID r \<and> Version r \<le> Version r' \<and>
     SecurityVersion r \<le> SecurityVersion r' \<and> (Version r' = Version r \<longrightarrow> r' = r) \<and>
     (Status r = TenantActive \<and> Status r' \<noteq> TenantActive \<longrightarrow> SecurityVersion r < SecurityVersion r') \<and>
     (Status r = TenantRetired \<longrightarrow> r' = r)"

definition tenants_advanced :: "store \<Rightarrow> store \<Rightarrow> bool" where
  "tenants_advanced s s' \<longleftrightarrow>
     (\<forall>k r. row_of TenantID k (tenants s) = Some r \<longrightarrow>
        (\<exists>r'. row_of TenantID k (tenants s') = Some r' \<and> tenant_advanced r r'))"

lemma tenant_advanced_refl: "tenant_advanced r r"
  by (simp add: tenant_advanced_def)

lemma tenant_advanced_trans:
  "tenant_advanced r r' \<Longrightarrow> tenant_advanced r' r'' \<Longrightarrow> tenant_advanced r r''"
  unfolding tenant_advanced_def by (cases "Status r' = TenantActive") auto

lemma rule_effect_advanced:
  assumes "tenant_transitions a = Some rule" "tenant_Resolve a (Status r) = Inr (r_to rule)"
  shows "tenant_advanced r (rule_effect rule at r)"
  using assms
  by (cases a) (auto simp: tenant_advanced_def tenant_Resolve_def split: if_splits)

lemma tenants_advanced_same: "tenants s' = tenants s \<Longrightarrow> tenants_advanced s s'"
  by (auto simp: tenants_advanced_def tenant_advanced_refl)

lemma tenants_advanced_trans:
  "tenants_advanced s t \<Longrightarrow> tenants_advanced t u \<Longrightarrow> tenants_advanced s u"
  unfolding tenants_advanced_def by (meson tenant_advanced_trans)

lemma tenants_advanced_step:
  assumes "row_of TenantID (TenantID r) (tenants s) = Some r" "tenant_transitions a = Some rule"
    "tenant_Resolve a (Status r) = Inr (r_to rule)"
  shows "tenants_advanced s (s\<lparr>tenants := put_row TenantID (rule_effect rule at r) (tenants s)\<rparr>)"
  using assms(1) rule_effect_advanced[OF assms(2,3), of at]
  by (auto simp: tenants_advanced_def row_of_put_row tenant_advanced_refl)

interpretation progress: tenant_relation tenants_advanced "\<lambda>_. True"
proof unfold_locales
  show "tenants_advanced s (s\<lparr>tenants := tenants s @ [r]\<rparr>)" for s r
    by (auto simp: tenants_advanced_def row_of_append tenant_advanced_refl split: option.splits)
qed (auto intro: tenants_advanced_same tenants_advanced_trans tenants_advanced_step)

section \<open>The lifecycle columns\<close>

text \<open>
  The columns agree with the status: a Tenant has an activation instant exactly when it has been
  active, an offboarding instant exactly while it is leaving or gone, a retirement instant exactly
  when it is retired; versions are positive and within range; identifiers are unique.
\<close>

definition tenant_stamps :: "tenant_record \<Rightarrow> bool" where
  "tenant_stamps r \<longleftrightarrow>
     tenant_Valid (Status r) \<and> 1 \<le> Version r \<and> Version r \<le> bigint_max \<and>
     1 \<le> SecurityVersion r \<and> SecurityVersion r \<le> bigint_max \<and>
     (ActivatedAt r \<noteq> None \<longleftrightarrow>
        Status r \<in> {TenantActive, TenantSuspended, TenantOffboarding, TenantRetired}) \<and>
     (OffboardingStartedAt r \<noteq> None \<longleftrightarrow> Status r \<in> {TenantOffboarding, TenantRetired}) \<and>
     (RetiredAt r \<noteq> None \<longleftrightarrow> Status r = TenantRetired)"

definition tenants_wf :: "store \<Rightarrow> bool" where
  "tenants_wf s \<longleftrightarrow> keyed TenantID (tenants s) \<and> (\<forall>r \<in> set (tenants s). tenant_stamps r)"

lemma tenants_wf_kept: "tenants s' = tenants s \<Longrightarrow> preserved tenants_wf s s'"
  by (simp add: preserved_def tenants_wf_def)

lemma rule_effect_stamps:
  assumes "tenant_transitions a = Some rule" "tenant_Resolve a (Status r) = Inr (r_to rule)"
    "has_room rule r" "tenant_stamps r"
  shows "tenant_stamps (rule_effect rule at r)"
proof -
  have f: "Status r \<in> set (r_from rule)"
    using assms(1,2) by (simp add: tenant_Resolve_def split: if_splits)
  with assms(1,3,4) show ?thesis
    by (cases a; simp; hypsubst; simp add: has_room_def rule_effect_def stamp_column_def; (elim disjE conjE)?;
        simp add: tenant_stamps_def)
qed

lemma fresh_tenant_stamps: "fresh_tenant r \<Longrightarrow> tenant_stamps r"
  by (simp add: fresh_tenant_def tenant_stamps_def bigint_max_def)

interpretation stamps: tenant_relation "preserved tenants_wf" "\<lambda>_. True"
proof unfold_locales
  fix r :: tenant_record and s :: store and a rule at
  assume row: "row_of TenantID (TenantID r) (tenants s) = Some r"
    and rule: "tenant_transitions a = Some rule" "tenant_Resolve a (Status r) = Inr (r_to rule)" "has_room rule r"
  have "r \<in> set (tenants s)"
    using row_of_SomeD[OF row] by simp
  then show "preserved tenants_wf s (s\<lparr>tenants := put_row TenantID (rule_effect rule at r) (tenants s)\<rparr>)"
    using rule_effect_stamps[OF rule, of at] by (auto simp: preserved_def tenants_wf_def set_put_row)
next
  fix r :: tenant_record and s :: store
  assume "row_of TenantID (TenantID r) (tenants s) = None" "fresh_tenant r"
  then show "preserved tenants_wf s (s\<lparr>tenants := tenants s @ [r]\<rparr>)"
    using fresh_tenant_stamps[of r] by (simp add: preserved_def tenants_wf_def)
qed (rule preserved.step_refl | erule (1) preserved.step_trans | rule tenants_wf_kept, simp | rule TrueI)+


section \<open>Properties of the transition\<close>

lemma tenant_transition_effect_lemma:
  assumes run: "tenant_transition env cx action cmd check w = (Inr result, w')"
    and guard: "\<And>b h. reads_only (check b h)"
  obtains r rule at eventID scope i w1 w2 where
    "row_of TenantID (tc_tenant cmd) (tenants (store w)) = Some r"
    "tenant_transitions action = Some rule" "Status r \<in> set (r_from rule)" "Status r \<noteq> TenantRetired"
    "Version r = tc_expectedVersion cmd" "has_room rule r"
    "cx_scope cx = Some scope" "sc_provider scope"
    "data w1 = with_audit [(Evidence scope cx (tc_reason cmd))\<lparr>ac_id := fst i, ac_occurredAt := snd i\<rparr>] (data w)"
    "check BoundProvider (Narrow r) w1 = (Inr (), w2)"
    "data w' = tenant_written action at (rule_effect rule at r) eventID (data w1)"
    "result = \<lparr>tr_tenant = Narrow (rule_effect rule at r), tr_acceptedAt = at,
       tr_published = (tenant_eventTypes action \<noteq> None)\<rparr>"
proof -
  from run have "WithProviderScope env cx (tc_reason cmd) (\<lambda>b cx.
       seq (tenant_transitionWithin env b action cmd (check b)) (\<lambda>result.
       seq (Respond env cx (ResTenant result)) (\<lambda>_. return result))) w = (Inr result, w')"
    by (auto simp: tenant_transition_def run_simps)
  then obtain scope i cx1 w0 where
    s: "cx_scope cx = Some scope" "sc_provider scope"
    and e: "entered [(Evidence scope cx (tc_reason cmd))\<lparr>ac_id := fst i, ac_occurredAt := snd i\<rparr>] w w0"
    and b: "seq (tenant_transitionWithin env BoundProvider action cmd (check BoundProvider)) (\<lambda>result.
       seq (Respond env cx1 (ResTenant result)) (\<lambda>_. return result)) w0 = (Inr result, w')"
    unfolding WithProviderScope_def by (rule withRecordedScope_enters) (auto split: if_splits)
  from b obtain w3 where
    t: "tenant_transitionWithin env BoundProvider action cmd (check BoundProvider) w0 = (Inr result, w3)"
    and p: "Respond env cx1 (ResTenant result) w3 = (Inr (), w')"
    by (auto simp: run_simps)
  have k: "yields (kept (\<lambda>w. tenants (store w))) (check b h)" for b h
    using guard[of b h] by (auto simp: yields_def on_store_def kept_def)
  from t k obtain r rule w1 w2 eventID where
    r: "tenant_row BoundProvider (tc_tenant cmd) (store w0) = Some r" "tenant_transitions action = Some rule"
      "tenant_Resolve action (Status r) = Inr (r_to rule)" "Version r = tc_expectedVersion cmd" "has_room rule r"
    and c: "store w1 = store w0" "check BoundProvider (Narrow r) w1 = (Inr (), w2)"
    and f: "store w3 = tenant_written action (clock env (ticks w0)) (rule_effect rule (clock env (ticks w0)) r)
       eventID (store w2)"
      "result = \<lparr>tr_tenant = Narrow (rule_effect rule (clock env (ticks w0)) r),
       tr_acceptedAt = clock env (ticks w0), tr_published = (tenant_eventTypes action \<noteq> None)\<rparr>"
    by (rule tenant_transitionWithin_effect)
  have w2: "store w2 = store w0"
    using yieldsD[OF guard c(2)] c(1) by (simp add: on_store_def)
  have d0: "data w0 = with_audit [(Evidence scope cx (tc_reason cmd))\<lparr>ac_id := fst i, ac_occurredAt := snd i\<rparr>] (data w)"
    using e by (simp add: entered_def)
  have "tenants (data w0) = tenants (data w)" using d0 by (simp add: with_audit_def)
  then have row: "row_of TenantID (tc_tenant cmd) (tenants (store w)) = Some r"
    using tenant_row_SomeD[OF r(1)] by (simp add: data_def)
  have "data w' = tenant_written action (clock env (ticks w0)) (rule_effect rule (clock env (ticks w0)) r)
       eventID (data w0)"
    using Respond_run[OF p] f(1) w2
    by (auto simp: bookkept_def data_def tenant_written_def split: option.splits)
  moreover have "data w1 = data w0" using c(1) by (simp add: data_def)
  moreover have "Status r \<in> set (r_from rule)" "Status r \<noteq> TenantRetired"
    using r(2,3) by (auto simp: tenant_Resolve_def split: if_splits)
  ultimately show thesis
    using that row r s d0 c(2) f(2) by simp
qed

text \<open>
  (C9) A Tenant transition that succeeds ran under a provider scope, on the version its caller was
  shown, from a state its rule permits. It leaves its access record, the row its rule describes, the
  event of that row on the lane of its class unless the action is silent, the event's row in
  \<open>tenant_event\<close>, and every other table and row as it was.
\<close>

theorem tenant_transition_effect:
  assumes "tenant_transition env cx action cmd check w = (Inr result, w')"
    and "\<And>b h. reads_only (check b h)"
  shows "\<exists>r rule at eventID scope i.
    row_of TenantID (tc_tenant cmd) (tenants (store w)) = Some r \<and>
    tenant_transitions action = Some rule \<and> Status r \<in> set (r_from rule) \<and>
    Version r = tc_expectedVersion cmd \<and>
    cx_scope cx = Some scope \<and> sc_provider scope \<and>
    data w' = tenant_written action at (rule_effect rule at r) eventID
      (with_audit [(Evidence scope cx (tc_reason cmd))\<lparr>ac_id := fst i, ac_occurredAt := snd i\<rparr>] (data w)) \<and>
    tr_tenant result = Narrow (rule_effect rule at r) \<and> tr_acceptedAt result = at"
  using assms by (rule tenant_transition_effect_lemma) auto

text \<open>
  (C21) Activation succeeds only when the most recent provisioning request of the Tenant came back
  realized and its sponsoring Organization is active, both read in the transaction of the update.
\<close>

theorem tenant_Activate_preconditions:
  assumes "tenant_Activate env cx cmd w = (Inr result, w')"
  shows "\<exists>r p org.
    row_of TenantID (tc_tenant cmd) (tenants (store w)) = Some r \<and> Status r = TenantProvisioning \<and>
    latest_provision (TenantID r) (store w) = Some p \<and> pr_state p = RequestRealized \<and>
    row_of o_id (OrganizationID r) (organizations (store w)) = Some org \<and> o_status org = OrgActive"
proof -
  from assms obtain r rule scope i w1 w2 where
    r: "row_of TenantID (tc_tenant cmd) (tenants (store w)) = Some r"
      "tenant_transitions TenantActivate = Some rule" "Status r \<in> set (r_from rule)"
    and a: "data w1 = with_audit [(Evidence scope cx (tc_reason cmd))\<lparr>ac_id := fst i, ac_occurredAt := snd i\<rparr>] (data w)"
    and g: "activation_guard BoundProvider (Narrow r) w1 = (Inr (), w2)"
    unfolding tenant_Activate_def
    by (rule tenant_transition_effect_lemma[OF _ reads_only_activation_guard])
  have same: "provisioning (store w1) = provisioning (store w)" "organizations (store w1) = organizations (store w)"
    using a[THEN arg_cong[where f = provisioning]] a[THEN arg_cong[where f = organizations]]
    by (simp_all add: data_def with_audit_def)
  show ?thesis
    using g r same
    by (auto simp: activation_guard_def provisioningRealized_def sponsorActive_def run_simps Narrow_def
        latest_provision_def split: option.splits)
qed

text \<open>
  (C22) Every UPDATE constant of the package writes exactly the row its rule in \<open>transitions\<close> asks
  for, and refuses rather than wraps when a version column is at the end of its range.
\<close>

theorem tenant_statement_matches_rule:
  assumes "tenant_transitions action = Some rule"
  shows "\<exists>statement. applyStatement action = Some statement \<and>
    (\<forall>at r. statement (r_to rule) at r =
       (if has_room rule r then Inr (rule_effect rule at r)
        else Inl (ErrInternal ''bigint out of range'')))"
proof -
  obtain statement where "applyStatement action = Some statement"
    using statement_matches[OF assms] by blast
  then show ?thesis
    using statement_matches[OF assms] by (metis option.inject)
qed

definition tenant_version :: "uuid \<Rightarrow> store \<Rightarrow> int option" where
  "tenant_version k s = map_option Version (row_of TenantID k (tenants s))"

lemma tenant_written_version:
  "tenants (tenant_written action at r' eventID s) = put_row TenantID r' (tenants s)"
  by (simp add: tenant_written_def split: option.splits)

lemma tenant_transition_versions:
  assumes "tenant_transition env cx action cmd check w = (Inr result, w')"
    and "\<And>b h. reads_only (check b h)"
  shows "tenant_version (tc_tenant cmd) (store w) = Some (tc_expectedVersion cmd)"
    "tenant_version (tc_tenant cmd) (store w') = Some (tc_expectedVersion cmd + 1)"
proof -
  from assms obtain r rule at eventID scope i w1 where
    r: "row_of TenantID (tc_tenant cmd) (tenants (store w)) = Some r" "Version r = tc_expectedVersion cmd"
    and a: "data w1 = with_audit [(Evidence scope cx (tc_reason cmd))\<lparr>ac_id := fst i, ac_occurredAt := snd i\<rparr>] (data w)"
    and d: "data w' = tenant_written action at (rule_effect rule at r) eventID (data w1)"
    by (rule tenant_transition_effect_lemma)
  show "tenant_version (tc_tenant cmd) (store w) = Some (tc_expectedVersion cmd)"
    using r by (simp add: tenant_version_def)
  have "tenants (store w') = put_row TenantID (rule_effect rule at r) (tenants (store w))"
    using arg_cong[OF d, of tenants] arg_cong[OF a, of tenants]
    by (simp add: tenant_written_version data_def with_audit_def)
  moreover have "TenantID r = tc_tenant cmd"
    using row_of_SomeD[OF r(1)] by simp
  ultimately show "tenant_version (tc_tenant cmd) (store w') = Some (tc_expectedVersion cmd + 1)"
    using r by (simp add: tenant_version_def row_of_put_row)
qed

text \<open>One caller's transition: its request context, the action it asks for and the command.\<close>

type_synonym tenant_call = "env \<times> ctx \<times> tenant_action \<times> tenant_command"

definition call_transition :: "tenant_call \<Rightarrow> tenant_result tx" where
  "call_transition c =
     (case c of (env, cx, action, cmd) \<Rightarrow>
        tenant_transition env cx action cmd
          (if action = TenantActivate then activation_guard else (\<lambda>_. no_guard)))"

lemma call_transition_versions:
  assumes "call_transition c w = (Inr result, w')"
  shows "tenant_version (tc_tenant (snd (snd (snd c)))) (store w) =
      Some (tc_expectedVersion (snd (snd (snd c))))"
    "tenant_version (tc_tenant (snd (snd (snd c)))) (store w') =
      Some (tc_expectedVersion (snd (snd (snd c))) + 1)"
  using assms tenant_transition_versions
  by (cases c, auto simp: call_transition_def reads_only_activation_guard reads_only_no_guard)+

interpretation tenant_optimistic: optimistic call_transition
  "\<lambda>c. tc_tenant (snd (snd (snd c)))" "\<lambda>c. tc_expectedVersion (snd (snd (snd c)))"
  tenant_version tenants_advanced
proof unfold_locales
  fix s s' k v
  assume "tenants_advanced s s'" "tenant_version k s = Some v"
  then show "\<exists>v' \<ge> v. tenant_version k s' = Some v'"
    by (fastforce simp: tenants_advanced_def tenant_version_def tenant_advanced_def)
qed (simp_all add: call_transition_versions)

text \<open>
  (C13) Two callers who were shown the same version of a Tenant cannot both move it: once one
  transition succeeded, every other that expects that version is refused, at once and in every later
  state.
\<close>

theorem tenant_no_lost_update:
  assumes "call_transition (env, cx, action, cmd) w = (Inr result, w')"
    and "tenants_advanced (store w') (store v)"
    and "tc_tenant cmd' = tc_tenant cmd" "tc_expectedVersion cmd' = tc_expectedVersion cmd"
  shows "\<exists>e. fst (call_transition (env', cx', action', cmd') v) = Inl e"
  using tenant_optimistic.no_lost_update[OF assms(1), of v "(env', cx', action', cmd')"] assms(2-4)
  by simp

end
