(* ===== verification/Provisioning.thy ===== *)
theory Provisioning
  imports Tenant_Service Paging
begin

text \<open>
  How a Tenant comes to exist: intake (\<open>src/internal/tenant/intake.go\<close>), the coordinator that records
  what the external provisioning system reports (\<open>tenant/coordinator.go\<close>), its sweep of unanswered
  requests, and the publication of withdrawn Tenants after a restore (\<open>tenant/restore.go\<close>).
\<close>

section \<open>Intake\<close>

record request_tenant =
  rt_organization :: uuid
  rt_displayName :: string
  rt_profile :: isolation_profile
  rt_region :: string
  rt_reason :: string

definition request_validate :: "nat \<Rightarrow> request_tenant \<Rightarrow> error + unit" where
  "request_validate limit r =
     (let name = TrimSpace (rt_displayName r) in
      if IsNil (rt_organization r) then Inl (ErrInvalid PkgTenant)
      else if name = [] then Inl (ErrInvalid PkgTenant)
      else if length name > limit then Inl (ErrInvalid PkgTenant)
      else if \<not> profile_Valid (rt_profile r) then Inl (ErrInvalid PkgTenant)
      else if blank (rt_reason r) then Inl (ErrInvalid PkgTenant)
      else Inr ())"

definition requestedEventType :: string where
  "requestedEventType = ''com.scnehaux.organization.tenant.lifecycle.requested''"

definition nullableText :: "string \<Rightarrow> string option" where
  "nullableText v = (if v = [] then None else Some v)"

definition insertTenant :: "env \<Rightarrow> tenant_record \<Rightarrow> tenant_record tx" where
  "insertTenant env r =
     seq (read_db (\<lambda>s. row_of TenantID (TenantID r) (tenants s))) (\<lambda>clash.
     seq (ensure (clash = None) (ErrInternal ''tenant primary key'')) (\<lambda>_.
     seq (db_now env) (\<lambda>created.
     let r' = r\<lparr>Status := TenantRequested, Version := 1, SecurityVersion := 1, CreatedAt := created\<rparr>
     in seq (write_db (\<lambda>s. s\<lparr>tenants := tenants s @ [r']\<rparr>)) (\<lambda>_. return r'))))"

definition insertProvisioning :: "provisioning_request \<Rightarrow> unit tx" where
  "insertProvisioning p =
     seq (read_db (\<lambda>s. row_of pr_request (pr_request p) (provisioning s))) (\<lambda>clash.
     seq (ensure (clash = None) (ErrInternal ''provisioning_request primary key'')) (\<lambda>_.
     write_db (\<lambda>s. s\<lparr>provisioning := provisioning s @ [p]\<rparr>)))"

text \<open>
  The row both \<open>insertProvisioning\<close> and \<open>retryStatement\<close> write: the desired profile of the Tenant,
  in \<open>requested\<close>.
\<close>

definition provision_command :: "tenant_record \<Rightarrow> uuid \<Rightarrow> uuid \<Rightarrow> instant \<Rightarrow> provisioning_request" where
  "provision_command r requestID correlation requestedAt =
     \<lparr>pr_request = requestID, pr_tenant = TenantID r, pr_operation = Some OpProvision,
      pr_isolation = Some (IsolationProfile r), pr_region = nullableText (ResidencyRegion r),
      pr_offboarding = None, pr_state = RequestRequested, pr_correlation = correlation,
      pr_requested_at = requestedAt, pr_resolved_at = None, pr_detail = None\<rparr>"

definition publishRequested :: "env \<Rightarrow> tenant_record \<Rightarrow> uuid \<Rightarrow> uuid \<Rightarrow> instant \<Rightarrow> unit tx" where
  "publishRequested env record requestID correlationID at =
     seq (hook env ''tenant.beforeAppend'') (\<lambda>_.
     seq (ensure (parses env requestedEventType) (ErrInternal ''event type'')) (\<lambda>_.
     seq (publish env (TenantID record) requestedEventType at
            (TenantRequestedPayload (tenant_NewPayload (Narrow record)) (DisplayName record)
               (IsolationProfile record) (ResidencyRegion record) requestID correlationID) False) (\<lambda>_.
     return ())))"

text \<open>The body \<open>Request\<close> runs in its provider transaction.\<close>

definition request_body ::
  "env \<Rightarrow> ctx \<Rightarrow> tenant_record \<Rightarrow> uuid \<Rightarrow> uuid \<Rightarrow> instant \<Rightarrow> (tenant_record \<times> uuid \<times> uuid \<times> instant) tx" where
  "request_body env cx record requestID correlation acceptedAt =
     seq (read_db (\<lambda>s. row_of o_id (OrganizationID record) (organizations s))) (\<lambda>sponsor.
     case sponsor of
       None \<Rightarrow> raise (ErrNotFound PkgTenant)
     | Some org \<Rightarrow>
     seq (ensure (o_status org \<noteq> OrgRetired) (ErrTransitionRefused PkgTenant)) (\<lambda>_.
     seq (insertTenant env record) (\<lambda>record.
     seq (insertProvisioning (provision_command record requestID correlation acceptedAt)) (\<lambda>_.
     seq (publishRequested env record requestID correlation acceptedAt) (\<lambda>_.
     seq (Respond env cx (ResRequested record requestID correlation acceptedAt)) (\<lambda>_.
     return (record, requestID, correlation, acceptedAt)))))))"

definition tenant_Request ::
  "env \<Rightarrow> ctx \<Rightarrow> request_tenant \<Rightarrow> (tenant_record \<times> uuid \<times> uuid \<times> instant) tx" where
  "tenant_Request env cx req =
     seq (lift (request_validate (displayNameMax env) req)) (\<lambda>_.
     case cx_scope cx of
       None \<Rightarrow> raise (ErrInternal ''no scope is bound to this context'')
     | Some scope \<Rightarrow>
     seq (newID env) (\<lambda>tenantID.
     seq (newID env) (\<lambda>requestID.
     seq (now env) (\<lambda>acceptedAt.
     let record = \<lparr>TenantID = tenantID, OrganizationID = rt_organization req,
           DisplayName = TrimSpace (rt_displayName req), Status = TenantRequested,
           IsolationProfile = rt_profile req, ResidencyRegion = TrimSpace (rt_region req),
           Version = 0, SecurityVersion = 0, ActivatedAt = None, SuspendedAt = None,
           OffboardingStartedAt = None, RetiredAt = None, CreatedAt = 0\<rparr>
     in WithProviderScope env cx (rt_reason req) (\<lambda>b cx.
          request_body env cx record requestID (sc_correlation scope) acceptedAt)))))"

section \<open>Reads\<close>

definition loadRecord :: "uuid \<Rightarrow> tenant_record tx" where
  "loadRecord tenantID =
     seq (read_db (tenant_row BoundProvider tenantID)) (\<lambda>row.
     case row of
       None \<Rightarrow> raise (ErrNotFound PkgTenant)
     | Some r \<Rightarrow>
         seq (ensure (tenant_Valid (Status r)) (ErrInternal ''stored status'')) (\<lambda>_.
         seq (ensure (profile_Valid (IsolationProfile r)) (ErrInternal ''stored isolation profile'')) (\<lambda>_.
         return r)))"

definition tenant_Get :: "env \<Rightarrow> ctx \<Rightarrow> uuid \<Rightarrow> tenant_record tx" where
  "tenant_Get env cx tenantID =
     seq (ensure (\<not> IsNil tenantID) (ErrInvalid PkgTenant)) (\<lambda>_.
     WithProviderScope env cx (''read tenant '' @ uuid_text env tenantID) (\<lambda>b cx. loadRecord tenantID))"

record tenant_detail =
  td_record :: tenant_record
  td_offboarding :: "uuid option"
  td_activeMemberships :: nat
  td_provisioning :: "provisioning_request option"

definition latestProvisioning :: "uuid \<Rightarrow> provisioning_request option tx" where
  "latestProvisioning tenantID =
     seq (read_db (latest_provision tenantID)) (\<lambda>row.
     case row of
       None \<Rightarrow> return None
     | Some p \<Rightarrow> seq (ensure (request_Valid (pr_state p)) (ErrInternal ''stored provisioning state'')) (\<lambda>_.
                 return (Some p)))"

definition tenant_Detail :: "env \<Rightarrow> ctx \<Rightarrow> uuid \<Rightarrow> tenant_detail tx" where
  "tenant_Detail env cx tenantID =
     seq (ensure (\<not> IsNil tenantID) (ErrInvalid PkgTenant)) (\<lambda>_.
     WithProviderScope env cx (''read tenant '' @ uuid_text env tenantID) (\<lambda>b cx.
       seq (loadRecord tenantID) (\<lambda>record.
       seq (read_db (\<lambda>s. first_row (order_desc (\<lambda>off. (ob_startedAt off, ob_id off))
              (filter (\<lambda>off. ob_tenant off = tenantID) (offboardings s))))) (\<lambda>off.
       seq (read_db (\<lambda>s. length (filter (\<lambda>m. m_tenant m = tenantID \<and> m_status m = MembershipActive)
              (memberships s)))) (\<lambda>active.
       seq (latestProvisioning tenantID) (\<lambda>p.
       return \<lparr>td_record = record, td_offboarding = map_option ob_id off,
               td_activeMemberships = active, td_provisioning = p\<rparr>))))))"

record tenant_query =
  tq_after :: uuid
  tq_limit :: int
  tq_status :: "tenant_state option"
  tq_organization :: uuid

definition tenant_matches :: "tenant_query \<Rightarrow> tenant_record \<Rightarrow> bool" where
  "tenant_matches q r \<longleftrightarrow>
     (case tq_status q of None \<Rightarrow> True | Some st \<Rightarrow> Status r = st) \<and>
     (case Keyset (tq_organization q) of None \<Rightarrow> True | Some org \<Rightarrow> OrganizationID r = org)"

definition tenant_List :: "env \<Rightarrow> ctx \<Rightarrow> tenant_query \<Rightarrow> string \<Rightarrow> (tenant_record list \<times> uuid option) tx" where
  "tenant_List env cx q reason =
     (case ListLimit (tq_limit q) of
        Inl _ \<Rightarrow> raise (ErrInvalid PkgTenant)
      | Inr limit \<Rightarrow>
     seq (ensure (case tq_status q of None \<Rightarrow> True | Some st \<Rightarrow> tenant_Valid st) (ErrInvalid PkgTenant)) (\<lambda>_.
     WithProviderScope env cx reason (\<lambda>b cx.
       seq (read_db (\<lambda>s. take (nat limit + 1) (keyset_rows TenantID (tq_after q) (tenant_matches q) (tenants s)))) (\<lambda>rows.
       seq (foreach (\<lambda>r. ensure (tenant_Valid (Status r) \<and> profile_Valid (IsolationProfile r))
              (ErrInternal ''stored row'')) rows) (\<lambda>_.
       return (page_of TenantID limit rows))))))"

section \<open>The coordinator\<close>

definition request_resolved :: "request_state \<Rightarrow> bool" where
  "request_resolved r \<longleftrightarrow> r = RequestRealized \<or> r = RequestFailed"

record outcome =
  oc_correlation :: uuid
  oc_detail :: string
  oc_reason :: string

definition outcome_validate :: "outcome \<Rightarrow> bool \<Rightarrow> error + unit" where
  "outcome_validate oc requireDetail =
     (if IsNil (oc_correlation oc) then Inl (ErrInvalid PkgTenant)
      else if blank (oc_reason oc) then Inl (ErrInvalid PkgTenant)
      else if requireDetail \<and> blank (oc_detail oc) then Inl (ErrInvalid PkgTenant)
      else Inr ())"

record resolution =
  rs_request :: uuid
  rs_tenant :: uuid
  rs_state :: request_state
  rs_head :: tenant_head
  rs_replay :: bool
  rs_resolvedAt :: instant

definition correlated :: "uuid \<Rightarrow> store \<Rightarrow> provisioning_request list" where
  "correlated correlationID s =
     order_desc (\<lambda>r. (pr_requested_at r, pr_request r))
       (filter (\<lambda>r. pr_correlation r = correlationID \<and> is_provision r) (provisioning s))"

definition correlate :: "uuid \<Rightarrow> provisioning_request tx" where
  "correlate correlationID =
     seq (read_db (correlated correlationID)) (\<lambda>matched.
     seq (foreach (\<lambda>r. ensure (request_Valid (pr_state r)) (ErrInternal ''stored provisioning state'')) matched) (\<lambda>_.
     case matched of
       [] \<Rightarrow> raise ErrNoProvisioningRequest
     | first # rest \<Rightarrow>
         seq (ensure (list_all (\<lambda>candidate. pr_tenant candidate = pr_tenant first) rest) ErrAmbiguousCorrelation) (\<lambda>_.
         return first)))"

definition resolve_request :: "uuid \<Rightarrow> request_state \<Rightarrow> instant \<Rightarrow> string option \<Rightarrow> unit tx" where
  "resolve_request requestID to resolvedAt detail =
     write_db (\<lambda>s. s\<lparr>provisioning := change_row pr_request requestID
       (\<lambda>r. r\<lparr>pr_state := to, pr_resolved_at := Some resolvedAt, pr_detail := detail\<rparr>) (provisioning s)\<rparr>)"

definition advance_steps :: "request_state \<Rightarrow> tenant_state \<Rightarrow> tenant_action list" where
  "advance_steps to status =
     (if to = RequestRealized \<and> status = TenantRequested then [TenantProvision]
      else if to = RequestFailed \<and> status = TenantRequested then [TenantProvision, TenantFail]
      else if to = RequestFailed \<and> status = TenantProvisioning then [TenantFail]
      else [])"

fun advance_through :: "env \<Rightarrow> binding \<Rightarrow> string \<Rightarrow> tenant_action list \<Rightarrow> tenant_head \<Rightarrow> tenant_head tx" where
  "advance_through env b reason [] current = return current"
| "advance_through env b reason (action # rest) current =
     seq (tenant_transitionWithin env b action
            \<lparr>tc_tenant = th_tenant current, tc_reason = reason, tc_expectedVersion = th_version current\<rparr>
            no_guard) (\<lambda>result.
     advance_through env b reason rest (tr_tenant result))"

definition advance :: "env \<Rightarrow> binding \<Rightarrow> tenant_head \<Rightarrow> request_state \<Rightarrow> string \<Rightarrow> tenant_head tx" where
  "advance env b current to reason = advance_through env b reason (advance_steps to (th_status current)) current"

text \<open>The body \<open>record\<close> runs in its provider transaction.\<close>

definition record_body :: "env \<Rightarrow> binding \<Rightarrow> outcome \<Rightarrow> request_state \<Rightarrow> instant \<Rightarrow> resolution tx" where
  "record_body env b outcome to resolvedAt =
     seq (correlate (oc_correlation outcome)) (\<lambda>matched.
     seq (tenant_load b (pr_tenant matched)) (\<lambda>current.
     if request_resolved (pr_state matched) then
       seq (ensure (pr_state matched = to) ErrOutcomeAlreadyRecorded) (\<lambda>_.
       return \<lparr>rs_request = pr_request matched, rs_tenant = pr_tenant matched, rs_state = pr_state matched,
               rs_head = current, rs_replay = True, rs_resolvedAt = resolvedAt\<rparr>)
     else
       seq (resolve_request (pr_request matched) to resolvedAt (nullableText (TrimSpace (oc_detail outcome)))) (\<lambda>_.
       seq (advance env b current to (oc_reason outcome)) (\<lambda>current.
       return \<lparr>rs_request = pr_request matched, rs_tenant = pr_tenant matched, rs_state = to,
               rs_head = current, rs_replay = False, rs_resolvedAt = resolvedAt\<rparr>))))"

definition coordinator_record ::
  "env \<Rightarrow> ctx \<Rightarrow> outcome \<Rightarrow> request_state \<Rightarrow> bool \<Rightarrow> resolution tx" where
  "coordinator_record env cx outcome to requireDetail =
     seq (lift (outcome_validate outcome requireDetail)) (\<lambda>_.
     seq (now env) (\<lambda>resolvedAt.
     WithProviderScope env cx (oc_reason outcome) (\<lambda>b cx. record_body env b outcome to resolvedAt)))"

definition Realize :: "env \<Rightarrow> ctx \<Rightarrow> outcome \<Rightarrow> resolution tx" where
  "Realize env cx outcome = coordinator_record env cx outcome RequestRealized False"

definition Fail :: "env \<Rightarrow> ctx \<Rightarrow> outcome \<Rightarrow> resolution tx" where
  "Fail env cx outcome = coordinator_record env cx outcome RequestFailed True"

definition retry :: "uuid \<Rightarrow> uuid \<Rightarrow> uuid \<Rightarrow> instant \<Rightarrow> unit tx" where
  "retry tenantID requestID correlationID requestedAt =
     seq (read_db (tenant_row BoundProvider tenantID)) (\<lambda>row.
     case row of
       None \<Rightarrow> return ()
     | Some r \<Rightarrow>
         insertProvisioning (provision_command r requestID correlationID requestedAt))"

definition outstanding :: "uuid \<Rightarrow> store \<Rightarrow> provisioning_request list" where
  "outstanding tenantID s =
     filter (\<lambda>r. pr_tenant r = tenantID \<and> is_provision r \<and>
               (pr_state r = RequestRequested \<or> pr_state r = RequestUnresolved)) (provisioning s)"

definition outstandingRequest :: "uuid \<Rightarrow> unit tx" where
  "outstandingRequest tenantID =
     seq (read_db (\<lambda>s. length (outstanding tenantID s))) (\<lambda>count.
     ensure (count \<noteq> 0) ErrProvisioningNotRequested)"

definition provision_guard :: "uuid \<Rightarrow> uuid \<Rightarrow> instant \<Rightarrow> tenant_guard" where
  "provision_guard requestID correlationID requestedAt current =
     (if th_status current = TenantFailed
      then retry (th_tenant current) requestID correlationID requestedAt
      else outstandingRequest (th_tenant current))"

definition Provision :: "env \<Rightarrow> ctx \<Rightarrow> tenant_command \<Rightarrow> tenant_result tx" where
  "Provision env cx cmd =
     seq (lift (tenant_validate cmd)) (\<lambda>_.
     seq (newID env) (\<lambda>requestID.
     case cx_scope cx of
       None \<Rightarrow> raise (ErrInternal ''no scope is bound to this context'')
     | Some scope \<Rightarrow>
     seq (now env) (\<lambda>requestedAt.
     WithProviderScope env cx (tc_reason cmd) (\<lambda>b cx.
       seq (tenant_transitionWithin env b TenantProvision cmd
              (provision_guard requestID (sc_correlation scope) requestedAt)) (\<lambda>result.
       seq (Respond env cx (ResTenant result)) (\<lambda>_.
       return result))))))"

section \<open>The sweep\<close>

definition swept :: "instant \<Rightarrow> int \<Rightarrow> store \<Rightarrow> uuid list" where
  "swept cutoff batchSize s =
     map pr_request (take (nat batchSize)
       (sort_key pr_requested_at
         (filter (\<lambda>r. pr_state r = RequestRequested \<and> pr_requested_at r < cutoff) (provisioning s))))"

definition sweep_row :: "instant \<Rightarrow> provisioning_request \<Rightarrow> provisioning_request" where
  "sweep_row at r =
     r\<lparr>pr_state := RequestUnresolved, pr_resolved_at := Some at,
       pr_detail := (case pr_detail r of
          None \<Rightarrow> Some ''no realized status within the provisioning timeout'' | Some d \<Rightarrow> Some d)\<rparr>"

definition sweep :: "env \<Rightarrow> int \<Rightarrow> int tx" where
  "sweep env batchSize =
     seq (now env) (\<lambda>at.
     seq (read_db (swept (at - timeout env) batchSize)) (\<lambda>ids.
     seq (write_db (\<lambda>s. s\<lparr>provisioning :=
            map (\<lambda>r. if pr_request r \<in> set ids then sweep_row at r else r) (provisioning s)\<rparr>)) (\<lambda>_.
     return (int (length ids)))))"

definition SweepUnresolved :: "env \<Rightarrow> ctx \<Rightarrow> int \<Rightarrow> int tx" where
  "SweepUnresolved env cx batchSize =
     seq (ensure (batchSize > 0) (ErrInvalid PkgTenant)) (\<lambda>_.
     WithProviderScope env cx ''age unanswered provisioning requests to unresolved'' (\<lambda>b cx. sweep env batchSize))"

definition ScheduledSweepUnresolved :: "env \<Rightarrow> int \<Rightarrow> int tx" where
  "ScheduledSweepUnresolved env batchSize =
     seq (ensure (batchSize > 0) (ErrInvalid PkgTenant)) (\<lambda>_. InTx env (sweep env batchSize))"

section \<open>Republishing withdrawals after a restore\<close>

fun restoreActions :: "tenant_state \<Rightarrow> tenant_action option" where
  "restoreActions TenantSuspended = Some TenantSuspend"
| "restoreActions TenantOffboarding = Some TenantBeginOffboarding"
| "restoreActions TenantRetired = Some TenantRetire"
| "restoreActions _ = None"

definition withdrawn :: "store \<Rightarrow> tenant_head list" where
  "withdrawn s = map Narrow (sort_key TenantID (filter (\<lambda>r. restoreActions (Status r) \<noteq> None) (tenants s)))"

definition publish_withdrawal :: "env \<Rightarrow> instant \<Rightarrow> tenant_head \<Rightarrow> unit tx" where
  "publish_withdrawal env at record =
     (let action = (case restoreActions (th_status record) of None \<Rightarrow> TenantActionOther [] | Some a \<Rightarrow> a)
      in seq (lift (tenant_EventType (parses env) action)) (\<lambda>etype.
         let eventType = (case etype of None \<Rightarrow> [] | Some t \<Rightarrow> t)
         in seq (publish env (th_tenant record) eventType at (TenantPayload (tenant_NewPayload record))
                   (tenant_Priority action)) (\<lambda>eventID.
            recordTenantEvent eventID (th_tenant record) (th_securityVersion record) eventType)))"

definition PublishWithdrawn :: "env \<Rightarrow> instant \<Rightarrow> nat tx" where
  "PublishWithdrawn env at =
     seq (read_db withdrawn) (\<lambda>records.
     seq (foreach (publish_withdrawal env at) records) (\<lambda>_.
     return (length records)))"


section \<open>Relations the provisioning operations respect\<close>

locale provisioning_relation = tenant_relation R allowed for R allowed +
  assumes keeps_provisioning: "R s (s\<lparr>provisioning := requests\<rparr>)"
begin

lemma y_insertProvisioning: "yields (on_store R) (insertProvisioning p)"
  unfolding insertProvisioning_def by (intro y_store_intros keeps_provisioning)

lemma y_recordTenantEvent: "yields (on_store R) (recordTenantEvent e t v ty)"
  unfolding recordTenantEvent_def by (intro y_store_intros keeps_tenant_events)

lemma y_publishRequested: "yields (on_store R) (publishRequested env r q c at)"
  unfolding publishRequested_def by (intro y_store_intros y_published)

lemma y_request_body:
  assumes "ActivatedAt r = None" "SuspendedAt r = None" "OffboardingStartedAt r = None" "RetiredAt r = None"
  shows "yields (on_store R) (request_body env cx r q c at)"
proof (rule yieldsI)
  fix w x w' assume "request_body env cx r q c at w = (Inr x, w')"
  then obtain org r' w1 where
    org: "row_of o_id (OrganizationID r) (organizations (store w)) = Some org" "o_status org \<noteq> OrgRetired"
    and ins: "insertTenant env r w = (Inr r', w1)"
    and rest: "seq (insertProvisioning (provision_command r' q c at)) (\<lambda>_.
     seq (publishRequested env r' q c at) (\<lambda>_.
     seq (Respond env cx (ResRequested r' q c at)) (\<lambda>_.
     return (r', q, c, at)))) w1 = (Inr x, w')"
    by (auto simp: request_body_def run_simps split: option.splits)
  from ins have r': "row_of TenantID (TenantID r') (tenants (store w)) = None" "fresh_tenant r'"
    "OrganizationID r' = OrganizationID r" "store w1 = (store w)\<lparr>tenants := tenants (store w) @ [r']\<rparr>"
    using assms by (auto simp: insertTenant_def run_simps Let_def fresh_tenant_def)
  then have "on_store R w w1"
    using org tenant_insert[of r' "store w" org] by (simp add: on_store_def)
  moreover have "on_store R w1 w'"
    using rest by (rule yieldsD[rotated]) (intro y_store_intros y_insertProvisioning y_publishRequested y_Respond)
  ultimately show "on_store R w w'" by (rule sr.step_trans)
qed

lemma a_Request: "always R (tenant_Request env cx req)"
  unfolding tenant_Request_def Let_def
  by (intro a_seq_quiet quiet_steps a_option a_raise a_WithProviderScope y_request_body) simp_all

lemma a_tenant_reads:
  "always R (tenant_Get env cx tenantID)"
  "always R (tenant_Detail env cx tenantID)"
  "always R (tenant_List env cx q reason)"
  unfolding tenant_Get_def tenant_Detail_def tenant_List_def loadRecord_def latestProvisioning_def
  by (intro a_seq_quiet quiet_steps a_WithProviderScope y_store_intros)+
    (simp add: a_raise split: sum.split, intro allI impI a_seq_quiet quiet_steps a_WithProviderScope y_store_intros)

lemma y_advance_through:
  "(\<And>a. a \<in> set actions \<Longrightarrow> allowed a) \<Longrightarrow> yields (on_store R) (advance_through env b reason actions current)"
  by (induction env b reason actions current rule: advance_through.induct)
    (auto intro!: y_store_intros y_guarded reads_only_no_guard)

lemma y_advance: "yields (on_store R) (advance env b current to reason)"
  unfolding advance_def
  by (rule y_advance_through, rule standalone_allowed) (auto simp: advance_steps_def split: if_splits)

lemma y_correlate: "yields (on_store R) (correlate c)"
  unfolding correlate_def by (intro y_store_intros) (simp split: list.split, auto intro!: y_store_intros)

lemma y_tenant_load: "yields (on_store R) (tenant_load b t)"
  unfolding tenant_load_def by (intro y_store_intros)

lemma a_record: "always R (coordinator_record env cx oc to requireDetail)"
  unfolding coordinator_record_def record_body_def resolve_request_def
  by (intro a_seq_quiet quiet_steps a_WithProviderScope y_store_intros y_correlate y_tenant_load
      keeps_provisioning y_advance)

lemma y_provision_guard: "yields (on_store R) (provision_guard q c t h)"
  unfolding provision_guard_def retry_def outstandingRequest_def
  by (intro y_store_intros y_insertProvisioning)

lemma provision_guard_keeps_tenants: "yields (kept (\<lambda>w. tenants (store w))) (provision_guard q c t h)"
  unfolding yields_def kept_def
  by (auto simp: provision_guard_def retry_def outstandingRequest_def insertProvisioning_def run_simps
      split: option.splits if_splits)

lemma a_Provision: "always R (Provision env cx cmd)"
  unfolding Provision_def
  by (intro a_seq_quiet quiet_steps a_option a_raise a_WithProviderScope y_store_intros
      y_transitionWithin y_provision_guard provision_guard_keeps_tenants y_Respond standalone_allowed) simp

lemma y_sweep: "yields (on_store R) (sweep env n)"
  unfolding sweep_def by (intro y_store_intros keeps_provisioning)

lemma a_sweeps:
  "always R (SweepUnresolved env cx n)"
  "always R (ScheduledSweepUnresolved env n)"
  unfolding SweepUnresolved_def ScheduledSweepUnresolved_def
  by (intro a_seq_quiet quiet_steps a_WithProviderScope a_InTx y_sweep)+

lemma y_PublishWithdrawn: "yields (on_store R) (PublishWithdrawn env at)"
  unfolding PublishWithdrawn_def publish_withdrawal_def Let_def
  by (intro y_store_intros y_published y_recordTenantEvent)

end

interpretation provisioning_progress: provisioning_relation tenants_advanced "\<lambda>_. True"
  by unfold_locales (simp add: tenants_advanced_same)

interpretation provisioning_stamps: provisioning_relation "preserved tenants_wf" "\<lambda>_. True"
  by unfold_locales (rule tenants_wf_kept, simp)


section \<open>Intake\<close>

definition requested_message :: "tenant_record \<Rightarrow> uuid \<Rightarrow> uuid \<Rightarrow> instant \<Rightarrow> uuid \<Rightarrow> message" where
  "requested_message r requestID correlation at eventID =
     \<lparr>msg_id = eventID, msg_aggregate = TenantID r, msg_type = requestedEventType, msg_at = at,
      msg_payload = TenantRequestedPayload (tenant_NewPayload (Narrow r)) (DisplayName r)
        (IsolationProfile r) (ResidencyRegion r) requestID correlation,
      msg_priority = False\<rparr>"

lemma request_body_effect:
  assumes "request_body env cx record requestID correlation at w = (Inr (record', q, c, t), w')"
    and "ActivatedAt record = None" "SuspendedAt record = None" "OffboardingStartedAt record = None"
      "RetiredAt record = None"
  shows "q = requestID \<and> c = correlation \<and> t = at \<and> fresh_tenant record' \<and>
    OrganizationID record' = OrganizationID record \<and> DisplayName record' = DisplayName record \<and>
    row_of TenantID (TenantID record') (tenants (store w)) = None \<and>
    row_of pr_request requestID (provisioning (store w)) = None \<and>
    (\<exists>org. row_of o_id (OrganizationID record) (organizations (store w)) = Some org \<and> o_status org \<noteq> OrgRetired) \<and>
    (\<exists>eventID. data w' = (data w)\<lparr>tenants := tenants (store w) @ [record'],
       provisioning := provisioning (store w) @ [provision_command record' requestID correlation at],
       outbox := outbox (store w) @ [requested_message record' requestID correlation at eventID]\<rparr>)"
proof -
  define s2 where "s2 eventID = (store w)\<lparr>tenants := tenants (store w) @ [record'],
       provisioning := provisioning (store w) @ [provision_command record' requestID correlation at],
       outbox := outbox (store w) @ [requested_message record' requestID correlation at eventID]\<rparr>" for eventID
  from assms(1) obtain org eventID where
    e: "q = requestID" "c = correlation" "t = at"
    and o: "row_of o_id (OrganizationID record) (organizations (store w)) = Some org" "o_status org \<noteq> OrgRetired"
    and i: "row_of TenantID (TenantID record) (tenants (store w)) = None"
      "row_of pr_request requestID (provisioning (store w)) = None"
    and r: "record' = record\<lparr>Status := TenantRequested, Version := 1, SecurityVersion := 1,
        CreatedAt := db_clock env (ticks w)\<rparr>"
    and p: "Respond env cx (ResRequested record' q c t) (w\<lparr>minted := Suc (minted w), store := s2 eventID\<rparr>) = (Inr (), w')"
    by (auto simp: request_body_def insertTenant_def insertProvisioning_def publishRequested_def
        run_simps Let_def provision_command_def requested_message_def s2_def split: option.splits)
  have "data w' = (data w)\<lparr>tenants := tenants (store w) @ [record'],
       provisioning := provisioning (store w) @ [provision_command record' requestID correlation at],
       outbox := outbox (store w) @ [requested_message record' requestID correlation at eventID]\<rparr>"
    using Respond_run[OF p] by (simp add: bookkept_def data_def s2_def)
  then show ?thesis
    using e o i r assms(2-5) by (auto simp: fresh_tenant_def)
qed

text \<open>
  A Tenant request that succeeds adds one Tenant, in \<open>requested\<close> with both versions at one,
  sponsored by an Organization that exists and is not retired; one outstanding provisioning request
  for it that carries the caller's correlation; one standard-lane event naming both; the access
  record; and nothing else.
\<close>

theorem tenant_Request_effect:
  assumes "tenant_Request env cx req w = (Inr (record, requestID, correlation, acceptedAt), w')"
  shows "fresh_tenant record \<and> row_of TenantID (TenantID record) (tenants (store w)) = None \<and>
    OrganizationID record = rt_organization req \<and> DisplayName record = TrimSpace (rt_displayName req) \<and>
    (\<exists>org. row_of o_id (OrganizationID record) (organizations (store w)) = Some org \<and> o_status org \<noteq> OrgRetired) \<and>
    (\<exists>scope i eventID. cx_scope cx = Some scope \<and> sc_provider scope \<and> correlation = sc_correlation scope \<and>
      data w' = (with_audit [(Evidence scope cx (rt_reason req))\<lparr>ac_id := fst i, ac_occurredAt := snd i\<rparr>] (data w))
        \<lparr>tenants := tenants (store w) @ [record],
         provisioning := provisioning (store w) @ [provision_command record requestID correlation acceptedAt],
         outbox := outbox (store w) @ [requested_message record requestID correlation acceptedAt eventID]\<rparr>)"
proof -
  define w0 where "w0 = w\<lparr>minted := Suc (Suc (minted w)), ticks := Suc (ticks w)\<rparr>"
  then have w0: "store w0 = store w" by simp
  from assms obtain scope tenantID q where scope: "cx_scope cx = Some scope"
    and run: "WithProviderScope env cx (rt_reason req) (\<lambda>b cx.
          request_body env cx \<lparr>TenantID = tenantID, OrganizationID = rt_organization req,
           DisplayName = TrimSpace (rt_displayName req), Status = TenantRequested,
           IsolationProfile = rt_profile req, ResidencyRegion = TrimSpace (rt_region req),
           Version = 0, SecurityVersion = 0, ActivatedAt = None, SuspendedAt = None,
           OffboardingStartedAt = None, RetiredAt = None, CreatedAt = 0\<rparr> q (sc_correlation scope)
           (clock env (ticks w))) w0 =
        (Inr (record, requestID, correlation, acceptedAt), w')"
    by (auto simp: tenant_Request_def run_simps Let_def w0_def split: option.splits)
  from run obtain i cx1 w1 where s: "sc_provider scope"
    and ent: "entered [(Evidence scope cx (rt_reason req))\<lparr>ac_id := fst i, ac_occurredAt := snd i\<rparr>] w0 w1"
    and body: "request_body env cx1 \<lparr>TenantID = tenantID, OrganizationID = rt_organization req,
           DisplayName = TrimSpace (rt_displayName req), Status = TenantRequested,
           IsolationProfile = rt_profile req, ResidencyRegion = TrimSpace (rt_region req),
           Version = 0, SecurityVersion = 0, ActivatedAt = None, SuspendedAt = None,
           OffboardingStartedAt = None, RetiredAt = None, CreatedAt = 0\<rparr> q (sc_correlation scope)
           (clock env (ticks w)) w1 =
        (Inr (record, requestID, correlation, acceptedAt), w')"
    using scope by (elim WithProviderScope_enters) simp
  have "data w1 = with_audit [(Evidence scope cx (rt_reason req))\<lparr>ac_id := fst i, ac_occurredAt := snd i\<rparr>] (data w)"
    using ent w0 by (simp add: entered_def data_def)
  then show ?thesis
    using request_body_effect[OF body] s scope entered_fields[OF ent] w0 by auto
qed


section \<open>Reports of the provisioning system\<close>

lemma insort_key_map: "insort_key k (f x) (map f xs) = map f (insort_key (k \<circ> f) x xs)"
  by (induction xs) auto

lemma sort_key_map: "sort_key k (map f xs) = map f (sort_key (k \<circ> f) xs)"
  by (induction xs) (simp_all add: insort_key_map comp_def)

text \<open>An UPDATE that leaves the columns of a query's filter and order commutes with the query.\<close>

lemma order_desc_change:
  assumes "\<And>r. k (f r) = k r" "\<And>r. P (f r) = P r"
  shows "order_desc k (filter P (map f rows)) = map f (order_desc k (filter P rows))"
proof -
  have "k \<circ> f = k" "P \<circ> f = P" using assms by auto
  then show ?thesis
    by (simp add: order_desc_def filter_map sort_key_map rev_map)
qed

definition outcome_row :: "uuid \<Rightarrow> request_state \<Rightarrow> instant \<Rightarrow> string option \<Rightarrow> provisioning_request \<Rightarrow> provisioning_request" where
  "outcome_row requestID to at detail r =
     (if pr_request r = requestID then r\<lparr>pr_state := to, pr_resolved_at := Some at, pr_detail := detail\<rparr> else r)"

lemma outcome_row_columns [simp]:
  "pr_request (outcome_row q to at d r) = pr_request r"
  "pr_tenant (outcome_row q to at d r) = pr_tenant r"
  "pr_correlation (outcome_row q to at d r) = pr_correlation r"
  "pr_requested_at (outcome_row q to at d r) = pr_requested_at r"
  "is_provision (outcome_row q to at d r) = is_provision r"
  "pr_state (outcome_row q to at d r) = (if pr_request r = q then to else pr_state r)"
  by (simp_all add: outcome_row_def is_provision_def)

lemma resolve_request_run [run_simps]:
  "resolve_request q to at d w = (Inr u, w') \<longleftrightarrow>
     w' = w\<lparr>store := (store w)\<lparr>provisioning := map (outcome_row q to at d) (provisioning (store w))\<rparr>\<rparr>"
  by (auto simp: resolve_request_def run_simps change_row_def outcome_row_def)

lemma correlated_outcome:
  "correlated c (s\<lparr>provisioning := map (outcome_row q to at d) (provisioning s)\<rparr>) =
     map (outcome_row q to at d) (correlated c s)"
  unfolding correlated_def by simp (rule order_desc_change, simp_all)

lemma correlated_tenants:
  "correlated c (s\<lparr>tenants := ts\<rparr>) = correlated c s"
  by (simp add: correlated_def)

lemma correlate_run:
  "correlate c w = (Inr p, w') \<Longrightarrow>
     w' = w \<and> (\<exists>rest. correlated c (store w) = p # rest \<and> list_all (\<lambda>r. pr_tenant r = pr_tenant p) rest)"
proof -
  have quiet: "foreach (\<lambda>r. ensure (Q r) e) rows v = (Inr us, v') \<Longrightarrow> v' = v"
    for Q :: "provisioning_request \<Rightarrow> bool" and e :: error and rows v us v'
    by (induction rows arbitrary: v us) (auto simp: run_simps)
  assume "correlate c w = (Inr p, w')"
  then show ?thesis
    by (auto simp: correlate_def run_simps dest!: quiet split: list.splits)
qed

text \<open>What the advance of a report does to the store: the rows of silent transitions, nothing else.\<close>

lemma silent_transition:
  assumes "tenant_transitionWithin env b action cmd no_guard w = (Inr result, w')"
    and "tenant_eventTypes action = None"
  obtains r rule where
    "row_of TenantID (tc_tenant cmd) (tenants (store w)) = Some r"
    "tenant_transitions action = Some rule" "Status r \<in> set (r_from rule)"
    "store w' = (store w)\<lparr>tenants := put_row TenantID (rule_effect rule (clock env (ticks w)) r) (tenants (store w))\<rparr>"
    "tr_tenant result = Narrow (rule_effect rule (clock env (ticks w)) r)"
proof -
  have "yields (kept (\<lambda>w. tenants (store w))) (no_guard h)" for h
    by (simp add: no_guard_def kept.y_return)
  with assms(1) show thesis
  proof (rule tenant_transitionWithin_effect)
    fix r rule w1 w2 eventID
    assume "tenant_row b (tc_tenant cmd) (store w) = Some r" "tenant_transitions action = Some rule"
      "tenant_Resolve action (Status r) = Inr (r_to rule)"
      "store w1 = store w" "no_guard (Narrow r) w1 = (Inr (), w2)"
      "store w' = tenant_written action (clock env (ticks w)) (rule_effect rule (clock env (ticks w)) r)
         eventID (store w2)"
      "result = \<lparr>tr_tenant = Narrow (rule_effect rule (clock env (ticks w)) r),
         tr_acceptedAt = clock env (ticks w), tr_published = (tenant_eventTypes action \<noteq> None)\<rparr>"
    with assms(2) show thesis
      by (intro that[of r rule])
        (auto simp: no_guard_def run_simps tenant_written_def tenant_Resolve_def
          dest: tenant_row_SomeD split: if_splits)
  qed
qed

text \<open>The store differs in the rows of one Tenant alone.\<close>

definition only_tenant :: "uuid \<Rightarrow> store \<Rightarrow> store \<Rightarrow> bool" where
  "only_tenant k s s' \<longleftrightarrow>
     s' = s\<lparr>tenants := tenants s'\<rparr> \<and>
     (\<forall>j. j \<noteq> k \<longrightarrow> row_of TenantID j (tenants s') = row_of TenantID j (tenants s))"

lemma only_tenant_refl: "only_tenant k s s"
  by (simp add: only_tenant_def)

lemma only_tenant_trans: "only_tenant k s t \<Longrightarrow> only_tenant k t u \<Longrightarrow> only_tenant k s u"
  unfolding only_tenant_def by (cases s; cases t; cases u) auto

lemma only_tenant_fields:
  assumes "only_tenant k s s'"
  shows "outbox s' = outbox s" "tenant_events s' = tenant_events s" "memberships s' = memberships s"
    "provisioning s' = provisioning s"
  using assms unfolding only_tenant_def by (cases s; cases s'; simp)+

lemma advance_through_effect:
  assumes "advance_through env b reason actions (Narrow r) w = (Inr head, w')"
    and "row_of TenantID (TenantID r) (tenants (store w)) = Some r"
    and "set actions \<subseteq> {TenantProvision, TenantFail}"
  shows "only_tenant (TenantID r) (store w) (store w') \<and>
    (\<exists>r'. row_of TenantID (TenantID r) (tenants (store w')) = Some r' \<and> head = Narrow r' \<and>
       SecurityVersion r' = SecurityVersion r \<and>
       Status r' = (if actions = [] then Status r
                    else if last actions = TenantFail then TenantFailed else TenantProvisioning))"
  using assms
proof (induction actions arbitrary: r w)
  case Nil
  then show ?case by (auto simp: run_simps only_tenant_refl)
next
  case (Cons a rest)
  from Cons.prems(1) obtain result w1 where
    t: "tenant_transitionWithin env b a \<lparr>tc_tenant = TenantID r, tc_reason = reason,
          tc_expectedVersion = th_version (Narrow r)\<rparr> no_guard w = (Inr result, w1)"
    and rest: "advance_through env b reason rest (tr_tenant result) w1 = (Inr head, w')"
    by (auto simp: run_simps Narrow_def)
  have "tenant_eventTypes a = None" using Cons.prems(3) by auto
  from silent_transition[OF t this] obtain rule where
    rule: "tenant_transitions a = Some rule"
    and w1: "store w1 = (store w)\<lparr>tenants := put_row TenantID (rule_effect rule (clock env (ticks w)) r) (tenants (store w))\<rparr>"
    and res: "tr_tenant result = Narrow (rule_effect rule (clock env (ticks w)) r)"
    using Cons.prems(2) by (metis option.inject tenant_command.select_convs(1))
  let ?r1 = "rule_effect rule (clock env (ticks w)) r"
  have row1: "row_of TenantID (TenantID ?r1) (tenants (store w1)) = Some ?r1"
    using Cons.prems(2) w1 by (simp add: row_of_put_row)
  have one: "only_tenant (TenantID r) (store w) (store w1)"
    using w1 by (simp add: only_tenant_def row_of_put_row)
  have dest: "r_to rule = (if a = TenantFail then TenantFailed else TenantProvisioning)"
    "\<not> r_securityVersion rule"
    using rule Cons.prems(3) by auto
  show ?case
    using Cons.IH[OF rest[unfolded res] row1] Cons.prems(3) only_tenant_trans[OF one] dest by auto
qed

definition report_status :: "request_state \<Rightarrow> tenant_state \<Rightarrow> tenant_state" where
  "report_status to s =
     (if to = RequestRealized \<and> s = TenantRequested then TenantProvisioning
      else if to = RequestFailed \<and> s \<in> {TenantRequested, TenantProvisioning} then TenantFailed
      else s)"

lemma record_body_effect:
  assumes "record_body env b oc to at w = (Inr res, w')"
  obtains p rest r where
    "correlated (oc_correlation oc) (store w) = p # rest" "rs_request res = pr_request p"
    "rs_tenant res = pr_tenant p" "row_of TenantID (pr_tenant p) (tenants (store w)) = Some r"
    "if request_resolved (pr_state p) then pr_state p = to \<and> rs_replay res \<and> w' = w
     else \<not> rs_replay res \<and>
       only_tenant (pr_tenant p)
         ((store w)\<lparr>provisioning := map (outcome_row (pr_request p) to at
             (nullableText (TrimSpace (oc_detail oc)))) (provisioning (store w))\<rparr>) (store w') \<and>
       (\<exists>r'. row_of TenantID (pr_tenant p) (tenants (store w')) = Some r' \<and> rs_head res = Narrow r' \<and>
          Status r' = report_status to (Status r) \<and> SecurityVersion r' = SecurityVersion r)"
proof -
  from assms obtain p w1 where c: "correlate (oc_correlation oc) w = (Inr p, w1)"
    by (auto simp: record_body_def run_simps)
  from correlate_run[OF c] obtain rest where w1: "w1 = w"
    and rest: "correlated (oc_correlation oc) (store w) = p # rest" by auto
  from assms c w1 obtain r where r: "tenant_row b (pr_tenant p) (store w) = Some r"
    by (auto simp: record_body_def run_simps)
  then have row: "row_of TenantID (pr_tenant p) (tenants (store w)) = Some r" "TenantID r = pr_tenant p"
    using tenant_row_SomeD by auto
  show thesis
  proof (cases "request_resolved (pr_state p)")
    case True
    then show thesis
      using that[OF rest _ _ row(1)] assms c w1 by (auto simp: record_body_def run_simps)
  next
    case False
    let ?w2 = "w\<lparr>store := (store w)\<lparr>provisioning := map (outcome_row (pr_request p) to at
             (nullableText (TrimSpace (oc_detail oc)))) (provisioning (store w))\<rparr>\<rparr>"
    from False assms c w1 r obtain head where
      a: "advance env b (Narrow r) to (oc_reason oc) ?w2 = (Inr head, w')"
      and res: "rs_request res = pr_request p" "rs_tenant res = pr_tenant p" "\<not> rs_replay res" "rs_head res = head"
      by (auto simp: record_body_def run_simps)
    have sub: "set (advance_steps to (Status r)) \<subseteq> {TenantProvision, TenantFail}"
      by (auto simp: advance_steps_def)
    have "th_status (Narrow r) = Status r" by (simp add: Narrow_def)
    then have "advance_through env b (oc_reason oc) (advance_steps to (Status r)) (Narrow r) ?w2 = (Inr head, w')"
      using a by (simp add: advance_def)
    from advance_through_effect[OF this _ sub] show thesis
      using that[OF rest res(1,2) row(1)] row res False
      by (auto simp: advance_steps_def report_status_def split: if_splits)
  qed
qed


lemma record_body_replay:
  assumes "record_body env b oc to at w = (Inr res, w')" "correlated (oc_correlation oc) (store w) = p # rest"
    and "request_resolved (pr_state p)"
  shows "pr_state p = to \<and> rs_replay res \<and> w' = w \<and> rs_request res = pr_request p"
  using assms(1) by (rule record_body_effect) (use assms(2,3) in simp)

lemma coordinator_record_enters:
  assumes "coordinator_record env cx oc to requireDetail w = (Inr res, w')"
  obtains a w1 at where "entered [a] w w1" "record_body env BoundProvider oc to at w1 = (Inr res, w')"
proof -
  let ?w = "w\<lparr>ticks := Suc (ticks w)\<rparr>"
  from assms have "WithProviderScope env cx (oc_reason oc)
      (\<lambda>b cx. record_body env b oc to (clock env (ticks w))) ?w = (Inr res, w')"
    by (auto simp: coordinator_record_def run_simps)
  then show thesis
    by (rule WithProviderScope_enters) (use that in \<open>auto simp: entered_def data_def\<close>)
qed

lemma correlated_only_tenant: "only_tenant k s s' \<Longrightarrow> correlated c s' = correlated c s"
  unfolding only_tenant_def by (metis correlated_tenants)

lemma correlated_provisioning: "provisioning s' = provisioning s \<Longrightarrow> correlated c s' = correlated c s"
  by (simp add: correlated_def)


text \<open>
  A report moves its own Tenant along the provisioning part of the machine and no further: a
  realized report takes a requested Tenant to \<open>provisioning\<close>, a failed one takes a requested or
  provisioning Tenant to \<open>failed\<close>, any other Tenant stays as it is. No report activates a Tenant,
  publishes an event or changes a security version.
\<close>

theorem report_effect:
  assumes "coordinator_record env cx oc to requireDetail w = (Inr res, w')"
  shows "outbox (store w') = outbox (store w) \<and> tenant_events (store w') = tenant_events (store w) \<and>
    memberships (store w') = memberships (store w) \<and>
    (\<exists>r r'. row_of TenantID (rs_tenant res) (tenants (store w)) = Some r \<and>
      row_of TenantID (rs_tenant res) (tenants (store w')) = Some r' \<and>
      SecurityVersion r' = SecurityVersion r \<and>
      (if rs_replay res then r' = r else Status r' = report_status to (Status r))) \<and>
    (\<forall>k. k \<noteq> rs_tenant res \<longrightarrow>
      row_of TenantID k (tenants (store w')) = row_of TenantID k (tenants (store w)))"
proof -
  from assms obtain a w1 at where e: "entered [a] w w1"
    and b: "record_body env BoundProvider oc to at w1 = (Inr res, w')"
    by (rule coordinator_record_enters)
  from b show ?thesis
  proof (rule record_body_effect)
    fix p rest r
    assume r: "rs_tenant res = pr_tenant p" "row_of TenantID (pr_tenant p) (tenants (store w1)) = Some r"
      and c: "if request_resolved (pr_state p) then pr_state p = to \<and> rs_replay res \<and> w' = w1
       else \<not> rs_replay res \<and>
         only_tenant (pr_tenant p)
           ((store w1)\<lparr>provisioning := map (outcome_row (pr_request p) to at
               (nullableText (TrimSpace (oc_detail oc)))) (provisioning (store w1))\<rparr>) (store w') \<and>
         (\<exists>r'. row_of TenantID (pr_tenant p) (tenants (store w')) = Some r' \<and> rs_head res = Narrow r' \<and>
            Status r' = report_status to (Status r) \<and> SecurityVersion r' = SecurityVersion r)"
    show ?thesis
    proof (cases "request_resolved (pr_state p)")
      case True
      then show ?thesis using c r entered_fields[OF e] by simp
    next
      case False
      let ?s = "(store w1)\<lparr>provisioning := map (outcome_row (pr_request p) to at
               (nullableText (TrimSpace (oc_detail oc)))) (provisioning (store w1))\<rparr>"
      have o: "only_tenant (pr_tenant p) ?s (store w')" using False c by simp
      then show ?thesis
        using False c r only_tenant_fields[OF o] entered_fields[OF e] by (auto simp: only_tenant_def)
    qed
  qed
qed

section \<open>The sweep is bounded and moves no Tenant\<close>

lemma swept_rows:
  assumes "k \<in> set (swept cutoff n s)"
  shows "\<exists>r \<in> set (provisioning s). pr_request r = k \<and> pr_state r = RequestRequested \<and> pr_requested_at r < cutoff"
  using assms by (auto simp: swept_def dest!: in_set_takeD)

text \<open>
  One run of the sweep ages at most the batch it was asked for, reports how many, touches only
  requests still in \<open>requested\<close> that are older than the timeout, and changes no other table: an
  unanswered request never moves its Tenant.
\<close>

theorem sweep_bounded:
  assumes "ScheduledSweepUnresolved env n w = (Inr affected, w')" "keyed pr_request (provisioning (store w))"
  shows "0 \<le> affected \<and> affected \<le> n \<and>
    (\<exists>at rows. store w' = (store w)\<lparr>provisioning := rows\<rparr> \<and>
       affected = int (card {k. row_of pr_request k rows \<noteq> row_of pr_request k (provisioning (store w))}) \<and>
       (\<forall>k r. row_of pr_request k (provisioning (store w)) = Some r \<longrightarrow>
          row_of pr_request k rows = Some r \<or>
          pr_state r = RequestRequested \<and> pr_requested_at r < at - timeout env \<and>
          row_of pr_request k rows = Some (sweep_row at r)))"
proof -
  let ?at = "clock env (Suc (ticks w))" and ?s = "store w"
  let ?ids = "swept (?at - timeout env) n ?s"
  let ?f = "\<lambda>r. if pr_request r \<in> set ?ids then sweep_row ?at r else r"
  have n: "n > 0" and a: "affected = int (length ?ids)"
    and w': "store w' = ?s\<lparr>provisioning := map ?f (provisioning ?s)\<rparr>"
    using assms(1) by (auto simp: ScheduledSweepUnresolved_def sweep_def run_simps)
  have key: "pr_request (?f r) = pr_request r" for r by (simp add: sweep_row_def)
  have rows: "row_of pr_request k (map ?f (provisioning ?s)) = map_option ?f (row_of pr_request k (provisioning ?s))" for k
    using key by (rule row_of_map)
  have old: "pr_state r = RequestRequested \<and> pr_requested_at r < ?at - timeout env"
    if "row_of pr_request k (provisioning ?s) = Some r" "k \<in> set ?ids" for k r
    using swept_rows[OF that(2)] row_of_keyed[OF assms(2)] that(1) by fastforce
  have changed: "{k. row_of pr_request k (map ?f (provisioning ?s)) \<noteq> row_of pr_request k (provisioning ?s)} = set ?ids"
  proof (intro set_eqI iffI)
    fix k assume "k \<in> {k. row_of pr_request k (map ?f (provisioning ?s)) \<noteq> row_of pr_request k (provisioning ?s)}"
    then show "k \<in> set ?ids"
      by (cases "row_of pr_request k (provisioning ?s)") (auto simp: rows dest: row_of_SomeD split: if_splits)
  next
    fix k assume k: "k \<in> set ?ids"
    then obtain r where r: "row_of pr_request k (provisioning ?s) = Some r"
      using swept_rows[OF k] row_of_keyed[OF assms(2)] by metis
    have "sweep_row ?at r \<noteq> r"
      using old[OF r k] by (cases r) (auto simp: sweep_row_def)
    moreover have "pr_request r = k" using row_of_SomeD[OF r] by simp
    ultimately show "k \<in> {k. row_of pr_request k (map ?f (provisioning ?s)) \<noteq> row_of pr_request k (provisioning ?s)}"
      using r k by (simp add: rows)
  qed
  have "distinct ?ids"
    using assms(2) by (simp add: swept_def keyed_def distinct_map inj_on_def)
      (metis (mono_tags, lifting) distinct_sort distinct_filter distinct_take filter_is_subset inj_onD in_set_takeD set_sort subsetD)
  then have "card (set ?ids) = length ?ids" by (rule distinct_card)
  moreover have "length ?ids \<le> nat n" by (simp add: swept_def)
  ultimately show ?thesis
    using a n w' changed old
    by (intro conjI exI[of _ ?at] exI[of _ "map ?f (provisioning ?s)"])
      (auto simp: rows dest: row_of_SomeD)
qed

end
