(* ===== verification/Membership_Service.thy ===== *)
theory Membership_Service
  imports Optimistic Paging
begin

text \<open>
  Memberships: \<open>src/internal/membership/service.go\<close> and \<open>membership/advance.go\<close>, on the table
  \<open>membership.membership\<close> with the constraints of \<open>schema.hcl\<close> that a statement can meet (the primary
  key, the Tenant and the Workspace it refers to, one active Membership per Principal, context and
  subject type).
\<close>

section \<open>Requests and payloads\<close>

record grant_request =
  gr_principal :: uuid
  gr_tenant :: uuid
  gr_workspace :: uuid
  gr_subject :: string
  gr_provenance :: string
  gr_validFrom :: instant
  gr_validUntil :: instant

definition validateGrant :: "grant_request \<Rightarrow> uuid \<Rightarrow> error + unit" where
  "validateGrant req boundTenant =
     (if IsNil (gr_principal req) then Inl (ErrInvalid PkgMembership)
      else if gr_subject req \<noteq> ''human'' \<and> gr_subject req \<noteq> ''workload'' then Inl (ErrInvalid PkgMembership)
      else if gr_provenance req = [] then Inl (ErrInvalid PkgMembership)
      else if IsZero (gr_validFrom req) then Inl (ErrInvalid PkgMembership)
      else if \<not> IsZero (gr_validUntil req) \<and> \<not> gr_validUntil req > gr_validFrom req
        then Inl (ErrInvalid PkgMembership)
      else if \<not> IsNil (gr_tenant req) \<and> gr_tenant req \<noteq> boundTenant then Inl (ErrInvalid PkgMembership)
      else Inr ())"

record membership_command =
  mc_membership :: uuid
  mc_expectedVersion :: int
  mc_reason :: string

definition membership_validate :: "membership_command \<Rightarrow> membership_action \<Rightarrow> error + unit" where
  "membership_validate c action =
     (if IsNil (mc_membership c) then Inl (ErrInvalid PkgMembership)
      else if mc_expectedVersion c \<le> 0 then Inl (ErrInvalid PkgMembership)
      else if action = MembershipRevoke \<and> blank (mc_reason c) then Inl (ErrReasonRequired PkgMembership)
      else Inr ())"

definition membership_NewPayload :: "membership \<Rightarrow> int \<Rightarrow> membership_payload" where
  "membership_NewPayload m tenantSecurityVersion =
     \<lparr>mp_membership = m_id m, mp_principal = m_principal m, mp_tenant = m_tenant m,
      mp_workspace = (if IsNil (m_workspace m) then None else Some (m_workspace m)),
      mp_status = m_status m, mp_version = m_version m, mp_tenantSecurityVersion = tenantSecurityVersion\<rparr>"

section \<open>Statements\<close>

text \<open>The context of a Membership: its Workspace, or its Tenant when it has none.\<close>

definition active_key :: "membership \<Rightarrow> uuid \<times> uuid \<times> uuid \<times> string" where
  "active_key m =
     (m_principal m, m_tenant m, if IsNil (m_workspace m) then m_tenant m else m_workspace m, m_subject m)"

definition active_clash :: "membership \<Rightarrow> membership list \<Rightarrow> bool" where
  "active_clash m rows \<longleftrightarrow>
     m_status m = MembershipActive \<and>
     list_ex (\<lambda>r. m_id r \<noteq> m_id m \<and> m_status r = MembershipActive \<and> active_key r = active_key m) rows"

definition references :: "membership \<Rightarrow> store \<Rightarrow> bool" where
  "references m s \<longleftrightarrow>
     row_of TenantID (m_tenant m) (tenants s) \<noteq> None \<and>
     (IsNil (m_workspace m) \<or>
      list_ex (\<lambda>ws. ws_tenant ws = m_tenant m \<and> ws_id ws = m_workspace m) (workspaces s))"

definition insert_membership :: "binding \<Rightarrow> membership \<Rightarrow> unit tx" where
  "insert_membership b m =
     seq (ensure (sees b (m_tenant m)) (ErrInternal ''row security'')) (\<lambda>_.
     seq (read_db (\<lambda>s. row_of m_id (m_id m) (memberships s) = None \<and> references m s \<and>
            \<not> active_clash m (memberships s))) (\<lambda>ok.
     seq (ensure ok (ErrInternal ''membership: insert'')) (\<lambda>_.
     write_db (\<lambda>s. s\<lparr>memberships := memberships s @ [m]\<rparr>))))"

definition membership_row :: "binding \<Rightarrow> uuid \<Rightarrow> store \<Rightarrow> membership option" where
  "membership_row b membershipID s =
     (case row_of m_id membershipID (memberships s) of
        Some m \<Rightarrow> if sees b (m_tenant m) then Some m else None
      | None \<Rightarrow> None)"

definition membership_load :: "binding \<Rightarrow> uuid \<Rightarrow> membership tx" where
  "membership_load b membershipID =
     seq (read_db (membership_row b membershipID)) (\<lambda>row.
     case row of
       None \<Rightarrow> raise (ErrNotFound PkgMembership)
     | Some m \<Rightarrow>
         seq (ensure (membership_Valid (m_status m)) (ErrInternal ''stored status'')) (\<lambda>_. return m))"

text \<open>
  \<open>updateStatement\<close>: the version is incremented by the database, and an update to \<open>active\<close> is refused
  by the unique index when the same subject is active in the same context.
\<close>

definition update_status :: "binding \<Rightarrow> uuid \<Rightarrow> membership_state \<Rightarrow> int tx" where
  "update_status b membershipID to =
     seq (read_db (membership_row b membershipID)) (\<lambda>row.
     case row of
       None \<Rightarrow> raise (ErrInternal ''membership: update status'')
     | Some m \<Rightarrow>
         seq (lift (bigint_incr (m_version m))) (\<lambda>v.
         let m' = m\<lparr>m_status := to, m_version := v\<rparr>
         in seq (read_db (\<lambda>s. active_clash m' (memberships s))) (\<lambda>clash.
            seq (ensure (\<not> clash) (ErrInternal ''membership_active_unique'')) (\<lambda>_.
            seq (write_db (\<lambda>s. s\<lparr>memberships := put_row m_id m' (memberships s)\<rparr>)) (\<lambda>_.
            return v)))))"

definition tenantSecurityVersion :: "binding \<Rightarrow> uuid \<Rightarrow> int tx" where
  "tenantSecurityVersion b tenantID =
     seq (read_db (\<lambda>s. row_of TenantID tenantID (tenants s))) (\<lambda>row.
     case row of
       Some t \<Rightarrow>
         if sees b (TenantID t) then return (SecurityVersion t)
         else raise (ErrInternal ''read tenant security version'')
     | None \<Rightarrow> raise (ErrInternal ''read tenant security version''))"

text \<open>The event table's keys: the event identifier, and one event per version of a Membership.\<close>

definition recordMembershipEvent :: "membership_event \<Rightarrow> unit tx" where
  "recordMembershipEvent e =
     seq (read_db (\<lambda>s. list_ex (\<lambda>r. me_event r = me_event e \<or>
            (me_membership r = me_membership e \<and> me_version r = me_version e)) (membership_events s))) (\<lambda>clash.
     seq (ensure (\<not> clash) (ErrInternal ''membership_event keys'')) (\<lambda>_.
     write_db (\<lambda>s. s\<lparr>membership_events := membership_events s @ [e]\<rparr>)))"

definition membership_appendEvent ::
  "env \<Rightarrow> ctx \<Rightarrow> membership_action \<Rightarrow> membership \<Rightarrow> int \<Rightarrow> instant \<Rightarrow> string \<Rightarrow> uuid tx" where
  "membership_appendEvent env cx action record securityVersion occurredAt reason =
     seq (hook env ''membership.beforeAppend'') (\<lambda>_.
     seq (lift (membership_EventType (parses env) action)) (\<lambda>eventType.
     seq (publish env (m_id record) eventType occurredAt
            (MembershipPayload (membership_NewPayload record securityVersion)) (membership_Priority action)) (\<lambda>eventID.
     seq (ScopeFrom cx) (\<lambda>scope.
     seq (recordMembershipEvent
            \<lparr>me_event = eventID, me_membership = m_id record, me_tenant = m_tenant record,
             me_version = m_version record, me_type = eventType, me_actor = sc_actor scope,
             me_correlation = sc_correlation scope, me_reason = reason, me_recorded_at = occurredAt\<rparr>) (\<lambda>_.
     return eventID)))))"

section \<open>Grant\<close>

definition GrantWithin :: "env \<Rightarrow> binding \<Rightarrow> ctx \<Rightarrow> grant_request \<Rightarrow> membership_result tx" where
  "GrantWithin env b cx req =
     seq (ScopeFrom cx) (\<lambda>scope.
     seq (lift (validateGrant req (sc_tenant scope))) (\<lambda>_.
     seq (newID env) (\<lambda>membershipID.
     let record = \<lparr>m_id = membershipID, m_principal = gr_principal req, m_tenant = sc_tenant scope,
           m_workspace = gr_workspace req, m_subject = gr_subject req, m_status = MembershipActive,
           m_version = 1, m_validFrom = gr_validFrom req, m_validUntil = gr_validUntil req,
           m_provenance = gr_provenance req\<rparr>
     in seq (now env) (\<lambda>acceptedAt.
        seq (tenantSecurityVersion b (sc_tenant scope)) (\<lambda>securityVersion.
        seq (insert_membership b record) (\<lambda>_.
        seq (membership_appendEvent env cx MembershipGrant record securityVersion acceptedAt []) (\<lambda>eventID.
        return \<lparr>mr_membership = record, mr_acceptedAt = acceptedAt,
                mr_securityVersion = securityVersion, mr_event = eventID\<rparr>)))))))"

definition Grant :: "env \<Rightarrow> ctx \<Rightarrow> grant_request \<Rightarrow> membership_result tx" where
  "Grant env cx req =
     seq (ScopeFrom cx) (\<lambda>scope.
     seq (lift (validateGrant req (sc_tenant scope))) (\<lambda>_.
     WithTenantScope env cx (\<lambda>b cx.
       seq (GrantWithin env b cx req) (\<lambda>result.
       seq (Respond env cx (ResMembership result)) (\<lambda>_.
       return result)))))"

section \<open>Transitions\<close>

definition decide :: "membership_action \<Rightarrow> membership \<Rightarrow> int \<Rightarrow> error + membership_state" where
  "decide action current expectedVersion =
     (case membership_Resolve action (m_status current) of
        Inl e \<Rightarrow> Inl e
      | Inr (next, _) \<Rightarrow>
          if m_version current \<noteq> expectedVersion then Inl (ErrVersionMismatch PkgMembership)
          else Inr next)"

definition membership_TransitionWithin ::
  "env \<Rightarrow> binding \<Rightarrow> ctx \<Rightarrow> membership_action \<Rightarrow> membership_command \<Rightarrow> membership_result tx" where
  "membership_TransitionWithin env b cx action cmd =
     seq (lift (membership_validate cmd action)) (\<lambda>_.
     seq (now env) (\<lambda>acceptedAt.
     seq (membership_load b (mc_membership cmd)) (\<lambda>current.
     seq (lift (decide action current (mc_expectedVersion cmd))) (\<lambda>next.
     seq (tenantSecurityVersion b (m_tenant current)) (\<lambda>securityVersion.
     seq (update_status b (mc_membership cmd) next) (\<lambda>updatedVersion.
     let current' = current\<lparr>m_status := next, m_version := updatedVersion\<rparr>
     in seq (membership_appendEvent env cx action current' securityVersion acceptedAt
               (TrimSpace (mc_reason cmd))) (\<lambda>eventID.
        return \<lparr>mr_membership = current', mr_acceptedAt = acceptedAt,
                mr_securityVersion = securityVersion, mr_event = eventID\<rparr>)))))))"

definition transition_body ::
  "env \<Rightarrow> membership_action \<Rightarrow> membership_command \<Rightarrow> membership_result body" where
  "transition_body env action cmd b cx =
     seq (membership_TransitionWithin env b cx action cmd) (\<lambda>result.
     seq (Respond env cx (ResMembership result)) (\<lambda>_.
     return result))"

definition membership_transition ::
  "env \<Rightarrow> ctx \<Rightarrow> membership_action \<Rightarrow> membership_command \<Rightarrow> membership_result tx" where
  "membership_transition env cx action cmd =
     seq (lift (membership_validate cmd action)) (\<lambda>_.
     seq (ScopeFrom cx) (\<lambda>_.
     WithTenantScope env cx (transition_body env action cmd)))"

definition membership_Suspend :: "env \<Rightarrow> ctx \<Rightarrow> membership_command \<Rightarrow> membership_result tx" where
  "membership_Suspend env cx cmd = membership_transition env cx MembershipSuspend cmd"

definition membership_Revoke :: "env \<Rightarrow> ctx \<Rightarrow> membership_command \<Rightarrow> membership_result tx" where
  "membership_Revoke env cx cmd = membership_transition env cx MembershipRevoke cmd"

definition membership_Restore :: "env \<Rightarrow> ctx \<Rightarrow> membership_command \<Rightarrow> membership_result tx" where
  "membership_Restore env cx cmd = membership_transition env cx MembershipRestore cmd"

definition providerTransition ::
  "env \<Rightarrow> ctx \<Rightarrow> uuid \<Rightarrow> membership_action \<Rightarrow> membership_command \<Rightarrow> membership_result tx" where
  "providerTransition env cx tenantID action cmd =
     seq (ensure (action = MembershipSuspend \<or> action = MembershipRevoke) (ErrInvalid PkgMembership)) (\<lambda>_.
     seq (ensure (\<not> IsNil tenantID) (ErrInvalid PkgMembership)) (\<lambda>_.
     seq (ensure (\<not> blank (mc_reason cmd)) (ErrReasonRequired PkgMembership)) (\<lambda>_.
     seq (lift (membership_validate cmd action)) (\<lambda>_.
     WithProviderInTenant env cx tenantID (TrimSpace (mc_reason cmd)) (transition_body env action cmd)))))"

definition ProviderSuspend :: "env \<Rightarrow> ctx \<Rightarrow> uuid \<Rightarrow> membership_command \<Rightarrow> membership_result tx" where
  "ProviderSuspend env cx tenantID cmd = providerTransition env cx tenantID MembershipSuspend cmd"

definition ProviderRevoke :: "env \<Rightarrow> ctx \<Rightarrow> uuid \<Rightarrow> membership_command \<Rightarrow> membership_result tx" where
  "ProviderRevoke env cx tenantID cmd = providerTransition env cx tenantID MembershipRevoke cmd"

section \<open>Reads\<close>

definition membership_Get :: "env \<Rightarrow> ctx \<Rightarrow> uuid \<Rightarrow> membership tx" where
  "membership_Get env cx membershipID =
     seq (ensure (\<not> IsNil membershipID) (ErrInvalid PkgMembership)) (\<lambda>_.
     WithTenantRead env cx (\<lambda>b cx. membership_load b membershipID))"

definition membership_GetInTenant :: "env \<Rightarrow> ctx \<Rightarrow> uuid \<Rightarrow> uuid \<Rightarrow> string \<Rightarrow> membership tx" where
  "membership_GetInTenant env cx tenantID membershipID reason =
     seq (ensure (\<not> (IsNil tenantID \<or> IsNil membershipID)) (ErrInvalid PkgMembership)) (\<lambda>_.
     seq (ensure (\<not> blank reason) (ErrReasonRequired PkgMembership)) (\<lambda>_.
     WithProviderInTenant env cx tenantID (TrimSpace reason) (\<lambda>b cx. membership_load b membershipID)))"

record membership_query =
  mq_after :: uuid
  mq_limit :: int
  mq_status :: "membership_state option"
  mq_workspace :: uuid
  mq_principal :: uuid

definition membership_matches :: "binding \<Rightarrow> membership_query \<Rightarrow> membership \<Rightarrow> bool" where
  "membership_matches b q m \<longleftrightarrow>
     sees b (m_tenant m) \<and>
     (case mq_status q of None \<Rightarrow> True | Some st \<Rightarrow> m_status m = st) \<and>
     (case Keyset (mq_workspace q) of None \<Rightarrow> True | Some k \<Rightarrow> m_workspace m = k) \<and>
     (case Keyset (mq_principal q) of None \<Rightarrow> True | Some k \<Rightarrow> m_principal m = k)"

definition membership_List :: "env \<Rightarrow> ctx \<Rightarrow> membership_query \<Rightarrow> (membership list \<times> uuid option) tx" where
  "membership_List env cx q =
     (case ListLimit (mq_limit q) of
        Inl _ \<Rightarrow> raise (ErrInvalid PkgMembership)
      | Inr limit \<Rightarrow>
     seq (ensure (case mq_status q of None \<Rightarrow> True | Some st \<Rightarrow> membership_Valid st) (ErrInvalid PkgMembership)) (\<lambda>_.
     WithTenantRead env cx (\<lambda>b cx.
       seq (read_db (\<lambda>s. take (nat limit + 1)
              (keyset_rows m_id (mq_after q) (membership_matches b q) (memberships s)))) (\<lambda>rows.
       seq (foreach (\<lambda>m. ensure (membership_Valid (m_status m)) (ErrInternal ''stored status'')) rows) (\<lambda>_.
       return (page_of m_id limit rows))))))"

section \<open>Advancing versions after a restore\<close>

text \<open>Go's \<open>int64\<close> addition wraps.\<close>

definition int64_add :: "int \<Rightarrow> int \<Rightarrow> int" where
  "int64_add x y = (x + y + 2 ^ 63) mod 2 ^ 64 - 2 ^ 63"

record version_advance =
  av_membership :: uuid
  av_tenant :: uuid
  av_above :: int

record version_advanced =
  ad_membership :: uuid
  ad_tenant :: uuid
  ad_from :: int
  ad_to :: int
  ad_status :: membership_state
  ad_event :: "uuid option"

definition actionFor :: "membership_state \<Rightarrow> membership_action" where
  "actionFor status =
     (if status = MembershipSuspended then MembershipSuspend
      else if status = MembershipRevoked then MembershipRevoke
      else MembershipRestore)"

definition advanceStatement :: "binding \<Rightarrow> uuid \<Rightarrow> int \<Rightarrow> int \<Rightarrow> int tx" where
  "advanceStatement b membershipID to from =
     seq (read_db (membership_row b membershipID)) (\<lambda>row.
     case row of
       None \<Rightarrow> raise (ErrInternal ''advance version'')
     | Some m \<Rightarrow>
         seq (ensure (m_version m = from) (ErrInternal ''advance version'')) (\<lambda>_.
         seq (write_db (\<lambda>s. s\<lparr>memberships := put_row m_id (m\<lparr>m_version := to\<rparr>) (memberships s)\<rparr>)) (\<lambda>_.
         return to)))"

definition advance_reason :: "int \<Rightarrow> string \<Rightarrow> string" where
  "advance_reason limit reason =
     ''version advanced past '' @ decimal limit @ '' after a restore: '' @ reason"

definition advanceWithin ::
  "env \<Rightarrow> binding \<Rightarrow> ctx \<Rightarrow> version_advance \<Rightarrow> string \<Rightarrow> version_advanced tx" where
  "advanceWithin env b cx a reason =
     seq (membership_load b (av_membership a)) (\<lambda>current.
     let result = \<lparr>ad_membership = av_membership a, ad_tenant = av_tenant a, ad_from = m_version current,
                    ad_to = m_version current, ad_status = m_status current, ad_event = None\<rparr>
     in if m_version current > av_above a then return result
        else
          seq (now env) (\<lambda>acceptedAt.
          seq (tenantSecurityVersion b (m_tenant current)) (\<lambda>securityVersion.
          seq (advanceStatement b (av_membership a) (int64_add (av_above a) 1) (m_version current)) (\<lambda>updated.
          let current' = current\<lparr>m_version := updated\<rparr>
          in seq (membership_appendEvent env cx (actionFor (m_status current')) current' securityVersion
                    acceptedAt (advance_reason (av_above a) reason)) (\<lambda>eventID.
             return (result\<lparr>ad_to := updated, ad_event := Some eventID\<rparr>))))))"

definition advance_groups :: "version_advance list \<Rightarrow> (uuid \<times> version_advance list) list" where
  "advance_groups advances =
     map (\<lambda>t. (t, sort_key av_membership (filter (\<lambda>a. av_tenant a = t) advances)))
       (sort (remdups (map av_tenant advances)))"

definition AdvanceVersions ::
  "env \<Rightarrow> ctx \<Rightarrow> version_advance list \<Rightarrow> string \<Rightarrow> version_advanced list tx" where
  "AdvanceVersions env cx advances reason =
     (let reason = TrimSpace reason in
      seq (ensure (reason \<noteq> []) ErrAdvanceReasonRequired) (\<lambda>_.
      seq (ensure (list_all (\<lambda>a. \<not> (IsNil (av_membership a) \<or> IsNil (av_tenant a) \<or> av_above a < 1)) advances)
             (ErrInvalid PkgMembership)) (\<lambda>_.
      seq (foreach (\<lambda>(tenantID, batch).
             WithProviderInTenant env cx tenantID reason (\<lambda>b cx.
               foreach (\<lambda>a. advanceWithin env b cx a reason) batch))
             (advance_groups advances)) (\<lambda>groups.
      return (concat groups)))))"


section \<open>What a run does\<close>

lemma membership_load_run [run_simps]:
  "membership_load b k w = (Inr m, w') \<longleftrightarrow>
     membership_row b k (store w) = Some m \<and> membership_Valid (m_status m) \<and> w' = w"
  by (auto simp: membership_load_def run_simps split: option.splits)

lemma tenantSecurityVersion_run [run_simps]:
  "tenantSecurityVersion b k w = (Inr v, w') \<longleftrightarrow>
     (\<exists>t. row_of TenantID k (tenants (store w)) = Some t \<and> sees b k \<and> v = SecurityVersion t) \<and> w' = w"
  by (auto simp: tenantSecurityVersion_def run_simps dest: row_of_SomeD split: option.splits if_splits)

lemma membership_row_SomeD:
  "membership_row b k s = Some m \<Longrightarrow>
     row_of m_id k (memberships s) = Some m \<and> m_id m = k \<and> sees b (m_tenant m)"
  by (auto simp: membership_row_def split: option.splits if_splits dest: row_of_SomeD)

lemma update_status_run [run_simps]:
  "update_status b k to w = (Inr v, w') \<longleftrightarrow>
     (\<exists>m. membership_row b k (store w) = Some m \<and> m_version m < bigint_max \<and> v = m_version m + 1 \<and>
        \<not> active_clash (m\<lparr>m_status := to, m_version := v\<rparr>) (memberships (store w)) \<and>
        w' = w\<lparr>store := (store w)\<lparr>memberships :=
          put_row m_id (m\<lparr>m_status := to, m_version := v\<rparr>) (memberships (store w))\<rparr>\<rparr>)"
  by (auto simp: update_status_def run_simps Let_def bigint_incr_Inr split: option.splits)

text \<open>The message and the event row a change of a Membership publishes.\<close>

definition membership_message ::
  "membership_action \<Rightarrow> string \<Rightarrow> int \<Rightarrow> instant \<Rightarrow> membership \<Rightarrow> uuid \<Rightarrow> message" where
  "membership_message action etype securityVersion at m eventID =
     \<lparr>msg_id = eventID, msg_aggregate = m_id m, msg_type = etype, msg_at = at,
      msg_payload = MembershipPayload (membership_NewPayload m securityVersion),
      msg_priority = membership_Priority action\<rparr>"

definition membership_event_row ::
  "scope \<Rightarrow> string \<Rightarrow> instant \<Rightarrow> string \<Rightarrow> membership \<Rightarrow> uuid \<Rightarrow> membership_event" where
  "membership_event_row scope etype at reason m eventID =
     \<lparr>me_event = eventID, me_membership = m_id m, me_tenant = m_tenant m, me_version = m_version m,
      me_type = etype, me_actor = sc_actor scope, me_correlation = sc_correlation scope,
      me_reason = reason, me_recorded_at = at\<rparr>"

definition event_clash :: "membership_event \<Rightarrow> membership_event list \<Rightarrow> bool" where
  "event_clash e rows \<longleftrightarrow>
     list_ex (\<lambda>r. me_event r = me_event e \<or> (me_membership r = me_membership e \<and> me_version r = me_version e)) rows"

lemma membership_appendEvent_run [run_simps]:
  "membership_appendEvent env cx action m sv at reason w = (Inr eventID, w') \<longleftrightarrow>
     (\<exists>etype scope. membership_eventTypes action = Some etype \<and> parses env etype \<and>
        \<not> seam env ''membership.beforeAppend'' \<and> cx_scope cx = Some scope \<and>
        event_id env (minted w) = Some eventID \<and>
        appends env (membership_message action etype sv at m eventID) \<and>
        \<not> event_clash (membership_event_row scope etype at reason m eventID) (membership_events (store w)) \<and>
        w' = w\<lparr>minted := Suc (minted w),
          store := (store w)\<lparr>outbox := outbox (store w) @ [membership_message action etype sv at m eventID],
            membership_events := membership_events (store w) @
              [membership_event_row scope etype at reason m eventID]\<rparr>\<rparr>)"
  by (auto simp: membership_appendEvent_def membership_EventType_def recordMembershipEvent_def run_simps
      membership_message_def membership_event_row_def event_clash_def Let_def
      split: option.splits if_splits)

lemma decide_Inr:
  "decide action m v = Inr to \<longleftrightarrow>
     (\<exists>p. membership_Resolve action (m_status m) = Inr (to, p)) \<and> m_version m = v"
  by (auto simp: decide_def split: sum.splits prod.splits if_splits)

text \<open>The store a Membership write leaves: the row, its event row and its message.\<close>

definition membership_written ::
  "membership_action \<Rightarrow> scope \<Rightarrow> int \<Rightarrow> instant \<Rightarrow> string \<Rightarrow> membership \<Rightarrow> uuid \<Rightarrow> store \<Rightarrow> store" where
  "membership_written action scope sv at reason m eventID s =
     (let etype = the (membership_eventTypes action) in
      s\<lparr>outbox := outbox s @ [membership_message action etype sv at m eventID],
        membership_events := membership_events s @ [membership_event_row scope etype at reason m eventID]\<rparr>)"

lemma TransitionWithin_effect:
  assumes "membership_TransitionWithin env b cx action cmd w = (Inr result, w')"
  obtains m to p t scope where
    "membership_row b (mc_membership cmd) (store w) = Some m" "membership_Valid (m_status m)"
    "membership_Resolve action (m_status m) = Inr (to, p)"
    "m_version m = mc_expectedVersion cmd" "m_version m < bigint_max"
    "row_of TenantID (m_tenant m) (tenants (store w)) = Some t" "cx_scope cx = Some scope"
    "mr_membership result = m\<lparr>m_status := to, m_version := m_version m + 1\<rparr>"
    "mr_securityVersion result = SecurityVersion t"
    "\<not> active_clash (mr_membership result) (memberships (store w))"
    "store w' = membership_written action scope (SecurityVersion t) (mr_acceptedAt result)
       (TrimSpace (mc_reason cmd)) (mr_membership result) (mr_event result)
       ((store w)\<lparr>memberships := put_row m_id (mr_membership result) (memberships (store w))\<rparr>)"
  using assms
  by (auto simp: membership_TransitionWithin_def run_simps Let_def decide_Inr membership_written_def)

definition granted :: "grant_request \<Rightarrow> scope \<Rightarrow> uuid \<Rightarrow> membership" where
  "granted req scope k =
     \<lparr>m_id = k, m_principal = gr_principal req, m_tenant = sc_tenant scope, m_workspace = gr_workspace req,
      m_subject = gr_subject req, m_status = MembershipActive, m_version = 1,
      m_validFrom = gr_validFrom req, m_validUntil = gr_validUntil req, m_provenance = gr_provenance req\<rparr>"

lemma GrantWithin_effect:
  assumes "GrantWithin env b cx req w = (Inr result, w')"
  obtains k t scope where
    "cx_scope cx = Some scope" "validateGrant req (sc_tenant scope) = Inr ()"
    "mr_membership result = granted req scope k" "sees b (sc_tenant scope)"
    "row_of m_id k (memberships (store w)) = None" "references (granted req scope k) (store w)"
    "\<not> active_clash (granted req scope k) (memberships (store w))"
    "row_of TenantID (sc_tenant scope) (tenants (store w)) = Some t" "mr_securityVersion result = SecurityVersion t"
    "store w' = membership_written MembershipGrant scope (SecurityVersion t) (mr_acceptedAt result) []
       (granted req scope k) (mr_event result)
       ((store w)\<lparr>memberships := memberships (store w) @ [granted req scope k]\<rparr>)"
  using assms
  by (auto simp: GrantWithin_def insert_membership_def run_simps Let_def membership_written_def granted_def)


section \<open>Relations every Membership operation respects\<close>

text \<open>
  A relation that tolerates the three writes of the Membership table, for the rows of the Tenants
  \<open>visible\<close>, is respected by every operation whose binding sees those Tenants alone.
\<close>

definition status_step :: "membership_action \<Rightarrow> membership \<Rightarrow> membership \<Rightarrow> membership list \<Rightarrow> bool" where
  "status_step a m m' rows \<longleftrightarrow>
     row_of m_id (m_id m) rows = Some m \<and> a \<noteq> MembershipGrant \<and>
     (\<exists>to p. membership_Resolve a (m_status m) = Inr (to, p) \<and>
        m' = m\<lparr>m_status := to, m_version := m_version m + 1\<rparr>) \<and>
     m_version m < bigint_max \<and> \<not> active_clash m' rows"

definition insertable :: "membership \<Rightarrow> store \<Rightarrow> bool" where
  "insertable m s \<longleftrightarrow>
     row_of m_id (m_id m) (memberships s) = None \<and> references m s \<and> \<not> active_clash m (memberships s) \<and>
     m_status m = MembershipActive \<and> m_version m = 1"

locale membership_relation = table_relation R for R +
  fixes visible :: "uuid \<Rightarrow> bool"
  assumes membership_insert:
    "insertable m s \<Longrightarrow> visible (m_tenant m) \<Longrightarrow> R s (s\<lparr>memberships := memberships s @ [m]\<rparr>)"
    and membership_step:
    "status_step a m m' (memberships s) \<Longrightarrow> visible (m_tenant m) \<Longrightarrow>
     R s (s\<lparr>memberships := put_row m_id m' (memberships s)\<rparr>)"
    and membership_advance:
    "row_of m_id (m_id m) (memberships s) = Some m \<Longrightarrow> m_version m \<le> v \<Longrightarrow> v < bigint_max \<Longrightarrow>
     visible (m_tenant m) \<Longrightarrow>
     R s (s\<lparr>memberships := put_row m_id (m\<lparr>m_version := v + 1\<rparr>) (memberships s)\<rparr>)"
begin

lemma membership_written_related: "R s (membership_written a scope sv at reason m e s)"
  unfolding membership_written_def Let_def
  using store_trans[OF keeps_outbox keeps_membership_events] .

lemma y_TransitionWithin:
  assumes "\<And>t. sees b t \<Longrightarrow> visible t" "action \<noteq> MembershipGrant"
  shows "yields (on_store R) (membership_TransitionWithin env b cx action cmd)"
proof (rule yieldsI)
  fix w result w' assume "membership_TransitionWithin env b cx action cmd w = (Inr result, w')"
  then show "on_store R w w'"
  proof (rule TransitionWithin_effect)
    fix m to p t scope
    assume m: "membership_row b (mc_membership cmd) (store w) = Some m"
      "membership_Resolve action (m_status m) = Inr (to, p)" "m_version m < bigint_max"
      "mr_membership result = m\<lparr>m_status := to, m_version := m_version m + 1\<rparr>"
      "\<not> active_clash (mr_membership result) (memberships (store w))"
      and w': "store w' = membership_written action scope (SecurityVersion t) (mr_acceptedAt result)
       (TrimSpace (mc_reason cmd)) (mr_membership result) (mr_event result)
       ((store w)\<lparr>memberships := put_row m_id (mr_membership result) (memberships (store w))\<rparr>)"
    have "status_step action m (mr_membership result) (memberships (store w))"
      using m assms(2) membership_row_SomeD[OF m(1)] by (auto simp: status_step_def)
    moreover have "visible (m_tenant m)"
      using membership_row_SomeD[OF m(1)] assms(1) by blast
    ultimately show "on_store R w w'"
      unfolding on_store_def w'
      by (intro store_trans[OF membership_step membership_written_related])
  qed
qed

lemma y_GrantWithin:
  assumes "\<And>t. sees b t \<Longrightarrow> visible t"
  shows "yields (on_store R) (GrantWithin env b cx req)"
proof (rule yieldsI)
  fix w result w' assume "GrantWithin env b cx req w = (Inr result, w')"
  then show "on_store R w w'"
  proof (rule GrantWithin_effect)
    fix k t scope
    assume a: "sees b (sc_tenant scope)" "row_of m_id k (memberships (store w)) = None"
      "references (granted req scope k) (store w)"
      "\<not> active_clash (granted req scope k) (memberships (store w))"
      and w': "store w' = membership_written MembershipGrant scope (SecurityVersion t) (mr_acceptedAt result) []
       (granted req scope k) (mr_event result)
       ((store w)\<lparr>memberships := memberships (store w) @ [granted req scope k]\<rparr>)"
    have "insertable (granted req scope k) (store w)" "visible (m_tenant (granted req scope k))"
      using a assms by (auto simp: insertable_def granted_def)
    then show "on_store R w w'"
      unfolding on_store_def w'
      by (intro store_trans[OF membership_insert membership_written_related])
  qed
qed

lemma y_advanceWithin:
  assumes "\<And>t. sees b t \<Longrightarrow> visible t" "1 \<le> av_above a" "av_above a < bigint_max"
  shows "yields (on_store R) (advanceWithin env b cx a reason)"
proof (rule yieldsI)
  fix w result w' assume run: "advanceWithin env b cx a reason w = (Inr result, w')"
  have add: "int64_add (av_above a) 1 = av_above a + 1"
    using assms(2,3) by (simp add: int64_add_def bigint_max_def)
  from run obtain m where m: "membership_row b (av_membership a) (store w) = Some m"
    by (auto simp: advanceWithin_def run_simps)
  show "on_store R w w'"
  proof (cases "m_version m > av_above a")
    case True
    then show ?thesis
      using run m by (auto simp: advanceWithin_def run_simps Let_def on_store_def store_refl)
  next
    case False
    let ?m = "m\<lparr>m_version := av_above a + 1\<rparr>"
    from False run m obtain e sv at rn scope where
      w': "store w' = membership_written (actionFor (m_status m)) scope sv at rn ?m e
        ((store w)\<lparr>memberships := put_row m_id ?m (memberships (store w))\<rparr>)"
      by (auto simp: advanceWithin_def run_simps Let_def advanceStatement_def add membership_written_def
          split: option.splits)
    show ?thesis
      unfolding on_store_def w'
      using False assms(3) membership_row_SomeD[OF m] assms(1)
      by (intro store_trans[OF membership_advance membership_written_related]) auto
  qed
qed

lemma sees_bindTenant: "sees (bindTenant scope) t \<longleftrightarrow> t = sc_tenant scope"
  by (simp add: bindTenant_def)

lemma y_transition_body:
  assumes "\<And>t. sees b t \<Longrightarrow> visible t" "action \<noteq> MembershipGrant"
  shows "yields (on_store R) (transition_body env action cmd b cx)"
  unfolding transition_body_def
  by (intro y_store_intros y_TransitionWithin y_Respond assms)

lemma a_membership_transition:
  assumes "\<And>scope. cx_scope cx = Some scope \<Longrightarrow> visible (sc_tenant scope)" "action \<noteq> MembershipGrant"
  shows "always R (membership_transition env cx action cmd)"
  unfolding membership_transition_def
  by (intro a_seq_quiet quiet_steps a_WithTenantScope y_transition_body assms(2))
    (simp add: sees_bindTenant assms(1))

lemma a_membership_commands:
  assumes "\<And>scope. cx_scope cx = Some scope \<Longrightarrow> visible (sc_tenant scope)"
  shows "always R (membership_Suspend env cx cmd)" "always R (membership_Revoke env cx cmd)"
    "always R (membership_Restore env cx cmd)"
  unfolding membership_Suspend_def membership_Revoke_def membership_Restore_def
  using assms by (auto intro!: a_membership_transition)

lemma a_Grant:
  assumes "\<And>scope. cx_scope cx = Some scope \<Longrightarrow> visible (sc_tenant scope)"
  shows "always R (Grant env cx req)"
  unfolding Grant_def
  by (intro a_seq_quiet quiet_steps a_WithTenantScope y_store_intros y_GrantWithin y_Respond)
    (simp add: sees_bindTenant assms)

lemma a_providerTransition:
  assumes "visible tenantID"
  shows "always R (providerTransition env cx tenantID action cmd)"
proof -
  have "always R (WithProviderInTenant env cx tenantID r (transition_body env action cmd))"
    if "action = MembershipSuspend \<or> action = MembershipRevoke" for r
    by (intro a_WithProviderInTenant y_transition_body) (use that assms in auto)
  then show ?thesis
    unfolding providerTransition_def
    by (cases "action = MembershipSuspend \<or> action = MembershipRevoke")
      (auto simp: ensure_def intro!: a_seq_quiet quiet_steps a_raise)
qed

lemma a_membership_reads:
  "always R (membership_Get env cx k)"
  "always R (membership_GetInTenant env cx tenantID k reason)"
  "always R (membership_List env cx q)"
  unfolding membership_Get_def membership_GetInTenant_def membership_List_def membership_load_def
  by (intro a_seq_quiet quiet_steps a_reads a_WithProviderInTenant y_store_intros)+
    (simp add: a_raise split: sum.split, intro allI impI a_seq_quiet quiet_steps a_reads)

lemma a_foreach: "(\<And>x. x \<in> set xs \<Longrightarrow> always R (f x)) \<Longrightarrow> always R (foreach f xs)"
  by (induction xs) (auto intro!: a_seq a_return)

lemma y_foreach_set: "(\<And>x. x \<in> set xs \<Longrightarrow> yields (on_store R) (f x)) \<Longrightarrow> yields (on_store R) (foreach f xs)"
  by (induction xs) (auto intro!: y_store_intros)

lemma a_AdvanceVersions:
  assumes "\<And>a. a \<in> set advances \<Longrightarrow> visible (av_tenant a) \<and> av_above a < bigint_max"
  shows "always R (AdvanceVersions env cx advances reason)"
proof (cases "list_all (\<lambda>a. \<not> (IsNil (av_membership a) \<or> IsNil (av_tenant a) \<or> av_above a < 1)) advances")
  case False
  then show ?thesis
    unfolding AdvanceVersions_def Let_def
    by (simp add: ensure_def a_raise)
next
  case True
  have "always R (WithProviderInTenant env cx t r (\<lambda>b cx. foreach (\<lambda>a. advanceWithin env b cx a r) batch))"
    if "(t, batch) \<in> set (advance_groups advances)" for t batch r
    using that assms True
    by (intro a_WithProviderInTenant y_foreach_set y_advanceWithin)
      (auto simp: advance_groups_def list_all_iff not_less)
  then show ?thesis
    unfolding AdvanceVersions_def Let_def
    by (intro a_seq_quiet quiet_steps a_seq[OF a_foreach] a_return) auto
qed

end


section \<open>Progress, uniqueness and isolation\<close>

text \<open>
  How a Membership may differ from an earlier reading: its version never falls and a change of it is
  a change of version; who holds it, where and since when never changes; revoked is for ever.
\<close>

definition membership_advanced :: "membership \<Rightarrow> membership \<Rightarrow> bool" where
  "membership_advanced m m' \<longleftrightarrow>
     m' = m\<lparr>m_status := m_status m', m_version := m_version m'\<rparr> \<and> m_version m \<le> m_version m' \<and>
     (m_version m' = m_version m \<longrightarrow> m' = m) \<and>
     (m_status m = MembershipRevoked \<longrightarrow> m_status m' = MembershipRevoked)"

definition memberships_advanced :: "store \<Rightarrow> store \<Rightarrow> bool" where
  "memberships_advanced s s' \<longleftrightarrow>
     (\<forall>k m. row_of m_id k (memberships s) = Some m \<longrightarrow>
        (\<exists>m'. row_of m_id k (memberships s') = Some m' \<and> membership_advanced m m'))"

lemma membership_advanced_refl: "membership_advanced m m"
  by (simp add: membership_advanced_def)

lemma membership_advanced_trans:
  "membership_advanced m m' \<Longrightarrow> membership_advanced m' m'' \<Longrightarrow> membership_advanced m m''"
  unfolding membership_advanced_def
  by (cases m; cases m'; cases m'') auto

lemma memberships_advanced_same: "memberships s' = memberships s \<Longrightarrow> memberships_advanced s s'"
  by (auto simp: memberships_advanced_def membership_advanced_refl)

lemma memberships_advanced_trans:
  "memberships_advanced s t \<Longrightarrow> memberships_advanced t u \<Longrightarrow> memberships_advanced s u"
  unfolding memberships_advanced_def by (meson membership_advanced_trans)

lemma memberships_advanced_put:
  assumes "row_of m_id (m_id m) (memberships s) = Some m" "m_id m' = m_id m" "membership_advanced m m'"
  shows "memberships_advanced s (s\<lparr>memberships := put_row m_id m' (memberships s)\<rparr>)"
  using assms by (auto simp: memberships_advanced_def row_of_put_row membership_advanced_refl)

lemma status_step_advanced: "status_step a m m' rows \<Longrightarrow> membership_advanced m m'"
  by (auto simp: status_step_def membership_advanced_def membership_Resolve_iff)

interpretation membership_progress: membership_relation memberships_advanced "\<lambda>_. True"
proof unfold_locales
  fix a m m' and s :: store
  assume "status_step a m m' (memberships s)"
  then show "memberships_advanced s (s\<lparr>memberships := put_row m_id m' (memberships s)\<rparr>)"
    by (intro memberships_advanced_put status_step_advanced) (auto simp: status_step_def)
next
  fix m v and s :: store
  assume "row_of m_id (m_id m) (memberships s) = Some m" "m_version m \<le> v"
  then show "memberships_advanced s (s\<lparr>memberships := put_row m_id (m\<lparr>m_version := v + 1\<rparr>) (memberships s)\<rparr>)"
    by (intro memberships_advanced_put) (auto simp: membership_advanced_def)
next
  fix m and s :: store
  show "memberships_advanced s (s\<lparr>memberships := memberships s @ [m]\<rparr>)"
    by (auto simp: memberships_advanced_def row_of_append membership_advanced_refl split: option.splits)
qed (auto intro: memberships_advanced_same memberships_advanced_trans)

text \<open>
  The table is well formed: identifiers are unique, statuses are the machine's, versions are positive
  and in range, and a subject is active at most once in a context.
\<close>

definition membership_ok :: "membership \<Rightarrow> bool" where
  "membership_ok m \<longleftrightarrow>
     membership_Valid (m_status m) \<and> 1 \<le> m_version m \<and> m_version m \<le> bigint_max"

definition memberships_wf :: "store \<Rightarrow> bool" where
  "memberships_wf s \<longleftrightarrow>
     keyed m_id (memberships s) \<and> (\<forall>m \<in> set (memberships s). membership_ok m) \<and>
     (\<forall>m \<in> set (memberships s). \<not> active_clash m (memberships s))"

lemma memberships_wf_kept: "memberships s' = memberships s \<Longrightarrow> preserved memberships_wf s s'"
  by (simp add: preserved_def memberships_wf_def)

lemma active_clash_sym:
  "r \<in> set rows \<Longrightarrow> m_id r \<noteq> m_id m \<Longrightarrow> m_status m = MembershipActive \<Longrightarrow> m_status r = MembershipActive \<Longrightarrow>
   active_key r = active_key m \<Longrightarrow> active_clash m rows"
  by (auto simp: active_clash_def list_ex_iff)

lemma memberships_wf_put:
  assumes wf: "memberships_wf s" and row: "row_of m_id (m_id m) (memberships s) = Some m" "m_id m' = m_id m"
    and ok: "membership_ok m'" "\<not> active_clash m' (memberships s)"
  shows "memberships_wf (s\<lparr>memberships := put_row m_id m' (memberships s)\<rparr>)"
proof -
  let ?rows = "put_row m_id m' (memberships s)"
  have "\<not> active_clash r ?rows" if r: "r \<in> set ?rows" for r
  proof
    assume "active_clash r ?rows"
    then obtain q where q: "q \<in> set ?rows" "m_id q \<noteq> m_id r" "m_status q = MembershipActive"
      "active_key q = active_key r" "m_status r = MembershipActive"
      by (auto simp: active_clash_def list_ex_iff)
    have old: "\<not> active_clash x (memberships s)" if "x \<in> set (memberships s)" for x
      using wf that by (simp add: memberships_wf_def)
    show False
      using q r ok(2) old active_clash_sym[of q "memberships s" r] active_clash_sym[of r "memberships s" q]
      by (auto simp: set_put_row)
  qed
  then show ?thesis
    using wf ok(1) by (auto simp: memberships_wf_def set_put_row)
qed

interpretation membership_stamps: membership_relation "preserved memberships_wf" "\<lambda>_. True"
proof unfold_locales
  fix m and s :: store
  assume i: "insertable m s"
  show "preserved memberships_wf s (s\<lparr>memberships := memberships s @ [m]\<rparr>)"
  proof (unfold preserved_def, rule impI)
    assume wf: "memberships_wf s"
    have "membership_ok m" using i by (simp add: insertable_def membership_ok_def bigint_max_def)
    moreover have "\<not> active_clash r (memberships s @ [m])" if "r \<in> set (memberships s @ [m])" for r
      using that wf i active_clash_sym[of r "memberships s" m]
      by (auto simp: memberships_wf_def insertable_def active_clash_def list_ex_iff)
    ultimately show "memberships_wf (s\<lparr>memberships := memberships s @ [m]\<rparr>)"
      using wf i by (auto simp: memberships_wf_def insertable_def)
  qed
next
  fix a m m' and s :: store
  assume st: "status_step a m m' (memberships s)"
  show "preserved memberships_wf s (s\<lparr>memberships := put_row m_id m' (memberships s)\<rparr>)"
  proof (unfold preserved_def, rule impI)
    assume wf: "memberships_wf s"
    have "membership_ok m"
      using st wf by (auto simp: status_step_def memberships_wf_def dest: row_of_SomeD)
    then have "membership_ok m'"
      using st by (auto simp: status_step_def membership_ok_def membership_Resolve_iff)
    then show "memberships_wf (s\<lparr>memberships := put_row m_id m' (memberships s)\<rparr>)"
      using st by (intro memberships_wf_put[OF wf, of m]) (auto simp: status_step_def)
  qed
next
  fix m v and s :: store
  assume row: "row_of m_id (m_id m) (memberships s) = Some m" and v: "m_version m \<le> v" "v < bigint_max"
  show "preserved memberships_wf s (s\<lparr>memberships := put_row m_id (m\<lparr>m_version := v + 1\<rparr>) (memberships s)\<rparr>)"
  proof (unfold preserved_def, rule impI)
    assume wf: "memberships_wf s"
    have m: "m \<in> set (memberships s)" using row_of_SomeD[OF row] by simp
    have "\<not> active_clash m (memberships s)" using wf m by (simp add: memberships_wf_def)
    moreover have "active_key (m\<lparr>m_version := v + 1\<rparr>) = active_key m" by (simp add: active_key_def)
    ultimately have "\<not> active_clash (m\<lparr>m_version := v + 1\<rparr>) (memberships s)"
      by (simp add: active_clash_def)
    moreover have "membership_ok (m\<lparr>m_version := v + 1\<rparr>)"
      using wf m v by (auto simp: memberships_wf_def membership_ok_def)
    ultimately show "memberships_wf (s\<lparr>memberships := put_row m_id (m\<lparr>m_version := v + 1\<rparr>) (memberships s)\<rparr>)"
      using row by (intro memberships_wf_put[OF wf, of m]) auto
  qed
qed (rule preserved.step_refl | erule (1) preserved.step_trans | rule memberships_wf_kept, simp)+

text \<open>
  Everything that belongs to another Tenant is as it was. The primary key is what makes an update by
  identifier touch one row, so it is part of the relation.
\<close>

definition others_kept :: "uuid \<Rightarrow> store \<Rightarrow> store \<Rightarrow> bool" where
  "others_kept tenant s s' \<longleftrightarrow>
     (keyed m_id (memberships s) \<longrightarrow>
        keyed m_id (memberships s') \<and>
        filter (\<lambda>m. m_tenant m \<noteq> tenant) (memberships s') = filter (\<lambda>m. m_tenant m \<noteq> tenant) (memberships s))"

lemma filter_put_row:
  assumes "\<not> P r'" "\<And>x. x \<in> set rows \<Longrightarrow> key x = key r' \<Longrightarrow> \<not> P x"
  shows "filter P (put_row key r' rows) = filter P rows"
  using assms by (induction rows) auto

lemma others_kept_put:
  assumes "row_of m_id (m_id m) (memberships s) = Some m" "m_tenant m = tenant" "m_id m' = m_id m" "m_tenant m' = tenant"
  shows "others_kept tenant s (s\<lparr>memberships := put_row m_id m' (memberships s)\<rparr>)"
proof -
  have "x = m" if "keyed m_id (memberships s)" "x \<in> set (memberships s)" "m_id x = m_id m'" for x
    using row_of_keyed[OF that(1,2)] that(3) assms(1,3) by simp
  then have "keyed m_id (memberships s) \<Longrightarrow>
    filter (\<lambda>m. m_tenant m \<noteq> tenant) (put_row m_id m' (memberships s)) = filter (\<lambda>m. m_tenant m \<noteq> tenant) (memberships s)"
    using assms(2,4) by (intro filter_put_row) auto
  then show ?thesis by (simp add: others_kept_def)
qed

interpretation isolation: membership_relation "others_kept tenant" "\<lambda>t. t = tenant" for tenant
proof unfold_locales
  fix a m m' and s :: store
  assume "status_step a m m' (memberships s)" "m_tenant m = tenant"
  then show "others_kept tenant s (s\<lparr>memberships := put_row m_id m' (memberships s)\<rparr>)"
    by (intro others_kept_put[of m]) (auto simp: status_step_def)
next
  fix m v and s :: store
  assume "row_of m_id (m_id m) (memberships s) = Some m" "m_tenant m = tenant"
  then show "others_kept tenant s (s\<lparr>memberships := put_row m_id (m\<lparr>m_version := v + 1\<rparr>) (memberships s)\<rparr>)"
    by (intro others_kept_put[of m]) auto
qed (auto simp: others_kept_def insertable_def)

section \<open>Properties\<close>

lemma membership_transition_run:
  assumes "membership_transition env cx action cmd w = (Inr result, w')"
  shows "\<exists>scope m to t.
    cx_scope cx = Some scope \<and> row_of m_id (mc_membership cmd) (memberships (store w)) = Some m \<and>
    m_tenant m = sc_tenant scope \<and> m_version m = mc_expectedVersion cmd \<and>
    membership_Resolve action (m_status m) = Inr (to, membership_Priority action) \<and>
    row_of TenantID (m_tenant m) (tenants (store w)) = Some t \<and>
    mr_membership result = m\<lparr>m_status := to, m_version := m_version m + 1\<rparr> \<and>
    data w' = membership_written action scope (SecurityVersion t) (mr_acceptedAt result)
      (TrimSpace (mc_reason cmd)) (mr_membership result) (mr_event result)
      ((data w)\<lparr>memberships := put_row m_id (mr_membership result) (memberships (store w))\<rparr>)"
proof -
  from assms have "WithTenantScope env cx (transition_body env action cmd) w = (Inr result, w')"
    by (auto simp: membership_transition_def run_simps)
  then obtain scope cx1 w1 where s: "cx_scope cx = Some scope" "marked cx cx1"
    and e: "entered [] w w1" and b: "transition_body env action cmd (bindTenant scope) cx1 w1 = (Inr result, w')"
    by (rule WithTenantScope_enters)
  from b obtain w2 where t: "membership_TransitionWithin env (bindTenant scope) cx1 action cmd w1 = (Inr result, w2)"
    and r: "Respond env cx1 (ResMembership result) w2 = (Inr (), w')"
    by (auto simp: transition_body_def run_simps)
  have d: "data w' = data w2" using Respond_run[OF r] by (simp add: bookkept_def)
  have d1: "data w1 = data w" using e by (simp add: entered_def with_audit_def)
  from t show ?thesis
  proof (rule TransitionWithin_effect)
    fix m to p t scope'
    assume m: "membership_row (bindTenant scope) (mc_membership cmd) (store w1) = Some m"
      "membership_Resolve action (m_status m) = Inr (to, p)" "m_version m = mc_expectedVersion cmd"
      "row_of TenantID (m_tenant m) (tenants (store w1)) = Some t" "cx_scope cx1 = Some scope'"
      "mr_membership result = m\<lparr>m_status := to, m_version := m_version m + 1\<rparr>"
      and w2: "store w2 = membership_written action scope' (SecurityVersion t) (mr_acceptedAt result)
       (TrimSpace (mc_reason cmd)) (mr_membership result) (mr_event result)
       ((store w1)\<lparr>memberships := put_row m_id (mr_membership result) (memberships (store w1))\<rparr>)"
    have "scope' = scope" using s m(5) marked_fields[OF s(2)] by simp
    then have "data w2 = membership_written action scope (SecurityVersion t) (mr_acceptedAt result)
       (TrimSpace (mc_reason cmd)) (mr_membership result) (mr_event result)
       ((data w1)\<lparr>memberships := put_row m_id (mr_membership result) (memberships (store w1))\<rparr>)"
      using w2 by (simp add: data_def membership_written_def Let_def)
    then show ?thesis
      using m s d d1 entered_fields[OF e] membership_row_SomeD[OF m(1)] membership_Resolve_priority[OF m(2)]
      by (intro exI[of _ scope] exI[of _ m] exI[of _ to] exI[of _ t]) (auto simp: isolation.sees_bindTenant)
  qed
qed

text \<open>
  (C10) A Membership change by a tenant caller acts on a Membership of the caller's own Tenant, in the
  version the caller was shown, along the table of the machine. It increments the version by one,
  publishes the new state with the Tenant's security version on the lane of the action, records which
  version the event carries, who caused it and why, and changes no other row.
\<close>

theorem membership_transition_effect:
  assumes "membership_transition env cx action cmd w = (Inr result, w')"
  shows "\<exists>scope m to t.
    cx_scope cx = Some scope \<and> row_of m_id (mc_membership cmd) (memberships (store w)) = Some m \<and>
    m_tenant m = sc_tenant scope \<and> m_version m = mc_expectedVersion cmd \<and>
    membership_Resolve action (m_status m) = Inr (to, membership_Priority action) \<and>
    row_of TenantID (m_tenant m) (tenants (store w)) = Some t \<and>
    mr_membership result = m\<lparr>m_status := to, m_version := m_version m + 1\<rparr> \<and>
    data w' = membership_written action scope (SecurityVersion t) (mr_acceptedAt result)
      (TrimSpace (mc_reason cmd)) (mr_membership result) (mr_event result)
      ((data w)\<lparr>memberships := put_row m_id (mr_membership result) (memberships (store w))\<rparr>)"
  using assms by (rule membership_transition_run)

lemma transition_body_not_found:
  assumes "membership_validate cmd action = Inr ()" "membership_row b (mc_membership cmd) (store w) = None"
  shows "fst (transition_body env action cmd b cx w) = Inl (ErrNotFound PkgMembership)"
  using assms
  by (simp add: transition_body_def membership_TransitionWithin_def membership_load_def seq_def lift_def
      now_def read_db_def raise_def)

text \<open>
  (C11) A tenant caller reaches no other Tenant. Whatever a Membership command under a tenant scope
  answers, every Membership of every other Tenant is as it was; a command that names one is refused,
  and inside the transaction the refusal is the one an identifier that does not exist gets.
\<close>

theorem membership_isolation:
  assumes "cx_scope cx = Some scope" "keyed m_id (memberships (store w))" "action \<noteq> MembershipGrant"
    and "membership_transition env cx action cmd w = (r, w')"
  shows "filter (\<lambda>m. m_tenant m \<noteq> sc_tenant scope) (memberships (store w')) =
      filter (\<lambda>m. m_tenant m \<noteq> sc_tenant scope) (memberships (store w)) \<and>
    (\<forall>m. row_of m_id (mc_membership cmd) (memberships (store w)) = Some m \<longrightarrow> m_tenant m \<noteq> sc_tenant scope \<longrightarrow>
      (\<exists>e. r = Inl e) \<and>
      (membership_validate cmd action = Inr () \<longrightarrow>
         (\<forall>cx'. fst (transition_body env action cmd (bindTenant scope) cx' w) = Inl (ErrNotFound PkgMembership))))"
proof -
  have "others_kept (sc_tenant scope) (store w) (store w')"
    using isolation.a_membership_transition[of cx "sc_tenant scope" action env cmd] assms(1,3,4) alwaysD by fastforce
  moreover have "m_tenant m = sc_tenant scope"
    if "row_of m_id (mc_membership cmd) (memberships (store w)) = Some m" "r = Inr x" for m x
    using membership_transition_run[of env cx action cmd w x w'] assms(1,4) that by auto
  moreover have "membership_row (bindTenant scope) (mc_membership cmd) (store w) = None"
    if "row_of m_id (mc_membership cmd) (memberships (store w)) = Some m" "m_tenant m \<noteq> sc_tenant scope" for m
    using that by (simp add: membership_row_def isolation.sees_bindTenant)
  ultimately show ?thesis
    using assms(2) transition_body_not_found by (cases r) (fastforce simp: others_kept_def)+
qed


definition membership_version :: "uuid \<Rightarrow> store \<Rightarrow> int option" where
  "membership_version k s = map_option m_version (row_of m_id k (memberships s))"

type_synonym membership_call = "env \<times> ctx \<times> membership_action \<times> membership_command"

definition call_membership :: "membership_call \<Rightarrow> membership_result tx" where
  "call_membership c = (case c of (env, cx, action, cmd) \<Rightarrow> membership_transition env cx action cmd)"

lemma membership_written_rows [simp]:
  "memberships (membership_written a scope sv at reason m e s) = memberships s"
  by (simp add: membership_written_def Let_def)

lemma call_membership_versions:
  assumes "call_membership c w = (Inr result, w')"
  shows "membership_version (mc_membership (snd (snd (snd c)))) (store w) =
      Some (mc_expectedVersion (snd (snd (snd c)))) \<and>
    membership_version (mc_membership (snd (snd (snd c)))) (store w') =
      Some (mc_expectedVersion (snd (snd (snd c))) + 1)"
proof (cases c)
  case (fields env cx action cmd)
  then have "membership_transition env cx action cmd w = (Inr result, w')"
    using assms by (simp add: call_membership_def)
  from membership_transition_run[OF this] obtain scope :: scope and m to and t :: tenant_record where
    m: "row_of m_id (mc_membership cmd) (memberships (store w)) = Some m" "m_version m = mc_expectedVersion cmd"
      "mr_membership result = m\<lparr>m_status := to, m_version := m_version m + 1\<rparr>"
    and d: "data w' = membership_written action scope (SecurityVersion t) (mr_acceptedAt result)
      (TrimSpace (mc_reason cmd)) (mr_membership result) (mr_event result)
      ((data w)\<lparr>memberships := put_row m_id (mr_membership result) (memberships (store w))\<rparr>)"
    by blast
  have "memberships (store w') = put_row m_id (mr_membership result) (memberships (store w))"
    using arg_cong[OF d, of memberships] by simp
  then show ?thesis
    using m fields row_of_SomeD[OF m(1)] by (simp add: membership_version_def row_of_put_row)
qed

interpretation membership_optimistic: optimistic call_membership
  "\<lambda>c. mc_membership (snd (snd (snd c)))" "\<lambda>c. mc_expectedVersion (snd (snd (snd c)))"
  membership_version memberships_advanced
proof unfold_locales
  fix s s' k v
  assume "memberships_advanced s s'" "membership_version k s = Some v"
  then show "\<exists>v' \<ge> v. membership_version k s' = Some v'"
    by (fastforce simp: memberships_advanced_def membership_version_def membership_advanced_def)
qed (simp_all add: call_membership_versions)

text \<open>
  Of two callers who were shown the same version of a Membership at most one changes it,
  whatever runs in between.
\<close>

theorem membership_no_lost_update:
  assumes "call_membership (env, cx, action, cmd) w = (Inr result, w')"
    and "memberships_advanced (store w') (store v)"
    and "mc_membership cmd' = mc_membership cmd" "mc_expectedVersion cmd' = mc_expectedVersion cmd"
  shows "\<exists>e. fst (call_membership (env', cx', action', cmd') v) = Inl e"
  using membership_optimistic.no_lost_update[OF assms(1), of v "(env', cx', action', cmd')"] assms(2-4)
  by simp

text \<open>
  A grant creates one active Membership at version one, in the Tenant of the bound scope and in
  no other whatever the request names, for a subject not already active in that context, in a
  Workspace of that Tenant if it names one; it publishes the grant and changes no existing row.
\<close>

theorem Grant_effect:
  assumes "Grant env cx req w = (Inr result, w')"
  shows "\<exists>scope k t. cx_scope cx = Some scope \<and>
    mr_membership result = granted req scope k \<and> m_tenant (mr_membership result) = sc_tenant scope \<and>
    row_of m_id k (memberships (store w)) = None \<and> references (granted req scope k) (store w) \<and>
    (\<forall>m \<in> set (memberships (store w)).
       m_status m = MembershipActive \<longrightarrow> active_key m \<noteq> active_key (granted req scope k)) \<and>
    row_of TenantID (sc_tenant scope) (tenants (store w)) = Some t \<and>
    data w' = membership_written MembershipGrant scope (SecurityVersion t) (mr_acceptedAt result) []
      (granted req scope k) (mr_event result)
      ((data w)\<lparr>memberships := memberships (store w) @ [granted req scope k]\<rparr>)"
proof -
  from assms have "WithTenantScope env cx (\<lambda>b cx.
       seq (GrantWithin env b cx req) (\<lambda>result.
       seq (Respond env cx (ResMembership result)) (\<lambda>_. return result))) w = (Inr result, w')"
    by (auto simp: Grant_def run_simps)
  then obtain scope cx1 w1 w2 where s: "cx_scope cx = Some scope" "marked cx cx1" and e: "entered [] w w1"
    and g: "GrantWithin env (bindTenant scope) cx1 req w1 = (Inr result, w2)"
    and r: "Respond env cx1 (ResMembership result) w2 = (Inr (), w')"
    by (elim WithTenantScope_enters) (auto simp: run_simps)
  from g show ?thesis
  proof (rule GrantWithin_effect)
    fix k t scope'
    assume a: "cx_scope cx1 = Some scope'" "mr_membership result = granted req scope' k"
      "row_of m_id k (memberships (store w1)) = None" "references (granted req scope' k) (store w1)"
      "\<not> active_clash (granted req scope' k) (memberships (store w1))"
      "row_of TenantID (sc_tenant scope') (tenants (store w1)) = Some t"
      and w2: "store w2 = membership_written MembershipGrant scope' (SecurityVersion t) (mr_acceptedAt result) []
       (granted req scope' k) (mr_event result)
       ((store w1)\<lparr>memberships := memberships (store w1) @ [granted req scope' k]\<rparr>)"
    have same: "scope' = scope" using s a(1) marked_fields[OF s(2)] by simp
    have "data w1 = data w" using e by (simp add: entered_def with_audit_def)
    then have "data w' = membership_written MembershipGrant scope (SecurityVersion t) (mr_acceptedAt result) []
      (granted req scope k) (mr_event result)
      ((data w)\<lparr>memberships := memberships (store w) @ [granted req scope k]\<rparr>)"
      using w2 Respond_run[OF r] entered_fields[OF e] same
      by (simp add: bookkept_def data_def membership_written_def Let_def)
    moreover have "active_key m \<noteq> active_key (granted req scope k)"
      if "m \<in> set (memberships (store w))" "m_status m = MembershipActive" for m
    proof
      assume "active_key m = active_key (granted req scope k)"
      moreover have "m_id m \<noteq> k"
        using a(3) that(1) entered_fields[OF e] by (auto simp: row_of_None_iff)
      ultimately show False
        using a(5) that entered_fields[OF e] same by (auto simp: active_clash_def list_ex_iff granted_def)
    qed
    ultimately show ?thesis
      using a s same entered_fields[OF e]
      by (intro exI[of _ scope] exI[of _ k] exI[of _ t]) (auto simp: granted_def references_def)
  qed
qed

section \<open>Version advances\<close>

lemma int64_add_in_range: "1 \<le> x \<Longrightarrow> x < bigint_max \<Longrightarrow> int64_add x 1 = x + 1"
  by (simp add: int64_add_def bigint_max_def)

text \<open>
  (C35) An advance leaves the Membership above the version the consumer reported: at its own version,
  with nothing written, when it already is; else one past the reported version, published with its
  status unchanged. Repeating an advance changes nothing. Stated for reported versions below the
  greatest \<open>int64\<close>; at that value the addition wraps.
\<close>

theorem advance_exceeds_report:
  assumes "advanceWithin env b cx a reason w = (Inr result, w')"
    and "1 \<le> av_above a" "av_above a < bigint_max"
  shows "\<exists>m m'. row_of m_id (av_membership a) (memberships (store w)) = Some m \<and>
    row_of m_id (av_membership a) (memberships (store w')) = Some m' \<and>
    m' = m\<lparr>m_version := ad_to result\<rparr> \<and> m_version m' > av_above a \<and> m_version m \<le> m_version m' \<and>
    (m_version m > av_above a \<longrightarrow> store w' = store w \<and> ad_event result = None) \<and>
    (\<forall>env' cx' reason' v result'' v'. store v = store w' \<longrightarrow>
       advanceWithin env' b cx' a reason' v = (Inr result'', v') \<longrightarrow> store v' = store v)"
proof -
  from assms(1) obtain m where m: "membership_row b (av_membership a) (store w) = Some m"
    by (auto simp: advanceWithin_def run_simps)
  note row = membership_row_SomeD[OF m]
  have m': "\<exists>m'. membership_row b (av_membership a) (store w') = Some m' \<and> m' = m\<lparr>m_version := ad_to result\<rparr> \<and>
      m_version m' > av_above a \<and> m_version m \<le> m_version m'"
  proof (cases "m_version m > av_above a")
    case True
    then show ?thesis using assms(1) m by (auto simp: advanceWithin_def run_simps Let_def)
  next
    case False
    then show ?thesis
      using assms m row
      by (auto simp: advanceWithin_def run_simps Let_def advanceStatement_def int64_add_in_range
          membership_row_def row_of_put_row split: option.splits if_splits)
  qed
  then obtain m' where n: "membership_row b (av_membership a) (store w') = Some m'" "m' = m\<lparr>m_version := ad_to result\<rparr>"
    "m_version m' > av_above a" "m_version m \<le> m_version m'" by blast
  have "store v' = store v" if "store v = store w'" "advanceWithin env' b cx' a reason' v = (Inr r, v')"
    for env' cx' reason' v r v'
    using that n by (auto simp: advanceWithin_def run_simps Let_def split: if_splits)
  moreover have "m_version m > av_above a \<longrightarrow> store w' = store w \<and> ad_event result = None"
    using assms(1) m by (auto simp: advanceWithin_def run_simps Let_def)
  ultimately show ?thesis
    using n row membership_row_SomeD[OF n(1)] by blast
qed

text \<open>
  (C36) At the greatest \<open>int64\<close> the advance does the opposite: a consumer report of that version takes
  every Membership it names to the least \<open>int64\<close>, below any version a consumer can hold.
\<close>

theorem advance_wraps:
  assumes "advanceWithin env b cx a reason w = (Inr result, w')"
    and "av_above a = bigint_max" "membership_row b (av_membership a) (store w) = Some m"
    and "m_version m \<le> bigint_max"
  shows "ad_to result = - (2 ^ 63) \<and>
    row_of m_id (av_membership a) (memberships (store w')) = Some (m\<lparr>m_version := - (2 ^ 63)\<rparr>)"
proof -
  have wrap: "int64_add bigint_max 1 = - (2 ^ 63)"
    by (simp add: int64_add_def bigint_max_def)
  show ?thesis
    using assms membership_row_SomeD[OF assms(3)]
    by (auto simp: advanceWithin_def run_simps Let_def advanceStatement_def wrap row_of_put_row
        split: option.splits if_splits)
qed

end
