(* ===== verification/Example_World.thy ===== *)
theory Example_World
  imports Provisioning Membership_Service
begin

text \<open>
  One small concrete world, its environment and the contexts of its callers, on which the theorems
  with hypotheses are applied: a provider, a tenant administrator of Tenant 10 and a person, two
  Tenants of Organization 1, and Memberships of both.
\<close>

definition ex_env :: env where
  "ex_env = \<lparr>clock = (\<lambda>n. 1000 + int n), db_clock = (\<lambda>n. 1000 + int n), mint = (\<lambda>n. Some (100 + n)),
     event_id = (\<lambda>n. Some (500 + n)), parses = (\<lambda>_. True), appends = (\<lambda>_. True), commits = (\<lambda>_. True),
     locked = (\<lambda>_ _. False), seam = (\<lambda>_. False), cancelled = (\<lambda>_. False), idem_claim = (\<lambda>_ _. IdemClaimed),
     idem_complete = (\<lambda>_ _ _ _ _. True), uuid_text = (\<lambda>_. ''u''), entropy = (\<lambda>n. Some (\<lambda>i. n + i)),
     sha256_hex = (\<lambda>s. ''h'' @ s), matcher = Some (\<lambda>_ _. Some True), f64_div = (\<lambda>a b. nat (a * 1000 div b)),
     text_rank = (\<lambda>t. length t), sequence_at = (\<lambda>n. int n + 1),
     subscribe = (\<lambda>c ts ss. Some (filter (\<lambda>s. su_consumer s \<noteq> c) ss @ [\<lparr>su_consumer = c, su_types = ts, su_retiredAt = None\<rparr>])),
     unsubscribe = (\<lambda>c ss. Some (filter (\<lambda>s. su_consumer s \<noteq> c) ss)),
     abandon = (\<lambda>c reason ds. Some (map (\<lambda>d. if dv_consumer d = c then d\<lparr>dv_failureClass := Some ''abandoned''\<rparr> else d) ds)),
     envelope_of = (\<lambda>_. None), owes = (\<lambda>c m ss. list_ex (\<lambda>s. su_consumer s = c \<and> msg_type m \<in> set (su_types s)) ss),
     receipt_reference = (\<lambda>e c. ''receipt:'' @ c), time_text = (\<lambda>_. ''t''), quoted_text = (\<lambda>t. t),
     displayNameMax = 120, timeout = 60, activationMax = 1000 * 1000000000, approvalRequired = True\<rparr>"

definition ex_context :: "scope option \<Rightarrow> ctx" where
  "ex_context s = \<lparr>cx_scope = s, cx_operation = ''POST /v1'', cx_routeTenant = 0, cx_adopt = False,
     cx_claiming = False, cx_responder = None\<rparr>"

definition ex_provider :: ctx where
  "ex_provider = ex_context (Some (zero_scope\<lparr>sc_provider := True, sc_actor := 7, sc_correlation := 8,
     sc_authority := EmergencyAuthority\<rparr>))"

definition ex_admin :: ctx where
  "ex_admin = ex_context (Some (zero_scope\<lparr>sc_tenant := 10, sc_actor := 6, sc_correlation := 9\<rparr>))"

definition ex_self :: ctx where
  "ex_self = ex_context (Some (zero_scope\<lparr>sc_self := True, sc_actor := 5, sc_correlation := 9\<rparr>))"

definition ex_tenant :: "uuid \<Rightarrow> tenant_state \<Rightarrow> tenant_record" where
  "ex_tenant k st = \<lparr>TenantID = k, OrganizationID = 1, DisplayName = ''t'', Status = st,
     IsolationProfile = ProfilePooled, ResidencyRegion = [], Version = 3, SecurityVersion = 2,
     ActivatedAt = (if st = TenantActive then Some 50 else None), SuspendedAt = None,
     OffboardingStartedAt = None, RetiredAt = None, CreatedAt = 10\<rparr>"

definition ex_membership :: "uuid \<Rightarrow> uuid \<Rightarrow> uuid \<Rightarrow> membership_state \<Rightarrow> membership" where
  "ex_membership k who tenant st = \<lparr>m_id = k, m_principal = who, m_tenant = tenant,
     m_workspace = 0, m_subject = ''human'', m_status = st, m_version = 4, m_validFrom = 20,
     m_validUntil = 0, m_provenance = ''import''\<rparr>"

definition ex_request :: "uuid \<Rightarrow> uuid \<Rightarrow> uuid \<Rightarrow> request_state \<Rightarrow> provisioning_request" where
  "ex_request k tenant correlation st = \<lparr>pr_request = k, pr_tenant = tenant, pr_operation = Some OpProvision,
     pr_isolation = Some ProfilePooled, pr_region = None, pr_offboarding = None, pr_state = st,
     pr_correlation = correlation, pr_requested_at = 15, pr_resolved_at = None, pr_detail = None\<rparr>"

definition ex_store :: store where
  "ex_store = \<lparr>tenants = [ex_tenant 10 TenantActive, ex_tenant 11 TenantProvisioning, ex_tenant 12 TenantRequested],
     provisioning = [ex_request 31 11 41 RequestRealized, ex_request 32 12 42 RequestRequested],
     tenant_events = [],
     memberships = [ex_membership 20 5 10 MembershipActive, ex_membership 21 6 10 MembershipActive,
                    ex_membership 22 5 11 MembershipActive],
     membership_events = [],
     organizations = [\<lparr>o_id = 1, o_name = ''org'', o_class = ClassificationCustomer, o_status = OrgActive,
                        o_parent = None, o_version = 1, o_created = 5\<rparr>],
     workspaces = [], offboardings = [], obligations = [], freezes = [], invitations = [],
     batches = [], batch_items = [], callers = no_callers, outbox = [], audit = [], idem_log = []\<rparr>"

definition ex_world :: world where
  "ex_world = \<lparr>store = ex_store, ticks = 0, minted = 0, pend = None\<rparr>"

definition succeeds :: "('e + 'a) \<times> 'w \<Rightarrow> bool" where
  "succeeds r = (case fst r of Inl _ \<Rightarrow> False | Inr _ \<Rightarrow> True)"

lemma succeedsE:
  assumes "succeeds r"
  obtains x w where "r = (Inr x, w)"
  using assms by (cases r; cases "fst r") (auto simp: succeeds_def)

definition ex_suspend :: tenant_command where
  "ex_suspend = \<lparr>tc_tenant = 10, tc_reason = ''incident'', tc_expectedVersion = 3\<rparr>"

definition ex_activate :: tenant_command where
  "ex_activate = \<lparr>tc_tenant = 11, tc_reason = ''ready'', tc_expectedVersion = 3\<rparr>"

definition ex_intake :: request_tenant where
  "ex_intake = \<lparr>rt_organization = 1, rt_displayName = '' Acme '', rt_profile = ProfileSilo,
     rt_region = [], rt_reason = ''onboarding''\<rparr>"

definition ex_outcome :: outcome where
  "ex_outcome = \<lparr>oc_correlation = 42, oc_detail = [], oc_reason = ''reported''\<rparr>"

definition ex_change :: membership_command where
  "ex_change = \<lparr>mc_membership = 20, mc_expectedVersion = 4, mc_reason = ''left''\<rparr>"

definition ex_foreign :: membership_command where
  "ex_foreign = \<lparr>mc_membership = 22, mc_expectedVersion = 4, mc_reason = ''left''\<rparr>"

definition ex_grant :: grant_request where
  "ex_grant = \<lparr>gr_principal = 9, gr_tenant = 0, gr_workspace = 0, gr_subject = ''human'',
     gr_provenance = ''import'', gr_validFrom = 30, gr_validUntil = 0\<rparr>"

definition ex_advance :: "int \<Rightarrow> version_advance" where
  "ex_advance v = \<lparr>av_membership = 20, av_tenant = 10, av_above = v\<rparr>"

end
