(* ===== verification/Witnesses.thy ===== *)
theory Witnesses
  imports Example_World
begin

text \<open>
  Each theorem with hypotheses, applied to the world of \<open>Example_World\<close>: the hypotheses hold there,
  so the theorem says something of that run.
\<close>

section \<open>Tenants\<close>

lemma ex_suspend_runs:
  "succeeds (tenant_transition ex_env ex_provider TenantSuspend ex_suspend (\<lambda>_. no_guard) ex_world)"
  by code_simp

lemma ex_call_suspend_runs:
  "succeeds (call_transition (ex_env, ex_provider, TenantSuspend, ex_suspend) ex_world)"
  by code_simp

lemma ex_activate_runs: "succeeds (tenant_Activate ex_env ex_provider ex_activate ex_world)"
  by code_simp

theorem tenant_transition_effect_witness:
  "\<exists>result w' r rule at eventID scope i.
    tenant_transition ex_env ex_provider TenantSuspend ex_suspend (\<lambda>_. no_guard) ex_world = (Inr result, w') \<and>
    row_of TenantID 10 (tenants (store ex_world)) = Some r \<and>
    data w' = tenant_written TenantSuspend at (rule_effect rule at r) eventID
      (with_audit [(Evidence scope ex_provider ''incident'')\<lparr>ac_id := fst i, ac_occurredAt := snd i\<rparr>] (data ex_world))"
proof -
  obtain result w' where
    run: "tenant_transition ex_env ex_provider TenantSuspend ex_suspend (\<lambda>_. no_guard) ex_world = (Inr result, w')"
    using ex_suspend_runs by (rule succeedsE)
  have "tc_tenant ex_suspend = 10" "tc_reason ex_suspend = ''incident''"
    by (simp_all add: ex_suspend_def)
  then show ?thesis
    using tenant_transition_effect[OF run reads_only_no_guard] run by metis
qed

theorem tenant_Activate_witness:
  "\<exists>result w' p. tenant_Activate ex_env ex_provider ex_activate ex_world = (Inr result, w') \<and>
    latest_provision 11 (store ex_world) = Some p \<and> pr_state p = RequestRealized"
proof -
  obtain result w' where run: "tenant_Activate ex_env ex_provider ex_activate ex_world = (Inr result, w')"
    using ex_activate_runs by (rule succeedsE)
  show ?thesis
    using tenant_Activate_preconditions[OF run] run row_of_SomeD
    by (fastforce simp: ex_activate_def)
qed

theorem tenant_statement_witness:
  "\<exists>statement. applyStatement TenantSuspend = Some statement \<and>
    statement TenantSuspended 60 (ex_tenant 10 TenantActive) =
      Inr ((ex_tenant 10 TenantActive)\<lparr>Status := TenantSuspended, Version := 4, SecurityVersion := 3,
        SuspendedAt := Some 60\<rparr>)"
  using tenant_statement_matches_rule[of TenantSuspend]
  by (auto simp: has_room_def rule_effect_def stamp_column_def ex_tenant_def bigint_max_def)

theorem tenant_no_lost_update_witness:
  "\<exists>e. fst (call_transition (ex_env, ex_provider, TenantSuspend, ex_suspend)
     (snd (call_transition (ex_env, ex_provider, TenantSuspend, ex_suspend) ex_world))) = Inl e"
proof -
  obtain result w' where run: "call_transition (ex_env, ex_provider, TenantSuspend, ex_suspend) ex_world = (Inr result, w')"
    using ex_call_suspend_runs by (rule succeedsE)
  show ?thesis
    using tenant_no_lost_update[OF run, of w' ex_suspend ex_env ex_provider TenantSuspend]
      tenants_advanced_same[of "store w'" "store w'"] run by simp
qed

section \<open>Provisioning\<close>

lemma ex_request_runs: "succeeds (tenant_Request ex_env ex_provider ex_intake ex_world)"
  by code_simp

theorem tenant_Request_witness:
  "\<exists>record q c t w'. tenant_Request ex_env ex_provider ex_intake ex_world = (Inr (record, q, c, t), w') \<and>
    fresh_tenant record \<and> DisplayName record = ''Acme''"
proof -
  obtain x w' where run: "tenant_Request ex_env ex_provider ex_intake ex_world = (Inr x, w')"
    using ex_request_runs by (rule succeedsE)
  have "TrimSpace (rt_displayName ex_intake) = ''Acme''" by code_simp
  then show ?thesis
    using tenant_Request_effect[of ex_env ex_provider ex_intake ex_world] run by (cases x) auto
qed

lemma ex_realize_runs:
  "succeeds (coordinator_record ex_env ex_provider ex_outcome RequestRealized False ex_world)"
  "succeeds (coordinator_record ex_env ex_provider ex_outcome RequestRealized False
     (snd (coordinator_record ex_env ex_provider ex_outcome RequestRealized False ex_world)))"
  by code_simp+


theorem report_effect_witness:
  "\<exists>res w'. coordinator_record ex_env ex_provider ex_outcome RequestRealized False ex_world = (Inr res, w') \<and>
    outbox (store w') = outbox (store ex_world)"
proof -
  obtain res w' where run: "coordinator_record ex_env ex_provider ex_outcome RequestRealized False ex_world = (Inr res, w')"
    using ex_realize_runs(1) by (rule succeedsE)
  show ?thesis using report_effect[OF run] run by blast
qed

lemma ex_sweep_runs: "succeeds (ScheduledSweepUnresolved ex_env 5 ex_world)"
  by code_simp

theorem sweep_bounded_witness:
  "\<exists>affected w'. ScheduledSweepUnresolved ex_env 5 ex_world = (Inr affected, w') \<and> affected \<le> 5"
proof -
  obtain affected w' where run: "ScheduledSweepUnresolved ex_env 5 ex_world = (Inr affected, w')"
    using ex_sweep_runs by (rule succeedsE)
  have "keyed pr_request (provisioning (store ex_world))" by code_simp
  then show ?thesis using sweep_bounded[OF run] run by blast
qed


section \<open>Memberships\<close>

lemma ex_revoke_runs:
  "succeeds (membership_transition ex_env ex_admin MembershipRevoke ex_change ex_world)"
  "succeeds (call_membership (ex_env, ex_admin, MembershipRevoke, ex_change) ex_world)"
  by code_simp+

theorem membership_transition_witness:
  "\<exists>result w' m. membership_transition ex_env ex_admin MembershipRevoke ex_change ex_world = (Inr result, w') \<and>
    row_of m_id 20 (memberships (store ex_world)) = Some m \<and> m_version (mr_membership result) = m_version m + 1"
proof -
  obtain result w' where run: "membership_transition ex_env ex_admin MembershipRevoke ex_change ex_world = (Inr result, w')"
    using ex_revoke_runs(1) by (rule succeedsE)
  show ?thesis
    using membership_transition_effect[OF run] run by (auto simp: ex_change_def)
qed

theorem membership_isolation_witness:
  "\<exists>e. fst (membership_transition ex_env ex_admin MembershipRevoke ex_foreign ex_world) = Inl e"
proof -
  obtain r w' where run: "membership_transition ex_env ex_admin MembershipRevoke ex_foreign ex_world = (r, w')"
    by fastforce
  have k: "keyed m_id (memberships (store ex_world))" by code_simp
  have scope: "cx_scope ex_admin = Some (zero_scope\<lparr>sc_tenant := 10, sc_actor := 6, sc_correlation := 9\<rparr>)"
    by (simp add: ex_admin_def ex_context_def)
  have row: "row_of m_id (mc_membership ex_foreign) (memberships (store ex_world)) = Some (ex_membership 22 5 11 MembershipActive)"
    by code_simp
  show ?thesis
    using membership_isolation[OF scope k _ run] row run
    by (auto simp: zero_scope_def ex_membership_def)
qed

theorem membership_no_lost_update_witness:
  "\<exists>e. fst (call_membership (ex_env, ex_admin, MembershipSuspend, ex_change)
     (snd (call_membership (ex_env, ex_admin, MembershipRevoke, ex_change) ex_world))) = Inl e"
proof -
  obtain result w' where run: "call_membership (ex_env, ex_admin, MembershipRevoke, ex_change) ex_world = (Inr result, w')"
    using ex_revoke_runs(2) by (rule succeedsE)
  show ?thesis
    using membership_no_lost_update[OF run, of w' ex_change ex_env ex_admin MembershipSuspend]
      memberships_advanced_same[of "store w'" "store w'"] run by simp
qed

lemma ex_grant_runs: "succeeds (Grant ex_env ex_admin ex_grant ex_world)"
  by code_simp

theorem Grant_effect_witness:
  "\<exists>result w'. Grant ex_env ex_admin ex_grant ex_world = (Inr result, w') \<and> m_tenant (mr_membership result) = 10"
proof -
  obtain result w' where run: "Grant ex_env ex_admin ex_grant ex_world = (Inr result, w')"
    using ex_grant_runs by (rule succeedsE)
  show ?thesis
    using Grant_effect[OF run] run by (auto simp: ex_admin_def ex_context_def)
qed

lemma ex_advance_runs:
  "succeeds (advanceWithin ex_env (BoundTenant 10 None) ex_admin (ex_advance 9) ''restore'' ex_world)"
  "succeeds (advanceWithin ex_env (BoundTenant 10 None) ex_admin (ex_advance bigint_max) ''restore'' ex_world)"
  by code_simp+

theorem advance_exceeds_report_witness:
  "\<exists>result w' m'. advanceWithin ex_env (BoundTenant 10 None) ex_admin (ex_advance 9) ''restore'' ex_world = (Inr result, w') \<and>
    row_of m_id 20 (memberships (store w')) = Some m' \<and> m_version m' > 9"
proof -
  obtain result w' where
    run: "advanceWithin ex_env (BoundTenant 10 None) ex_admin (ex_advance 9) ''restore'' ex_world = (Inr result, w')"
    using ex_advance_runs(1) by (rule succeedsE)
  have range: "1 \<le> av_above (ex_advance 9)" "av_above (ex_advance 9) < bigint_max"
    by (simp_all add: ex_advance_def bigint_max_def)
  obtain m' where "row_of m_id (av_membership (ex_advance 9)) (memberships (store w')) = Some m'"
    "m_version m' > av_above (ex_advance 9)"
    using advance_exceeds_report[OF run range] by (elim exE conjE) (rule that)
  moreover have "av_membership (ex_advance 9) = 20" "av_above (ex_advance 9) = 9"
    by (simp_all add: ex_advance_def)
  ultimately show ?thesis
    using run by metis
qed

theorem advance_wraps_witness:
  "\<exists>result w'. advanceWithin ex_env (BoundTenant 10 None) ex_admin (ex_advance bigint_max) ''restore'' ex_world = (Inr result, w') \<and>
    ad_to result = - (2 ^ 63)"
proof -
  obtain result w' where
    run: "advanceWithin ex_env (BoundTenant 10 None) ex_admin (ex_advance bigint_max) ''restore'' ex_world = (Inr result, w')"
    using ex_advance_runs(2) by (rule succeedsE)
  have row: "membership_row (BoundTenant 10 None) (av_membership (ex_advance bigint_max)) (store ex_world) =
      Some (ex_membership 20 5 10 MembershipActive)"
    by code_simp
  have "av_above (ex_advance bigint_max) = bigint_max" by (simp add: ex_advance_def)
  moreover have "m_version (ex_membership 20 5 10 MembershipActive) \<le> bigint_max"
    by (simp add: ex_membership_def bigint_max_def)
  ultimately show ?thesis
    using advance_wraps[OF run _ row] run by blast
qed

end
