(* ===== verification/Offboarding.thy ===== *)
theory Offboarding
  imports Provisioning Membership_Service "HOL-Library.Char_ord" "HOL-Library.List_Lexorder"
begin

text \<open>
  The offboarding coordinator: \<open>src/internal/offboarding/service.go\<close>, \<open>obligation.go\<close>, \<open>cancel.go\<close> and
  \<open>resend.go\<close>. It drives the Tenant and Membership transitions of the two services it is built on and
  keeps the stage, the obligations, the freeze record and the deprovisioning commands.

  \<open>SKIP LOCKED\<close> leaves out the rows \<open>locked env\<close> says another transaction holds. A cancellation loops
  over restore batches; each batch that restores something stamps a freeze record, so the loop is a
  recursion on the number of records not yet stamped.
\<close>

section \<open>Texts\<close>

fun stage_text :: "stage \<Rightarrow> string" where
  "stage_text StageFreeze = ''freeze''"
| "stage_text StageObligations = ''obligations''"
| "stage_text StageRelease = ''release''"
| "stage_text StageRetired = ''retired''"
| "stage_text StageCancelled = ''cancelled''"
| "stage_text (StageOther s) = s"

fun obligation_text :: "obligation_state \<Rightarrow> string" where
  "obligation_text ObligationOpen = ''open''"
| "obligation_text ObligationCompleted = ''completed''"
| "obligation_text ObligationWaived = ''waived''"
| "obligation_text ObligationFailed = ''failed''"
| "obligation_text ObligationCancelled = ''cancelled''"
| "obligation_text (ObligationStateOther s) = s"

section \<open>The derived view\<close>

definition deprovision_of :: "uuid \<Rightarrow> uuid \<Rightarrow> provisioning_request \<Rightarrow> bool" where
  "deprovision_of tenantID offboardingID r \<longleftrightarrow>
     pr_tenant r = tenantID \<and> pr_operation r = Some OpDeprovision \<and> pr_offboarding r = Some offboardingID"

definition latest_deprovision :: "uuid \<Rightarrow> uuid \<Rightarrow> store \<Rightarrow> provisioning_request option" where
  "latest_deprovision tenantID offboardingID s =
     first_row (order_desc (\<lambda>r. (pr_requested_at r, pr_request r))
       (filter (deprovision_of tenantID offboardingID) (provisioning s)))"

definition countActiveMemberships :: "uuid \<Rightarrow> store \<Rightarrow> nat" where
  "countActiveMemberships tenantID s =
     length (filter (\<lambda>m. m_tenant m = tenantID \<and> m_status m = MembershipActive) (memberships s))"

text \<open>A freeze record still to be undone: not stamped, its Membership still suspended.\<close>

definition restorable :: "store \<Rightarrow> freeze_row \<Rightarrow> bool" where
  "restorable s f \<longleftrightarrow>
     fz_restoredAt f = None \<and>
     (case row_of m_id (fz_membership f) (memberships s) of
        None \<Rightarrow> False | Some m \<Rightarrow> m_status m = MembershipSuspended)"

definition derived_view :: "offboarding \<Rightarrow> stage \<Rightarrow> uuid \<Rightarrow> store \<Rightarrow> offboarding_view" where
  "derived_view record storedStage storedTenant s =
     \<lparr>ov_row = record,
      ov_activeMemberships = countActiveMemberships storedTenant s,
      ov_frozenMemberships = length (filter (\<lambda>f. fz_offboarding f = ob_id record) (freezes s)),
      ov_restorePending = length (filter (\<lambda>f. fz_offboarding f = ob_id record \<and>
         storedStage = StageCancelled \<and> restorable s f) (freezes s)),
      ov_deprovisioning =
        (case latest_deprovision storedTenant (ob_id record) s of
           None \<Rightarrow> None
         | Some r \<Rightarrow> Some \<lparr>dp_state = pr_state r, dp_detail = pr_detail r,
                          dp_requestedAt = pr_requested_at r, dp_resolvedAt = pr_resolved_at r\<rparr>)\<rparr>"

definition derive :: "offboarding \<Rightarrow> offboarding_view tx" where
  "derive record =
     seq (read_db (\<lambda>s. (row_of ob_id (ob_id record) (offboardings s), s))) (\<lambda>(row, s).
     case row of
       None \<Rightarrow> raise (ErrInternal ''read derived view'')
     | Some o' \<Rightarrow> return (derived_view record (ob_stage o') (ob_tenant o') s))"

definition offboarding_load :: "uuid \<Rightarrow> offboarding tx" where
  "offboarding_load offboardingID =
     seq (read_db (\<lambda>s. row_of ob_id offboardingID (offboardings s))) (\<lambda>row.
     case row of
       None \<Rightarrow> raise (ErrNotFound PkgOffboarding)
     | Some r \<Rightarrow>
         seq (ensure (stage_Valid (ob_stage r)) (ErrInternal ''stored stage'')) (\<lambda>_. return r))"

definition scanView :: "offboarding \<Rightarrow> store \<Rightarrow> error + offboarding_view" where
  "scanView r s =
     (if stage_Valid (ob_stage r) then Inr (derived_view r (ob_stage r) (ob_tenant r) s)
      else Inl (ErrInternal ''stored stage''))"

definition offboarding_publish :: "env \<Rightarrow> string \<Rightarrow> uuid \<Rightarrow> payload \<Rightarrow> instant \<Rightarrow> unit tx" where
  "offboarding_publish env name aggregate body at =
     seq (lift (offboarding_EventType (parses env) name)) (\<lambda>eventType.
     seq (publish env aggregate eventType at body False) (\<lambda>_.
     return ()))"

text \<open>An UPDATE of one offboarding by its identifier.\<close>

definition update_offboarding :: "uuid \<Rightarrow> (offboarding \<Rightarrow> offboarding) \<Rightarrow> unit tx" where
  "update_offboarding offboardingID f =
     write_db (\<lambda>s. s\<lparr>offboardings := change_row ob_id offboardingID f (offboardings s)\<rparr>)"

section \<open>Begin\<close>

record begin_request =
  br_tenant :: uuid
  br_expectedVersion :: int
  br_reason :: string
  br_legalHold :: bool

definition insertOffboarding :: "offboarding \<Rightarrow> unit tx" where
  "insertOffboarding r =
     seq (read_db (\<lambda>s. row_of ob_id (ob_id r) (offboardings s) = None \<and>
            row_of TenantID (ob_tenant r) (tenants s) \<noteq> None)) (\<lambda>ok.
     seq (ensure (ok \<and> (case ob_priorStatus r of None \<Rightarrow> True
            | Some st \<Rightarrow> st = TenantActive \<or> st = TenantSuspended)) (ErrInternal ''offboarding: insert record'')) (\<lambda>_.
     write_db (\<lambda>s. s\<lparr>offboardings := offboardings s @ [r]\<rparr>)))"

definition begin_body :: "env \<Rightarrow> begin_request \<Rightarrow> offboarding \<Rightarrow> offboarding_view body" where
  "begin_body env req record b cx =
     seq (read_db (\<lambda>s. map_option Status (tenant_row b (br_tenant req) s))) (\<lambda>prior.
     let record' = record\<lparr>ob_priorStatus := prior\<rparr>
     in seq (tenant_TransitionWithin env b TenantBeginOffboarding
               \<lparr>tc_tenant = br_tenant req, tc_reason = br_reason req,
                tc_expectedVersion = br_expectedVersion req\<rparr>) (\<lambda>_.
        seq (insertOffboarding record') (\<lambda>_.
        seq (derive record') (\<lambda>view.
        seq (offboarding_publish env ''started'' (ob_id record')
               (StagePayload (ob_id record') (ob_tenant record') StageFreeze (ob_legalHold record'))
               (ob_startedAt record')) (\<lambda>_.
        seq (Respond env cx (ResOffboarding view)) (\<lambda>_.
        return view))))))"

definition Begin :: "env \<Rightarrow> ctx \<Rightarrow> begin_request \<Rightarrow> offboarding_view tx" where
  "Begin env cx req =
     seq (ensure (\<not> IsNil (br_tenant req)) (ErrInvalid PkgOffboarding)) (\<lambda>_.
     seq (ensure (\<not> blank (br_reason req)) (ErrInvalid PkgOffboarding)) (\<lambda>_.
     seq (ScopeFrom cx) (\<lambda>scope.
     seq (newID env) (\<lambda>offboardingID.
     seq (now env) (\<lambda>at.
     WithProviderScope env cx (br_reason req)
       (begin_body env req
         \<lparr>ob_id = offboardingID, ob_tenant = br_tenant req, ob_stage = StageFreeze,
          ob_initiatedBy = sc_actor scope, ob_reason = br_reason req, ob_legalHold = br_legalHold req,
          ob_correlation = sc_correlation scope, ob_startedAt = at, ob_frozenAt = None,
          ob_releasedAt = None, ob_retiredAt = None, ob_priorStatus = None, ob_cancelledBy = None,
          ob_cancelReason = None, ob_cancelledAt = None\<rparr>))))))"

section \<open>Freeze\<close>

definition selectFreezeBatch :: "binding \<Rightarrow> uuid \<Rightarrow> int \<Rightarrow> (uuid \<Rightarrow> bool) \<Rightarrow> store \<Rightarrow> membership list" where
  "selectFreezeBatch b tenantID size' skip s =
     take (nat size') (sort_key m_id (filter (\<lambda>m. sees b (m_tenant m) \<and> m_tenant m = tenantID \<and>
       m_status m = MembershipActive \<and> \<not> skip (m_id m)) (memberships s)))"

definition insertFrozen :: "binding \<Rightarrow> uuid \<Rightarrow> uuid \<Rightarrow> uuid \<Rightarrow> unit tx" where
  "insertFrozen b offboardingID tenantID membershipID =
     seq (read_db (\<lambda>s. sees b tenantID \<and>
            \<not> list_ex (\<lambda>f. fz_offboarding f = offboardingID \<and> fz_membership f = membershipID) (freezes s) \<and>
            list_ex (\<lambda>o'. ob_id o' = offboardingID \<and> ob_tenant o' = tenantID) (offboardings s) \<and>
            row_of m_id membershipID (memberships s) \<noteq> None)) (\<lambda>ok.
     seq (ensure ok (ErrInternal ''offboarding: record the frozen Membership'')) (\<lambda>_.
     write_db (\<lambda>s. s\<lparr>freezes := freezes s @
       [\<lparr>fz_offboarding = offboardingID, fz_tenant = tenantID, fz_membership = membershipID,
         fz_restoredAt = None\<rparr>]\<rparr>)))"

definition freeze_one :: "env \<Rightarrow> binding \<Rightarrow> ctx \<Rightarrow> uuid \<Rightarrow> uuid \<Rightarrow> string \<Rightarrow> membership \<Rightarrow> unit tx" where
  "freeze_one env b cx offboardingID tenantID reason m =
     seq (membership_TransitionWithin env b cx MembershipSuspend
            \<lparr>mc_membership = m_id m, mc_expectedVersion = m_version m, mc_reason = reason\<rparr>) (\<lambda>_.
     insertFrozen b offboardingID tenantID (m_id m))"

definition freeze_body :: "env \<Rightarrow> uuid \<Rightarrow> uuid \<Rightarrow> int \<Rightarrow> string \<Rightarrow> nat body" where
  "freeze_body env offboardingID tenantID size' reason b cx =
     seq (read_db (tenant_row b tenantID)) (\<lambda>row.
     case row of
       None \<Rightarrow> raise (ErrInternal ''read the Tenant status'')
     | Some t \<Rightarrow>
         seq (ensure (Status t = TenantOffboarding) ErrStageRefused) (\<lambda>_.
         seq (gets (\<lambda>w. selectFreezeBatch b tenantID size' (locked env (ticks w)) (store w))) (\<lambda>batch.
         seq (foreach (freeze_one env b cx offboardingID tenantID reason) batch) (\<lambda>_.
         return (length batch)))))"

definition FreezeBatch :: "env \<Rightarrow> ctx \<Rightarrow> uuid \<Rightarrow> uuid \<Rightarrow> int \<Rightarrow> string \<Rightarrow> nat tx" where
  "FreezeBatch env cx offboardingID tenantID size' reason =
     seq (ensure (\<not> (IsNil offboardingID \<or> IsNil tenantID)) (ErrInvalid PkgOffboarding)) (\<lambda>_.
     seq (ensure (size' > 0) (ErrInvalid PkgOffboarding)) (\<lambda>_.
     WithProviderInTenant env cx tenantID reason (freeze_body env offboardingID tenantID size' reason)))"

section \<open>Advancing a stage\<close>

type_synonym gate = "binding \<Rightarrow> offboarding \<Rightarrow> unit tx"

text \<open>The UPDATE of an advance: the stage, and the instant of the stages that record one.\<close>

definition stamp_stage :: "stage \<Rightarrow> instant \<Rightarrow> offboarding \<Rightarrow> offboarding" where
  "stamp_stage next at r =
     (if next = StageObligations then r\<lparr>ob_stage := next, ob_frozenAt := Some at\<rparr>
      else if next = StageRelease then r\<lparr>ob_stage := next, ob_releasedAt := Some at\<rparr>
      else if next = StageRetired then r\<lparr>ob_stage := next, ob_retiredAt := Some at\<rparr>
      else r\<lparr>ob_stage := next\<rparr>)"

definition advance_body ::
  "env \<Rightarrow> uuid \<Rightarrow> stage \<Rightarrow> stage \<Rightarrow> instant \<Rightarrow> gate \<Rightarrow> offboarding_view body" where
  "advance_body env offboardingID from next at check b cx =
     seq (offboarding_load offboardingID) (\<lambda>loaded.
     seq (ensure (ob_stage loaded = from) ErrStageRefused) (\<lambda>_.
     seq (check b loaded) (\<lambda>_.
     seq (hook env ''offboarding.beforeAdvance'') (\<lambda>_.
     seq (update_offboarding offboardingID (stamp_stage next at)) (\<lambda>_.
     let loaded' = stamp_stage next at loaded
     in seq (derive loaded') (\<lambda>view.
        seq (case stageEventName next of
               None \<Rightarrow> return ()
             | Some name \<Rightarrow> offboarding_publish env name offboardingID
                 (StagePayload offboardingID (ob_tenant loaded) next (ob_legalHold loaded)) at) (\<lambda>_.
        seq (Respond env cx (ResOffboarding view)) (\<lambda>_.
        return view))))))))"

definition offboarding_advance :: "env \<Rightarrow> ctx \<Rightarrow> uuid \<Rightarrow> stage \<Rightarrow> gate \<Rightarrow> offboarding_view tx" where
  "offboarding_advance env cx offboardingID from check =
     seq (ensure (\<not> IsNil offboardingID) (ErrInvalid PkgOffboarding)) (\<lambda>_.
     case stage_Next from of
       None \<Rightarrow> raise ErrStageRefused
     | Some next \<Rightarrow>
         seq (now env) (\<lambda>at.
         WithProviderScope env cx
           (''advance offboarding '' @ uuid_text env offboardingID @ '' to '' @ stage_text next)
           (advance_body env offboardingID from next at check)))"

definition freeze_gate :: gate where
  "freeze_gate b record =
     seq (read_db (countActiveMemberships (ob_tenant record))) (\<lambda>remaining.
     ensure (\<not> remaining > 0) ErrStageRefused)"

definition CompleteFreeze :: "env \<Rightarrow> ctx \<Rightarrow> uuid \<Rightarrow> offboarding_view tx" where
  "CompleteFreeze env cx offboardingID = offboarding_advance env cx offboardingID StageFreeze freeze_gate"

definition outstanding_row :: "uuid \<Rightarrow> obligation \<Rightarrow> bool" where
  "outstanding_row offboardingID b \<longleftrightarrow>
     bl_offboarding b = offboardingID \<and> (bl_state b = ObligationOpen \<or> bl_state b = ObligationFailed)"

definition outstandingObligations :: "uuid \<Rightarrow> string list tx" where
  "outstandingObligations offboardingID =
     read_db (\<lambda>s. sort (map (\<lambda>b. bl_domain b @ ''/'' @ bl_type b @ '' ('' @ obligation_text (bl_state b) @ '')'')
       (filter (outstanding_row offboardingID) (obligations s))))"

definition releaseGates :: gate where
  "releaseGates b record =
     seq (ensure (\<not> ob_legalHold record) ErrLegalHold) (\<lambda>_.
     seq (outstandingObligations (ob_id record)) (\<lambda>names.
     ensure (\<not> length names > 0) ErrObligationsOutstanding))"

definition deprovision_command :: "offboarding \<Rightarrow> uuid \<Rightarrow> instant \<Rightarrow> provisioning_request" where
  "deprovision_command record requestID at =
     \<lparr>pr_request = requestID, pr_tenant = ob_tenant record, pr_operation = Some OpDeprovision,
      pr_isolation = None, pr_region = None, pr_offboarding = Some (ob_id record),
      pr_state = RequestRequested, pr_correlation = ob_correlation record, pr_requested_at = at,
      pr_resolved_at = None, pr_detail = None\<rparr>"

definition release_gate :: "env \<Rightarrow> uuid \<Rightarrow> gate" where
  "release_gate env requestID b record =
     seq (releaseGates b record) (\<lambda>_.
     seq (now env) (\<lambda>at.
     insertProvisioning (deprovision_command record requestID at)))"

definition Release :: "env \<Rightarrow> ctx \<Rightarrow> uuid \<Rightarrow> offboarding_view tx" where
  "Release env cx offboardingID =
     seq (newID env) (\<lambda>requestID.
     offboarding_advance env cx offboardingID StageObligations (release_gate env requestID))"

definition deprovisioningConfirmed :: "offboarding \<Rightarrow> unit tx" where
  "deprovisioningConfirmed record =
     seq (read_db (latest_deprovision (ob_tenant record) (ob_id record))) (\<lambda>row.
     case row of
       None \<Rightarrow> raise ErrAmbiguousOutcome
     | Some r \<Rightarrow>
         if pr_state r = RequestRealized then return ()
         else if pr_state r = RequestUnresolved then raise ErrAmbiguousOutcome
         else raise ErrDeprovisioningIncomplete)"

definition retire_gate :: "env \<Rightarrow> int \<Rightarrow> gate" where
  "retire_gate env expectedTenantVersion b record =
     seq (releaseGates b record) (\<lambda>_.
     seq (deprovisioningConfirmed record) (\<lambda>_.
     seq (tenant_TransitionWithin env b TenantRetire
            \<lparr>tc_tenant = ob_tenant record,
             tc_reason = ''offboarding '' @ uuid_text env (ob_id record) @ '' retiring the Tenant'',
             tc_expectedVersion = expectedTenantVersion\<rparr>) (\<lambda>_.
     return ())))"

definition Retire :: "env \<Rightarrow> ctx \<Rightarrow> uuid \<Rightarrow> int \<Rightarrow> offboarding_view tx" where
  "Retire env cx offboardingID expectedTenantVersion =
     offboarding_advance env cx offboardingID StageRelease (retire_gate env expectedTenantVersion)"

section \<open>Deprovisioning outcomes\<close>

record deprovisioning_outcome =
  do_offboarding :: uuid
  do_state :: request_state
  do_detail :: string

definition resolveDeprovisioning :: "offboarding \<Rightarrow> request_state \<Rightarrow> instant \<Rightarrow> string \<Rightarrow> nat tx" where
  "resolveDeprovisioning record state at detail =
     seq (read_db (latest_deprovision (ob_tenant record) (ob_id record))) (\<lambda>row.
     case row of
       None \<Rightarrow> return 0
     | Some r \<Rightarrow>
         seq (write_db (\<lambda>s. s\<lparr>provisioning := change_row pr_request (pr_request r)
                (\<lambda>q. q\<lparr>pr_state := state, pr_resolved_at := Some at, pr_detail := Some detail\<rparr>)
                (provisioning s)\<rparr>)) (\<lambda>_.
         return 1))"

definition RecordDeprovisioning :: "env \<Rightarrow> ctx \<Rightarrow> deprovisioning_outcome \<Rightarrow> unit tx" where
  "RecordDeprovisioning env cx outcome =
     seq (ensure (do_state outcome \<in> {RequestRealized, RequestFailed, RequestUnresolved}) (ErrInvalid PkgOffboarding)) (\<lambda>_.
     seq (ensure (do_state outcome = RequestRealized \<or> \<not> blank (do_detail outcome)) (ErrInvalid PkgOffboarding)) (\<lambda>_.
     seq (now env) (\<lambda>at.
     WithProviderScope env cx (''record deprovisioning outcome for '' @ uuid_text env (do_offboarding outcome)) (\<lambda>b cx.
       seq (offboarding_load (do_offboarding outcome)) (\<lambda>record.
       seq (resolveDeprovisioning record (do_state outcome) at (do_detail outcome)) (\<lambda>affected.
       ensure (affected \<noteq> 0) (ErrNotFound PkgOffboarding)))))))"

definition resend_body :: "env \<Rightarrow> uuid \<Rightarrow> uuid \<Rightarrow> instant \<Rightarrow> offboarding_view body" where
  "resend_body env offboardingID requestID at b cx =
     seq (offboarding_load offboardingID) (\<lambda>loaded.
     seq (ensure (ob_stage loaded = StageRelease) ErrStageRefused) (\<lambda>_.
     seq (releaseGates b loaded) (\<lambda>_.
     seq (read_db (latest_deprovision (ob_tenant loaded) (ob_id loaded))) (\<lambda>row.
     case row of
       None \<Rightarrow> raise ErrAmbiguousOutcome
     | Some r \<Rightarrow>
         seq (ensure (pr_state r = RequestFailed) ErrResendRefused) (\<lambda>_.
         seq (insertProvisioning (deprovision_command loaded requestID at)) (\<lambda>_.
         seq (offboarding_publish env ''released'' offboardingID
                (StagePayload offboardingID (ob_tenant loaded) StageRelease (ob_legalHold loaded)) at) (\<lambda>_.
         seq (derive loaded) (\<lambda>view.
         seq (Respond env cx (ResOffboarding view)) (\<lambda>_.
         return view)))))))))"

definition ResendDeprovisioning :: "env \<Rightarrow> ctx \<Rightarrow> uuid \<Rightarrow> string \<Rightarrow> offboarding_view tx" where
  "ResendDeprovisioning env cx offboardingID reason =
     seq (ensure (\<not> IsNil offboardingID) (ErrInvalid PkgOffboarding)) (\<lambda>_.
     seq (newID env) (\<lambda>requestID.
     seq (now env) (\<lambda>at.
     WithProviderScope env cx reason (resend_body env offboardingID requestID at))))"

section \<open>Obligations\<close>

record raise_request =
  rr_offboarding :: uuid
  rr_domain :: string
  rr_type :: string
  rr_dueAt :: "instant option"

definition insertObligation :: "obligation \<Rightarrow> unit tx" where
  "insertObligation ob =
     seq (read_db (\<lambda>s. row_of bl_id (bl_id ob) (obligations s) = None \<and>
            list_ex (\<lambda>o'. ob_id o' = bl_offboarding ob \<and> ob_tenant o' = bl_tenant ob) (offboardings s))) (\<lambda>ok.
     seq (ensure ok (ErrInternal ''offboarding: insert obligation'')) (\<lambda>_.
     write_db (\<lambda>s. s\<lparr>obligations := obligations s @ [ob]\<rparr>)))"

definition raise_body :: "env \<Rightarrow> raise_request \<Rightarrow> uuid \<Rightarrow> instant \<Rightarrow> obligation body" where
  "raise_body env req obligationID at b cx =
     seq (offboarding_load (rr_offboarding req)) (\<lambda>record.
     seq (ensure (ob_stage record = StageObligations) ErrStageRefused) (\<lambda>_.
     let ob = \<lparr>bl_id = obligationID, bl_offboarding = rr_offboarding req, bl_tenant = ob_tenant record,
                 bl_domain = rr_domain req, bl_type = rr_type req, bl_state = ObligationOpen,
                 bl_dueAt = rr_dueAt req, bl_completedAt = None, bl_detail = [], bl_resolvedBy = None,
                 bl_resolvedAt = None\<rparr>
     in seq (insertObligation ob) (\<lambda>_.
        seq (offboarding_publish env ''obligation-raised'' (rr_offboarding req)
               (ObligationPayload (rr_offboarding req) (ob_tenant record) obligationID (rr_domain req)
                  (rr_type req) (rr_dueAt req)) at) (\<lambda>_.
        seq (Respond env cx (ResObligation ob)) (\<lambda>_.
        return ob)))))"

definition Raise :: "env \<Rightarrow> ctx \<Rightarrow> raise_request \<Rightarrow> obligation tx" where
  "Raise env cx req =
     seq (ensure (\<not> IsNil (rr_offboarding req)) (ErrInvalid PkgOffboarding)) (\<lambda>_.
     seq (ensure (\<not> blank (rr_domain req)) (ErrInvalid PkgOffboarding)) (\<lambda>_.
     seq (ensure (\<not> blank (rr_type req)) (ErrInvalid PkgOffboarding)) (\<lambda>_.
     seq (newID env) (\<lambda>obligationID.
     seq (now env) (\<lambda>at.
     WithProviderScope env cx (''raise obligation '' @ rr_domain req @ ''/'' @ rr_type req)
       (raise_body env req obligationID at))))))"

record obligation_resolution =
  or_obligation :: uuid
  or_domain :: string
  or_state :: obligation_state
  or_detail :: string

definition resolution_validate :: "obligation_resolution \<Rightarrow> error + unit" where
  "resolution_validate res =
     (if IsNil (or_obligation res) then Inl (ErrInvalid PkgOffboarding)
      else if blank (or_domain res) then Inl (ErrInvalid PkgOffboarding)
      else if \<not> obligation_Valid (or_state res) \<or> or_state res = ObligationOpen \<or> or_state res = ObligationCancelled
        then Inl (ErrInvalid PkgOffboarding)
      else if or_state res \<noteq> ObligationCompleted \<and> blank (or_detail res) then Inl (ErrInvalid PkgOffboarding)
      else Inr ())"

definition loadObligation :: "uuid \<Rightarrow> obligation tx" where
  "loadObligation obligationID =
     seq (read_db (\<lambda>s. row_of bl_id obligationID (obligations s))) (\<lambda>row.
     case row of
       None \<Rightarrow> raise (ErrNotFound PkgOffboarding)
     | Some ob \<Rightarrow>
         seq (ensure (obligation_Valid (bl_state ob)) (ErrInternal ''stored state'')) (\<lambda>_. return ob))"

text \<open>The columns \<open>resolveObligation\<close> sets, and the record \<open>Resolve\<close> answers.\<close>

definition resolveObligation :: "obligation_resolution \<Rightarrow> uuid \<Rightarrow> instant \<Rightarrow> obligation \<Rightarrow> obligation" where
  "resolveObligation res resolver at ob =
     ob\<lparr>bl_state := or_state res,
        bl_completedAt := (if obligation_Resolved (or_state res) then Some at else None),
        bl_detail := or_detail res, bl_resolvedBy := Some resolver, bl_resolvedAt := Some at\<rparr>"

definition resolved_answer :: "obligation_resolution \<Rightarrow> uuid \<Rightarrow> instant \<Rightarrow> obligation \<Rightarrow> obligation" where
  "resolved_answer res resolver at loaded =
     loaded\<lparr>bl_state := or_state res, bl_detail := or_detail res, bl_resolvedBy := Some resolver,
            bl_resolvedAt := Some at,
            bl_completedAt := (if obligation_Resolved (or_state res) then Some at else bl_completedAt loaded)\<rparr>"

definition resolve_body :: "env \<Rightarrow> obligation_resolution \<Rightarrow> uuid \<Rightarrow> instant \<Rightarrow> obligation body" where
  "resolve_body env res resolver at b cx =
     seq (loadObligation (or_obligation res)) (\<lambda>loaded.
     seq (ensure (bl_domain loaded = or_domain res) ErrWrongDomain) (\<lambda>_.
     seq (ensure (\<not> (obligation_Resolved (bl_state loaded) \<or> bl_state loaded = ObligationCancelled)) ErrAlreadyResolved) (\<lambda>_.
     seq (write_db (\<lambda>s. s\<lparr>obligations :=
            change_row bl_id (or_obligation res) (resolveObligation res resolver at) (obligations s)\<rparr>)) (\<lambda>_.
     let ob = resolved_answer res resolver at loaded
     in seq (Respond env cx (ResObligation ob)) (\<lambda>_.
        return ob)))))"

definition obligation_Resolve :: "env \<Rightarrow> ctx \<Rightarrow> obligation_resolution \<Rightarrow> obligation tx" where
  "obligation_Resolve env cx res =
     seq (lift (resolution_validate res)) (\<lambda>_.
     seq (ScopeFrom cx) (\<lambda>scope.
     seq (now env) (\<lambda>at.
     WithProviderScope env cx
       (''resolve obligation '' @ uuid_text env (or_obligation res) @ '' as '' @ obligation_text (or_state res))
       (resolve_body env res (sc_actor scope) at))))"

definition Outstanding :: "env \<Rightarrow> ctx \<Rightarrow> uuid \<Rightarrow> string list tx" where
  "Outstanding env cx offboardingID =
     WithProviderScope env cx (''read outstanding obligations for '' @ uuid_text env offboardingID) (\<lambda>b cx.
       outstandingObligations offboardingID)"

text \<open>
  The order of the board: open and past due first, then open by due date with undated ones last, then
  the rest in the order they were raised.
\<close>

definition board_key :: "instant \<Rightarrow> obligation \<Rightarrow> nat \<times> (bool \<times> instant) \<times> uuid" where
  "board_key at ob =
     ((if bl_state ob = ObligationOpen then (case bl_dueAt ob of Some d \<Rightarrow> if d < at then 0 else 1 | None \<Rightarrow> 1) else 2),
      (case (if bl_state ob = ObligationOpen then bl_dueAt ob else None) of
         None \<Rightarrow> (True, 0) | Some d \<Rightarrow> (False, d)),
      bl_id ob)"

definition Board :: "env \<Rightarrow> ctx \<Rightarrow> uuid \<Rightarrow> (string list \<times> obligation list) tx" where
  "Board env cx offboardingID =
     seq (ensure (\<not> IsNil offboardingID) (ErrInvalid PkgOffboarding)) (\<lambda>_.
     seq (now env) (\<lambda>at.
     WithProviderScope env cx (''read the obligation board of '' @ uuid_text env offboardingID) (\<lambda>b cx.
       seq (read_db (\<lambda>s. list_ex (\<lambda>o'. ob_id o' = offboardingID) (offboardings s))) (\<lambda>exists.
       seq (ensure exists (ErrNotFound PkgOffboarding)) (\<lambda>_.
       seq (outstandingObligations offboardingID) (\<lambda>names.
       seq (read_db (\<lambda>s. sort_key (board_key at) (filter (\<lambda>ob. bl_offboarding ob = offboardingID) (obligations s)))) (\<lambda>rows.
       seq (foreach (\<lambda>ob. ensure (obligation_Valid (bl_state ob)) (ErrInternal ''stored state'')) rows) (\<lambda>_.
       return (names, rows)))))))))"

section \<open>Legal hold\<close>

definition hold_body :: "env \<Rightarrow> uuid \<Rightarrow> bool \<Rightarrow> offboarding_view body" where
  "hold_body env offboardingID hold b cx =
     seq (offboarding_load offboardingID) (\<lambda>loaded.
     seq (ensure (\<not> (ob_stage loaded = StageRetired \<or> ob_stage loaded = StageCancelled)) ErrStageRefused) (\<lambda>_.
     seq (update_offboarding offboardingID (\<lambda>r. r\<lparr>ob_legalHold := hold\<rparr>)) (\<lambda>_.
     seq (derive (loaded\<lparr>ob_legalHold := hold\<rparr>)) (\<lambda>view.
     seq (Respond env cx (ResOffboarding view)) (\<lambda>_.
     return view)))))"

definition SetLegalHold :: "env \<Rightarrow> ctx \<Rightarrow> uuid \<Rightarrow> bool \<Rightarrow> string \<Rightarrow> offboarding_view tx" where
  "SetLegalHold env cx offboardingID hold reason =
     seq (ensure (\<not> blank reason) (ErrInvalid PkgOffboarding)) (\<lambda>_.
     WithProviderScope env cx reason (hold_body env offboardingID hold))"

section \<open>Reads\<close>

definition offboarding_Get :: "env \<Rightarrow> ctx \<Rightarrow> uuid \<Rightarrow> offboarding_view tx" where
  "offboarding_Get env cx offboardingID =
     seq (ensure (\<not> IsNil offboardingID) (ErrInvalid PkgOffboarding)) (\<lambda>_.
     WithProviderScope env cx (''read offboarding '' @ uuid_text env offboardingID) (\<lambda>b cx.
       seq (read_db (\<lambda>s. (row_of ob_id offboardingID (offboardings s), s))) (\<lambda>(row, s).
       case row of
         None \<Rightarrow> raise (ErrNotFound PkgOffboarding)
       | Some r \<Rightarrow> lift (scanView r s))))"

record offboarding_query =
  oq_after :: uuid
  oq_limit :: int
  oq_stage :: "stage option"
  oq_tenant :: uuid

definition offboarding_matches :: "offboarding_query \<Rightarrow> offboarding \<Rightarrow> bool" where
  "offboarding_matches q r \<longleftrightarrow>
     (case oq_stage q of None \<Rightarrow> True | Some st \<Rightarrow> ob_stage r = st) \<and>
     (case Keyset (oq_tenant q) of None \<Rightarrow> True | Some k \<Rightarrow> ob_tenant r = k)"

definition offboarding_List ::
  "env \<Rightarrow> ctx \<Rightarrow> offboarding_query \<Rightarrow> string \<Rightarrow> (offboarding_view list \<times> uuid option) tx" where
  "offboarding_List env cx q reason =
     (case ListLimit (oq_limit q) of
        Inl _ \<Rightarrow> raise (ErrInvalid PkgOffboarding)
      | Inr limit \<Rightarrow>
     seq (ensure (case oq_stage q of None \<Rightarrow> True | Some st \<Rightarrow> stage_Valid st) (ErrInvalid PkgOffboarding)) (\<lambda>_.
     seq (WithProviderScope env cx reason (\<lambda>b cx.
       seq (read_db (\<lambda>s. (take (nat limit + 1)
              (keyset_rows ob_id (oq_after q) (offboarding_matches q) (offboardings s)), s))) (\<lambda>(rows, s).
       foreach (\<lambda>r. lift (scanView r s)) rows))) (\<lambda>views.
     return (page_of (\<lambda>v. ob_id (ov_row v)) limit views))))"

section \<open>Cancellation\<close>

record cancel_request =
  cq_offboarding :: uuid
  cq_expectedVersion :: int
  cq_reason :: string

definition RestoreBatchSize :: int where
  "RestoreBatchSize = 100"

definition cancel_action :: "tenant_state option \<Rightarrow> tenant_action option" where
  "cancel_action prior =
     (if prior = Some TenantActive then Some TenantCancelOffboardingToActive
      else if prior = Some TenantSuspended then Some TenantCancelOffboardingToSuspended
      else None)"

definition cancelStatement :: "uuid \<Rightarrow> string \<Rightarrow> instant \<Rightarrow> offboarding \<Rightarrow> offboarding" where
  "cancelStatement actor reason at r =
     r\<lparr>ob_stage := StageCancelled, ob_cancelledBy := Some actor, ob_cancelReason := Some reason,
       ob_cancelledAt := Some at\<rparr>"

definition cancelObligations :: "uuid \<Rightarrow> uuid \<Rightarrow> instant \<Rightarrow> unit tx" where
  "cancelObligations offboardingID actor at =
     write_db (\<lambda>s. s\<lparr>obligations := map (\<lambda>ob.
       if bl_offboarding ob = offboardingID \<and> bl_state ob = ObligationOpen
       then ob\<lparr>bl_state := ObligationCancelled, bl_resolvedBy := Some actor, bl_resolvedAt := Some at\<rparr>
       else ob) (obligations s)\<rparr>)"

definition cancel_body :: "env \<Rightarrow> cancel_request \<Rightarrow> uuid \<Rightarrow> instant \<Rightarrow> uuid body" where
  "cancel_body env req actor at b cx =
     seq (offboarding_load (cq_offboarding req)) (\<lambda>loaded.
     if ob_stage loaded = StageCancelled then return (ob_tenant loaded)
     else
       seq (ensure (stage_Cancellable (ob_stage loaded)) ErrStageRefused) (\<lambda>_.
       case cancel_action (ob_priorStatus loaded) of
         None \<Rightarrow> raise ErrNotReversible
       | Some action \<Rightarrow>
           seq (tenant_TransitionWithin env b action
                  \<lparr>tc_tenant = ob_tenant loaded, tc_reason = cq_reason req,
                   tc_expectedVersion = cq_expectedVersion req\<rparr>) (\<lambda>_.
           seq (update_offboarding (cq_offboarding req) (cancelStatement actor (cq_reason req) at)) (\<lambda>_.
           seq (cancelObligations (cq_offboarding req) actor at) (\<lambda>_.
           seq (offboarding_publish env ''cancelled'' (cq_offboarding req)
                  (StagePayload (cq_offboarding req) (ob_tenant loaded) StageCancelled (ob_legalHold loaded)) at) (\<lambda>_.
           return (ob_tenant loaded)))))))"

definition restore_candidate :: "binding \<Rightarrow> uuid \<Rightarrow> (uuid \<Rightarrow> bool) \<Rightarrow> store \<Rightarrow> freeze_row \<Rightarrow> membership option" where
  "restore_candidate b offboardingID skip s f =
     (if fz_offboarding f = offboardingID \<and> fz_restoredAt f = None \<and> sees b (fz_tenant f)
      then case membership_row b (fz_membership f) s of
             None \<Rightarrow> None
           | Some m \<Rightarrow> if m_status m = MembershipSuspended \<and> \<not> skip (m_id m) then Some m else None
      else None)"

definition selectRestoreBatch :: "binding \<Rightarrow> uuid \<Rightarrow> int \<Rightarrow> (uuid \<Rightarrow> bool) \<Rightarrow> store \<Rightarrow> membership list" where
  "selectRestoreBatch b offboardingID size' skip s =
     take (nat size') (List.map_filter (restore_candidate b offboardingID skip s) (sort_key fz_membership (freezes s)))"

definition stampRestored :: "binding \<Rightarrow> uuid \<Rightarrow> uuid \<Rightarrow> instant \<Rightarrow> unit tx" where
  "stampRestored b offboardingID membershipID at =
     write_db (\<lambda>s. s\<lparr>freezes := map (\<lambda>f.
       if fz_offboarding f = offboardingID \<and> fz_membership f = membershipID \<and> sees b (fz_tenant f)
       then f\<lparr>fz_restoredAt := Some at\<rparr> else f) (freezes s)\<rparr>)"

definition restore_one :: "env \<Rightarrow> binding \<Rightarrow> ctx \<Rightarrow> uuid \<Rightarrow> instant \<Rightarrow> string \<Rightarrow> membership \<Rightarrow> unit tx" where
  "restore_one env b cx offboardingID at reason m =
     seq (membership_TransitionWithin env b cx MembershipRestore
            \<lparr>mc_membership = m_id m, mc_expectedVersion = m_version m, mc_reason = reason\<rparr>) (\<lambda>_.
     stampRestored b offboardingID (m_id m) at)"

definition restore_body :: "env \<Rightarrow> uuid \<Rightarrow> int \<Rightarrow> string \<Rightarrow> nat body" where
  "restore_body env offboardingID size' reason b cx =
     seq (gets (\<lambda>w. selectRestoreBatch b offboardingID size' (locked env (ticks w)) (store w))) (\<lambda>batch.
     seq (now env) (\<lambda>at.
     seq (foreach (restore_one env b cx offboardingID at reason) batch) (\<lambda>_.
     return (length batch))))"

definition restoreBatch :: "env \<Rightarrow> ctx \<Rightarrow> uuid \<Rightarrow> uuid \<Rightarrow> int \<Rightarrow> string \<Rightarrow> nat tx" where
  "restoreBatch env cx offboardingID tenantID size' reason =
     WithProviderInTenant env cx tenantID reason (restore_body env offboardingID size' reason)"

text \<open>
  Freeze records are only ever stamped, and never lose a stamp: how one table of them may differ from
  an earlier reading, apart from records added by a freeze.
\<close>

definition stamp_step :: "freeze_row \<Rightarrow> freeze_row \<Rightarrow> bool" where
  "stamp_step f f' \<longleftrightarrow> f' = f \<or> (\<exists>at. f' = f\<lparr>fz_restoredAt := Some at\<rparr>)"

definition freezes_stamped :: "store \<Rightarrow> store \<Rightarrow> bool" where
  "freezes_stamped s s' \<longleftrightarrow> list_all2 stamp_step (freezes s) (freezes s')"

definition unstamped :: "uuid \<Rightarrow> world \<Rightarrow> nat" where
  "unstamped offboardingID w =
     length (filter (\<lambda>f. fz_offboarding f = offboardingID \<and> fz_restoredAt f = None) (freezes (store w)))"

lemma freezes_stamped_same: "freezes s' = freezes s \<Longrightarrow> freezes_stamped s s'"
  by (simp add: freezes_stamped_def stamp_step_def list_all2_refl)

lemma freezes_stamped_trans: "freezes_stamped s t \<Longrightarrow> freezes_stamped t u \<Longrightarrow> freezes_stamped s u"
  unfolding freezes_stamped_def
  by (rule list_all2_trans[of stamp_step stamp_step]) (auto simp: stamp_step_def)

lemma freezes_stamped_map: "freezes_stamped s (s\<lparr>freezes := map (\<lambda>f. if P f then f\<lparr>fz_restoredAt := Some at\<rparr> else f) (freezes s)\<rparr>)"
  by (auto simp: freezes_stamped_def list_all2_conv_all_nth stamp_step_def)

interpretation stamping: membership_relation freezes_stamped "\<lambda>_. True"
  by unfold_locales (auto intro: freezes_stamped_same freezes_stamped_trans)

lemma y_restore_one: "yields (on_store freezes_stamped) (restore_one env b cx offboardingID at reason m)"
  unfolding restore_one_def stampRestored_def
  by (intro stamping.y_store_intros stamping.y_TransitionWithin freezes_stamped_map) auto

lemma length_filter_stamped:
  assumes "list_all2 stamp_step xs ys"
  shows "length (filter (\<lambda>f. fz_offboarding f = k \<and> fz_restoredAt f = None) ys) \<le>
    length (filter (\<lambda>f. fz_offboarding f = k \<and> fz_restoredAt f = None) xs)"
  using assms by (induction rule: list_all2_induct) (auto simp: stamp_step_def)

lemma length_filter_map_less:
  assumes "f \<in> set xs" "P f" "\<not> P (h f)" "\<And>x. P (h x) \<Longrightarrow> P x"
  shows "length (filter (P \<circ> h) xs) < length (filter P xs)"
proof -
  have le: "length (filter (P \<circ> h) ys) \<le> length (filter P ys)" for ys
    using assms(4) by (induction ys) (auto simp: le_SucI)
  show ?thesis
    using assms(1-3)
  proof (induction xs)
    case (Cons y ys)
    then show ?case using le[of ys] assms(4) by (auto simp: less_Suc_eq_le comp_def)
  qed simp
qed

lemma restore_one_stamps:
  assumes run: "restore_one env b cx offboardingID at reason m w = (Inr u, w')"
    and f: "f \<in> set (freezes (store w))" "restore_candidate b offboardingID skip (store w0) f = Some m"
  shows "unstamped offboardingID w' < unstamped offboardingID w"
proof -
  from run obtain r w1 where
    t: "membership_TransitionWithin env b cx MembershipRestore
      \<lparr>mc_membership = m_id m, mc_expectedVersion = m_version m, mc_reason = reason\<rparr> w = (Inr r, w1)"
    and s: "store w' = (store w1)\<lparr>freezes := map (\<lambda>f.
       if fz_offboarding f = offboardingID \<and> fz_membership f = m_id m \<and> sees b (fz_tenant f)
       then f\<lparr>fz_restoredAt := Some at\<rparr> else f) (freezes (store w1))\<rparr>"
    by (auto simp: restore_one_def stampRestored_def run_simps)
  have "freezes (store w1) = freezes (store w)"
    using t by (rule TransitionWithin_effect) (simp add: membership_written_def Let_def)
  moreover have "fz_offboarding f = offboardingID" "fz_restoredAt f = None" "sees b (fz_tenant f)" "fz_membership f = m_id m"
    using f(2) by (auto simp: restore_candidate_def dest: membership_row_SomeD split: if_splits option.splits)
  ultimately have "length (filter (\<lambda>f. fz_offboarding f = offboardingID \<and> fz_restoredAt f = None) (freezes (store w'))) <
      length (filter (\<lambda>f. fz_offboarding f = offboardingID \<and> fz_restoredAt f = None) (freezes (store w)))"
    unfolding s using f(1) by simp (rule length_filter_map_less[of f], auto split: if_splits)
  then show ?thesis by (simp add: unstamped_def)
qed

lemma restoreBatch_progress:
  assumes "restoreBatch env cx offboardingID tenantID size' reason w = (Inr n, w')" "n \<noteq> 0"
  shows "unstamped offboardingID w' < unstamped offboardingID w"
proof -
  from assms(1) obtain rows b cx1 w1 where e: "entered rows w w1"
    and run: "restore_body env offboardingID size' reason b cx1 w1 = (Inr n, w')"
    unfolding restoreBatch_def by (elim WithProviderInTenant_enters) blast
  define batch where "batch = selectRestoreBatch b offboardingID size' (locked env (ticks w1)) (store w1)"
  define at where "at = clock env (ticks w1)"
  from run obtain ys where n: "n = length batch"
    and fe: "foreach (restore_one env b cx1 offboardingID at reason) batch (w1\<lparr>ticks := Suc (ticks w1)\<rparr>) = (Inr ys, w')"
    by (auto simp: restore_body_def run_simps batch_def at_def)
  from n assms(2) obtain m ms where b: "batch = m # ms" by (cases batch) auto
  then have "m \<in> set batch" by simp
  then obtain f where f: "f \<in> set (freezes (store w1))"
    "restore_candidate b offboardingID (locked env (ticks w1)) (store w1) f = Some m"
    unfolding batch_def selectRestoreBatch_def by (auto dest!: in_set_takeD simp: map_filter_def)
  from fe b obtain u w2 zs where
    one: "restore_one env b cx1 offboardingID at reason m (w1\<lparr>ticks := Suc (ticks w1)\<rparr>) = (Inr u, w2)"
    and rest: "foreach (restore_one env b cx1 offboardingID at reason) ms w2 = (Inr zs, w')"
    by (auto simp: run_simps)
  have "unstamped offboardingID w2 < unstamped offboardingID (w1\<lparr>ticks := Suc (ticks w1)\<rparr>)"
    using restore_one_stamps[OF one _ f(2)] f(1) by simp
  moreover have "unstamped offboardingID w' \<le> unstamped offboardingID w2"
    using yieldsD[OF stamping.sr.y_foreach[OF y_restore_one] rest] length_filter_stamped
    by (auto simp: on_store_def freezes_stamped_def unstamped_def)
  moreover have "unstamped offboardingID w1 = unstamped offboardingID w"
    using entered_fields[OF e] by (simp add: unstamped_def)
  ultimately show ?thesis by (simp add: unstamped_def)
qed

function restore_all :: "env \<Rightarrow> ctx \<Rightarrow> uuid \<Rightarrow> uuid \<Rightarrow> string \<Rightarrow> unit tx" where
  "restore_all env cx offboardingID tenantID reason w =
     (case restoreBatch env cx offboardingID tenantID RestoreBatchSize reason w of
        (Inl e, w') \<Rightarrow> (Inl e, w')
      | (Inr restored, w') \<Rightarrow>
          if restored = 0 then (Inr (), w') else restore_all env cx offboardingID tenantID reason w')"
  by pat_completeness auto
termination
  by (relation "measure (\<lambda>(env, cx, offboardingID, tenantID, reason, w). unstamped offboardingID w)")
    (auto intro: restoreBatch_progress[OF sym])

declare restore_all.simps [simp del]

definition offboarding_Cancel :: "env \<Rightarrow> ctx \<Rightarrow> cancel_request \<Rightarrow> offboarding_view tx" where
  "offboarding_Cancel env cx req =
     seq (ensure (\<not> IsNil (cq_offboarding req)) (ErrInvalid PkgOffboarding)) (\<lambda>_.
     seq (ensure (\<not> blank (cq_reason req)) (ErrInvalid PkgOffboarding)) (\<lambda>_.
     seq (ScopeFrom cx) (\<lambda>scope.
     seq (now env) (\<lambda>at.
     seq (WithProviderScope env cx (cq_reason req) (cancel_body env req (sc_actor scope) at)) (\<lambda>tenantID.
     seq (restore_all env cx (cq_offboarding req) tenantID (cq_reason req)) (\<lambda>_.
     offboarding_Get env cx (cq_offboarding req)))))))"

end
