(* ===== verification/Offboarding_Stages.thy ===== *)
theory Offboarding_Stages
  imports Offboarding
begin

text \<open>
  What each stage of an offboarding does: the Tenant transition and the record written together, the
  gates read in the transaction that passes them, the outcome and obligations that hold the process.
\<close>

section \<open>Runs\<close>

lemma offboarding_load_run [run_simps]:
  "offboarding_load k w = (Inr r, w') \<longleftrightarrow>
     row_of ob_id k (offboardings (store w)) = Some r \<and> stage_Valid (ob_stage r) \<and> w' = w"
  by (auto simp: offboarding_load_def run_simps split: option.splits)

lemma derive_run [run_simps]:
  "derive r w = (Inr v, w') \<longleftrightarrow>
     (\<exists>o'. row_of ob_id (ob_id r) (offboardings (store w)) = Some o' \<and>
        v = derived_view r (ob_stage o') (ob_tenant o') (store w)) \<and> w' = w"
  by (auto simp: derive_def run_simps split: option.splits)

definition process_message :: "string \<Rightarrow> uuid \<Rightarrow> payload \<Rightarrow> instant \<Rightarrow> uuid \<Rightarrow> message" where
  "process_message name aggregate body at eventID =
     \<lparr>msg_id = eventID, msg_aggregate = aggregate, msg_type = the (offboarding_eventTypes name), msg_at = at,
      msg_payload = body, msg_priority = False\<rparr>"

definition announced :: "message list \<Rightarrow> store \<Rightarrow> store" where
  "announced ms s = s\<lparr>outbox := outbox s @ ms\<rparr>"

lemma offboarding_publish_run:
  assumes "offboarding_publish env name aggregate body at w = (Inr u, w')"
  obtains eventID where "store w' = announced [process_message name aggregate body at eventID] (store w)"
  using assms
  by (auto simp: offboarding_publish_def offboarding_EventType_def run_simps Let_def announced_def
      process_message_def split: option.splits if_splits)

lemma TenantTransitionWithin_effect:
  assumes "tenant_TransitionWithin env b action cmd w = (Inr result, w')"
  obtains r rule at eventID where
    "tenant_row b (tc_tenant cmd) (store w) = Some r" "tenant_transitions action = Some rule"
    "tenant_Resolve action (Status r) = Inr (r_to rule)" "Version r = tc_expectedVersion cmd" "has_room rule r"
    "store w' = tenant_written action at (rule_effect rule at r) eventID (store w)"
proof -
  from assms have "tenant_transitionWithin env b action cmd no_guard w = (Inr result, w')"
    by (auto simp: tenant_TransitionWithin_def run_simps)
  then show thesis
  proof (rule tenant_transitionWithin_effect)
    show "yields (kept (\<lambda>w. tenants (store w))) (no_guard h)" for h
      by (auto simp: no_guard_def yields_def kept_def run_simps)
  qed (auto simp: no_guard_def run_simps intro: that)
qed

lemma data_written [simp]:
  "data (w\<lparr>store := s\<rparr>) = s\<lparr>idem_log := []\<rparr>"
  "(announced ms s)\<lparr>idem_log := l\<rparr> = announced ms (s\<lparr>idem_log := l\<rparr>)"
  "(tenant_written a at r e s)\<lparr>idem_log := l\<rparr> = tenant_written a at r e (s\<lparr>idem_log := l\<rparr>)"
  by (auto simp: data_def announced_def tenant_written_def split: option.splits)

lemma written_fields [simp]:
  "offboardings (tenant_written a at r e s) = offboardings s"
  "obligations (tenant_written a at r e s) = obligations s"
  "provisioning (tenant_written a at r e s) = provisioning s"
  "memberships (tenant_written a at r e s) = memberships s"
  "freezes (tenant_written a at r e s) = freezes s"
  "offboardings (announced ms s) = offboardings s" "tenants (announced ms s) = tenants s"
  "obligations (announced ms s) = obligations s" "provisioning (announced ms s) = provisioning s"
  "memberships (announced ms s) = memberships s" "freezes (announced ms s) = freezes s"
  by (auto simp: tenant_written_def announced_def split: option.splits)

section \<open>Begin\<close>

definition begun :: "begin_request \<Rightarrow> scope \<Rightarrow> uuid \<Rightarrow> instant \<Rightarrow> tenant_state \<Rightarrow> offboarding" where
  "begun req scope k at prior =
     \<lparr>ob_id = k, ob_tenant = br_tenant req, ob_stage = StageFreeze, ob_initiatedBy = sc_actor scope,
      ob_reason = br_reason req, ob_legalHold = br_legalHold req, ob_correlation = sc_correlation scope,
      ob_startedAt = at, ob_frozenAt = None, ob_releasedAt = None, ob_retiredAt = None,
      ob_priorStatus = Some prior, ob_cancelledBy = None, ob_cancelReason = None, ob_cancelledAt = None\<rparr>"

definition opened :: "offboarding \<Rightarrow> store \<Rightarrow> store" where
  "opened r s = s\<lparr>offboardings := offboardings s @ [r]\<rparr>"

lemma Begin_run:
  assumes run: "Begin env cx req w = (Inr view, w')"
  obtains t rule scope k at at' i te se where
    "row_of TenantID (br_tenant req) (tenants (store w)) = Some t"
    "Status t = TenantActive \<or> Status t = TenantSuspended" "Version t = br_expectedVersion req"
    "tenant_transitions TenantBeginOffboarding = Some rule" "has_room rule t"
    "cx_scope cx = Some scope" "sc_provider scope" "row_of ob_id k (offboardings (store w)) = None"
    "ov_row view = begun req scope k at (Status t)"
    "data w' = announced [process_message ''started'' k
        (StagePayload k (br_tenant req) StageFreeze (br_legalHold req)) at se]
      (opened (ov_row view) (tenant_written TenantBeginOffboarding at' (rule_effect rule at' t) te
        (with_audit [(Evidence scope cx (br_reason req))\<lparr>ac_id := fst i, ac_occurredAt := snd i\<rparr>] (data w))))"
proof -
  define draft where "draft k at scope = (begun req scope k at TenantActive)\<lparr>ob_priorStatus := None\<rparr>" for k at scope
  define w0 where "w0 = w\<lparr>minted := Suc (minted w), ticks := Suc (ticks w)\<rparr>"
  define at where "at = clock env (ticks w)"
  have w0: "store w0 = store w" by (simp add: w0_def)
  from run obtain scope k where sc: "cx_scope cx = Some scope"
    and p: "WithProviderScope env cx (br_reason req) (begin_body env req (draft k at scope)) w0 = (Inr view, w')"
    by (auto simp: Begin_def run_simps draft_def begun_def ScopeFrom_run w0_def at_def)
  from p obtain scope' i cx1 w1 where s': "cx_scope cx = Some scope'" "sc_provider scope'"
    and e: "entered [(Evidence scope' cx (br_reason req))\<lparr>ac_id := fst i, ac_occurredAt := snd i\<rparr>] w0 w1"
    and b: "begin_body env req (draft k at scope) BoundProvider cx1 w1 = (Inr view, w')"
    by (rule WithProviderScope_enters)
  define prior where "prior = map_option Status (tenant_row BoundProvider (br_tenant req) (store w1))"
  define r where "r = (draft k at scope)\<lparr>ob_priorStatus := prior\<rparr>"
  from b obtain res w2 w3 w4 w5 where
    t: "tenant_TransitionWithin env BoundProvider TenantBeginOffboarding
       \<lparr>tc_tenant = br_tenant req, tc_reason = br_reason req, tc_expectedVersion = br_expectedVersion req\<rparr> w1 = (Inr res, w2)"
    and ins: "insertOffboarding r w2 = (Inr (), w3)" and dv: "derive r w3 = (Inr view, w4)"
    and pb: "offboarding_publish env ''started'' (ob_id r)
       (StagePayload (ob_id r) (ob_tenant r) StageFreeze (ob_legalHold r)) (ob_startedAt r) w4 = (Inr (), w5)"
    and rs: "Respond env cx1 (ResOffboarding view) w5 = (Inr (), w')"
    by (auto simp: begin_body_def run_simps Let_def prior_def r_def draft_def begun_def)
  from t obtain tn rule at' te where
    tn: "tenant_row BoundProvider (br_tenant req) (store w1) = Some tn" "tenant_transitions TenantBeginOffboarding = Some rule"
      "tenant_Resolve TenantBeginOffboarding (Status tn) = Inr (r_to rule)" "Version tn = br_expectedVersion req" "has_room rule tn"
    and w2: "store w2 = tenant_written TenantBeginOffboarding at' (rule_effect rule at' tn) te (store w1)"
    by (rule TenantTransitionWithin_effect) simp
  from ins have w3: "store w3 = opened r (store w2)" and fresh: "row_of ob_id k (offboardings (store w2)) = None"
    by (auto simp: insertOffboarding_def run_simps opened_def r_def draft_def begun_def)
  from dv have w4: "w4 = w3" and view: "ov_row view = r"
    by (auto simp: run_simps derived_view_def)
  from pb obtain se where w5: "store w5 = announced [process_message ''started'' (ob_id r)
       (StagePayload (ob_id r) (ob_tenant r) StageFreeze (ob_legalHold r)) (ob_startedAt r) se] (store w4)"
    by (rule offboarding_publish_run)
  have rb: "r = begun req scope k at (Status tn)"
    using tn(1) by (simp add: r_def draft_def begun_def prior_def)
  have d1: "data w1 = with_audit [(Evidence scope cx (br_reason req))\<lparr>ac_id := fst i, ac_occurredAt := snd i\<rparr>] (data w)"
    using e s' sc w0 by (simp add: entered_def data_def)
  have "data w' = announced [process_message ''started'' k
        (StagePayload k (br_tenant req) StageFreeze (br_legalHold req)) at se]
      (opened r (tenant_written TenantBeginOffboarding at' (rule_effect rule at' tn) te (data w1)))"
    using Respond_run[OF rs] w2 w3 w4 w5 rb
    by (simp add: bookkept_def data_def opened_def announced_def begun_def tenant_written_def split: option.splits)
  moreover have "row_of TenantID (br_tenant req) (tenants (store w)) = Some tn"
    using tenant_row_SomeD[OF tn(1)] entered_fields[OF e] w0 by simp
  moreover have "row_of ob_id k (offboardings (store w)) = None"
    using fresh w2 entered_fields[OF e] w0 by simp
  moreover have "Status tn = TenantActive \<or> Status tn = TenantSuspended"
    using tn(2,3) by (auto simp: tenant_Resolve_def split: if_splits)
  ultimately show thesis
    using that[of tn rule scope k at se at' te i] tn s' sc view rb d1 by simp
qed

section \<open>Advances\<close>

definition stage_messages :: "uuid \<Rightarrow> uuid \<Rightarrow> stage \<Rightarrow> bool \<Rightarrow> instant \<Rightarrow> uuid \<Rightarrow> message list" where
  "stage_messages k tenantID next hold at eventID =
     (case stageEventName next of
        None \<Rightarrow> []
      | Some name \<Rightarrow> [process_message name k (StagePayload k tenantID next hold) at eventID])"

definition staged :: "uuid \<Rightarrow> stage \<Rightarrow> instant \<Rightarrow> store \<Rightarrow> store" where
  "staged k next at s = s\<lparr>offboardings := change_row ob_id k (stamp_stage next at) (offboardings s)\<rparr>"

lemma stamp_stage_fields [simp]:
  "ob_id (stamp_stage next at r) = ob_id r" "ob_tenant (stamp_stage next at r) = ob_tenant r"
  "ob_stage (stamp_stage next at r) = next" "ob_legalHold (stamp_stage next at r) = ob_legalHold r"
  "ob_priorStatus (stamp_stage next at r) = ob_priorStatus r"
  by (simp_all add: stamp_stage_def)

lemma advance_run:
  assumes run: "offboarding_advance env cx k from check w = (Inr view, w')"
    and gate: "\<And>b r. yields (kept (\<lambda>w. offboardings (store w))) (check b r)"
  obtains r to at scope i w1 w2 eventID where
    "stage_Next from = Some to" "row_of ob_id k (offboardings (store w)) = Some r" "ob_stage r = from"
    "cx_scope cx = Some scope" "sc_provider scope"
    "entered [(Evidence scope cx (''advance offboarding '' @ uuid_text env k @ '' to '' @ stage_text to))\<lparr>ac_id := fst i, ac_occurredAt := snd i\<rparr>] w w1"
    "check BoundProvider r w1 = (Inr (), w2)"
    "data w' = announced (stage_messages k (ob_tenant r) to (ob_legalHold r) at eventID) (staged k to at (data w2))"
    "view = derived_view (stamp_stage to at r) to (ob_tenant r) (staged k to at (store w2))"
proof -
  define at where "at = clock env (ticks w)"
  define w0 where "w0 = w\<lparr>ticks := Suc (ticks w)\<rparr>"
  from run obtain to where to: "stage_Next from = Some to"
    and p: "WithProviderScope env cx (''advance offboarding '' @ uuid_text env k @ '' to '' @ stage_text to)
      (advance_body env k from to at check) w0 = (Inr view, w')"
    by (auto simp: offboarding_advance_def run_simps at_def w0_def split: option.splits)
  from p obtain scope i cx1 w1 where s: "cx_scope cx = Some scope" "sc_provider scope"
    and e: "entered [(Evidence scope cx (''advance offboarding '' @ uuid_text env k @ '' to '' @ stage_text to))\<lparr>ac_id := fst i, ac_occurredAt := snd i\<rparr>] w0 w1"
    and b: "advance_body env k from to at check BoundProvider cx1 w1 = (Inr view, w')"
    by (rule WithProviderScope_enters)
  from b obtain r w2 w4 w5 where
    r: "row_of ob_id k (offboardings (store w1)) = Some r" "ob_stage r = from"
    and c: "check BoundProvider r w1 = (Inr (), w2)"
    and dv: "derive (stamp_stage to at r) (w2\<lparr>store := staged k to at (store w2)\<rparr>) = (Inr view, w4)"
    and pb: "(case stageEventName to of None \<Rightarrow> return () | Some name \<Rightarrow> offboarding_publish env name k
                 (StagePayload k (ob_tenant r) to (ob_legalHold r)) at) w4 = (Inr (), w5)"
    and rs: "Respond env cx1 (ResOffboarding view) w5 = (Inr (), w')"
    by (auto simp: advance_body_def update_offboarding_def staged_def run_simps Let_def)
  have k: "ob_id r = k" using row_of_SomeD[OF r(1)] by simp
  have "offboardings (store w2) = offboardings (store w1)"
    using yieldsD[OF gate c] by (simp add: kept_def)
  then have row2: "row_of ob_id k (offboardings (staged k to at (store w2))) = Some (stamp_stage to at r)"
    using r by (simp add: staged_def row_of_change_row)
  from dv row2 k have v: "view = derived_view (stamp_stage to at r) to (ob_tenant r) (staged k to at (store w2))"
    and w4: "store w4 = staged k to at (store w2)"
    by (auto simp: run_simps)
  obtain eventID where w5: "store w5 = announced (stage_messages k (ob_tenant r) to (ob_legalHold r) at eventID) (store w4)"
  proof (cases "stageEventName to")
    case None
    then show ?thesis using that pb by (simp add: run_simps stage_messages_def announced_def)
  next
    case (Some name)
    then have "offboarding_publish env name k (StagePayload k (ob_tenant r) to (ob_legalHold r)) at w4 = (Inr (), w5)"
      using pb by simp
    then obtain eventID where
      "store w5 = announced [process_message name k (StagePayload k (ob_tenant r) to (ob_legalHold r)) at eventID] (store w4)"
      by (rule offboarding_publish_run)
    then show ?thesis using that Some by (simp add: stage_messages_def)
  qed
  have "data w' = announced (stage_messages k (ob_tenant r) to (ob_legalHold r) at eventID) (staged k to at (data w2))"
    using Respond_run[OF rs] w4 w5 by (simp add: bookkept_def data_def staged_def announced_def)
  moreover have "row_of ob_id k (offboardings (store w)) = Some r"
    using r(1) entered_fields[OF e] by (simp add: w0_def)
  moreover have "entered [(Evidence scope cx (''advance offboarding '' @ uuid_text env k @ '' to '' @ stage_text to))\<lparr>ac_id := fst i, ac_occurredAt := snd i\<rparr>] w w1"
    using e by (simp add: entered_def w0_def data_def)
  ultimately show thesis
    using that[of to r scope i w1 w2 at eventID] to r s c v by blast
qed

section \<open>The gates\<close>

lemma sort_Nil_iff [simp]: "sort_key f xs = [] \<longleftrightarrow> xs = []"
  by (metis length_0_conv length_sort)

lemma releaseGates_run:
  "releaseGates b r w = (Inr u, w') \<longleftrightarrow>
     \<not> ob_legalHold r \<and> (\<forall>ob \<in> set (obligations (store w)). \<not> outstanding_row (ob_id r) ob) \<and> w' = w"
  by (auto simp: releaseGates_def outstandingObligations_def run_simps filter_empty_conv)

lemma deprovisioningConfirmed_run:
  "deprovisioningConfirmed r w = (Inr u, w') \<longleftrightarrow>
     (\<exists>p. latest_deprovision (ob_tenant r) (ob_id r) (store w) = Some p \<and> pr_state p = RequestRealized) \<and> w' = w"
  by (auto simp: deprovisioningConfirmed_def run_simps split: option.splits if_splits)

lemma freeze_gate_run:
  "freeze_gate b r w = (Inr u, w') \<longleftrightarrow> countActiveMemberships (ob_tenant r) (store w) = 0 \<and> w' = w"
  by (auto simp: freeze_gate_def run_simps)

lemma gates_keep_offboardings:
  "yields (kept (\<lambda>w. offboardings (store w))) (freeze_gate b r)"
  "yields (kept (\<lambda>w. offboardings (store w))) (release_gate env q b r)"
  "yields (kept (\<lambda>w. offboardings (store w))) (retire_gate env v b r)"
  unfolding yields_def kept_def
  by (auto simp: freeze_gate_run releaseGates_run deprovisioningConfirmed_run release_gate_def retire_gate_def
      insertProvisioning_def run_simps elim!: TenantTransitionWithin_effect)

definition advance_evidence :: "env \<Rightarrow> ctx \<Rightarrow> scope \<Rightarrow> uuid \<Rightarrow> stage \<Rightarrow> uuid \<times> instant \<Rightarrow> access" where
  "advance_evidence env cx scope k to i =
     (Evidence scope cx (''advance offboarding '' @ uuid_text env k @ '' to '' @ stage_text to))\<lparr>ac_id := fst i, ac_occurredAt := snd i\<rparr>"

lemma CompleteFreeze_run:
  assumes "CompleteFreeze env cx k w = (Inr view, w')"
  obtains r at scope i e where
    "row_of ob_id k (offboardings (store w)) = Some r" "ob_stage r = StageFreeze"
    "cx_scope cx = Some scope" "sc_provider scope"
    "countActiveMemberships (ob_tenant r) (store w) = 0"
    "ov_row view = stamp_stage StageObligations at r"
    "data w' = announced (stage_messages k (ob_tenant r) StageObligations (ob_legalHold r) at e)
       (staged k StageObligations at (with_audit [advance_evidence env cx scope k StageObligations i] (data w)))"
proof -
  from assms obtain r to at scope i w1 w2 e where
    r: "stage_Next StageFreeze = Some to" "row_of ob_id k (offboardings (store w)) = Some r" "ob_stage r = StageFreeze"
      "cx_scope cx = Some scope" "sc_provider scope"
    and e: "entered [advance_evidence env cx scope k to i] w w1"
    and g: "freeze_gate BoundProvider r w1 = (Inr (), w2)"
    and d: "data w' = announced (stage_messages k (ob_tenant r) to (ob_legalHold r) at e) (staged k to at (data w2))"
    and v: "view = derived_view (stamp_stage to at r) to (ob_tenant r) (staged k to at (store w2))"
    unfolding CompleteFreeze_def advance_evidence_def by (rule advance_run[OF _ gates_keep_offboardings(1)])
  have "data w1 = with_audit [advance_evidence env cx scope k to i] (data w)" "memberships (store w1) = memberships (store w)"
    using e entered_fields[OF e] by (simp_all add: entered_def)
  then show thesis
    using that[of r scope at e i] r g d v
    by (simp add: freeze_gate_run derived_view_def countActiveMemberships_def)
qed

lemma Release_run:
  assumes "Release env cx k w = (Inr view, w')"
  obtains r at q at' scope i e where
    "row_of ob_id k (offboardings (store w)) = Some r" "ob_stage r = StageObligations"
    "cx_scope cx = Some scope" "sc_provider scope" "\<not> ob_legalHold r"
    "\<forall>ob \<in> set (obligations (store w)). \<not> outstanding_row k ob"
    "row_of pr_request q (provisioning (store w)) = None"
    "ov_row view = stamp_stage StageRelease at r"
    "data w' = announced (stage_messages k (ob_tenant r) StageRelease False at e)
       (staged k StageRelease at ((with_audit [advance_evidence env cx scope k StageRelease i] (data w))
          \<lparr>provisioning := provisioning (store w) @ [deprovision_command r q at']\<rparr>))"
proof -
  define w0 where "w0 = w\<lparr>minted := Suc (minted w)\<rparr>"
  have w0: "store w0 = store w" by (simp add: w0_def)
  from assms obtain q where
    run: "offboarding_advance env cx k StageObligations (release_gate env q) w0 = (Inr view, w')"
    by (auto simp: Release_def run_simps w0_def)
  from run obtain r to at scope i w1 w2 e where
    r: "stage_Next StageObligations = Some to" "row_of ob_id k (offboardings (store w0)) = Some r" "ob_stage r = StageObligations"
      "cx_scope cx = Some scope" "sc_provider scope"
    and e: "entered [advance_evidence env cx scope k to i] w0 w1"
    and g: "release_gate env q BoundProvider r w1 = (Inr (), w2)"
    and d: "data w' = announced (stage_messages k (ob_tenant r) to (ob_legalHold r) at e) (staged k to at (data w2))"
    and v: "view = derived_view (stamp_stage to at r) to (ob_tenant r) (staged k to at (store w2))"
    unfolding advance_evidence_def by (rule advance_run[OF _ gates_keep_offboardings(2)])
  have k: "ob_id r = k" using row_of_SomeD[OF r(2)] by simp
  have d1: "data w1 = with_audit [advance_evidence env cx scope k to i] (data w)"
    using e w0 by (simp add: entered_def data_def)
  from g obtain at' where
    gates: "\<not> ob_legalHold r" "\<forall>ob \<in> set (obligations (store w1)). \<not> outstanding_row k ob"
      "row_of pr_request q (provisioning (store w1)) = None"
    and w2: "store w2 = (store w1)\<lparr>provisioning := provisioning (store w1) @ [deprovision_command r q at']\<rparr>"
    by (auto simp: release_gate_def releaseGates_run insertProvisioning_def run_simps deprovision_command_def k)
  have "data w2 = (data w1)\<lparr>provisioning := provisioning (store w) @ [deprovision_command r q at']\<rparr>"
    using w2 entered_fields[OF e] w0 by (simp add: data_def)
  then show thesis
    using that[of r scope q at e at' i] r d d1 v gates entered_fields[OF e] w0
    by (simp add: derived_view_def)
qed

lemma Retire_run:
  assumes "Retire env cx k version w = (Inr view, w')"
  obtains r at at' t rule p scope i te where
    "row_of ob_id k (offboardings (store w)) = Some r" "ob_stage r = StageRelease"
    "cx_scope cx = Some scope" "sc_provider scope" "\<not> ob_legalHold r"
    "\<forall>ob \<in> set (obligations (store w)). \<not> outstanding_row k ob"
    "latest_deprovision (ob_tenant r) k (store w) = Some p" "pr_state p = RequestRealized"
    "row_of TenantID (ob_tenant r) (tenants (store w)) = Some t" "Status t = TenantOffboarding" "Version t = version"
    "tenant_transitions TenantRetire = Some rule" "has_room rule t"
    "ov_row view = stamp_stage StageRetired at r"
    "data w' = staged k StageRetired at (tenant_written TenantRetire at' (rule_effect rule at' t) te
       (with_audit [advance_evidence env cx scope k StageRetired i] (data w)))"
proof -
  from assms obtain r to at scope i w1 w2 e where
    r: "stage_Next StageRelease = Some to" "row_of ob_id k (offboardings (store w)) = Some r" "ob_stage r = StageRelease"
      "cx_scope cx = Some scope" "sc_provider scope"
    and e: "entered [advance_evidence env cx scope k to i] w w1"
    and g: "retire_gate env version BoundProvider r w1 = (Inr (), w2)"
    and d: "data w' = announced (stage_messages k (ob_tenant r) to (ob_legalHold r) at e) (staged k to at (data w2))"
    and v: "view = derived_view (stamp_stage to at r) to (ob_tenant r) (staged k to at (store w2))"
    unfolding Retire_def advance_evidence_def by (rule advance_run[OF _ gates_keep_offboardings(3)])
  have k: "ob_id r = k" using row_of_SomeD[OF r(2)] by simp
  have d1: "data w1 = with_audit [advance_evidence env cx scope k to i] (data w)"
    using e by (simp add: entered_def)
  note same = entered_fields[OF e]
  from g obtain p res where
    gates: "\<not> ob_legalHold r" "\<forall>ob \<in> set (obligations (store w1)). \<not> outstanding_row k ob"
      "latest_deprovision (ob_tenant r) k (store w1) = Some p" "pr_state p = RequestRealized"
    and t: "tenant_TransitionWithin env BoundProvider TenantRetire
      \<lparr>tc_tenant = ob_tenant r, tc_reason = ''offboarding '' @ uuid_text env (ob_id r) @ '' retiring the Tenant'',
       tc_expectedVersion = version\<rparr> w1 = (Inr res, w2)"
    by (auto simp: retire_gate_def releaseGates_run deprovisioningConfirmed_run run_simps k)
  from t obtain tn rule at' te where
    tn: "tenant_row BoundProvider (ob_tenant r) (store w1) = Some tn" "tenant_transitions TenantRetire = Some rule"
      "tenant_Resolve TenantRetire (Status tn) = Inr (r_to rule)" "Version tn = version" "has_room rule tn"
    and w2: "store w2 = tenant_written TenantRetire at' (rule_effect rule at' tn) te (store w1)"
    by (rule TenantTransitionWithin_effect) simp
  have d2: "data w2 = tenant_written TenantRetire at' (rule_effect rule at' tn) te (data w1)"
    using w2 by (simp add: data_def)
  have "Status tn = TenantOffboarding"
    using tn(2,3) by (auto simp: tenant_Resolve_def split: if_splits)
  then show thesis
    using that[of r scope p tn rule at at' te i] r d d1 d2 v gates tn tenant_row_SomeD[OF tn(1)] same
    by (simp add: derived_view_def stage_messages_def announced_def latest_deprovision_def)
qed

section \<open>Properties of the stages\<close>

text \<open>
  Beginning an offboarding moves the Tenant and creates the record in one transaction, from active
  or suspended and on the version shown; the record keeps the status it moved from, and nothing else
  changes but the evidence, the security event of the Tenant and the announcement on the standard lane.
\<close>

theorem Begin_effect:
  assumes "Begin env cx req w = (Inr view, w')"
  shows "\<exists>t rule scope k at at' i te se.
    row_of TenantID (br_tenant req) (tenants (store w)) = Some t \<and>
    (Status t = TenantActive \<or> Status t = TenantSuspended) \<and> Version t = br_expectedVersion req \<and>
    tenant_transitions TenantBeginOffboarding = Some rule \<and> cx_scope cx = Some scope \<and> sc_provider scope \<and>
    row_of ob_id k (offboardings (store w)) = None \<and> ov_row view = begun req scope k at (Status t) \<and>
    data w' = announced [process_message ''started'' k
        (StagePayload k (br_tenant req) StageFreeze (br_legalHold req)) at se]
      (opened (ov_row view) (tenant_written TenantBeginOffboarding at' (rule_effect rule at' t) te
        (with_audit [(Evidence scope cx (br_reason req))\<lparr>ac_id := fst i, ac_occurredAt := snd i\<rparr>] (data w))))"
  using assms by (rule Begin_run) blast

text \<open>
  The freeze completes only when no Membership of the Tenant is active, counted in the transaction
  that advances the stage; the advance stamps the record, announces it and changes no other row.
\<close>

theorem CompleteFreeze_effect:
  assumes "CompleteFreeze env cx k w = (Inr view, w')"
  shows "\<exists>r at scope i e.
    row_of ob_id k (offboardings (store w)) = Some r \<and> ob_stage r = StageFreeze \<and>
    (\<forall>m \<in> set (memberships (store w)). m_tenant m = ob_tenant r \<longrightarrow> m_status m \<noteq> MembershipActive) \<and>
    ov_row view = r\<lparr>ob_stage := StageObligations, ob_frozenAt := Some at\<rparr> \<and>
    data w' = announced (stage_messages k (ob_tenant r) StageObligations (ob_legalHold r) at e)
       (staged k StageObligations at (with_audit [advance_evidence env cx scope k StageObligations i] (data w)))"
proof -
  from assms obtain r at scope i e where
    "row_of ob_id k (offboardings (store w)) = Some r" "ob_stage r = StageFreeze"
    "countActiveMemberships (ob_tenant r) (store w) = 0" "ov_row view = stamp_stage StageObligations at r"
    "data w' = announced (stage_messages k (ob_tenant r) StageObligations (ob_legalHold r) at e)
       (staged k StageObligations at (with_audit [advance_evidence env cx scope k StageObligations i] (data w)))"
    by (rule CompleteFreeze_run)
  then show ?thesis
    by (intro exI[of _ r] exI[of _ at] exI[of _ scope] exI[of _ i] exI[of _ e])
      (auto simp: countActiveMemberships_def filter_empty_conv stamp_stage_def)
qed

text \<open>
  (C19) Release requires the obligations stage, no legal hold and every obligation of the offboarding
  resolved or cancelled; it records exactly one deprovisioning command, correlated with the offboarding,
  in the transaction that advances the stage.
\<close>

theorem Release_effect:
  assumes "Release env cx k w = (Inr view, w')"
  shows "\<exists>r at q at' scope i e.
    row_of ob_id k (offboardings (store w)) = Some r \<and> ob_stage r = StageObligations \<and> \<not> ob_legalHold r \<and>
    (\<forall>ob \<in> set (obligations (store w)). bl_offboarding ob = k \<longrightarrow>
       bl_state ob \<noteq> ObligationOpen \<and> bl_state ob \<noteq> ObligationFailed) \<and>
    row_of pr_request q (provisioning (store w)) = None \<and>
    ov_row view = r\<lparr>ob_stage := StageRelease, ob_releasedAt := Some at\<rparr> \<and>
    data w' = announced (stage_messages k (ob_tenant r) StageRelease False at e)
       (staged k StageRelease at ((with_audit [advance_evidence env cx scope k StageRelease i] (data w))
          \<lparr>provisioning := provisioning (store w) @ [deprovision_command r q at']\<rparr>))"
proof -
  from assms obtain r at q at' scope i e where
    "row_of ob_id k (offboardings (store w)) = Some r" "ob_stage r = StageObligations" "\<not> ob_legalHold r"
    "\<forall>ob \<in> set (obligations (store w)). \<not> outstanding_row k ob"
    "row_of pr_request q (provisioning (store w)) = None"
    "ov_row view = stamp_stage StageRelease at r"
    "data w' = announced (stage_messages k (ob_tenant r) StageRelease False at e)
       (staged k StageRelease at ((with_audit [advance_evidence env cx scope k StageRelease i] (data w))
          \<lparr>provisioning := provisioning (store w) @ [deprovision_command r q at']\<rparr>))"
    by (rule Release_run)
  then show ?thesis
    by (intro exI[of _ r] exI[of _ at] exI[of _ q] exI[of _ at'] exI[of _ scope] exI[of _ i] exI[of _ e])
      (auto simp: outstanding_row_def stamp_stage_def)
qed

text \<open>
  (C20) A Tenant is retired only by an offboarding at release, with no legal hold, no unresolved
  obligation and its latest deprovisioning realized, all read in the transaction that retires it, and the
  offboarding is retired with it.
\<close>

theorem Retire_effect:
  assumes "Retire env cx k version w = (Inr view, w')"
  shows "\<exists>r at at' t rule p scope i te.
    row_of ob_id k (offboardings (store w)) = Some r \<and> ob_stage r = StageRelease \<and> \<not> ob_legalHold r \<and>
    (\<forall>ob \<in> set (obligations (store w)). bl_offboarding ob = k \<longrightarrow>
       bl_state ob \<noteq> ObligationOpen \<and> bl_state ob \<noteq> ObligationFailed) \<and>
    latest_deprovision (ob_tenant r) k (store w) = Some p \<and> pr_state p = RequestRealized \<and>
    row_of TenantID (ob_tenant r) (tenants (store w)) = Some t \<and> Status t = TenantOffboarding \<and> Version t = version \<and>
    tenant_transitions TenantRetire = Some rule \<and>
    ov_row view = r\<lparr>ob_stage := StageRetired, ob_retiredAt := Some at\<rparr> \<and>
    data w' = staged k StageRetired at (tenant_written TenantRetire at' (rule_effect rule at' t) te
       (with_audit [advance_evidence env cx scope k StageRetired i] (data w)))"
proof -
  from assms obtain r at at' t rule p scope i te where
    "row_of ob_id k (offboardings (store w)) = Some r" "ob_stage r = StageRelease" "\<not> ob_legalHold r"
    "\<forall>ob \<in> set (obligations (store w)). \<not> outstanding_row k ob"
    "latest_deprovision (ob_tenant r) k (store w) = Some p" "pr_state p = RequestRealized"
    "row_of TenantID (ob_tenant r) (tenants (store w)) = Some t" "Status t = TenantOffboarding" "Version t = version"
    "tenant_transitions TenantRetire = Some rule" "ov_row view = stamp_stage StageRetired at r"
    "data w' = staged k StageRetired at (tenant_written TenantRetire at' (rule_effect rule at' t) te
       (with_audit [advance_evidence env cx scope k StageRetired i] (data w)))"
    by (rule Retire_run)
  then show ?thesis
    by (intro exI[of _ r] exI[of _ at] exI[of _ at'] exI[of _ t] exI[of _ rule] exI[of _ p] exI[of _ scope]
        exI[of _ i] exI[of _ te]) (auto simp: outstanding_row_def stamp_stage_def)
qed

end
