(* ===== verification/Offboarding_Freeze.thy ===== *)
theory Offboarding_Freeze
  imports Offboarding_Stages
begin

text \<open>
  The two batched loops of an offboarding: the freeze suspends active Memberships and records each, a
  cancellation restores exactly those its record names.
\<close>

section \<open>One batch of the freeze\<close>

definition frozen :: "membership \<Rightarrow> membership" where
  "frozen m = m\<lparr>m_status := MembershipSuspended, m_version := m_version m + 1\<rparr>"

definition freeze_record :: "uuid \<Rightarrow> uuid \<Rightarrow> membership \<Rightarrow> freeze_row" where
  "freeze_record offboardingID tenantID m =
     \<lparr>fz_offboarding = offboardingID, fz_tenant = tenantID, fz_membership = m_id m, fz_restoredAt = None\<rparr>"

text \<open>Everything a freeze or a restore leaves alone.\<close>

definition registers :: "store \<Rightarrow> _" where
  "registers s = (tenants s, provisioning s, tenant_events s, organizations s, workspaces s, offboardings s,
     obligations s, invitations s, batches s, batch_items s, audit s)"

lemma membership_written_registers [simp]:
  "registers (membership_written a scope sv at reason m e s) = registers s"
  "freezes (membership_written a scope sv at reason m e s) = freezes s"
  by (simp_all add: registers_def membership_written_def Let_def)

lemma registers_update [simp]:
  "registers (s\<lparr>memberships := x\<rparr>) = registers s" "registers (s\<lparr>freezes := y\<rparr>) = registers s"
  by (simp_all add: registers_def)

lemma freeze_one_run:
  assumes run: "freeze_one env b cx offboardingID tenantID reason m w = (Inr u, w')"
    and row: "row_of m_id (m_id m) (memberships (store w)) = Some m"
  shows "memberships (store w') = put_row m_id (frozen m) (memberships (store w)) \<and>
    freezes (store w') = freezes (store w) @ [freeze_record offboardingID tenantID m] \<and>
    registers (store w') = registers (store w) \<and> sees b (m_tenant m)"
proof -
  from run obtain r w1 where
    t: "membership_TransitionWithin env b cx MembershipSuspend
      \<lparr>mc_membership = m_id m, mc_expectedVersion = m_version m, mc_reason = reason\<rparr> w = (Inr r, w1)"
    and s: "store w' = (store w1)\<lparr>freezes := freezes (store w1) @ [freeze_record offboardingID tenantID m]\<rparr>"
    by (auto simp: freeze_one_def insertFrozen_def run_simps freeze_record_def)
  from t show ?thesis
  proof (rule TransitionWithin_effect)
    fix m0 to p t scope
    assume m0: "membership_row b (mc_membership \<lparr>mc_membership = m_id m, mc_expectedVersion = m_version m, mc_reason = reason\<rparr>) (store w) = Some m0"
      and rs: "membership_Resolve MembershipSuspend (m_status m0) = Inr (to, p)"
      and r: "mr_membership r = m0\<lparr>m_status := to, m_version := m_version m0 + 1\<rparr>"
      and w1: "store w1 = membership_written MembershipSuspend scope (SecurityVersion t) (mr_acceptedAt r)
       (TrimSpace (mc_reason \<lparr>mc_membership = m_id m, mc_expectedVersion = m_version m, mc_reason = reason\<rparr>))
       (mr_membership r) (mr_event r) ((store w)\<lparr>memberships := put_row m_id (mr_membership r) (memberships (store w))\<rparr>)"
    have "m0 = m" "sees b (m_tenant m0)"
      using membership_row_SomeD[OF m0, THEN conjunct1] membership_row_SomeD[OF m0, THEN conjunct2] row by simp_all
    moreover have "to = MembershipSuspended"
      using rs by (auto simp: membership_Resolve_iff)
    ultimately show ?thesis
      using r w1 s by (simp add: frozen_def)
  qed
qed

lemma frozen_fields [simp]:
  "m_id (frozen m) = m_id m" "m_tenant (frozen m) = m_tenant m" "m_status (frozen m) = MembershipSuspended"
  by (simp_all add: frozen_def)

text \<open>Rows named once in a table keyed by them: changing them one by one is changing them at once.\<close>

lemma put_row_map:
  assumes "keyed key rows" "r \<in> set rows" "key r' = key r"
  shows "put_row key r' rows = map (\<lambda>x. if x = r then r' else x) rows"
proof -
  have "key x = key r' \<longleftrightarrow> x = r" if "x \<in> set rows" for x
    using row_of_keyed[OF assms(1) that] row_of_keyed[OF assms(1,2)] assms(3) by (metis option.inject)
  then show ?thesis
    by (simp add: put_row_def)
qed

lemma put_row_members:
  assumes k: "keyed key rows" and m: "m \<in> set rows" and f: "\<And>x. key (f x) = key x"
    and d: "key m \<notin> key ` set ms" and ms: "set ms \<subseteq> set rows"
  shows "map (\<lambda>x. if x \<in> set ms then f x else x) (put_row key (f m) rows) =
      map (\<lambda>x. if x \<in> set (m # ms) then f x else x) rows"
    "set ms \<subseteq> set (put_row key (f m) rows)"
proof -
  have "f m \<notin> set ms" using d f by (metis image_eqI)
  then show "map (\<lambda>x. if x \<in> set ms then f x else x) (put_row key (f m) rows) =
      map (\<lambda>x. if x \<in> set (m # ms) then f x else x) rows"
    using put_row_map[OF k m f] by auto
  show "set ms \<subseteq> set (put_row key (f m) rows)"
  proof
    fix x assume x: "x \<in> set ms"
    then have "x \<in> set rows" "key x \<noteq> key (f m)" using ms d f by (auto, metis image_eqI)
    then show "x \<in> set (put_row key (f m) rows)" by (simp add: set_put_row)
  qed
qed

lemma freeze_loop:
  assumes "foreach (freeze_one env b cx offboardingID tenantID reason) batch w = (Inr us, w')"
    and "keyed m_id (memberships (store w))" "distinct (map m_id batch)" "set batch \<subseteq> set (memberships (store w))"
  shows "memberships (store w') = map (\<lambda>m. if m \<in> set batch then frozen m else m) (memberships (store w)) \<and>
    freezes (store w') = freezes (store w) @ map (freeze_record offboardingID tenantID) batch \<and>
    registers (store w') = registers (store w)"
  using assms
proof (induction batch arbitrary: w us)
  case Nil
  then show ?case by (simp add: run_simps)
next
  case (Cons m ms)
  then obtain u w1 zs where one: "freeze_one env b cx offboardingID tenantID reason m w = (Inr u, w1)"
    and rest: "foreach (freeze_one env b cx offboardingID tenantID reason) ms w1 = (Inr zs, w')"
    by (auto simp: run_simps)
  have m: "m \<in> set (memberships (store w))" "m_id m \<notin> m_id ` set ms" "set ms \<subseteq> set (memberships (store w))"
    using Cons.prems by auto
  note first = freeze_one_run[OF one row_of_keyed[OF Cons.prems(2) m(1)]]
  note members = put_row_members[OF Cons.prems(2) m(1), of frozen ms, OF _ m(2,3)]
  have "keyed m_id (memberships (store w1))" "set ms \<subseteq> set (memberships (store w1))"
    using first Cons.prems(2) members(2) by auto
  then have "memberships (store w') = map (\<lambda>m. if m \<in> set ms then frozen m else m) (memberships (store w1)) \<and>
    freezes (store w') = freezes (store w1) @ map (freeze_record offboardingID tenantID) ms \<and>
    registers (store w') = registers (store w1)"
    using Cons.IH[OF rest] Cons.prems(3) by simp
  then show ?case using first members(1) by auto
qed

lemma selectFreezeBatch_rows:
  assumes "keyed m_id (memberships s)"
  shows "distinct (map m_id (selectFreezeBatch b tenantID size' skip s))"
    "m \<in> set (selectFreezeBatch b tenantID size' skip s) \<Longrightarrow>
       m \<in> set (memberships s) \<and> m_tenant m = tenantID \<and> m_status m = MembershipActive"
proof -
  have "distinct (map m_id (sort_key m_id (filter P (memberships s))))" for P
    using assms by (simp add: keyed_def distinct_map inj_on_def)
  then show "distinct (map m_id (selectFreezeBatch b tenantID size' skip s))"
    unfolding selectFreezeBatch_def take_map[symmetric] by (rule distinct_take)
  show "m \<in> set (selectFreezeBatch b tenantID size' skip s) \<Longrightarrow>
       m \<in> set (memberships s) \<and> m_tenant m = tenantID \<and> m_status m = MembershipActive"
    unfolding selectFreezeBatch_def by (auto dest!: in_set_takeD)
qed

lemma count_frozen:
  assumes "distinct rows" "set batch \<subseteq> set rows" "distinct batch"
    "\<And>m. m \<in> set batch \<Longrightarrow> m_tenant m = tenantID \<and> m_status m = MembershipActive"
  shows "length (filter (\<lambda>m. m_tenant m = tenantID \<and> m_status m = MembershipActive)
      (map (\<lambda>m. if m \<in> set batch then frozen m else m) rows)) + length batch =
    length (filter (\<lambda>m. m_tenant m = tenantID \<and> m_status m = MembershipActive) rows)"
proof -
  let ?P = "\<lambda>m. m_tenant m = tenantID \<and> m_status m = MembershipActive"
  have "length (filter (\<lambda>m. ?P m \<and> m \<in> set batch) rows) = card (set batch)"
    using assms by (subst distinct_card[symmetric]) (auto intro!: arg_cong[where f = card])
  then have b: "length (filter (\<lambda>m. ?P m \<and> m \<in> set batch) rows) = length batch"
    using assms(3) by (simp add: distinct_card)
  have "length (filter ?P rows) =
      length (filter (\<lambda>m. ?P m \<and> m \<in> set batch) rows) + length (filter (\<lambda>m. ?P m \<and> m \<notin> set batch) rows)"
    by (induction rows) auto
  moreover have "length (filter ?P (map (\<lambda>m. if m \<in> set batch then frozen m else m) rows)) =
      length (filter (\<lambda>m. ?P m \<and> m \<notin> set batch) rows)"
    by (induction rows) auto
  ultimately show ?thesis using b by simp
qed

lemma FreezeBatch_run:
  assumes run: "FreezeBatch env cx offboardingID tenantID size' reason w = (Inr n, w')"
    and k: "keyed m_id (memberships (store w))"
  obtains batch t scope a tick where
    "n = length batch" "size' > 0" "cx_scope cx = Some scope" "sc_provider scope"
    "row_of TenantID tenantID (tenants (store w)) = Some t" "Status t = TenantOffboarding"
    "batch = selectFreezeBatch (BoundTenant tenantID (Some (sc_actor scope))) tenantID size' (locked env tick) (store w)"
    "memberships (store w') = map (\<lambda>m. if m \<in> set batch then frozen m else m) (memberships (store w))"
    "freezes (store w') = freezes (store w) @ map (freeze_record offboardingID tenantID) batch"
    "registers (store w') = registers (with_audit [a] (store w))"
proof -
  from run have size': "size' > 0" and p: "WithProviderInTenant env cx tenantID reason
      (freeze_body env offboardingID tenantID size' reason) w = (Inr n, w')"
    by (auto simp: FreezeBatch_def run_simps)
  from p obtain scope a cx1 w1 where s: "cx_scope cx = Some scope" "sc_provider scope" and e: "entered [a] w w1"
    and b: "freeze_body env offboardingID tenantID size' reason (BoundTenant tenantID (Some (sc_actor scope))) cx1 w1 = (Inr n, w')"
    by (rule WithProviderInTenant_enters) blast
  note same = entered_fields[OF e]
  let ?b = "BoundTenant tenantID (Some (sc_actor scope))"
  define batch where "batch = selectFreezeBatch ?b tenantID size' (locked env (ticks w1)) (store w1)"
  from b obtain t us where t: "tenant_row ?b tenantID (store w1) = Some t" "Status t = TenantOffboarding"
    and n: "n = length batch"
    and loop: "foreach (freeze_one env ?b cx1 offboardingID tenantID reason) batch w1 = (Inr us, w')"
    by (auto simp: freeze_body_def run_simps batch_def split: option.splits)
  have k1: "keyed m_id (memberships (store w1))" using k same by simp
  note rows = selectFreezeBatch_rows[OF k1, where b = ?b and tenantID = tenantID and size' = size' and
      skip = "locked env (ticks w1)", folded batch_def]
  have "memberships (store w') = map (\<lambda>m. if m \<in> set batch then frozen m else m) (memberships (store w1)) \<and>
    freezes (store w') = freezes (store w1) @ map (freeze_record offboardingID tenantID) batch \<and>
    registers (store w') = registers (store w1)"
    using rows by (intro freeze_loop[OF loop k1]) auto
  moreover have "registers (store w1) = registers (with_audit [a] (store w))"
    using same e by (simp add: registers_def with_audit_def entered_def data_def)
  moreover have "batch = selectFreezeBatch ?b tenantID size' (locked env (ticks w1)) (store w)"
    by (simp add: batch_def selectFreezeBatch_def same)
  ultimately show thesis
    using that[of batch scope t "ticks w1" a] n size' s t tenant_row_SomeD[OF t(1)] same by simp
qed

text \<open>
  One batch of the freeze runs only while the Tenant is offboarding. It suspends between none and
  the size asked for of that Tenant's active Memberships, records each of them, changes no other
  Membership and no other register, and reports how many; the number left active falls by exactly that,
  so a freeze repeated until it reports none has a bound. A batch that reports none while no other
  transaction holds a row leaves nothing active.
\<close>

theorem FreezeBatch_effect:
  assumes "FreezeBatch env cx offboardingID tenantID size' reason w = (Inr n, w')"
    and "keyed m_id (memberships (store w))"
  shows "\<exists>batch t a. n = length batch \<and> int n \<le> size' \<and> distinct (map m_id batch) \<and>
    (\<forall>m \<in> set batch. m \<in> set (memberships (store w)) \<and> m_tenant m = tenantID \<and> m_status m = MembershipActive) \<and>
    row_of TenantID tenantID (tenants (store w)) = Some t \<and> Status t = TenantOffboarding \<and>
    memberships (store w') = map (\<lambda>m. if m \<in> set batch then frozen m else m) (memberships (store w)) \<and>
    freezes (store w') = freezes (store w) @ map (freeze_record offboardingID tenantID) batch \<and>
    registers (store w') = registers (with_audit [a] (store w)) \<and>
    countActiveMemberships tenantID (store w') + n = countActiveMemberships tenantID (store w) \<and>
    (n = 0 \<longrightarrow> (\<forall>tick k. \<not> locked env tick k) \<longrightarrow> countActiveMemberships tenantID (store w) = 0)"
proof -
  from assms obtain batch t a tick and scope :: scope where
    n: "n = length batch" "size' > 0" and t: "row_of TenantID tenantID (tenants (store w)) = Some t" "Status t = TenantOffboarding"
    and b: "batch = selectFreezeBatch (BoundTenant tenantID (Some (sc_actor scope))) tenantID size' (locked env tick) (store w)"
    and m: "memberships (store w') = map (\<lambda>m. if m \<in> set batch then frozen m else m) (memberships (store w))"
    and f: "freezes (store w') = freezes (store w) @ map (freeze_record offboardingID tenantID) batch"
    and r: "registers (store w') = registers (with_audit [a] (store w))"
    by (rule FreezeBatch_run)
  note rows = selectFreezeBatch_rows[OF assms(2), where b = "BoundTenant tenantID (Some (sc_actor scope))" and
      tenantID = tenantID and size' = size' and skip = "locked env tick", folded b]
  have "countActiveMemberships tenantID (store w') + n = countActiveMemberships tenantID (store w)"
    unfolding countActiveMemberships_def m n
    using rows assms(2) by (intro count_frozen) (auto simp: keyed_def distinct_map)
  moreover have "countActiveMemberships tenantID (store w) = 0" if "n = 0" "\<forall>tick k. \<not> locked env tick k"
    using that n b by (simp add: selectFreezeBatch_def countActiveMemberships_def min_def split: if_splits)
  moreover have "int n \<le> size'"
    using n b by (simp add: selectFreezeBatch_def)
  ultimately show ?thesis
    using n t m f r rows by blast
qed

end
