(* ===== verification/Offboarding_Cancel.thy ===== *)
theory Offboarding_Cancel
  imports Offboarding_Freeze
begin

text \<open>
  Cancelling an offboarding: the Tenant returns to the status it left, open obligations close, and the
  restore loop undoes the freeze.
\<close>

section \<open>The restore loop\<close>

definition settled :: "store \<Rightarrow> _" where
  "settled s = (tenants s, provisioning s, organizations s, workspaces s, offboardings s, obligations s,
     invitations s, batches s, batch_items s)"

text \<open>The Memberships an offboarding froze and has not restored.\<close>

definition frozen_ids :: "uuid \<Rightarrow> store \<Rightarrow> uuid set" where
  "frozen_ids k s = {fz_membership f | f. f \<in> set (freezes s) \<and> fz_offboarding f = k \<and> fz_restoredAt f = None}"

definition restored :: "membership \<Rightarrow> membership" where
  "restored m = m\<lparr>m_status := MembershipActive, m_version := m_version m + 1\<rparr>"

text \<open>
  Only Memberships of \<open>J\<close> changed, each once and from suspended to active, and a record of the
  offboarding was stamped only for a Membership that is active again.
\<close>

definition restored_within :: "uuid \<Rightarrow> uuid set \<Rightarrow> store \<Rightarrow> store \<Rightarrow> bool" where
  "restored_within k J s s' \<longleftrightarrow>
     settled s' = settled s \<and> freezes_stamped s s' \<and>
     (\<forall>j \<in> frozen_ids k s - frozen_ids k s'.
        \<exists>m. row_of m_id j (memberships s') = Some m \<and> m_status m = MembershipActive) \<and>
     (\<forall>j. row_of m_id j (memberships s') = row_of m_id j (memberships s) \<or>
        (j \<in> J \<and> (\<exists>m. row_of m_id j (memberships s) = Some m \<and> m_status m = MembershipSuspended \<and>
           row_of m_id j (memberships s') = Some (restored m))))"

lemma restored_within_row:
  assumes "restored_within k J s s'"
  obtains "row_of m_id j (memberships s') = row_of m_id j (memberships s)"
  | m where "j \<in> J" "row_of m_id j (memberships s) = Some m" "m_status m = MembershipSuspended"
      "row_of m_id j (memberships s') = Some (restored m)"
  using assms unfolding restored_within_def by blast

lemma restored_within_stamped:
  assumes "restored_within k J s s'" "j \<in> frozen_ids k s" "j \<notin> frozen_ids k s'"
  shows "\<exists>m. row_of m_id j (memberships s') = Some m \<and> m_status m = MembershipActive"
  using assms(1)[unfolded restored_within_def, THEN conjunct2, THEN conjunct2, THEN conjunct1] assms(2,3) by simp

lemma restored_within_active:
  assumes "restored_within k J s s'" "row_of m_id j (memberships s) = Some m" "m_status m = MembershipActive"
  shows "row_of m_id j (memberships s') = Some m"
  using assms(1) by (rule restored_within_row[where j = j]) (use assms(2,3) in auto)

lemma restored_within_trans:
  assumes "restored_within k J s t" "restored_within k J t u"
  shows "restored_within k J s u"
proof -
  have rows: "row_of m_id j (memberships u) = row_of m_id j (memberships s) \<or>
        (j \<in> J \<and> (\<exists>m. row_of m_id j (memberships s) = Some m \<and> m_status m = MembershipSuspended \<and>
           row_of m_id j (memberships u) = Some (restored m)))" for j
  proof (cases "row_of m_id j (memberships t) = row_of m_id j (memberships s)")
    case True
    then show ?thesis using assms(2) unfolding restored_within_def by metis
  next
    case False
    then obtain m where m: "j \<in> J" "row_of m_id j (memberships s) = Some m" "m_status m = MembershipSuspended"
      "row_of m_id j (memberships t) = Some (restored m)"
      using assms(1) unfolding restored_within_def by blast
    then have "row_of m_id j (memberships u) = row_of m_id j (memberships t)"
      using restored_within_active[OF assms(2)] by (simp add: restored_def)
    then show ?thesis using m by simp
  qed
  have kept: "settled u = settled s" "freezes_stamped s t" "freezes_stamped t u"
    using assms unfolding restored_within_def by simp_all
  have active: "\<exists>m. row_of m_id j (memberships u) = Some m \<and> m_status m = MembershipActive"
    if j: "j \<in> frozen_ids k s - frozen_ids k u" for j
  proof (cases "j \<in> frozen_ids k t")
    case True
    then show ?thesis using j restored_within_stamped[OF assms(2)] by simp
  next
    case False
    then obtain m where "row_of m_id j (memberships t) = Some m" "m_status m = MembershipActive"
      using j restored_within_stamped[OF assms(1)] by blast
    then show ?thesis using restored_within_active[OF assms(2)] by blast
  qed
  show ?thesis
    unfolding restored_within_def
    by (intro conjI ballI allI kept(1) freezes_stamped_trans[OF kept(2,3)] active rows)
qed

lemma restored_within_same:
  "settled s' = settled s \<Longrightarrow> freezes s' = freezes s \<Longrightarrow> memberships s' = memberships s \<Longrightarrow> restored_within k J s s'"
  by (simp add: restored_within_def freezes_stamped_same frozen_ids_def)

interpretation restoring: table_relation "restored_within k J" for k J
  by unfold_locales (erule (1) restored_within_trans | rule restored_within_same, simp_all add: settled_def)+

lemma membership_written_within: "restored_within k J s (membership_written a scope sv at reason m e s)"
  by (rule restored_within_same) (simp_all add: membership_written_def Let_def settled_def)

lemma restored_within_mono: "restored_within k J s s' \<Longrightarrow> J \<subseteq> J' \<Longrightarrow> restored_within k J' s s'"
  unfolding restored_within_def by blast

lemma frozen_ids_stamped: "freezes_stamped s s' \<Longrightarrow> frozen_ids k s' \<subseteq> frozen_ids k s"
proof
  fix j assume st: "freezes_stamped s s'" and "j \<in> frozen_ids k s'"
  then obtain f where f: "f \<in> set (freezes s')" "fz_offboarding f = k" "fz_restoredAt f = None" "fz_membership f = j"
    by (auto simp: frozen_ids_def)
  from f(1) obtain i where i: "i < length (freezes s')" "freezes s' ! i = f" by (auto simp: in_set_conv_nth)
  then have "stamp_step (freezes s ! i) f" "i < length (freezes s)"
    using st by (auto simp: freezes_stamped_def list_all2_conv_all_nth)
  then have "freezes s ! i = f" "f \<in> set (freezes s)" using f(3) by (auto simp: stamp_step_def in_set_conv_nth)
  then show "j \<in> frozen_ids k s" using f by (auto simp: frozen_ids_def)
qed

lemma restore_one_within:
  assumes "m_id m \<in> J"
  shows "yields (on_store (restored_within k J)) (restore_one env b cx k at reason m)"
proof (rule yieldsI)
  fix w u w' assume "restore_one env b cx k at reason m w = (Inr u, w')"
  then obtain x w1 where
    t: "membership_TransitionWithin env b cx MembershipRestore
      \<lparr>mc_membership = m_id m, mc_expectedVersion = m_version m, mc_reason = reason\<rparr> w = (Inr x, w1)"
    and w': "store w' = (store w1)\<lparr>freezes := map (\<lambda>f. if fz_offboarding f = k \<and> fz_membership f = m_id m \<and>
       sees b (fz_tenant f) then f\<lparr>fz_restoredAt := Some at\<rparr> else f) (freezes (store w1))\<rparr>"
    by (auto simp: restore_one_def stampRestored_def run_simps)
  from t show "on_store (restored_within k J) w w'"
  proof (rule TransitionWithin_effect, goal_cases)
    case (1 m0 to p t scope)
    have m0: "m_id m0 = m_id m" "row_of m_id (m_id m) (memberships (store w)) = Some m0"
      using membership_row_SomeD[OF 1(1)] by simp_all
    have to: "to = MembershipActive" "m_status m0 = MembershipSuspended"
      using 1(3) by (auto simp: membership_Resolve_iff)
    have x: "mr_membership x = restored m0" using 1(8) to by (simp add: restored_def)
    have rows: "memberships (store w') = put_row m_id (restored m0) (memberships (store w))"
      "settled (store w') = settled (store w)"
      using 1(11) w' x by (simp_all add: settled_def membership_written_def Let_def)
    have fz: "freezes (store w') = map (\<lambda>f. if fz_offboarding f = k \<and> fz_membership f = m_id m \<and>
       sees b (fz_tenant f) then f\<lparr>fz_restoredAt := Some at\<rparr> else f) (freezes (store w))"
      using 1(11) w' by (simp add: membership_written_def Let_def)
    have "freezes_stamped (store w) (store w')"
      using freezes_stamped_map fz by (simp add: freezes_stamped_def)
    moreover have "j = m_id m" if "j \<in> frozen_ids k (store w)" "j \<notin> frozen_ids k (store w')" for j
      using that unfolding frozen_ids_def fz by auto
    ultimately show ?case
      using rows m0 to(2) assms
      by (auto simp: on_store_def restored_within_def row_of_put_row restored_def)
  qed
qed

lemma restore_candidate_SomeD:
  "restore_candidate b k skip s f = Some m \<Longrightarrow>
     fz_offboarding f = k \<and> fz_restoredAt f = None \<and> fz_membership f = m_id m \<and> m_status m = MembershipSuspended"
  by (auto simp: restore_candidate_def dest: membership_row_SomeD split: if_splits option.splits)

lemma selectRestoreBatch_ids: "m_id ` set (selectRestoreBatch b k size' skip s) \<subseteq> frozen_ids k s"
proof
  fix j assume "j \<in> m_id ` set (selectRestoreBatch b k size' skip s)"
  then obtain m where j: "j = m_id m" "m \<in> set (selectRestoreBatch b k size' skip s)" by blast
  then have "m \<in> set (List.map_filter (restore_candidate b k skip s) (sort_key fz_membership (freezes s)))"
    unfolding selectRestoreBatch_def by (blast dest: in_set_takeD)
  then obtain f where "f \<in> set (freezes s)" "restore_candidate b k skip s f = Some m"
    by (auto simp: map_filter_def)
  then show "j \<in> frozen_ids k s"
    using restore_candidate_SomeD[of b k skip s f m] j(1) by (simp add: frozen_ids_def) metis
qed

lemma restore_body_within:
  assumes "restore_body env k size' reason b cx w = (Inr n, w')"
  shows "restored_within k (frozen_ids k (store w)) (store w) (store w')"
proof -
  define batch where "batch = selectRestoreBatch b k size' (locked env (ticks w)) (store w)"
  from assms obtain us where
    "foreach (restore_one env b cx k (clock env (ticks w)) reason) batch (w\<lparr>ticks := Suc (ticks w)\<rparr>) = (Inr us, w')"
    by (auto simp: restore_body_def run_simps batch_def)
  moreover have "yields (on_store (restored_within k (frozen_ids k (store w))))
      (foreach (restore_one env b cx k at reason) ms)" if "set ms \<subseteq> set batch" for ms at
    using that selectRestoreBatch_ids[of b k size' "locked env (ticks w)" "store w"]
    by (induction ms) (auto simp: batch_def intro!: restoring.y_store_intros restore_one_within)
  ultimately show ?thesis
    using yieldsD[of "on_store (restored_within k (frozen_ids k (store w)))"] by (fastforce simp: on_store_def)
qed

lemma attempted_within: "attempted w w' \<Longrightarrow> restored_within k J (store w) (store w')"
  by (auto simp: attempted_def with_audit_def settled_def intro!: restored_within_same)

lemma entered_within: "entered rows w w1 \<Longrightarrow> restored_within k J (store w) (store w1)"
  by (rule restored_within_same) (auto simp: settled_def entered_fields)

lemma restoreBatch_within:
  assumes "restoreBatch env cx k tenantID size' reason w = (r, w')"
  shows "restored_within k (frozen_ids k (store w)) (store w) (store w')"
proof (cases r)
  case (Inl e)
  then have "attempted w w'"
    using assms WithProviderInTenant_aborts unfolding restoreBatch_def aborts_def by blast
  then show ?thesis by (rule attempted_within)
next
  case (Inr n)
  then have "WithProviderInTenant env cx tenantID reason (restore_body env k size' reason) w = (Inr n, w')"
    using assms by (simp add: restoreBatch_def)
  then obtain rows b cx1 w1 where e: "entered rows w w1" and b: "restore_body env k size' reason b cx1 w1 = (Inr n, w')"
    by (elim WithProviderInTenant_enters) blast
  have "frozen_ids k (store w1) = frozen_ids k (store w)" using entered_fields[OF e] by (simp add: frozen_ids_def)
  then show ?thesis
    using restored_within_trans[OF entered_within[OF e]] restore_body_within[OF b] by metis
qed

lemma restore_all_within:
  "restore_all env cx k tenantID reason w = (r, w') \<Longrightarrow>
     restored_within k (frozen_ids k (store w)) (store w) (store w')"
proof (induction env cx k tenantID reason w rule: restore_all.induct)
  case (1 env cx k tenantID reason w)
  obtain q w1 where b: "restoreBatch env cx k tenantID RestoreBatchSize reason w = (q, w1)" by fastforce
  note one = restoreBatch_within[OF b]
  show ?case
  proof (cases "\<exists>n. q = Inr n \<and> n \<noteq> 0")
    case False
    then show ?thesis
      using "1.prems" b one by (cases q) (auto simp: restore_all.simps[of env cx k tenantID reason w])
  next
    case True
    then obtain n where n: "q = Inr n" "n \<noteq> 0" by blast
    then have "restored_within k (frozen_ids k (store w1)) (store w1) (store w')"
      using 1 b by (auto simp: restore_all.simps[of env cx k tenantID reason w])
    moreover have "frozen_ids k (store w1) \<subseteq> frozen_ids k (store w)"
      using one by (intro frozen_ids_stamped) (simp add: restored_within_def)
    ultimately show ?thesis using one restored_within_trans restored_within_mono by blast
  qed
qed

lemma restore_all_last:
  "restore_all env cx k tenantID reason w = (Inr u, w') \<Longrightarrow>
     \<exists>v. restoreBatch env cx k tenantID RestoreBatchSize reason v = (Inr 0, w')"
proof (induction env cx k tenantID reason w rule: restore_all.induct)
  case (1 env cx k tenantID reason w)
  obtain q w1 where b: "restoreBatch env cx k tenantID RestoreBatchSize reason w = (q, w1)" by fastforce
  then show ?case
    using 1 by (cases q) (auto simp: restore_all.simps[of env cx k tenantID reason w] split: if_splits)
qed

text \<open>A batch that restores nothing, with no row held elsewhere, found nothing of that Tenant to restore.\<close>

lemma restoreBatch_none_left:
  assumes "restoreBatch env cx k tenantID RestoreBatchSize reason v = (Inr 0, w')" "\<forall>tick u. \<not> locked env tick u"
    and f: "f \<in> set (freezes (store w'))" "fz_offboarding f = k" "fz_tenant f = tenantID" "restorable (store w') f"
    and m: "\<And>m. row_of m_id (fz_membership f) (memberships (store w')) = Some m \<Longrightarrow> m_tenant m = tenantID"
  shows False
proof -
  from assms(1) obtain rows actor cx1 w1 where e: "entered rows v w1"
    and b: "restore_body env k RestoreBatchSize reason (BoundTenant tenantID actor) cx1 w1 = (Inr 0, w')"
    unfolding restoreBatch_def by (elim WithProviderInTenant_enters) blast
  let ?c = "restore_candidate (BoundTenant tenantID actor) k (locked env (ticks w1)) (store w1)"
  from b have none: "List.map_filter ?c (sort_key fz_membership (freezes (store w1))) = []"
    and same: "store w' = store w1"
    by (auto simp: restore_body_def run_simps selectRestoreBatch_def RestoreBatchSize_def)
  have "?c f = None"
    using none f(1) same by (auto simp: map_filter_def filter_empty_conv)
  then show False
    using f assms(2) m same
    by (auto simp: restore_candidate_def restorable_def membership_row_def split: option.splits if_splits)
qed

section \<open>The cancelling transaction\<close>

definition called_off :: "uuid \<Rightarrow> uuid \<Rightarrow> string \<Rightarrow> instant \<Rightarrow> store \<Rightarrow> store" where
  "called_off k actor reason at s =
     s\<lparr>offboardings := change_row ob_id k (cancelStatement actor reason at) (offboardings s),
       obligations := map (\<lambda>ob. if bl_offboarding ob = k \<and> bl_state ob = ObligationOpen
         then ob\<lparr>bl_state := ObligationCancelled, bl_resolvedBy := Some actor, bl_resolvedAt := Some at\<rparr>
         else ob) (obligations s)\<rparr>"

text \<open>The effect of the first half of a cancellation, or that there was nothing left to cancel.\<close>

definition cancel_effect ::
  "cancel_request \<Rightarrow> uuid \<Rightarrow> instant \<Rightarrow> access \<Rightarrow> offboarding \<Rightarrow> store \<Rightarrow> store \<Rightarrow> bool" where
  "cancel_effect req actor at a r s s' \<longleftrightarrow>
     (ob_stage r = StageCancelled \<and> s' = with_audit [a] s) \<or>
     (stage_Cancellable (ob_stage r) \<and>
      (\<exists>action rule t at' te se. cancel_action (ob_priorStatus r) = Some action \<and>
         tenant_transitions action = Some rule \<and> has_room rule t \<and>
         row_of TenantID (ob_tenant r) (tenants s) = Some t \<and> Status t = TenantOffboarding \<and>
         Version t = cq_expectedVersion req \<and>
         s' = announced [process_message ''cancelled'' (cq_offboarding req)
                (StagePayload (cq_offboarding req) (ob_tenant r) StageCancelled (ob_legalHold r)) at se]
           (called_off (cq_offboarding req) actor (cq_reason req) at
             (tenant_written action at' (rule_effect rule at' t) te (with_audit [a] s)))))"

lemma cancel_action_from:
  assumes "cancel_action prior = Some action" "tenant_transitions action = Some rule"
    "tenant_Resolve action st = Inr (r_to rule)"
  shows "st = TenantOffboarding \<and> prior = Some (r_to rule)"
  using assms by (auto simp: cancel_action_def tenant_Resolve_def split: if_splits)

lemma cancel_body_run:
  assumes run: "cancel_body env req actor at BoundProvider cx w = (Inr tenantID, w')"
  obtains r where "row_of ob_id (cq_offboarding req) (offboardings (store w)) = Some r" "tenantID = ob_tenant r"
    "ob_stage r = StageCancelled \<and> w' = w \<or>
     stage_Cancellable (ob_stage r) \<and>
      (\<exists>action rule t at' te se. cancel_action (ob_priorStatus r) = Some action \<and>
         tenant_transitions action = Some rule \<and> has_room rule t \<and>
         row_of TenantID (ob_tenant r) (tenants (store w)) = Some t \<and> Status t = TenantOffboarding \<and>
         Version t = cq_expectedVersion req \<and>
         store w' = announced [process_message ''cancelled'' (cq_offboarding req)
                (StagePayload (cq_offboarding req) (ob_tenant r) StageCancelled (ob_legalHold r)) at se]
           (called_off (cq_offboarding req) actor (cq_reason req) at
             (tenant_written action at' (rule_effect rule at' t) te (store w))))"
proof -
  from run obtain r where r: "row_of ob_id (cq_offboarding req) (offboardings (store w)) = Some r"
    and rest: "(if ob_stage r = StageCancelled then return (ob_tenant r)
     else seq (ensure (stage_Cancellable (ob_stage r)) ErrStageRefused) (\<lambda>_.
       case cancel_action (ob_priorStatus r) of None \<Rightarrow> raise ErrNotReversible
       | Some action \<Rightarrow> seq (tenant_TransitionWithin env BoundProvider action
                  \<lparr>tc_tenant = ob_tenant r, tc_reason = cq_reason req,
                   tc_expectedVersion = cq_expectedVersion req\<rparr>) (\<lambda>_.
           seq (update_offboarding (cq_offboarding req) (cancelStatement actor (cq_reason req) at)) (\<lambda>_.
           seq (cancelObligations (cq_offboarding req) actor at) (\<lambda>_.
           seq (offboarding_publish env ''cancelled'' (cq_offboarding req)
                  (StagePayload (cq_offboarding req) (ob_tenant r) StageCancelled (ob_legalHold r)) at) (\<lambda>_.
           return (ob_tenant r))))))) w = (Inr tenantID, w')"
    by (auto simp: cancel_body_def run_simps)
  show thesis
  proof (cases "ob_stage r = StageCancelled")
    case True
    then show ?thesis using that r rest by (simp add: run_simps)
  next
    case False
    with rest obtain action res w1 where
      c: "stage_Cancellable (ob_stage r)" "cancel_action (ob_priorStatus r) = Some action" "tenantID = ob_tenant r"
      and t: "tenant_TransitionWithin env BoundProvider action \<lparr>tc_tenant = ob_tenant r, tc_reason = cq_reason req,
           tc_expectedVersion = cq_expectedVersion req\<rparr> w = (Inr res, w1)"
      and p: "offboarding_publish env ''cancelled'' (cq_offboarding req)
           (StagePayload (cq_offboarding req) (ob_tenant r) StageCancelled (ob_legalHold r)) at
           (w1\<lparr>store := called_off (cq_offboarding req) actor (cq_reason req) at (store w1)\<rparr>) = (Inr (), w')"
      by (auto simp: run_simps update_offboarding_def cancelObligations_def called_off_def split: option.splits)
    from t obtain tn rule at' te where
      tn: "tenant_row BoundProvider (ob_tenant r) (store w) = Some tn" "tenant_transitions action = Some rule"
        "tenant_Resolve action (Status tn) = Inr (r_to rule)" "Version tn = cq_expectedVersion req" "has_room rule tn"
      and w1: "store w1 = tenant_written action at' (rule_effect rule at' tn) te (store w)"
      by (rule TenantTransitionWithin_effect) simp
    from p obtain se where "store w' = announced [process_message ''cancelled'' (cq_offboarding req)
           (StagePayload (cq_offboarding req) (ob_tenant r) StageCancelled (ob_legalHold r)) at se]
           (called_off (cq_offboarding req) actor (cq_reason req) at (store w1))"
      by (rule offboarding_publish_run) simp
    then show ?thesis
      using that[OF r c(3)] c tn tenant_row_SomeD[OF tn(1)] cancel_action_from[OF c(2) tn(2,3)] w1 by metis
  qed
qed

lemma Cancel_run:
  assumes run: "offboarding_Cancel env cx req w = (Inr view, w')"
  obtains r scope at a w1 w2 where
    "row_of ob_id (cq_offboarding req) (offboardings (store w)) = Some r"
    "cx_scope cx = Some scope" "sc_provider scope"
    "cancel_effect req (sc_actor scope) at a r (data w) (data w1)"
    "restore_all env cx (cq_offboarding req) (ob_tenant r) (cq_reason req) w1 = (Inr (), w2)"
    "offboarding_Get env cx (cq_offboarding req) w2 = (Inr view, w')"
proof -
  define w0 where "w0 = w\<lparr>ticks := Suc (ticks w)\<rparr>"
  define at where "at = clock env (ticks w)"
  from run obtain scope tenantID w1 w2 where sc: "cx_scope cx = Some scope"
    and p: "WithProviderScope env cx (cq_reason req) (cancel_body env req (sc_actor scope) at) w0 = (Inr tenantID, w1)"
    and l: "restore_all env cx (cq_offboarding req) tenantID (cq_reason req) w1 = (Inr (), w2)"
    and g: "offboarding_Get env cx (cq_offboarding req) w2 = (Inr view, w')"
    by (auto simp: offboarding_Cancel_def run_simps ScopeFrom_run w0_def at_def)
  from p obtain scope' i cx1 v where s': "cx_scope cx = Some scope'" "sc_provider scope'"
    and e: "entered [(Evidence scope' cx (cq_reason req))\<lparr>ac_id := fst i, ac_occurredAt := snd i\<rparr>] w0 v"
    and b: "cancel_body env req (sc_actor scope) at BoundProvider cx1 v = (Inr tenantID, w1)"
    by (rule WithProviderScope_enters)
  have v: "data v = with_audit [(Evidence scope' cx (cq_reason req))\<lparr>ac_id := fst i, ac_occurredAt := snd i\<rparr>] (data w)"
    using e by (simp add: entered_def w0_def data_def)
  note same = entered_fields[OF e]
  from b show thesis
  proof (rule cancel_body_run)
    fix r
    assume r: "row_of ob_id (cq_offboarding req) (offboardings (store v)) = Some r" "tenantID = ob_tenant r"
      and eff: "ob_stage r = StageCancelled \<and> w1 = v \<or>
       stage_Cancellable (ob_stage r) \<and>
        (\<exists>action rule t at' te se. cancel_action (ob_priorStatus r) = Some action \<and>
         tenant_transitions action = Some rule \<and> has_room rule t \<and>
         row_of TenantID (ob_tenant r) (tenants (store v)) = Some t \<and> Status t = TenantOffboarding \<and>
         Version t = cq_expectedVersion req \<and>
         store w1 = announced [process_message ''cancelled'' (cq_offboarding req)
                (StagePayload (cq_offboarding req) (ob_tenant r) StageCancelled (ob_legalHold r)) at se]
           (called_off (cq_offboarding req) (sc_actor scope) (cq_reason req) at
             (tenant_written action at' (rule_effect rule at' t) te (store v))))"
    have d: "data w1 = announced ms (called_off k c q at (tenant_written action at' r' te (data v)))"
      if "store w1 = announced ms (called_off k c q at (tenant_written action at' r' te (store v)))" for ms k c q action at' r' te
      using that by (simp add: data_def called_off_def announced_def tenant_written_def split: option.splits)
    have "cancel_effect req (sc_actor scope) at ((Evidence scope' cx (cq_reason req))\<lparr>ac_id := fst i, ac_occurredAt := snd i\<rparr>) r (data w) (data w1)"
      using eff
    proof (elim disjE conjE exE)
      assume "ob_stage r = StageCancelled" "w1 = v"
      then show ?thesis using v by (simp add: cancel_effect_def)
    next
      fix action rule t at' te se
      assume "stage_Cancellable (ob_stage r)" "cancel_action (ob_priorStatus r) = Some action"
        "tenant_transitions action = Some rule" "has_room rule t"
        "row_of TenantID (ob_tenant r) (tenants (store v)) = Some t" "Status t = TenantOffboarding"
        "Version t = cq_expectedVersion req"
        "store w1 = announced [process_message ''cancelled'' (cq_offboarding req)
                (StagePayload (cq_offboarding req) (ob_tenant r) StageCancelled (ob_legalHold r)) at se]
           (called_off (cq_offboarding req) (sc_actor scope) (cq_reason req) at
             (tenant_written action at' (rule_effect rule at' t) te (store v)))"
      then show ?thesis
        unfolding cancel_effect_def using d same v w0_def by fastforce
    qed
    then show thesis
      using that[of r scope at _ w1 w2] r same sc s' l g w0_def by simp
  qed
qed

lemma Get_run:
  assumes "offboarding_Get env cx k w = (Inr view, w')"
  obtains r a where "row_of ob_id k (offboardings (store w)) = Some r" "stage_Valid (ob_stage r)"
    "entered [a] w w'" "view = derived_view r (ob_stage r) (ob_tenant r) (store w)"
proof -
  from assms have "WithProviderScope env cx (''read offboarding '' @ uuid_text env k) (\<lambda>b cx.
       seq (read_db (\<lambda>s. (row_of ob_id k (offboardings s), s))) (\<lambda>(row, s).
       case row of None \<Rightarrow> raise (ErrNotFound PkgOffboarding) | Some r \<Rightarrow> lift (scanView r s))) w = (Inr view, w')"
    by (auto simp: offboarding_Get_def run_simps)
  then obtain a cx1 w1 where e: "entered [a] w w1"
    and b: "seq (read_db (\<lambda>s. (row_of ob_id k (offboardings s), s))) (\<lambda>(row, s).
       case row of None \<Rightarrow> raise (ErrNotFound PkgOffboarding) | Some r \<Rightarrow> lift (scanView r s)) w1 = (Inr view, w')"
    by (elim WithProviderScope_enters) blast
  note same = entered_fields[OF e]
  have "derived_view r st t (store w1) = derived_view r st t (store w)" for r st t
    by (simp add: derived_view_def countActiveMemberships_def restorable_def latest_deprovision_def same cong: filter_cong)
  then show thesis
    using that b same e by (auto simp: run_simps scanView_def split: option.splits if_splits)
qed

definition freezes_ok :: "store \<Rightarrow> bool" where
  "freezes_ok s \<longleftrightarrow>
     (\<forall>f \<in> set (freezes s).
        (\<exists>r. row_of ob_id (fz_offboarding f) (offboardings s) = Some r \<and> ob_tenant r = fz_tenant f) \<and>
        (\<exists>m. row_of m_id (fz_membership f) (memberships s) = Some m \<and> m_tenant m = fz_tenant f))"

lemma cancel_effect_fields:
  assumes "cancel_effect req actor at a r s s'" "row_of ob_id (cq_offboarding req) (offboardings s) = Some r"
  shows "memberships s' = memberships s" "freezes s' = freezes s"
    "\<exists>r'. row_of ob_id (cq_offboarding req) (offboardings s') = Some r' \<and> ob_stage r' = StageCancelled \<and> ob_tenant r' = ob_tenant r"
  using assms
  by (auto simp: cancel_effect_def called_off_def with_audit_def row_of_change_row cancelStatement_def)

lemma restored_within_offboardings: "restored_within k J s s' \<Longrightarrow> offboardings s' = offboardings s"
  by (simp add: restored_within_def settled_def)

lemma Cancel_outcome:
  assumes run: "offboarding_Cancel env cx req w = (Inr view, w')"
    and ok: "freezes_ok (store w)" and free: "\<forall>tick u. \<not> locked env tick u"
  shows "ob_stage (ov_row view) = StageCancelled" "ov_restorePending view = 0"
    "row_of m_id j (memberships (store w')) = row_of m_id j (memberships (store w)) \<or>
       j \<in> frozen_ids (cq_offboarding req) (store w) \<and>
       (\<exists>m. row_of m_id j (memberships (store w)) = Some m \<and> m_status m = MembershipSuspended \<and>
          row_of m_id j (memberships (store w')) = Some (restored m))"
    "j \<in> frozen_ids (cq_offboarding req) (store w) \<Longrightarrow> row_of m_id j (memberships (store w)) = Some m \<Longrightarrow>
       m_status m = MembershipSuspended \<Longrightarrow> row_of m_id j (memberships (store w')) = Some (restored m)"
proof -
  let ?k = "cq_offboarding req"
  from run obtain r at a w1 w2 and scope :: scope where r: "row_of ob_id ?k (offboardings (store w)) = Some r"
    and eff: "cancel_effect req (sc_actor scope) at a r (data w) (data w1)"
    and l: "restore_all env cx ?k (ob_tenant r) (cq_reason req) w1 = (Inr (), w2)"
    and g: "offboarding_Get env cx ?k w2 = (Inr view, w')"
    by (rule Cancel_run)
  from g obtain r2 a2 where r2: "row_of ob_id ?k (offboardings (store w2)) = Some r2" and e2: "entered [a2] w2 w'"
    and view: "view = derived_view r2 (ob_stage r2) (ob_tenant r2) (store w2)"
    by (rule Get_run)
  note same2 = entered_fields[OF e2]
  have one: "memberships (store w1) = memberships (store w)" "freezes (store w1) = freezes (store w)"
    "\<exists>r'. row_of ob_id ?k (offboardings (store w1)) = Some r' \<and> ob_stage r' = StageCancelled \<and> ob_tenant r' = ob_tenant r"
    using cancel_effect_fields[OF eff] r by simp_all
  note loop = restore_all_within[OF l]
  have off: "offboardings (store w2) = offboardings (store w1)" using restored_within_offboardings[OF loop] .
  then have cancelled: "ob_stage r2 = StageCancelled" using one(3) r2 by auto
  then show "ob_stage (ov_row view) = StageCancelled" by (simp add: view derived_view_def)
  have free_of: "\<not> restorable (store w2) f" if f: "f \<in> set (freezes (store w2))" "fz_offboarding f = ?k" for f
  proof
    assume "restorable (store w2) f"
    obtain v where v: "restoreBatch env cx ?k (ob_tenant r) RestoreBatchSize (cq_reason req) v = (Inr 0, w2)"
      using restore_all_last[OF l] by blast
    obtain f0 where f0: "f0 \<in> set (freezes (store w))" "stamp_step f0 f"
      using loop f(1) one(2) unfolding restored_within_def freezes_stamped_def
      by (metis list_all2_conv_all_nth in_set_conv_nth)
    then have cols: "fz_offboarding f0 = ?k" "fz_tenant f = fz_tenant f0" "fz_membership f = fz_membership f0"
      using f(2) by (auto simp: stamp_step_def)
    have t: "fz_tenant f = ob_tenant r" using ok f0(1) cols r by (auto simp: freezes_ok_def)
    have "m_tenant m = ob_tenant r" if m: "row_of m_id (fz_membership f) (memberships (store w2)) = Some m" for m
    proof -
      obtain m0 where "row_of m_id (fz_membership f) (memberships (store w1)) = Some m0" "m_tenant m0 = fz_tenant f"
        using ok f0(1) cols one(1) by (auto simp: freezes_ok_def)
      with loop m t show ?thesis
        by (elim restored_within_row[where j = "fz_membership f"]) (auto simp: restored_def)
    qed
    then show False
      using restoreBatch_none_left[OF v free f t \<open>restorable (store w2) f\<close>] by blast
  qed
  then show "ov_restorePending view = 0"
    using view r2 row_of_SomeD[OF r2] by (simp add: derived_view_def filter_empty_conv)
  have whole: "restored_within ?k (frozen_ids ?k (store w)) (store w1) (store w2)"
    using loop one(2) by (simp add: frozen_ids_def)
  then show changed: "row_of m_id j (memberships (store w')) = row_of m_id j (memberships (store w)) \<or>
       j \<in> frozen_ids ?k (store w) \<and>
       (\<exists>m. row_of m_id j (memberships (store w)) = Some m \<and> m_status m = MembershipSuspended \<and>
          row_of m_id j (memberships (store w')) = Some (restored m))"
    by (rule restored_within_row[where j = j]) (auto simp: same2 one)
  assume j: "j \<in> frozen_ids ?k (store w)" "row_of m_id j (memberships (store w)) = Some m"
    "m_status m = MembershipSuspended"
  have "row_of m_id j (memberships (store w2)) \<noteq> Some m"
  proof
    assume row: "row_of m_id j (memberships (store w2)) = Some m"
    show False
    proof (cases "j \<in> frozen_ids ?k (store w2)")
      case True
      then obtain f where f: "f \<in> set (freezes (store w2))" "fz_offboarding f = ?k" "fz_restoredAt f = None" "fz_membership f = j"
        by (auto simp: frozen_ids_def)
      then have "restorable (store w2) f" using row j(3) by (simp add: restorable_def)
      then show False using free_of[OF f(1,2)] by blast
    next
      case False
      moreover have "j \<in> frozen_ids ?k (store w1)" using j(1) one(2) by (simp add: frozen_ids_def)
      ultimately show False
        using restored_within_stamped[OF whole, of j] j(3) row by simp
    qed
  qed
  then show "row_of m_id j (memberships (store w')) = Some (restored m)"
    using changed j same2 by auto
qed

text \<open>
  (C18) A cancellation that returns has restored what its freeze suspended, and only that: each Membership
  the freeze recorded and that is still suspended is active again, one version on; no other Membership
  changed; nothing recorded is left to restore. Stated for a run in which no other transaction holds one
  of the rows, which \<open>SKIP LOCKED\<close> would leave for a later call. That the loop returns at all is the
  termination of \<open>restore_all\<close>.
\<close>

theorem Cancel_restores:
  assumes "offboarding_Cancel env cx req w = (Inr view, w')"
    and "freezes_ok (store w)" "\<forall>tick u. \<not> locked env tick u"
  shows "ob_stage (ov_row view) = StageCancelled \<and> ov_restorePending view = 0 \<and>
    (\<forall>j. row_of m_id j (memberships (store w')) = row_of m_id j (memberships (store w)) \<or>
       j \<in> frozen_ids (cq_offboarding req) (store w) \<and>
       (\<exists>m. row_of m_id j (memberships (store w)) = Some m \<and> m_status m = MembershipSuspended \<and>
          row_of m_id j (memberships (store w')) = Some (restored m))) \<and>
    (\<forall>j m. j \<in> frozen_ids (cq_offboarding req) (store w) \<longrightarrow>
       row_of m_id j (memberships (store w)) = Some m \<longrightarrow> m_status m = MembershipSuspended \<longrightarrow>
       row_of m_id j (memberships (store w')) = Some (restored m))"
  using Cancel_outcome[OF assms] by blast

text \<open>
  Cancelling is possible before release only, and returns the Tenant to the status it had when the
  offboarding began, on the version shown, with a greater security version; every open obligation of the
  offboarding is closed with it. A second cancellation changes no Tenant, offboarding or obligation.
\<close>

theorem Cancel_returns_tenant:
  assumes "offboarding_Cancel env cx req w = (Inr view, w')"
  shows "\<exists>r. row_of ob_id (cq_offboarding req) (offboardings (store w)) = Some r \<and>
    (ob_stage r = StageCancelled \<and> tenants (store w') = tenants (store w) \<and>
       offboardings (store w') = offboardings (store w) \<and> obligations (store w') = obligations (store w) \<or>
     (ob_stage r = StageFreeze \<or> ob_stage r = StageObligations) \<and>
     (\<exists>t t' prior. ob_priorStatus r = Some prior \<and>
        row_of TenantID (ob_tenant r) (tenants (store w)) = Some t \<and> Status t = TenantOffboarding \<and>
        Version t = cq_expectedVersion req \<and>
        tenants (store w') = put_row TenantID t' (tenants (store w)) \<and> TenantID t' = ob_tenant r \<and>
        Status t' = prior \<and> SecurityVersion t' = SecurityVersion t + 1 \<and> OffboardingStartedAt t' = None) \<and>
     (\<forall>ob \<in> set (obligations (store w')). bl_offboarding ob = cq_offboarding req \<longrightarrow> bl_state ob \<noteq> ObligationOpen))"
proof -
  let ?k = "cq_offboarding req"
  from assms obtain r at a w1 w2 and scope :: scope where r: "row_of ob_id ?k (offboardings (store w)) = Some r"
    and eff: "cancel_effect req (sc_actor scope) at a r (data w) (data w1)"
    and l: "restore_all env cx ?k (ob_tenant r) (cq_reason req) w1 = (Inr (), w2)"
    and g: "offboarding_Get env cx ?k w2 = (Inr view, w')"
    by (rule Cancel_run)
  from g obtain a2 where e2: "entered [a2] w2 w'" by (rule Get_run)
  have same: "tenants (store w') = tenants (data w1)" "offboardings (store w') = offboardings (data w1)"
    "obligations (store w') = obligations (data w1)"
    using restore_all_within[OF l] entered_fields[OF e2] by (simp_all add: restored_within_def settled_def)
  from eff show ?thesis
    unfolding cancel_effect_def
  proof (elim disjE conjE exE)
    assume "ob_stage r = StageCancelled" "data w1 = with_audit [a] (data w)"
    then show ?thesis using r same by (simp add: with_audit_def)
  next
    fix action rule t at' te se
    assume c: "stage_Cancellable (ob_stage r)" "cancel_action (ob_priorStatus r) = Some action"
      and rule: "tenant_transitions action = Some rule"
      and t: "row_of TenantID (ob_tenant r) (tenants (data w)) = Some t" "Status t = TenantOffboarding" "Version t = cq_expectedVersion req"
      and w1: "data w1 = announced [process_message ''cancelled'' ?k (StagePayload ?k (ob_tenant r) StageCancelled (ob_legalHold r)) at se]
        (called_off ?k (sc_actor scope) (cq_reason req) at (tenant_written action at' (rule_effect rule at' t) te (with_audit [a] (data w))))"
    let ?t = "rule_effect rule at' t"
    have "tenants (store w') = put_row TenantID ?t (tenants (store w))"
      using same(1) w1 by (simp add: called_off_def tenant_written_version with_audit_def)
    moreover have "ob_priorStatus r = Some (Status ?t)" "SecurityVersion ?t = SecurityVersion t + 1" "OffboardingStartedAt ?t = None"
      using c(2) rule by (auto simp: cancel_action_def rule_effect_def stamp_column_def split: if_splits)
    moreover have "\<forall>ob \<in> set (obligations (store w')). bl_offboarding ob = ?k \<longrightarrow> bl_state ob \<noteq> ObligationOpen"
      using same(3) w1 by (auto simp: called_off_def)
    ultimately show ?thesis
      using r c(1) t row_of_SomeD[OF t(1)]
      by (intro exI[of _ r]) (auto simp: stage_Cancellable_def intro!: exI[of _ t] exI[of _ ?t])
  qed
qed

end
