(* ===== verification/Offboarding_Invariants.thy ===== *)
theory Offboarding_Invariants
  imports Offboarding_Cancel
begin

text \<open>
  What every operation of the coordinator may do to the store, stated once over a step relation, and
  the relations and invariants that follow by interpretation: stages only move forward, a resolved
  obligation is final, freeze records name Memberships of their Tenant, and the process agrees with the
  Tenant it offboards.
\<close>

section \<open>Relations the coordinator respects\<close>

definition new_offboarding :: "tenant_record \<Rightarrow> offboarding \<Rightarrow> bool" where
  "new_offboarding t r \<longleftrightarrow>
     ob_tenant r = TenantID t \<and> ob_stage r = StageFreeze \<and> ob_priorStatus r = Some (Status t) \<and>
     (Status t = TenantActive \<or> Status t = TenantSuspended)"

text \<open>The updates that do not move the Tenant: an advance short of retirement, a change of the legal hold.\<close>

definition offboarding_step :: "offboarding \<Rightarrow> (offboarding \<Rightarrow> offboarding) \<Rightarrow> bool" where
  "offboarding_step r f \<longleftrightarrow>
     (\<exists>to at. stage_Next (ob_stage r) = Some to \<and> to \<noteq> StageRetired \<and> f = stamp_stage to at) \<or>
     (\<exists>hold. ob_stage r \<noteq> StageRetired \<and> ob_stage r \<noteq> StageCancelled \<and> f = (\<lambda>r. r\<lparr>ob_legalHold := hold\<rparr>))"

definition obligation_step :: "obligation \<Rightarrow> (obligation \<Rightarrow> obligation) \<Rightarrow> bool" where
  "obligation_step ob f \<longleftrightarrow>
     \<not> obligation_Resolved (bl_state ob) \<and> bl_state ob \<noteq> ObligationCancelled \<and>
     (\<exists>res resolver at. resolution_validate res = Inr () \<and> bl_domain ob = or_domain res \<and>
        f = resolveObligation res resolver at)"

text \<open>One write of a Tenant row by a rule of its machine.\<close>

definition moved :: "tenant_action \<Rightarrow> instant \<Rightarrow> tenant_record \<Rightarrow> store \<Rightarrow> store" where
  "moved a at t s = s\<lparr>tenants := put_row TenantID (rule_effect (the (tenant_transitions a)) at t) (tenants s)\<rparr>"

definition movable :: "tenant_action \<Rightarrow> tenant_record \<Rightarrow> store \<Rightarrow> bool" where
  "movable a t s \<longleftrightarrow>
     row_of TenantID (TenantID t) (tenants s) = Some t \<and>
     (\<exists>rule. tenant_transitions a = Some rule \<and> tenant_Resolve a (Status t) = Inr (r_to rule) \<and> has_room rule t)"

lemma tenant_written_moved:
  assumes "tenant_transitions a = Some rule"
  shows "\<exists>ms es. tenant_written a at (rule_effect rule at t) e s = (moved a at t s)\<lparr>outbox := ms, tenant_events := es\<rparr>"
proof (cases "tenant_eventTypes a")
  case None
  then have "tenant_written a at (rule_effect rule at t) e s =
      (moved a at t s)\<lparr>outbox := outbox s, tenant_events := tenant_events s\<rparr>"
    using assms by (simp add: tenant_written_def moved_def)
  then show ?thesis by blast
next
  case (Some etype)
  then show ?thesis
    using assms unfolding tenant_written_def moved_def by (intro exI) simp
qed

locale process_relation = provisioning_relation R standalone + membership_relation R "\<lambda>_. True" for R +
  assumes process_begin:
    "movable TenantBeginOffboarding t s \<Longrightarrow> row_of ob_id (ob_id r) (offboardings s) = None \<Longrightarrow>
     new_offboarding t r \<Longrightarrow> R s (opened r (moved TenantBeginOffboarding at t s))"
    and process_retire:
    "movable TenantRetire t s \<Longrightarrow> row_of ob_id k (offboardings s) = Some r \<Longrightarrow> ob_stage r = StageRelease \<Longrightarrow>
     ob_tenant r = TenantID t \<Longrightarrow> R s (staged k StageRetired at (moved TenantRetire at' t s))"
    and process_cancel:
    "movable a t s \<Longrightarrow> row_of ob_id k (offboardings s) = Some r \<Longrightarrow> stage_Cancellable (ob_stage r) \<Longrightarrow>
     ob_tenant r = TenantID t \<Longrightarrow> cancel_action (ob_priorStatus r) = Some a \<Longrightarrow>
     R s (called_off k actor reason at (moved a at' t s))"
    and offboarding_change:
    "row_of ob_id k (offboardings s) = Some r \<Longrightarrow> offboarding_step r f \<Longrightarrow>
     R s (s\<lparr>offboardings := change_row ob_id k f (offboardings s)\<rparr>)"
    and obligation_insert:
    "row_of bl_id (bl_id ob) (obligations s) = None \<Longrightarrow> bl_state ob = ObligationOpen \<Longrightarrow>
     R s (s\<lparr>obligations := obligations s @ [ob]\<rparr>)"
    and obligation_change:
    "row_of bl_id k (obligations s) = Some ob \<Longrightarrow> obligation_step ob g \<Longrightarrow>
     R s (s\<lparr>obligations := change_row bl_id k g (obligations s)\<rparr>)"
    and freeze_insert:
    "row_of m_id (fz_membership f') (memberships s) = Some m \<Longrightarrow> m_tenant m = fz_tenant f' \<Longrightarrow>
     r \<in> set (offboardings s) \<Longrightarrow> ob_id r = fz_offboarding f' \<Longrightarrow> ob_tenant r = fz_tenant f' \<Longrightarrow>
     R s (s\<lparr>freezes := freezes s @ [f']\<rparr>)"
    and freeze_stamp:
    "R s (s\<lparr>freezes := map (\<lambda>f. if P f then f\<lparr>fz_restoredAt := Some at\<rparr> else f) (freezes s)\<rparr>)"
begin

text \<open>The messages and event rows beside a write are tolerated like the write itself.\<close>

lemma related_notes: "R s t \<Longrightarrow> R s (t\<lparr>outbox := ms, tenant_events := es\<rparr>)"
  by (rule store_trans[OF store_trans[OF _ keeps_outbox] keeps_tenant_events])

lemma related_announced: "R s t \<Longrightarrow> R s (announced ms t)"
  unfolding announced_def by (rule store_trans[OF _ keeps_outbox])

lemma related_audit: "R (with_audit rows s) t \<Longrightarrow> R s t"
  unfolding with_audit_def by (rule store_trans[OF keeps_audit])

lemma related_written:
  assumes "tenant_transitions a = Some rule" "R s (F (moved a at t u))"
    and "\<And>x ms es. F (x\<lparr>outbox := ms, tenant_events := es\<rparr>) = (F x)\<lparr>outbox := ms, tenant_events := es\<rparr>"
  shows "R s (F (tenant_written a at (rule_effect rule at t) e u))"
proof -
  obtain ms es where "tenant_written a at (rule_effect rule at t) e u = (moved a at t u)\<lparr>outbox := ms, tenant_events := es\<rparr>"
    using tenant_written_moved[OF assms(1)] by blast
  then show ?thesis using related_notes[OF assms(2)] assms(3) by simp
qed

lemma y_offboarding_load: "yields (on_store R) (offboarding_load k)"
  unfolding offboarding_load_def by (intro y_store_intros)

lemma y_derive: "yields (on_store R) (derive r)"
  by (rule yieldsI) (auto simp: run_simps on_store_def store_refl)

lemma y_offboarding_publish: "yields (on_store R) (offboarding_publish env name k body at)"
  unfolding offboarding_publish_def by (intro y_store_intros y_published)

lemma a_Begin: "always R (Begin env cx req)"
proof (rule a_by_effect)
  show "aborts attempted (Begin env cx req)"
    unfolding Begin_def by (intro aborts_seq_quiet_attempted quiet_steps WithProviderScope_aborts)
  fix w view w' assume "Begin env cx req w = (Inr view, w')"
  then show "R (data w) (data w')"
  proof (rule Begin_run)
    fix t rule scope k at at' i te se
    let ?s = "with_audit [(Evidence scope cx (br_reason req))\<lparr>ac_id := fst i, ac_occurredAt := snd i\<rparr>] (data w)"
    assume t: "row_of TenantID (br_tenant req) (tenants (store w)) = Some t"
      "Status t = TenantActive \<or> Status t = TenantSuspended"
      and rule: "tenant_transitions TenantBeginOffboarding = Some rule" "has_room rule t"
      and k: "row_of ob_id k (offboardings (store w)) = None" "ov_row view = begun req scope k at (Status t)"
      and d: "data w' = announced [process_message ''started'' k
        (StagePayload k (br_tenant req) StageFreeze (br_legalHold req)) at se]
      (opened (ov_row view) (tenant_written TenantBeginOffboarding at' (rule_effect rule at' t) te ?s))"
    have id: "TenantID t = br_tenant req" using row_of_SomeD[OF t(1)] by simp
    have "movable TenantBeginOffboarding t ?s"
      using t rule id by (auto simp: movable_def with_audit_def data_def tenant_Resolve_def)
    then have "R ?s (opened (ov_row view) (moved TenantBeginOffboarding at' t ?s))"
      using k t(2) id by (intro process_begin) (auto simp: with_audit_def data_def new_offboarding_def begun_def)
    from related_written[where F = "opened (ov_row view)", OF rule(1) this] have
      "R ?s (opened (ov_row view) (tenant_written TenantBeginOffboarding at' (rule_effect rule at' t) te ?s))"
      by (simp add: opened_def)
    then show ?thesis unfolding d by (rule related_audit[OF related_announced])
  qed
qed

lemma related_staged:
  assumes "row_of ob_id k (offboardings s) = Some r" "stage_Next (ob_stage r) = Some to" "to \<noteq> StageRetired"
  shows "R s (staged k to at s)"
  unfolding staged_def using assms by (intro offboarding_change) (auto simp: offboarding_step_def)

lemma aborts_advance: "aborts attempted (offboarding_advance env cx k from check)"
  unfolding offboarding_advance_def
  by (intro aborts_seq_quiet_attempted quiet_steps)
    (auto split: option.splits intro!: aborts_seq_quiet_attempted quiet_steps WithProviderScope_aborts
      simp: aborts_raise)

lemma a_CompleteFreeze: "always R (CompleteFreeze env cx k)"
proof (rule a_by_effect)
  show "aborts attempted (CompleteFreeze env cx k)" unfolding CompleteFreeze_def by (rule aborts_advance)
  fix w view w' assume "CompleteFreeze env cx k w = (Inr view, w')"
  then show "R (data w) (data w')"
  proof (rule CompleteFreeze_run)
    fix r at scope i e
    assume r: "row_of ob_id k (offboardings (store w)) = Some r" "ob_stage r = StageFreeze"
      and d: "data w' = announced (stage_messages k (ob_tenant r) StageObligations (ob_legalHold r) at e)
       (staged k StageObligations at (with_audit [advance_evidence env cx scope k StageObligations i] (data w)))"
    show ?thesis unfolding d
      by (rule related_audit[OF related_announced[OF related_staged]])
        (use r in \<open>auto simp: with_audit_def data_def\<close>)
  qed
qed

lemma a_Release: "always R (Release env cx k)"
proof (rule a_by_effect)
  show "aborts attempted (Release env cx k)"
    unfolding Release_def by (intro aborts_seq_quiet_attempted quiet_steps aborts_advance)
  fix w view w' assume "Release env cx k w = (Inr view, w')"
  then show "R (data w) (data w')"
  proof (rule Release_run)
    fix r at q at' scope i e
    let ?s = "with_audit [advance_evidence env cx scope k StageRelease i] (data w)"
    let ?p = "?s\<lparr>provisioning := provisioning (store w) @ [deprovision_command r q at']\<rparr>"
    assume r: "row_of ob_id k (offboardings (store w)) = Some r" "ob_stage r = StageObligations"
      and d: "data w' = announced (stage_messages k (ob_tenant r) StageRelease False at e) (staged k StageRelease at ?p)"
    have "R ?p (staged k StageRelease at ?p)"
      by (rule related_staged[of _ _ r]) (use r in \<open>auto simp: with_audit_def data_def\<close>)
    then have "R ?s (staged k StageRelease at ?p)"
      by (rule store_trans[OF keeps_provisioning])
    then show ?thesis unfolding d by (rule related_audit[OF related_announced])
  qed
qed

lemma a_Retire: "always R (Retire env cx k v)"
proof (rule a_by_effect)
  show "aborts attempted (Retire env cx k v)" unfolding Retire_def by (rule aborts_advance)
  fix w view w' assume "Retire env cx k v w = (Inr view, w')"
  then show "R (data w) (data w')"
  proof (rule Retire_run)
    fix r at at' t rule p scope i te
    let ?s = "with_audit [advance_evidence env cx scope k StageRetired i] (data w)"
    assume r: "row_of ob_id k (offboardings (store w)) = Some r" "ob_stage r = StageRelease"
      and t: "row_of TenantID (ob_tenant r) (tenants (store w)) = Some t" "Status t = TenantOffboarding"
      and rule: "tenant_transitions TenantRetire = Some rule" "has_room rule t"
      and d: "data w' = staged k StageRetired at (tenant_written TenantRetire at' (rule_effect rule at' t) te ?s)"
    have id: "TenantID t = ob_tenant r" using row_of_SomeD[OF t(1)] by simp
    have "movable TenantRetire t ?s"
      using t rule id by (auto simp: movable_def with_audit_def data_def tenant_Resolve_def)
    then have "R ?s (staged k StageRetired at (moved TenantRetire at' t ?s))"
      by (rule process_retire[of _ _ _ r]) (use r id in \<open>auto simp: with_audit_def data_def\<close>)
    from related_written[where F = "staged k StageRetired at", OF rule(1) this]
    have "R ?s (staged k StageRetired at (tenant_written TenantRetire at' (rule_effect rule at' t) te ?s))"
      by (simp add: staged_def)
    then show ?thesis unfolding d by (rule related_audit)
  qed
qed

lemma y_gates:
  "yields (on_store R) (freeze_gate b r)"
  "yields (on_store R) (releaseGates b r)"
  unfolding freeze_gate_def releaseGates_def outstandingObligations_def by (intro y_store_intros)+

lemma a_RecordDeprovisioning: "always R (RecordDeprovisioning env cx outcome)"
  unfolding RecordDeprovisioning_def resolveDeprovisioning_def
  by (intro a_seq_quiet quiet_steps a_WithProviderScope y_store_intros y_offboarding_load keeps_provisioning)

lemma a_Resend: "always R (ResendDeprovisioning env cx k reason)"
  unfolding ResendDeprovisioning_def resend_body_def
  by (intro a_seq_quiet quiet_steps a_WithProviderScope y_store_intros y_offboarding_load y_gates
      y_insertProvisioning y_offboarding_publish y_derive y_Respond)

lemma y_insertObligation: "bl_state ob = ObligationOpen \<Longrightarrow> yields (on_store R) (insertObligation ob)"
  by (rule yieldsI) (auto simp: insertObligation_def run_simps on_store_def intro!: obligation_insert)

lemma a_Raise: "always R (Raise env cx req)"
  unfolding Raise_def raise_body_def Let_def
  by (intro a_seq_quiet quiet_steps a_WithProviderScope y_store_intros y_offboarding_load y_insertObligation
      y_offboarding_publish y_Respond) simp

text \<open>A row loaded and checked, one write of it, and steps that are related whatever they are.\<close>

lemma y_then:
  assumes "R (store w) (store w1)" "m w1 = (Inr x, w')" "yields (on_store R) m"
  shows "on_store R w w'"
  using store_trans[OF assms(1)] yieldsD[OF assms(3,2)] by (simp add: on_store_def)

lemma a_Resolve: "always R (obligation_Resolve env cx res)"
proof (cases "resolution_validate res = Inr ()")
  case valid: True
  have "yields (on_store R) (resolve_body env res resolver at b cx')" for resolver at b cx'
  proof (rule yieldsI)
    fix w x w' assume "resolve_body env res resolver at b cx' w = (Inr x, w')"
    then obtain ob where ob: "row_of bl_id (or_obligation res) (obligations (store w)) = Some ob"
      "bl_domain ob = or_domain res" "\<not> obligation_Resolved (bl_state ob)" "bl_state ob \<noteq> ObligationCancelled"
      and rest: "Respond env cx' (ResObligation x) (w\<lparr>store := (store w)\<lparr>obligations :=
         change_row bl_id (or_obligation res) (resolveObligation res resolver at) (obligations (store w))\<rparr>\<rparr>) = (Inr (), w')"
      by (auto simp: resolve_body_def loadObligation_def run_simps Let_def split: option.splits)
    have "obligation_step ob (resolveObligation res resolver at)"
      unfolding obligation_step_def using ob valid by blast
    then show "on_store R w w'"
      by (intro y_then[OF _ rest y_Respond]) (simp add: obligation_change[OF ob(1)])
  qed
  then show ?thesis
    unfolding obligation_Resolve_def by (intro a_seq_quiet quiet_steps a_WithProviderScope)
next
  case False
  then obtain e where "resolution_validate res = Inl e" by (cases "resolution_validate res") auto
  then show ?thesis
    by (auto simp: obligation_Resolve_def always_def run_simps lift_def seq_def store_refl)
qed

lemma a_SetLegalHold: "always R (SetLegalHold env cx k hold reason)"
proof -
  have "yields (on_store R) (hold_body env k hold b cx')" for b cx'
  proof (rule yieldsI)
    fix w x w' assume "hold_body env k hold b cx' w = (Inr x, w')"
    then obtain r where r: "row_of ob_id k (offboardings (store w)) = Some r"
      "ob_stage r \<noteq> StageRetired" "ob_stage r \<noteq> StageCancelled"
      and rest: "Respond env cx' (ResOffboarding x) (w\<lparr>store := (store w)\<lparr>offboardings :=
         change_row ob_id k (\<lambda>r. r\<lparr>ob_legalHold := hold\<rparr>) (offboardings (store w))\<rparr>\<rparr>) = (Inr (), w')"
      by (auto simp: hold_body_def update_offboarding_def run_simps)
    show "on_store R w w'"
      by (rule y_then[OF _ rest y_Respond]) (use r in \<open>auto simp: offboarding_step_def intro!: offboarding_change\<close>)
  qed
  then show ?thesis
    unfolding SetLegalHold_def by (intro a_seq_quiet quiet_steps a_WithProviderScope)
qed

lemma a_offboarding_reads:
  "always R (offboarding_Get env cx k)"
  "always R (Outstanding env cx k)"
  "always R (Board env cx k)"
  "always R (offboarding_List env cx q reason)"
proof -
  show "always R (offboarding_Get env cx k)"
    unfolding offboarding_Get_def
    by (intro a_seq_quiet quiet_steps a_WithProviderScope y_store_intros) (auto split: prod.splits intro!: y_store_intros)
  show "always R (Outstanding env cx k)" "always R (Board env cx k)"
    unfolding Outstanding_def Board_def outstandingObligations_def
    by (intro a_seq_quiet quiet_steps a_WithProviderScope y_store_intros)+
  show "always R (offboarding_List env cx q reason)"
  proof (cases "ListLimit (oq_limit q)")
    case (Inr limit)
    have "always R (WithProviderScope env cx reason (\<lambda>b cx.
       seq (read_db (\<lambda>s. (take (nat limit + 1)
              (keyset_rows ob_id (oq_after q) (offboarding_matches q) (offboardings s)), s))) (\<lambda>(rows, s).
       foreach (\<lambda>r. lift (scanView r s)) rows)))"
      by (intro a_WithProviderScope y_store_intros) (auto split: prod.splits intro!: y_store_intros)
    then show ?thesis
      unfolding offboarding_List_def using Inr by (simp, intro a_seq_quiet quiet_steps a_seq a_return)
  qed (simp add: offboarding_List_def a_raise)
qed

lemma y_freeze_one: "yields (on_store R) (freeze_one env (BoundTenant tenantID actor) cx k tenantID reason m)"
proof (rule yieldsI)
  fix w u w' assume "freeze_one env (BoundTenant tenantID actor) cx k tenantID reason m w = (Inr u, w')"
  then obtain r w1 o' where
    t: "membership_TransitionWithin env (BoundTenant tenantID actor) cx MembershipSuspend
      \<lparr>mc_membership = m_id m, mc_expectedVersion = m_version m, mc_reason = reason\<rparr> w = (Inr r, w1)"
    and o': "o' \<in> set (offboardings (store w1))" "ob_id o' = k" "ob_tenant o' = tenantID"
    and s: "store w' = (store w1)\<lparr>freezes := freezes (store w1) @ [freeze_record k tenantID m]\<rparr>"
    by (auto simp: freeze_one_def insertFrozen_def run_simps freeze_record_def list_ex_iff)
  have "\<exists>m'. row_of m_id (m_id m) (memberships (store w1)) = Some m' \<and> m_tenant m' = tenantID"
    using t
  proof (rule TransitionWithin_effect)
    fix m0 :: membership and to p t scope
    assume m0: "membership_row (BoundTenant tenantID actor) (mc_membership \<lparr>mc_membership = m_id m,
        mc_expectedVersion = m_version m, mc_reason = reason\<rparr>) (store w) = Some m0"
      and r: "mr_membership r = m0\<lparr>m_status := to, m_version := m_version m0 + 1\<rparr>"
      and w1: "store w1 = membership_written MembershipSuspend scope (SecurityVersion t) (mr_acceptedAt r)
       (TrimSpace (mc_reason \<lparr>mc_membership = m_id m, mc_expectedVersion = m_version m, mc_reason = reason\<rparr>))
       (mr_membership r) (mr_event r) ((store w)\<lparr>memberships := put_row m_id (mr_membership r) (memberships (store w))\<rparr>)"
    have "m_id m0 = m_id m" "m_tenant m0 = tenantID" "row_of m_id (m_id m) (memberships (store w)) = Some m0"
      using membership_row_SomeD[OF m0] by (auto dest: row_of_SomeD)
    then show ?thesis using r w1 by (simp add: row_of_put_row)
  qed
  then obtain m' where "row_of m_id (m_id m) (memberships (store w1)) = Some m'" "m_tenant m' = tenantID"
    by blast
  then have "R (store w1) (store w')"
    unfolding s using o' by (intro freeze_insert) (auto simp: freeze_record_def)
  moreover have "R (store w) (store w1)"
    using yieldsD[OF y_TransitionWithin t] by (simp add: on_store_def)
  ultimately show "on_store R w w'" using store_trans by (auto simp: on_store_def)
qed

lemma a_FreezeBatch: "always R (FreezeBatch env cx k tenantID size' reason)"
  unfolding FreezeBatch_def freeze_body_def
  by (intro a_seq_quiet quiet_steps a_WithProviderInTenant y_store_intros y_freeze_one)

lemma a_restoreBatch: "always R (restoreBatch env cx k tenantID size' reason)"
  unfolding restoreBatch_def restore_body_def restore_one_def stampRestored_def
  by (intro a_seq_quiet quiet_steps a_WithProviderInTenant y_store_intros y_TransitionWithin TrueI freeze_stamp) simp

lemma a_restore_all: "always R (restore_all env cx k tenantID reason)"
proof -
  have "restore_all env cx k tenantID reason w = (r, w') \<Longrightarrow> R (store w) (store w')" for w r w'
  proof (induction env cx k tenantID reason w arbitrary: r w' rule: restore_all.induct)
    case (1 env cx k tenantID reason w)
    obtain x w1 where b: "restoreBatch env cx k tenantID RestoreBatchSize reason w = (x, w1)" by fastforce
    have st: "R (store w) (store w1)" by (rule alwaysD[OF a_restoreBatch b])
    show ?case
    proof (cases x)
      case (Inl e)
      then show ?thesis using "1.prems" b st by (simp add: restore_all.simps[of env])
    next
      case (Inr n)
      show ?thesis
      proof (cases "n = 0")
        case True
        then show ?thesis using "1.prems" b st Inr by (simp add: restore_all.simps[of env])
      next
        case False
        then have "restore_all env cx k tenantID reason w1 = (r, w')"
          using "1.prems" b Inr by (simp add: restore_all.simps[of env cx k tenantID reason w])
        from "1.IH"[OF b[symmetric] Inr False this] show ?thesis using st store_trans by blast
      qed
    qed
  qed
  then show ?thesis by (auto simp: always_def)
qed

lemma y_cancel_body: "yields (on_store R) (cancel_body env req actor at BoundProvider cx)"
proof (rule yieldsI)
  fix w tenantID w' assume "cancel_body env req actor at BoundProvider cx w = (Inr tenantID, w')"
  then show "on_store R w w'"
  proof (rule cancel_body_run)
    fix r assume r: "row_of ob_id (cq_offboarding req) (offboardings (store w)) = Some r" and
      eff: "ob_stage r = StageCancelled \<and> w' = w \<or>
     stage_Cancellable (ob_stage r) \<and>
      (\<exists>action rule t at' te se. cancel_action (ob_priorStatus r) = Some action \<and>
         tenant_transitions action = Some rule \<and> has_room rule t \<and>
         row_of TenantID (ob_tenant r) (tenants (store w)) = Some t \<and> Status t = TenantOffboarding \<and>
         Version t = cq_expectedVersion req \<and>
         store w' = announced [process_message ''cancelled'' (cq_offboarding req)
                (StagePayload (cq_offboarding req) (ob_tenant r) StageCancelled (ob_legalHold r)) at se]
           (called_off (cq_offboarding req) actor (cq_reason req) at
             (tenant_written action at' (rule_effect rule at' t) te (store w))))"
    from eff show ?thesis
    proof (elim disjE conjE exE)
      assume "w' = w" then show ?thesis by (simp add: on_store_def store_refl)
    next
      fix action rule t at' te se
      assume st: "stage_Cancellable (ob_stage r)" and a: "cancel_action (ob_priorStatus r) = Some action"
        and rule: "tenant_transitions action = Some rule" "has_room rule t"
        and t: "row_of TenantID (ob_tenant r) (tenants (store w)) = Some t" "Status t = TenantOffboarding"
        and w': "store w' = announced [process_message ''cancelled'' (cq_offboarding req)
                (StagePayload (cq_offboarding req) (ob_tenant r) StageCancelled (ob_legalHold r)) at se]
           (called_off (cq_offboarding req) actor (cq_reason req) at
             (tenant_written action at' (rule_effect rule at' t) te (store w)))"
      have id: "TenantID t = ob_tenant r" using row_of_SomeD[OF t(1)] by simp
      have "movable action t (store w)"
        using a rule t id by (auto simp: movable_def cancel_action_def tenant_Resolve_def split: if_splits)
      then have "R (store w) (called_off (cq_offboarding req) actor (cq_reason req) at (moved action at' t (store w)))"
        using r st a id by (intro process_cancel[of _ _ _ _ r]) auto
      from related_written[where F = "called_off (cq_offboarding req) actor (cq_reason req) at", OF rule(1) this]
      have "R (store w) (called_off (cq_offboarding req) actor (cq_reason req) at
         (tenant_written action at' (rule_effect rule at' t) te (store w)))"
        by (simp add: called_off_def)
      then show ?thesis by (simp add: on_store_def w' related_announced)
    qed
  qed
qed

lemma a_Cancel: "always R (offboarding_Cancel env cx req)"
  unfolding offboarding_Cancel_def
  by (intro a_seq_quiet[OF quiet_steps(4)] a_seq_quiet[OF quiet_steps(6)] a_seq_quiet[OF quiet_steps(8)]
      a_seq[OF a_WithProviderScope] y_cancel_body a_seq[OF a_restore_all] a_offboarding_reads)

end

section \<open>Stages and obligations move one way\<close>

definition finished :: "offboarding \<Rightarrow> bool" where
  "finished r \<longleftrightarrow> ob_stage r = StageRetired \<or> ob_stage r = StageCancelled"

definition offboarding_advanced :: "offboarding \<Rightarrow> offboarding \<Rightarrow> bool" where
  "offboarding_advanced r r' \<longleftrightarrow>
     ob_tenant r' = ob_tenant r \<and> ob_priorStatus r' = ob_priorStatus r \<and> ob_startedAt r' = ob_startedAt r \<and>
     (stage_Valid (ob_stage r) \<longrightarrow> stage_Valid (ob_stage r')) \<and>
     stage_rank (ob_stage r) \<le> stage_rank (ob_stage r') \<and> (finished r \<longrightarrow> r' = r) \<and>
     (ob_stage r = StageRelease \<longrightarrow> ob_stage r' \<noteq> StageCancelled)"

definition obligation_advanced :: "obligation \<Rightarrow> obligation \<Rightarrow> bool" where
  "obligation_advanced b b' \<longleftrightarrow>
     bl_offboarding b' = bl_offboarding b \<and> bl_domain b' = bl_domain b \<and> bl_type b' = bl_type b \<and>
     (bl_state b \<noteq> ObligationOpen \<longrightarrow> bl_state b' \<noteq> ObligationOpen) \<and>
     (obligation_Resolved (bl_state b) \<or> bl_state b = ObligationCancelled \<longrightarrow> b' = b)"

definition process_advanced :: "store \<Rightarrow> store \<Rightarrow> bool" where
  "process_advanced s s' \<longleftrightarrow>
     (\<forall>k r. row_of ob_id k (offboardings s) = Some r \<longrightarrow>
        (\<exists>r'. row_of ob_id k (offboardings s') = Some r' \<and> offboarding_advanced r r')) \<and>
     (\<forall>k b. row_of bl_id k (obligations s) = Some b \<longrightarrow>
        (\<exists>b'. row_of bl_id k (obligations s') = Some b' \<and> obligation_advanced b b'))"

lemma advanced_refl: "offboarding_advanced r r" "obligation_advanced b b"
  by (simp_all add: offboarding_advanced_def obligation_advanced_def)

lemma advanced_trans:
  "offboarding_advanced r r' \<Longrightarrow> offboarding_advanced r' r'' \<Longrightarrow> offboarding_advanced r r''"
  "obligation_advanced b b' \<Longrightarrow> obligation_advanced b' b'' \<Longrightarrow> obligation_advanced b b''"
proof -
  assume "offboarding_advanced r r'" "offboarding_advanced r' r''"
  then show "offboarding_advanced r r''"
    unfolding offboarding_advanced_def finished_def
    by (cases "ob_stage r"; cases "ob_stage r'"; cases "ob_stage r''") auto
next
  assume "obligation_advanced b b'" "obligation_advanced b' b''"
  then show "obligation_advanced b b''" unfolding obligation_advanced_def by auto
qed

lemma process_advanced_same:
  "offboardings s' = offboardings s \<Longrightarrow> obligations s' = obligations s \<Longrightarrow> process_advanced s s'"
  by (simp add: process_advanced_def advanced_refl)

lemma process_advanced_trans: "process_advanced s t \<Longrightarrow> process_advanced t u \<Longrightarrow> process_advanced s u"
  unfolding process_advanced_def by (meson advanced_trans)

lemma process_advanced_change:
  assumes "\<And>r. ob_id (f r) = ob_id r" "\<And>r. row_of ob_id k (offboardings s) = Some r \<Longrightarrow> offboarding_advanced r (f r)"
    "offboardings s' = change_row ob_id k f (offboardings s)"
    "\<And>j b. row_of bl_id j (obligations s) = Some b \<Longrightarrow>
       \<exists>b'. row_of bl_id j (obligations s') = Some b' \<and> obligation_advanced b b'"
  shows "process_advanced s s'"
  using assms by (auto simp: process_advanced_def row_of_change_row advanced_refl)

lemma stamp_advanced:
  "stage_Next (ob_stage r) = Some to \<Longrightarrow> offboarding_advanced r (stamp_stage to at r)"
  by (cases "ob_stage r") (auto simp: offboarding_advanced_def stamp_stage_def finished_def)

lemma resolve_advanced:
  assumes "obligation_step b g" shows "obligation_advanced b (g b)"
  using assms
  by (auto simp: obligation_step_def obligation_advanced_def resolveObligation_def resolution_validate_def
      split: if_splits)

interpretation process_progress: process_relation process_advanced
proof unfold_locales
  fix k f and s :: store and r
  assume r: "row_of ob_id k (offboardings s) = Some r" "offboarding_step r f"
  show "process_advanced s (s\<lparr>offboardings := change_row ob_id k f (offboardings s)\<rparr>)"
    by (rule process_advanced_change[of f k])
      (use r in \<open>auto simp: offboarding_step_def stamp_advanced advanced_refl\<close>,
       auto simp: offboarding_advanced_def finished_def)
next
  fix t :: tenant_record and k r at at' and s :: store
  assume "row_of ob_id k (offboardings s) = Some r" "ob_stage r = StageRelease"
  then show "process_advanced s (staged k StageRetired at (moved TenantRetire at' t s))"
    by (intro process_advanced_change[of "stamp_stage StageRetired at" k])
      (auto simp: staged_def moved_def stamp_advanced advanced_refl)
next
  fix a and t :: tenant_record and k r actor reason at at' and s :: store
  assume "row_of ob_id k (offboardings s) = Some r" "stage_Cancellable (ob_stage r)"
  then show "process_advanced s (called_off k actor reason at (moved a at' t s))"
    by (intro process_advanced_change[of "cancelStatement actor reason at" k])
      (auto simp: called_off_def moved_def cancelStatement_def stage_Cancellable_def offboarding_advanced_def
        finished_def row_of_map obligation_advanced_def obligation_Resolved_def)
next
  fix t :: tenant_record and r :: offboarding and at and s :: store
  assume "row_of ob_id (ob_id r) (offboardings s) = None"
  then show "process_advanced s (opened r (moved TenantBeginOffboarding at t s))"
    by (auto simp: process_advanced_def opened_def moved_def row_of_append advanced_refl split: option.splits)
next
  fix ob and s :: store
  show "process_advanced s (s\<lparr>obligations := obligations s @ [ob]\<rparr>)"
    by (auto simp: process_advanced_def row_of_append advanced_refl split: option.splits)
next
  fix k ob g and s :: store
  assume ob: "row_of bl_id k (obligations s) = Some ob" "obligation_step ob g"
  have "bl_id (g x) = bl_id x" for x
    using ob(2) by (auto simp: obligation_step_def resolveObligation_def)
  then show "process_advanced s (s\<lparr>obligations := change_row bl_id k g (obligations s)\<rparr>)"
    using ob resolve_advanced[OF ob(2)] by (auto simp: process_advanced_def row_of_change_row advanced_refl)
qed (auto intro: process_advanced_same process_advanced_trans)

section \<open>Freeze records name Memberships of their Tenant\<close>

text \<open>
  Identifiers of offboardings are unique, and a freeze record names an offboarding and a Membership of
  one Tenant; \<open>freezes_ok\<close> follows.
\<close>

definition freezes_wf :: "store \<Rightarrow> bool" where
  "freezes_wf s \<longleftrightarrow> keyed ob_id (offboardings s) \<and> freezes_ok s"

definition same_owners :: "store \<Rightarrow> store \<Rightarrow> bool" where
  "same_owners s s' \<longleftrightarrow>
     map ob_id (offboardings s') = map ob_id (offboardings s) \<and> map ob_tenant (offboardings s') = map ob_tenant (offboardings s) \<and>
     (\<forall>k m. row_of m_id k (memberships s) = Some m \<longrightarrow>
        (\<exists>m'. row_of m_id k (memberships s') = Some m' \<and> m_tenant m' = m_tenant m)) \<and>
     (\<forall>f' \<in> set (freezes s'). \<exists>f \<in> set (freezes s). fz_offboarding f' = fz_offboarding f \<and>
        fz_tenant f' = fz_tenant f \<and> fz_membership f' = fz_membership f)"

lemma row_of_columns:
  "map key xs = map key ys \<Longrightarrow> map col xs = map col ys \<Longrightarrow>
   map_option col (row_of key k xs) = map_option col (row_of key k ys)"
proof (induction xs arbitrary: ys)
  case (Cons x xs)
  then show ?case by (cases ys) auto
qed simp

lemma freezes_wf_same_owners:
  assumes "same_owners s s'" shows "preserved freezes_wf s s'"
  unfolding preserved_def freezes_wf_def freezes_ok_def
proof (intro impI conjI ballI)
  assume wf: "keyed ob_id (offboardings s) \<and> (\<forall>f \<in> set (freezes s).
        (\<exists>r. row_of ob_id (fz_offboarding f) (offboardings s) = Some r \<and> ob_tenant r = fz_tenant f) \<and>
        (\<exists>m. row_of m_id (fz_membership f) (memberships s) = Some m \<and> m_tenant m = fz_tenant f))"
  show "keyed ob_id (offboardings s')" using wf assms by (simp add: same_owners_def keyed_def)
  fix f' assume "f' \<in> set (freezes s')"
  then obtain f where f: "f \<in> set (freezes s)" "fz_offboarding f' = fz_offboarding f"
    "fz_tenant f' = fz_tenant f" "fz_membership f' = fz_membership f"
    using assms unfolding same_owners_def by blast
  with wf obtain r m where r: "row_of ob_id (fz_offboarding f) (offboardings s) = Some r" "ob_tenant r = fz_tenant f"
    and m: "row_of m_id (fz_membership f) (memberships s) = Some m" "m_tenant m = fz_tenant f" by blast
  have "map_option ob_tenant (row_of ob_id (fz_offboarding f) (offboardings s')) =
      map_option ob_tenant (row_of ob_id (fz_offboarding f) (offboardings s))"
    using assms by (intro row_of_columns) (simp_all add: same_owners_def)
  then show "\<exists>r. row_of ob_id (fz_offboarding f') (offboardings s') = Some r \<and> ob_tenant r = fz_tenant f'"
    using r f by auto
  show "\<exists>m. row_of m_id (fz_membership f') (memberships s') = Some m \<and> m_tenant m = fz_tenant f'"
    using assms m f unfolding same_owners_def by metis
qed

lemma same_owners_refl: "offboardings s' = offboardings s \<Longrightarrow> memberships s' = memberships s \<Longrightarrow>
    freezes s' = freezes s \<Longrightarrow> same_owners s s'"
  by (auto simp: same_owners_def)

lemma freezes_wf_kept:
  "offboardings s' = offboardings s \<and> memberships s' = memberships s \<and> freezes s' = freezes s \<Longrightarrow> preserved freezes_wf s s'"
  by (intro freezes_wf_same_owners same_owners_refl) auto

lemma map_change_row: "(\<And>r. key r = k \<Longrightarrow> col (f r) = col r) \<Longrightarrow> map col (change_row key k f rows) = map col rows"
  by (induction rows) auto

lemma same_owners_change:
  assumes "\<And>r. ob_id (f r) = ob_id r" "\<And>r. ob_tenant (f r) = ob_tenant r"
    "offboardings s' = change_row ob_id k f (offboardings s)" "memberships s' = memberships s" "freezes s' = freezes s"
  shows "same_owners s s'"
  using assms by (auto simp: same_owners_def map_change_row)

lemma same_owners_put:
  assumes "row_of m_id (m_id m') (memberships s) = Some m" "m_tenant m' = m_tenant m"
  shows "same_owners s (s\<lparr>memberships := put_row m_id m' (memberships s)\<rparr>)"
  using assms by (auto simp: same_owners_def row_of_put_row)

lemma offboarding_step_owners:
  "offboarding_step r f \<Longrightarrow> ob_id (f x) = ob_id x \<and> ob_tenant (f x) = ob_tenant x \<and>
     ob_priorStatus (f x) = ob_priorStatus x"
  by (auto simp: offboarding_step_def)

interpretation freeze_owners: process_relation "preserved freezes_wf"
proof unfold_locales
  fix k f and s :: store and r
  assume "offboarding_step r f"
  then show "preserved freezes_wf s (s\<lparr>offboardings := change_row ob_id k f (offboardings s)\<rparr>)"
    by (intro freezes_wf_same_owners same_owners_change[of f]) (auto dest: offboarding_step_owners)
next
  fix t :: tenant_record and k r at at' and s :: store
  show "preserved freezes_wf s (staged k StageRetired at (moved TenantRetire at' t s))"
    by (intro freezes_wf_same_owners same_owners_change[of "stamp_stage StageRetired at" _ k]) (auto simp: staged_def moved_def)
next
  fix a and t :: tenant_record and k r actor reason at at' and s :: store
  show "preserved freezes_wf s (called_off k actor reason at (moved a at' t s))"
    by (intro freezes_wf_same_owners same_owners_change[of "cancelStatement actor reason at" _ k])
      (auto simp: called_off_def moved_def cancelStatement_def)
next
  fix t :: tenant_record and r :: offboarding and at and s :: store
  assume "row_of ob_id (ob_id r) (offboardings s) = None"
  then show "preserved freezes_wf s (opened r (moved TenantBeginOffboarding at t s))"
    by (fastforce simp: preserved_def freezes_wf_def freezes_ok_def opened_def moved_def row_of_append)
next
  fix f' :: freeze_row and m r and s :: store
  assume f: "row_of m_id (fz_membership f') (memberships s) = Some m" "m_tenant m = fz_tenant f'"
    and r: "r \<in> set (offboardings s)" "ob_id r = fz_offboarding f'" "ob_tenant r = fz_tenant f'"
  show "preserved freezes_wf s (s\<lparr>freezes := freezes s @ [f']\<rparr>)"
    using f r row_of_keyed[of ob_id "offboardings s" r]
    by (auto simp: preserved_def freezes_wf_def freezes_ok_def)
next
  fix P at and s :: store
  show "preserved freezes_wf s (s\<lparr>freezes := map (\<lambda>f. if P f then f\<lparr>fz_restoredAt := Some at\<rparr> else f) (freezes s)\<rparr>)"
    by (intro freezes_wf_same_owners) (auto simp: same_owners_def)
next
  fix a m m' and s :: store
  assume "status_step a m m' (memberships s)"
  then show "preserved freezes_wf s (s\<lparr>memberships := put_row m_id m' (memberships s)\<rparr>)"
    by (intro freezes_wf_same_owners same_owners_put[of _ _ m]) (auto simp: status_step_def)
next
  fix m v and s :: store
  assume "row_of m_id (m_id m) (memberships s) = Some m"
  then show "preserved freezes_wf s (s\<lparr>memberships := put_row m_id (m\<lparr>m_version := v + 1\<rparr>) (memberships s)\<rparr>)"
    by (intro freezes_wf_same_owners same_owners_put[of _ _ m]) auto
next
  fix m and s :: store
  show "preserved freezes_wf s (s\<lparr>memberships := memberships s @ [m]\<rparr>)"
    by (intro freezes_wf_same_owners) (auto simp: same_owners_def row_of_append)
qed (rule preserved.step_refl | erule (1) preserved.step_trans | rule freezes_wf_kept, simp | assumption)+

section \<open>The process and the Tenant it offboards\<close>

text \<open>
  Exactly the Tenants in the offboarding state have an offboarding under way, each exactly one, and one
  that can still be cancelled remembers a status to return to.
\<close>

definition live_tenants :: "store \<Rightarrow> uuid list" where
  "live_tenants s = map ob_tenant (filter (\<lambda>r. \<not> finished r) (offboardings s))"

definition leaving_tenants :: "store \<Rightarrow> uuid set" where
  "leaving_tenants s = {TenantID t | t. t \<in> set (tenants s) \<and> Status t = TenantOffboarding}"

definition reversible :: "offboarding \<Rightarrow> bool" where
  "reversible r \<longleftrightarrow> ob_priorStatus r = Some TenantActive \<or> ob_priorStatus r = Some TenantSuspended"

definition coordinated :: "store \<Rightarrow> bool" where
  "coordinated s \<longleftrightarrow>
     keyed ob_id (offboardings s) \<and> keyed TenantID (tenants s) \<and>
     distinct (live_tenants s) \<and> set (live_tenants s) = leaving_tenants s \<and>
     list_all reversible (offboardings s)"

lemma reversible_change:
  "(\<And>r. ob_priorStatus (f r) = ob_priorStatus r) \<Longrightarrow>
   list_all reversible (change_row ob_id k f rows) = list_all reversible rows"
  by (induction rows) (auto simp: reversible_def)

lemma coordinated_kept:
  "offboardings s' = offboardings s \<and> tenants s' = tenants s \<Longrightarrow> preserved coordinated s s'"
  by (simp add: preserved_def coordinated_def live_tenants_def leaving_tenants_def)

lemma leaving_iff:
  assumes "keyed TenantID (tenants s)"
  shows "k \<in> leaving_tenants s \<longleftrightarrow> (\<exists>t. row_of TenantID k (tenants s) = Some t \<and> Status t = TenantOffboarding)"
proof
  assume "k \<in> leaving_tenants s"
  then obtain t where "t \<in> set (tenants s)" "TenantID t = k" "Status t = TenantOffboarding"
    by (auto simp: leaving_tenants_def)
  then show "\<exists>t. row_of TenantID k (tenants s) = Some t \<and> Status t = TenantOffboarding"
    using row_of_keyed[OF assms] by auto
next
  assume "\<exists>t. row_of TenantID k (tenants s) = Some t \<and> Status t = TenantOffboarding"
  then show "k \<in> leaving_tenants s"
    unfolding leaving_tenants_def by (auto dest!: row_of_SomeD)
qed

lemma leaving_put:
  assumes "keyed TenantID (tenants s)" "row_of TenantID (TenantID t') (tenants s) = Some t"
    "tenants s' = put_row TenantID t' (tenants s)"
  shows "leaving_tenants s' =
    (if Status t' = TenantOffboarding then insert (TenantID t') (leaving_tenants s)
     else leaving_tenants s - {TenantID t'})"
proof -
  have "keyed TenantID (tenants s')" using assms(1,3) by simp
  then show ?thesis
    using assms(1,2) by (auto simp: leaving_iff assms(3) row_of_put_row split: if_splits)
qed

lemma leaving_put_same:
  assumes "keyed TenantID (tenants s)" "row_of TenantID (TenantID t') (tenants s) = Some t"
    "Status t \<noteq> TenantOffboarding" "Status t' \<noteq> TenantOffboarding"
  shows "leaving_tenants (s\<lparr>tenants := put_row TenantID t' (tenants s)\<rparr>) = leaving_tenants s"
proof -
  have "TenantID t' \<notin> leaving_tenants s" using assms by (simp add: leaving_iff)
  then show ?thesis using leaving_put[OF assms(1,2)] assms(4) by simp
qed

lemma standalone_rule:
  "standalone a \<Longrightarrow> tenant_transitions a = Some rule \<Longrightarrow>
   r_to rule \<noteq> TenantOffboarding \<and> TenantOffboarding \<notin> set (r_from rule)"
  by (cases a) auto

text \<open>An update of a row that keeps its Tenant and does not finish it keeps the live ones.\<close>

lemma live_change_same:
  assumes "\<And>r. r \<in> set rows \<Longrightarrow> ob_id r = k \<Longrightarrow> finished (f r) = finished r \<and> ob_tenant (f r) = ob_tenant r"
  shows "map ob_tenant (filter (\<lambda>r. \<not> finished r) (change_row ob_id k f rows)) =
    map ob_tenant (filter (\<lambda>r. \<not> finished r) rows)"
  using assms by (induction rows) auto

text \<open>An update that finishes the one live row of a Tenant takes that Tenant out, and no other.\<close>

lemma live_change_finish:
  assumes "keyed ob_id rows" "row_of ob_id k rows = Some r" "\<not> finished r" "\<And>r. finished (f r)"
    "distinct (map ob_tenant (filter (\<lambda>r. \<not> finished r) rows))"
  shows "map ob_tenant (filter (\<lambda>r. \<not> finished r) (change_row ob_id k f rows)) =
    remove1 (ob_tenant r) (map ob_tenant (filter (\<lambda>r. \<not> finished r) rows))"
  using assms
proof (induction rows)
  case (Cons x rows)
  show ?case
  proof (cases "ob_id x = k")
    case True
    then have "change_row ob_id k f rows = rows"
      using Cons.prems(1) by (intro change_row_absent) (auto simp: keyed_def)
    then show ?thesis using True Cons.prems by simp
  next
    case False
    have r: "row_of ob_id k rows = Some r" using False Cons.prems(2) by simp
    then have "ob_tenant r \<in> ob_tenant ` {x \<in> set rows. \<not> finished x}"
      using Cons.prems(3) by (auto dest: row_of_SomeD)
    then have "ob_tenant x \<noteq> ob_tenant r" if "\<not> finished x"
      using Cons.prems(5) that by auto
    then show ?thesis using Cons.IH[OF _ r Cons.prems(3,4)] Cons.prems(1,5) False by (auto simp: keyed_def)
  qed
qed simp

lemma coordinated_finish:
  assumes c: "coordinated s" and r: "row_of ob_id k (offboardings s) = Some r" "\<not> finished r"
    and f: "\<And>x. finished (f x)" "\<And>x. ob_id (f x) = ob_id x" "\<And>x. ob_priorStatus (f x) = ob_priorStatus x"
    and t: "row_of TenantID (TenantID t') (tenants s) = Some t" "TenantID t' = ob_tenant r" "Status t' \<noteq> TenantOffboarding"
    and s': "offboardings s' = change_row ob_id k f (offboardings s)" "tenants s' = put_row TenantID t' (tenants s)"
  shows "coordinated s'"
proof -
  have live: "live_tenants s' = remove1 (ob_tenant r) (live_tenants s)"
    unfolding live_tenants_def s' using c r f(1)
    by (intro live_change_finish) (auto simp: coordinated_def live_tenants_def)
  have leaving: "leaving_tenants s' = leaving_tenants s - {ob_tenant r}"
    using leaving_put[of s t' t s'] c t s'(2) by (simp add: coordinated_def)
  then show ?thesis
    using c live f(2) s' reversible_change[OF f(3)] by (simp add: coordinated_def)
qed

lemma offboarding_step_live: "offboarding_step r f \<Longrightarrow> \<not> finished r \<and> \<not> finished (f r)"
  by (cases "ob_stage r") (auto simp: offboarding_step_def finished_def)

interpretation coordination: process_relation "preserved coordinated"
proof unfold_locales
  fix a rule at and r :: tenant_record and s :: store
  assume a: "standalone a" "tenant_transitions a = Some rule" "tenant_Resolve a (Status r) = Inr (r_to rule)"
    and r: "row_of TenantID (TenantID r) (tenants s) = Some r"
  have "Status r \<noteq> TenantOffboarding"
    using standalone_rule[OF a(1,2)] a(2,3) by (auto simp: tenant_Resolve_def split: if_splits)
  then show "preserved coordinated s (s\<lparr>tenants := put_row TenantID (rule_effect rule at r) (tenants s)\<rparr>)"
    using leaving_put_same[of s "rule_effect rule at r" r] r standalone_rule[OF a(1,2)]
    by (simp add: preserved_def coordinated_def live_tenants_def)
next
  fix r :: tenant_record and s :: store
  assume "row_of TenantID (TenantID r) (tenants s) = None" "fresh_tenant r"
  moreover have "leaving_tenants (s\<lparr>tenants := tenants s @ [r]\<rparr>) = leaving_tenants s"
    using calculation(2) by (auto simp: leaving_tenants_def fresh_tenant_def)
  ultimately show "preserved coordinated s (s\<lparr>tenants := tenants s @ [r]\<rparr>)"
    by (simp add: preserved_def coordinated_def live_tenants_def)
next
  fix t :: tenant_record and r :: offboarding and at and s :: store
  assume m: "movable TenantBeginOffboarding t s" and r: "row_of ob_id (ob_id r) (offboardings s) = None" "new_offboarding t r"
  let ?t = "rule_effect (the (tenant_transitions TenantBeginOffboarding)) at t"
  show "preserved coordinated s (opened r (moved TenantBeginOffboarding at t s))"
    unfolding preserved_def
  proof (rule impI)
    assume c: "coordinated s"
    have row: "row_of TenantID (TenantID t) (tenants s) = Some t" using m by (simp add: movable_def)
    have st: "Status t \<noteq> TenantOffboarding" using r(2) by (auto simp: new_offboarding_def)
    then have "TenantID t \<notin> leaving_tenants s"
      using row c by (simp add: leaving_iff coordinated_def)
    moreover have "leaving_tenants (opened r (moved TenantBeginOffboarding at t s)) = insert (TenantID t) (leaving_tenants s)"
      using leaving_put[of s ?t t] c row by (simp add: coordinated_def opened_def moved_def)
    moreover have "live_tenants (opened r (moved TenantBeginOffboarding at t s)) = live_tenants s @ [TenantID t]"
      using r(2) by (simp add: live_tenants_def opened_def moved_def new_offboarding_def finished_def)
    ultimately show "coordinated (opened r (moved TenantBeginOffboarding at t s))"
      using c r by (auto simp: coordinated_def opened_def moved_def new_offboarding_def reversible_def)
  qed
next
  fix t :: tenant_record and k at at' and r :: offboarding and s :: store
  assume m: "movable TenantRetire t s" and r: "row_of ob_id k (offboardings s) = Some r" "ob_stage r = StageRelease" "ob_tenant r = TenantID t"
  show "preserved coordinated s (staged k StageRetired at (moved TenantRetire at' t s))"
    unfolding preserved_def
    by (rule impI, rule coordinated_finish[OF _ r(1), where f = "stamp_stage StageRetired at"
        and t' = "rule_effect (the (tenant_transitions TenantRetire)) at' t" and t = t])
      (use m r in \<open>auto simp: finished_def staged_def moved_def movable_def\<close>)
next
  fix a and t :: tenant_record and k actor reason at at' and r :: offboarding and s :: store
  assume m: "movable a t s" and r: "row_of ob_id k (offboardings s) = Some r" "stage_Cancellable (ob_stage r)"
    "ob_tenant r = TenantID t" "cancel_action (ob_priorStatus r) = Some a"
  show "preserved coordinated s (called_off k actor reason at (moved a at' t s))"
    unfolding preserved_def
    by (rule impI, rule coordinated_finish[OF _ r(1), where f = "cancelStatement actor reason at"
        and t' = "rule_effect (the (tenant_transitions a)) at' t" and t = t])
      (use m r in \<open>auto simp: finished_def called_off_def moved_def movable_def cancelStatement_def
        cancel_action_def stage_Cancellable_def split: if_splits\<close>)
next
  fix k f and r :: offboarding and s :: store
  assume r: "row_of ob_id k (offboardings s) = Some r" "offboarding_step r f"
  show "preserved coordinated s (s\<lparr>offboardings := change_row ob_id k f (offboardings s)\<rparr>)"
    unfolding preserved_def
  proof (rule impI)
    assume c: "coordinated s"
    have one: "x = r" if "x \<in> set (offboardings s)" "ob_id x = k" for x
      using row_of_keyed[of ob_id "offboardings s" x] that r(1) c by (simp add: coordinated_def)
    have "finished (f x) = finished x \<and> ob_tenant (f x) = ob_tenant x" if "x \<in> set (offboardings s)" "ob_id x = k" for x
      using offboarding_step_live[OF r(2)] offboarding_step_owners[OF r(2)] one[OF that] by simp
    then have "live_tenants (s\<lparr>offboardings := change_row ob_id k f (offboardings s)\<rparr>) = live_tenants s"
      by (simp add: live_tenants_def live_change_same)
    then show "coordinated (s\<lparr>offboardings := change_row ob_id k f (offboardings s)\<rparr>)"
      using c offboarding_step_owners[OF r(2)] reversible_change[of f]
      by (simp add: coordinated_def leaving_tenants_def)
  qed
qed (rule preserved.step_refl | erule (1) preserved.step_trans | rule coordinated_kept, simp | assumption)+

section \<open>Tenants and Memberships under the coordinator\<close>

text \<open>
  The relations of the two services the coordinator is built on look at no table of its own, so each
  write of the coordinator is one of theirs or none.
\<close>

lemma moved_tables:
  "tenants (opened r s) = tenants s" "tenants (staged k to at s) = tenants s" "tenants (called_off k actor reason at s) = tenants s"
  "memberships (opened r s) = memberships s" "memberships (staged k to at s) = memberships s"
  "memberships (called_off k actor reason at s) = memberships s" "memberships (moved a at t s) = memberships s"
  by (simp_all add: opened_def staged_def called_off_def moved_def)

lemma moved_advanced:
  assumes "movable a t s" "tenants s' = tenants (moved a at t s)"
  shows "tenants_advanced s s'"
proof -
  obtain rule where "row_of TenantID (TenantID t) (tenants s) = Some t" "tenant_transitions a = Some rule"
    "tenant_Resolve a (Status t) = Inr (r_to rule)" using assms(1) by (auto simp: movable_def)
  then have "tenants_advanced s (moved a at t s)" using tenants_advanced_step by (simp add: moved_def)
  moreover have "tenants_advanced (moved a at t s) s'" using assms(2) by (rule tenants_advanced_same)
  ultimately show ?thesis by (rule tenants_advanced_trans)
qed

lemma moved_stamped:
  assumes "movable a t s" "tenants s' = tenants (moved a at t s)"
  shows "preserved tenants_wf s s'"
proof -
  obtain rule where "row_of TenantID (TenantID t) (tenants s) = Some t" "tenant_transitions a = Some rule"
    "tenant_Resolve a (Status t) = Inr (r_to rule)" "has_room rule t" using assms(1) by (auto simp: movable_def)
  then have "preserved tenants_wf s (moved a at t s)" using stamps.tenant_step[OF TrueI] by (simp add: moved_def)
  moreover have "preserved tenants_wf (moved a at t s) s'" using assms(2) by (rule tenants_wf_kept)
  ultimately show ?thesis by (rule preserved.step_trans)
qed

interpretation process_tenants: process_relation tenants_advanced
  by unfold_locales
    (auto intro: tenants_advanced_same progress.tenant_insert progress.tenant_step moved_advanced simp: moved_tables)

interpretation process_stamps: process_relation "preserved tenants_wf"
proof unfold_locales
qed (rule stamps.tenant_insert stamps.tenant_step[OF TrueI] TrueI | assumption
    | erule moved_stamped, simp add: moved_tables | rule tenants_wf_kept, simp)+

interpretation process_memberships: process_relation memberships_advanced
  by unfold_locales (auto intro: memberships_advanced_same simp: moved_tables)

interpretation process_membership_stamps: process_relation "preserved memberships_wf"
proof unfold_locales
qed (assumption | rule memberships_wf_kept, simp add: moved_tables)+

end
