(* ===== verification/Offboarding_Witnesses.thy ===== *)
theory Offboarding_Witnesses
  imports Example_World Offboarding_Invariants
begin

text \<open>
  One offboarding of Tenant 10 of the example world, from its start to retirement and to cancellation,
  and the theorems about the coordinator applied to its steps.
\<close>

definition ex_begin :: begin_request where
  "ex_begin = \<lparr>br_tenant = 10, br_expectedVersion = 3, br_reason = ''contract ended'', br_legalHold = False\<rparr>"

definition ex_cancel :: cancel_request where
  "ex_cancel = \<lparr>cq_offboarding = 100, cq_expectedVersion = 3, cq_reason = ''renewed''\<rparr>"

text \<open>Tenant 10 on its way out, with one Membership active or frozen, at a given stage.\<close>

definition ex_leaving :: "stage \<Rightarrow> membership_state \<Rightarrow> world" where
  "ex_leaving st frozen_state = ex_world\<lparr>store := ex_store\<lparr>
     tenants := [(ex_tenant 10 TenantOffboarding)\<lparr>ActivatedAt := Some 50, OffboardingStartedAt := Some 60\<rparr>],
     provisioning := [(ex_request 33 10 43 RequestRealized)\<lparr>pr_operation := Some OpDeprovision, pr_offboarding := Some 100\<rparr>],
     memberships := [ex_membership 20 5 10 frozen_state],
     offboardings := [\<lparr>ob_id = 100, ob_tenant = 10, ob_stage = st, ob_initiatedBy = 7, ob_reason = ''contract ended'',
       ob_legalHold = False, ob_correlation = 8, ob_startedAt = 60, ob_frozenAt = None, ob_releasedAt = None,
       ob_retiredAt = None, ob_priorStatus = Some TenantActive, ob_cancelledBy = None, ob_cancelReason = None,
       ob_cancelledAt = None\<rparr>],
     freezes := (if frozen_state = MembershipSuspended
       then [\<lparr>fz_offboarding = 100, fz_tenant = 10, fz_membership = 20, fz_restoredAt = None\<rparr>] else [])\<rparr>\<rparr>"

abbreviation "ex_freezing \<equiv> ex_leaving StageFreeze MembershipActive"
abbreviation "ex_frozen \<equiv> ex_leaving StageFreeze MembershipSuspended"
abbreviation "ex_settling \<equiv> ex_leaving StageObligations MembershipSuspended"
abbreviation "ex_deprovisioned \<equiv> ex_leaving StageRelease MembershipSuspended"

lemma ex_begin_runs: "succeeds (Begin ex_env ex_provider ex_begin ex_world)"
  by code_simp

lemma ex_freeze_runs: "succeeds (FreezeBatch ex_env ex_provider 100 10 1 ''freeze'' ex_freezing)"
  by code_simp

lemma ex_complete_runs: "succeeds (CompleteFreeze ex_env ex_provider 100 ex_frozen)"
  by code_simp

lemma ex_release_runs: "succeeds (Release ex_env ex_provider 100 ex_settling)"
  by code_simp

lemma ex_retire_runs: "succeeds (Retire ex_env ex_provider 100 3 ex_deprovisioned)"
  by code_simp

lemma ex_cancel_runs: "succeeds (offboarding_Cancel ex_env ex_provider ex_cancel ex_frozen)"
  by code_simp

theorem Begin_effect_witness:
  "\<exists>view w' t. Begin ex_env ex_provider ex_begin ex_world = (Inr view, w') \<and>
    row_of TenantID 10 (tenants (store ex_world)) = Some t \<and> ob_priorStatus (ov_row view) = Some (Status t)"
proof -
  obtain view w' where run: "Begin ex_env ex_provider ex_begin ex_world = (Inr view, w')"
    using ex_begin_runs by (rule succeedsE)
  have "br_tenant ex_begin = 10" by (simp add: ex_begin_def)
  then show ?thesis using Begin_effect[OF run] run by (auto simp: begun_def)
qed

theorem FreezeBatch_effect_witness:
  "\<exists>n w'. FreezeBatch ex_env ex_provider 100 10 1 ''freeze'' ex_freezing = (Inr n, w') \<and> n \<le> 1 \<and>
    countActiveMemberships 10 (store w') + n = countActiveMemberships 10 (store ex_freezing)"
proof -
  obtain n w' where run: "FreezeBatch ex_env ex_provider 100 10 1 ''freeze'' ex_freezing = (Inr n, w')"
    using ex_freeze_runs by (rule succeedsE)
  have "keyed m_id (memberships (store ex_freezing))" by code_simp
  then show ?thesis using FreezeBatch_effect[OF run] run by auto
qed

theorem CompleteFreeze_effect_witness:
  "\<exists>view w'. CompleteFreeze ex_env ex_provider 100 ex_frozen = (Inr view, w') \<and>
    ob_stage (ov_row view) = StageObligations"
proof -
  obtain view w' where run: "CompleteFreeze ex_env ex_provider 100 ex_frozen = (Inr view, w')"
    using ex_complete_runs by (rule succeedsE)
  show ?thesis using CompleteFreeze_effect[OF run] run by auto
qed

theorem Release_effect_witness:
  "\<exists>view w'. Release ex_env ex_provider 100 ex_settling = (Inr view, w') \<and> ob_stage (ov_row view) = StageRelease"
proof -
  obtain view w' where run: "Release ex_env ex_provider 100 ex_settling = (Inr view, w')"
    using ex_release_runs by (rule succeedsE)
  show ?thesis using Release_effect[OF run] run by auto
qed

theorem Retire_effect_witness:
  "\<exists>view w'. Retire ex_env ex_provider 100 3 ex_deprovisioned = (Inr view, w') \<and> ob_stage (ov_row view) = StageRetired"
proof -
  obtain view w' where run: "Retire ex_env ex_provider 100 3 ex_deprovisioned = (Inr view, w')"
    using ex_retire_runs by (rule succeedsE)
  show ?thesis using Retire_effect[OF run] run by auto
qed

theorem Cancel_restores_witness:
  "\<exists>view w'. offboarding_Cancel ex_env ex_provider ex_cancel ex_frozen = (Inr view, w') \<and>
    ob_stage (ov_row view) = StageCancelled \<and> ov_restorePending view = 0"
proof -
  obtain view w' where run: "offboarding_Cancel ex_env ex_provider ex_cancel ex_frozen = (Inr view, w')"
    using ex_cancel_runs by (rule succeedsE)
  have "freezes_wf (store ex_frozen)"
    by (simp add: freezes_wf_def freezes_ok_def ex_leaving_def ex_store_def keyed_def ex_world_def ex_membership_def)
  moreover have "\<forall>tick u. \<not> locked ex_env tick u" by (simp add: ex_env_def)
  ultimately show ?thesis using Cancel_restores[OF run] run by (auto simp: freezes_wf_def)
qed

theorem Cancel_returns_tenant_witness:
  "\<exists>view w' r. offboarding_Cancel ex_env ex_provider ex_cancel ex_frozen = (Inr view, w') \<and>
    row_of ob_id 100 (offboardings (store ex_frozen)) = Some r"
proof -
  obtain view w' where run: "offboarding_Cancel ex_env ex_provider ex_cancel ex_frozen = (Inr view, w')"
    using ex_cancel_runs by (rule succeedsE)
  have "cq_offboarding ex_cancel = 100" by (simp add: ex_cancel_def)
  then show ?thesis using Cancel_returns_tenant[OF run] run by auto
qed

end
