(* ===== verification/Registry_Service.thy ===== *)
theory Registry_Service
  imports Membership_Service "HOL-Library.Char_ord" "HOL-Library.List_Lexorder"
begin

text \<open>
  The two registries: Organizations, \<open>src/internal/organization/organization.go\<close>, which are provider
  records outside every Tenant, and Workspaces, \<open>src/internal/workspace/workspace.go\<close>, which live inside
  one Tenant. Both are created active, move by a table, and refuse retirement while something still
  depends on them.
\<close>

section \<open>Texts\<close>

fun tenant_text :: "tenant_state \<Rightarrow> string" where
  "tenant_text TenantRequested = ''requested''"
| "tenant_text TenantProvisioning = ''provisioning''"
| "tenant_text TenantActive = ''active''"
| "tenant_text TenantSuspended = ''suspended''"
| "tenant_text TenantOffboarding = ''offboarding''"
| "tenant_text TenantRetired = ''retired''"
| "tenant_text TenantFailed = ''failed''"
| "tenant_text (TenantStateOther s) = s"

fun membership_text :: "membership_state \<Rightarrow> string" where
  "membership_text MembershipActive = ''active''"
| "membership_text MembershipSuspended = ''suspended''"
| "membership_text MembershipRevoked = ''revoked''"
| "membership_text (MembershipStateOther s) = s"

section \<open>Organizations\<close>

record register_request =
  rg_displayName :: string
  rg_class :: classification_kind
  rg_parent :: "uuid option"
  rg_reason :: string

record org_command =
  gc_organization :: uuid
  gc_reason :: string
  gc_expectedVersion :: int

definition org_createdEventType :: string where
  "org_createdEventType = ''com.scnehaux.organization.organization.registry.created''"

definition org_NewPayload :: "organization \<Rightarrow> payload" where
  "org_NewPayload r = OrganizationPayload (o_id r) (o_name r) (o_class r) (o_status r) (o_parent r) (o_version r)"

definition org_publish :: "env \<Rightarrow> string \<Rightarrow> organization \<Rightarrow> instant \<Rightarrow> unit tx" where
  "org_publish env rawType r at =
     seq (ensure (parses env rawType) (ErrInternal ''organization: event type'')) (\<lambda>_.
     seq (publish env (o_id r) rawType at (org_NewPayload r) False) (\<lambda>_.
     return ()))"

definition org_insert :: "env \<Rightarrow> organization \<Rightarrow> organization tx" where
  "org_insert env r =
     seq (read_db (\<lambda>s. row_of o_id (o_id r) (organizations s) = None \<and>
            (case o_parent r of None \<Rightarrow> True | Some p \<Rightarrow> row_of o_id p (organizations s) \<noteq> None))) (\<lambda>ok.
     seq (ensure ok (ErrInternal ''organization: insert'')) (\<lambda>_.
     seq (db_now env) (\<lambda>created.
     let r' = r\<lparr>o_status := OrgActive, o_version := 1, o_created := created\<rparr>
     in seq (write_db (\<lambda>s. s\<lparr>organizations := organizations s @ [r']\<rparr>)) (\<lambda>_. return r'))))"

definition parent_check :: "uuid option \<Rightarrow> unit tx" where
  "parent_check parent =
     (case parent of
        None \<Rightarrow> return ()
      | Some p \<Rightarrow>
          seq (read_db (\<lambda>s. row_of o_id p (organizations s))) (\<lambda>row.
          case row of
            None \<Rightarrow> raise (ErrNotFound PkgOrganization)
          | Some q \<Rightarrow> ensure (o_status q \<noteq> OrgRetired) (ErrTransitionRefused PkgOrganization)))"

definition register_body :: "env \<Rightarrow> organization \<Rightarrow> instant \<Rightarrow> organization body" where
  "register_body env r at b cx =
     seq (parent_check (o_parent r)) (\<lambda>_.
     seq (org_insert env r) (\<lambda>r'.
     seq (org_publish env org_createdEventType r' at) (\<lambda>_.
     seq (Respond env cx (ResOrganization r')) (\<lambda>_.
     return r'))))"

definition Register :: "env \<Rightarrow> ctx \<Rightarrow> register_request \<Rightarrow> organization tx" where
  "Register env cx req =
     seq (ensure (\<not> blank (rg_displayName req)) (ErrInvalid PkgOrganization)) (\<lambda>_.
     seq (ensure (classification_Valid (rg_class req)) (ErrInvalid PkgOrganization)) (\<lambda>_.
     seq (ensure (\<not> blank (rg_reason req)) (ErrInvalid PkgOrganization)) (\<lambda>_.
     seq (newID env) (\<lambda>organizationID.
     seq (now env) (\<lambda>at.
     WithProviderScope env cx (rg_reason req)
       (register_body env \<lparr>o_id = organizationID, o_name = rg_displayName req, o_class = rg_class req,
          o_status = OrgActive, o_parent = rg_parent req, o_version = 0, o_created = 0\<rparr> at))))))"

definition org_validate :: "org_command \<Rightarrow> error + unit" where
  "org_validate c =
     (if IsNil (gc_organization c) then Inl (ErrInvalid PkgOrganization)
      else if blank (gc_reason c) then Inl (ErrInvalid PkgOrganization)
      else if gc_expectedVersion c \<le> 0 then Inl (ErrInvalid PkgOrganization)
      else Inr ())"

definition scanOrganization :: "organization \<Rightarrow> error + organization" where
  "scanOrganization r =
     (if \<not> classification_Valid (o_class r) then Inl (ErrInternal ''organization: stored classification'')
      else if \<not> org_Valid (o_status r) then Inl (ErrInternal ''organization: stored status'')
      else Inr r)"

definition org_load :: "uuid \<Rightarrow> organization tx" where
  "org_load organizationID =
     seq (read_db (\<lambda>s. row_of o_id organizationID (organizations s))) (\<lambda>row.
     case row of
       None \<Rightarrow> raise (ErrNotFound PkgOrganization)
     | Some r \<Rightarrow> lift (scanOrganization r))"

text \<open>\<open>updateStatement\<close>, which returns the version the database counted.\<close>

definition org_update :: "uuid \<Rightarrow> org_state \<Rightarrow> int tx" where
  "org_update organizationID to =
     seq (read_db (\<lambda>s. row_of o_id organizationID (organizations s))) (\<lambda>row.
     case row of
       None \<Rightarrow> raise (ErrInternal ''organization: update status'')
     | Some r \<Rightarrow>
         seq (lift (bigint_incr (o_version r))) (\<lambda>v.
         seq (write_db (\<lambda>s. s\<lparr>organizations :=
                put_row o_id (r\<lparr>o_status := to, o_version := v\<rparr>) (organizations s)\<rparr>)) (\<lambda>_.
         return v)))"

text \<open>The Tenants that block a retirement, by name. The texts are sorted last, which overrides ORDER BY.\<close>

definition live_sponsored :: "uuid \<Rightarrow> tenant_record \<Rightarrow> bool" where
  "live_sponsored organizationID t \<longleftrightarrow> OrganizationID t = organizationID \<and> Status t \<noteq> TenantRetired"

definition liveTenants :: "env \<Rightarrow> uuid \<Rightarrow> string list tx" where
  "liveTenants env organizationID =
     read_db (\<lambda>s. sort (map (\<lambda>t. DisplayName t @ '' '' @ uuid_text env (TenantID t) @ '' ('' @ tenant_text (Status t) @ '')'')
       (filter (live_sponsored organizationID) (tenants s))))"

definition org_gate :: "env \<Rightarrow> org_action \<Rightarrow> uuid \<Rightarrow> unit tx" where
  "org_gate env action organizationID =
     (if action = OrgRetire
      then seq (liveTenants env organizationID) (\<lambda>live. ensure (\<not> length live > 0) ErrTenantsNotRetired)
      else return ())"

definition org_transition_body ::
  "env \<Rightarrow> org_action \<Rightarrow> org_command \<Rightarrow> instant \<Rightarrow> organization body" where
  "org_transition_body env action cmd at b cx =
     seq (org_load (gc_organization cmd)) (\<lambda>current.
     seq (lift (org_Resolve action (o_status current))) (\<lambda>to.
     seq (ensure (o_version current = gc_expectedVersion cmd) (ErrVersionMismatch PkgOrganization)) (\<lambda>_.
     seq (org_gate env action (gc_organization cmd)) (\<lambda>_.
     seq (org_update (gc_organization cmd) to) (\<lambda>updated.
     let r' = current\<lparr>o_status := to, o_version := updated\<rparr>
     in seq (lift (org_EventType (parses env) action)) (\<lambda>eventType.
        seq (org_publish env eventType r' at) (\<lambda>_.
        seq (Respond env cx (ResOrganization r')) (\<lambda>_.
        return r'))))))))"

definition org_transition :: "env \<Rightarrow> ctx \<Rightarrow> org_action \<Rightarrow> org_command \<Rightarrow> organization tx" where
  "org_transition env cx action cmd =
     seq (lift (org_validate cmd)) (\<lambda>_.
     seq (now env) (\<lambda>at.
     WithProviderScope env cx (gc_reason cmd) (org_transition_body env action cmd at)))"

definition org_Suspend :: "env \<Rightarrow> ctx \<Rightarrow> org_command \<Rightarrow> organization tx" where
  "org_Suspend env cx cmd = org_transition env cx OrgSuspend cmd"

definition org_Restore :: "env \<Rightarrow> ctx \<Rightarrow> org_command \<Rightarrow> organization tx" where
  "org_Restore env cx cmd = org_transition env cx OrgRestore cmd"

definition org_Retire :: "env \<Rightarrow> ctx \<Rightarrow> org_command \<Rightarrow> organization tx" where
  "org_Retire env cx cmd = org_transition env cx OrgRetire cmd"

definition SponsoredTenantsNotRetired :: "env \<Rightarrow> ctx \<Rightarrow> uuid \<Rightarrow> string list tx" where
  "SponsoredTenantsNotRetired env cx organizationID =
     WithProviderScope env cx (''read sponsored Tenants of '' @ uuid_text env organizationID) (\<lambda>b cx.
       liveTenants env organizationID)"

definition org_Get :: "env \<Rightarrow> ctx \<Rightarrow> uuid \<Rightarrow> organization tx" where
  "org_Get env cx organizationID =
     WithProviderScope env cx (''read organization '' @ uuid_text env organizationID) (\<lambda>b cx.
       org_load organizationID)"

record org_query =
  gq_after :: uuid
  gq_limit :: int
  gq_status :: "org_state option"
  gq_class :: "classification_kind option"

definition org_matches :: "org_query \<Rightarrow> organization \<Rightarrow> bool" where
  "org_matches q r \<longleftrightarrow>
     (case gq_status q of None \<Rightarrow> True | Some st \<Rightarrow> o_status r = st) \<and>
     (case gq_class q of None \<Rightarrow> True | Some c \<Rightarrow> o_class r = c)"

definition org_List :: "env \<Rightarrow> ctx \<Rightarrow> org_query \<Rightarrow> string \<Rightarrow> (organization list \<times> uuid option) tx" where
  "org_List env cx q reason =
     (case ListLimit (gq_limit q) of
        Inl _ \<Rightarrow> raise (ErrInvalid PkgOrganization)
      | Inr limit \<Rightarrow>
     seq (ensure (case gq_status q of None \<Rightarrow> True | Some st \<Rightarrow> org_Valid st) (ErrInvalid PkgOrganization)) (\<lambda>_.
     seq (ensure (case gq_class q of None \<Rightarrow> True | Some c \<Rightarrow> classification_Valid c) (ErrInvalid PkgOrganization)) (\<lambda>_.
     seq (WithProviderScope env cx reason (\<lambda>b cx.
       seq (read_db (\<lambda>s. take (nat limit + 1)
              (keyset_rows o_id (gq_after q) (org_matches q) (organizations s)))) (\<lambda>rows.
       foreach (\<lambda>r. lift (scanOrganization r)) rows))) (\<lambda>records.
     return (page_of o_id limit records)))))"

section \<open>Workspaces\<close>

record create_request =
  wc_displayName :: string
  wc_type :: string
  wc_tenant :: uuid

record ws_command =
  wk_workspace :: uuid
  wk_expectedVersion :: int

definition ws_createdEventType :: string where
  "ws_createdEventType = ''com.scnehaux.organization.workspace.lifecycle.created''"

definition ws_NewPayload :: "workspace \<Rightarrow> payload" where
  "ws_NewPayload r = WorkspacePayload (ws_id r) (ws_tenant r) (ws_name r) (ws_type r) (ws_status r) (ws_version r)"

definition ws_publish :: "env \<Rightarrow> string \<Rightarrow> workspace \<Rightarrow> instant \<Rightarrow> unit tx" where
  "ws_publish env rawType r at =
     seq (ensure (parses env rawType) (ErrInternal ''workspace: event type'')) (\<lambda>_.
     seq (publish env (ws_id r) rawType at (ws_NewPayload r) False) (\<lambda>_.
     return ()))"

definition ws_insert :: "env \<Rightarrow> binding \<Rightarrow> workspace \<Rightarrow> workspace tx" where
  "ws_insert env b r =
     seq (read_db (\<lambda>s. sees b (ws_tenant r) \<and> row_of ws_id (ws_id r) (workspaces s) = None \<and>
            row_of TenantID (ws_tenant r) (tenants s) \<noteq> None)) (\<lambda>ok.
     seq (ensure ok (ErrInternal ''workspace: insert'')) (\<lambda>_.
     seq (db_now env) (\<lambda>created.
     let r' = r\<lparr>ws_status := WsActive, ws_version := 1, ws_created := created\<rparr>
     in seq (write_db (\<lambda>s. s\<lparr>workspaces := workspaces s @ [r']\<rparr>)) (\<lambda>_. return r'))))"

definition create_body :: "env \<Rightarrow> workspace \<Rightarrow> instant \<Rightarrow> workspace body" where
  "create_body env r at b cx =
     seq (ws_insert env b r) (\<lambda>r'.
     seq (ws_publish env ws_createdEventType r' at) (\<lambda>_.
     seq (Respond env cx (ResWorkspace r')) (\<lambda>_.
     return r')))"

text \<open>The refusal of another Tenant carries no sentinel, so it is answered as an internal error.\<close>

definition Create :: "env \<Rightarrow> ctx \<Rightarrow> create_request \<Rightarrow> workspace tx" where
  "Create env cx req =
     seq (ensure (\<not> blank (wc_displayName req)) (ErrInvalid PkgWorkspace)) (\<lambda>_.
     seq (ensure (\<not> blank (wc_type req)) (ErrInvalid PkgWorkspace)) (\<lambda>_.
     seq (ScopeFrom cx) (\<lambda>scope.
     seq (ensure (IsNil (wc_tenant req) \<or> wc_tenant req = sc_tenant scope)
            (ErrInternal ''workspace: the request names another Tenant'')) (\<lambda>_.
     seq (newID env) (\<lambda>workspaceID.
     seq (now env) (\<lambda>at.
     WithTenantScope env cx
       (create_body env \<lparr>ws_id = workspaceID, ws_tenant = sc_tenant scope, ws_name = wc_displayName req,
          ws_type = wc_type req, ws_status = WsActive, ws_version = 0, ws_created = 0\<rparr> at)))))))"

definition ws_validate :: "ws_command \<Rightarrow> error + unit" where
  "ws_validate c =
     (if IsNil (wk_workspace c) then Inl (ErrInvalid PkgWorkspace)
      else if wk_expectedVersion c \<le> 0 then Inl (ErrInvalid PkgWorkspace)
      else Inr ())"

definition ws_row :: "binding \<Rightarrow> uuid \<Rightarrow> store \<Rightarrow> workspace option" where
  "ws_row b workspaceID s =
     (case row_of ws_id workspaceID (workspaces s) of
        Some r \<Rightarrow> if sees b (ws_tenant r) then Some r else None
      | None \<Rightarrow> None)"

definition scanWorkspace :: "workspace \<Rightarrow> error + workspace" where
  "scanWorkspace r = (if ws_Valid (ws_status r) then Inr r else Inl (ErrInternal ''workspace: stored status''))"

definition ws_load :: "binding \<Rightarrow> uuid \<Rightarrow> workspace tx" where
  "ws_load b workspaceID =
     seq (read_db (ws_row b workspaceID)) (\<lambda>row.
     case row of
       None \<Rightarrow> raise (ErrNotFound PkgWorkspace)
     | Some r \<Rightarrow> lift (scanWorkspace r))"

definition ws_update :: "binding \<Rightarrow> uuid \<Rightarrow> ws_state \<Rightarrow> int tx" where
  "ws_update b workspaceID to =
     seq (read_db (ws_row b workspaceID)) (\<lambda>row.
     case row of
       None \<Rightarrow> raise (ErrInternal ''workspace: update status'')
     | Some r \<Rightarrow>
         seq (lift (bigint_incr (ws_version r))) (\<lambda>v.
         seq (write_db (\<lambda>s. s\<lparr>workspaces :=
                put_row ws_id (r\<lparr>ws_status := to, ws_version := v\<rparr>) (workspaces s)\<rparr>)) (\<lambda>_.
         return v)))"

definition referencing :: "binding \<Rightarrow> uuid \<Rightarrow> membership \<Rightarrow> bool" where
  "referencing b workspaceID m \<longleftrightarrow>
     sees b (m_tenant m) \<and> m_workspace m = workspaceID \<and> m_status m \<noteq> MembershipRevoked"

definition referencingMemberships :: "env \<Rightarrow> binding \<Rightarrow> uuid \<Rightarrow> string list tx" where
  "referencingMemberships env b workspaceID =
     read_db (\<lambda>s. map (\<lambda>m. uuid_text env (m_id m) @ '' ('' @ membership_text (m_status m) @ '')'')
       (sort_key m_id (filter (referencing b workspaceID) (memberships s))))"

definition ws_gate :: "env \<Rightarrow> binding \<Rightarrow> ws_action \<Rightarrow> uuid \<Rightarrow> unit tx" where
  "ws_gate env b action workspaceID =
     (if action = WsRetire
      then seq (referencingMemberships env b workspaceID) (\<lambda>names. ensure (\<not> length names > 0) ErrMembershipsPresent)
      else return ())"

definition ws_transition_body :: "env \<Rightarrow> ws_action \<Rightarrow> ws_command \<Rightarrow> instant \<Rightarrow> workspace body" where
  "ws_transition_body env action cmd at b cx =
     seq (ws_load b (wk_workspace cmd)) (\<lambda>current.
     seq (lift (ws_Resolve action (ws_status current))) (\<lambda>to.
     seq (ensure (ws_version current = wk_expectedVersion cmd) (ErrVersionMismatch PkgWorkspace)) (\<lambda>_.
     seq (ws_gate env b action (wk_workspace cmd)) (\<lambda>_.
     seq (ws_update b (wk_workspace cmd) to) (\<lambda>updated.
     let r' = current\<lparr>ws_status := to, ws_version := updated\<rparr>
     in seq (lift (ws_EventType (parses env) action)) (\<lambda>eventType.
        seq (ws_publish env eventType r' at) (\<lambda>_.
        seq (Respond env cx (ResWorkspace r')) (\<lambda>_.
        return r'))))))))"

definition ws_transition :: "env \<Rightarrow> ctx \<Rightarrow> ws_action \<Rightarrow> ws_command \<Rightarrow> workspace tx" where
  "ws_transition env cx action cmd =
     seq (lift (ws_validate cmd)) (\<lambda>_.
     seq (ScopeFrom cx) (\<lambda>_.
     seq (now env) (\<lambda>at.
     WithTenantScope env cx (ws_transition_body env action cmd at))))"

definition ws_Archive :: "env \<Rightarrow> ctx \<Rightarrow> ws_command \<Rightarrow> workspace tx" where
  "ws_Archive env cx cmd = ws_transition env cx WsArchive cmd"

definition ws_Restore :: "env \<Rightarrow> ctx \<Rightarrow> ws_command \<Rightarrow> workspace tx" where
  "ws_Restore env cx cmd = ws_transition env cx WsRestore cmd"

definition ws_Retire :: "env \<Rightarrow> ctx \<Rightarrow> ws_command \<Rightarrow> workspace tx" where
  "ws_Retire env cx cmd = ws_transition env cx WsRetire cmd"

definition ReferencingMemberships :: "env \<Rightarrow> ctx \<Rightarrow> uuid \<Rightarrow> string list tx" where
  "ReferencingMemberships env cx workspaceID =
     WithTenantScope env cx (\<lambda>b cx. referencingMemberships env b workspaceID)"

definition ws_Get :: "env \<Rightarrow> ctx \<Rightarrow> uuid \<Rightarrow> workspace tx" where
  "ws_Get env cx workspaceID = WithTenantScope env cx (\<lambda>b cx. ws_load b workspaceID)"

record ws_query =
  wq_after :: uuid
  wq_limit :: int
  wq_status :: "ws_state option"

definition ws_matches :: "binding \<Rightarrow> ws_query \<Rightarrow> workspace \<Rightarrow> bool" where
  "ws_matches b q r \<longleftrightarrow>
     sees b (ws_tenant r) \<and> (case wq_status q of None \<Rightarrow> True | Some st \<Rightarrow> ws_status r = st)"

definition ws_List :: "env \<Rightarrow> ctx \<Rightarrow> ws_query \<Rightarrow> (workspace list \<times> uuid option) tx" where
  "ws_List env cx q =
     (case ListLimit (wq_limit q) of
        Inl _ \<Rightarrow> raise (ErrInvalid PkgWorkspace)
      | Inr limit \<Rightarrow>
     seq (ensure (case wq_status q of None \<Rightarrow> True | Some st \<Rightarrow> ws_Valid st) (ErrInvalid PkgWorkspace)) (\<lambda>_.
     seq (WithTenantRead env cx (\<lambda>b cx.
       seq (read_db (\<lambda>s. take (nat limit + 1)
              (keyset_rows ws_id (wq_after q) (ws_matches b q) (workspaces s)))) (\<lambda>rows.
       foreach (\<lambda>r. lift (scanWorkspace r)) rows))) (\<lambda>records.
     return (page_of ws_id limit records))))"

section \<open>What a registry change does\<close>

lemma org_load_run [run_simps]:
  "org_load k w = (Inr r, w') \<longleftrightarrow>
     row_of o_id k (organizations (store w)) = Some r \<and> classification_Valid (o_class r) \<and> org_Valid (o_status r) \<and> w' = w"
  by (auto simp: org_load_def scanOrganization_def run_simps split: option.splits if_splits)

lemma org_update_run [run_simps]:
  "org_update k to w = (Inr v, w') \<longleftrightarrow>
     (\<exists>r. row_of o_id k (organizations (store w)) = Some r \<and> o_version r < bigint_max \<and> v = o_version r + 1 \<and>
       w' = w\<lparr>store := (store w)\<lparr>organizations :=
         put_row o_id (r\<lparr>o_status := to, o_version := v\<rparr>) (organizations (store w))\<rparr>\<rparr>)"
  by (auto simp: org_update_def run_simps bigint_incr_Inr split: option.splits)

lemma ws_load_run [run_simps]:
  "ws_load b k w = (Inr r, w') \<longleftrightarrow>
     row_of ws_id k (workspaces (store w)) = Some r \<and> sees b (ws_tenant r) \<and> ws_Valid (ws_status r) \<and> w' = w"
  by (auto simp: ws_load_def ws_row_def scanWorkspace_def run_simps split: option.splits if_splits)

lemma ws_update_run [run_simps]:
  "ws_update b k to w = (Inr v, w') \<longleftrightarrow>
     (\<exists>r. row_of ws_id k (workspaces (store w)) = Some r \<and> sees b (ws_tenant r) \<and>
       ws_version r < bigint_max \<and> v = ws_version r + 1 \<and>
       w' = w\<lparr>store := (store w)\<lparr>workspaces :=
         put_row ws_id (r\<lparr>ws_status := to, ws_version := v\<rparr>) (workspaces (store w))\<rparr>\<rparr>)"
  by (auto simp: ws_update_def ws_row_def run_simps bigint_incr_Inr split: option.splits if_splits)

definition org_message :: "string \<Rightarrow> organization \<Rightarrow> instant \<Rightarrow> uuid \<Rightarrow> message" where
  "org_message etype r at eventID =
     \<lparr>msg_id = eventID, msg_aggregate = o_id r, msg_type = etype, msg_at = at, msg_payload = org_NewPayload r,
      msg_priority = False\<rparr>"

definition ws_message :: "string \<Rightarrow> workspace \<Rightarrow> instant \<Rightarrow> uuid \<Rightarrow> message" where
  "ws_message etype r at eventID =
     \<lparr>msg_id = eventID, msg_aggregate = ws_id r, msg_type = etype, msg_at = at, msg_payload = ws_NewPayload r,
      msg_priority = False\<rparr>"

lemma org_publish_run:
  assumes "org_publish env etype r at w = (Inr u, w')"
  obtains eventID where "store w' = (store w)\<lparr>outbox := outbox (store w) @ [org_message etype r at eventID]\<rparr>"
  using assms by (auto simp: org_publish_def run_simps Let_def org_message_def)

lemma ws_publish_run:
  assumes "ws_publish env etype r at w = (Inr u, w')"
  obtains eventID where "store w' = (store w)\<lparr>outbox := outbox (store w) @ [ws_message etype r at eventID]\<rparr>"
  using assms by (auto simp: ws_publish_def run_simps Let_def ws_message_def)

lemma sort_Nil [simp]: "sort_key f xs = [] \<longleftrightarrow> xs = []"
  by (metis length_0_conv length_sort)

lemma org_gate_run [run_simps]:
  "org_gate env a k w = (Inr u, w') \<longleftrightarrow>
     (a = OrgRetire \<longrightarrow> (\<forall>t \<in> set (tenants (store w)). \<not> live_sponsored k t)) \<and> w' = w"
  by (auto simp: org_gate_def liveTenants_def run_simps filter_empty_conv)

lemma ws_gate_run [run_simps]:
  "ws_gate env b a k w = (Inr u, w') \<longleftrightarrow>
     (a = WsRetire \<longrightarrow> (\<forall>m \<in> set (memberships (store w)). \<not> referencing b k m)) \<and> w' = w"
  by (auto simp: ws_gate_def referencingMemberships_def run_simps filter_empty_conv)

text \<open>One status change of a row: permitted, on the version after the stored one, nothing in its way.\<close>

definition org_stepped :: "org_action \<Rightarrow> organization \<Rightarrow> organization \<Rightarrow> store \<Rightarrow> bool" where
  "org_stepped a r r' s \<longleftrightarrow>
     row_of o_id (o_id r) (organizations s) = Some r \<and> o_version r < bigint_max \<and>
     org_Resolve a (o_status r) = Inr (o_status r') \<and>
     r' = r\<lparr>o_status := o_status r', o_version := o_version r + 1\<rparr> \<and>
     (a = OrgRetire \<longrightarrow> (\<forall>t \<in> set (tenants s). \<not> live_sponsored (o_id r) t))"

definition ws_stepped :: "binding \<Rightarrow> ws_action \<Rightarrow> workspace \<Rightarrow> workspace \<Rightarrow> store \<Rightarrow> bool" where
  "ws_stepped b a r r' s \<longleftrightarrow>
     row_of ws_id (ws_id r) (workspaces s) = Some r \<and> sees b (ws_tenant r) \<and> ws_version r < bigint_max \<and>
     ws_Resolve a (ws_status r) = Inr (ws_status r') \<and>
     r' = r\<lparr>ws_status := ws_status r', ws_version := ws_version r + 1\<rparr> \<and>
     (a = WsRetire \<longrightarrow> (\<forall>m \<in> set (memberships s). \<not> referencing b (ws_id r) m))"

lemma org_transition_body_run:
  assumes "org_transition_body env action cmd at b cx w = (Inr r', w')"
  obtains r etype e where "row_of o_id (gc_organization cmd) (organizations (store w)) = Some r"
    "o_version r = gc_expectedVersion cmd" "org_stepped action r r' (store w)" "org_eventTypes action = Some etype"
    "data w' = (data w)\<lparr>organizations := put_row o_id r' (organizations (store w)),
       outbox := outbox (store w) @ [org_message etype r' at e]\<rparr>"
proof -
  from assms obtain r to etype w3 where
    r: "row_of o_id (gc_organization cmd) (organizations (store w)) = Some r" "o_version r = gc_expectedVersion cmd"
    and to: "org_Resolve action (o_status r) = Inr to" "o_version r < bigint_max"
    and free: "action = OrgRetire \<longrightarrow> (\<forall>t \<in> set (tenants (store w)). \<not> live_sponsored (gc_organization cmd) t)"
    and et: "org_EventType (parses env) action = Inr etype"
    and r': "r' = r\<lparr>o_status := to, o_version := o_version r + 1\<rparr>"
    and p: "org_publish env etype r' at (w\<lparr>store := (store w)\<lparr>organizations := put_row o_id r' (organizations (store w))\<rparr>\<rparr>) = (Inr (), w3)"
    and rs: "Respond env cx (ResOrganization r') w3 = (Inr (), w')"
    by (auto simp: org_transition_body_def run_simps Let_def)
  have id: "o_id r = gc_organization cmd" using row_of_SomeD[OF r(1)] by simp
  from p obtain e where w3: "store w3 = (store w)\<lparr>organizations := put_row o_id r' (organizations (store w)),
      outbox := outbox (store w) @ [org_message etype r' at e]\<rparr>"
    by (rule org_publish_run) simp
  have "data w' = (data w)\<lparr>organizations := put_row o_id r' (organizations (store w)),
       outbox := outbox (store w) @ [org_message etype r' at e]\<rparr>"
    using Respond_run[OF rs] w3 by (simp add: bookkept_def data_def)
  moreover have "org_stepped action r r' (store w)"
    using r to free r' id by (simp add: org_stepped_def)
  moreover have "org_eventTypes action = Some etype"
    using et by (auto simp: org_EventType_def split: option.splits if_splits)
  ultimately show thesis using that r by blast
qed

lemma ws_transition_body_run:
  assumes "ws_transition_body env action cmd at b cx w = (Inr r', w')"
  obtains r etype e where "row_of ws_id (wk_workspace cmd) (workspaces (store w)) = Some r"
    "ws_version r = wk_expectedVersion cmd" "ws_stepped b action r r' (store w)" "ws_eventTypes action = Some etype"
    "data w' = (data w)\<lparr>workspaces := put_row ws_id r' (workspaces (store w)),
       outbox := outbox (store w) @ [ws_message etype r' at e]\<rparr>"
proof -
  from assms obtain r to etype w3 where
    r: "row_of ws_id (wk_workspace cmd) (workspaces (store w)) = Some r" "ws_version r = wk_expectedVersion cmd"
      "sees b (ws_tenant r)"
    and to: "ws_Resolve action (ws_status r) = Inr to" "ws_version r < bigint_max"
    and free: "action = WsRetire \<longrightarrow> (\<forall>m \<in> set (memberships (store w)). \<not> referencing b (wk_workspace cmd) m)"
    and et: "ws_EventType (parses env) action = Inr etype"
    and r': "r' = r\<lparr>ws_status := to, ws_version := ws_version r + 1\<rparr>"
    and p: "ws_publish env etype r' at (w\<lparr>store := (store w)\<lparr>workspaces := put_row ws_id r' (workspaces (store w))\<rparr>\<rparr>) = (Inr (), w3)"
    and rs: "Respond env cx (ResWorkspace r') w3 = (Inr (), w')"
    by (auto simp: ws_transition_body_def run_simps Let_def)
  have id: "ws_id r = wk_workspace cmd" using row_of_SomeD[OF r(1)] by simp
  from p obtain e where w3: "store w3 = (store w)\<lparr>workspaces := put_row ws_id r' (workspaces (store w)),
      outbox := outbox (store w) @ [ws_message etype r' at e]\<rparr>"
    by (rule ws_publish_run) simp
  have "data w' = (data w)\<lparr>workspaces := put_row ws_id r' (workspaces (store w)),
       outbox := outbox (store w) @ [ws_message etype r' at e]\<rparr>"
    using Respond_run[OF rs] w3 by (simp add: bookkept_def data_def)
  moreover have "ws_stepped b action r r' (store w)"
    using r to free r' id by (simp add: ws_stepped_def)
  moreover have "ws_eventTypes action = Some etype"
    using et by (auto simp: ws_EventType_def split: option.splits if_splits)
  ultimately show thesis using that r by blast
qed

end
