(* ===== verification/Registry_Relations.thy ===== *)
theory Registry_Relations
  imports Registry_Service
begin

text \<open>
  What the operations of the two registries do to the store: their exact effects, and the relations they
  respect.
\<close>

section \<open>Organizations\<close>

definition fresh_organization :: "organization \<Rightarrow> store \<Rightarrow> bool" where
  "fresh_organization r s \<longleftrightarrow>
     row_of o_id (o_id r) (organizations s) = None \<and> o_status r = OrgActive \<and> o_version r = 1 \<and>
     classification_Valid (o_class r) \<and>
     (\<forall>p. o_parent r = Some p \<longrightarrow> (\<exists>q. row_of o_id p (organizations s) = Some q \<and> o_status q \<noteq> OrgRetired))"

lemma parent_check_run [run_simps]:
  "parent_check parent w = (Inr u, w') \<longleftrightarrow>
     (\<forall>p. parent = Some p \<longrightarrow> (\<exists>q. row_of o_id p (organizations (store w)) = Some q \<and> o_status q \<noteq> OrgRetired)) \<and> w' = w"
  by (auto simp: parent_check_def run_simps split: option.splits)

lemma Register_run:
  assumes "Register env cx req w = (Inr r', w')"
  obtains scope i at e where "cx_scope cx = Some scope" "sc_provider scope" "fresh_organization r' (store w)"
    "o_name r' = rg_displayName req" "o_class r' = rg_class req" "o_parent r' = rg_parent req"
    "data w' = (with_audit [(Evidence scope cx (rg_reason req))\<lparr>ac_id := fst i, ac_occurredAt := snd i\<rparr>] (data w))
       \<lparr>organizations := organizations (store w) @ [r'],
        outbox := outbox (store w) @ [org_message org_createdEventType r' at e]\<rparr>"
proof -
  define w0 where "w0 = w\<lparr>minted := Suc (minted w), ticks := Suc (ticks w)\<rparr>"
  from assms obtain k where cls: "classification_Valid (rg_class req)"
    and run: "WithProviderScope env cx (rg_reason req)
       (register_body env \<lparr>o_id = k, o_name = rg_displayName req, o_class = rg_class req,
          o_status = OrgActive, o_parent = rg_parent req, o_version = 0, o_created = 0\<rparr> (clock env (ticks w))) w0 = (Inr r', w')"
    by (auto simp: Register_def run_simps w0_def)
  from run obtain scope i cx1 w1 where s: "cx_scope cx = Some scope" "sc_provider scope"
    and e: "entered [(Evidence scope cx (rg_reason req))\<lparr>ac_id := fst i, ac_occurredAt := snd i\<rparr>] w0 w1"
    and b: "register_body env \<lparr>o_id = k, o_name = rg_displayName req, o_class = rg_class req,
          o_status = OrgActive, o_parent = rg_parent req, o_version = 0, o_created = 0\<rparr> (clock env (ticks w))
          BoundProvider cx1 w1 = (Inr r', w')"
    by (rule WithProviderScope_enters)
  have orgs: "organizations (store w1) = organizations (store w)" using entered_fields[OF e] by (simp add: w0_def)
  from b obtain w3 where f: "fresh_organization r' (store w)"
    "o_name r' = rg_displayName req" "o_class r' = rg_class req" "o_parent r' = rg_parent req"
    and p: "org_publish env org_createdEventType r' (clock env (ticks w))
       (w1\<lparr>store := (store w1)\<lparr>organizations := organizations (store w1) @ [r']\<rparr>\<rparr>) = (Inr (), w3)"
    and rs: "Respond env cx1 (ResOrganization r') w3 = (Inr (), w')"
    using cls by (auto simp: register_body_def org_insert_def run_simps Let_def fresh_organization_def orgs)
  from p obtain ev where w3: "store w3 = (store w1)\<lparr>organizations := organizations (store w1) @ [r'],
      outbox := outbox (store w1) @ [org_message org_createdEventType r' (clock env (ticks w)) ev]\<rparr>"
    by (rule org_publish_run) simp
  have d: "data w1 = with_audit [(Evidence scope cx (rg_reason req))\<lparr>ac_id := fst i, ac_occurredAt := snd i\<rparr>] (data w)"
    using e by (simp add: entered_def w0_def data_def)
  have "data w' = (data w1)\<lparr>organizations := organizations (store w1) @ [r'],
      outbox := outbox (store w1) @ [org_message org_createdEventType r' (clock env (ticks w)) ev]\<rparr>"
    using Respond_run[OF rs] w3 by (simp add: bookkept_def data_def)
  then have "data w' = (with_audit [(Evidence scope cx (rg_reason req))\<lparr>ac_id := fst i, ac_occurredAt := snd i\<rparr>] (data w))
       \<lparr>organizations := organizations (store w) @ [r'],
        outbox := outbox (store w) @ [org_message org_createdEventType r' (clock env (ticks w)) ev]\<rparr>"
    using d entered_fields(6,14)[OF e] by (simp add: w0_def)
  then show thesis using that s f by blast
qed

lemma org_transition_run:
  assumes "org_transition env cx action cmd w = (Inr r', w')"
  obtains r etype scope i at e where "row_of o_id (gc_organization cmd) (organizations (store w)) = Some r"
    "o_version r = gc_expectedVersion cmd" "org_stepped action r r' (store w)" "org_eventTypes action = Some etype"
    "cx_scope cx = Some scope" "sc_provider scope"
    "data w' = (with_audit [(Evidence scope cx (gc_reason cmd))\<lparr>ac_id := fst i, ac_occurredAt := snd i\<rparr>] (data w))
       \<lparr>organizations := put_row o_id r' (organizations (store w)),
        outbox := outbox (store w) @ [org_message etype r' at e]\<rparr>"
proof -
  define w0 where "w0 = w\<lparr>ticks := Suc (ticks w)\<rparr>"
  from assms have "WithProviderScope env cx (gc_reason cmd) (org_transition_body env action cmd (clock env (ticks w))) w0 = (Inr r', w')"
    by (auto simp: org_transition_def run_simps w0_def)
  then obtain scope i cx1 w1 where s: "cx_scope cx = Some scope" "sc_provider scope"
    and en: "entered [(Evidence scope cx (gc_reason cmd))\<lparr>ac_id := fst i, ac_occurredAt := snd i\<rparr>] w0 w1"
    and b: "org_transition_body env action cmd (clock env (ticks w)) BoundProvider cx1 w1 = (Inr r', w')"
    by (rule WithProviderScope_enters)
  from b obtain r etype e where r: "row_of o_id (gc_organization cmd) (organizations (store w1)) = Some r"
    "o_version r = gc_expectedVersion cmd" "org_stepped action r r' (store w1)" "org_eventTypes action = Some etype"
    and d: "data w' = (data w1)\<lparr>organizations := put_row o_id r' (organizations (store w1)),
       outbox := outbox (store w1) @ [org_message etype r' (clock env (ticks w)) e]\<rparr>"
    by (rule org_transition_body_run)
  have "data w1 = with_audit [(Evidence scope cx (gc_reason cmd))\<lparr>ac_id := fst i, ac_occurredAt := snd i\<rparr>] (data w)"
    using en by (simp add: entered_def w0_def data_def)
  then have "data w' = (with_audit [(Evidence scope cx (gc_reason cmd))\<lparr>ac_id := fst i, ac_occurredAt := snd i\<rparr>] (data w))
       \<lparr>organizations := put_row o_id r' (organizations (store w)),
        outbox := outbox (store w) @ [org_message etype r' (clock env (ticks w)) e]\<rparr>"
    using d entered_fields(6,14)[OF en] by (simp add: w0_def)
  moreover have "org_stepped action r r' (store w)"
    using r(3) entered_fields(1,6)[OF en] by (simp add: org_stepped_def w0_def)
  ultimately show thesis using that r s entered_fields(6)[OF en] by (simp add: w0_def)
qed

locale organization_relation = table_relation R for R +
  assumes organization_insert: "fresh_organization r s \<Longrightarrow> R s (s\<lparr>organizations := organizations s @ [r]\<rparr>)"
    and organization_step: "org_stepped a r r' s \<Longrightarrow> R s (s\<lparr>organizations := put_row o_id r' (organizations s)\<rparr>)"
begin

lemma related_org_data:
  assumes "R (with_audit rows (data w)) ((with_audit rows (data w))\<lparr>organizations := orgs\<rparr>)"
    "data w' = (with_audit rows (data w))\<lparr>organizations := orgs, outbox := ms\<rparr>"
  shows "R (data w) (data w')"
proof -
  have "R (data w) (with_audit rows (data w))" by (simp add: with_audit_def keeps_audit)
  also note step = store_trans[OF this assms(1)]
  show ?thesis unfolding assms(2) by (rule store_trans[OF step keeps_outbox])
qed

lemma a_Register: "always R (Register env cx req)"
proof (rule a_by_effect)
  show "aborts attempted (Register env cx req)"
    unfolding Register_def by (intro aborts_seq_quiet_attempted quiet_steps WithProviderScope_aborts)
  fix w r' w' assume "Register env cx req w = (Inr r', w')"
  then show "R (data w) (data w')"
  proof (rule Register_run)
    fix scope i at e
    let ?s = "with_audit [(Evidence scope cx (rg_reason req))\<lparr>ac_id := fst i, ac_occurredAt := snd i\<rparr>] (data w)"
    assume f: "fresh_organization r' (store w)"
      and d: "data w' = ?s\<lparr>organizations := organizations (store w) @ [r'],
        outbox := outbox (store w) @ [org_message org_createdEventType r' at e]\<rparr>"
    have "fresh_organization r' ?s" using f by (simp add: fresh_organization_def with_audit_def data_def)
    then have "R ?s (?s\<lparr>organizations := organizations ?s @ [r']\<rparr>)" by (rule organization_insert)
    then show ?thesis using d by (intro related_org_data[OF _ d]) (simp add: with_audit_def data_def)
  qed
qed

lemma a_org_transition: "always R (org_transition env cx action cmd)"
proof (rule a_by_effect)
  show "aborts attempted (org_transition env cx action cmd)"
    unfolding org_transition_def by (intro aborts_seq_quiet_attempted quiet_steps WithProviderScope_aborts)
  fix w r' w' assume "org_transition env cx action cmd w = (Inr r', w')"
  then show "R (data w) (data w')"
  proof (rule org_transition_run)
    fix r etype scope i at e
    let ?s = "with_audit [(Evidence scope cx (gc_reason cmd))\<lparr>ac_id := fst i, ac_occurredAt := snd i\<rparr>] (data w)"
    assume f: "org_stepped action r r' (store w)"
      and d: "data w' = ?s\<lparr>organizations := put_row o_id r' (organizations (store w)),
        outbox := outbox (store w) @ [org_message etype r' at e]\<rparr>"
    have "org_stepped action r r' ?s" using f by (simp add: org_stepped_def with_audit_def data_def)
    then have "R ?s (?s\<lparr>organizations := put_row o_id r' (organizations ?s)\<rparr>)" by (rule organization_step)
    then show ?thesis by (intro related_org_data[OF _ d]) (simp add: with_audit_def data_def)
  qed
qed

lemma a_org_commands:
  "always R (org_Suspend env cx cmd)" "always R (org_Restore env cx cmd)" "always R (org_Retire env cx cmd)"
  unfolding org_Suspend_def org_Restore_def org_Retire_def by (rule a_org_transition)+

lemma a_org_reads:
  "always R (org_Get env cx k)"
  "always R (SponsoredTenantsNotRetired env cx k)"
  "always R (org_List env cx q reason)"
proof -
  show "always R (org_Get env cx k)" "always R (SponsoredTenantsNotRetired env cx k)"
    unfolding org_Get_def SponsoredTenantsNotRetired_def org_load_def liveTenants_def
    by (intro a_WithProviderScope y_store_intros)+
  show "always R (org_List env cx q reason)"
  proof (cases "ListLimit (gq_limit q)")
    case (Inr limit)
    show ?thesis
      unfolding org_List_def Inr sum.case
      by (intro a_seq_quiet[OF quiet_steps(4)] a_seq[OF a_WithProviderScope] a_return y_store_intros)
  qed (simp add: org_List_def a_raise)
qed

end

text \<open>
  A change of an Organization that succeeds ran under a provider scope on the version shown, from a
  state its rule permits, and leaves the evidence, the row with its status and the next version, and one
  standard-lane event of the row. A retirement found every Tenant the Organization sponsors retired.
\<close>

theorem org_transition_effect:
  assumes "org_transition env cx action cmd w = (Inr r', w')"
  shows "\<exists>r etype scope i at e.
    row_of o_id (gc_organization cmd) (organizations (store w)) = Some r \<and> o_version r = gc_expectedVersion cmd \<and>
    org_Resolve action (o_status r) = Inr (o_status r') \<and>
    r' = r\<lparr>o_status := o_status r', o_version := o_version r + 1\<rparr> \<and> org_eventTypes action = Some etype \<and>
    cx_scope cx = Some scope \<and> sc_provider scope \<and>
    (action = OrgRetire \<longrightarrow>
       (\<forall>t \<in> set (tenants (store w)). OrganizationID t = gc_organization cmd \<longrightarrow> Status t = TenantRetired)) \<and>
    data w' = (with_audit [(Evidence scope cx (gc_reason cmd))\<lparr>ac_id := fst i, ac_occurredAt := snd i\<rparr>] (data w))
       \<lparr>organizations := put_row o_id r' (organizations (store w)),
        outbox := outbox (store w) @ [org_message etype r' at e]\<rparr>"
  using assms
proof (rule org_transition_run)
  fix r etype scope i at e
  assume r: "row_of o_id (gc_organization cmd) (organizations (store w)) = Some r" "o_version r = gc_expectedVersion cmd"
    "org_stepped action r r' (store w)" "org_eventTypes action = Some etype" "cx_scope cx = Some scope" "sc_provider scope"
    and d: "data w' = (with_audit [(Evidence scope cx (gc_reason cmd))\<lparr>ac_id := fst i, ac_occurredAt := snd i\<rparr>] (data w))
       \<lparr>organizations := put_row o_id r' (organizations (store w)),
        outbox := outbox (store w) @ [org_message etype r' at e]\<rparr>"
  have "o_id r = gc_organization cmd" using row_of_SomeD[OF r(1)] by simp
  then have "org_Resolve action (o_status r) = Inr (o_status r')"
    "r' = r\<lparr>o_status := o_status r', o_version := o_version r + 1\<rparr>"
    "action = OrgRetire \<longrightarrow> (\<forall>t \<in> set (tenants (store w)). OrganizationID t = gc_organization cmd \<longrightarrow> Status t = TenantRetired)"
    using r(3) by (auto simp: org_stepped_def live_sponsored_def)
  then show ?thesis using r d by blast
qed

section \<open>Workspaces\<close>

lemma bindTenant_sees: "sees (bindTenant scope) t \<longleftrightarrow> t = sc_tenant scope"
  by (simp add: bindTenant_def)

definition fresh_workspace :: "workspace \<Rightarrow> store \<Rightarrow> bool" where
  "fresh_workspace r s \<longleftrightarrow>
     row_of ws_id (ws_id r) (workspaces s) = None \<and> ws_status r = WsActive \<and> ws_version r = 1 \<and>
     row_of TenantID (ws_tenant r) (tenants s) \<noteq> None"

lemma Create_run:
  assumes "Create env cx req w = (Inr r', w')"
  obtains scope at e where "cx_scope cx = Some scope" "ws_tenant r' = sc_tenant scope" "fresh_workspace r' (store w)"
    "ws_name r' = wc_displayName req" "ws_type r' = wc_type req"
    "data w' = (data w)\<lparr>workspaces := workspaces (store w) @ [r'],
        outbox := outbox (store w) @ [ws_message ws_createdEventType r' at e]\<rparr>"
proof -
  define w0 where "w0 = w\<lparr>minted := Suc (minted w), ticks := Suc (ticks w)\<rparr>"
  from assms obtain scope k where sc: "cx_scope cx = Some scope"
    and run: "WithTenantScope env cx (create_body env \<lparr>ws_id = k, ws_tenant = sc_tenant scope, ws_name = wc_displayName req,
          ws_type = wc_type req, ws_status = WsActive, ws_version = 0, ws_created = 0\<rparr> (clock env (ticks w))) w0 = (Inr r', w')"
    by (auto simp: Create_def run_simps w0_def)
  from run obtain cx1 w1 b where en: "entered [] w0 w1"
    and b: "create_body env \<lparr>ws_id = k, ws_tenant = sc_tenant scope, ws_name = wc_displayName req,
          ws_type = wc_type req, ws_status = WsActive, ws_version = 0, ws_created = 0\<rparr> (clock env (ticks w)) b cx1 w1 = (Inr r', w')"
    by (rule WithTenantScope_enters) blast
  have same: "workspaces (store w1) = workspaces (store w)" "tenants (store w1) = tenants (store w)"
    using entered_fields[OF en] by (simp_all add: w0_def)
  from b obtain w3 where f: "fresh_workspace r' (store w)" "ws_tenant r' = sc_tenant scope"
    "ws_name r' = wc_displayName req" "ws_type r' = wc_type req"
    and p: "ws_publish env ws_createdEventType r' (clock env (ticks w))
       (w1\<lparr>store := (store w1)\<lparr>workspaces := workspaces (store w1) @ [r']\<rparr>\<rparr>) = (Inr (), w3)"
    and rs: "Respond env cx1 (ResWorkspace r') w3 = (Inr (), w')"
    by (auto simp: create_body_def ws_insert_def run_simps Let_def fresh_workspace_def same)
  from p obtain ev where w3: "store w3 = (store w1)\<lparr>workspaces := workspaces (store w1) @ [r'],
      outbox := outbox (store w1) @ [ws_message ws_createdEventType r' (clock env (ticks w)) ev]\<rparr>"
    by (rule ws_publish_run) simp
  have d: "data w1 = data w" using en by (simp add: entered_def w0_def data_def with_audit_def)
  have "data w' = (data w1)\<lparr>workspaces := workspaces (store w1) @ [r'],
      outbox := outbox (store w1) @ [ws_message ws_createdEventType r' (clock env (ticks w)) ev]\<rparr>"
    using Respond_run[OF rs] w3 by (simp add: bookkept_def data_def)
  then have "data w' = (data w)\<lparr>workspaces := workspaces (store w) @ [r'],
      outbox := outbox (store w) @ [ws_message ws_createdEventType r' (clock env (ticks w)) ev]\<rparr>"
    using d entered_fields(7,14)[OF en] by (simp add: w0_def)
  then show thesis by (rule that[OF sc f(2) f(1) f(3,4)])
qed

lemma ws_transition_run:
  assumes "ws_transition env cx action cmd w = (Inr r', w')"
  obtains r etype scope at e where "row_of ws_id (wk_workspace cmd) (workspaces (store w)) = Some r"
    "ws_version r = wk_expectedVersion cmd" "ws_stepped (bindTenant scope) action r r' (store w)"
    "ws_eventTypes action = Some etype" "cx_scope cx = Some scope"
    "data w' = (data w)\<lparr>workspaces := put_row ws_id r' (workspaces (store w)),
        outbox := outbox (store w) @ [ws_message etype r' at e]\<rparr>"
proof -
  define w0 where "w0 = w\<lparr>ticks := Suc (ticks w)\<rparr>"
  from assms have "WithTenantScope env cx (ws_transition_body env action cmd (clock env (ticks w))) w0 = (Inr r', w')"
    by (auto simp: ws_transition_def run_simps w0_def)
  then obtain scope cx1 w1 where s: "cx_scope cx = Some scope" and en: "entered [] w0 w1"
    and b: "ws_transition_body env action cmd (clock env (ticks w)) (bindTenant scope) cx1 w1 = (Inr r', w')"
    by (rule WithTenantScope_enters)
  from b obtain r etype e where r: "row_of ws_id (wk_workspace cmd) (workspaces (store w1)) = Some r"
    "ws_version r = wk_expectedVersion cmd" "ws_stepped (bindTenant scope) action r r' (store w1)" "ws_eventTypes action = Some etype"
    and d: "data w' = (data w1)\<lparr>workspaces := put_row ws_id r' (workspaces (store w1)),
       outbox := outbox (store w1) @ [ws_message etype r' (clock env (ticks w)) e]\<rparr>"
    by (rule ws_transition_body_run)
  have same: "workspaces (store w1) = workspaces (store w)" "outbox (store w1) = outbox (store w)" "data w1 = data w"
    using entered_fields(7,14)[OF en] en by (simp_all add: w0_def entered_def data_def with_audit_def)
  have st: "ws_stepped (bindTenant scope) action r r' (store w)"
    using r(3) entered_fields(4,7)[OF en] by (simp add: ws_stepped_def w0_def)
  show thesis by (rule that[OF r(1)[unfolded same] r(2) st r(4) s d[unfolded same]])
qed

locale workspace_relation = table_relation R for R +
  fixes visible :: "uuid \<Rightarrow> bool"
  assumes workspace_insert:
    "fresh_workspace r s \<Longrightarrow> visible (ws_tenant r) \<Longrightarrow> R s (s\<lparr>workspaces := workspaces s @ [r]\<rparr>)"
    and workspace_step:
    "ws_stepped b a r r' s \<Longrightarrow> visible (ws_tenant r) \<Longrightarrow> R s (s\<lparr>workspaces := put_row ws_id r' (workspaces s)\<rparr>)"
begin

lemma a_Create:
  assumes "\<And>scope. cx_scope cx = Some scope \<Longrightarrow> visible (sc_tenant scope)"
  shows "always R (Create env cx req)"
proof (rule a_by_effect)
  show "aborts attempted (Create env cx req)"
    unfolding Create_def by (intro undone_attempted aborts_seq_quiet quiet_steps WithTenantScope_aborts)
  fix w r' w' assume "Create env cx req w = (Inr r', w')"
  then show "R (data w) (data w')"
  proof (rule Create_run)
    fix scope at e
    assume s: "cx_scope cx = Some scope" "ws_tenant r' = sc_tenant scope" "fresh_workspace r' (store w)"
      and d: "data w' = (data w)\<lparr>workspaces := workspaces (store w) @ [r'],
        outbox := outbox (store w) @ [ws_message ws_createdEventType r' at e]\<rparr>"
    have "R (data w) ((data w)\<lparr>workspaces := workspaces (data w) @ [r']\<rparr>)"
      using s assms by (intro workspace_insert) (auto simp: fresh_workspace_def data_def)
    then show ?thesis unfolding d using store_trans[OF _ keeps_outbox] by (simp add: data_def)
  qed
qed

lemma a_ws_transition:
  assumes "\<And>scope. cx_scope cx = Some scope \<Longrightarrow> visible (sc_tenant scope)"
  shows "always R (ws_transition env cx action cmd)"
proof (rule a_by_effect)
  show "aborts attempted (ws_transition env cx action cmd)"
    unfolding ws_transition_def by (intro undone_attempted aborts_seq_quiet quiet_steps WithTenantScope_aborts)
  fix w r' w' assume "ws_transition env cx action cmd w = (Inr r', w')"
  then show "R (data w) (data w')"
  proof (rule ws_transition_run)
    fix r etype scope at e
    assume s: "cx_scope cx = Some scope" "ws_stepped (bindTenant scope) action r r' (store w)"
      and d: "data w' = (data w)\<lparr>workspaces := put_row ws_id r' (workspaces (store w)),
        outbox := outbox (store w) @ [ws_message etype r' at e]\<rparr>"
    have "visible (ws_tenant r)" using assms[OF s(1)] s(2) by (simp add: ws_stepped_def bindTenant_sees)
    then have "R (data w) ((data w)\<lparr>workspaces := put_row ws_id r' (workspaces (data w))\<rparr>)"
      using s(2) by (intro workspace_step[of "bindTenant scope" action r]) (auto simp: ws_stepped_def data_def)
    then show ?thesis unfolding d using store_trans[OF _ keeps_outbox] by (simp add: data_def)
  qed
qed

lemma a_ws_reads:
  "always R (ws_Get env cx k)"
  "always R (ReferencingMemberships env cx k)"
  "always R (ws_List env cx q)"
proof -
  show "always R (ws_Get env cx k)" "always R (ReferencingMemberships env cx k)"
    unfolding ws_Get_def ReferencingMemberships_def ws_load_def referencingMemberships_def
    by (intro a_WithTenantScope y_store_intros)+
  show "always R (ws_List env cx q)"
  proof (cases "ListLimit (wq_limit q)")
    case (Inr limit)
    show ?thesis
      unfolding ws_List_def Inr sum.case
      by (intro a_seq_quiet[OF quiet_steps(4)] a_seq[OF a_reads(1)] a_return)
  qed (simp add: ws_List_def a_raise)
qed

end

text \<open>
  A change of a Workspace that succeeds acted on a Workspace of the caller's own Tenant, on the
  version shown, from a state its rule permits, and leaves the row with its status and the next version
  and one standard-lane event. A retirement found no Membership of it that is not revoked.
\<close>

theorem ws_transition_effect:
  assumes "ws_transition env cx action cmd w = (Inr r', w')"
  shows "\<exists>r etype scope at e.
    row_of ws_id (wk_workspace cmd) (workspaces (store w)) = Some r \<and> ws_version r = wk_expectedVersion cmd \<and>
    cx_scope cx = Some scope \<and> ws_tenant r = sc_tenant scope \<and>
    ws_Resolve action (ws_status r) = Inr (ws_status r') \<and>
    r' = r\<lparr>ws_status := ws_status r', ws_version := ws_version r + 1\<rparr> \<and> ws_eventTypes action = Some etype \<and>
    (action = WsRetire \<longrightarrow> (\<forall>m \<in> set (memberships (store w)).
       m_tenant m = sc_tenant scope \<longrightarrow> m_workspace m = wk_workspace cmd \<longrightarrow> m_status m = MembershipRevoked)) \<and>
    data w' = (data w)\<lparr>workspaces := put_row ws_id r' (workspaces (store w)),
        outbox := outbox (store w) @ [ws_message etype r' at e]\<rparr>"
  using assms
proof (rule ws_transition_run)
  fix r etype scope at e
  assume r: "row_of ws_id (wk_workspace cmd) (workspaces (store w)) = Some r" "ws_version r = wk_expectedVersion cmd"
    "ws_stepped (bindTenant scope) action r r' (store w)" "ws_eventTypes action = Some etype" "cx_scope cx = Some scope"
    and d: "data w' = (data w)\<lparr>workspaces := put_row ws_id r' (workspaces (store w)),
        outbox := outbox (store w) @ [ws_message etype r' at e]\<rparr>"
  have "ws_id r = wk_workspace cmd" using row_of_SomeD[OF r(1)] by simp
  then have "ws_Resolve action (ws_status r) = Inr (ws_status r')" "ws_tenant r = sc_tenant scope"
    "r' = r\<lparr>ws_status := ws_status r', ws_version := ws_version r + 1\<rparr>"
    "action = WsRetire \<longrightarrow> (\<forall>m \<in> set (memberships (store w)).
       m_tenant m = sc_tenant scope \<longrightarrow> m_workspace m = wk_workspace cmd \<longrightarrow> m_status m = MembershipRevoked)"
    using r(3) by (auto simp: ws_stepped_def referencing_def bindTenant_sees)
  then show ?thesis using r d by blast
qed

end
