(* ===== verification/Token.thy ===== *)
theory Token
  imports World
begin

text \<open>
  The invitation token, \<open>src/internal/invitation/state.go\<close>: 32 random bytes in unpadded URL-safe base64,
  stored as their hash. The alphabet, \<open>EncodeToString\<close> and \<open>DecodeString\<close> are those of Go's
  \<open>base64.RawURLEncoding\<close>: decoding skips CR and LF, refuses every other byte outside the alphabet and a
  final group of one character, and does not look at the unused bits of a short final group.

  The random bytes and SHA-256 are the environment's: every theorem holds for any source and any hash.
\<close>

section \<open>base64.RawURLEncoding\<close>

definition b64_alphabet :: string where
  "b64_alphabet = ''ABCDEFGHIJKLMNOPQRSTUVWXYZabcdefghijklmnopqrstuvwxyz0123456789-_''"

definition b64_char :: "nat \<Rightarrow> char" where
  "b64_char v = b64_alphabet ! v"

fun index_of :: "char \<Rightarrow> string \<Rightarrow> nat option" where
  "index_of c [] = None"
| "index_of c (d # ds) = (if c = d then Some 0 else map_option Suc (index_of c ds))"

definition b64_value :: "char \<Rightarrow> nat option" where
  "b64_value c = index_of c b64_alphabet"

fun b64_sextets :: "nat list \<Rightarrow> nat list" where
  "b64_sextets [] = []"
| "b64_sextets [a] = [a div 4, (a mod 4) * 16]"
| "b64_sextets [a, b] = [a div 4, (a mod 4) * 16 + b div 16, (b mod 16) * 4]"
| "b64_sextets (a # b # c # bs) =
     a div 4 # ((a mod 4) * 16 + b div 16) # ((b mod 16) * 4 + c div 64) # (c mod 64) # b64_sextets bs"

definition EncodeToString :: "nat list \<Rightarrow> string" where
  "EncodeToString bs = map b64_char (b64_sextets bs)"

fun b64_bytes :: "nat list \<Rightarrow> nat list option" where
  "b64_bytes [] = Some []"
| "b64_bytes [p] = None"
| "b64_bytes [p, q] = Some [p * 4 + q div 16]"
| "b64_bytes [p, q, r] = Some [p * 4 + q div 16, (q mod 16) * 16 + r div 4]"
| "b64_bytes (p # q # r # s # vs) =
     map_option (\<lambda>bs. (p * 4 + q div 16) # ((q mod 16) * 16 + r div 4) # ((r mod 4) * 64 + s) # bs) (b64_bytes vs)"

definition is_newline :: "char \<Rightarrow> bool" where
  "is_newline c \<longleftrightarrow> c = CHR 0x0A \<or> c = CHR 0x0D"

definition DecodeString :: "string \<Rightarrow> nat list option" where
  "DecodeString s =
     (let values = map b64_value (filter (\<lambda>c. \<not> is_newline c) s)
      in if None \<in> set values then None else b64_bytes (map the values))"

definition EncodedLen :: "nat \<Rightarrow> nat" where
  "EncodedLen n = n div 3 * 4 + (n mod 3 * 8 + 5) div 6"

section \<open>Tokens\<close>

definition tokenBytes :: nat where
  "tokenBytes = 32"

definition token_Hash :: "env \<Rightarrow> string \<Rightarrow> string" where
  "token_Hash env t = sha256_hex env t"

definition NewToken :: "env \<Rightarrow> (string \<times> string) tx" where
  "NewToken env w =
     (case entropy env (minted w) of
        None \<Rightarrow> (Inl (ErrInternal ''invitation: mint token''), w\<lparr>minted := Suc (minted w)\<rparr>)
      | Some byte \<Rightarrow>
          let raw = map (\<lambda>i. byte i mod 256) [0..<tokenBytes];
              token = EncodeToString raw
          in (Inr (token, token_Hash env token), w\<lparr>minted := Suc (minted w)\<rparr>))"

definition WellFormed :: "string \<Rightarrow> bool" where
  "WellFormed t \<longleftrightarrow> length t = EncodedLen tokenBytes \<and> DecodeString t \<noteq> None"

text \<open>Go's \<open>strings.ToLower\<close> on ASCII text.\<close>

definition ToLower :: "string \<Rightarrow> string" where
  "ToLower s = map (\<lambda>c. if 65 \<le> (of_char c :: nat) \<and> (of_char c :: nat) \<le> 90 then char_of ((of_char c :: nat) + 32) else c) s"

definition HashIdentifier :: "env \<Rightarrow> string \<Rightarrow> string" where
  "HashIdentifier env identifier = sha256_hex env (ToLower (TrimSpace identifier))"

section \<open>The encoding is read back\<close>

lemma index_of_nth: "distinct ds \<Longrightarrow> v < length ds \<Longrightarrow> index_of (ds ! v) ds = Some v"
proof (induction ds arbitrary: v)
  case (Cons d ds)
  then show ?case by (cases v) (auto simp: nth_mem)
qed simp

lemma b64_alphabet_facts:
  "distinct b64_alphabet" "length b64_alphabet = 64" "\<forall>c \<in> set b64_alphabet. \<not> is_newline c"
  by code_simp+

lemma b64_value_char: "v < 64 \<Longrightarrow> b64_value (b64_char v) = Some v"
  using index_of_nth b64_alphabet_facts by (simp add: b64_value_def b64_char_def)

lemma b64_char_no_newline: "v < 64 \<Longrightarrow> \<not> is_newline (b64_char v)"
  using b64_alphabet_facts by (simp add: b64_char_def)

lemma b64_sextets_range: "\<forall>b \<in> set bs. b < 256 \<Longrightarrow> \<forall>v \<in> set (b64_sextets bs). v < 64"
  by (induction bs rule: b64_sextets.induct) auto

lemma b64_bytes_sextets: "\<forall>b \<in> set bs. b < 256 \<Longrightarrow> b64_bytes (b64_sextets bs) = Some bs"
proof (induction bs rule: b64_sextets.induct)
  case (2 a)
  then show ?case by simp
next
  case (3 a b)
  have "(a mod 4 * 16 + b div 16) div 16 = a mod 4" "(a mod 4 * 16 + b div 16) mod 16 = b div 16"
    using 3 by auto
  moreover have "a div 4 * 4 + a mod 4 = a" "b div 16 * 16 + b mod 16 = b" by auto
  ultimately show ?case by simp
next
  case (4 a b c bs)
  have "(a mod 4 * 16 + b div 16) div 16 = a mod 4" "(a mod 4 * 16 + b div 16) mod 16 = b div 16"
    "(b mod 16 * 4 + c div 64) div 4 = b mod 16" "(b mod 16 * 4 + c div 64) mod 4 = c div 64"
    using 4 by auto
  moreover have "a div 4 * 4 + a mod 4 = a" "b div 16 * 16 + b mod 16 = b" "c div 64 * 64 + c mod 64 = c" by auto
  ultimately show ?case using 4 by simp
qed simp

lemma decode_encode:
  assumes "\<forall>b \<in> set bs. b < 256"
  shows "DecodeString (EncodeToString bs) = Some bs"
proof -
  have r: "\<forall>v \<in> set (b64_sextets bs). v < 64" using b64_sextets_range[OF assms] .
  then have "filter (\<lambda>c. \<not> is_newline c) (map b64_char (b64_sextets bs)) = map b64_char (b64_sextets bs)"
    by (auto simp: filter_id_conv b64_char_no_newline)
  moreover have v: "map b64_value (map b64_char (b64_sextets bs)) = map Some (b64_sextets bs)"
    using r by (auto simp: b64_value_char)
  moreover have "map the (map Some (b64_sextets bs)) = b64_sextets bs" by (simp add: comp_def)
  ultimately have "DecodeString (EncodeToString bs) = b64_bytes (b64_sextets bs)"
    unfolding DecodeString_def EncodeToString_def Let_def by (auto simp del: map_map)
  then show ?thesis using b64_bytes_sextets[OF assms] by simp
qed

lemma length_b64_sextets: "length (b64_sextets bs) = EncodedLen (length bs)"
proof (induction bs rule: b64_sextets.induct)
  case (4 a b c bs)
  have "(3 + length bs) div 3 = Suc (length bs div 3)" "(3 + length bs) mod 3 = length bs mod 3" by simp_all
  then show ?case using 4 by (simp add: EncodedLen_def)
qed (simp_all add: EncodedLen_def)

text \<open>
  (C38) Reading a minted token back gives the 32 bytes it was made of, so every token the service hands
  out is one it takes back, and two different byte strings never give one token.
\<close>

theorem NewToken_round_trip:
  assumes "NewToken env w = (Inr (token, hash), w')"
  shows "WellFormed token \<and> hash = token_Hash env token \<and> store w' = store w \<and>
    (\<exists>byte. entropy env (minted w) = Some byte \<and>
       DecodeString token = Some (map (\<lambda>i. byte i mod 256) [0..<tokenBytes]))"
proof -
  from assms obtain byte where byte: "entropy env (minted w) = Some byte"
    and t: "token = EncodeToString (map (\<lambda>i. byte i mod 256) [0..<tokenBytes])"
    and rest: "hash = token_Hash env token" "store w' = store w"
    by (auto simp: NewToken_def Let_def split: option.splits)
  let ?raw = "map (\<lambda>i. byte i mod 256) [0..<tokenBytes]"
  have d: "DecodeString token = Some ?raw" unfolding t by (rule decode_encode) auto
  have "length token = EncodedLen tokenBytes"
    by (simp add: t EncodeToString_def length_b64_sextets)
  then show ?thesis using d byte rest by (simp add: WellFormed_def)
qed

text \<open>
  The shape check also lets through texts no token has: a line break inside the text is skipped by
  the decoder, so a text of the right length with a line break in it is well formed although minting
  never produces one.
\<close>

theorem WellFormed_line_break:
  assumes "\<forall>b \<in> set bs. b < 256" "length bs = 31"
  shows "WellFormed (CHR 0x0A # EncodeToString bs)"
proof -
  have "DecodeString (CHR 0x0A # EncodeToString bs) = DecodeString (EncodeToString bs)"
    by (simp add: DecodeString_def is_newline_def)
  moreover have "length (EncodeToString bs) = 42"
    by (simp add: EncodeToString_def length_b64_sextets assms(2) EncodedLen_def)
  ultimately show ?thesis
    using decode_encode[OF assms(1)] by (simp add: WellFormed_def tokenBytes_def EncodedLen_def)
qed

end
