(* ===== verification/Invitation_Service.thy ===== *)
theory Invitation_Service
  imports Token Tenant_Service Membership_Service
begin

text \<open>
  Invitations, \<open>src/internal/invitation/service.go\<close> and \<open>resolve.go\<close>: issuing, accepting, revoking,
  expiring, reading and resolving. Accepting is the invited person's own command: the token's hash
  selects the row, the identity service is asked whether the caller holds the invited address, and one
  transaction in the Tenant of the row rechecks it, creates the Membership and records the acceptance.
\<close>

section \<open>Issuing\<close>

record issue_request =
  iq_target :: string
  iq_workspace :: "uuid option"
  iq_subject :: string
  iq_reason :: string
  iq_ttl :: int

definition DefaultTTL :: int where
  "DefaultTTL = 7 * 24 * 3600 * 1000000000"

definition MaxTTL :: int where
  "MaxTTL = 30 * 24 * 3600 * 1000000000"

definition invitation_NewPayload :: "invitation \<Rightarrow> invitation_payload" where
  "invitation_NewPayload i =
     \<lparr>ip_invitation = iv_id i, ip_tenant = iv_tenant i, ip_workspace = iv_workspace i, ip_subject = iv_subject i,
      ip_state = iv_state i, ip_correlation = iv_correlation i, ip_principal = iv_principal i\<rparr>"

definition invitation_requestedEventType :: string where
  "invitation_requestedEventType = ''com.scnehaux.organization.membership.invitation.requested''"

definition invitation_publish :: "env \<Rightarrow> string \<Rightarrow> invitation \<Rightarrow> instant \<Rightarrow> unit tx" where
  "invitation_publish env rawType record at =
     seq (ensure (parses env rawType) (ErrInternal ''invitation: event type'')) (\<lambda>_.
     seq (publish env (iv_id record) rawType at (InvitationPayload (invitation_NewPayload record)) False) (\<lambda>_.
     return ()))"

definition publishAction :: "env \<Rightarrow> invitation_action \<Rightarrow> invitation \<Rightarrow> instant \<Rightarrow> unit tx" where
  "publishAction env action record at =
     seq (lift (invitation_EventType (parses env) action)) (\<lambda>eventType.
     invitation_publish env eventType record at)"

text \<open>\<open>invitation_pending_unique\<close>: one outstanding invitation per target and context.\<close>

definition pending_key :: "invitation \<Rightarrow> uuid \<times> string \<times> uuid" where
  "pending_key i = (iv_tenant i, iv_targetHash i, (case iv_workspace i of None \<Rightarrow> iv_tenant i | Some k \<Rightarrow> k))"

definition invitation_clash :: "invitation \<Rightarrow> invitation list \<Rightarrow> bool" where
  "invitation_clash i rows \<longleftrightarrow>
     list_ex (\<lambda>r. iv_id r = iv_id i \<or> iv_tokenHash r = iv_tokenHash i \<or>
       (iv_state r = InvitationPending \<and> iv_state i = InvitationPending \<and> pending_key r = pending_key i)) rows"

definition insertInvitation :: "env \<Rightarrow> binding \<Rightarrow> invitation \<Rightarrow> invitation tx" where
  "insertInvitation env b i =
     seq (read_db (\<lambda>s. sees b (iv_tenant i) \<and> \<not> invitation_clash i (invitations s) \<and>
            row_of TenantID (iv_tenant i) (tenants s) \<noteq> None \<and>
            (case iv_workspace i of None \<Rightarrow> True
             | Some k \<Rightarrow> list_ex (\<lambda>ws. ws_tenant ws = iv_tenant i \<and> ws_id ws = k) (workspaces s)))) (\<lambda>ok.
     seq (ensure ok (ErrInternal ''invitation: insert'')) (\<lambda>_.
     seq (db_now env) (\<lambda>created.
     let i' = i\<lparr>iv_state := InvitationPending, iv_createdAt := created\<rparr>
     in seq (write_db (\<lambda>s. s\<lparr>invitations := invitations s @ [i']\<rparr>)) (\<lambda>_. return i'))))"

definition issue_body :: "env \<Rightarrow> invitation \<Rightarrow> string \<Rightarrow> instant \<Rightarrow> (invitation \<times> string) body" where
  "issue_body env record token at b cx =
     seq (insertInvitation env b record) (\<lambda>record'.
     seq (invitation_publish env invitation_requestedEventType record' at) (\<lambda>_.
     seq (Respond env cx (ResIssued record' token)) (\<lambda>_.
     return (record', token))))"

definition Issue :: "env \<Rightarrow> ctx \<Rightarrow> issue_request \<Rightarrow> (invitation \<times> string) tx" where
  "Issue env cx req =
     seq (ensure (\<not> blank (iq_target req)) (ErrInvalid PkgInvitation)) (\<lambda>_.
     seq (ensure (iq_subject req = ''human'' \<or> iq_subject req = ''workload'') (ErrInvalid PkgInvitation)) (\<lambda>_.
     let ttl = (if iq_ttl req = 0 then DefaultTTL else iq_ttl req)
     in seq (ensure (\<not> (ttl < 0 \<or> ttl > MaxTTL)) ErrTTL) (\<lambda>_.
        seq (ScopeFrom cx) (\<lambda>scope.
        seq (newID env) (\<lambda>invitationID.
        seq (if IsNil (sc_correlation scope) then newID env else return (sc_correlation scope)) (\<lambda>correlationID.
        seq (NewToken env) (\<lambda>(token, tokenHash).
        seq (now env) (\<lambda>at.
        WithTenantScope env cx (issue_body env
          \<lparr>iv_id = invitationID, iv_tenant = sc_tenant scope, iv_workspace = iq_workspace req,
           iv_target = iq_target req, iv_targetHash = HashIdentifier env (iq_target req),
           iv_tokenHash = tokenHash, iv_subject = iq_subject req, iv_invitedBy = sc_actor scope,
           iv_reason = iq_reason req, iv_state = InvitationPending, iv_correlation = correlationID,
           iv_principal = None, iv_expiresAt = at + ttl, iv_createdAt = 0, iv_acceptedAt = None,
           iv_revokedAt = None\<rparr> token at)))))))))"

definition Lookup :: "string \<Rightarrow> bool" where
  "Lookup token = WellFormed token"

section \<open>Accepting\<close>

definition invitation_Expired :: "instant \<Rightarrow> invitation \<Rightarrow> bool" where
  "invitation_Expired at i \<longleftrightarrow> \<not> at < iv_expiresAt i"

record redeemable =
  rd_tenant :: uuid
  rd_target :: string
  rd_subject :: string
  rd_state :: invitation_state
  rd_expiresAt :: instant

text \<open>The self role's read: the policy shows the one row with the bound hash, and the statement repeats it.\<close>

definition selectRedeemable :: "binding \<Rightarrow> string \<Rightarrow> store \<Rightarrow> redeemable option" where
  "selectRedeemable b hash s =
     (case find (\<lambda>i. b = BoundInvitation (iv_tokenHash i) \<and> iv_tokenHash i = hash) (invitations s) of
        None \<Rightarrow> None
      | Some i \<Rightarrow> Some \<lparr>rd_tenant = iv_tenant i, rd_target = iv_target i, rd_subject = iv_subject i,
                       rd_state = iv_state i, rd_expiresAt = iv_expiresAt i\<rparr>)"

definition scanInvitation :: "invitation \<Rightarrow> error + invitation" where
  "scanInvitation i = (if invitation_Valid (iv_state i) then Inr i else Inl (ErrInternal ''invitation: stored state''))"

definition selectByTokenHash :: "binding \<Rightarrow> string \<Rightarrow> store \<Rightarrow> invitation option" where
  "selectByTokenHash b hash s = find (\<lambda>i. sees b (iv_tenant i) \<and> iv_tokenHash i = hash) (invitations s)"

definition activeMemberships :: "binding \<Rightarrow> uuid \<Rightarrow> invitation \<Rightarrow> store \<Rightarrow> nat" where
  "activeMemberships b caller i s =
     length (filter (\<lambda>m. sees b (m_tenant m) \<and> m_principal m = caller \<and> m_tenant m = iv_tenant i \<and>
       (if IsNil (m_workspace m) then m_tenant m else m_workspace m) =
         (case iv_workspace i of None \<Rightarrow> m_tenant m | Some k \<Rightarrow> k) \<and>
       m_subject m = iv_subject i \<and> m_status m = MembershipActive) (memberships s))"

definition acceptStatement :: "uuid \<Rightarrow> instant \<Rightarrow> invitation \<Rightarrow> invitation" where
  "acceptStatement caller at i =
     i\<lparr>iv_state := InvitationAccepted, iv_principal := Some caller, iv_acceptedAt := Some at\<rparr>"

definition derefUUID :: "uuid option \<Rightarrow> uuid" where
  "derefUUID value = (case value of None \<Rightarrow> 0 | Some k \<Rightarrow> k)"

definition accept_checks :: "env \<Rightarrow> redeemable \<Rightarrow> string \<Rightarrow> uuid \<Rightarrow> instant \<Rightarrow> binding \<Rightarrow> invitation tx" where
  "accept_checks env row hash caller at b =
     seq (read_db (selectByTokenHash b hash)) (\<lambda>found.
     case found of
       None \<Rightarrow> raise ErrNotAcceptable
     | Some stored \<Rightarrow>
     seq (lift (scanInvitation stored)) (\<lambda>loaded.
     seq (ensure (iv_tenant loaded = rd_tenant row) ErrNotAcceptable) (\<lambda>_.
     seq (ensure (\<not> (iv_state loaded \<noteq> InvitationPending \<or> invitation_Expired at loaded \<or>
            iv_target loaded \<noteq> rd_target row)) ErrNotAcceptable) (\<lambda>_.
     seq (lift (invitation_Resolve InvitationAccept (iv_state loaded))) (\<lambda>_.
     seq (read_db (tenant_row b (iv_tenant loaded))) (\<lambda>tenant.
     case tenant of
       None \<Rightarrow> raise (ErrInternal ''invitation: read tenant status'')
     | Some t \<Rightarrow>
     seq (ensure (Status t = TenantActive) ErrTenantNotActive) (\<lambda>_.
     seq (read_db (activeMemberships b caller loaded)) (\<lambda>existing.
     seq (ensure (\<not> existing > 0) ErrAlreadyMember) (\<lambda>_.
     return loaded)))))))))"

definition accept_body ::
  "env \<Rightarrow> redeemable \<Rightarrow> string \<Rightarrow> uuid \<Rightarrow> instant \<Rightarrow> (invitation \<times> membership_result) body" where
  "accept_body env row hash caller at b cx =
     seq (accept_checks env row hash caller at b) (\<lambda>loaded.
     seq (write_db (\<lambda>s. s\<lparr>invitations :=
            change_row iv_id (iv_id loaded) (acceptStatement caller at) (invitations s)\<rparr>)) (\<lambda>_.
     let record = acceptStatement caller at loaded
     in seq (hook env ''invitation.beforeGrant'') (\<lambda>_.
        seq (GrantWithin env b cx
               \<lparr>gr_principal = caller, gr_tenant = iv_tenant record, gr_workspace = derefUUID (iv_workspace record),
                gr_subject = iv_subject record, gr_provenance = ''invitation '' @ uuid_text env (iv_id record),
                gr_validFrom = at, gr_validUntil = 0\<rparr>) (\<lambda>granted.
        seq (publishAction env InvitationAccept record at) (\<lambda>_.
        seq (Respond env cx (ResAcceptance record granted)) (\<lambda>_.
        return (record, granted)))))))"

definition Accept :: "env \<Rightarrow> ctx \<Rightarrow> string \<Rightarrow> (invitation \<times> membership_result) tx" where
  "Accept env cx token =
     seq (ensure (WellFormed token) ErrToken) (\<lambda>_.
     seq (ScopeFrom cx) (\<lambda>scope.
     seq (ensure (sc_self scope) ErrWrongScope) (\<lambda>_.
     let caller = sc_actor scope; hash = token_Hash env token
     in seq (now env) (\<lambda>at.
        seq (WithSelfInvitation env cx hash (\<lambda>b cx. read_db (selectRedeemable b hash))) (\<lambda>found.
        case found of
          None \<Rightarrow> raise ErrNotAcceptable
        | Some row \<Rightarrow>
        seq (ensure (\<not> (rd_state row \<noteq> InvitationPending \<or> \<not> at < rd_expiresAt row)) ErrNotAcceptable) (\<lambda>_.
        case matcher env of
          None \<Rightarrow> raise ErrIdentityUnavailable
        | Some Match \<Rightarrow>
        case Match caller (rd_target row) of
          None \<Rightarrow> raise ErrIdentityUnavailable
        | Some match' \<Rightarrow>
        seq (ensure match' ErrNotAcceptable) (\<lambda>_.
        WithSelfInTenant env cx (rd_tenant row) (accept_body env row hash caller at))))))))"

section \<open>Revoking\<close>

definition invitation_row :: "binding \<Rightarrow> uuid \<Rightarrow> store \<Rightarrow> invitation option" where
  "invitation_row b invitationID s =
     (case row_of iv_id invitationID (invitations s) of
        Some i \<Rightarrow> if sees b (iv_tenant i) then Some i else None
      | None \<Rightarrow> None)"

definition invitation_load :: "binding \<Rightarrow> uuid \<Rightarrow> invitation tx" where
  "invitation_load b invitationID =
     seq (read_db (invitation_row b invitationID)) (\<lambda>row.
     case row of
       None \<Rightarrow> raise (ErrNotFound PkgInvitation)
     | Some i \<Rightarrow> lift (scanInvitation i))"

definition revokeStatement :: "instant \<Rightarrow> invitation \<Rightarrow> invitation" where
  "revokeStatement at i = i\<lparr>iv_state := InvitationRevoked, iv_revokedAt := Some at\<rparr>"

definition revoke_body :: "env \<Rightarrow> uuid \<Rightarrow> instant \<Rightarrow> invitation body" where
  "revoke_body env invitationID at b cx =
     seq (invitation_load b invitationID) (\<lambda>loaded.
     seq (lift (invitation_Resolve InvitationRevoke (iv_state loaded))) (\<lambda>_.
     seq (write_db (\<lambda>s. s\<lparr>invitations := change_row iv_id invitationID (revokeStatement at) (invitations s)\<rparr>)) (\<lambda>_.
     let record = revokeStatement at loaded
     in seq (publishAction env InvitationRevoke record at) (\<lambda>_.
        seq (Respond env cx (ResInvitation record)) (\<lambda>_.
        return record)))))"

definition invitation_Revoke :: "env \<Rightarrow> ctx \<Rightarrow> uuid \<Rightarrow> invitation tx" where
  "invitation_Revoke env cx invitationID =
     seq (ensure (\<not> IsNil invitationID) (ErrInvalid PkgInvitation)) (\<lambda>_.
     seq (ScopeFrom cx) (\<lambda>_.
     seq (now env) (\<lambda>at.
     WithTenantScope env cx (revoke_body env invitationID at))))"

section \<open>Expiring\<close>

text \<open>
  \<open>operation.invitation_expiry\<close>: pending and past its expiry by the database's clock, which is read once
  per transaction. The batch takes those past it by the service's clock too, oldest first, skipping
  locked rows.
\<close>

definition lapsed_row :: "instant \<Rightarrow> invitation \<Rightarrow> bool" where
  "lapsed_row dbnow i \<longleftrightarrow> iv_state i = InvitationPending \<and> iv_expiresAt i \<le> dbnow"

definition selectLapsed :: "instant \<Rightarrow> instant \<Rightarrow> int \<Rightarrow> (uuid \<Rightarrow> bool) \<Rightarrow> store \<Rightarrow> invitation list" where
  "selectLapsed dbnow at size' skip s =
     take (nat size') (sort_key iv_expiresAt (filter (\<lambda>i. lapsed_row dbnow i \<and> iv_expiresAt i \<le> at \<and>
       \<not> skip (iv_id i)) (invitations s)))"

definition expire_one :: "env \<Rightarrow> instant \<Rightarrow> instant \<Rightarrow> invitation \<Rightarrow> nat tx" where
  "expire_one env dbnow at record =
     seq (lift (invitation_Resolve InvitationExpire (iv_state record))) (\<lambda>_.
     seq (read_db (\<lambda>s. row_of iv_id (iv_id record) (invitations s))) (\<lambda>row.
     case row of
       None \<Rightarrow> return 0
     | Some i \<Rightarrow>
         if lapsed_row dbnow i then
           seq (write_db (\<lambda>s. s\<lparr>invitations :=
                  change_row iv_id (iv_id record) (\<lambda>i. i\<lparr>iv_state := InvitationExpired\<rparr>) (invitations s)\<rparr>)) (\<lambda>_.
           seq (publishAction env InvitationExpire (record\<lparr>iv_state := InvitationExpired\<rparr>) at) (\<lambda>_.
           return 1))
         else return 0))"

definition expireLapsed :: "env \<Rightarrow> int \<Rightarrow> nat tx" where
  "expireLapsed env size' =
     seq (db_now env) (\<lambda>dbnow.
     seq (now env) (\<lambda>at.
     seq (gets (\<lambda>w. selectLapsed dbnow at size' (locked env (ticks w)) (store w))) (\<lambda>lapsed.
     seq (foreach (expire_one env dbnow at) lapsed) (\<lambda>counts.
     return (sum_list counts)))))"

definition ExpireLapsed :: "env \<Rightarrow> ctx \<Rightarrow> int \<Rightarrow> nat tx" where
  "ExpireLapsed env cx size' =
     seq (ensure (size' > 0) (ErrInvalid PkgInvitation)) (\<lambda>_.
     WithProviderScope env cx ''materialise lapsed invitations'' (\<lambda>b cx. expireLapsed env size'))"

definition ScheduledExpireLapsed :: "env \<Rightarrow> int \<Rightarrow> nat tx" where
  "ScheduledExpireLapsed env size' =
     seq (ensure (size' > 0) (ErrInvalid PkgInvitation)) (\<lambda>_. InTx env (expireLapsed env size'))"

section \<open>Reads\<close>

definition invitation_Get :: "env \<Rightarrow> ctx \<Rightarrow> uuid \<Rightarrow> invitation tx" where
  "invitation_Get env cx invitationID = WithTenantScope env cx (\<lambda>b cx. invitation_load b invitationID)"

record invitation_query =
  vq_after :: uuid
  vq_limit :: int
  vq_state :: "invitation_state option"

definition invitation_matches :: "binding \<Rightarrow> invitation_query \<Rightarrow> invitation \<Rightarrow> bool" where
  "invitation_matches b q i \<longleftrightarrow>
     sees b (iv_tenant i) \<and> (case vq_state q of None \<Rightarrow> True | Some st \<Rightarrow> iv_state i = st)"

definition invitation_List :: "env \<Rightarrow> ctx \<Rightarrow> invitation_query \<Rightarrow> (invitation list \<times> uuid option) tx" where
  "invitation_List env cx q =
     (case ListLimit (vq_limit q) of
        Inl _ \<Rightarrow> raise (ErrInvalid PkgInvitation)
      | Inr limit \<Rightarrow>
     seq (ensure (case vq_state q of None \<Rightarrow> True | Some st \<Rightarrow> invitation_Valid st) (ErrInvalid PkgInvitation)) (\<lambda>_.
     seq (WithTenantRead env cx (\<lambda>b cx.
       seq (read_db (\<lambda>s. take (nat limit + 1)
              (keyset_rows iv_id (vq_after q) (invitation_matches b q) (invitations s)))) (\<lambda>rows.
       foreach (\<lambda>i. lift (scanInvitation i)) rows))) (\<lambda>records.
     return (page_of iv_id limit records))))"

text \<open>The resolver role's read, \<open>invitation_resolver_read\<close>: pending, unexpired, the bound hash.\<close>

definition selectResolvable :: "binding \<Rightarrow> instant \<Rightarrow> store \<Rightarrow> (uuid \<times> string) list" where
  "selectResolvable b dbnow s =
     map (\<lambda>i. (iv_id i, iv_target i)) (filter (\<lambda>i. b = BoundResolve (iv_tokenHash i) \<and>
       iv_state i = InvitationPending \<and> iv_expiresAt i > dbnow) (invitations s))"

definition resolver_Resolve :: "env \<Rightarrow> ctx \<Rightarrow> string \<Rightarrow> (uuid \<times> string) tx" where
  "resolver_Resolve env cx token =
     seq (ensure (WellFormed token) ErrToken) (\<lambda>_.
     seq (WithInvitationResolver env cx (token_Hash env token) (\<lambda>b cx.
       seq (db_now env) (\<lambda>dbnow. read_db (selectResolvable b dbnow)))) (\<lambda>rows.
     case rows of
       [] \<Rightarrow> raise ErrNotAcceptable
     | [row] \<Rightarrow> return row
     | _ \<Rightarrow> raise (ErrInternal ''invitation: the policy admits one'')))"

end
