(* ===== verification/Invitation_Relations.thy ===== *)
theory Invitation_Relations
  imports Invitation_Service
begin

text \<open>
  The relations the invitation operations respect and the invariant of their table. Settling is final.
\<close>

section \<open>The writes of the invitation table\<close>

text \<open>The three ways an outstanding invitation is settled.\<close>

definition settles :: "(invitation \<Rightarrow> invitation) \<Rightarrow> bool" where
  "settles f \<longleftrightarrow>
     (\<exists>caller at. f = acceptStatement caller at) \<or> (\<exists>at. f = revokeStatement at) \<or>
     f = (\<lambda>i. i\<lparr>iv_state := InvitationExpired\<rparr>)"

lemma settles_intros [simp]:
  "settles (acceptStatement caller at)" "settles (revokeStatement at)" "settles (\<lambda>i. i\<lparr>iv_state := InvitationExpired\<rparr>)"
  by (auto simp: settles_def)

lemma settles_fields:
  assumes "settles f"
  shows "iv_id (f i) = iv_id i" "iv_tenant (f i) = iv_tenant i" "iv_tokenHash (f i) = iv_tokenHash i"
    "iv_target (f i) = iv_target i" "iv_targetHash (f i) = iv_targetHash i" "iv_workspace (f i) = iv_workspace i"
    "iv_state (f i) \<noteq> InvitationPending" "invitation_Valid (iv_state (f i))"
    "iv_state (f i) = InvitationAccepted \<Longrightarrow> iv_principal (f i) \<noteq> None"
  using assms by (auto simp: settles_def acceptStatement_def revokeStatement_def)

lemma accept_checks_run [run_simps]:
  "accept_checks env row hash caller at b w = (Inr i, w') \<longleftrightarrow>
     selectByTokenHash b hash (store w) = Some i \<and> iv_tenant i = rd_tenant row \<and> iv_state i = InvitationPending \<and>
     \<not> invitation_Expired at i \<and> iv_target i = rd_target row \<and>
     (\<exists>t. tenant_row b (iv_tenant i) (store w) = Some t \<and> Status t = TenantActive) \<and>
     activeMemberships b caller i (store w) = 0 \<and> w' = w"
  by (auto simp: accept_checks_def scanInvitation_def invitation_Resolve_def invitation_Outstanding_def run_simps
      split: option.splits if_splits)

locale invitation_relation = membership_relation R visible for R visible +
  assumes invitation_insert:
    "\<not> invitation_clash i (invitations s) \<Longrightarrow> iv_state i = InvitationPending \<Longrightarrow> visible (iv_tenant i) \<Longrightarrow>
     R s (s\<lparr>invitations := invitations s @ [i]\<rparr>)"
    and invitation_settle:
    "i \<in> set (invitations s) \<Longrightarrow> iv_state i = InvitationPending \<Longrightarrow> visible (iv_tenant i) \<Longrightarrow> settles f \<Longrightarrow>
     R s (s\<lparr>invitations := change_row iv_id (iv_id i) f (invitations s)\<rparr>)"
begin

lemma y_invitation_publish: "yields (on_store R) (invitation_publish env ty i at)"
  unfolding invitation_publish_def by (intro y_store_intros y_published)

lemma y_publishAction: "yields (on_store R) (publishAction env a i at)"
  unfolding publishAction_def by (intro y_store_intros y_invitation_publish)

lemma y_insertInvitation:
  assumes "visible (iv_tenant i)" "iv_state i = InvitationPending"
  shows "yields (on_store R) (insertInvitation env b i)"
proof (rule yieldsI)
  fix w x w' assume "insertInvitation env b i w = (Inr x, w')"
  then have c: "\<not> invitation_clash i (invitations (store w))"
    and x: "x = i\<lparr>iv_state := InvitationPending, iv_createdAt := db_clock env (ticks w)\<rparr>"
    and w': "store w' = (store w)\<lparr>invitations := invitations (store w) @ [x]\<rparr>"
    by (auto simp: insertInvitation_def run_simps Let_def)
  have "\<not> invitation_clash x (invitations (store w))"
  proof -
    have "pending_key x = pending_key i" by (cases "iv_workspace i") (simp_all add: x pending_key_def)
    then show ?thesis using c assms(2) by (simp add: x invitation_clash_def)
  qed
  then show "on_store R w w'" using assms(1) x w' by (simp add: on_store_def invitation_insert)
qed

lemma a_Issue:
  assumes "\<And>scope. cx_scope cx = Some scope \<Longrightarrow> visible (sc_tenant scope)"
  shows "always R (Issue env cx req)"
proof -
  have q: "quiet (NewToken env)"
    by (auto simp: quiet_def NewToken_def Let_def split: option.splits)
  have id: "quiet (if IsNil c then newID env else return c)" for c
    by (simp add: quiet_steps)
  have inner: "always R (WithTenantScope env cx (issue_body env i token at))"
    if "iv_tenant i = sc_tenant scope" "cx_scope cx = Some scope" "iv_state i = InvitationPending" for i token at scope
    unfolding issue_body_def using that assms
    by (intro a_WithTenantScope y_store_intros y_insertInvitation y_invitation_publish y_Respond) auto
  show ?thesis
    unfolding Issue_def Let_def
    by (intro a_seq_quiet[OF quiet_steps(4)] a_ScopeFrom a_seq_quiet[OF quiet_steps(7)] a_seq_quiet[OF id] a_seq_quiet[OF q])
      (auto split: prod.splits intro!: a_seq_quiet quiet_steps inner)
qed

lemma y_accept_body:
  assumes "visible tenantID"
  shows "yields (on_store R) (accept_body env row hash caller at (BoundTenant tenantID a) cx)"
proof (rule yieldsI)
  fix w x w' assume "accept_body env row hash caller at (BoundTenant tenantID a) cx w = (Inr x, w')"
  then obtain i where i: "selectByTokenHash (BoundTenant tenantID a) hash (store w) = Some i" "iv_state i = InvitationPending"
    and rest: "seq (hook env ''invitation.beforeGrant'') (\<lambda>_.
        seq (GrantWithin env (BoundTenant tenantID a) cx
               \<lparr>gr_principal = caller, gr_tenant = iv_tenant (acceptStatement caller at i),
                gr_workspace = derefUUID (iv_workspace (acceptStatement caller at i)),
                gr_subject = iv_subject (acceptStatement caller at i),
                gr_provenance = ''invitation '' @ uuid_text env (iv_id (acceptStatement caller at i)),
                gr_validFrom = at, gr_validUntil = 0\<rparr>) (\<lambda>granted.
        seq (publishAction env InvitationAccept (acceptStatement caller at i) at) (\<lambda>_.
        seq (Respond env cx (ResAcceptance (acceptStatement caller at i) granted)) (\<lambda>_.
        return (acceptStatement caller at i, granted)))))
      (w\<lparr>store := (store w)\<lparr>invitations := change_row iv_id (iv_id i) (acceptStatement caller at) (invitations (store w))\<rparr>\<rparr>) = (Inr x, w')"
    by (auto simp: accept_body_def seq_run[of "accept_checks env row hash caller at (BoundTenant tenantID a)"] accept_checks_run
        seq_run(1)[of "write_db _"] write_db_run Let_def)
  have in_set: "i \<in> set (invitations (store w))" "iv_tenant i = tenantID"
    using i(1) by (auto simp: selectByTokenHash_def find_Some_iff)
  have "on_store R w (w\<lparr>store := (store w)\<lparr>invitations := change_row iv_id (iv_id i) (acceptStatement caller at) (invitations (store w))\<rparr>\<rparr>)"
    using assms in_set i(2) by (simp add: on_store_def invitation_settle)
  moreover have "on_store R (w\<lparr>store := (store w)\<lparr>invitations := change_row iv_id (iv_id i) (acceptStatement caller at) (invitations (store w))\<rparr>\<rparr>) w'"
    using rest by (rule yieldsD[rotated])
      (intro y_store_intros y_publishAction y_Respond y_GrantWithin, use assms in auto)
  ultimately show "on_store R w w'" by (rule sr.step_trans)
qed

lemma a_Accept:
  assumes "\<And>t. visible t"
  shows "always R (Accept env cx token)"
proof -
  have body: "always R (WithSelfInTenant env cx (rd_tenant row) (accept_body env row hash caller at))" for row hash caller at
    by (intro a_WithSelfInTenant y_accept_body assms)
  show ?thesis
    unfolding Accept_def Let_def
    by (intro a_seq_quiet[OF quiet_steps(4)] a_ScopeFrom a_seq_quiet[OF quiet_steps(6)] a_seq[OF a_reads(3)]
        a_option a_raise body)
qed

lemma y_revoke_body:
  assumes "\<And>t. sees b t \<Longrightarrow> visible t"
  shows "yields (on_store R) (revoke_body env k at b cx)"
proof (rule yieldsI)
  fix w x w' assume "revoke_body env k at b cx w = (Inr x, w')"
  then obtain i where i: "row_of iv_id k (invitations (store w)) = Some i" "sees b (iv_tenant i)" "iv_state i = InvitationPending"
    and rest: "seq (publishAction env InvitationRevoke (revokeStatement at i) at) (\<lambda>_.
        seq (Respond env cx (ResInvitation (revokeStatement at i))) (\<lambda>_. return (revokeStatement at i)))
      (w\<lparr>store := (store w)\<lparr>invitations := change_row iv_id k (revokeStatement at) (invitations (store w))\<rparr>\<rparr>) = (Inr x, w')"
    by (auto simp: revoke_body_def invitation_load_def invitation_row_def scanInvitation_def invitation_Resolve_def
        invitation_Outstanding_def seq_run(1)[of "seq _ _"] seq_run(1)[of "read_db _"] seq_run(1)[of "lift _"]
        seq_run(1)[of "write_db _"] read_db_run lift_run write_db_run raise_run Let_def split: option.splits if_splits)
  have k: "i \<in> set (invitations (store w))" "iv_id i = k" using row_of_SomeD[OF i(1)] by auto
  have "on_store R w (w\<lparr>store := (store w)\<lparr>invitations := change_row iv_id k (revokeStatement at) (invitations (store w))\<rparr>\<rparr>)"
    using invitation_settle[OF k(1) i(3) assms[OF i(2)], of "revokeStatement at"] k(2) by (simp add: on_store_def)
  moreover have "on_store R (w\<lparr>store := (store w)\<lparr>invitations := change_row iv_id k (revokeStatement at) (invitations (store w))\<rparr>\<rparr>) w'"
    using rest by (rule yieldsD[rotated]) (intro y_store_intros y_publishAction y_Respond)
  ultimately show "on_store R w w'" by (rule sr.step_trans)
qed

lemma a_invitation_Revoke:
  assumes "\<And>scope. cx_scope cx = Some scope \<Longrightarrow> visible (sc_tenant scope)"
  shows "always R (invitation_Revoke env cx k)"
  unfolding invitation_Revoke_def
  by (intro a_seq_quiet[OF quiet_steps(4)] a_ScopeFrom a_seq_quiet[OF quiet_steps(6)] a_WithTenantScope y_revoke_body)
    (use assms in \<open>auto simp: bindTenant_def\<close>)

lemma y_expire_one:
  assumes "\<And>t. visible t"
  shows "yields (on_store R) (expire_one env dbnow at record)"
proof (rule yieldsI)
  fix w x w' assume run: "expire_one env dbnow at record w = (Inr x, w')"
  show "on_store R w w'"
  proof (cases "\<exists>i. row_of iv_id (iv_id record) (invitations (store w)) = Some i \<and> lapsed_row dbnow i")
    case True
    then obtain i where i: "row_of iv_id (iv_id record) (invitations (store w)) = Some i" "lapsed_row dbnow i" by blast
    let ?w = "w\<lparr>store := (store w)\<lparr>invitations :=
      change_row iv_id (iv_id record) (\<lambda>i. i\<lparr>iv_state := InvitationExpired\<rparr>) (invitations (store w))\<rparr>\<rparr>"
    from run i have rest: "seq (publishAction env InvitationExpire (record\<lparr>iv_state := InvitationExpired\<rparr>) at) (\<lambda>_. return (1::nat)) ?w = (Inr x, w')"
      by (auto simp: expire_one_def seq_run(1)[of "read_db _"] seq_run(1)[of "lift _"] seq_run(1)[of "write_db _"]
          read_db_run lift_run write_db_run)
    have k: "i \<in> set (invitations (store w))" "iv_id i = iv_id record" "iv_state i = InvitationPending"
      using row_of_SomeD[OF i(1)] i(2) by (auto simp: lapsed_row_def)
    have "on_store R w ?w"
      using invitation_settle[OF k(1) k(3) assms settles_intros(3)] k(2) by (simp add: on_store_def)
    moreover have "on_store R ?w w'"
      using rest by (rule yieldsD[rotated]) (intro y_store_intros y_publishAction)
    ultimately show ?thesis by (rule sr.step_trans)
  next
    case False
    then have "w' = w" using run by (auto simp: expire_one_def run_simps split: option.splits if_splits)
    then show ?thesis by (simp add: on_store_def store_refl)
  qed
qed

lemma a_expiry:
  assumes "\<And>t. visible t"
  shows "always R (ExpireLapsed env cx n)" "always R (ScheduledExpireLapsed env n)"
  unfolding ExpireLapsed_def ScheduledExpireLapsed_def expireLapsed_def
  by (intro a_seq_quiet quiet_steps a_WithProviderScope a_InTx y_store_intros y_expire_one assms)+

lemma a_invitation_reads:
  "always R (invitation_Get env cx k)"
  "always R (invitation_List env cx q)"
  "always R (resolver_Resolve env cx token)"
proof -
  show "always R (invitation_Get env cx k)"
    unfolding invitation_Get_def invitation_load_def by (intro a_WithTenantScope y_store_intros)
  show "always R (invitation_List env cx q)"
  proof (cases "ListLimit (vq_limit q)")
    case (Inr limit)
    show ?thesis
      unfolding invitation_List_def Inr sum.case
      by (intro a_seq_quiet[OF quiet_steps(4)] a_seq[OF a_reads(1)] a_return)
  qed (simp add: invitation_List_def a_raise)
  show "always R (resolver_Resolve env cx token)"
    unfolding resolver_Resolve_def
    by (intro a_seq_quiet[OF quiet_steps(4)] a_seq[OF a_reads(4)]) (simp split: list.split add: a_raise a_return)
qed

end

section \<open>The invariant of the table\<close>

text \<open>
  Identifiers and token hashes are unique, a target has one outstanding invitation per context, and an
  accepted invitation names who accepted it. Settling is final.
\<close>

definition invitations_wf :: "store \<Rightarrow> bool" where
  "invitations_wf s \<longleftrightarrow>
     keyed iv_id (invitations s) \<and> keyed iv_tokenHash (invitations s) \<and>
     distinct (map pending_key (filter (\<lambda>i. iv_state i = InvitationPending) (invitations s))) \<and>
     (\<forall>i \<in> set (invitations s). invitation_Valid (iv_state i) \<and>
        (iv_state i = InvitationAccepted \<longrightarrow> iv_principal i \<noteq> None))"

definition invitation_advanced :: "invitation \<Rightarrow> invitation \<Rightarrow> bool" where
  "invitation_advanced i i' \<longleftrightarrow>
     iv_tenant i' = iv_tenant i \<and> iv_tokenHash i' = iv_tokenHash i \<and> iv_target i' = iv_target i \<and>
     (iv_state i \<noteq> InvitationPending \<longrightarrow> i' = i)"

definition invitations_advanced :: "store \<Rightarrow> store \<Rightarrow> bool" where
  "invitations_advanced s s' \<longleftrightarrow>
     invitations_wf s \<longrightarrow> invitations_wf s' \<and>
     (\<forall>k i. row_of iv_id k (invitations s) = Some i \<longrightarrow>
        (\<exists>i'. row_of iv_id k (invitations s') = Some i' \<and> invitation_advanced i i'))"

lemma invitation_advanced_refl: "invitation_advanced i i"
  by (simp add: invitation_advanced_def)

lemma invitation_advanced_trans: "invitation_advanced i j \<Longrightarrow> invitation_advanced j k \<Longrightarrow> invitation_advanced i k"
  by (auto simp: invitation_advanced_def)

lemma invitations_advanced_same: "invitations s' = invitations s \<Longrightarrow> invitations_advanced s s'"
  by (simp add: invitations_advanced_def invitations_wf_def invitation_advanced_refl)

lemma invitations_advanced_trans:
  "invitations_advanced s t \<Longrightarrow> invitations_advanced t u \<Longrightarrow> invitations_advanced s u"
  unfolding invitations_advanced_def by (meson invitation_advanced_trans)

lemma pending_after_settling:
  assumes "\<And>x. iv_state (f x) \<noteq> InvitationPending"
  shows "filter (\<lambda>i. iv_state i = InvitationPending) (change_row iv_id k f rows) =
    filter (\<lambda>i. iv_state i = InvitationPending \<and> iv_id i \<noteq> k) rows"
  using assms by (induction rows) auto

lemma distinct_map_filter_and: "distinct (map g (filter P xs)) \<Longrightarrow> distinct (map g (filter (\<lambda>x. P x \<and> Q x) xs))"
  by (induction xs) (auto split: if_splits)

lemma invitations_settled:
  assumes i: "i \<in> set (invitations s)" "iv_state i = InvitationPending" and f: "settles f"
  shows "invitations_advanced s (s\<lparr>invitations := change_row iv_id (iv_id i) f (invitations s)\<rparr>)"
  unfolding invitations_advanced_def
proof (intro impI conjI allI)
  let ?s = "s\<lparr>invitations := change_row iv_id (iv_id i) f (invitations s)\<rparr>"
  assume wf: "invitations_wf s"
  have "keyed iv_tokenHash (change_row iv_id (iv_id i) f (invitations s))"
    using wf settles_fields(3)[OF f] by (simp add: invitations_wf_def keyed_def change_row_def comp_def if_distrib cong: if_cong)
  moreover have "distinct (map pending_key (filter (\<lambda>i. iv_state i = InvitationPending) (change_row iv_id (iv_id i) f (invitations s))))"
    unfolding pending_after_settling[of f, OF settles_fields(7)[OF f]]
    by (rule distinct_map_filter_and) (use wf in \<open>simp add: invitations_wf_def\<close>)
  moreover have "\<forall>x \<in> set (change_row iv_id (iv_id i) f (invitations s)).
      invitation_Valid (iv_state x) \<and> (iv_state x = InvitationAccepted \<longrightarrow> iv_principal x \<noteq> None)"
    using wf settles_fields(8,9)[OF f] by (auto simp: invitations_wf_def set_change_row)
  ultimately show "invitations_wf ?s"
    using wf settles_fields(1)[OF f] by (simp add: invitations_wf_def)
  fix k x assume x: "row_of iv_id k (invitations s) = Some x"
  have "x = i" if "k = iv_id i"
    using row_of_keyed[of iv_id "invitations s" i] i(1) x that wf by (simp add: invitations_wf_def)
  then show "\<exists>i'. row_of iv_id k (invitations ?s) = Some i' \<and> invitation_advanced x i'"
    using x i(2) settles_fields[OF f]
    by (cases "k = iv_id i") (auto simp: row_of_change_row invitation_advanced_def)
qed

lemma invitations_added:
  assumes "\<not> invitation_clash i (invitations s)" "iv_state i = InvitationPending"
  shows "invitations_advanced s (s\<lparr>invitations := invitations s @ [i]\<rparr>)"
proof -
  have new: "row_of iv_id (iv_id i) (invitations s) = None" "row_of iv_tokenHash (iv_tokenHash i) (invitations s) = None"
    "pending_key i \<notin> pending_key ` {x \<in> set (invitations s). iv_state x = InvitationPending}"
    using assms by (auto simp: invitation_clash_def list_ex_iff row_of_None_iff)
  then show ?thesis
    using assms(2)
    by (auto simp: invitations_advanced_def invitations_wf_def row_of_append invitation_advanced_refl split: option.splits)
qed

interpretation invitation_progress: invitation_relation invitations_advanced "\<lambda>_. True"
proof unfold_locales
  fix f i and s :: store
  assume "i \<in> set (invitations s)" "iv_state i = InvitationPending" "settles f"
  then show "invitations_advanced s (s\<lparr>invitations := change_row iv_id (iv_id i) f (invitations s)\<rparr>)"
    by (rule invitations_settled)
qed (auto intro: invitations_advanced_same invitations_advanced_trans invitations_added)

end
