(* ===== verification/Membership_Batch.thy ===== *)
theory Membership_Batch
  imports Membership_Service
begin

text \<open>
  \<open>membership/batch.go\<close>: a bulk action the server previews and then executes item by item, each item in
  its own transaction under a lease that a later request may take over. The classifier that turns an
  error into a problem document is an argument, as it is in the code.
\<close>

section \<open>Requests\<close>

definition MaxBatchItems :: nat where
  "MaxBatchItems = 500"

definition BatchTTL :: int where
  "BatchTTL = 15 * 60 * 10 ^ 9"

definition BatchLease :: int where
  "BatchLease = 30 * 10 ^ 9"

record batch_request =
  bq_action :: membership_action
  bq_memberships :: "uuid list"
  bq_continues :: uuid
  bq_reason :: string

type_synonym classifier = "error \<Rightarrow> problem"

fun named_once :: "uuid list \<Rightarrow> uuid list \<Rightarrow> error + unit" where
  "named_once seen [] = Inr ()"
| "named_once seen (k # ks) =
     (if IsNil k then Inl (ErrInvalid PkgMembership)
      else if k \<in> set seen then Inl (ErrInvalid PkgMembership)
      else named_once (k # seen) ks)"

definition batch_validate :: "batch_request \<Rightarrow> error + unit" where
  "batch_validate r =
     (if bq_action r \<notin> {MembershipSuspend, MembershipRestore, MembershipRevoke} then Inl (ErrInvalid PkgMembership)
      else if bq_memberships r = [] then Inl (ErrInvalid PkgMembership)
      else if length (bq_memberships r) > MaxBatchItems then Inl ErrBatchTooLarge
      else if bq_action r = MembershipRevoke \<and> blank (bq_reason r) then Inl (ErrReasonRequired PkgMembership)
      else named_once [] (bq_memberships r))"

lemma named_once_ok: "named_once seen ks = Inr () \<longleftrightarrow> 0 \<notin> set ks \<and> distinct ks \<and> set ks \<inter> set seen = {}"
  by (induction seen ks rule: named_once.induct) auto

section \<open>Rows\<close>

text \<open>Row-level security shows a Tenant its own batches; the items come in the order named.\<close>

definition batch_of :: "binding \<Rightarrow> uuid \<Rightarrow> store \<Rightarrow> batch_row option" where
  "batch_of b batchID s =
     (case row_of ba_id batchID (batches s) of
        Some r \<Rightarrow> if sees b (ba_tenant r) then Some r else None
      | None \<Rightarrow> None)"

definition selectBatchItems :: "binding \<Rightarrow> uuid \<Rightarrow> store \<Rightarrow> batch_item list" where
  "selectBatchItems b batchID s =
     sort_key bi_position (filter (\<lambda>i. bi_batch i = batchID \<and> sees b (bi_tenant i)) (batch_items s))"

definition loadBatch :: "binding \<Rightarrow> uuid \<Rightarrow> (batch_row \<times> batch_item list) tx" where
  "loadBatch b batchID =
     seq (read_db (batch_of b batchID)) (\<lambda>row.
     case row of
       None \<Rightarrow> raise ErrBatchNotFound
     | Some batch \<Rightarrow>
         seq (read_db (selectBatchItems b batchID)) (\<lambda>items.
         return (batch, items)))"

text \<open>The table's check on the action, its primary key and its reference to the Tenant.\<close>

definition batch_action_check :: "batch_row \<Rightarrow> bool" where
  "batch_action_check r \<longleftrightarrow> ba_action r \<in> {MembershipSuspend, MembershipRestore, MembershipRevoke}"

definition insertBatch :: "binding \<Rightarrow> batch_row \<Rightarrow> unit tx" where
  "insertBatch b r =
     seq (ensure (sees b (ba_tenant r)) (ErrInternal ''row security'')) (\<lambda>_.
     seq (read_db (\<lambda>s. row_of ba_id (ba_id r) (batches s) = None \<and> row_of TenantID (ba_tenant r) (tenants s) \<noteq> None \<and>
            batch_action_check r)) (\<lambda>ok.
     seq (ensure ok (ErrInternal ''membership: insert batch'')) (\<lambda>_.
     write_db (\<lambda>s. s\<lparr>batches := batches s @ [r]\<rparr>))))"

definition item_clash :: "batch_item \<Rightarrow> batch_item list \<Rightarrow> bool" where
  "item_clash i items \<longleftrightarrow>
     list_ex (\<lambda>j. bi_batch j = bi_batch i \<and> (bi_position j = bi_position i \<or> bi_membership j = bi_membership i)) items"

definition insertBatchItem :: "binding \<Rightarrow> batch_item \<Rightarrow> unit tx" where
  "insertBatchItem b i =
     seq (ensure (sees b (bi_tenant i)) (ErrInternal ''row security'')) (\<lambda>_.
     seq (read_db (\<lambda>s. \<not> item_clash i (batch_items s))) (\<lambda>ok.
     seq (ensure ok (ErrInternal ''membership: insert batch item'')) (\<lambda>_.
     write_db (\<lambda>s. s\<lparr>batch_items := batch_items s @ [i]\<rparr>))))"

section \<open>Preview\<close>

text \<open>What \<open>load\<close> finds, as a value: \<open>previewItem\<close> looks at its error.\<close>

definition loaded :: "binding \<Rightarrow> uuid \<Rightarrow> store \<Rightarrow> error + membership" where
  "loaded b membershipID s =
     (case membership_row b membershipID s of
        None \<Rightarrow> Inl (ErrNotFound PkgMembership)
      | Some m \<Rightarrow> if membership_Valid (m_status m) then Inr m else Inl (ErrInternal ''stored status''))"

lemma membership_load_loaded: "membership_load b k = seq (read_db (loaded b k)) lift"
  by (rule ext) (auto simp: membership_load_def loaded_def seq_def read_db_def gets_def lift_def raise_def ensure_def
      return_def split: option.splits)

definition refuse :: "classifier \<Rightarrow> batch_item \<Rightarrow> error \<Rightarrow> error + batch_item" where
  "refuse classify item e =
     (let problem = classify e
      in if pb_status problem \<ge> 500 then Inl e else Inr (item\<lparr>bi_refusal := Some problem\<rparr>))"

definition previewItem ::
  "binding \<Rightarrow> batch_row \<Rightarrow> string \<Rightarrow> classifier \<Rightarrow> nat \<Rightarrow> uuid \<Rightarrow> store \<Rightarrow> error + batch_item" where
  "previewItem b batch reason classify position membershipID s =
     (let item = \<lparr>bi_batch = ba_id batch, bi_tenant = ba_tenant batch, bi_position = position,
            bi_membership = membershipID, bi_principal = None, bi_current = None, bi_versionRead = None,
            bi_resulting = None, bi_refusal = None, bi_outcome = None\<rparr>
      in case loaded b membershipID s of
           Inl e \<Rightarrow> refuse classify item e
         | Inr current \<Rightarrow>
             (let item' = item\<lparr>bi_principal := Some (m_principal current), bi_current := Some (m_status current),
                    bi_versionRead := Some (m_version current)\<rparr>;
                  cmd = \<lparr>mc_membership = membershipID, mc_expectedVersion = m_version current, mc_reason = reason\<rparr>
              in case membership_validate cmd (ba_action batch) of
                   Inl e \<Rightarrow> refuse classify item' e
                 | Inr _ \<Rightarrow>
                     (case decide (ba_action batch) current (mc_expectedVersion cmd) of
                        Inl e \<Rightarrow> refuse classify item' e
                      | Inr next \<Rightarrow> Inr (item'\<lparr>bi_resulting := Some next\<rparr>))))"

definition parentCorrelation :: "binding \<Rightarrow> uuid \<Rightarrow> uuid tx" where
  "parentCorrelation b parentID =
     seq (read_db (batch_of b parentID)) (\<lambda>row.
     case row of
       None \<Rightarrow> raise (ErrInvalid PkgMembership)
     | Some parent \<Rightarrow>
         seq (ensure (ba_state parent = BatchExecuted) (ErrInvalid PkgMembership)) (\<lambda>_.
         return (ba_correlation parent)))"

definition preview_body ::
  "env \<Rightarrow> batch_request \<Rightarrow> classifier \<Rightarrow> batch_row \<Rightarrow> (batch_row \<times> batch_item list) body" where
  "preview_body env req classify batch b cx =
     seq (case ba_continues batch of
            None \<Rightarrow> return (ba_correlation batch)
          | Some parent \<Rightarrow> parentCorrelation b parent) (\<lambda>kept.
     seq (if IsNil kept then newID env else return kept) (\<lambda>correlation.
     seq (foreach (\<lambda>(position, k).
            seq (read_db (previewItem b batch (TrimSpace (bq_reason req)) classify position k)) lift)
          (enumerate 0 (bq_memberships req))) (\<lambda>items.
     let batch' = batch\<lparr>ba_correlation := correlation,
           ba_wouldChange := length (filter (\<lambda>i. bi_refusal i = None) items),
           ba_wouldNotChange := length (filter (\<lambda>i. bi_refusal i \<noteq> None) items)\<rparr>
     in seq (insertBatch b batch') (\<lambda>_.
        seq (foreach (insertBatchItem b) items) (\<lambda>_.
        seq (Respond env cx (ResBatch batch' items)) (\<lambda>_.
        return (batch', items)))))))"

definition new_batch :: "batch_request \<Rightarrow> scope \<Rightarrow> uuid \<Rightarrow> instant \<Rightarrow> batch_row" where
  "new_batch req scope batchID at =
     \<lparr>ba_id = batchID, ba_tenant = sc_tenant scope, ba_action = bq_action req, ba_state = BatchPreviewed,
      ba_reason = (if TrimSpace (bq_reason req) \<noteq> [] then Some (TrimSpace (bq_reason req)) else None),
      ba_correlation = sc_correlation scope,
      ba_continues = (if IsNil (bq_continues req) then None else Some (bq_continues req)),
      ba_createdBy = sc_actor scope, ba_createdAt = at, ba_expiresAt = at + BatchTTL,
      ba_wouldChange = 0, ba_wouldNotChange = 0, ba_failOnErrors = None, ba_executedBy = None,
      ba_executedAt = None, ba_completedAt = None, ba_heartbeatAt = None, ba_resumedBy = None,
      ba_resumedAt = None, ba_lease = None\<rparr>"

definition PreviewBatch ::
  "env \<Rightarrow> ctx \<Rightarrow> batch_request \<Rightarrow> classifier option \<Rightarrow> (batch_row \<times> batch_item list) tx" where
  "PreviewBatch env cx req classifier =
     (case classifier of
        None \<Rightarrow> raise (ErrInternal ''membership: a classifier is required'')
      | Some classify \<Rightarrow>
     seq (lift (batch_validate req)) (\<lambda>_.
     seq (ScopeFrom cx) (\<lambda>scope.
     seq (newID env) (\<lambda>batchID.
     seq (now env) (\<lambda>at.
     WithTenantScope env cx (preview_body env req classify (new_batch req scope batchID at)))))))"

section \<open>Execution\<close>

definition startExecution :: "uuid \<Rightarrow> instant \<Rightarrow> int option \<Rightarrow> uuid \<Rightarrow> batch_row \<Rightarrow> batch_row" where
  "startExecution actor at allowance lease r =
     r\<lparr>ba_state := BatchExecuting, ba_executedBy := Some actor, ba_executedAt := Some at,
       ba_failOnErrors := allowance, ba_lease := Some lease, ba_heartbeatAt := Some at\<rparr>"

definition resumeExecution :: "uuid \<Rightarrow> instant \<Rightarrow> uuid \<Rightarrow> batch_row \<Rightarrow> batch_row" where
  "resumeExecution lease at actor r =
     r\<lparr>ba_lease := Some lease, ba_heartbeatAt := Some at, ba_resumedBy := Some actor, ba_resumedAt := Some at\<rparr>"

definition heartbeat :: "instant \<Rightarrow> batch_row \<Rightarrow> batch_row" where
  "heartbeat at r = r\<lparr>ba_heartbeatAt := Some at\<rparr>"

definition completeExecution :: "instant \<Rightarrow> batch_row \<Rightarrow> batch_row" where
  "completeExecution completed r =
     r\<lparr>ba_state := BatchExecuted, ba_completedAt := Some completed, ba_heartbeatAt := Some completed\<rparr>"

definition put_batch :: "uuid \<Rightarrow> (batch_row \<Rightarrow> batch_row) \<Rightarrow> unit tx" where
  "put_batch batchID f = write_db (\<lambda>s. s\<lparr>batches := change_row ba_id batchID f (batches s)\<rparr>)"

definition start_body ::
  "uuid \<Rightarrow> int option \<Rightarrow> uuid \<Rightarrow> uuid \<Rightarrow> instant \<Rightarrow> (batch_row \<times> batch_item list \<times> bool) body" where
  "start_body batchID failOnErrors actor lease at b cx =
     seq (loadBatch b batchID) (\<lambda>(batch, items).
     case ba_state batch of
       BatchPreviewed \<Rightarrow>
         seq (ensure (\<not> at > ba_expiresAt batch) ErrBatchExpired) (\<lambda>_.
         seq (put_batch batchID (startExecution actor at failOnErrors lease)) (\<lambda>_.
         return (batch\<lparr>ba_state := BatchExecuting, ba_failOnErrors := failOnErrors\<rparr>, items, False)))
     | BatchExecuting \<Rightarrow>
         seq (ensure (case ba_heartbeatAt batch of None \<Rightarrow> True | Some live \<Rightarrow> at > live + BatchLease) ErrBatchExecuting) (\<lambda>_.
         seq (ensure (failOnErrors = None \<or> ba_failOnErrors batch = failOnErrors) (ErrInvalid PkgMembership)) (\<lambda>_.
         seq (put_batch batchID (resumeExecution lease at actor)) (\<lambda>_.
         return (batch, items, False))))
     | _ \<Rightarrow>
         seq ClaimAdopted (\<lambda>adopted.
         if ba_state batch = BatchExecuted \<and> adopted then return (batch, items, True)
         else raise ErrBatchNotPreviewed))"

text \<open>The fence: \<open>heartbeat\<close> matches a row only while the batch executes under this lease.\<close>

definition holds_lease :: "binding \<Rightarrow> uuid \<Rightarrow> uuid \<Rightarrow> store \<Rightarrow> bool" where
  "holds_lease b batchID lease s =
     (case batch_of b batchID s of
        None \<Rightarrow> False
      | Some r \<Rightarrow> ba_lease r = Some lease \<and> ba_state r = BatchExecuting)"

definition fence :: "binding \<Rightarrow> uuid \<Rightarrow> uuid \<Rightarrow> instant \<Rightarrow> unit tx" where
  "fence b batchID lease at =
     seq (read_db (holds_lease b batchID lease)) (\<lambda>held.
     seq (ensure held ErrBatchLeaseLost) (\<lambda>_.
     put_batch batchID (heartbeat at)))"

text \<open>The item statements write an outcome where there is none.\<close>

definition at_item :: "binding \<Rightarrow> uuid \<Rightarrow> nat \<Rightarrow> batch_item \<Rightarrow> bool" where
  "at_item b batchID position i \<longleftrightarrow> sees b (bi_tenant i) \<and> bi_batch i = batchID \<and> bi_position i = position"

definition settled :: "(batch_item \<Rightarrow> bool) \<Rightarrow> (batch_item \<Rightarrow> item_outcome) \<Rightarrow> batch_item list \<Rightarrow> batch_item list" where
  "settled P outcome items =
     map (\<lambda>i. if P i \<and> bi_outcome i = None then i\<lparr>bi_outcome := Some (outcome i)\<rparr> else i) items"

definition settle_items :: "(batch_item \<Rightarrow> bool) \<Rightarrow> (batch_item \<Rightarrow> item_outcome) \<Rightarrow> unit tx" where
  "settle_items P outcome = write_db (\<lambda>s. s\<lparr>batch_items := settled P outcome (batch_items s)\<rparr>)"

definition recordSucceeded :: "binding \<Rightarrow> uuid \<Rightarrow> nat \<Rightarrow> membership_result \<Rightarrow> unit tx" where
  "recordSucceeded b batchID position result =
     settle_items (at_item b batchID position)
       (\<lambda>_. OutcomeSucceeded (mr_acceptedAt result) (mr_event result) (m_version (mr_membership result)))"

definition recordFailed :: "binding \<Rightarrow> uuid \<Rightarrow> nat \<Rightarrow> problem \<Rightarrow> unit tx" where
  "recordFailed b batchID position problem =
     settle_items (at_item b batchID position) (\<lambda>_. OutcomeFailed problem)"

definition settleUnattempted :: "binding \<Rightarrow> uuid \<Rightarrow> unit tx" where
  "settleUnattempted b batchID =
     settle_items (\<lambda>i. sees b (bi_tenant i) \<and> bi_batch i = batchID)
       (\<lambda>i. OutcomeNotAttempted (if bi_refusal i \<noteq> None then ''refused_at_preview'' else ''error_allowance''))"

text \<open>The test seam's failure is told apart by its type, \<open>haltError\<close>.\<close>

definition haltError :: error where
  "haltError = ErrInternal ''membership.halt''"

definition execute_item_body ::
  "env \<Rightarrow> batch_row \<Rightarrow> uuid \<Rightarrow> batch_item \<Rightarrow> int \<Rightarrow> string \<Rightarrow> unit body" where
  "execute_item_body env batch lease item version reason b cx =
     seq (now env) (\<lambda>at.
     seq (fence b (ba_id batch) lease at) (\<lambda>_.
     seq (read_db (\<lambda>s. find (at_item b (ba_id batch) (bi_position item)) (batch_items s))) (\<lambda>row.
     case row of
       None \<Rightarrow> raise (ErrInternal ''membership: lock batch item'')
     | Some stored \<Rightarrow>
         if bi_outcome stored \<noteq> None then return ()
         else
           seq (membership_TransitionWithin env b cx (ba_action batch)
                  \<lparr>mc_membership = bi_membership item, mc_expectedVersion = version, mc_reason = reason\<rparr>) (\<lambda>result.
           seq (recordSucceeded b (ba_id batch) (bi_position item) result) (\<lambda>_.
           hook env ''membership.halt'')))))"

definition executeItem ::
  "env \<Rightarrow> ctx \<Rightarrow> batch_row \<Rightarrow> uuid \<Rightarrow> batch_item \<Rightarrow> int \<Rightarrow> string \<Rightarrow> unit tx" where
  "executeItem env cx batch lease item version reason =
     WithTenantScope env cx (execute_item_body env batch lease item version reason)"

definition record_failure :: "env \<Rightarrow> ctx \<Rightarrow> uuid \<Rightarrow> uuid \<Rightarrow> nat \<Rightarrow> problem \<Rightarrow> unit tx" where
  "record_failure env cx batchID lease position problem =
     WithTenantScope env cx (\<lambda>b cx.
       seq (now env) (\<lambda>at.
       seq (fence b batchID lease at) (\<lambda>_.
       recordFailed b batchID position problem)))"

definition skipped :: "batch_item \<Rightarrow> bool" where
  "skipped item \<longleftrightarrow> bi_refusal item \<noteq> None \<or> bi_versionRead item = None \<or> bi_outcome item \<noteq> None"

definition exhausted :: "int option \<Rightarrow> nat \<Rightarrow> bool" where
  "exhausted allowance failures = (case allowance of None \<Rightarrow> False | Some n \<Rightarrow> int failures > n)"

fun execute_items ::
  "env \<Rightarrow> ctx \<Rightarrow> batch_row \<Rightarrow> uuid \<Rightarrow> classifier \<Rightarrow> string \<Rightarrow> nat \<Rightarrow> batch_item list \<Rightarrow> unit tx" where
  "execute_items env cx batch lease classify reason failures [] = return ()"
| "execute_items env cx batch lease classify reason failures (item # items) =
     (if skipped item then execute_items env cx batch lease classify reason failures items
      else if exhausted (ba_failOnErrors batch) failures then return ()
      else
        seq (caught (executeItem env cx batch lease item (the (bi_versionRead item)) reason)) (\<lambda>r.
        case r of
          Inr _ \<Rightarrow> execute_items env cx batch lease classify reason failures items
        | Inl e \<Rightarrow>
            seq (gets (\<lambda>w. cancelled env (ticks w))) (\<lambda>ended.
            if ended \<or> e = ErrBatchLeaseLost \<or> e = haltError then raise e
            else
              seq (record_failure env cx (ba_id batch) lease (bi_position item) (classify e)) (\<lambda>_.
              execute_items env cx batch lease classify reason (Suc failures) items))))"

definition complete_body :: "uuid \<Rightarrow> uuid \<Rightarrow> instant \<Rightarrow> (batch_row \<times> batch_item list) body" where
  "complete_body batchID lease completed b cx =
     seq (read_db (holds_lease b batchID lease)) (\<lambda>held.
     seq (ensure held ErrBatchLeaseLost) (\<lambda>_.
     seq (put_batch batchID (completeExecution completed)) (\<lambda>_.
     seq (settleUnattempted b batchID) (\<lambda>_.
     loadBatch b batchID))))"

definition failed_items :: "batch_item list \<Rightarrow> nat" where
  "failed_items items = length (filter (\<lambda>i. case bi_outcome i of Some (OutcomeFailed _) \<Rightarrow> True | _ \<Rightarrow> False) items)"

definition ExecuteBatch ::
  "env \<Rightarrow> ctx \<Rightarrow> uuid \<Rightarrow> int option \<Rightarrow> classifier option \<Rightarrow> (batch_row \<times> batch_item list) tx" where
  "ExecuteBatch env cx batchID failOnErrors classifier =
     (case classifier of
        None \<Rightarrow> raise (ErrInternal ''membership: a classifier is required'')
      | Some classify \<Rightarrow>
     seq (ensure (\<not> IsNil batchID) (ErrInvalid PkgMembership)) (\<lambda>_.
     seq (ensure (case failOnErrors of None \<Rightarrow> True | Some n \<Rightarrow> \<not> n < 0) (ErrInvalid PkgMembership)) (\<lambda>_.
     seq (ScopeFrom cx) (\<lambda>scope.
     seq (newID env) (\<lambda>lease.
     seq (now env) (\<lambda>at.
     let cx' = cx\<lparr>cx_adopt := True\<rparr>
     in seq (WithTenantScope env cx' (start_body batchID failOnErrors (sc_actor scope) lease at)) (\<lambda>(batch, items, answered).
        if answered then return (batch, items)
        else
          seq (execute_items env cx' batch lease classify (case ba_reason batch of None \<Rightarrow> [] | Some r \<Rightarrow> r)
                 (failed_items items) items) (\<lambda>_.
          seq (now env) (\<lambda>completed.
          WithTenantScope env cx' (complete_body batchID lease completed))))))))))"

section \<open>Reads\<close>

definition Counts :: "batch_item list \<Rightarrow> nat \<times> nat \<times> nat" where
  "Counts items =
     (length (filter (\<lambda>i. case bi_outcome i of Some (OutcomeSucceeded _ _ _) \<Rightarrow> True | _ \<Rightarrow> False) items),
      failed_items items,
      length (filter (\<lambda>i. case bi_outcome i of Some (OutcomeNotAttempted _) \<Rightarrow> True | _ \<Rightarrow> False) items))"

definition batch_settle :: "instant \<Rightarrow> batch_row \<times> batch_item list \<Rightarrow> batch_row \<times> batch_item list" where
  "batch_settle at b =
     (if ba_state (fst b) \<noteq> BatchPreviewed \<or> \<not> at > ba_expiresAt (fst b) then b
      else ((fst b)\<lparr>ba_state := BatchExpired\<rparr>,
            map (\<lambda>i. i\<lparr>bi_outcome := Some (OutcomeNotAttempted ''expired'')\<rparr>) (snd b)))"

definition GetBatch :: "env \<Rightarrow> ctx \<Rightarrow> uuid \<Rightarrow> (batch_row \<times> batch_item list) tx" where
  "GetBatch env cx batchID =
     seq (ensure (\<not> IsNil batchID) (ErrInvalid PkgMembership)) (\<lambda>_.
     seq (WithTenantRead env cx (\<lambda>b cx. loadBatch b batchID)) (\<lambda>batch.
     seq (now env) (\<lambda>at.
     return (batch_settle at batch))))"

end
