(* ===== verification/Batch_Relations.thy ===== *)
theory Batch_Relations
  imports Membership_Batch
begin

text \<open>
  What a preview and each transaction of an execution do to the store, the relations they respect, and
  that a recorded outcome is final: an item is applied at most once, however often its batch is resumed.
\<close>

section \<open>The writes of the batch tables\<close>

definition batch_step :: "batch_row \<Rightarrow> (batch_row \<Rightarrow> batch_row) \<Rightarrow> bool" where
  "batch_step r f \<longleftrightarrow>
     (ba_state r = BatchPreviewed \<and> (\<exists>actor at allowance lease. f = startExecution actor at allowance lease)) \<or>
     (ba_state r = BatchExecuting \<and>
        ((\<exists>lease at actor. f = resumeExecution lease at actor) \<or> (\<exists>at. f = heartbeat at) \<or> (\<exists>at. f = completeExecution at)))"

lemma batch_step_intros:
  "ba_state r = BatchPreviewed \<Longrightarrow> batch_step r (startExecution actor at allowance lease)"
  "ba_state r = BatchExecuting \<Longrightarrow> batch_step r (resumeExecution lease at actor)"
  "ba_state r = BatchExecuting \<Longrightarrow> batch_step r (heartbeat at)"
  "ba_state r = BatchExecuting \<Longrightarrow> batch_step r (completeExecution at)"
  by (auto simp: batch_step_def)

lemmas batch_updates = startExecution_def resumeExecution_def heartbeat_def completeExecution_def

lemma batch_of_SomeD: "batch_of b k s = Some r \<Longrightarrow> row_of ba_id k (batches s) = Some r \<and> sees b (ba_tenant r)"
  by (auto simp: batch_of_def split: option.splits if_splits)

lemma holds_leaseD:
  "holds_lease b k lease s \<Longrightarrow> \<exists>r. row_of ba_id k (batches s) = Some r \<and> sees b (ba_tenant r) \<and> ba_lease r = Some lease \<and> ba_state r = BatchExecuting"
  by (auto simp: holds_lease_def split: option.splits dest: batch_of_SomeD)

lemma loadBatch_run [run_simps]:
  "loadBatch b k w = (Inr x, w') \<longleftrightarrow>
     (\<exists>batch. batch_of b k (store w) = Some batch \<and> x = (batch, selectBatchItems b k (store w))) \<and> w' = w"
  by (auto simp: loadBatch_def run_simps split: option.splits)

lemma start_body_loads:
  assumes "start_body k failOnErrors actor lease at b cx w = (Inr x, w')"
  obtains r where "batch_of b k (store w) = Some r"
  using assms by (auto simp: start_body_def seq_run(1) loadBatch_run)

lemma seq_loadBatch:
  "batch_of b k (store w) = Some r \<Longrightarrow> seq (loadBatch b k) g w = g (r, selectBatchItems b k (store w)) w"
  using loadBatch_run[of b k w "(r, selectBatchItems b k (store w))" w] by (simp add: seq_def)

lemma start_body_answered:
  assumes "start_body k failOnErrors actor lease at b cx w = (Inr (r', items, True), w')"
  shows "w' = w \<and> ba_state r' = BatchExecuted \<and> batch_of b k (store w) = Some r' \<and> items = selectBatchItems b k (store w)"
proof -
  obtain r where r: "batch_of b k (store w) = Some r" using assms by (rule start_body_loads)
  note run = assms[unfolded start_body_def seq_loadBatch[OF r] prod.case]
  show ?thesis
    using run r
    by (cases "ba_state r")
      (auto simp: seq_run(1) ensure_run put_batch_def write_db_run ClaimAdopted_def gets_run return_run raise_run split: if_splits)
qed

lemma start_body_run:
  assumes "start_body k failOnErrors actor lease at b cx w = (Inr x, w')"
  obtains r where "row_of ba_id k (batches (store w)) = Some r" "sees b (ba_tenant r)"
    "store w' = store w \<or>
     (\<exists>f. batch_step r f \<and> ba_lease (f r) = Some lease \<and>
        store w' = (store w)\<lparr>batches := change_row ba_id k f (batches (store w))\<rparr>)"
proof -
  obtain r where r: "batch_of b k (store w) = Some r" using assms by (rule start_body_loads)
  note run = assms[unfolded start_body_def seq_loadBatch[OF r] prod.case]
  have "store w' = store w \<or>
     (\<exists>f. batch_step r f \<and> ba_lease (f r) = Some lease \<and>
        store w' = (store w)\<lparr>batches := change_row ba_id k f (batches (store w))\<rparr>)"
  proof (cases "ba_state r")
    case BatchPreviewed
    then have "store w' = (store w)\<lparr>batches := change_row ba_id k (startExecution actor at failOnErrors lease) (batches (store w))\<rparr>"
      using run by (auto simp: put_batch_def seq_run(1) ensure_run write_db_run return_run)
    moreover have "ba_lease (startExecution actor at failOnErrors lease r) = Some lease" by (simp add: startExecution_def)
    ultimately show ?thesis using batch_step_intros(1)[OF BatchPreviewed] by blast
  next
    case BatchExecuting
    then have "store w' = (store w)\<lparr>batches := change_row ba_id k (resumeExecution lease at actor) (batches (store w))\<rparr>"
      using run by (auto simp: put_batch_def seq_run(1) ensure_run write_db_run return_run)
    moreover have "ba_lease (resumeExecution lease at actor r) = Some lease" by (simp add: resumeExecution_def)
    ultimately show ?thesis using batch_step_intros(2)[OF BatchExecuting] by blast
  qed (use run in \<open>auto simp: seq_run(1) ClaimAdopted_def gets_run return_run raise_run split: if_splits\<close>)
  then show thesis using that batch_of_SomeD[OF r] by blast
qed

locale batch_relation = membership_relation R visible for R visible +
  assumes batch_insert:
    "row_of ba_id (ba_id r) (batches s) = None \<Longrightarrow> ba_state r = BatchPreviewed \<Longrightarrow> batch_action_check r \<Longrightarrow>
     visible (ba_tenant r) \<Longrightarrow> R s (s\<lparr>batches := batches s @ [r]\<rparr>)"
    and item_insert:
    "\<not> item_clash i (batch_items s) \<Longrightarrow> visible (bi_tenant i) \<Longrightarrow> R s (s\<lparr>batch_items := batch_items s @ [i]\<rparr>)"
    and batch_change:
    "row_of ba_id k (batches s) = Some r \<Longrightarrow> batch_step r f \<Longrightarrow> visible (ba_tenant r) \<Longrightarrow>
     R s (s\<lparr>batches := change_row ba_id k f (batches s)\<rparr>)"
    and items_settle:
    "(\<And>i. P i \<Longrightarrow> visible (bi_tenant i)) \<Longrightarrow> R s (s\<lparr>batch_items := settled P outcome (batch_items s)\<rparr>)"
begin

lemma y_insertBatch:
  assumes "\<And>t. sees b t \<Longrightarrow> visible t" "ba_state r = BatchPreviewed"
  shows "yields (on_store R) (insertBatch b r)"
  by (rule yieldsI) (use assms in \<open>auto simp: insertBatch_def run_simps on_store_def intro!: batch_insert\<close>)

lemma y_insertBatchItem:
  assumes "\<And>t. sees b t \<Longrightarrow> visible t"
  shows "yields (on_store R) (insertBatchItem b i)"
  by (rule yieldsI) (use assms in \<open>auto simp: insertBatchItem_def run_simps on_store_def intro!: item_insert\<close>)

lemma y_settle_items:
  assumes "\<And>i. P i \<Longrightarrow> visible (bi_tenant i)"
  shows "yields (on_store R) (settle_items P outcome)"
  by (rule yieldsI) (use assms in \<open>auto simp: settle_items_def run_simps on_store_def intro!: items_settle\<close>)

lemma y_fence:
  assumes "\<And>t. sees b t \<Longrightarrow> visible t"
  shows "yields (on_store R) (fence b k lease at)"
  by (rule yieldsI)
    (use assms in \<open>auto simp: fence_def put_batch_def run_simps on_store_def dest!: holds_leaseD intro!: batch_change batch_step_intros\<close>)

lemma y_loadBatch: "yields (on_store R) (loadBatch b k)"
  unfolding loadBatch_def by (intro y_store_intros)

lemma y_preview_body:
  assumes "\<And>t. sees b t \<Longrightarrow> visible t" "ba_state batch = BatchPreviewed"
  shows "yields (on_store R) (preview_body env req classify batch b cx)"
proof -
  have "yields (on_store R) (case x of (position, k) \<Rightarrow> seq (read_db (g position k)) lift)" for x g
    by (cases x) (simp, intro y_store_intros)
  then show ?thesis
    unfolding preview_body_def parentCorrelation_def Let_def
    by (intro y_store_intros y_insertBatch y_insertBatchItem y_Respond) (use assms in auto)
qed

lemma a_PreviewBatch:
  assumes "\<And>scope. cx_scope cx = Some scope \<Longrightarrow> visible (sc_tenant scope)"
  shows "always R (PreviewBatch env cx req classifier)"
  unfolding PreviewBatch_def
  by (intro a_option a_raise a_seq_quiet[OF quiet_steps(3)] a_ScopeFrom a_seq_quiet[OF quiet_steps(7)]
      a_seq_quiet[OF quiet_steps(6)] a_WithTenantScope y_preview_body)
    (use assms in \<open>auto simp: sees_bindTenant new_batch_def\<close>)

lemma y_start_body:
  assumes "\<And>t. sees b t \<Longrightarrow> visible t"
  shows "yields (on_store R) (start_body k failOnErrors actor lease at b cx)"
proof (rule yieldsI)
  fix w x w' assume "start_body k failOnErrors actor lease at b cx w = (Inr x, w')"
  then show "on_store R w w'"
    by (rule start_body_run) (use assms batch_change in \<open>auto simp: on_store_def store_refl\<close>)
qed

lemma y_execute_item_body:
  assumes "\<And>t. sees b t \<Longrightarrow> visible t" "ba_action batch \<noteq> MembershipGrant"
  shows "yields (on_store R) (execute_item_body env batch lease item version reason b cx)"
  unfolding execute_item_body_def recordSucceeded_def
  by (intro y_store_intros y_fence y_TransitionWithin y_settle_items) (use assms in \<open>auto simp: at_item_def\<close>)

lemma a_executeItem:
  assumes "\<And>scope. cx_scope cx = Some scope \<Longrightarrow> visible (sc_tenant scope)" "ba_action batch \<noteq> MembershipGrant"
  shows "always R (executeItem env cx batch lease item version reason)"
  unfolding executeItem_def
  by (intro a_WithTenantScope y_execute_item_body) (use assms in \<open>auto simp: sees_bindTenant\<close>)

lemma a_record_failure:
  assumes "\<And>scope. cx_scope cx = Some scope \<Longrightarrow> visible (sc_tenant scope)"
  shows "always R (record_failure env cx k lease position problem)"
  unfolding record_failure_def recordFailed_def
  by (intro a_WithTenantScope y_store_intros y_fence y_settle_items) (use assms in \<open>auto simp: sees_bindTenant at_item_def\<close>)

lemma a_execute_items:
  assumes "\<And>scope. cx_scope cx = Some scope \<Longrightarrow> visible (sc_tenant scope)" "ba_action batch \<noteq> MembershipGrant"
  shows "always R (execute_items env cx batch lease classify reason failures items)"
proof (induction items arbitrary: failures)
  case (Cons item items)
  have "always R (case r of Inr u \<Rightarrow> execute_items env cx batch lease classify reason failures items
        | Inl e \<Rightarrow> seq (gets (\<lambda>w. cancelled env (ticks w))) (\<lambda>ended.
            if ended \<or> e = ErrBatchLeaseLost \<or> e = haltError then raise e
            else seq (record_failure env cx (ba_id batch) lease (bi_position item) (classify e)) (\<lambda>_.
              execute_items env cx batch lease classify reason (Suc failures) items)))" for r :: "error + unit"
    by (cases r) (auto intro!: Cons.IH a_seq_quiet[OF quiet_steps(5)] a_raise a_seq a_record_failure assms(1))
  then show ?case
    by (auto intro!: a_return a_seq[OF a_caught] a_executeItem assms Cons.IH)
qed (simp add: a_return)

lemma y_complete_body:
  assumes "\<And>t. sees b t \<Longrightarrow> visible t"
  shows "yields (on_store R) (complete_body k lease completed b cx)"
proof -
  have "yields (on_store R) (seq (read_db (holds_lease b k lease)) (\<lambda>held. seq (ensure held ErrBatchLeaseLost) (\<lambda>_.
      put_batch k (completeExecution completed))))"
    by (rule yieldsI)
      (use assms in \<open>auto simp: put_batch_def run_simps on_store_def dest!: holds_leaseD intro!: batch_change batch_step_intros\<close>)
  moreover have "complete_body k lease completed b cx =
    seq (seq (read_db (holds_lease b k lease)) (\<lambda>held. seq (ensure held ErrBatchLeaseLost) (\<lambda>_. put_batch k (completeExecution completed))))
      (\<lambda>_. seq (settleUnattempted b k) (\<lambda>_. loadBatch b k))"
    by (simp add: complete_body_def seq_assoc)
  ultimately show ?thesis
    unfolding settleUnattempted_def by (auto intro!: sr.y_seq y_settle_items y_loadBatch assms)
qed

end

section \<open>Applying one item\<close>

lemma fence_run [run_simps]:
  "fence b k lease at w = (Inr u, w') \<longleftrightarrow>
     holds_lease b k lease (store w) \<and>
     w' = w\<lparr>store := (store w)\<lparr>batches := change_row ba_id k (heartbeat at) (batches (store w))\<rparr>\<rparr>"
  by (auto simp: fence_def put_batch_def run_simps)

text \<open>The store after an item was applied: the Membership moved, its event, its outcome, the lease renewed.\<close>

definition applied ::
  "binding \<Rightarrow> uuid \<Rightarrow> nat \<Rightarrow> membership_action \<Rightarrow> scope \<Rightarrow> int \<Rightarrow> instant \<Rightarrow> instant \<Rightarrow> string \<Rightarrow> membership \<Rightarrow> uuid \<Rightarrow> store \<Rightarrow> store" where
  "applied b k position action scope sv at acceptedAt reason m' e s =
     (membership_written action scope sv acceptedAt (TrimSpace reason) m' e s)
       \<lparr>memberships := put_row m_id m' (memberships s),
        batches := change_row ba_id k (heartbeat at) (batches s),
        batch_items := settled (at_item b k position) (\<lambda>_. OutcomeSucceeded acceptedAt e (m_version m')) (batch_items s)\<rparr>"

definition renewed :: "uuid \<Rightarrow> instant \<Rightarrow> store \<Rightarrow> store" where
  "renewed k at s = s\<lparr>batches := change_row ba_id k (heartbeat at) (batches s)\<rparr>"

lemma execute_item_body_run:
  assumes "execute_item_body env batch lease item version reason b cx w = (Inr u, w')"
  obtains at j where "holds_lease b (ba_id batch) lease (store w)"
    "find (at_item b (ba_id batch) (bi_position item)) (batch_items (store w)) = Some j"
    "bi_outcome j \<noteq> None" "store w' = renewed (ba_id batch) at (store w)"
  | at j m to p t scope m' acceptedAt e where "holds_lease b (ba_id batch) lease (store w)"
    "find (at_item b (ba_id batch) (bi_position item)) (batch_items (store w)) = Some j" "bi_outcome j = None"
    "membership_row b (bi_membership item) (store w) = Some m" "m_version m = version"
    "membership_Resolve (ba_action batch) (m_status m) = Inr (to, p)"
    "row_of TenantID (m_tenant m) (tenants (store w)) = Some t" "cx_scope cx = Some scope"
    "m' = m\<lparr>m_status := to, m_version := m_version m + 1\<rparr>"
    "store w' = applied b (ba_id batch) (bi_position item) (ba_action batch) scope (SecurityVersion t) at acceptedAt reason m' e (store w)"
proof -
  let ?k = "ba_id batch" and ?p = "bi_position item"
  define at where "at = clock env (ticks w)"
  define w1 where "w1 = w\<lparr>ticks := Suc (ticks w), store := renewed ?k at (store w)\<rparr>"
  obtain j where lease: "holds_lease b ?k lease (store w)"
    and j: "find (at_item b ?k ?p) (batch_items (store w)) = Some j"
    and rest: "(if bi_outcome j \<noteq> None then return ()
         else seq (membership_TransitionWithin env b cx (ba_action batch)
                  \<lparr>mc_membership = bi_membership item, mc_expectedVersion = version, mc_reason = reason\<rparr>) (\<lambda>result.
           seq (recordSucceeded b ?k ?p result) (\<lambda>_. hook env ''membership.halt''))) w1 = (Inr u, w')"
    using assms
    by (auto simp: execute_item_body_def seq_run(1) now_run fence_run read_db_run raise_run w1_def at_def renewed_def
        split: option.split_asm)
  show thesis
  proof (cases "bi_outcome j")
    case (Some x)
    then show thesis using that(1)[OF lease j, of at] rest by (simp add: return_run w1_def)
  next
    case None
    then obtain result w2 where
      tr: "membership_TransitionWithin env b cx (ba_action batch)
        \<lparr>mc_membership = bi_membership item, mc_expectedVersion = version, mc_reason = reason\<rparr> w1 = (Inr result, w2)"
      and w': "store w' = (store w2)\<lparr>batch_items := settled (at_item b ?k ?p)
        (\<lambda>_. OutcomeSucceeded (mr_acceptedAt result) (mr_event result) (m_version (mr_membership result))) (batch_items (store w2))\<rparr>"
      using rest by (auto simp: seq_run(1) recordSucceeded_def settle_items_def write_db_run hook_run)
    show thesis
      using tr
    proof (rule TransitionWithin_effect)
      fix m to p t scope
      assume m: "membership_row b (mc_membership \<lparr>mc_membership = bi_membership item, mc_expectedVersion = version, mc_reason = reason\<rparr>) (store w1) = Some m"
        "membership_Resolve (ba_action batch) (m_status m) = Inr (to, p)"
        "m_version m = mc_expectedVersion \<lparr>mc_membership = bi_membership item, mc_expectedVersion = version, mc_reason = reason\<rparr>"
        "row_of TenantID (m_tenant m) (tenants (store w1)) = Some t" "cx_scope cx = Some scope"
        and m': "mr_membership result = m\<lparr>m_status := to, m_version := m_version m + 1\<rparr>"
        and w2: "store w2 = membership_written (ba_action batch) scope (SecurityVersion t) (mr_acceptedAt result)
          (TrimSpace (mc_reason \<lparr>mc_membership = bi_membership item, mc_expectedVersion = version, mc_reason = reason\<rparr>))
          (mr_membership result) (mr_event result) ((store w1)\<lparr>memberships := put_row m_id (mr_membership result) (memberships (store w1))\<rparr>)"
      have "store w' = applied b ?k ?p (ba_action batch) scope (SecurityVersion t) at (mr_acceptedAt result) reason
          (mr_membership result) (mr_event result) (store w)"
        using w' w2 by (simp add: applied_def membership_written_def w1_def renewed_def Let_def)
      then show thesis
        using that(2)[OF lease j None _ _ m(2) _ m(5) m'] m by (simp add: membership_row_def w1_def renewed_def)
    qed
  qed
qed

lemma executeItem_run:
  assumes "executeItem env cx batch lease item version reason w = (Inr u, w')"
  obtains at j scope where "cx_scope cx = Some scope" "holds_lease (bindTenant scope) (ba_id batch) lease (store w)"
    "find (at_item (bindTenant scope) (ba_id batch) (bi_position item)) (batch_items (store w)) = Some j"
    "bi_outcome j \<noteq> None" "data w' = renewed (ba_id batch) at (data w)"
  | at j m to p t scope m' acceptedAt e where "cx_scope cx = Some scope"
    "holds_lease (bindTenant scope) (ba_id batch) lease (store w)"
    "find (at_item (bindTenant scope) (ba_id batch) (bi_position item)) (batch_items (store w)) = Some j" "bi_outcome j = None"
    "membership_row (bindTenant scope) (bi_membership item) (store w) = Some m" "m_version m = version"
    "membership_Resolve (ba_action batch) (m_status m) = Inr (to, p)"
    "row_of TenantID (m_tenant m) (tenants (store w)) = Some t"
    "m' = m\<lparr>m_status := to, m_version := m_version m + 1\<rparr>"
    "data w' = applied (bindTenant scope) (ba_id batch) (bi_position item) (ba_action batch) scope (SecurityVersion t)
       at acceptedAt reason m' e (data w)"
proof -
  from assms[unfolded executeItem_def] obtain scope cx1 w1 where s: "cx_scope cx = Some scope" and c: "marked cx cx1"
    and w1: "entered [] w w1"
    and run: "execute_item_body env batch lease item version reason (bindTenant scope) cx1 w1 = (Inr u, w')"
    by (rule WithTenantScope_enters)
  have d: "data w1 = data w" using w1 by (simp add: entered_def with_audit_def)
  note same = data_fields[OF d]
  have cs: "cx_scope cx1 = Some scope" using marked_fields[OF c] s by simp
  have lease: "holds_lease b k l (store w1) = holds_lease b k l (store w)" for b k l
    by (simp add: holds_lease_def batch_of_def same)
  have row: "membership_row b k (store w1) = membership_row b k (store w)" for b k
    by (simp add: membership_row_def same)
  show thesis
    using run
  proof (rule execute_item_body_run)
    fix at j
    assume "holds_lease (bindTenant scope) (ba_id batch) lease (store w1)"
      "find (at_item (bindTenant scope) (ba_id batch) (bi_position item)) (batch_items (store w1)) = Some j"
      "bi_outcome j \<noteq> None" and st: "store w' = renewed (ba_id batch) at (store w1)"
    moreover have "data w' = renewed (ba_id batch) at (data w1)"
      using st by (simp add: data_def renewed_def)
    ultimately show thesis using that(1)[OF s] by (simp add: lease same d)
  next
    fix at j m to p t scope' m' acceptedAt e
    assume a: "holds_lease (bindTenant scope) (ba_id batch) lease (store w1)"
      "find (at_item (bindTenant scope) (ba_id batch) (bi_position item)) (batch_items (store w1)) = Some j" "bi_outcome j = None"
      "membership_row (bindTenant scope) (bi_membership item) (store w1) = Some m" "m_version m = version"
      "membership_Resolve (ba_action batch) (m_status m) = Inr (to, p)"
      "row_of TenantID (m_tenant m) (tenants (store w1)) = Some t"
      and sc: "cx_scope cx1 = Some scope'" and m': "m' = m\<lparr>m_status := to, m_version := m_version m + 1\<rparr>"
      and st: "store w' = applied (bindTenant scope) (ba_id batch) (bi_position item) (ba_action batch) scope'
        (SecurityVersion t) at acceptedAt reason m' e (store w1)"
    have "scope' = scope" using sc cs by simp
    then have "data w' = applied (bindTenant scope) (ba_id batch) (bi_position item) (ba_action batch) scope
        (SecurityVersion t) at acceptedAt reason m' e (data w1)"
      using st by (simp add: data_def applied_def membership_written_def Let_def)
    then show thesis
      using that(2)[OF s a(1)[unfolded lease] a(2)[unfolded same] a(3) a(4)[unfolded row] a(5,6) a(7)[unfolded same] m'] d by simp
  qed
qed

text \<open>
  (C26) One item of a batch that is executed: the request holds the lease of a batch that is executing, and
  either the item already has an outcome and nothing but the lease's heartbeat is written, or it has none and
  the Membership it names, still in the version the preview read, moves along its lifecycle table with its
  event, and the item records the success, in the same transaction.
\<close>

theorem executeItem_effect:
  assumes "executeItem env cx batch lease item version reason w = (Inr u, w')"
  shows "\<exists>scope j at. cx_scope cx = Some scope \<and> holds_lease (bindTenant scope) (ba_id batch) lease (store w) \<and>
    find (at_item (bindTenant scope) (ba_id batch) (bi_position item)) (batch_items (store w)) = Some j \<and>
    (if bi_outcome j \<noteq> None then data w' = renewed (ba_id batch) at (data w)
     else \<exists>m to p t acceptedAt e. membership_row (bindTenant scope) (bi_membership item) (store w) = Some m \<and>
       m_version m = version \<and> membership_Resolve (ba_action batch) (m_status m) = Inr (to, p) \<and>
       row_of TenantID (m_tenant m) (tenants (store w)) = Some t \<and>
       data w' = applied (bindTenant scope) (ba_id batch) (bi_position item) (ba_action batch) scope (SecurityVersion t)
         at acceptedAt reason (m\<lparr>m_status := to, m_version := m_version m + 1\<rparr>) e (data w))"
  using assms
proof (rule executeItem_run)
  fix at j scope
  assume "cx_scope cx = Some scope" "holds_lease (bindTenant scope) (ba_id batch) lease (store w)"
    "find (at_item (bindTenant scope) (ba_id batch) (bi_position item)) (batch_items (store w)) = Some j"
    "bi_outcome j \<noteq> None" "data w' = renewed (ba_id batch) at (data w)"
  then show ?thesis by (intro exI[of _ scope] exI[of _ j] exI[of _ at]) simp
next
  fix at j m to p t scope m' acceptedAt e
  assume "cx_scope cx = Some scope" "holds_lease (bindTenant scope) (ba_id batch) lease (store w)"
    "find (at_item (bindTenant scope) (ba_id batch) (bi_position item)) (batch_items (store w)) = Some j" "bi_outcome j = None"
    "membership_row (bindTenant scope) (bi_membership item) (store w) = Some m" "m_version m = version"
    "membership_Resolve (ba_action batch) (m_status m) = Inr (to, p)"
    "row_of TenantID (m_tenant m) (tenants (store w)) = Some t" "m' = m\<lparr>m_status := to, m_version := m_version m + 1\<rparr>"
    "data w' = applied (bindTenant scope) (ba_id batch) (bi_position item) (ba_action batch) scope (SecurityVersion t)
       at acceptedAt reason m' e (data w)"
  then show ?thesis by (intro exI[of _ scope] exI[of _ j] exI[of _ at]) auto
qed

section \<open>Outcomes are final\<close>

definition item_key :: "batch_item \<Rightarrow> uuid \<times> nat" where
  "item_key i = (bi_batch i, bi_position i)"

definition item_advanced :: "batch_item \<Rightarrow> batch_item \<Rightarrow> bool" where
  "item_advanced i i' \<longleftrightarrow> i' = i\<lparr>bi_outcome := bi_outcome i'\<rparr> \<and> (bi_outcome i \<noteq> None \<longrightarrow> i' = i)"

definition batch_advanced :: "batch_row \<Rightarrow> batch_row \<Rightarrow> bool" where
  "batch_advanced r r' \<longleftrightarrow>
     ba_tenant r' = ba_tenant r \<and> ba_action r' = ba_action r \<and> ba_expiresAt r' = ba_expiresAt r \<and>
     (ba_state r = BatchExecuting \<longrightarrow> ba_state r' \<in> {BatchExecuting, BatchExecuted}) \<and>
     (ba_state r = BatchExecuted \<longrightarrow> r' = r)"

definition batches_advanced :: "store \<Rightarrow> store \<Rightarrow> bool" where
  "batches_advanced s s' \<longleftrightarrow>
     (\<forall>k r. row_of ba_id k (batches s) = Some r \<longrightarrow>
        (\<exists>r'. row_of ba_id k (batches s') = Some r' \<and> batch_advanced r r')) \<and>
     (\<forall>k i. row_of item_key k (batch_items s) = Some i \<longrightarrow>
        (\<exists>i'. row_of item_key k (batch_items s') = Some i' \<and> item_advanced i i'))"

lemma batch_refl: "item_advanced i i" "batch_advanced r r"
  by (simp_all add: item_advanced_def batch_advanced_def)

lemma item_advanced_trans: "item_advanced i i' \<Longrightarrow> item_advanced i' i'' \<Longrightarrow> item_advanced i i''"
  unfolding item_advanced_def by (cases i; cases i'; cases i'') auto

lemma batch_advanced_trans: "batch_advanced r r' \<Longrightarrow> batch_advanced r' r'' \<Longrightarrow> batch_advanced r r''"
  unfolding batch_advanced_def by auto

lemma batches_advanced_same:
  "batches s' = batches s \<and> batch_items s' = batch_items s \<Longrightarrow> batches_advanced s s'"
  by (simp add: batches_advanced_def batch_refl)

lemma batches_advanced_trans: "batches_advanced s t \<Longrightarrow> batches_advanced t u \<Longrightarrow> batches_advanced s u"
  unfolding batches_advanced_def by (meson item_advanced_trans batch_advanced_trans)

lemma batch_step_advanced: "batch_step r f \<Longrightarrow> batch_advanced r (f r)"
  by (auto simp: batch_step_def batch_advanced_def batch_updates)

lemma batch_step_id: "batch_step r f \<Longrightarrow> ba_id (f x) = ba_id x"
  by (auto simp: batch_step_def batch_updates)

lemma row_of_settled:
  "row_of item_key k (settled P outcome items) =
     map_option (\<lambda>i. if P i \<and> bi_outcome i = None then i\<lparr>bi_outcome := Some (outcome i)\<rparr> else i) (row_of item_key k items)"
  by (induction items) (auto simp: settled_def item_key_def)

interpretation batch_progress: batch_relation batches_advanced "\<lambda>_. True"
proof unfold_locales
  fix k r f and s :: store
  assume r: "row_of ba_id k (batches s) = Some r" "batch_step r f"
  show "batches_advanced s (s\<lparr>batches := change_row ba_id k f (batches s)\<rparr>)"
    using r batch_step_advanced[OF r(2)] row_of_change_row[of ba_id f, OF batch_step_id[OF r(2)]]
    by (auto simp: batches_advanced_def batch_refl)
next
  fix P outcome and s :: store
  show "batches_advanced s (s\<lparr>batch_items := settled P outcome (batch_items s)\<rparr>)"
    by (auto simp: batches_advanced_def batch_refl row_of_settled item_advanced_def)
next
  fix r :: batch_row and s :: store
  show "batches_advanced s (s\<lparr>batches := batches s @ [r]\<rparr>)"
    by (auto simp: batches_advanced_def batch_refl row_of_append)
next
  fix i :: batch_item and s :: store
  show "batches_advanced s (s\<lparr>batch_items := batch_items s @ [i]\<rparr>)"
    by (auto simp: batches_advanced_def batch_refl row_of_append)
qed (erule (1) batches_advanced_trans | rule batches_advanced_same, simp)+

section \<open>Preview\<close>

lemma foreach_read_run:
  "foreach (\<lambda>(p, k). seq (read_db (g p k)) lift) xs w = (Inr ys, w') \<longleftrightarrow>
     w' = w \<and> list_all2 (\<lambda>(p, k) y. g p k (store w) = Inr y) xs ys"
proof (induction xs arbitrary: ys)
  case Nil
  then show ?case by (auto simp: return_run)
next
  case (Cons x xs)
  obtain p k where x: "x = (p, k)" by (cases x)
  have step: "seq (read_db (g p k)) lift w = (Inr y, w1) \<longleftrightarrow> w1 = w \<and> g p k (store w) = Inr y" for y w1
    by (auto simp: seq_run(1) read_db_run lift_run)
  show ?case
    by (auto simp: x seq_run(1)[of "seq _ _"] seq_run(1)[of "foreach _ _"] step Cons.IH return_run list_all2_Cons1)
qed

lemma insertBatchItem_run:
  "insertBatchItem b i w = (Inr u, w') \<Longrightarrow> w' = w\<lparr>store := (store w)\<lparr>batch_items := batch_items (store w) @ [i]\<rparr>\<rparr>"
  by (auto simp: seq_run(1) insertBatchItem_def ensure_run read_db_run write_db_run)

lemma foreach_insertBatchItem_run:
  "foreach (insertBatchItem b) items w = (Inr u, w') \<Longrightarrow>
     w' = w\<lparr>store := (store w)\<lparr>batch_items := batch_items (store w) @ items\<rparr>\<rparr>"
proof (induction items arbitrary: w u)
  case (Cons i items)
  then obtain v where "foreach (insertBatchItem b) items
      (w\<lparr>store := (store w)\<lparr>batch_items := batch_items (store w) @ [i]\<rparr>\<rparr>) = (Inr v, w')"
    by (auto simp: return_run seq_run(1) dest!: insertBatchItem_run)
  then show ?case using Cons.IH by fastforce
qed (simp add: return_run)

text \<open>An item of a preview would change, with the state its single command leads to, or says why not.\<close>

definition previewed :: "binding \<Rightarrow> membership_action \<Rightarrow> store \<Rightarrow> batch_item \<Rightarrow> bool" where
  "previewed b action s i =
     (case bi_resulting i of
        Some next \<Rightarrow> bi_refusal i = None \<and>
          (\<exists>m. membership_row b (bi_membership i) s = Some m \<and> bi_versionRead i = Some (m_version m) \<and>
             decide action m (m_version m) = Inr next)
      | None \<Rightarrow> (\<exists>p. bi_refusal i = Some p \<and> pb_status p < 500))"

lemma previewItem_run:
  assumes "previewItem b batch reason classify position k s = Inr i"
  shows "bi_membership i = k \<and> bi_position i = position \<and> bi_batch i = ba_id batch \<and> bi_tenant i = ba_tenant batch \<and>
    bi_outcome i = None \<and> previewed b (ba_action batch) s i"
  using assms
  by (auto simp: previewItem_def loaded_def refuse_def previewed_def Let_def split: option.splits sum.splits if_splits)

lemma previewed_once: "previewed b a s i \<Longrightarrow> (bi_refusal i = None) = (bi_resulting i \<noteq> None)"
  by (auto simp: previewed_def split: option.splits)

lemma preview_items:
  assumes "list_all2 (\<lambda>(p, k) i. previewItem b batch reason classify p k s = Inr i) (enumerate n ids) items"
  shows "map bi_membership items = ids \<and> map bi_position items = [n..<n + length ids] \<and>
    list_all (previewed b (ba_action batch) s) items \<and> list_all (\<lambda>i. bi_batch i = ba_id batch \<and> bi_outcome i = None) items"
  using assms
proof (induction ids arbitrary: n items)
  case (Cons k ids)
  then obtain i items' where items: "items = i # items'" and i: "previewItem b batch reason classify n k s = Inr i"
    and rest: "list_all2 (\<lambda>(p, k) i. previewItem b batch reason classify p k s = Inr i) (enumerate (Suc n) ids) items'"
    by (auto simp: list_all2_Cons1)
  show ?case using Cons.IH[OF rest] previewItem_run[OF i] by (simp add: items upt_rec)
qed simp

lemma preview_body_run:
  assumes "preview_body env req classify batch b cx w = (Inr (batch', items), w')"
  obtains correlation where
    "batch' = batch\<lparr>ba_correlation := correlation, ba_wouldChange := length (filter (\<lambda>i. bi_refusal i = None) items),
       ba_wouldNotChange := length (filter (\<lambda>i. bi_refusal i \<noteq> None) items)\<rparr>"
    "list_all2 (\<lambda>(p, k) i. previewItem b batch (TrimSpace (bq_reason req)) classify p k (store w) = Inr i)
       (enumerate 0 (bq_memberships req)) items"
    "data w' = (data w)\<lparr>batches := batches (store w) @ [batch'], batch_items := batch_items (store w) @ items\<rparr>"
proof -
  define kept :: "uuid tx" where "kept = (case ba_continues batch of
            None \<Rightarrow> return (ba_correlation batch) | Some parent \<Rightarrow> parentCorrelation b parent)"
  have q: "store w1 = store w" if "kept w = (Inr x, w1)" for x w1
    using that by (auto simp: kept_def parentCorrelation_def seq_run(1) read_db_run ensure_run return_run raise_run split: option.splits)
  have q': "store w2 = store w1" if "(if IsNil x then newID env else return x) w1 = (Inr y, w2)" for x y w1 w2
    using that by (auto simp: newID_run return_run split: if_splits)
  from assms obtain c1 w1 correlation w2 items' w3 w4 u w5 where
    k: "kept w = (Inr c1, w1)" and n: "(if IsNil c1 then newID env else return c1) w1 = (Inr correlation, w2)"
    and f: "foreach (\<lambda>(p, k). seq (read_db (previewItem b batch (TrimSpace (bq_reason req)) classify p k)) lift)
        (enumerate 0 (bq_memberships req)) w2 = (Inr items, w3)"
    and b': "batch' = batch\<lparr>ba_correlation := correlation, ba_wouldChange := length (filter (\<lambda>i. bi_refusal i = None) items),
       ba_wouldNotChange := length (filter (\<lambda>i. bi_refusal i \<noteq> None) items)\<rparr>"
    and ins: "insertBatch b batch' w3 = (Inr (), w4)" and its: "foreach (insertBatchItem b) items w4 = (Inr u, w5)"
    and rs: "Respond env cx (ResBatch batch' items) w5 = (Inr (), w')"
    unfolding preview_body_def kept_def[symmetric] Let_def
    by (auto simp: seq_run(1)[of kept] seq_run(1)[of "foreach _ _"] seq_run(1)[of "insertBatch _ _"]
        seq_run(1)[of "Respond _ _ _"] seq_run(1)[of "if _ then _ else _"] return_run)
  have st: "store w2 = store w" using q[OF k] q'[OF n] by simp
  have it: "w3 = w2" "list_all2 (\<lambda>(p, k) i. previewItem b batch (TrimSpace (bq_reason req)) classify p k (store w) = Inr i)
       (enumerate 0 (bq_memberships req)) items"
    using f st by (simp_all add: foreach_read_run)
  have w4: "store w4 = (store w)\<lparr>batches := batches (store w) @ [batch']\<rparr>"
    using ins it(1) st by (auto simp: insertBatch_def seq_run(1) ensure_run read_db_run write_db_run)
  have "data w' = (data w)\<lparr>batches := batches (store w) @ [batch'], batch_items := batch_items (store w) @ items\<rparr>"
    using foreach_insertBatchItem_run[OF its] Respond_run[OF rs] w4 by (simp add: bookkept_def data_def)
  then show thesis using that[OF b' it(2)] by simp
qed

text \<open>
  A preview that succeeds names between one and five hundred different Memberships and stores one batch of
  the caller's Tenant, executable for the time a preview lives, with an item for each in the order named: one
  that would change shows the version read and the state the single command would lead to from it, one that
  would not carries a refusal that is the caller's fault. No Membership, event or message is written.
\<close>

theorem PreviewBatch_effect:
  assumes "PreviewBatch env cx req classifier w = (Inr (batch, items), w')"
  shows "\<exists>scope. cx_scope cx = Some scope \<and> 1 \<le> length (bq_memberships req) \<and> length (bq_memberships req) \<le> MaxBatchItems \<and>
    distinct (bq_memberships req) \<and> ba_tenant batch = sc_tenant scope \<and> ba_action batch = bq_action req \<and>
    ba_state batch = BatchPreviewed \<and> ba_expiresAt batch = ba_createdAt batch + BatchTTL \<and>
    ba_wouldChange batch + ba_wouldNotChange batch = length (bq_memberships req) \<and>
    map bi_membership items = bq_memberships req \<and> map bi_position items = [0..<length (bq_memberships req)] \<and>
    list_all (previewed (bindTenant scope) (bq_action req) (store w)) items \<and>
    data w' = (data w)\<lparr>batches := batches (store w) @ [batch], batch_items := batch_items (store w) @ items\<rparr>"
proof -
  define w0 where "w0 = w\<lparr>minted := Suc (minted w), ticks := Suc (ticks w)\<rparr>"
  have w0: "store w0 = store w" by (simp add: w0_def)
  obtain classify scope batchID where v: "batch_validate req = Inr ()" and sc: "cx_scope cx = Some scope"
    and run: "WithTenantScope env cx (preview_body env req classify (new_batch req scope batchID (clock env (ticks w)))) w0 = (Inr (batch, items), w')"
    using assms
    by (auto simp: PreviewBatch_def seq_run(1)[of "lift _"] seq_run(1)[of "ScopeFrom _"] seq_run(1)[of "newID _"]
        seq_run(1)[of "now _"] lift_run ScopeFrom_run newID_run now_run raise_run w0_def split: option.split_asm)
  let ?new = "new_batch req scope batchID (clock env (ticks w))"
  obtain scope' cx1 w1 where s': "cx_scope cx = Some scope'" and e: "entered [] w0 w1"
    and body: "preview_body env req classify ?new (bindTenant scope') cx1 w1 = (Inr (batch, items), w')"
    using run by (rule WithTenantScope_enters)
  have sc': "scope' = scope" using s' sc by simp
  have d: "data w1 = data w" using e w0 by (simp add: entered_def with_audit_def data_def)
  note same = data_fields[OF d]
  obtain correlation where b: "batch = ?new\<lparr>ba_correlation := correlation,
       ba_wouldChange := length (filter (\<lambda>i. bi_refusal i = None) items),
       ba_wouldNotChange := length (filter (\<lambda>i. bi_refusal i \<noteq> None) items)\<rparr>"
    and it: "list_all2 (\<lambda>(p, k) i. previewItem (bindTenant scope') ?new (TrimSpace (bq_reason req)) classify p k (store w1) = Inr i)
       (enumerate 0 (bq_memberships req)) items"
    and out: "data w' = (data w1)\<lparr>batches := batches (store w1) @ [batch], batch_items := batch_items (store w1) @ items\<rparr>"
    using body by (rule preview_body_run)
  have pv: "previewed b a (store w1) = previewed b a (store w)" for b a
  proof
    fix i
    have "membership_row b k (store w1) = membership_row b k (store w)" for k by (simp add: membership_row_def same)
    then show "previewed b a (store w1) i = previewed b a (store w) i" by (simp add: previewed_def split: option.split)
  qed
  note p = preview_items[OF it]
  have "length items = length (bq_memberships req)" using p by (metis length_map)
  then have "ba_wouldChange batch + ba_wouldNotChange batch = length (bq_memberships req)"
    using sum_length_filter_compl[of "\<lambda>i. bi_refusal i = None" items] by (simp add: b)
  moreover have "1 \<le> length (bq_memberships req) \<and> length (bq_memberships req) \<le> MaxBatchItems \<and> distinct (bq_memberships req)"
    using v named_once_ok[of "[]" "bq_memberships req"] by (auto simp: batch_validate_def Suc_le_eq split: if_splits)
  ultimately show ?thesis
    using p sc' pv out same d by (intro exI[of _ scope]) (simp add: sc b new_batch_def)
qed

section \<open>Completion\<close>

lemma settled_all:
  assumes "\<And>j x. P (j\<lparr>bi_outcome := x\<rparr>) = P j" "i \<in> set (settled P outcome items)" "P i"
  shows "bi_outcome i \<noteq> None"
  using assms(2,3) by (auto simp: settled_def assms(1) split: if_splits)

lemma complete_body_run:
  assumes "complete_body k lease completed b cx w = (Inr (batch, items), w')"
  shows "holds_lease b k lease (store w) \<and> ba_state batch = BatchExecuted \<and> batch_of b k (store w') = Some batch \<and>
    items = selectBatchItems b k (store w') \<and> list_all (\<lambda>i. bi_outcome i \<noteq> None) items"
proof -
  have lease: "holds_lease b k lease (store w)"
    and ld: "batch_of b k (store w') = Some batch" "items = selectBatchItems b k (store w')"
    and w': "store w' = (store w)\<lparr>batches := change_row ba_id k (completeExecution completed) (batches (store w)),
      batch_items := settled (\<lambda>i. sees b (bi_tenant i) \<and> bi_batch i = k)
        (\<lambda>i. OutcomeNotAttempted (if bi_refusal i \<noteq> None then ''refused_at_preview'' else ''error_allowance'')) (batch_items (store w))\<rparr>"
    using assms by (auto simp: complete_body_def seq_run(1) read_db_run ensure_run put_batch_def write_db_run
        settleUnattempted_def settle_items_def loadBatch_run)
  have "ba_state batch = BatchExecuted"
    using batch_of_SomeD[OF ld(1)] row_of_change_row[of ba_id "completeExecution completed" k k "batches (store w)"]
    by (auto simp: w' completeExecution_def)
  moreover have "list_all (\<lambda>i. bi_outcome i \<noteq> None) items"
    unfolding ld(2) selectBatchItems_def w' list_all_iff
    by (intro ballI, rule settled_all[of "\<lambda>i. sees b (bi_tenant i) \<and> bi_batch i = k"]) auto
  ultimately show ?thesis using lease ld by simp
qed


end
