(* ===== verification/Provider_Authority.thy ===== *)
theory Provider_Authority
  imports Paging
begin

text \<open>
  Provider authority, \<open>src/internal/authority\<close>: the grants a provider holds
  (\<open>authority.go\<close>, \<open>administration.go\<close>), the activations that put an eligible grant in force
  (\<open>activation.go\<close>), the events that carry a published grant to the service that enforces it
  (\<open>publication.go\<close>), the use of emergency grants (\<open>emergency.go\<close>) and the pause of Tenant
  administration (\<open>pause.go\<close>).

  PostgreSQL's \<open>now()\<close> is the instant the transaction started: each body reads it once and hands it to
  its statements.
\<close>

definition read_callers :: "(caller_records \<Rightarrow> 'a) \<Rightarrow> 'a tx" where
  "read_callers f = read_db (\<lambda>s. f (callers s))"

definition on_callers :: "(caller_records \<Rightarrow> caller_records) \<Rightarrow> unit tx" where
  "on_callers f = write_db (\<lambda>s. s\<lparr>callers := f (callers s)\<rparr>)"

lemma read_callers_run [run_simps]:
  "read_callers f w = (Inr y, w') \<longleftrightarrow> y = f (callers (store w)) \<and> w' = w"
  "read_callers f w = (Inl e, w') \<longleftrightarrow> False"
  by (auto simp: read_callers_def run_simps)

lemma on_callers_run [run_simps]:
  "on_callers f w = (Inr u, w') \<longleftrightarrow> w' = w\<lparr>store := (store w)\<lparr>callers := f (callers (store w))\<rparr>\<rparr>"
  "on_callers f w = (Inl e, w') \<longleftrightarrow> False"
  by (auto simp: on_callers_def run_simps)

section \<open>Scopes and instants\<close>

definition Scope :: string where
  "Scope = ''provider:organization-control''"

definition ScopeIdentityControl :: string where
  "ScopeIdentityControl = ''provider:identity-control''"

definition Scopes :: "string list" where
  "Scopes = [Scope, ScopeIdentityControl]"

definition PublishedScopes :: "string list" where
  "PublishedScopes = [ScopeIdentityControl]"

definition published :: "string \<Rightarrow> bool" where
  "published scope = list_ex (\<lambda>s. s = scope) PublishedScopes"

definition registeredScope :: "string \<Rightarrow> bool" where
  "registeredScope scope = list_ex (\<lambda>s. s = scope) Scopes"

definition Second :: int where
  "Second = 1000000000"

definition PendingLifetime :: int where
  "PendingLifetime = 24 * 60 * 60 * Second"

definition ValidationPeriod :: int where
  "ValidationPeriod = 90 * 24 * 60 * 60 * Second"

definition EventGranted :: string where
  "EventGranted = ''com.scnehaux.organization.provider.lifecycle.granted''"

definition EventActivated :: string where
  "EventActivated = ''com.scnehaux.organization.provider.lifecycle.activated''"

definition EventEnded :: string where
  "EventEnded = ''com.scnehaux.organization.provider.security.ended''"

definition EventRevoked :: string where
  "EventRevoked = ''com.scnehaux.organization.provider.security.revoked''"

section \<open>Rows the statements select\<close>

definition unrevoked :: "provider_grant \<Rightarrow> bool" where
  "unrevoked g \<longleftrightarrow> pg_revokedAt g = None"

definition grant_of :: "uuid \<Rightarrow> caller_records \<Rightarrow> provider_grant option" where
  "grant_of k c = row_of pg_id k (provider_grants c)"

definition activation_of :: "uuid \<Rightarrow> caller_records \<Rightarrow> activation option" where
  "activation_of k c = row_of act_id k (activations c)"

definition InForce :: "activation \<Rightarrow> instant \<Rightarrow> bool" where
  "InForce a at \<longleftrightarrow>
     act_decision a = Some DecisionApproved \<and> act_endedAt a = None \<and>
     (case act_endsAt a of None \<Rightarrow> False | Some ends \<Rightarrow> at < ends)"

definition holds_scope :: "uuid \<Rightarrow> string \<Rightarrow> caller_records \<Rightarrow> bool" where
  "holds_scope principalID scope c =
     list_ex (\<lambda>g. pg_principal g = principalID \<and> pg_scope g = scope \<and> unrevoked g) (provider_grants c)"

section \<open>Publishing a grant\<close>

definition ends_key :: "activation \<Rightarrow> instant" where
  "ends_key a = (case act_endsAt a of None \<Rightarrow> 0 | Some ends \<Rightarrow> ends)"

definition bumpVersion :: "uuid \<Rightarrow> int tx" where
  "bumpVersion grantID =
     seq (read_callers (grant_of grantID)) (\<lambda>row.
     case row of
       None \<Rightarrow> raise (ErrInternal ''authority: advancing the version'')
     | Some g \<Rightarrow>
         seq (lift (bigint_incr (pg_version g))) (\<lambda>v.
         seq (on_callers (\<lambda>c. c\<lparr>provider_grants := put_row pg_id (g\<lparr>pg_version := v\<rparr>) (provider_grants c)\<rparr>)) (\<lambda>_.
         return v)))"

text \<open>\<open>grantStateStatement\<close>: a revoked grant carries no activation.\<close>

definition grantState :: "instant \<Rightarrow> int \<Rightarrow> provider_grant \<Rightarrow> caller_records \<Rightarrow> grant_state" where
  "grantState t version g c =
     \<lparr>gs_grant = pg_id g, gs_principal = pg_principal g, gs_scope = pg_scope g, gs_kind = pg_kind g,
      gs_revoked = (\<not> unrevoked g), gs_version = version,
      gs_activation =
        (if unrevoked g
         then map_option (\<lambda>a. (act_id a, ends_key a))
                (first_row (order_desc ends_key (filter (\<lambda>a. act_grant a = pg_id g \<and> InForce a t) (activations c))))
         else None)\<rparr>"

definition recordGrantEvent :: "grant_event \<Rightarrow> unit tx" where
  "recordGrantEvent e =
     seq (read_callers (\<lambda>c. \<not> list_ex (\<lambda>x. ge_event x = ge_event e \<or> ge_grant x = ge_grant e \<and> ge_version x = ge_version e)
            (grant_events c))) (\<lambda>ok.
     seq (ensure ok (ErrInternal ''authority: recording the version of the event'')) (\<lambda>_.
     on_callers (\<lambda>c. c\<lparr>grant_events := grant_events c @ [e]\<rparr>)))"

definition publishAt :: "env \<Rightarrow> instant \<Rightarrow> uuid \<Rightarrow> string \<Rightarrow> int \<Rightarrow> bool tx" where
  "publishAt env t grantID eventType version =
     seq (read_callers (grant_of grantID)) (\<lambda>row.
     case row of
       None \<Rightarrow> raise (ErrInternal ''authority: reading the state of the grant'')
     | Some g \<Rightarrow>
         seq (read_callers (grantState t version g)) (\<lambda>state.
         seq (now env) (\<lambda>at.
         seq (publish env grantID eventType at (GrantPayload state) (eventType = EventEnded \<or> eventType = EventRevoked)) (\<lambda>eventID.
         seq (recordGrantEvent \<lparr>ge_event = eventID, ge_grant = grantID, ge_version = version, ge_type = eventType\<rparr>) (\<lambda>_.
         return (\<not> unrevoked g))))))"

definition grant_publish :: "env \<Rightarrow> instant \<Rightarrow> uuid \<Rightarrow> string \<Rightarrow> unit tx" where
  "grant_publish env t grantID eventType =
     seq (read_callers (\<lambda>c. case grant_of grantID c of None \<Rightarrow> [] | Some g \<Rightarrow> pg_scope g)) (\<lambda>scope.
     if \<not> published scope then return ()
     else
       seq (bumpVersion grantID) (\<lambda>version.
       seq (publishAt env t grantID eventType version) (\<lambda>_.
       return ())))"

text \<open>After a restore: the grants of a published scope that confer nothing now, at the version they hold.\<close>

definition withdrawn_grant :: "instant \<Rightarrow> caller_records \<Rightarrow> provider_grant \<Rightarrow> bool" where
  "withdrawn_grant t c g \<longleftrightarrow>
     pg_scope g \<in> set PublishedScopes \<and>
     (\<not> unrevoked g \<or>
      pg_kind g = KindEligible \<and> \<not> list_ex (\<lambda>a. act_grant a = pg_id g \<and> InForce a t) (activations c))"

definition PublishWithdrawnGrants :: "env \<Rightarrow> nat tx" where
  "PublishWithdrawnGrants env =
     seq (db_now env) (\<lambda>t.
     seq (read_callers (\<lambda>c. sort_key pg_id (filter (withdrawn_grant t c) (provider_grants c)))) (\<lambda>grants.
     seq (foreach (\<lambda>g. publishAt env t (pg_id g) (if unrevoked g then EventEnded else EventRevoked) (pg_version g)) grants) (\<lambda>_.
     return (length grants))))"

section \<open>Standing\<close>

record standing =
  st_holder :: bool
  st_inForce :: bool
  st_emergency :: bool
  st_activation :: uuid

text \<open>\<open>standingStatement\<close> and what the code makes of its row.\<close>

definition conferring :: "instant \<Rightarrow> uuid \<Rightarrow> caller_records \<Rightarrow> activation \<Rightarrow> bool" where
  "conferring t principalID c a \<longleftrightarrow>
     act_principal a = principalID \<and> act_scope a = Scope \<and> InForce a t \<and>
     list_ex (\<lambda>g. pg_id g = act_grant a \<and> unrevoked g) (provider_grants c)"

definition standing_of :: "instant \<Rightarrow> uuid \<Rightarrow> caller_records \<Rightarrow> standing" where
  "standing_of t principalID c =
     (let holder = list_ex (\<lambda>g. pg_principal g = principalID \<and> unrevoked g) (provider_grants c);
          emergency = list_ex (\<lambda>g. pg_principal g = principalID \<and> pg_scope g = Scope \<and> unrevoked g \<and>
                        pg_kind g = KindEmergency) (provider_grants c);
          activation = (case first_row (sort_key act_id (filter (conferring t principalID c) (activations c))) of
                          None \<Rightarrow> 0 | Some a \<Rightarrow> act_id a)
      in \<lparr>st_holder = holder, st_inForce = (emergency \<or> \<not> IsNil activation), st_emergency = emergency,
          st_activation = activation\<rparr>)"

definition ProviderStanding :: "env \<Rightarrow> uuid \<Rightarrow> standing tx" where
  "ProviderStanding env principalID =
     seq (ensure (\<not> IsNil principalID) (ErrInternal ''authority: a principal is required'')) (\<lambda>_.
     InTx env (seq (db_now env) (\<lambda>t. read_callers (standing_of t principalID))))"

definition ConsumerFor :: "env \<Rightarrow> uuid \<Rightarrow> string tx" where
  "ConsumerFor env principalID =
     seq (ensure (\<not> IsNil principalID) (ErrInternal ''authority: a principal is required'')) (\<lambda>_.
     InTx env (read_callers (\<lambda>c.
       case find (\<lambda>r. co_principal r = principalID \<and> co_retiredAt r = None) (consumers c) of
         None \<Rightarrow> [] | Some r \<Rightarrow> co_id r)))"

definition EmergencyGrants :: "env \<Rightarrow> string \<Rightarrow> nat tx" where
  "EmergencyGrants env scope =
     InTx env (read_callers (\<lambda>c.
       length (filter (\<lambda>g. pg_scope g = scope \<and> pg_kind g = KindEmergency \<and> unrevoked g) (provider_grants c))))"

section \<open>The first grant\<close>

record bootstrap =
  bs_principal :: uuid
  bs_operator :: string
  bs_reason :: string

record bootstrap_grant =
  bg_id :: uuid
  bg_principal :: uuid
  bg_scope :: string
  bg_operator :: string
  bg_grantedAt :: instant
  bg_existing :: bool

definition bootstrap_body :: "env \<Rightarrow> bootstrap \<Rightarrow> bootstrap_grant tx" where
  "bootstrap_body env req =
     seq (read_callers (\<lambda>c. take 2 (sort_key pg_grantedAt (provider_grants c)))) (\<lambda>existing.
     if length existing = 1 \<and> pg_grantedBy (hd existing) = None \<and> pg_principal (hd existing) = bs_principal req
     then return \<lparr>bg_id = pg_id (hd existing), bg_principal = pg_principal (hd existing), bg_scope = Scope,
            bg_operator = pg_operator (hd existing), bg_grantedAt = pg_grantedAt (hd existing), bg_existing = True\<rparr>
     else
       seq (ensure (\<not> length existing > 0) ErrGrantsExist) (\<lambda>_.
       seq (newID env) (\<lambda>grantID.
       seq (db_now env) (\<lambda>t.
       let g = \<lparr>pg_id = grantID, pg_principal = bs_principal req, pg_scope = Scope, pg_kind = KindEmergency,
                pg_grantedBy = None, pg_operator = TrimSpace (bs_operator req), pg_reason = TrimSpace (bs_reason req),
                pg_grantedAt = t, pg_revokedAt = None, pg_revokedBy = None, pg_revokeReason = [], pg_version = 0\<rparr>
       in seq (on_callers (\<lambda>c. c\<lparr>provider_grants := provider_grants c @ [g]\<rparr>)) (\<lambda>_.
          return \<lparr>bg_id = grantID, bg_principal = bs_principal req, bg_scope = Scope,
            bg_operator = TrimSpace (bs_operator req), bg_grantedAt = t, bg_existing = False\<rparr>)))))"

definition Bootstrap :: "env \<Rightarrow> bootstrap \<Rightarrow> bootstrap_grant tx" where
  "Bootstrap env req =
     seq (ensure (\<not> IsNil (bs_principal req)) ErrBootstrapInvalid) (\<lambda>_.
     seq (ensure (TrimSpace (bs_operator req) \<noteq> []) ErrBootstrapInvalid) (\<lambda>_.
     seq (ensure (TrimSpace (bs_reason req) \<noteq> []) ErrBootstrapInvalid) (\<lambda>_.
     InTx env (bootstrap_body env req))))"

section \<open>Granting and revoking\<close>

text \<open>
  \<open>grantStatement\<close>: the partial unique index on the Principal and the scope answers a second active
  grant with no row.
\<close>

definition insertGrant :: "provider_grant \<Rightarrow> bool tx" where
  "insertGrant g =
     seq (read_callers (holds_scope (pg_principal g) (pg_scope g))) (\<lambda>held.
     if held then return False
     else
       seq (read_callers (\<lambda>c. grant_of (pg_id g) c = None)) (\<lambda>fresh.
       seq (ensure fresh (ErrInternal ''authority: insert grant'')) (\<lambda>_.
       seq (on_callers (\<lambda>c. c\<lparr>provider_grants := provider_grants c @ [g]\<rparr>)) (\<lambda>_.
       return True))))"

definition oneGrant :: "uuid \<Rightarrow> provider_grant tx" where
  "oneGrant grantID =
     seq (read_callers (grant_of grantID)) (\<lambda>row.
     case row of None \<Rightarrow> raise (ErrInternal ''authority: no rows'') | Some g \<Rightarrow> return g)"

definition provider_List :: "env \<Rightarrow> ctx \<Rightarrow> string \<Rightarrow> provider_grant list tx" where
  "provider_List env cx reason =
     WithProviderScope env cx reason (\<lambda>b cx. read_callers (\<lambda>c. order_desc pg_grantedAt (provider_grants c)))"

definition grant_body ::
  "env \<Rightarrow> scope \<Rightarrow> uuid \<Rightarrow> uuid \<Rightarrow> string \<Rightarrow> grant_kind \<Rightarrow> string \<Rightarrow> provider_grant body" where
  "grant_body env scope grantID principalID grantScope kind reason b cx =
     seq (db_now env) (\<lambda>t.
     seq (insertGrant \<lparr>pg_id = grantID, pg_principal = principalID, pg_scope = grantScope, pg_kind = kind,
            pg_grantedBy = Some (sc_actor scope), pg_operator = [], pg_reason = TrimSpace reason,
            pg_grantedAt = t, pg_revokedAt = None, pg_revokedBy = None, pg_revokeReason = [], pg_version = 0\<rparr>) (\<lambda>inserted.
     seq (ensure inserted ErrAlreadyGranted) (\<lambda>_.
     seq (grant_publish env t grantID EventGranted) (\<lambda>_.
     seq (oneGrant grantID) (\<lambda>record.
     seq (Respond env cx (ResGrant record)) (\<lambda>_.
     return record))))))"

definition provider_Grant ::
  "env \<Rightarrow> ctx \<Rightarrow> uuid \<Rightarrow> string \<Rightarrow> grant_kind \<Rightarrow> string \<Rightarrow> provider_grant tx" where
  "provider_Grant env cx principalID grantScope kind reason =
     seq (ScopeFrom cx) (\<lambda>scope.
     seq (ensure (registeredScope grantScope) (ErrInvalid PkgAuthority)) (\<lambda>_.
     seq (ensure (kind = KindEligible \<or> kind = KindEmergency) (ErrInvalid PkgAuthority)) (\<lambda>_.
     seq (ensure (\<not> IsNil principalID) (ErrInvalid PkgAuthority)) (\<lambda>_.
     seq (ensure (\<not> blank reason) (ErrInvalid PkgAuthority)) (\<lambda>_.
     seq (newID env) (\<lambda>grantID.
     WithProviderScope env cx reason (grant_body env scope grantID principalID grantScope kind reason)))))))"

definition lockActive :: "caller_records \<Rightarrow> provider_grant list" where
  "lockActive c = filter unrevoked (provider_grants c)"

definition governing :: "provider_grant list \<Rightarrow> nat" where
  "governing active = length (filter (\<lambda>g. pg_scope g = Scope) active)"

definition revokeGrant :: "instant \<Rightarrow> uuid \<Rightarrow> string \<Rightarrow> provider_grant \<Rightarrow> provider_grant" where
  "revokeGrant t actor reason g =
     (if unrevoked g
      then g\<lparr>pg_revokedAt := Some t, pg_revokedBy := Some actor, pg_revokeReason := reason\<rparr> else g)"

definition provider_revoke_body :: "env \<Rightarrow> scope \<Rightarrow> uuid \<Rightarrow> string \<Rightarrow> provider_grant body" where
  "provider_revoke_body env scope grantID reason b cx =
     seq (db_now env) (\<lambda>t.
     seq (read_callers lockActive) (\<lambda>active.
     case row_of pg_id grantID active of
       None \<Rightarrow>
         seq (read_callers (grant_of grantID)) (\<lambda>row.
         case row of None \<Rightarrow> raise ErrGrantNotFound | Some _ \<Rightarrow> raise ErrAlreadyRevoked)
     | Some target \<Rightarrow>
         seq (ensure (\<not> (pg_scope target = Scope \<and> governing active = 1)) ErrLastGrant) (\<lambda>_.
         seq (on_callers (\<lambda>c. c\<lparr>provider_grants :=
                change_row pg_id grantID (revokeGrant t (sc_actor scope) (TrimSpace reason)) (provider_grants c)\<rparr>)) (\<lambda>_.
         seq (grant_publish env t grantID EventRevoked) (\<lambda>_.
         seq (oneGrant grantID) (\<lambda>record.
         seq (Respond env cx (ResGrant record)) (\<lambda>_.
         return record)))))))"

definition provider_Revoke :: "env \<Rightarrow> ctx \<Rightarrow> uuid \<Rightarrow> string \<Rightarrow> provider_grant tx" where
  "provider_Revoke env cx grantID reason =
     seq (ScopeFrom cx) (\<lambda>scope.
     seq (ensure (\<not> IsNil grantID) (ErrInvalid PkgAuthority)) (\<lambda>_.
     seq (ensure (\<not> blank reason) (ErrInvalid PkgAuthority)) (\<lambda>_.
     WithProviderScope env cx reason (provider_revoke_body env scope grantID reason))))"

section \<open>Activations\<close>

definition lapsePending :: "instant \<Rightarrow> activation \<Rightarrow> activation" where
  "lapsePending t a =
     (if act_decision a = None \<and> act_requestedAt a \<le> t - PendingLifetime
      then a\<lparr>act_decision := Some DecisionLapsed, act_decidedAt := Some t\<rparr> else a)"

definition insertActivation :: "activation \<Rightarrow> unit tx" where
  "insertActivation a =
     seq (read_callers (\<lambda>c. activation_of (act_id a) c = None)) (\<lambda>fresh.
     seq (ensure fresh (ErrInternal ''authority: insert activation'')) (\<lambda>_.
     on_callers (\<lambda>c. c\<lparr>activations := activations c @ [a]\<rparr>)))"

text \<open>
  \<open>decideActivationStatement\<close>, a row that is not pending left as it is. The table's separation check
  repeats what \<open>Request\<close> and \<open>Decide\<close> have compared and is not needed for it.
\<close>

definition decideActivation :: "instant \<Rightarrow> uuid \<Rightarrow> decision \<Rightarrow> string \<Rightarrow> activation \<Rightarrow> activation" where
  "decideActivation t decider d reason a =
     (if act_decision a = None
      then a\<lparr>act_decidedBy := Some decider, act_decision := Some d, act_decisionReason := reason,
             act_decidedAt := Some t,
             act_endsAt := (if d = DecisionApproved then Some (t + act_duration a * Second) else None)\<rparr>
      else a)"

definition endActivation :: "instant \<Rightarrow> uuid \<Rightarrow> string \<Rightarrow> activation \<Rightarrow> activation" where
  "endActivation t caller reason a =
     (if InForce a t
      then a\<lparr>act_endedBy := Some caller, act_endReason := reason, act_endedAt := Some t\<rparr> else a)"

definition update_activation :: "uuid \<Rightarrow> (activation \<Rightarrow> activation) \<Rightarrow> unit tx" where
  "update_activation k f = on_callers (\<lambda>c. c\<lparr>activations := change_row act_id k f (activations c)\<rparr>)"

definition lockActivation :: "uuid \<Rightarrow> activation tx" where
  "lockActivation activationID =
     seq (read_callers (activation_of activationID)) (\<lambda>row.
     case row of None \<Rightarrow> raise ErrActivationNotFound | Some a \<Rightarrow> return a)"

definition readActivation :: "uuid \<Rightarrow> activation tx" where
  "readActivation activationID =
     seq (read_callers (activation_of activationID)) (\<lambda>row.
     case row of None \<Rightarrow> raise (ErrInternal ''authority: no rows'') | Some a \<Rightarrow> return a)"

definition activation_Grants :: "env \<Rightarrow> ctx \<Rightarrow> string \<Rightarrow> provider_grant list tx" where
  "activation_Grants env cx reason =
     seq (ScopeFrom cx) (\<lambda>scope.
     WithProviderScope env cx reason (\<lambda>b cx. read_callers (\<lambda>c.
       order_desc pg_grantedAt (filter (\<lambda>g. pg_principal g = sc_actor scope \<and> unrevoked g) (provider_grants c)))))"

definition activation_List :: "env \<Rightarrow> ctx \<Rightarrow> string \<Rightarrow> activation list tx" where
  "activation_List env cx reason =
     WithProviderScope env cx reason (\<lambda>b cx.
       seq (db_now env) (\<lambda>t.
       read_callers (\<lambda>c.
         let last = map act_id (take 100 (order_desc act_requestedAt (activations c)))
         in order_desc act_requestedAt (filter (\<lambda>a. act_decision a = None \<or> InForce a t \<or> act_id a \<in> set last)
              (activations c)))))"

text \<open>The grant an activation is asked of: the caller's own, unrevoked, eligible, with nothing open.\<close>

definition request_checks :: "env \<Rightarrow> instant \<Rightarrow> uuid \<Rightarrow> uuid \<Rightarrow> provider_grant tx" where
  "request_checks env t holder grantID =
     seq (read_callers (grant_of grantID)) (\<lambda>row.
     case row of
       None \<Rightarrow> raise ErrNotHolder
     | Some g \<Rightarrow>
         seq (ensure (\<not> (\<not> unrevoked g \<or> pg_principal g \<noteq> holder)) ErrNotHolder) (\<lambda>_.
         seq (ensure (pg_kind g \<noteq> KindEmergency) ErrEmergencyGrant) (\<lambda>_.
         seq (read_callers (\<lambda>c. list_ex (\<lambda>a. act_grant a = grantID \<and> InForce a t) (activations c))) (\<lambda>active.
         seq (ensure (\<not> active) ErrActivationInForce) (\<lambda>_.
         seq (on_callers (\<lambda>c. c\<lparr>activations := change_row act_grant grantID (lapsePending t) (activations c)\<rparr>)) (\<lambda>_.
         seq (read_callers (\<lambda>c. list_ex (\<lambda>a. act_grant a = grantID \<and> act_decision a = None) (activations c))) (\<lambda>pending.
         seq (ensure (\<not> pending) ErrActivationPending) (\<lambda>_.
         return g))))))))"

definition activation_request_body ::
  "env \<Rightarrow> uuid \<Rightarrow> uuid \<Rightarrow> uuid \<Rightarrow> int \<Rightarrow> string \<Rightarrow> activation body" where
  "activation_request_body env holder activationID grantID duration reason b cx =
     seq (db_now env) (\<lambda>t.
     seq (request_checks env t holder grantID) (\<lambda>g.
     seq (insertActivation \<lparr>act_id = activationID, act_grant = grantID, act_principal = holder, act_scope = pg_scope g,
            act_reason = TrimSpace reason, act_duration = duration div Second, act_approval = approvalRequired env,
            act_requestedAt = t, act_decidedBy = None, act_decision = None, act_decisionReason = [],
            act_decidedAt = None, act_endsAt = None, act_endedBy = None, act_endReason = [], act_endedAt = None\<rparr>) (\<lambda>_.
     seq (if \<not> approvalRequired env
          then seq (update_activation activationID (decideActivation t holder DecisionApproved (TrimSpace reason))) (\<lambda>_.
               grant_publish env t grantID EventActivated)
          else return ()) (\<lambda>_.
     seq (readActivation activationID) (\<lambda>activation.
     seq (Respond env cx (ResActivation activation)) (\<lambda>_.
     return activation))))))"

definition activation_Request :: "env \<Rightarrow> ctx \<Rightarrow> uuid \<Rightarrow> int \<Rightarrow> string \<Rightarrow> activation tx" where
  "activation_Request env cx grantID duration reason =
     seq (ScopeFrom cx) (\<lambda>scope.
     seq (ensure (\<not> IsNil grantID) ErrActivationInvalid) (\<lambda>_.
     seq (ensure (\<not> duration < Second) ErrActivationInvalid) (\<lambda>_.
     seq (ensure (\<not> duration > activationMax env) ErrActivationTooLong) (\<lambda>_.
     seq (ensure (\<not> blank reason) ErrActivationInvalid) (\<lambda>_.
     seq (newID env) (\<lambda>activationID.
     WithProviderScope env cx reason
       (activation_request_body env (sc_actor scope) activationID grantID duration reason)))))))"

definition decide_body :: "env \<Rightarrow> uuid \<Rightarrow> uuid \<Rightarrow> decision \<Rightarrow> string \<Rightarrow> activation body" where
  "decide_body env decider activationID d reason b cx =
     seq (db_now env) (\<lambda>t.
     seq (lockActivation activationID) (\<lambda>current.
     seq (read_callers (holds_scope decider (act_scope current))) (\<lambda>holds.
     seq (ensure holds ErrNotHolder) (\<lambda>_.
     seq (ensure (act_principal current \<noteq> decider) ErrSelfApproval) (\<lambda>_.
     seq (ensure (act_decision current = None) ErrActivationDecided) (\<lambda>_.
     seq (now env) (\<lambda>at.
     seq (ensure (\<not> at - act_requestedAt current > PendingLifetime) ErrActivationDecided) (\<lambda>_.
     seq (update_activation activationID (decideActivation t decider d (TrimSpace reason))) (\<lambda>_.
     seq (if d = DecisionApproved then grant_publish env t (act_grant current) EventActivated else return ()) (\<lambda>_.
     seq (readActivation activationID) (\<lambda>activation.
     seq (Respond env cx (ResActivation activation)) (\<lambda>_.
     return activation))))))))))))"

definition activation_Decide :: "env \<Rightarrow> ctx \<Rightarrow> uuid \<Rightarrow> decision \<Rightarrow> string \<Rightarrow> activation tx" where
  "activation_Decide env cx activationID d reason =
     seq (ScopeFrom cx) (\<lambda>scope.
     seq (ensure (\<not> IsNil activationID) ErrActivationInvalid) (\<lambda>_.
     seq (ensure (d = DecisionApproved \<or> d = DecisionDenied) ErrActivationInvalid) (\<lambda>_.
     seq (ensure (\<not> blank reason) ErrActivationInvalid) (\<lambda>_.
     WithProviderScope env cx reason (decide_body env (sc_actor scope) activationID d reason)))))"

definition end_body :: "env \<Rightarrow> uuid \<Rightarrow> uuid \<Rightarrow> bool \<Rightarrow> string \<Rightarrow> activation body" where
  "end_body env caller activationID providerInForce reason b cx =
     seq (db_now env) (\<lambda>t.
     seq (lockActivation activationID) (\<lambda>current.
     seq (ensure (\<not> (act_principal current \<noteq> caller \<and> \<not> providerInForce)) ErrNotHolder) (\<lambda>_.
     seq (ensure (InForce current t) ErrActivationNotInForce) (\<lambda>_.
     seq (update_activation activationID (endActivation t caller (TrimSpace reason))) (\<lambda>_.
     seq (grant_publish env t (act_grant current) EventEnded) (\<lambda>_.
     seq (readActivation activationID) (\<lambda>activation.
     seq (Respond env cx (ResActivation activation)) (\<lambda>_.
     return activation))))))))"

definition activation_End :: "env \<Rightarrow> ctx \<Rightarrow> uuid \<Rightarrow> bool \<Rightarrow> string \<Rightarrow> activation tx" where
  "activation_End env cx activationID providerInForce reason =
     seq (ScopeFrom cx) (\<lambda>scope.
     seq (ensure (\<not> IsNil activationID) ErrActivationInvalid) (\<lambda>_.
     seq (ensure (\<not> blank reason) ErrActivationInvalid) (\<lambda>_.
     WithProviderScope env cx reason (end_body env (sc_actor scope) activationID providerInForce reason))))"

section \<open>Emergency grants\<close>

text \<open>\<open>recordUseStatement\<close>, row by row of its SELECT: an upsert of the grant's use.\<close>

definition record_use :: "instant \<Rightarrow> provider_grant \<Rightarrow> unit tx" where
  "record_use t g =
     seq (read_callers (\<lambda>c. row_of eu_grant (pg_id g) (emergency_uses c))) (\<lambda>row.
     case row of
       None \<Rightarrow> on_callers (\<lambda>c. c\<lparr>emergency_uses := emergency_uses c @
                 [\<lparr>eu_grant = pg_id g, eu_firstUsed = t, eu_lastUsed = t, eu_uses = 1\<rparr>]\<rparr>)
     | Some u \<Rightarrow>
         seq (lift (bigint_incr (eu_uses u))) (\<lambda>n.
         seq (ensure (eu_firstUsed u \<le> t) (ErrInternal ''emergency_grant_use_order_check'')) (\<lambda>_.
         on_callers (\<lambda>c. c\<lparr>emergency_uses := put_row eu_grant (u\<lparr>eu_lastUsed := t, eu_uses := n\<rparr>) (emergency_uses c)\<rparr>))))"

definition emergency_of :: "string \<Rightarrow> provider_grant \<Rightarrow> bool" where
  "emergency_of scope g \<longleftrightarrow> pg_scope g = scope \<and> pg_kind g = KindEmergency \<and> unrevoked g"

definition RecordEmergencyUse :: "env \<Rightarrow> uuid \<Rightarrow> unit tx" where
  "RecordEmergencyUse env principalID =
     InTx env (
       seq (db_now env) (\<lambda>t.
       seq (read_callers (\<lambda>c. filter (\<lambda>g. pg_principal g = principalID \<and> emergency_of Scope g) (provider_grants c))) (\<lambda>grants.
       seq (foreach (record_use t) grants) (\<lambda>_. return ()))))"

record validation =
  va_grant :: uuid
  va_principal :: uuid
  va_grantedAt :: instant
  va_lastUsedAt :: "instant option"
  va_uses :: int
  va_dueAt :: instant
  va_overdue :: bool

definition validation_of :: "instant \<Rightarrow> caller_records \<Rightarrow> provider_grant \<Rightarrow> validation" where
  "validation_of at c g =
     (let used = row_of eu_grant (pg_id g) (emergency_uses c);
          due = (case used of None \<Rightarrow> pg_grantedAt g | Some u \<Rightarrow> eu_lastUsed u) + ValidationPeriod
      in \<lparr>va_grant = pg_id g, va_principal = pg_principal g, va_grantedAt = pg_grantedAt g,
          va_lastUsedAt = map_option eu_lastUsed used,
          va_uses = (case used of None \<Rightarrow> 0 | Some u \<Rightarrow> eu_uses u), va_dueAt = due, va_overdue = (at > due)\<rparr>)"

definition readValidation :: "instant \<Rightarrow> validation list tx" where
  "readValidation at =
     read_callers (\<lambda>c. sort_key (\<lambda>v. (va_dueAt v - ValidationPeriod, va_grant v))
       (map (validation_of at c) (filter (emergency_of Scope) (provider_grants c))))"

definition reader_EmergencyValidation :: "env \<Rightarrow> instant \<Rightarrow> validation list tx" where
  "reader_EmergencyValidation env at = InTx env (readValidation at)"

definition administration_EmergencyValidation :: "env \<Rightarrow> ctx \<Rightarrow> string \<Rightarrow> instant \<Rightarrow> validation list tx" where
  "administration_EmergencyValidation env cx reason at = WithProviderScope env cx reason (\<lambda>b cx. readValidation at)"

section \<open>Pausing Tenant administration\<close>

definition no_pause :: pause where
  "no_pause = \<lparr>pz_id = 0, pz_paused = False, pz_reason = [], pz_actor = None, pz_correlation = None,
     pz_recordedAt = None\<rparr>"

definition pause_key :: "pause \<Rightarrow> instant \<times> uuid" where
  "pause_key p = (case pz_recordedAt p of None \<Rightarrow> 0 | Some at \<Rightarrow> at, pz_id p)"

definition readPause :: "pause tx" where
  "readPause = read_callers (\<lambda>c. case first_row (order_desc pause_key (pauses c)) of None \<Rightarrow> no_pause | Some p \<Rightarrow> p)"

definition TenantAdministrationPaused :: "env \<Rightarrow> bool tx" where
  "TenantAdministrationPaused env = InTx env (seq readPause (\<lambda>p. return (pz_paused p)))"

definition CurrentPause :: "env \<Rightarrow> ctx \<Rightarrow> string \<Rightarrow> pause tx" where
  "CurrentPause env cx reason = WithProviderScope env cx reason (\<lambda>b cx. readPause)"

definition insertPause :: "pause \<Rightarrow> unit tx" where
  "insertPause p =
     seq (read_callers (\<lambda>c. row_of pz_id (pz_id p) (pauses c) = None)) (\<lambda>fresh.
     seq (ensure fresh (ErrInternal ''authority: record the tenant administration pause'')) (\<lambda>_.
     on_callers (\<lambda>c. c\<lparr>pauses := pauses c @ [p]\<rparr>)))"

definition SetPause :: "env \<Rightarrow> ctx \<Rightarrow> bool \<Rightarrow> string \<Rightarrow> pause tx" where
  "SetPause env cx paused given =
     (let reason = TrimSpace given in
     seq (ensure (reason \<noteq> []) ErrPauseInvalid) (\<lambda>_.
     seq (ScopeFrom cx) (\<lambda>scope.
     seq (newID env) (\<lambda>pauseID.
     seq (now env) (\<lambda>at.
     let p = \<lparr>pz_id = pauseID, pz_paused = paused, pz_reason = reason, pz_actor = Some (sc_actor scope),
              pz_correlation = Some (sc_correlation scope), pz_recordedAt = Some at\<rparr>
     in WithProviderScope env cx reason (\<lambda>b cx.
          seq (insertPause p) (\<lambda>_.
          seq (Respond env cx (ResPause p)) (\<lambda>_.
          return p))))))))"

end
