(* ===== verification/Caller_Registry.thy ===== *)
theory Caller_Registry
  imports Provider_Authority Membership_Service
begin

text \<open>
  The other caller records: tenant administration grants (\<open>src/internal/authority/tenantadmin.go\<close>), the
  reporter registry (\<open>reporter.go\<close>) and the reviews of the privileged-access record (\<open>review.go\<close>).
\<close>

section \<open>Tenant administration\<close>

definition admin_in_force :: "uuid \<Rightarrow> uuid \<Rightarrow> caller_records \<Rightarrow> bool" where
  "admin_in_force principalID tenantID c =
     list_ex (\<lambda>g. ag_principal g = principalID \<and> ag_tenant g = tenantID \<and> ag_revokedAt g = None) (admin_grants c)"

definition admin_grant_of :: "uuid \<Rightarrow> uuid \<Rightarrow> caller_records \<Rightarrow> admin_grant option" where
  "admin_grant_of grantID tenantID c = find (\<lambda>g. ag_id g = grantID \<and> ag_tenant g = tenantID) (admin_grants c)"

definition admin_List :: "env \<Rightarrow> ctx \<Rightarrow> uuid \<Rightarrow> string \<Rightarrow> admin_grant list tx" where
  "admin_List env cx tenantID reason =
     WithProviderInTenant env cx tenantID reason (\<lambda>b cx. read_callers (\<lambda>c.
       order_desc ag_grantedAt (filter (\<lambda>g. ag_tenant g = tenantID) (admin_grants c))))"

definition insertAdminGrant :: "admin_grant \<Rightarrow> bool tx" where
  "insertAdminGrant g =
     seq (read_callers (admin_in_force (ag_principal g) (ag_tenant g))) (\<lambda>held.
     if held then return False
     else
       seq (read_callers (\<lambda>c. row_of ag_id (ag_id g) (admin_grants c) = None)) (\<lambda>fresh.
       seq (ensure fresh (ErrInternal ''authority: insert administration grant'')) (\<lambda>_.
       seq (on_callers (\<lambda>c. c\<lparr>admin_grants := admin_grants c @ [g]\<rparr>)) (\<lambda>_.
       return True))))"

text \<open>\<open>adminMembershipStatement\<close>: the Tenant-wide Membership that is not revoked, an active one first.\<close>

definition held_membership :: "uuid \<Rightarrow> uuid \<Rightarrow> store \<Rightarrow> membership option" where
  "held_membership principalID tenantID s =
     (let held = filter (\<lambda>m. m_principal m = principalID \<and> m_tenant m = tenantID \<and> IsNil (m_workspace m) \<and>
                    m_status m \<noteq> MembershipRevoked) (memberships s)
      in first_row (filter (\<lambda>m. m_status m = MembershipActive) held @ filter (\<lambda>m. m_status m \<noteq> MembershipActive) held))"

definition admin_tenant_check :: "uuid \<Rightarrow> unit tx" where
  "admin_tenant_check tenantID =
     seq (read_db (\<lambda>s. row_of TenantID tenantID (tenants s))) (\<lambda>row.
     case row of
       None \<Rightarrow> raise ErrAdminTenantNotFound
     | Some t \<Rightarrow> ensure (Status t = TenantActive) ErrAdminTenantNotActive)"

text \<open>The Membership the administrator works with, and whether the grant made it.\<close>

definition admin_membership :: "env \<Rightarrow> binding \<Rightarrow> ctx \<Rightarrow> uuid \<Rightarrow> uuid \<Rightarrow> uuid \<Rightarrow> (uuid \<times> bool) tx" where
  "admin_membership env b cx grantID tenantID principalID =
     seq (read_db (held_membership principalID tenantID)) (\<lambda>held.
     case held of
       Some m \<Rightarrow> if m_status m = MembershipActive then return (m_id m, False) else raise ErrMembershipSuspended
     | None \<Rightarrow>
         seq (now env) (\<lambda>at.
         seq (GrantWithin env b cx \<lparr>gr_principal = principalID, gr_tenant = tenantID, gr_workspace = 0,
                gr_subject = ''human'', gr_provenance = ''tenant administration grant '' @ uuid_text env grantID,
                gr_validFrom = at, gr_validUntil = 0\<rparr>) (\<lambda>granted.
         return (m_id (mr_membership granted), True))))"

definition oneAdminGrant :: "uuid \<Rightarrow> uuid \<Rightarrow> admin_grant tx" where
  "oneAdminGrant grantID tenantID =
     seq (read_callers (admin_grant_of grantID tenantID)) (\<lambda>row.
     case row of None \<Rightarrow> raise (ErrInternal ''authority: no rows'') | Some g \<Rightarrow> return g)"

definition admin_grant_body ::
  "env \<Rightarrow> scope \<Rightarrow> uuid \<Rightarrow> uuid \<Rightarrow> uuid \<Rightarrow> string \<Rightarrow> (admin_grant \<times> uuid \<times> bool) body" where
  "admin_grant_body env scope grantID tenantID principalID reason b cx =
     seq (db_now env) (\<lambda>t.
     seq (admin_tenant_check tenantID) (\<lambda>_.
     seq (insertAdminGrant \<lparr>ag_id = grantID, ag_tenant = tenantID, ag_principal = principalID,
            ag_grantedBy = sc_actor scope, ag_reason = TrimSpace reason, ag_grantedAt = t,
            ag_revokedAt = None, ag_revokedBy = None, ag_revokeReason = []\<rparr>) (\<lambda>inserted.
     seq (ensure inserted ErrAlreadyAdministrator) (\<lambda>_.
     seq (admin_membership env b cx grantID tenantID principalID) (\<lambda>(membershipID, created).
     seq (oneAdminGrant grantID tenantID) (\<lambda>grant.
     seq (Respond env cx (ResAdministrator grant membershipID created)) (\<lambda>_.
     return (grant, membershipID, created))))))))"

definition admin_Grant :: "env \<Rightarrow> ctx \<Rightarrow> uuid \<Rightarrow> uuid \<Rightarrow> string \<Rightarrow> (admin_grant \<times> uuid \<times> bool) tx" where
  "admin_Grant env cx tenantID principalID reason =
     seq (ScopeFrom cx) (\<lambda>scope.
     seq (ensure (\<not> IsNil tenantID) ErrTenantAdminInvalid) (\<lambda>_.
     seq (ensure (\<not> IsNil principalID) ErrTenantAdminInvalid) (\<lambda>_.
     seq (ensure (\<not> blank reason) ErrTenantAdminInvalid) (\<lambda>_.
     seq (newID env) (\<lambda>grantID.
     WithProviderInTenant env cx tenantID reason (admin_grant_body env scope grantID tenantID principalID reason))))))"

definition revokeAdminGrant :: "instant \<Rightarrow> uuid \<Rightarrow> uuid \<Rightarrow> string \<Rightarrow> admin_grant \<Rightarrow> admin_grant" where
  "revokeAdminGrant t tenantID actor reason g =
     (if ag_tenant g = tenantID \<and> ag_revokedAt g = None
      then g\<lparr>ag_revokedAt := Some t, ag_revokedBy := Some actor, ag_revokeReason := reason\<rparr> else g)"

definition admin_revoke_body :: "env \<Rightarrow> scope \<Rightarrow> uuid \<Rightarrow> uuid \<Rightarrow> string \<Rightarrow> admin_grant body" where
  "admin_revoke_body env scope tenantID grantID reason b cx =
     seq (db_now env) (\<lambda>t.
     seq (read_callers (admin_grant_of grantID tenantID)) (\<lambda>found.
     case found of
       None \<Rightarrow> raise ErrAdminGrantNotFound
     | Some g \<Rightarrow>
         seq (ensure (ag_revokedAt g = None) ErrAdminGrantRevoked) (\<lambda>_.
         seq (on_callers (\<lambda>c. c\<lparr>admin_grants :=
                change_row ag_id grantID (revokeAdminGrant t tenantID (sc_actor scope) (TrimSpace reason)) (admin_grants c)\<rparr>)) (\<lambda>_.
         seq (oneAdminGrant grantID tenantID) (\<lambda>grant.
         seq (Respond env cx (ResAdminGrant grant)) (\<lambda>_.
         return grant))))))"

definition admin_Revoke :: "env \<Rightarrow> ctx \<Rightarrow> uuid \<Rightarrow> uuid \<Rightarrow> string \<Rightarrow> admin_grant tx" where
  "admin_Revoke env cx tenantID grantID reason =
     seq (ScopeFrom cx) (\<lambda>scope.
     seq (ensure (\<not> (IsNil tenantID \<or> IsNil grantID)) ErrTenantAdminInvalid) (\<lambda>_.
     seq (ensure (\<not> blank reason) ErrTenantAdminInvalid) (\<lambda>_.
     WithProviderInTenant env cx tenantID reason (admin_revoke_body env scope tenantID grantID reason))))"

record tenant_standing =
  ts_member :: bool
  ts_tenantActive :: bool
  ts_granted :: bool

definition Administers :: "tenant_standing \<Rightarrow> bool" where
  "Administers s \<longleftrightarrow> ts_member s \<and> ts_tenantActive s \<and> ts_granted s"

definition within_window :: "instant \<Rightarrow> membership \<Rightarrow> bool" where
  "within_window t m \<longleftrightarrow> m_validFrom m \<le> t \<and> (IsZero (m_validUntil m) \<or> t < m_validUntil m)"

definition tenant_standing_of :: "instant \<Rightarrow> uuid \<Rightarrow> uuid \<Rightarrow> store \<Rightarrow> tenant_standing" where
  "tenant_standing_of t principalID tenantID s =
     \<lparr>ts_member = list_ex (\<lambda>m. m_principal m = principalID \<and> m_tenant m = tenantID \<and>
        m_status m = MembershipActive \<and> within_window t m) (memberships s),
      ts_tenantActive = list_ex (\<lambda>r. TenantID r = tenantID \<and> Status r = TenantActive) (tenants s),
      ts_granted = admin_in_force principalID tenantID (callers s)\<rparr>"

definition TenantStanding :: "env \<Rightarrow> ctx \<Rightarrow> uuid \<Rightarrow> uuid \<Rightarrow> uuid \<Rightarrow> tenant_standing tx" where
  "TenantStanding env cx principalID tenantID correlation =
     seq (lift (TenantScope tenantID principalID correlation)) (\<lambda>scope.
     WithTenantRead env (cx\<lparr>cx_scope := Some scope\<rparr>) (\<lambda>b cx.
       seq (db_now env) (\<lambda>t. read_db (tenant_standing_of t principalID tenantID))))"

section \<open>Reporters\<close>

definition ReportsProvisioning :: string where
  "ReportsProvisioning = ''provisioning''"

definition ReportsInvitationResolve :: string where
  "ReportsInvitationResolve = ''invitation:resolve''"

definition obligationPrefix :: string where
  "obligationPrefix = ''obligation:''"

definition CutPrefix :: "string \<Rightarrow> string \<Rightarrow> string option" where
  "CutPrefix s prefix = (if take (length prefix) s = prefix then Some (drop (length prefix) s) else None)"

definition domain_letter :: "char \<Rightarrow> bool" where
  "domain_letter ch \<longleftrightarrow> (let n = of_char ch :: nat in 97 \<le> n \<and> n \<le> 122 \<or> 48 \<le> n \<and> n \<le> 57)"

text \<open>\<open>domainPattern\<close>, \<open>^[a-z0-9][a-z0-9-]{0,62}$\<close>.\<close>

definition domainPattern :: "string \<Rightarrow> bool" where
  "domainPattern s =
     (case s of
        [] \<Rightarrow> False
      | ch # rest \<Rightarrow> domain_letter ch \<and> length rest \<le> 62 \<and> list_all (\<lambda>x. domain_letter x \<or> x = CHR ''-'') rest)"

definition reports_Valid :: "string \<Rightarrow> bool" where
  "reports_Valid r =
     (if r = ReportsProvisioning \<or> r = ReportsInvitationResolve then True
      else case CutPrefix r obligationPrefix of None \<Rightarrow> False | Some domain \<Rightarrow> domainPattern domain)"

definition reports_Provisioning :: "string \<Rightarrow> bool" where
  "reports_Provisioning r \<longleftrightarrow> r = ReportsProvisioning"

definition reports_InvitationResolve :: "string \<Rightarrow> bool" where
  "reports_InvitationResolve r \<longleftrightarrow> r = ReportsInvitationResolve"

definition reports_Domain :: "string \<Rightarrow> string" where
  "reports_Domain r = (case CutPrefix r obligationPrefix of None \<Rightarrow> [] | Some domain \<Rightarrow> domain)"

definition reporter_Active :: "reporter \<Rightarrow> bool" where
  "reporter_Active r \<longleftrightarrow> rp_retiredAt r = None"

record reporter_registration =
  rr_principal :: uuid
  rr_reports :: string
  rr_purpose :: string
  rr_reason :: string

definition insertReporter :: "reporter \<Rightarrow> bool tx" where
  "insertReporter r =
     seq (read_callers (\<lambda>c. list_ex (\<lambda>x. rp_principal x = rp_principal r) (reporters c))) (\<lambda>held.
     if held then return False
     else
       seq (read_callers (\<lambda>c. row_of rp_id (rp_id r) (reporters c) = None)) (\<lambda>fresh.
       seq (ensure fresh (ErrInternal ''authority: insert reporter'')) (\<lambda>_.
       seq (on_callers (\<lambda>c. c\<lparr>reporters := reporters c @ [r]\<rparr>)) (\<lambda>_.
       return True))))"

definition reporter_of :: "uuid \<Rightarrow> caller_records \<Rightarrow> reporter option" where
  "reporter_of k c = row_of rp_id k (reporters c)"

definition oneReporter :: "error \<Rightarrow> uuid \<Rightarrow> reporter tx" where
  "oneReporter missing k =
     seq (read_callers (reporter_of k)) (\<lambda>row.
     case row of None \<Rightarrow> raise missing | Some r \<Rightarrow> return r)"

definition reporter_Register :: "env \<Rightarrow> ctx \<Rightarrow> reporter_registration \<Rightarrow> reporter tx" where
  "reporter_Register env cx req =
     (let purpose = TrimSpace (rr_purpose req); reason = TrimSpace (rr_reason req) in
     seq (ScopeFrom cx) (\<lambda>scope.
     seq (ensure (\<not> IsNil (rr_principal req)) ErrReporterInvalid) (\<lambda>_.
     seq (ensure (reports_Valid (rr_reports req)) ErrReporterInvalid) (\<lambda>_.
     seq (ensure (\<not> (purpose = [] \<or> length purpose > 500)) ErrReporterInvalid) (\<lambda>_.
     seq (ensure (reason \<noteq> []) ErrReporterInvalid) (\<lambda>_.
     seq (newID env) (\<lambda>reporterID.
     WithProviderScope env cx reason (\<lambda>b cx.
       seq (db_now env) (\<lambda>t.
       seq (insertReporter \<lparr>rp_id = reporterID, rp_principal = rr_principal req, rp_reports = rr_reports req,
              rp_purpose = purpose, rp_version = 1, rp_registeredAt = t, rp_registeredBy = sc_actor scope,
              rp_registerReason = reason, rp_retiredAt = None, rp_retiredBy = None, rp_retireReason = []\<rparr>) (\<lambda>inserted.
       seq (ensure inserted ErrReporterRegistered) (\<lambda>_.
       seq (oneReporter (ErrInternal ''authority: no rows'') reporterID) (\<lambda>reporter.
       seq (Respond env cx (ResReporter reporter)) (\<lambda>_.
       return reporter)))))))))))))"

definition retireReporter :: "instant \<Rightarrow> uuid \<Rightarrow> string \<Rightarrow> int \<Rightarrow> reporter \<Rightarrow> reporter" where
  "retireReporter t actor reason expectedVersion r =
     (if reporter_Active r \<and> rp_version r = expectedVersion
      then r\<lparr>rp_retiredAt := Some t, rp_retiredBy := Some actor, rp_retireReason := reason, rp_version := rp_version r + 1\<rparr> else r)"

definition reporter_retire_body :: "env \<Rightarrow> scope \<Rightarrow> uuid \<Rightarrow> int \<Rightarrow> string \<Rightarrow> reporter body" where
  "reporter_retire_body env scope reporterID expectedVersion reason b cx =
     seq (db_now env) (\<lambda>t.
     seq (oneReporter ErrReporterNotFound reporterID) (\<lambda>current.
     seq (ensure (reporter_Active current) ErrReporterRetired) (\<lambda>_.
     seq (ensure (rp_version current = expectedVersion) ErrReporterVersion) (\<lambda>_.
     seq (lift (bigint_incr (rp_version current))) (\<lambda>_.
     seq (on_callers (\<lambda>c. c\<lparr>reporters :=
            change_row rp_id reporterID (retireReporter t (sc_actor scope) reason expectedVersion) (reporters c)\<rparr>)) (\<lambda>_.
     seq (oneReporter (ErrInternal ''authority: no rows'') reporterID) (\<lambda>reporter.
     seq (Respond env cx (ResReporter reporter)) (\<lambda>_.
     return reporter))))))))"

definition reporter_Retire :: "env \<Rightarrow> ctx \<Rightarrow> uuid \<Rightarrow> int \<Rightarrow> string \<Rightarrow> reporter tx" where
  "reporter_Retire env cx reporterID expectedVersion given =
     (let reason = TrimSpace given in
     seq (ScopeFrom cx) (\<lambda>scope.
     seq (ensure (\<not> IsNil reporterID) ErrReporterInvalid) (\<lambda>_.
     seq (ensure (\<not> expectedVersion < 1) ErrReporterInvalid) (\<lambda>_.
     seq (ensure (reason \<noteq> []) ErrReporterInvalid) (\<lambda>_.
     WithProviderScope env cx reason (reporter_retire_body env scope reporterID expectedVersion reason))))))"

definition reporter_Get :: "env \<Rightarrow> ctx \<Rightarrow> uuid \<Rightarrow> string \<Rightarrow> reporter tx" where
  "reporter_Get env cx reporterID reason =
     WithProviderScope env cx reason (\<lambda>b cx. oneReporter ErrReporterNotFound reporterID)"

record reporter_query =
  rq_after :: uuid
  rq_limit :: int
  rq_reports :: string
  rq_state :: string

definition reporter_matches :: "reporter_query \<Rightarrow> reporter \<Rightarrow> bool" where
  "reporter_matches q r \<longleftrightarrow>
     (rq_reports q = [] \<or> rp_reports r = rq_reports q) \<and>
     (rq_state q = [] \<or> (rq_state q = ''active'') = reporter_Active r)"

definition reporter_List :: "env \<Rightarrow> ctx \<Rightarrow> reporter_query \<Rightarrow> string \<Rightarrow> (reporter list \<times> uuid option) tx" where
  "reporter_List env cx q reason =
     (case ListLimit (rq_limit q) of
        Inl _ \<Rightarrow> raise ErrReporterInvalid
      | Inr limit \<Rightarrow>
     seq (ensure (\<not> (rq_reports q \<noteq> [] \<and> \<not> reports_Valid (rq_reports q))) ErrReporterInvalid) (\<lambda>_.
     seq (ensure (\<not> (rq_state q \<noteq> [] \<and> rq_state q \<noteq> ''active'' \<and> rq_state q \<noteq> ''retired'')) ErrReporterInvalid) (\<lambda>_.
     seq (WithProviderScope env cx reason (\<lambda>b cx. read_callers (\<lambda>c.
       take (nat limit + 1) (keyset_rows rp_id (rq_after q) (reporter_matches q) (reporters c))))) (\<lambda>rows.
     return (page_of rp_id limit rows)))))"

definition ReporterFor :: "env \<Rightarrow> uuid \<Rightarrow> (uuid \<times> string) tx" where
  "ReporterFor env principalID =
     seq (ensure (\<not> IsNil principalID) (ErrInternal ''authority: a principal is required'')) (\<lambda>_.
     InTx env (read_callers (\<lambda>c.
       case find (\<lambda>r. rp_principal r = principalID \<and> reporter_Active r) (reporters c) of
         None \<Rightarrow> (0, []) | Some r \<Rightarrow> (rp_id r, rp_reports r))))"

section \<open>Privileged access, read and reviewed\<close>

definition ReviewDue :: int where
  "ReviewDue = 7 * 24 * 60 * 60 * Second"

definition workload :: "authority_kind \<Rightarrow> bool" where
  "workload k \<longleftrightarrow> k = AuthorityConsumer \<or> k = AuthorityReporter"

definition providerAuthorities :: "authority_kind \<Rightarrow> bool" where
  "providerAuthorities k \<longleftrightarrow> k = AuthorityEmergency \<or> k = AuthorityActivation \<or> k = AuthorityEligible"

record access_query =
  aq_after :: uuid
  aq_limit :: int
  aq_actor :: uuid
  aq_tenant :: uuid
  aq_correlation :: uuid
  aq_authority :: "authority_kind option"
  aq_from :: "instant option"
  aq_to :: "instant option"

definition checkWindow :: "instant option \<Rightarrow> instant option \<Rightarrow> error + unit" where
  "checkWindow from to =
     (case (from, to) of
        (Some f, Some t) \<Rightarrow> if \<not> t > f then Inl ErrAccessQueryInvalid else Inr ()
      | _ \<Rightarrow> Inr ())"

definition in_window :: "access_query \<Rightarrow> access \<Rightarrow> bool" where
  "in_window q a \<longleftrightarrow>
     (case aq_authority q of None \<Rightarrow> True | Some k \<Rightarrow> ac_authority a = k) \<and>
     (case aq_from q of None \<Rightarrow> True | Some f \<Rightarrow> f \<le> ac_occurredAt a) \<and>
     (case aq_to q of None \<Rightarrow> True | Some t \<Rightarrow> ac_occurredAt a < t)"

definition access_matches :: "access_query \<Rightarrow> access \<Rightarrow> bool" where
  "access_matches q a \<longleftrightarrow>
     (IsNil (aq_actor q) \<or> ac_actor a = aq_actor q) \<and>
     (IsNil (aq_tenant q) \<or> ac_tenant a = aq_tenant q) \<and>
     (IsNil (aq_correlation q) \<or> ac_correlation a = aq_correlation q) \<and> in_window q a"

text \<open>The view \<open>audit.tenant_provider_access\<close> (\<open>controldb/rls.sql\<close>): the bound Tenant's provider rows.\<close>

fun tenant_provider_access :: "binding \<Rightarrow> access \<Rightarrow> bool" where
  "tenant_provider_access (BoundTenant t _) a \<longleftrightarrow> ac_tenant a = t \<and> \<not> workload (ac_authority a)"
| "tenant_provider_access _ a \<longleftrightarrow> False"

definition access_List :: "env \<Rightarrow> ctx \<Rightarrow> access_query \<Rightarrow> string \<Rightarrow> (access list \<times> uuid option) tx" where
  "access_List env cx q reason =
     (case ListLimit (aq_limit q) of
        Inl _ \<Rightarrow> raise ErrAccessQueryInvalid
      | Inr limit \<Rightarrow>
     seq (ensure (aq_authority q \<noteq> Some NoAuthority) ErrAccessQueryInvalid) (\<lambda>_.
     seq (lift (checkWindow (aq_from q) (aq_to q))) (\<lambda>_.
     WithProviderScope env cx reason (\<lambda>b cx. read_db (\<lambda>s.
       page_of ac_id limit (take (nat limit + 1) (keyset_rows ac_id (aq_after q) (access_matches q) (audit s))))))))"

definition access_TenantList :: "env \<Rightarrow> ctx \<Rightarrow> access_query \<Rightarrow> (access list \<times> uuid option) tx" where
  "access_TenantList env cx q =
     (case ListLimit (aq_limit q) of
        Inl _ \<Rightarrow> raise ErrAccessQueryInvalid
      | Inr limit \<Rightarrow>
     seq (ensure (\<not> (\<not> IsNil (aq_tenant q) \<or> \<not> IsNil (aq_actor q) \<or> \<not> IsNil (aq_correlation q))) ErrAccessQueryInvalid) (\<lambda>_.
     seq (ensure (case aq_authority q of None \<Rightarrow> True | Some k \<Rightarrow> providerAuthorities k) ErrAccessQueryInvalid) (\<lambda>_.
     seq (lift (checkWindow (aq_from q) (aq_to q))) (\<lambda>_.
     WithTenantRead env cx (\<lambda>b cx. read_db (\<lambda>s.
       page_of ac_id limit (take (nat limit + 1)
         (keyset_rows ac_id (aq_after q) (\<lambda>a. tenant_provider_access b a \<and> in_window q a) (audit s)))))))))"

record review_request =
  rw_actor :: uuid
  rw_from :: instant
  rw_to :: instant
  rw_outcome :: review_outcome
  rw_statement :: string

definition reviewed_rows :: "uuid \<Rightarrow> instant \<Rightarrow> instant \<Rightarrow> access list \<Rightarrow> access list" where
  "reviewed_rows actor from to rows =
     filter (\<lambda>a. ac_actor a = actor \<and> \<not> workload (ac_authority a) \<and> from \<le> ac_occurredAt a \<and> ac_occurredAt a < to) rows"

text \<open>\<open>recordReviewStatement\<close>: the counts of the period as it stands, and no row for a period still open.\<close>

definition recordReview :: "instant \<Rightarrow> review \<Rightarrow> review option tx" where
  "recordReview t r =
     seq (read_db (\<lambda>s. reviewed_rows (rv_actor r) (rv_from r) (rv_to r) (audit s))) (\<lambda>rows.
     if \<not> rv_to r \<le> t then return None
     else
       let r' = r\<lparr>rv_accesses := length rows,
                  rv_emergency := length (filter (\<lambda>a. ac_authority a = AuthorityEmergency) rows), rv_reviewedAt := t\<rparr>
       in seq (read_callers (\<lambda>c. row_of rv_id (rv_id r) (reviews c) = None)) (\<lambda>fresh.
          seq (ensure fresh (ErrInternal ''authority: record privileged-access review'')) (\<lambda>_.
          seq (on_callers (\<lambda>c. c\<lparr>reviews := reviews c @ [r']\<rparr>)) (\<lambda>_.
          return (Some r')))))"

definition review_body :: "env \<Rightarrow> review_request \<Rightarrow> review \<Rightarrow> review body" where
  "review_body env req review b cx =
     seq (ScopeFrom cx) (\<lambda>scope.
     seq (ensure (sc_actor scope \<noteq> rw_actor req) ErrSelfReview) (\<lambda>_.
     seq (db_now env) (\<lambda>t.
     seq (recordReview t (review\<lparr>rv_reviewedBy := sc_actor scope, rv_correlation := sc_correlation scope\<rparr>)) (\<lambda>inserted.
     case inserted of
       None \<Rightarrow> raise ErrReviewInvalid
     | Some r \<Rightarrow> seq (Respond env cx (ResReview r)) (\<lambda>_. return r)))))"

definition review_Record :: "env \<Rightarrow> ctx \<Rightarrow> review_request \<Rightarrow> review tx" where
  "review_Record env cx req =
     (let statement = TrimSpace (rw_statement req) in
     seq (ensure (\<not> IsNil (rw_actor req)) ErrReviewInvalid) (\<lambda>_.
     seq (ensure (\<not> (IsZero (rw_from req) \<or> IsZero (rw_to req))) ErrReviewInvalid) (\<lambda>_.
     seq (ensure (rw_to req > rw_from req) ErrReviewInvalid) (\<lambda>_.
     seq (ensure (rw_outcome req = OutcomeAppropriate \<or> rw_outcome req = OutcomeEscalated) ErrReviewInvalid) (\<lambda>_.
     seq (ensure (statement \<noteq> []) (ErrReasonRequired PkgDb)) (\<lambda>_.
     seq (newID env) (\<lambda>reviewID.
     WithProviderScope env cx statement (review_body env req
       \<lparr>rv_id = reviewID, rv_actor = rw_actor req, rv_from = rw_from req, rv_to = rw_to req,
        rv_outcome = rw_outcome req, rv_statement = statement, rv_accesses = 0, rv_emergency = 0,
        rv_reviewedBy = 0, rv_reviewedAt = 0, rv_correlation = 0\<rparr>))))))))"

record review_query =
  rvq_after :: uuid
  rvq_limit :: int
  rvq_actor :: uuid
  rvq_reviewedBy :: uuid

definition review_matches :: "review_query \<Rightarrow> review \<Rightarrow> bool" where
  "review_matches q r \<longleftrightarrow>
     (IsNil (rvq_actor q) \<or> rv_actor r = rvq_actor q) \<and> (IsNil (rvq_reviewedBy q) \<or> rv_reviewedBy r = rvq_reviewedBy q)"

definition review_Reviews :: "env \<Rightarrow> ctx \<Rightarrow> review_query \<Rightarrow> string \<Rightarrow> (review list \<times> uuid option) tx" where
  "review_Reviews env cx q reason =
     (case ListLimit (rvq_limit q) of
        Inl _ \<Rightarrow> raise ErrAccessQueryInvalid
      | Inr limit \<Rightarrow>
     seq (WithProviderScope env cx reason (\<lambda>b cx. read_callers (\<lambda>c.
       take (nat limit + 1) (keyset_rows rv_id (rvq_after q) (review_matches q) (reviews c))))) (\<lambda>rows.
     return (page_of rv_id limit rows)))"

record unreviewed =
  ur_actor :: uuid
  ur_count :: nat
  ur_emergency :: nat
  ur_oldestAt :: instant
  ur_dueAt :: instant
  ur_overdue :: bool

definition covered :: "caller_records \<Rightarrow> access \<Rightarrow> bool" where
  "covered c a = list_ex (\<lambda>r. rv_actor r = ac_actor a \<and> rv_from r \<le> ac_occurredAt a \<and> ac_occurredAt a < rv_to r) (reviews c)"

definition unreviewed_rows :: "store \<Rightarrow> access list" where
  "unreviewed_rows s = filter (\<lambda>a. \<not> workload (ac_authority a) \<and> \<not> covered (callers s) a) (audit s)"

definition unreviewed_of :: "instant \<Rightarrow> access list \<Rightarrow> uuid \<Rightarrow> unreviewed" where
  "unreviewed_of at rows actor =
     (let own = filter (\<lambda>a. ac_actor a = actor) rows; oldest = Min (ac_occurredAt ` set own)
      in \<lparr>ur_actor = actor, ur_count = length own,
          ur_emergency = length (filter (\<lambda>a. ac_authority a = AuthorityEmergency) own),
          ur_oldestAt = oldest, ur_dueAt = oldest + ReviewDue, ur_overdue = (at > oldest + ReviewDue)\<rparr>)"

definition readUnreviewed :: "instant \<Rightarrow> unreviewed list tx" where
  "readUnreviewed at =
     read_db (\<lambda>s. let rows = unreviewed_rows s
       in sort_key (\<lambda>u. (ur_oldestAt u, ur_actor u)) (map (unreviewed_of at rows) (remdups (map ac_actor rows))))"

definition review_Unreviewed :: "env \<Rightarrow> ctx \<Rightarrow> string \<Rightarrow> instant \<Rightarrow> unreviewed list tx" where
  "review_Unreviewed env cx reason at = WithProviderScope env cx reason (\<lambda>b cx. readUnreviewed at)"

definition UnreviewedAccess :: "env \<Rightarrow> instant \<Rightarrow> unreviewed list tx" where
  "UnreviewedAccess env at = InTx env (readUnreviewed at)"

end
