(* ===== verification/Active_Context.thy ===== *)
theory Active_Context
  imports Caller_Registry
begin

text \<open>
  The active context, \<open>src/internal/context\<close>: the authoritative check whether a Principal may assert a
  Tenant (\<open>context.go\<close>), the meter that counts a consumer's checks, and the list of the Tenants a
  Principal may work in (\<open>contexts.go\<close>).
\<close>

section \<open>The fresh check\<close>

datatype refusal = RefusalNone | RefusalNoMembership | RefusalTenantNotActive

text \<open>A decision; a \<open>Decision\<close> of Go that names no Membership or Workspace has \<open>None\<close> there.\<close>

record context_decision =
  cd_granted :: bool
  cd_refusal :: refusal
  cd_tenant :: uuid
  cd_principal :: uuid
  cd_membership :: "uuid option"
  cd_workspace :: "uuid option"
  cd_subject :: string
  cd_membershipVersion :: int
  cd_securityVersion :: int
  cd_checkedAt :: instant

record verify_request =
  vr_consumer :: string
  vr_tenant :: uuid
  vr_principal :: uuid

definition startDecision :: "verify_request \<Rightarrow> instant \<Rightarrow> error + context_decision" where
  "startDecision req at =
     (if vr_consumer req = [] then Inl (ErrInvalid PkgContext)
      else if IsNil (vr_tenant req) then Inl (ErrInvalid PkgContext)
      else if IsNil (vr_principal req) then Inl (ErrInvalid PkgContext)
      else Inr \<lparr>cd_granted = False, cd_refusal = RefusalNone, cd_tenant = vr_tenant req,
                cd_principal = vr_principal req, cd_membership = None, cd_workspace = None, cd_subject = [],
                cd_membershipVersion = 0, cd_securityVersion = 0, cd_checkedAt = at\<rparr>)"

text \<open>
  \<open>countVerify\<close>, an UPDATE of the consumer's row that answers how many rows it changed. A counter at the
  end of its range fails the statement.
\<close>

definition countVerify :: "string \<Rightarrow> bool tx" where
  "countVerify consumerID =
     seq (read_callers (\<lambda>c. row_of co_id consumerID (consumers c))) (\<lambda>row.
     case row of
       None \<Rightarrow> return False
     | Some r \<Rightarrow>
         seq (lift (bigint_incr (co_calls r))) (\<lambda>n.
         seq (on_callers (\<lambda>c. c\<lparr>consumers := put_row co_id (r\<lparr>co_calls := n\<rparr>) (consumers c)\<rparr>)) (\<lambda>_.
         return True)))"

text \<open>
  \<open>verifyStatement\<close>: the Tenant and, joined from it, an active Membership of the Principal. With several
  the statement answers one of them; \<open>QueryRow\<close> takes the first row it gets.
\<close>

definition verify_row :: "uuid \<Rightarrow> uuid \<Rightarrow> store \<Rightarrow> (tenant_record \<times> membership option) option" where
  "verify_row tenantID principalID s =
     (case row_of TenantID tenantID (tenants s) of
        None \<Rightarrow> None
      | Some t \<Rightarrow> Some (t, find (\<lambda>m. m_tenant m = tenantID \<and> m_principal m = principalID \<and>
                               m_status m = MembershipActive) (memberships s)))"

definition decided :: "(tenant_record \<times> membership option) option \<Rightarrow> context_decision \<Rightarrow> context_decision" where
  "decided row d =
     (case row of
        None \<Rightarrow> d\<lparr>cd_refusal := RefusalNoMembership\<rparr>
      | Some (t, held) \<Rightarrow>
          let d1 = d\<lparr>cd_securityVersion := SecurityVersion t\<rparr> in
          case held of
            None \<Rightarrow> d1\<lparr>cd_refusal := RefusalNoMembership\<rparr>
          | Some m \<Rightarrow>
              if Status t \<noteq> TenantActive then d1\<lparr>cd_refusal := RefusalTenantNotActive\<rparr>
              else d1\<lparr>cd_membership := Some (m_id m),
                      cd_workspace := (if IsNil (m_workspace m) then None else Some (m_workspace m)),
                      cd_subject := m_subject m, cd_membershipVersion := m_version m, cd_granted := True\<rparr>)"

definition verifyIn :: "verify_request \<Rightarrow> context_decision \<Rightarrow> context_decision tx" where
  "verifyIn req d =
     seq (countVerify (vr_consumer req)) (\<lambda>counted.
     seq (ensure counted ErrNotRegistered) (\<lambda>_.
     seq (read_db (verify_row (vr_tenant req) (vr_principal req))) (\<lambda>row.
     return (decided row d))))"

definition Verify :: "env \<Rightarrow> ctx \<Rightarrow> verify_request \<Rightarrow> context_decision tx" where
  "Verify env cx req =
     seq (now env) (\<lambda>at.
     seq (lift (startDecision req at)) (\<lambda>d.
     WithProviderScope env cx (''authoritative context check for consumer '' @ vr_consumer req) (\<lambda>b cx.
       verifyIn req d)))"

definition consumer_Verify :: "env \<Rightarrow> ctx \<Rightarrow> verify_request \<Rightarrow> context_decision tx" where
  "consumer_Verify env cx req =
     seq (now env) (\<lambda>at.
     seq (lift (startDecision req at)) (\<lambda>d.
     WithConsumerScope env cx (''authoritative context check by consumer '' @ vr_consumer req) (\<lambda>b cx.
       verifyIn req d)))"

definition SwitchEligible :: "env \<Rightarrow> ctx \<Rightarrow> verify_request \<Rightarrow> context_decision tx" where
  "SwitchEligible env cx req = Verify env cx req"

definition consumer_SwitchEligible :: "env \<Rightarrow> ctx \<Rightarrow> verify_request \<Rightarrow> context_decision tx" where
  "consumer_SwitchEligible env cx req = consumer_Verify env cx req"

section \<open>The rate of fresh checks\<close>

record rate_report =
  rt_consumer :: string
  rt_requests :: int

record rate =
  ra_consumer :: string
  ra_calls :: int
  ra_requests :: int
  ra_ratio :: float64

definition recordRate :: "env \<Rightarrow> string \<Rightarrow> int \<Rightarrow> consumer \<Rightarrow> consumer" where
  "recordRate env consumerID requests r =
     r\<lparr>co_requests := Some requests,
       co_ratio := (if requests > 0 then Some (f64_div env (co_calls r) requests) else None),
       co_calls := 0\<rparr>"

definition rate_body :: "env \<Rightarrow> rate_report \<Rightarrow> rate tx" where
  "rate_body env report =
     seq (read_callers (\<lambda>c. row_of co_id (rt_consumer report) (consumers c))) (\<lambda>row.
     case row of
       None \<Rightarrow> raise ErrNotRegistered
     | Some r \<Rightarrow>
         let r' = recordRate env (rt_consumer report) (rt_requests report) r
         in seq (on_callers (\<lambda>c. c\<lparr>consumers := put_row co_id r' (consumers c)\<rparr>)) (\<lambda>_.
            return \<lparr>ra_consumer = rt_consumer report, ra_calls = co_calls r, ra_requests = rt_requests report,
                    ra_ratio = (case co_ratio r' of None \<Rightarrow> 0 | Some q \<Rightarrow> q)\<rparr>))"

definition RecordRate :: "env \<Rightarrow> ctx \<Rightarrow> rate_report \<Rightarrow> rate tx" where
  "RecordRate env cx report =
     seq (ensure (rt_consumer report \<noteq> []) (ErrInvalid PkgContext)) (\<lambda>_.
     seq (ensure (\<not> rt_requests report < 0) ErrRequestRequired) (\<lambda>_.
     WithProviderScope env cx (''record verify rate for consumer '' @ rt_consumer report) (\<lambda>b cx. rate_body env report)))"

text \<open>A threshold is a sign and a magnitude; a negative zero is not below zero.\<close>

definition OverThreshold :: "env \<Rightarrow> ctx \<Rightarrow> bool \<Rightarrow> float64 \<Rightarrow> rate list tx" where
  "OverThreshold env cx negative threshold =
     seq (ensure (\<not> (negative \<and> threshold > 0)) (ErrInvalid PkgContext)) (\<lambda>_.
     WithProviderScope env cx ''read verify-rate misuse signal'' (\<lambda>b cx. read_callers (\<lambda>c.
       map (\<lambda>r. \<lparr>ra_consumer = co_id r, ra_calls = co_calls r,
                  ra_requests = (case co_requests r of None \<Rightarrow> 0 | Some n \<Rightarrow> n),
                  ra_ratio = (case co_ratio r of None \<Rightarrow> 0 | Some q \<Rightarrow> q)\<rparr>)
         (order_desc (\<lambda>r. case co_ratio r of None \<Rightarrow> 0 | Some q \<Rightarrow> q)
           (filter (\<lambda>r. case co_ratio r of None \<Rightarrow> False | Some q \<Rightarrow> q > threshold) (consumers c))))))"

section \<open>Where a Principal may work\<close>

record context_item =
  ci_membership :: uuid
  ci_tenant :: uuid
  ci_displayName :: string
  ci_status :: tenant_state
  ci_workspace :: "uuid option"
  ci_administers :: bool

record context_query =
  cq_after :: uuid
  cq_limit :: int

text \<open>
  \<open>contextsStatement\<close>, before its page is cut: one item per active Membership of the Principal in an
  active Tenant.
\<close>

definition context_of :: "store \<Rightarrow> uuid \<Rightarrow> membership \<Rightarrow> context_item option" where
  "context_of s principalID m =
     (if m_principal m = principalID \<and> m_status m = MembershipActive
      then case row_of TenantID (m_tenant m) (tenants s) of
             None \<Rightarrow> None
           | Some t \<Rightarrow>
               if Status t = TenantActive
               then Some \<lparr>ci_membership = m_id m, ci_tenant = m_tenant m, ci_displayName = DisplayName t,
                          ci_status = Status t,
                          ci_workspace = (if IsNil (m_workspace m) then None else Some (m_workspace m)),
                          ci_administers = admin_in_force principalID (m_tenant m) (callers s)\<rparr>
               else None
      else None)"

definition contextsIn :: "uuid \<Rightarrow> uuid \<Rightarrow> int \<Rightarrow> (context_item list \<times> uuid option) tx" where
  "contextsIn principalID after limit =
     read_db (\<lambda>s. page_of ci_membership limit (take (nat limit + 1)
       (keyset_rows ci_membership after (\<lambda>_. True) (List.map_filter (context_of s principalID) (memberships s)))))"

definition Own :: "env \<Rightarrow> ctx \<Rightarrow> context_query \<Rightarrow> (context_item list \<times> uuid option) tx" where
  "Own env cx q =
     seq (ScopeFrom cx) (\<lambda>scope.
     case ListLimit (cq_limit q) of
       Inl _ \<Rightarrow> raise (ErrInvalid PkgContext)
     | Inr limit \<Rightarrow>
     WithSelfRead env cx (\<lambda>b cx. contextsIn (sc_actor scope) (cq_after q) limit))"

definition Of :: "env \<Rightarrow> ctx \<Rightarrow> uuid \<Rightarrow> context_query \<Rightarrow> string \<Rightarrow> (context_item list \<times> uuid option) tx" where
  "Of env cx principalID q reason =
     seq (ensure (\<not> IsNil principalID) (ErrInvalid PkgContext)) (\<lambda>_.
     case ListLimit (cq_limit q) of
       Inl _ \<Rightarrow> raise (ErrInvalid PkgContext)
     | Inr limit \<Rightarrow>
     WithProviderScope env cx reason (\<lambda>b cx. contextsIn principalID (cq_after q) limit))"

end
