(* ===== verification/Authority_Relations.thy ===== *)
theory Authority_Relations
  imports Active_Context
begin

text \<open>
  What the operations on the caller records do to the store: a relation of one step for each statement
  that writes one, with what the code has established before it, and the proof that every operation is a
  sequence of such steps.
\<close>

section \<open>The steps\<close>

definition open_of :: "instant \<Rightarrow> uuid \<Rightarrow> activation \<Rightarrow> bool" where
  "open_of t grantID a \<longleftrightarrow> act_grant a = grantID \<and> (act_decision a = None \<or> InForce a t)"

definition fresh_activation :: "activation \<Rightarrow> provider_grant \<Rightarrow> caller_records \<Rightarrow> bool" where
  "fresh_activation a g c \<longleftrightarrow>
     grant_of (act_grant a) c = Some g \<and> unrevoked g \<and> pg_kind g \<noteq> KindEmergency \<and>
     act_principal a = pg_principal g \<and> act_scope a = pg_scope g \<and> activation_of (act_id a) c = None \<and>
     \<not> list_ex (open_of (act_requestedAt a) (act_grant a)) (activations c) \<and>
     act_decision a = None \<and> act_decidedBy a = None \<and> act_endsAt a = None \<and> act_endedAt a = None \<and> 0 < act_duration a"

definition separately_decided :: "uuid \<Rightarrow> activation \<Rightarrow> caller_records \<Rightarrow> bool" where
  "separately_decided decider a c \<longleftrightarrow>
     (act_approval a \<longrightarrow> decider \<noteq> act_principal a \<and> holds_scope decider (act_scope a) c)"

text \<open>What a change of a consumer's row keeps: a position is reported only after a snapshot was taken.\<close>

definition consumer_ok :: "consumer \<Rightarrow> bool" where
  "consumer_ok q \<longleftrightarrow> (co_reportedMark q \<noteq> None \<longrightarrow> co_snapshotMark q \<noteq> None)"

definition consumer_kept :: "consumer \<Rightarrow> consumer \<Rightarrow> bool" where
  "consumer_kept q q' \<longleftrightarrow>
     co_id q' = co_id q \<and> co_principal q' = co_principal q \<and> co_registeredAt q' = co_registeredAt q \<and>
     (consumer_ok q \<longrightarrow> consumer_ok q')"

inductive caller_step :: "caller_records \<Rightarrow> caller_records \<Rightarrow> bool" where
  Granted: "grant_of (pg_id g) c = None \<Longrightarrow> \<not> holds_scope (pg_principal g) (pg_scope g) c \<Longrightarrow> unrevoked g \<Longrightarrow>
    registeredScope (pg_scope g) \<Longrightarrow> pg_version g = 0 \<Longrightarrow>
    caller_step c (c\<lparr>provider_grants := provider_grants c @ [g]\<rparr>)"
| Revoked: "row_of pg_id k (lockActive c) = Some g \<Longrightarrow> \<not> (pg_scope g = Scope \<and> governing (lockActive c) = 1) \<Longrightarrow>
    caller_step c (c\<lparr>provider_grants := change_row pg_id k (revokeGrant t actor reason) (provider_grants c)\<rparr>)"
| Bumped: "grant_of k c = Some g \<Longrightarrow>
    caller_step c (c\<lparr>provider_grants := put_row pg_id (g\<lparr>pg_version := pg_version g + 1\<rparr>) (provider_grants c)\<rparr>)"
| Event_recorded: "\<not> list_ex (\<lambda>x. ge_event x = ge_event e \<or> ge_grant x = ge_grant e \<and> ge_version x = ge_version e) (grant_events c) \<Longrightarrow>
    caller_step c (c\<lparr>grant_events := grant_events c @ [e]\<rparr>)"
| Requested: "fresh_activation a g c \<Longrightarrow> caller_step c (c\<lparr>activations := activations c @ [a]\<rparr>)"
| Lapsed: "caller_step c (c\<lparr>activations := change_row act_grant k (lapsePending t) (activations c)\<rparr>)"
| Decided: "activation_of k c = Some a \<Longrightarrow> act_decision a = None \<Longrightarrow> separately_decided decider a c \<Longrightarrow>
    caller_step c (c\<lparr>activations := change_row act_id k (decideActivation t decider d reason) (activations c)\<rparr>)"
| Ended: "caller_step c (c\<lparr>activations := change_row act_id k (endActivation t actor reason) (activations c)\<rparr>)"
| Used: "caller_step c (c\<lparr>emergency_uses := uses\<rparr>)"
| Paused: "caller_step c (c\<lparr>pauses := pauses c @ [p]\<rparr>)"
| Admin_granted: "row_of ag_id (ag_id h) (admin_grants c) = None \<Longrightarrow> \<not> admin_in_force (ag_principal h) (ag_tenant h) c \<Longrightarrow>
    ag_revokedAt h = None \<Longrightarrow> caller_step c (c\<lparr>admin_grants := admin_grants c @ [h]\<rparr>)"
| Admin_revoked: "caller_step c (c\<lparr>admin_grants := change_row ag_id k (revokeAdminGrant t tenantID actor reason) (admin_grants c)\<rparr>)"
| Registered: "row_of rp_id (rp_id r) (reporters c) = None \<Longrightarrow> \<not> list_ex (\<lambda>x. rp_principal x = rp_principal r) (reporters c) \<Longrightarrow>
    reports_Valid (rp_reports r) \<Longrightarrow> caller_step c (c\<lparr>reporters := reporters c @ [r]\<rparr>)"
| Retired: "caller_step c (c\<lparr>reporters := change_row rp_id k (retireReporter t actor reason v) (reporters c)\<rparr>)"
| Counted: "row_of co_id k (consumers c) = Some q \<Longrightarrow> consumer_kept q q' \<Longrightarrow>
    caller_step c (c\<lparr>consumers := put_row co_id q' (consumers c)\<rparr>)"
| Consumer_changed: "\<forall>q. consumer_kept q (f q) \<Longrightarrow>
    caller_step c (c\<lparr>consumers := change_row co_id k f (consumers c)\<rparr>)"
| Consumer_added: "row_of co_id (co_id q) (consumers c) = None \<Longrightarrow>
    \<not> list_ex (\<lambda>x. co_principal x = co_principal q) (consumers c) \<Longrightarrow> consumer_ok q \<Longrightarrow>
    caller_step c (c\<lparr>consumers := consumers c @ [q]\<rparr>)"
| Subscribed: "caller_step c (c\<lparr>subscriptions := ss\<rparr>)"
| Delivered: "caller_step c (c\<lparr>deliveries := ds\<rparr>)"
| Acknowledged: "caller_step c (c\<lparr>receipts := rs\<rparr>)"
| Dead_lettered: "list_all (\<lambda>d. dl_resolvedAt d = None \<or> d \<in> set ls) (dead_letters c) \<Longrightarrow>
    caller_step c (c\<lparr>dead_letters := ls\<rparr>)"
| Reviewed: "rv_reviewedBy v \<noteq> rv_actor v \<Longrightarrow> caller_step c (c\<lparr>reviews := reviews c @ [v]\<rparr>)"

section \<open>Operations as steps\<close>

lemma request_checks_run:
  "request_checks env t holder k w = (Inr g, w') \<longleftrightarrow>
     grant_of k (callers (store w)) = Some g \<and> unrevoked g \<and> pg_principal g = holder \<and> pg_kind g \<noteq> KindEmergency \<and>
     \<not> list_ex (\<lambda>a. act_grant a = k \<and> InForce a t) (activations (callers (store w))) \<and>
     \<not> list_ex (\<lambda>a. act_grant a = k \<and> act_decision a = None)
          (change_row act_grant k (lapsePending t) (activations (callers (store w)))) \<and>
     w' = w\<lparr>store := (store w)\<lparr>callers := (callers (store w))
        \<lparr>activations := change_row act_grant k (lapsePending t) (activations (callers (store w)))\<rparr>\<rparr>\<rparr>"
  unfolding request_checks_def
  by (simp add: seq_run(1) required_run read_callers_run ensure_run, simp add: on_callers_run return_run)

lemma lapsed_not_open:
  assumes "\<not> list_ex (\<lambda>a. act_grant a = k \<and> InForce a t) acts"
    "\<not> list_ex (\<lambda>a. act_grant a = k \<and> act_decision a = None) (change_row act_grant k (lapsePending t) acts)"
  shows "\<not> list_ex (open_of t k) (change_row act_grant k (lapsePending t) acts)"
proof -
  have same: "InForce (lapsePending t a) t = InForce a t" "act_grant (lapsePending t a) = act_grant a" for a
    by (simp_all add: lapsePending_def InForce_def)
  have "\<not> open_of t k a" if a: "a \<in> set (change_row act_grant k (lapsePending t) acts)" for a
  proof
    assume o: "open_of t k a"
    have "act_decision a \<noteq> None" using assms(2) a o by (auto simp: list_ex_iff open_of_def)
    then have "act_grant a = k" "InForce a t" using o by (auto simp: open_of_def)
    moreover obtain a0 where "a0 \<in> set acts" "a = a0 \<or> a = lapsePending t a0"
      using a by (auto simp: set_change_row)
    ultimately show False using assms(1) same by (metis (mono_tags, lifting) list_ex_iff)
  qed
  then show ?thesis by (auto simp: list_ex_iff)
qed

locale caller_relation = table_relation R for R +
  assumes caller_law: "caller_step (callers s) c' \<Longrightarrow> R s (s\<lparr>callers := c'\<rparr>)"
begin

lemma y_read_callers: "yields (on_store R) (read_callers f)"
  unfolding read_callers_def by (rule y_read_db)

lemma caller_stepped: "caller_step (callers (store w)) c' \<Longrightarrow> on_store R w (w\<lparr>store := (store w)\<lparr>callers := c'\<rparr>\<rparr>)"
  by (simp add: on_store_def caller_law)

lemma y_insertGrant:
  assumes "unrevoked g" "registeredScope (pg_scope g)" "pg_version g = 0"
  shows "yields (on_store R) (insertGrant g)"
  by (rule yieldsI) (auto simp: insertGrant_def run_simps sr.step_refl intro!: caller_stepped caller_step.Granted assms
      split: if_splits)

lemma y_bumpVersion: "yields (on_store R) (bumpVersion k)"
  by (rule yieldsI) (auto simp: bumpVersion_def run_simps bigint_incr_Inr intro!: caller_stepped caller_step.Bumped
      split: option.splits)

lemma y_recordGrantEvent: "yields (on_store R) (recordGrantEvent e)"
  by (rule yieldsI) (auto simp: recordGrantEvent_def run_simps intro!: caller_stepped caller_step.Event_recorded)

lemma y_publishAt: "yields (on_store R) (publishAt env t k etype v)"
  unfolding publishAt_def
  by (intro y_read_callers y_recordGrantEvent y_published y_store_intros)

lemma y_grant_publish: "yields (on_store R) (grant_publish env t k etype)"
  unfolding grant_publish_def
  by (intro y_read_callers y_bumpVersion y_publishAt y_store_intros)

lemma y_oneGrant: "yields (on_store R) (oneGrant k)"
  unfolding oneGrant_def by (intro y_read_callers y_store_intros)

lemma y_activation_reads: "yields (on_store R) (lockActivation k)" "yields (on_store R) (readActivation k)"
  unfolding lockActivation_def readActivation_def by (intro y_read_callers y_store_intros)+

lemmas y_authority =
  y_read_callers y_grant_publish y_publishAt y_oneGrant y_activation_reads y_Respond y_store_intros

lemma a_provider_Grant: "always R (provider_Grant env cx principalID scope kind reason)"
  unfolding provider_Grant_def
proof (cases "registeredScope scope")
  case True
  then show "always R (seq (ScopeFrom cx) (\<lambda>sc. seq (ensure (registeredScope scope) (ErrInvalid PkgAuthority)) (\<lambda>_.
      seq (ensure (kind = KindEligible \<or> kind = KindEmergency) (ErrInvalid PkgAuthority)) (\<lambda>_.
      seq (ensure (\<not> IsNil principalID) (ErrInvalid PkgAuthority)) (\<lambda>_.
      seq (ensure (\<not> blank reason) (ErrInvalid PkgAuthority)) (\<lambda>_.
      seq (newID env) (\<lambda>grantID.
      WithProviderScope env cx reason (grant_body env sc grantID principalID scope kind reason))))))))"
    unfolding grant_body_def
    by (intro a_ScopeFrom a_seq_quiet quiet_steps a_WithProviderScope y_insertGrant y_authority)
      (simp_all add: unrevoked_def)
qed (auto simp: ensure_def intro!: a_ScopeFrom a_raise)

lemma y_provider_revoke_body: "yields (on_store R) (provider_revoke_body env scope k reason b cx)"
proof (rule yieldsI)
  fix w x w' assume run: "provider_revoke_body env scope k reason b cx w = (Inr x, w')"
  let ?t = "db_clock env (ticks w)" and ?c = "callers (store w)"
  let ?c1 = "?c\<lparr>provider_grants := change_row pg_id k (revokeGrant ?t (sc_actor scope) (TrimSpace reason)) (provider_grants ?c)\<rparr>"
  let ?rest = "seq (grant_publish env ?t k EventRevoked) (\<lambda>_. seq (oneGrant k) (\<lambda>record.
      seq (Respond env cx (ResGrant record)) (\<lambda>_. return record)))"
  from run obtain g where "row_of pg_id k (lockActive ?c) = Some g" "\<not> (pg_scope g = Scope \<and> governing (lockActive ?c) = 1)"
    and rest: "?rest (w\<lparr>store := (store w)\<lparr>callers := ?c1\<rparr>\<rparr>) = (Inr x, w')"
    unfolding provider_revoke_body_def
    by (auto simp: seq_run(1)[of "db_now env"] seq_run(1)[of "read_callers f" for f] seq_run(1)[of "ensure P e" for P e]
        seq_run(1)[of "on_callers f" for f] return_run raise_run read_callers_run on_callers_run ensure_run db_now_run
        split: option.split_asm)
  then have step: "on_store R w (w\<lparr>store := (store w)\<lparr>callers := ?c1\<rparr>\<rparr>)"
    by (intro caller_stepped caller_step.Revoked)
  have "yields (on_store R) ?rest" by (intro y_authority)
  then show "on_store R w w'" using step rest by (blast dest: yieldsD intro: sr.step_trans)
qed

lemma a_provider_Revoke: "always R (provider_Revoke env cx k reason)"
  unfolding provider_Revoke_def
  by (intro a_ScopeFrom a_seq_quiet quiet_steps a_WithProviderScope y_provider_revoke_body)

lemma y_bootstrap_body: "yields (on_store R) (bootstrap_body env req)"
proof (rule yieldsI)
  fix w x w' assume run: "bootstrap_body env req w = (Inr x, w')"
  have first: "caller_step c (c\<lparr>provider_grants := [g]\<rparr>)"
    if "provider_grants c = []" "unrevoked g" "pg_scope g = Scope" "pg_version g = 0" for c g
    using that caller_step.Granted[of g c]
    by (simp add: grant_of_def holds_scope_def registeredScope_def Scopes_def)
  show "on_store R w w'"
  proof (cases "w' = w")
    case False
    with run have "take 2 (sort_key pg_grantedAt (provider_grants (callers (store w)))) = []"
      by (auto simp: bootstrap_body_def run_simps Let_def split: if_splits)
    then have none: "provider_grants (callers (store w)) = []"
      by (metis length_0_conv length_sort take_eq_Nil zero_neq_numeral)
    then show ?thesis
      using run by (auto simp: bootstrap_body_def run_simps Let_def on_store_def unrevoked_def intro!: caller_law first)
  qed (simp add: sr.step_refl)
qed

lemma a_Bootstrap: "always R (Bootstrap env req)"
  unfolding Bootstrap_def by (intro a_seq_quiet quiet_steps a_InTx y_bootstrap_body)

subsection \<open>Activations\<close>

lemma decided_step:
  assumes "activation_of k (callers (store w)) = Some a" "act_decision a = None"
    "separately_decided decider a (callers (store w))"
    "update_activation k (decideActivation t decider d reason) w = (Inr u, w')"
  shows "on_store R w w'"
  using assms unfolding update_activation_def
  by (auto simp: run_simps intro!: caller_stepped intro: caller_step.Decided)

lemma y_activation_request_body:
  assumes "Second \<le> duration"
  shows "yields (on_store R) (activation_request_body env holder k grantID duration reason b cx)"
proof (rule yieldsI)
  fix w x w' assume run: "activation_request_body env holder k grantID duration reason b cx w = (Inr x, w')"
  let ?t = "db_clock env (ticks w)" and ?c = "callers (store w)"
  let ?a = "\<lambda>g. \<lparr>act_id = k, act_grant = grantID, act_principal = holder, act_scope = pg_scope g,
            act_reason = TrimSpace reason, act_duration = duration div Second, act_approval = approvalRequired env,
            act_requestedAt = ?t, act_decidedBy = None, act_decision = None, act_decisionReason = [],
            act_decidedAt = None, act_endsAt = None, act_endedBy = None, act_endReason = [], act_endedAt = None\<rparr>"
  let ?decide = "if \<not> approvalRequired env
          then seq (update_activation k (decideActivation ?t holder DecisionApproved (TrimSpace reason))) (\<lambda>_.
               grant_publish env ?t grantID EventActivated)
          else return ()"
  let ?rest = "seq (readActivation k) (\<lambda>activation. seq (Respond env cx (ResActivation activation)) (\<lambda>_. return activation))"
  from run obtain g w1 w2 w3 where chk: "request_checks env ?t holder grantID w = (Inr g, w1)"
    and ins: "insertActivation (?a g) w1 = (Inr (), w2)" and dec: "?decide w2 = (Inr (), w3)"
    and rest: "?rest w3 = (Inr x, w')"
    unfolding activation_request_body_def by (auto simp: seq_run(1) db_now_run simp del: if_split)
  from chk have c: "grant_of grantID ?c = Some g" "unrevoked g" "pg_principal g = holder" "pg_kind g \<noteq> KindEmergency"
    and w1: "w1 = w\<lparr>store := (store w)\<lparr>callers := ?c\<lparr>activations := change_row act_grant grantID (lapsePending ?t) (activations ?c)\<rparr>\<rparr>\<rparr>"
    and n: "\<not> list_ex (open_of ?t grantID) (change_row act_grant grantID (lapsePending ?t) (activations ?c))"
    unfolding request_checks_run using lapsed_not_open by blast+
  have 1: "on_store R w w1" unfolding w1 by (intro caller_stepped caller_step.Lapsed)
  have "0 < duration div Second" using assms by (simp add: Second_def)
  then have fresh: "fresh_activation (?a g) g (callers (store w1))"
    using c n ins by (simp add: w1 fresh_activation_def insertActivation_def run_simps grant_of_def)
  have w2: "w2 = w1\<lparr>store := (store w1)\<lparr>callers := (callers (store w1))\<lparr>activations := activations (callers (store w1)) @ [?a g]\<rparr>\<rparr>\<rparr>"
    using ins by (simp add: insertActivation_def run_simps)
  have 2: "on_store R w1 w2" unfolding w2 using fresh by (intro caller_stepped caller_step.Requested)
  have "activation_of k (callers (store w2)) = Some (?a g)"
    using fresh by (simp add: w2 fresh_activation_def activation_of_def row_of_append)
  then have step: "on_store R w2 v" if "\<not> approvalRequired env"
      "update_activation k (decideActivation ?t holder DecisionApproved (TrimSpace reason)) w2 = (Inr u, v)" for u v
    using that by (elim decided_step) (simp_all add: separately_decided_def)
  have 3: "on_store R w2 w3"
  proof (cases "approvalRequired env")
    case False
    with dec obtain v where u: "update_activation k (decideActivation ?t holder DecisionApproved (TrimSpace reason)) w2 = (Inr (), v)"
      and p: "grant_publish env ?t grantID EventActivated v = (Inr (), w3)" by (auto simp: seq_run(1))
    show ?thesis using step[OF False u] yieldsD[OF y_grant_publish p] by (rule sr.step_trans)
  qed (use dec in \<open>simp add: return_run sr.step_refl\<close>)
  have "yields (on_store R) ?rest" by (intro y_authority)
  then show "on_store R w w'" using 1 2 3 rest by (blast dest: yieldsD intro: sr.step_trans)
qed

lemma a_activation_Request: "always R (activation_Request env cx k duration reason)"
  unfolding activation_Request_def
proof (cases "Second \<le> duration")
  case False
  then show "always R (seq (ScopeFrom cx) (\<lambda>scope. seq (ensure (\<not> IsNil k) ErrActivationInvalid) (\<lambda>_.
     seq (ensure (\<not> duration < Second) ErrActivationInvalid) (\<lambda>_.
     seq (ensure (\<not> duration > activationMax env) ErrActivationTooLong) (\<lambda>_.
     seq (ensure (\<not> blank reason) ErrActivationInvalid) (\<lambda>_.
     seq (newID env) (\<lambda>activationID. WithProviderScope env cx reason
       (activation_request_body env (sc_actor scope) activationID k duration reason))))))))"
    by (auto simp: ensure_def intro!: a_ScopeFrom a_raise)
qed (intro a_ScopeFrom a_seq_quiet quiet_steps a_WithProviderScope y_activation_request_body)

lemma y_decide_body: "yields (on_store R) (decide_body env decider k d reason b cx)"
proof (rule yieldsI)
  fix w x w' assume run: "decide_body env decider k d reason b cx w = (Inr x, w')"
  let ?t = "db_clock env (ticks w)" and ?w = "w\<lparr>ticks := Suc (ticks w)\<rparr>"
  let ?rest = "\<lambda>a. seq (if d = DecisionApproved then grant_publish env ?t (act_grant a) EventActivated else return ()) (\<lambda>_.
     seq (readActivation k) (\<lambda>activation. seq (Respond env cx (ResActivation activation)) (\<lambda>_. return activation)))"
  from run obtain a w1 where a: "activation_of k (callers (store w)) = Some a" "holds_scope decider (act_scope a) (callers (store w))"
      "act_principal a \<noteq> decider" "act_decision a = None"
    and u: "update_activation k (decideActivation ?t decider d (TrimSpace reason)) ?w = (Inr (), w1)"
    and rest: "?rest a w1 = (Inr x, w')"
    unfolding decide_body_def lockActivation_def
    by (auto simp: seq_run(1)[of "db_now env"] seq_run(1)[of "now env"] seq_run(1)[of "read_callers f" for f]
        seq_run(1)[of "seq m f" for m f] seq_run(1)[of "ensure P e" for P e] seq_run(1)[of "update_activation l f" for l f]
        return_run raise_run read_callers_run ensure_run db_now_run now_run split: option.split_asm)
  have "on_store R ?w w1"
    using a by (intro decided_step[OF _ _ _ u, of a]) (auto simp: separately_decided_def)
  then have "on_store R w w1" by (simp add: on_store_def)
  moreover have "yields (on_store R) (?rest a)" by (intro y_authority)
  ultimately show "on_store R w w'" using rest by (blast dest: yieldsD intro: sr.step_trans)
qed

lemma a_activation_Decide: "always R (activation_Decide env cx k d reason)"
  unfolding activation_Decide_def
  by (intro a_ScopeFrom a_seq_quiet quiet_steps a_WithProviderScope y_decide_body)

lemma y_end: "yields (on_store R) (update_activation k (endActivation t actor reason))"
  unfolding update_activation_def on_callers_def by (rule y_write_db) (intro caller_law caller_step.Ended)

lemma a_activation_End: "always R (activation_End env cx k inForce reason)"
  unfolding activation_End_def end_body_def
  by (intro a_ScopeFrom a_seq_quiet quiet_steps a_WithProviderScope y_end y_authority)

lemma y_record_use: "yields (on_store R) (record_use t g)"
  unfolding record_use_def on_callers_def
  by (intro y_authority caller_law caller_step.Used)

lemma a_RecordEmergencyUse: "always R (RecordEmergencyUse env principalID)"
  unfolding RecordEmergencyUse_def
  by (intro a_InTx y_record_use y_authority)

lemma a_SetPause: "always R (SetPause env cx paused reason)"
  unfolding SetPause_def insertPause_def on_callers_def Let_def
  by (intro a_ScopeFrom a_seq_quiet quiet_steps a_WithProviderScope y_authority caller_law caller_step.Paused)

lemma a_PublishWithdrawnGrants: "always R (InTx env (PublishWithdrawnGrants env))"
  unfolding PublishWithdrawnGrants_def by (intro a_InTx y_authority)

end

end
