(* ===== verification/Caller_Relations.thy ===== *)
theory Caller_Relations
  imports Authority_Relations
begin

text \<open>
  The remaining operations on the caller records as sequences of \<open>caller_step\<close>s: reporters, reviews, the
  metered fresh check, and tenant administration, which also grants Memberships.
\<close>

context caller_relation
begin

lemma y_insertReporter:
  assumes "reports_Valid (rp_reports r)"
  shows "yields (on_store R) (insertReporter r)"
  by (rule yieldsI) (auto simp: insertReporter_def run_simps sr.step_refl intro!: caller_stepped caller_step.Registered assms
      split: if_splits)

lemma y_oneReporter: "yields (on_store R) (oneReporter e k)"
  unfolding oneReporter_def by (intro y_authority)

lemma a_reporter_Register: "always R (reporter_Register env cx req)"
proof (cases "reports_Valid (rr_reports req)")
  case True
  then show ?thesis
    unfolding reporter_Register_def Let_def
    by (intro a_ScopeFrom a_seq_quiet quiet_steps a_WithProviderScope y_insertReporter y_oneReporter y_authority) simp
qed (auto simp: reporter_Register_def Let_def ensure_def intro!: a_ScopeFrom a_raise)

lemma y_retireReporter:
  "yields (on_store R) (on_callers (\<lambda>c. c\<lparr>reporters := change_row rp_id k (retireReporter t actor reason v) (reporters c)\<rparr>))"
  unfolding on_callers_def by (rule y_write_db) (intro caller_law caller_step.Retired)

lemma y_reporter_retire_body: "yields (on_store R) (reporter_retire_body env scope k version reason b cx)"
  unfolding reporter_retire_body_def by (intro y_retireReporter y_oneReporter y_authority)

lemma a_reporter_Retire: "always R (reporter_Retire env cx k version reason)"
  unfolding reporter_Retire_def Let_def
  by (intro a_ScopeFrom a_seq_quiet quiet_steps a_WithProviderScope y_reporter_retire_body)

lemma y_recordReview:
  assumes "rv_reviewedBy r \<noteq> rv_actor r"
  shows "yields (on_store R) (recordReview t r)"
  by (rule yieldsI) (auto simp: recordReview_def run_simps Let_def sr.step_refl assms split: if_splits
      intro!: caller_stepped caller_step.Reviewed)

lemma y_review_body:
  assumes "rv_actor review = rw_actor req"
  shows "yields (on_store R) (review_body env req review b cx)"
proof (rule yieldsI)
  fix w x w' assume run: "review_body env req review b cx w = (Inr x, w')"
  then obtain scope :: scope and r w1 where "sc_actor scope \<noteq> rw_actor req"
    and rec: "recordReview (db_clock env (ticks w)) (review\<lparr>rv_reviewedBy := sc_actor scope, rv_correlation := sc_correlation scope\<rparr>) w = (Inr (Some r), w1)"
    and rest: "Respond env cx (ResReview r) w1 = (Inr (), w')"
    by (simp add: review_body_def seq_run(1) ScopeFrom_run ensure_run db_now_run return_run required_run) blast
  then have "yields (on_store R) (recordReview (db_clock env (ticks w)) (review\<lparr>rv_reviewedBy := sc_actor scope, rv_correlation := sc_correlation scope\<rparr>))"
    using assms by (intro y_recordReview) simp
  then show "on_store R w w'" using rec rest y_Respond by (blast dest: yieldsD intro: sr.step_trans)
qed

lemma a_review_Record: "always R (review_Record env cx req)"
  unfolding review_Record_def Let_def
  by (intro a_ScopeFrom a_seq_quiet quiet_steps a_WithProviderScope y_review_body) simp

lemma y_countVerify: "yields (on_store R) (countVerify k)"
  by (rule yieldsI) (auto simp: countVerify_def run_simps bigint_incr_Inr sr.step_refl consumer_kept_def consumer_ok_def
      intro!: caller_stepped caller_step.Counted split: option.splits)

lemma y_verifyIn: "yields (on_store R) (verifyIn req d)"
  unfolding verifyIn_def by (intro y_countVerify y_authority)

lemma a_WithConsumerScope:
  assumes "\<And>scope cx'. cx_scope cx = Some scope \<Longrightarrow> marked cx cx' \<Longrightarrow> yields (on_store R) (fn BoundProvider cx')"
  shows "always R (WithConsumerScope env cx reason fn)"
  unfolding WithConsumerScope_def by (rule a_withRecordedScope) (rule assms)

lemma a_Verify: "always R (Verify env cx req)" "always R (consumer_Verify env cx req)"
  unfolding Verify_def consumer_Verify_def
  by (intro a_seq_quiet quiet_steps a_WithProviderScope a_WithConsumerScope y_verifyIn)+

lemma y_rate_body: "yields (on_store R) (rate_body env report)"
  by (rule yieldsI) (auto simp: rate_body_def run_simps Let_def recordRate_def required_run consumer_kept_def consumer_ok_def
      intro!: caller_stepped caller_step.Counted)

lemma a_RecordRate: "always R (RecordRate env cx report)"
  unfolding RecordRate_def
  by (intro a_seq_quiet quiet_steps a_WithProviderScope y_rate_body)

lemma y_insertAdminGrant:
  assumes "ag_revokedAt g = None"
  shows "yields (on_store R) (insertAdminGrant g)"
  by (rule yieldsI) (auto simp: insertAdminGrant_def run_simps sr.step_refl intro!: caller_stepped caller_step.Admin_granted assms
      split: if_splits)

lemma y_oneAdminGrant: "yields (on_store R) (oneAdminGrant k t)"
  unfolding oneAdminGrant_def by (intro y_authority)

lemma y_revokeAdminGrant:
  "yields (on_store R) (on_callers (\<lambda>c. c\<lparr>admin_grants := change_row ag_id k (revokeAdminGrant t tenantID actor reason) (admin_grants c)\<rparr>))"
  unfolding on_callers_def by (rule y_write_db) (intro caller_law caller_step.Admin_revoked)

lemma y_admin_revoke_body: "yields (on_store R) (admin_revoke_body env scope tenantID k reason b cx)"
  unfolding admin_revoke_body_def by (intro y_revokeAdminGrant y_oneAdminGrant y_authority)

lemma a_admin_Revoke: "always R (admin_Revoke env cx tenantID k reason)"
  unfolding admin_Revoke_def
  by (intro a_ScopeFrom a_seq_quiet quiet_steps a_WithProviderInTenant y_admin_revoke_body)

end

text \<open>Making an administrator may also make a Membership, so it needs the contract of the Membership service.\<close>

locale administration_relation = caller_relation R + membership_relation R "\<lambda>_. True" for R
begin

lemma y_admin_membership: "yields (on_store R) (admin_membership env b cx k tenantID principalID)"
  unfolding admin_membership_def by (intro y_GrantWithin y_authority) simp

lemma a_admin_Grant: "always R (admin_Grant env cx tenantID principalID reason)"
  unfolding admin_Grant_def admin_grant_body_def admin_tenant_check_def
  by (intro a_ScopeFrom a_seq_quiet quiet_steps a_WithProviderInTenant y_insertAdminGrant y_authority)
    (auto intro!: y_admin_membership y_oneAdminGrant y_authority split: prod.split)

end

end
