(* ===== verification/Caller_Invariants.thy ===== *)
theory Caller_Invariants
  imports Caller_Relations
begin

text \<open>
  What the steps of the caller records keep: how a record may move forward, which records are unique, that
  an approval was somebody else's, and that provider authority over this service is never revoked entirely.
\<close>

section \<open>How the records move forward\<close>

definition grant_advanced :: "provider_grant \<Rightarrow> provider_grant \<Rightarrow> bool" where
  "grant_advanced g g' \<longleftrightarrow>
     g' = g\<lparr>pg_revokedAt := pg_revokedAt g', pg_revokedBy := pg_revokedBy g', pg_revokeReason := pg_revokeReason g',
            pg_version := pg_version g'\<rparr> \<and>
     pg_version g \<le> pg_version g' \<and> (\<not> unrevoked g \<longrightarrow> g' = g\<lparr>pg_version := pg_version g'\<rparr>)"

definition activation_advanced :: "activation \<Rightarrow> activation \<Rightarrow> bool" where
  "activation_advanced a a' \<longleftrightarrow>
     act_id a' = act_id a \<and> act_grant a' = act_grant a \<and> act_principal a' = act_principal a \<and> act_scope a' = act_scope a \<and>
     act_duration a' = act_duration a \<and> act_approval a' = act_approval a \<and> act_requestedAt a' = act_requestedAt a \<and>
     (act_decision a \<noteq> None \<longrightarrow> act_decision a' = act_decision a \<and> act_decidedBy a' = act_decidedBy a \<and>
        act_decidedAt a' = act_decidedAt a \<and> act_endsAt a' = act_endsAt a \<and> (act_endedAt a \<noteq> None \<longrightarrow> a' = a))"

definition admin_advanced :: "admin_grant \<Rightarrow> admin_grant \<Rightarrow> bool" where
  "admin_advanced g g' \<longleftrightarrow>
     g' = g\<lparr>ag_revokedAt := ag_revokedAt g', ag_revokedBy := ag_revokedBy g', ag_revokeReason := ag_revokeReason g'\<rparr> \<and>
     (ag_revokedAt g \<noteq> None \<longrightarrow> g' = g)"

definition reporter_advanced :: "reporter \<Rightarrow> reporter \<Rightarrow> bool" where
  "reporter_advanced r r' \<longleftrightarrow>
     r' = r\<lparr>rp_retiredAt := rp_retiredAt r', rp_retiredBy := rp_retiredBy r', rp_retireReason := rp_retireReason r', rp_version := rp_version r'\<rparr> \<and>
     rp_version r \<le> rp_version r' \<and> (\<not> reporter_Active r \<longrightarrow> r' = r)"

definition consumer_advanced :: "consumer \<Rightarrow> consumer \<Rightarrow> bool" where
  "consumer_advanced q q' \<longleftrightarrow>
     co_id q' = co_id q \<and> co_principal q' = co_principal q \<and> co_registeredAt q' = co_registeredAt q"

definition letters_kept :: "dead_letter list \<Rightarrow> dead_letter list \<Rightarrow> bool" where
  "letters_kept ls ls' = list_all (\<lambda>d. dl_resolvedAt d = None \<or> d \<in> set ls') ls"

definition callers_advanced :: "caller_records \<Rightarrow> caller_records \<Rightarrow> bool" where
  "callers_advanced c c' \<longleftrightarrow>
     rows_advanced pg_id grant_advanced (provider_grants c) (provider_grants c') \<and>
     rows_advanced act_id activation_advanced (activations c) (activations c') \<and>
     rows_advanced ag_id admin_advanced (admin_grants c) (admin_grants c') \<and>
     rows_advanced rp_id reporter_advanced (reporters c) (reporters c') \<and>
     rows_advanced co_id consumer_advanced (consumers c) (consumers c') \<and> letters_kept (dead_letters c) (dead_letters c') \<and>
     (\<exists>xs. pauses c' = pauses c @ xs) \<and> (\<exists>xs. reviews c' = reviews c @ xs) \<and> (\<exists>xs. grant_events c' = grant_events c @ xs)"

lemma record_advanced_refl:
  "grant_advanced g g" "activation_advanced a a" "admin_advanced h h" "reporter_advanced r r" "consumer_advanced q q"
  by (simp_all add: grant_advanced_def activation_advanced_def admin_advanced_def reporter_advanced_def consumer_advanced_def)

lemma letters_kept_refl: "letters_kept ls ls"
  by (simp add: letters_kept_def list_all_iff)

lemma letters_kept_trans: "letters_kept a b \<Longrightarrow> letters_kept b c \<Longrightarrow> letters_kept a c"
  unfolding letters_kept_def list_all_iff by blast

lemma grant_advanced_trans: "grant_advanced g h \<Longrightarrow> grant_advanced h k \<Longrightarrow> grant_advanced g k"
  unfolding grant_advanced_def unrevoked_def by (cases g; cases h; cases k) auto

lemma activation_advanced_trans: "activation_advanced a b \<Longrightarrow> activation_advanced b c \<Longrightarrow> activation_advanced a c"
  unfolding activation_advanced_def by (cases "act_decision a = None"; cases "act_endedAt a = None") auto

lemma admin_advanced_trans: "admin_advanced g h \<Longrightarrow> admin_advanced h k \<Longrightarrow> admin_advanced g k"
  unfolding admin_advanced_def by (cases g; cases h; cases k) auto

lemma reporter_advanced_trans: "reporter_advanced g h \<Longrightarrow> reporter_advanced h k \<Longrightarrow> reporter_advanced g k"
  unfolding reporter_advanced_def reporter_Active_def by (cases g; cases h; cases k) auto

lemma consumer_advanced_trans: "consumer_advanced g h \<Longrightarrow> consumer_advanced h k \<Longrightarrow> consumer_advanced g k"
  by (simp add: consumer_advanced_def)

lemmas advanced_trans = grant_advanced_trans activation_advanced_trans admin_advanced_trans reporter_advanced_trans
  consumer_advanced_trans

lemma advanced_by_statement:
  "grant_advanced g (revokeGrant t actor reason g)"
  "activation_advanced a (lapsePending t a)" "activation_advanced a (decideActivation t actor d reason a)"
  "activation_advanced a (endActivation t actor reason a)"
  "admin_advanced h (revokeAdminGrant t k actor reason h)" "reporter_advanced r (retireReporter t actor reason v r)"
proof -
  show "grant_advanced g (revokeGrant t actor reason g)" by (simp add: grant_advanced_def revokeGrant_def)
  show "activation_advanced a (lapsePending t a)" by (simp add: activation_advanced_def lapsePending_def)
  show "activation_advanced a (decideActivation t actor d reason a)" by (simp add: activation_advanced_def decideActivation_def)
  show "activation_advanced a (endActivation t actor reason a)"
  proof (cases "InForce a t")
    case True
    then have "act_endedAt a = None" by (simp add: InForce_def)
    then show ?thesis using True by (simp add: activation_advanced_def endActivation_def)
  qed (simp add: endActivation_def record_advanced_refl)
  show "admin_advanced h (revokeAdminGrant t k actor reason h)" by (simp add: admin_advanced_def revokeAdminGrant_def)
  show "reporter_advanced r (retireReporter t actor reason v r)" by (simp add: reporter_advanced_def retireReporter_def)
qed

lemma statement_keys [simp]:
  "pg_id (revokeGrant t actor reason g) = pg_id g" "act_id (lapsePending t a) = act_id a"
  "act_id (decideActivation t actor d reason a) = act_id a" "act_id (endActivation t actor reason a) = act_id a"
  "ag_id (revokeAdminGrant t k actor reason h) = ag_id h" "rp_id (retireReporter t actor reason v r) = rp_id r"
  by (simp_all add: revokeGrant_def lapsePending_def decideActivation_def endActivation_def revokeAdminGrant_def
      retireReporter_def)

lemma callers_advanced_refl: "callers_advanced c c"
  by (simp add: callers_advanced_def rows_advanced_refl record_advanced_refl letters_kept_refl)

lemma appended_trans: "\<exists>xs. b = a @ xs \<Longrightarrow> \<exists>xs. c = b @ xs \<Longrightarrow> \<exists>xs. c = a @ xs"
  by auto

lemma callers_advanced_trans: "callers_advanced c d \<Longrightarrow> callers_advanced d e \<Longrightarrow> callers_advanced c e"
  unfolding callers_advanced_def
  by (elim conjE, intro conjI; (rule rows_advanced_trans[OF advanced_trans(1)] rows_advanced_trans[OF advanced_trans(2)]
      rows_advanced_trans[OF advanced_trans(3)] rows_advanced_trans[OF advanced_trans(4)] rows_advanced_trans[OF advanced_trans(5)]
      letters_kept_trans appended_trans; assumption))

lemma caller_step_advanced: "caller_step c c' \<Longrightarrow> callers_advanced c c'"
proof (induction rule: caller_step.induct)
  case (Bumped k c g)
  let ?g = "g\<lparr>pg_version := pg_version g + 1\<rparr>"
  have "row_of pg_id (pg_id ?g) (provider_grants c) = Some g"
    using Bumped row_of_SomeD by (fastforce simp: grant_of_def)
  moreover have "grant_advanced g ?g" by (simp add: grant_advanced_def)
  ultimately show ?case
    by (simp add: callers_advanced_def rows_advanced_refl record_advanced_refl letters_kept_refl rows_advanced_put)
next
  case (Counted k c q q')
  then have "row_of co_id (co_id q') (consumers c) = Some q" "consumer_advanced q q'"
    using row_of_SomeD by (fastforce simp: consumer_kept_def consumer_advanced_def)+
  then show ?case
    by (simp add: callers_advanced_def rows_advanced_refl record_advanced_refl letters_kept_refl rows_advanced_put)
next
  case (Consumer_changed f c k)
  then show ?case
    by (simp add: callers_advanced_def rows_advanced_refl record_advanced_refl letters_kept_refl rows_advanced_change
        consumer_kept_def consumer_advanced_def)
qed (simp_all add: callers_advanced_def rows_advanced_refl record_advanced_refl letters_kept_refl rows_advanced_append
    rows_advanced_change advanced_by_statement letters_kept_def)

section \<open>Unique records\<close>

definition grants_wf :: "caller_records \<Rightarrow> bool" where
  "grants_wf c \<longleftrightarrow>
     keyed pg_id (provider_grants c) \<and>
     distinct (map (\<lambda>g. (pg_principal g, pg_scope g)) (filter unrevoked (provider_grants c))) \<and>
     list_all (\<lambda>g. registeredScope (pg_scope g)) (provider_grants c)"

lemma caller_step_grants: "caller_step c c' \<Longrightarrow> grants_wf c \<Longrightarrow> grants_wf c'"
proof (induction rule: caller_step.induct)
  case (Granted g c)
  have "\<not> list_ex (\<lambda>r. unrevoked r \<and> (pg_principal r, pg_scope r) = (pg_principal g, pg_scope g)) (provider_grants c)"
    using Granted(2) by (auto simp: holds_scope_def list_ex_iff)
  then show ?case
    using Granted distinct_filter_append[of "\<lambda>g. (pg_principal g, pg_scope g)" unrevoked "provider_grants c" g]
    by (simp add: grants_wf_def grant_of_def)
next
  case (Revoked k c g t actor reason)
  have "distinct (map (\<lambda>g. (pg_principal g, pg_scope g)) (filter unrevoked
      (change_row pg_id k (revokeGrant t actor reason) (provider_grants c))))"
    using Revoked(3) by (intro distinct_filter_change) (auto simp: grants_wf_def revokeGrant_def unrevoked_def)
  then show ?case
    using Revoked(3) by (auto simp: grants_wf_def list_all_iff set_change_row revokeGrant_def)
next
  case (Bumped k c g)
  let ?g = "g\<lparr>pg_version := pg_version g + 1\<rparr>"
  have r: "row_of pg_id (pg_id ?g) (provider_grants c) = Some g" "g \<in> set (provider_grants c)"
    using Bumped(1) row_of_SomeD by (fastforce simp: grant_of_def)+
  then show ?case
    using Bumped(2) map_filter_put_row[of pg_id "provider_grants c" ?g g unrevoked "\<lambda>g. (pg_principal g, pg_scope g)"]
    by (auto simp: grants_wf_def list_all_iff set_put_row unrevoked_def)
qed (simp_all add: grants_wf_def)

section \<open>Separation of duties\<close>

definition activation_ok :: "caller_records \<Rightarrow> activation \<Rightarrow> bool" where
  "activation_ok c a \<longleftrightarrow>
     (\<exists>g. grant_of (act_grant a) c = Some g \<and> pg_principal g = act_principal a \<and> pg_scope g = act_scope a \<and>
        pg_kind g \<noteq> KindEmergency) \<and>
     0 < act_duration a \<and>
     (act_decision a = Some DecisionApproved \<longleftrightarrow> act_endsAt a \<noteq> None) \<and>
     (act_endedAt a \<noteq> None \<longrightarrow> act_decision a = Some DecisionApproved) \<and>
     (act_approval a \<and> act_decision a = Some DecisionApproved \<longrightarrow>
        (\<exists>decider. act_decidedBy a = Some decider \<and> decider \<noteq> act_principal a))"

definition activations_wf :: "caller_records \<Rightarrow> bool" where
  "activations_wf c \<longleftrightarrow>
     keyed act_id (activations c) \<and>
     distinct (map act_grant (filter (\<lambda>a. act_decision a = None) (activations c))) \<and>
     list_all (activation_ok c) (activations c)"

lemma activation_ok_grants:
  assumes "rows_advanced pg_id grant_advanced (provider_grants c) (provider_grants c')" "activation_ok c a"
  shows "activation_ok c' a"
proof -
  have "pg_principal g' = pg_principal g \<and> pg_scope g' = pg_scope g \<and> pg_kind g' = pg_kind g" if "grant_advanced g g'" for g g'
    using that unfolding grant_advanced_def by (cases g; cases g') simp
  note same = this
  obtain g where g: "grant_of (act_grant a) c = Some g" "pg_principal g = act_principal a" "pg_scope g = act_scope a"
    "pg_kind g \<noteq> KindEmergency" using assms(2) by (auto simp: activation_ok_def)
  then obtain g' where "grant_of (act_grant a) c' = Some g'" "grant_advanced g g'"
    using assms(1) by (auto simp: rows_advanced_def grant_of_def)
  then show ?thesis using assms(2) g same unfolding activation_ok_def by auto
qed

lemma activation_ok_same:
  "activation_ok (c\<lparr>activations := x\<rparr>) = activation_ok c" "activation_ok (c\<lparr>grant_events := y\<rparr>) = activation_ok c"
  "activation_ok (c\<lparr>emergency_uses := z\<rparr>) = activation_ok c" "activation_ok (c\<lparr>pauses := p\<rparr>) = activation_ok c"
  "activation_ok (c\<lparr>admin_grants := q\<rparr>) = activation_ok c" "activation_ok (c\<lparr>reporters := r\<rparr>) = activation_ok c"
  "activation_ok (c\<lparr>consumers := s\<rparr>) = activation_ok c" "activation_ok (c\<lparr>reviews := t\<rparr>) = activation_ok c"
  "activation_ok (c\<lparr>subscriptions := u\<rparr>) = activation_ok c" "activation_ok (c\<lparr>deliveries := v\<rparr>) = activation_ok c"
  "activation_ok (c\<lparr>receipts := i\<rparr>) = activation_ok c" "activation_ok (c\<lparr>dead_letters := l\<rparr>) = activation_ok c"
  by (simp_all add: activation_ok_def grant_of_def fun_eq_iff)

lemma activations_wf_change:
  assumes "activations_wf c" "\<And>a. act_id (f a) = act_id a" "\<And>a. act_grant (f a) = act_grant a"
    "\<And>a. act_decision (f a) = None \<Longrightarrow> act_decision a = None"
    "\<And>a. a \<in> set (activations c) \<Longrightarrow> col a = k \<Longrightarrow> activation_ok c a \<Longrightarrow> activation_ok c (f a)"
  shows "activations_wf (c\<lparr>activations := change_row col k f (activations c)\<rparr>)"
proof -
  have "map act_id (change_row col k f (activations c)) = map act_id (activations c)"
    by (simp add: change_row_def assms(2))
  moreover have "distinct (map act_grant (filter (\<lambda>a. act_decision a = None) (change_row col k f (activations c))))"
    using assms(1,3,4) by (intro distinct_filter_change) (auto simp: activations_wf_def)
  ultimately show ?thesis
    using assms(1,5) by (auto simp: activations_wf_def keyed_def list_all_iff set_change_row activation_ok_same)
qed

lemma activation_ok_lapse: "activation_ok c a \<Longrightarrow> activation_ok c (lapsePending t a)"
  by (auto simp: activation_ok_def lapsePending_def)

lemma activation_ok_end: "activation_ok c a \<Longrightarrow> activation_ok c (endActivation t actor reason a)"
  by (auto simp: activation_ok_def endActivation_def InForce_def)

lemma activation_ok_decide:
  "activation_ok c a \<Longrightarrow> separately_decided decider a c \<Longrightarrow> activation_ok c (decideActivation t decider d reason a)"
  by (auto simp: activation_ok_def decideActivation_def separately_decided_def)

lemma activations_wf_grants:
  assumes "activations_wf c" "caller_step c c'" "activations c' = activations c"
  shows "activations_wf c'"
  using assms caller_step_advanced[OF assms(2)] activation_ok_grants[of c c']
  by (auto simp: activations_wf_def callers_advanced_def list_all_iff)

lemma caller_step_activations:
  assumes step: "caller_step c c'" and wf: "activations_wf c"
  shows "activations_wf c'"
proof (cases "activations c' = activations c")
  case True
  then show ?thesis using activations_wf_grants wf step by blast
next
  case False
  from step wf False show ?thesis
  proof (induction rule: caller_step.induct)
    case (Requested a g c)
    have "activation_ok c a"
      using Requested(1) by (auto simp: fresh_activation_def activation_ok_def)
    moreover have "\<not> list_ex (\<lambda>r. act_decision r = None \<and> act_grant r = act_grant a) (activations c)"
      using Requested(1) by (auto simp: fresh_activation_def list_ex_iff open_of_def)
    ultimately show ?case
      using Requested distinct_filter_append[of act_grant "\<lambda>a. act_decision a = None" "activations c" a]
      by (simp add: activations_wf_def fresh_activation_def activation_of_def activation_ok_same)
  next
    case (Lapsed c k t)
    show ?case
      by (rule activations_wf_change[OF Lapsed(1)]) (auto intro: activation_ok_lapse, simp_all add: lapsePending_def split: if_splits)
  next
    case (Decided k c a decider t d reason)
    have "x = a" if "x \<in> set (activations c)" "act_id x = k" for x
      using that Decided(1,4) row_of_keyed[of act_id "activations c" x] by (simp add: activations_wf_def activation_of_def)
    then show ?case
      using Decided(3) by (intro activations_wf_change[OF Decided(4)])
        (auto intro: activation_ok_decide, simp_all add: decideActivation_def split: if_splits)
  next
    case (Ended c k t actor reason)
    show ?case
      by (rule activations_wf_change[OF Ended(1)]) (auto intro: activation_ok_end, simp_all add: endActivation_def InForce_def split: if_splits)
  qed simp_all
qed

section \<open>The other records\<close>

definition records_wf :: "caller_records \<Rightarrow> bool" where
  "records_wf c \<longleftrightarrow>
     distinct (map (\<lambda>e. (ge_grant e, ge_version e)) (grant_events c)) \<and>
     keyed ag_id (admin_grants c) \<and>
     distinct (map (\<lambda>g. (ag_principal g, ag_tenant g)) (filter (\<lambda>g. ag_revokedAt g = None) (admin_grants c))) \<and>
     keyed rp_id (reporters c) \<and> distinct (map rp_principal (reporters c)) \<and>
     list_all (\<lambda>r. reports_Valid (rp_reports r)) (reporters c) \<and>
     list_all (\<lambda>v. rv_reviewedBy v \<noteq> rv_actor v) (reviews c) \<and>
     keyed co_id (consumers c) \<and> distinct (map co_principal (consumers c)) \<and> list_all consumer_ok (consumers c)"

lemma consumers_changed:
  assumes "\<forall>q. consumer_kept q (f q)"
  shows "map co_id (change_row co_id k f qs) = map co_id qs" "map co_principal (change_row co_id k f qs) = map co_principal qs"
    "list_all consumer_ok qs \<Longrightarrow> list_all consumer_ok (change_row co_id k f qs)"
  using assms by (auto simp: change_row_def consumer_kept_def list_all_iff)

lemma consumers_put:
  assumes "row_of co_id k qs = Some q" "consumer_kept q q'"
  shows "map co_id (put_row co_id q' qs) = map co_id qs" "keyed co_id qs \<Longrightarrow> map co_principal (put_row co_id q' qs) = map co_principal qs"
    "list_all consumer_ok qs \<Longrightarrow> list_all consumer_ok (put_row co_id q' qs)"
proof -
  have q: "q \<in> set qs" "co_id q = k" "co_id q' = k" using assms row_of_SomeD[OF assms(1)] by (auto simp: consumer_kept_def)
  show "map co_id (put_row co_id q' qs) = map co_id qs" by (rule map_key_put_row)
  show "list_all consumer_ok (put_row co_id q' qs)" if "list_all consumer_ok qs"
    using that q assms(2) by (auto simp: list_all_iff set_put_row consumer_kept_def)
  show "map co_principal (put_row co_id q' qs) = map co_principal qs" if "keyed co_id qs"
  proof -
    have "row_of co_id (co_id q') qs = Some q" using assms(1) q by simp
    then show ?thesis
      using map_filter_put_row[of co_id qs q' q "\<lambda>_. True" co_principal] that assms(2) by (simp add: consumer_kept_def)
  qed
qed

lemma caller_step_records: "caller_step c c' \<Longrightarrow> records_wf c \<Longrightarrow> records_wf c'"
proof (induction rule: caller_step.induct)
  case (Event_recorded e c)
  then show ?case by (auto simp: records_wf_def list_ex_iff)
next
  case (Admin_granted h c)
  have "\<not> list_ex (\<lambda>r. ag_revokedAt r = None \<and> (ag_principal r, ag_tenant r) = (ag_principal h, ag_tenant h)) (admin_grants c)"
    using Admin_granted(2) by (auto simp: admin_in_force_def list_ex_iff)
  then show ?case
    using Admin_granted distinct_filter_append[of "\<lambda>g. (ag_principal g, ag_tenant g)" "\<lambda>g. ag_revokedAt g = None" "admin_grants c" h]
    by (simp add: records_wf_def)
next
  case (Admin_revoked c k t tenantID actor reason)
  have "distinct (map (\<lambda>g. (ag_principal g, ag_tenant g)) (filter (\<lambda>g. ag_revokedAt g = None)
      (change_row ag_id k (revokeAdminGrant t tenantID actor reason) (admin_grants c))))"
    using Admin_revoked by (intro distinct_filter_change) (auto simp: records_wf_def revokeAdminGrant_def split: if_splits)
  then show ?case using Admin_revoked by (simp add: records_wf_def)
next
  case (Registered r c)
  then show ?case by (auto simp: records_wf_def list_ex_iff)
next
  case (Retired c k t actor reason v)
  have "map rp_principal (change_row rp_id k (retireReporter t actor reason v) (reporters c)) = map rp_principal (reporters c)"
    by (simp add: change_row_def retireReporter_def)
  then show ?case
    using Retired by (auto simp: records_wf_def list_all_iff set_change_row retireReporter_def)
next
  case (Counted k c q q')
  then show ?case using consumers_put[OF Counted(1,2)] by (simp add: records_wf_def keyed_def)
next
  case (Consumer_changed f c k)
  then show ?case using consumers_changed[OF Consumer_changed(1)] by (simp add: records_wf_def keyed_def)
next
  case (Consumer_added q c)
  then show ?case by (auto simp: records_wf_def list_ex_iff)
qed (simp_all add: records_wf_def)

definition callers_wf :: "caller_records \<Rightarrow> bool" where
  "callers_wf c \<longleftrightarrow> grants_wf c \<and> activations_wf c \<and> records_wf c"

lemma caller_step_wf: "caller_step c c' \<Longrightarrow> callers_wf c \<Longrightarrow> callers_wf c'"
  using caller_step_grants caller_step_activations caller_step_records by (auto simp: callers_wf_def)

lemma no_callers_wf: "callers_wf no_callers"
  by (simp add: callers_wf_def grants_wf_def activations_wf_def records_wf_def no_callers_def keyed_def)

section \<open>Authority that is never lost\<close>

definition governed :: "caller_records \<Rightarrow> bool" where
  "governed c \<longleftrightarrow> list_ex (\<lambda>g. pg_scope g = Scope \<and> unrevoked g) (provider_grants c)"

lemma another_element:
  assumes "distinct (map key xs)" "length xs \<noteq> 1" "x \<in> set xs"
  shows "\<exists>y \<in> set xs. key y \<noteq> key x"
proof (rule ccontr)
  assume none: "\<not> ?thesis"
  then have "set (map key xs) = {key x}" using assms(3) unfolding set_map by blast
  then have "length (map key xs) = 1" using distinct_card[OF assms(1)] by simp
  then show False using assms(2) by simp
qed

lemma caller_step_governed:
  assumes "caller_step c c'" "grants_wf c" "governed c"
  shows "governed c'"
  using assms
proof (induction rule: caller_step.induct)
  case (Revoked k c g t actor reason)
  let ?gov = "filter (\<lambda>g. pg_scope g = Scope) (lockActive c)"
  have g: "g \<in> set (lockActive c)" "pg_id g = k" using row_of_SomeD[OF Revoked(1)] by auto
  have "distinct (map pg_id ?gov)"
    using Revoked(3) by (auto simp: grants_wf_def keyed_def lockActive_def distinct_map_filter)
  moreover obtain h where h: "h \<in> set ?gov" using Revoked(4) by (auto simp: governed_def list_ex_iff lockActive_def)
  ultimately obtain y where y: "y \<in> set ?gov" "pg_id y \<noteq> k"
  proof (cases "pg_scope g = Scope")
    case True
    then have "g \<in> set ?gov" "length ?gov \<noteq> 1" using g Revoked(2) by (auto simp: governing_def)
    then show ?thesis using another_element[OF \<open>distinct (map pg_id ?gov)\<close>] g(2) that by blast
  next
    case False
    have "pg_id h \<noteq> k"
    proof
      assume "pg_id h = k"
      have "row_of pg_id k (provider_grants c) = Some h" "row_of pg_id k (provider_grants c) = Some g"
        using \<open>pg_id h = k\<close> g h Revoked(3) row_of_keyed[of pg_id "provider_grants c" h] row_of_keyed[of pg_id "provider_grants c" g]
        by (simp_all add: grants_wf_def lockActive_def)
      then have "h = g" by simp
      then show False using h False by simp
    qed
    then show ?thesis using h that by blast
  qed
  then show ?case by (auto simp: governed_def list_ex_iff set_change_row lockActive_def)
next
  case (Bumped k c g)
  have r: "row_of pg_id (pg_id g) (provider_grants c) = Some g"
    using Bumped(1) row_of_SomeD by (fastforce simp: grant_of_def)
  obtain h where h: "h \<in> set (provider_grants c)" "pg_scope h = Scope" "unrevoked h"
    using Bumped(3) by (auto simp: governed_def list_ex_iff)
  have "h = g" if "pg_id h = pg_id g"
    using that r h Bumped(2) row_of_keyed[of pg_id "provider_grants c" h] by (simp add: grants_wf_def)
  then obtain h' where "h' \<in> set (put_row pg_id (g\<lparr>pg_version := pg_version g + 1\<rparr>) (provider_grants c))"
      "pg_scope h' = Scope" "unrevoked h'"
  proof (cases "pg_id h = pg_id g")
    case True
    have "g\<lparr>pg_version := pg_version g + 1\<rparr> \<in> set (put_row pg_id (g\<lparr>pg_version := pg_version g + 1\<rparr>) (provider_grants c))"
      using row_of_SomeD[OF r] by (auto simp: set_put_row)
    then show ?thesis using h True \<open>pg_id h = pg_id g \<Longrightarrow> h = g\<close> 
      by (intro that[of "g\<lparr>pg_version := pg_version g + 1\<rparr>"]) (auto simp: unrevoked_def)
  next
    case False
    then show ?thesis using h by (intro that[of h]) (auto simp: set_put_row)
  qed
  then show ?case by (auto simp: governed_def list_ex_iff)
qed (auto simp: governed_def)

end
