(* ===== verification/Registry_Invariants.thy ===== *)
theory Registry_Invariants
  imports Registry_Relations Offboarding_Invariants Invitation_Relations Batch_Relations Caller_Invariants
begin

text \<open>
  The registries beside the lifecycles that point into them: an Organization is not retired while it
  sponsors a Tenant that is not, both registries only move forward, and the contract of every service put
  together.
\<close>

locale system_relation =
  process_relation R + organization_relation R + workspace_relation R "\<lambda>_. True" + invitation_relation R "\<lambda>_. True" +
  batch_relation R "\<lambda>_. True" + administration_relation R for R

section \<open>Sponsorship\<close>

definition sponsor_lives :: "store \<Rightarrow> tenant_record \<Rightarrow> bool" where
  "sponsor_lives s t \<longleftrightarrow>
     Status t = TenantRetired \<or>
     (case row_of o_id (OrganizationID t) (organizations s) of None \<Rightarrow> False | Some org \<Rightarrow> o_status org \<noteq> OrgRetired)"

definition sponsored :: "store \<Rightarrow> bool" where
  "sponsored s \<longleftrightarrow> keyed o_id (organizations s) \<and> list_all (sponsor_lives s) (tenants s)"

lemma sponsor_lives_tables: "organizations s' = organizations s \<Longrightarrow> sponsor_lives s' = sponsor_lives s"
  by (simp add: sponsor_lives_def fun_eq_iff)

lemma sponsored_kept:
  "organizations s' = organizations s \<and> tenants s' = tenants s \<Longrightarrow> preserved sponsored s s'"
  using sponsor_lives_tables[of s' s] by (simp add: preserved_def sponsored_def)

lemma sponsored_put:
  assumes "row_of TenantID (TenantID t) (tenants s) = Some t" "tenant_Resolve a (Status t) = Inr to"
    "OrganizationID t' = OrganizationID t" "organizations s' = organizations s"
    "tenants s' = put_row TenantID t' (tenants s)"
  shows "preserved sponsored s s'"
  unfolding preserved_def
proof (rule impI)
  assume wf: "sponsored s"
  have "Status t \<noteq> TenantRetired" using assms(2) by (cases a) (auto simp: tenant_Resolve_def)
  moreover have "sponsor_lives s t"
    using row_of_SomeD[OF assms(1)] wf by (auto simp: sponsored_def list_all_iff)
  ultimately have "sponsor_lives s t'" using assms(3) by (simp add: sponsor_lives_def)
  then show "sponsored s'"
    using wf assms(4,5) by (auto simp: sponsored_def list_all_iff set_put_row sponsor_lives_tables[OF assms(4)])
qed

lemma sponsored_moved:
  assumes "movable a t s" "organizations s' = organizations s" "tenants s' = tenants (moved a at t s)"
  shows "preserved sponsored s s'"
proof -
  obtain rule where "row_of TenantID (TenantID t) (tenants s) = Some t" "tenant_transitions a = Some rule"
    "tenant_Resolve a (Status t) = Inr (r_to rule)" using assms(1) by (auto simp: movable_def)
  then show ?thesis using assms(2,3) by (intro sponsored_put[of t s a "r_to rule"]) (simp_all add: moved_def)
qed

lemma sponsored_org_step:
  assumes "org_stepped a r r' s"
  shows "preserved sponsored s (s\<lparr>organizations := put_row o_id r' (organizations s)\<rparr>)"
  unfolding preserved_def
proof (rule impI)
  assume wf: "sponsored s"
  let ?s = "s\<lparr>organizations := put_row o_id r' (organizations s)\<rparr>"
  have r: "row_of o_id (o_id r) (organizations s) = Some r" "org_Resolve a (o_status r) = Inr (o_status r')"
    using assms by (simp_all add: org_stepped_def)
  have k: "o_id r' = o_id r"
    using assms unfolding org_stepped_def by (cases r; cases r') simp
  have "sponsor_lives ?s t" if t: "t \<in> set (tenants s)" for t
  proof (cases "OrganizationID t = o_id r \<and> Status t \<noteq> TenantRetired")
    case True
    then have "a \<noteq> OrgRetire" using assms t by (auto simp: org_stepped_def live_sponsored_def)
    then have "o_status r' \<noteq> OrgRetired" using r(2) by (cases a) (auto simp: org_Resolve_def split: if_splits)
    then show ?thesis using True r k by (simp add: sponsor_lives_def row_of_put_row)
  next
    case False
    then show ?thesis using wf t r k by (auto simp: sponsored_def list_all_iff sponsor_lives_def row_of_put_row split: option.splits)
  qed
  then show "sponsored ?s" using wf by (simp add: sponsored_def list_all_iff)
qed

lemma sponsored_org_insert:
  assumes "row_of o_id (o_id r) (organizations s) = None"
  shows "preserved sponsored s (s\<lparr>organizations := organizations s @ [r]\<rparr>)"
  using assms by (auto simp: preserved_def sponsored_def list_all_iff sponsor_lives_def row_of_append split: option.splits)

interpretation sponsorship: system_relation "preserved sponsored"
proof unfold_locales
  fix r :: tenant_record and org :: organization and s :: store
  assume "row_of o_id (OrganizationID r) (organizations s) = Some org" "o_status org \<noteq> OrgRetired"
  then have "sponsor_lives s r" by (simp add: sponsor_lives_def)
  then show "preserved sponsored s (s\<lparr>tenants := tenants s @ [r]\<rparr>)"
    using sponsor_lives_tables[of "s\<lparr>tenants := tenants s @ [r]\<rparr>" s] by (simp add: preserved_def sponsored_def)
next
  fix a and r :: tenant_record and rule :: tenant_rule and at and s :: store
  assume "row_of TenantID (TenantID r) (tenants s) = Some r" "tenant_Resolve a (Status r) = Inr (r_to rule)"
  then show "preserved sponsored s (s\<lparr>tenants := put_row TenantID (rule_effect rule at r) (tenants s)\<rparr>)"
    by (rule sponsored_put) simp_all
qed (rule preserved.step_refl | erule (1) preserved.step_trans | erule sponsored_org_step
    | erule sponsored_moved, simp_all add: moved_tables opened_def staged_def called_off_def moved_def; fail
    | rule sponsored_org_insert, simp add: fresh_organization_def | rule sponsored_kept, simp | assumption)+

section \<open>The registries only move forward\<close>

definition organization_advanced :: "organization \<Rightarrow> organization \<Rightarrow> bool" where
  "organization_advanced r r' \<longleftrightarrow>
     r' = r\<lparr>o_status := o_status r', o_version := o_version r'\<rparr> \<and> o_version r \<le> o_version r' \<and>
     (o_version r' = o_version r \<longrightarrow> r' = r) \<and> (o_status r = OrgRetired \<longrightarrow> r' = r)"

definition workspace_advanced :: "workspace \<Rightarrow> workspace \<Rightarrow> bool" where
  "workspace_advanced r r' \<longleftrightarrow>
     r' = r\<lparr>ws_status := ws_status r', ws_version := ws_version r'\<rparr> \<and> ws_version r \<le> ws_version r' \<and>
     (ws_version r' = ws_version r \<longrightarrow> r' = r) \<and> (ws_status r = WsRetired \<longrightarrow> r' = r)"

definition registries_advanced :: "store \<Rightarrow> store \<Rightarrow> bool" where
  "registries_advanced s s' \<longleftrightarrow>
     (\<forall>k r. row_of o_id k (organizations s) = Some r \<longrightarrow>
        (\<exists>r'. row_of o_id k (organizations s') = Some r' \<and> organization_advanced r r')) \<and>
     (\<forall>k r. row_of ws_id k (workspaces s) = Some r \<longrightarrow>
        (\<exists>r'. row_of ws_id k (workspaces s') = Some r' \<and> workspace_advanced r r'))"

lemma registry_refl: "organization_advanced r r" "workspace_advanced q q"
  by (simp_all add: organization_advanced_def workspace_advanced_def)

lemma organization_advanced_trans:
  "organization_advanced r r' \<Longrightarrow> organization_advanced r' r'' \<Longrightarrow> organization_advanced r r''"
  unfolding organization_advanced_def by (cases r; cases r'; cases r'') auto

lemma workspace_advanced_trans:
  "workspace_advanced r r' \<Longrightarrow> workspace_advanced r' r'' \<Longrightarrow> workspace_advanced r r''"
  unfolding workspace_advanced_def by (cases r; cases r'; cases r'') auto

lemma registries_advanced_same:
  "organizations s' = organizations s \<and> workspaces s' = workspaces s \<Longrightarrow> registries_advanced s s'"
  by (simp add: registries_advanced_def registry_refl)

lemma registries_advanced_trans:
  "registries_advanced s t \<Longrightarrow> registries_advanced t u \<Longrightarrow> registries_advanced s u"
  unfolding registries_advanced_def by (meson organization_advanced_trans workspace_advanced_trans)

lemma org_stepped_advanced: "org_stepped a r r' s \<Longrightarrow> o_id r' = o_id r \<and> organization_advanced r r'"
  unfolding org_stepped_def organization_advanced_def
  by (cases a; cases r; cases r') (auto simp: org_Resolve_def split: if_splits)

lemma ws_stepped_advanced: "ws_stepped b a r r' s \<Longrightarrow> ws_id r' = ws_id r \<and> workspace_advanced r r'"
  unfolding ws_stepped_def workspace_advanced_def
  by (cases a; cases r; cases r') (auto simp: ws_Resolve_def split: if_splits)

interpretation registry_progress: system_relation registries_advanced
proof unfold_locales
  fix a r r' and s :: store
  assume st: "org_stepped a r r' s"
  have "row_of o_id (o_id r') (organizations s) = Some r" "organization_advanced r r'"
    using st org_stepped_advanced[OF st] by (auto simp: org_stepped_def)
  then show "registries_advanced s (s\<lparr>organizations := put_row o_id r' (organizations s)\<rparr>)"
    by (auto simp: registries_advanced_def row_of_put_row registry_refl)
next
  fix b a r r' and s :: store
  assume st: "ws_stepped b a r r' s"
  have "row_of ws_id (ws_id r') (workspaces s) = Some r" "workspace_advanced r r'"
    using st ws_stepped_advanced[OF st] by (auto simp: ws_stepped_def)
  then show "registries_advanced s (s\<lparr>workspaces := put_row ws_id r' (workspaces s)\<rparr>)"
    by (auto simp: registries_advanced_def row_of_put_row registry_refl)
next
  fix r :: organization and s :: store
  show "registries_advanced s (s\<lparr>organizations := organizations s @ [r]\<rparr>)"
    by (auto simp: registries_advanced_def row_of_append registry_refl)
next
  fix r :: workspace and s :: store
  show "registries_advanced s (s\<lparr>workspaces := workspaces s @ [r]\<rparr>)"
    by (auto simp: registries_advanced_def row_of_append registry_refl)
qed (erule (1) registries_advanced_trans
    | rule registries_advanced_same, simp add: opened_def staged_def called_off_def moved_def | assumption)+

section \<open>The other invariants, under every service\<close>

lemmas untouched_tables = opened_def staged_def called_off_def moved_def

interpretation system_stamps: system_relation "preserved tenants_wf"
proof unfold_locales
qed (assumption | rule tenants_wf_kept, simp)+

interpretation system_tenants: system_relation tenants_advanced
proof unfold_locales
qed (assumption | rule tenants_advanced_same, simp)+

interpretation system_membership_stamps: system_relation "preserved memberships_wf"
proof unfold_locales
qed (assumption | rule memberships_wf_kept, simp)+

interpretation system_memberships: system_relation memberships_advanced
proof unfold_locales
qed (assumption | rule memberships_advanced_same, simp)+

interpretation system_coordination: system_relation "preserved coordinated"
proof unfold_locales
qed (assumption | rule coordinated_kept, simp)+

interpretation system_freezes: system_relation "preserved freezes_wf"
proof unfold_locales
qed (assumption | rule freezes_wf_kept, simp)+

interpretation system_processes: system_relation process_advanced
proof unfold_locales
qed (assumption | rule process_advanced_same, simp, simp)+

interpretation system_invitations: system_relation invitations_advanced
proof unfold_locales
qed (assumption | rule invitations_advanced_same, simp add: untouched_tables)+

interpretation system_batches: system_relation batches_advanced
proof unfold_locales
qed (assumption | rule batches_advanced_same, simp add: untouched_tables)+

text \<open>The batch tables: the check on the action, and one item per position.\<close>

definition batches_ok :: "store \<Rightarrow> bool" where
  "batches_ok s \<longleftrightarrow> list_all batch_action_check (batches s) \<and> keyed item_key (batch_items s)"

lemma batches_ok_kept: "batches s' = batches s \<and> batch_items s' = batch_items s \<Longrightarrow> preserved batches_ok s s'"
  by (simp add: preserved_def batches_ok_def)

lemma batches_ok_change:
  assumes "batch_step r f"
  shows "preserved batches_ok s (s\<lparr>batches := change_row ba_id k f (batches s)\<rparr>)"
proof -
  have "batch_action_check (f x) = batch_action_check x" for x
    using assms by (auto simp: batch_step_def batch_updates batch_action_check_def)
  then show ?thesis by (auto simp: preserved_def batches_ok_def list_all_iff set_change_row)
qed

lemma batches_ok_settle: "preserved batches_ok s (s\<lparr>batch_items := settled P outcome (batch_items s)\<rparr>)"
proof -
  have "map item_key (settled P outcome items) = map item_key items" for items
    by (induction items) (auto simp: settled_def item_key_def)
  then show ?thesis by (simp add: preserved_def batches_ok_def keyed_def)
qed

lemma batches_ok_insert:
  assumes "\<not> item_clash i (batch_items s)"
  shows "preserved batches_ok s (s\<lparr>batch_items := batch_items s @ [i]\<rparr>)"
  using assms by (auto simp: preserved_def batches_ok_def item_clash_def list_ex_iff row_of_None_iff item_key_def)

interpretation batch_actions: system_relation "preserved batches_ok"
proof unfold_locales
qed (rule preserved.step_refl batches_ok_settle | erule (1) preserved.step_trans | erule batches_ok_change batches_ok_insert
    | simp add: preserved_def batches_ok_def; fail | rule batches_ok_kept, simp add: untouched_tables | assumption)+

section \<open>The caller records\<close>

definition on_records :: "(caller_records \<Rightarrow> caller_records \<Rightarrow> bool) \<Rightarrow> store \<Rightarrow> store \<Rightarrow> bool" where
  "on_records Q s s' \<longleftrightarrow> Q (callers s) (callers s')"

lemma records_kept: "(\<And>c. Q c c) \<Longrightarrow> callers s' = callers s \<Longrightarrow> on_records Q s s'"
  by (simp add: on_records_def)

lemma on_records_trans:
  "(\<And>c d e. Q c d \<Longrightarrow> Q d e \<Longrightarrow> Q c e) \<Longrightarrow> on_records Q s t \<Longrightarrow> on_records Q t u \<Longrightarrow> on_records Q s u"
  unfolding on_records_def by blast

interpretation system_callers: system_relation "on_records callers_advanced"
proof unfold_locales
  show "on_records callers_advanced s u" if "on_records callers_advanced s t" "on_records callers_advanced t u" for s t u
    using callers_advanced_trans that by (rule on_records_trans)
  show "on_records callers_advanced s (s\<lparr>callers := c'\<rparr>)" if "caller_step (callers s) c'" for s c'
    using that by (simp add: on_records_def caller_step_advanced)
qed (rule records_kept, rule callers_advanced_refl, simp add: untouched_tables; fail | assumption)+

interpretation system_records: system_relation "on_records (preserved callers_wf)"
proof unfold_locales
  show "on_records (preserved callers_wf) s u"
    if "on_records (preserved callers_wf) s t" "on_records (preserved callers_wf) t u" for s t u
    using preserved.step_trans that by (rule on_records_trans)
  show "on_records (preserved callers_wf) s (s\<lparr>callers := c'\<rparr>)" if "caller_step (callers s) c'" for s c'
    using that caller_step_wf by (simp add: on_records_def preserved_def)
qed (rule records_kept, rule preserved.step_refl, simp add: untouched_tables; fail | assumption)+

interpretation system_authority: system_relation "on_records (preserved (\<lambda>c. grants_wf c \<and> governed c))"
proof unfold_locales
  show "on_records (preserved (\<lambda>c. grants_wf c \<and> governed c)) s u"
    if "on_records (preserved (\<lambda>c. grants_wf c \<and> governed c)) s t" "on_records (preserved (\<lambda>c. grants_wf c \<and> governed c)) t u" for s t u
    using preserved.step_trans that by (rule on_records_trans)
  show "on_records (preserved (\<lambda>c. grants_wf c \<and> governed c)) s (s\<lparr>callers := c'\<rparr>)" if "caller_step (callers s) c'" for s c'
    using that caller_step_governed caller_step_grants by (simp add: on_records_def preserved_def)
qed (rule records_kept, rule preserved.step_refl, simp add: untouched_tables; fail | assumption)+

end
