(* ===== verification/Invitation_Acceptance.thy ===== *)
theory Invitation_Acceptance
  imports Invitation_Relations
begin

text \<open>
  Acceptance in full: what a taken token does to the store, that it is taken at most once, and that every
  token which cannot be taken is refused with one error.
\<close>

section \<open>Acceptance\<close>

definition invitation_message :: "string \<Rightarrow> invitation \<Rightarrow> instant \<Rightarrow> uuid \<Rightarrow> message" where
  "invitation_message etype i at eventID =
     \<lparr>msg_id = eventID, msg_aggregate = iv_id i, msg_type = etype, msg_at = at,
      msg_payload = InvitationPayload (invitation_NewPayload i), msg_priority = False\<rparr>"

lemma publishAction_run:
  assumes "publishAction env a i at w = (Inr u, w')"
  obtains etype e where "invitation_eventTypes a = Some etype"
    "store w' = (store w)\<lparr>outbox := outbox (store w) @ [invitation_message etype i at e]\<rparr>"
  using assms
  by (auto simp: publishAction_def invitation_publish_def invitation_EventType_def run_simps Let_def
      invitation_message_def split: option.splits if_splits)

lemma WithSelfInTenant_enters:
  assumes "WithSelfInTenant env cx tenantID fn w = (Inr x, w')"
  obtains scope acting cx1 w1 where "cx_scope cx = Some scope" "sc_self scope"
    "acting = zero_scope\<lparr>sc_tenant := tenantID, sc_actor := sc_actor scope, sc_correlation := sc_correlation scope\<rparr>"
    "marked (cx\<lparr>cx_scope := Some acting\<rparr>) cx1" "entered [] w w1" "fn (BoundTenant tenantID None) cx1 w1 = (Inr x, w')"
proof -
  from assms obtain scope where s: "cx_scope cx = Some scope" "sc_self scope"
    by (auto simp: WithSelfInTenant_def run_simps Let_def)
  define acting where "acting = zero_scope\<lparr>sc_tenant := tenantID, sc_actor := sc_actor scope, sc_correlation := sc_correlation scope\<rparr>"
  from assms s obtain cx1 w1 where
    c: "claimWithin env (cx\<lparr>cx_scope := Some acting\<rparr>) (w\<lparr>ticks := Suc (ticks w)\<rparr>) = (Inr cx1, w1)"
    and f: "fn (bindTenant acting) cx1 w1 = (Inr x, w')"
    by (auto simp: WithSelfInTenant_def run_simps Let_def acting_def[symmetric])
  have "entered [] w w1"
    using claimWithin_run(1)[OF c] by (simp add: entered_def bookkept_def with_audit_def data_def)
  moreover have "bindTenant acting = BoundTenant tenantID None"
    by (simp add: acting_def bindTenant_def zero_scope_def)
  ultimately show thesis using that s acting_def f claimWithin_run(2)[OF c] by simp
qed

definition acceptance :: "env \<Rightarrow> uuid \<Rightarrow> instant \<Rightarrow> invitation \<Rightarrow> grant_request" where
  "acceptance env caller at i =
     \<lparr>gr_principal = caller, gr_tenant = iv_tenant i, gr_workspace = derefUUID (iv_workspace i),
      gr_subject = iv_subject i, gr_provenance = ''invitation '' @ uuid_text env (iv_id i),
      gr_validFrom = at, gr_validUntil = 0\<rparr>"

lemma accept_body_steps:
  assumes "accept_body env row hash caller at b cx w = (Inr (record, result), w')"
  obtains i t w2 w3 where
    "selectByTokenHash b hash (store w) = Some i" "iv_tenant i = rd_tenant row" "iv_state i = InvitationPending"
    "\<not> invitation_Expired at i" "iv_target i = rd_target row"
    "tenant_row b (iv_tenant i) (store w) = Some t" "Status t = TenantActive" "record = acceptStatement caller at i"
    "GrantWithin env b cx (acceptance env caller at i)
      (w\<lparr>store := (store w)\<lparr>invitations := change_row iv_id (iv_id i) (acceptStatement caller at) (invitations (store w))\<rparr>\<rparr>) = (Inr result, w2)"
    "publishAction env InvitationAccept record at w2 = (Inr (), w3)"
    "Respond env cx (ResAcceptance record result) w3 = (Inr (), w')"
proof -
  have same: "\<lparr>gr_principal = caller, gr_tenant = iv_tenant (acceptStatement caller at i),
        gr_workspace = derefUUID (iv_workspace (acceptStatement caller at i)),
        gr_subject = iv_subject (acceptStatement caller at i),
        gr_provenance = ''invitation '' @ uuid_text env (iv_id (acceptStatement caller at i)),
        gr_validFrom = at, gr_validUntil = 0\<rparr> = acceptance env caller at i" for i
    by (simp add: acceptance_def acceptStatement_def)
  show thesis
    using assms unfolding accept_body_def Let_def same
    by (auto simp: seq_run(1) accept_checks_run write_db_run hook_run return_run intro: that)
qed

text \<open>The store after an acceptance: the invitation settled, one Membership added, two messages appended.\<close>

definition taken ::
  "env \<Rightarrow> uuid \<Rightarrow> instant \<Rightarrow> scope \<Rightarrow> int \<Rightarrow> membership_result \<Rightarrow> uuid \<Rightarrow> invitation \<Rightarrow> store \<Rightarrow> store" where
  "taken env caller at scope sv result e i s =
     (let written = membership_written MembershipGrant scope sv (mr_acceptedAt result) [] (mr_membership result) (mr_event result)
            (s\<lparr>invitations := change_row iv_id (iv_id i) (acceptStatement caller at) (invitations s),
               memberships := memberships s @ [mr_membership result]\<rparr>)
      in written\<lparr>outbox := outbox written @
           [invitation_message (the (invitation_eventTypes InvitationAccept)) (acceptStatement caller at i) at e]\<rparr>)"

lemma accept_body_run:
  assumes "accept_body env row hash caller at (BoundTenant tenantID None) cx w = (Inr (record, result), w')"
    and scope: "cx_scope cx = Some scope" "sc_tenant scope = tenantID"
  obtains i t e where "i \<in> set (invitations (store w))" "iv_tokenHash i = hash"
    "iv_tenant i = tenantID" "iv_state i = InvitationPending" "at < iv_expiresAt i" "iv_target i = rd_target row"
    "row_of TenantID tenantID (tenants (store w)) = Some t" "Status t = TenantActive"
    "record = acceptStatement caller at i"
    "mr_membership result = granted (acceptance env caller at i) scope (m_id (mr_membership result))"
    "insertable (mr_membership result) (store w)"
    "data w' = taken env caller at scope (SecurityVersion t) result e i (data w)"
proof -
  obtain i t w2 w3 where
    i: "selectByTokenHash (BoundTenant tenantID None) hash (store w) = Some i" "iv_state i = InvitationPending"
      "\<not> invitation_Expired at i" "iv_target i = rd_target row"
    and t: "tenant_row (BoundTenant tenantID None) (iv_tenant i) (store w) = Some t" "Status t = TenantActive"
    and rec: "record = acceptStatement caller at i"
    and g: "GrantWithin env (BoundTenant tenantID None) cx (acceptance env caller at i)
      (w\<lparr>store := (store w)\<lparr>invitations := change_row iv_id (iv_id i) (acceptStatement caller at) (invitations (store w))\<rparr>\<rparr>) = (Inr result, w2)"
    and p: "publishAction env InvitationAccept record at w2 = (Inr (), w3)"
    and rs: "Respond env cx (ResAcceptance record result) w3 = (Inr (), w')"
    using assms(1) by (rule accept_body_steps)
  have mem: "i \<in> set (invitations (store w))" "iv_tokenHash i = hash" and ten: "iv_tenant i = tenantID"
    using i(1) by (auto simp: selectByTokenHash_def find_Some_iff)
  have row: "row_of TenantID tenantID (tenants (store w)) = Some t" using tenant_row_SomeD[OF t(1)] ten by simp
  obtain k t' scope' where
    sc: "cx_scope cx = Some scope'" and m: "mr_membership result = granted (acceptance env caller at i) scope' k"
    and ins: "row_of m_id k (memberships (store w)) = None" "references (granted (acceptance env caller at i) scope' k) (store w)"
      "\<not> active_clash (granted (acceptance env caller at i) scope' k) (memberships (store w))"
    and t': "row_of TenantID (sc_tenant scope') (tenants (store w)) = Some t'"
    and w2: "store w2 = membership_written MembershipGrant scope' (SecurityVersion t') (mr_acceptedAt result) []
       (granted (acceptance env caller at i) scope' k) (mr_event result)
       ((store w)\<lparr>invitations := change_row iv_id (iv_id i) (acceptStatement caller at) (invitations (store w)),
         memberships := memberships (store w) @ [granted (acceptance env caller at i) scope' k]\<rparr>)"
    using g by (rule GrantWithin_effect) (auto simp: references_def)
  have eq: "scope' = scope" "t' = t" using sc scope t' row by auto
  obtain etype e where et: "invitation_eventTypes InvitationAccept = Some etype"
    and w3: "store w3 = (store w2)\<lparr>outbox := outbox (store w2) @ [invitation_message etype record at e]\<rparr>"
    using p by (rule publishAction_run)
  have mm: "mr_membership result = granted (acceptance env caller at i) scope (m_id (mr_membership result))"
    using m eq by (simp add: granted_def)
  have insb: "insertable (mr_membership result) (store w)"
    using ins m eq by (auto simp: insertable_def granted_def)
  have "data w' = taken env caller at scope (SecurityVersion t) result e i (data w)"
    using Respond_run[OF rs] w3 w2 m eq rec et by (simp add: bookkept_def data_def taken_def membership_written_def Let_def)
  moreover have "at < iv_expiresAt i" using i(3) by (simp add: invitation_Expired_def)
  ultimately show thesis
    using that[OF mem ten i(2) _ i(4) row t(2) rec mm insb] by blast
qed

section \<open>Taking a token\<close>

definition acting_in :: "uuid \<Rightarrow> scope \<Rightarrow> scope" where
  "acting_in tenantID scope =
     zero_scope\<lparr>sc_tenant := tenantID, sc_actor := sc_actor scope, sc_correlation := sc_correlation scope\<rparr>"

lemma Accept_steps:
  assumes "Accept env cx token w = (Inr x, w')"
  obtains scope row Match w1 where "WellFormed token" "cx_scope cx = Some scope" "sc_self scope"
    "matcher env = Some Match" "Match (sc_actor scope) (rd_target row) = Some True" "data w1 = data w"
    "WithSelfInTenant env cx (rd_tenant row)
       (accept_body env row (token_Hash env token) (sc_actor scope) (clock env (ticks w))) w1 = (Inr x, w')"
proof -
  obtain scope row Match where a: "WellFormed token" "cx_scope cx = Some scope" "sc_self scope"
    "matcher env = Some Match" "Match (sc_actor scope) (rd_target row) = Some True"
    and run: "WithSelfInTenant env cx (rd_tenant row)
       (accept_body env row (token_Hash env token) (sc_actor scope) (clock env (ticks w)))
       (w\<lparr>ticks := Suc (Suc (ticks w))\<rparr>) = (Inr x, w')"
    using assms unfolding Accept_def WithSelfInvitation_def Let_def
    by (auto simp: seq_run(1) ensure_run ScopeFrom_run now_run InTx_run read_only_run read_db_run required_run)
  show thesis by (rule that[OF a _ run]) (simp add: data_def)
qed

lemma Accept_taken:
  assumes "Accept env cx token w = (Inr (record, result), w')"
  shows "\<exists>scope i t e Match. cx_scope cx = Some scope \<and> sc_self scope \<and> WellFormed token \<and>
    i \<in> set (invitations (store w)) \<and> iv_tokenHash i = token_Hash env token \<and> iv_state i = InvitationPending \<and>
    clock env (ticks w) < iv_expiresAt i \<and>
    matcher env = Some Match \<and> Match (sc_actor scope) (iv_target i) = Some True \<and>
    row_of TenantID (iv_tenant i) (tenants (store w)) = Some t \<and> Status t = TenantActive \<and>
    record = acceptStatement (sc_actor scope) (clock env (ticks w)) i \<and>
    mr_membership result = granted (acceptance env (sc_actor scope) (clock env (ticks w)) i)
      (acting_in (iv_tenant i) scope) (m_id (mr_membership result)) \<and>
    insertable (mr_membership result) (store w) \<and>
    data w' = taken env (sc_actor scope) (clock env (ticks w)) (acting_in (iv_tenant i) scope)
      (SecurityVersion t) result e i (data w)"
proof -
  obtain scope row Match w1 where a: "WellFormed token" "cx_scope cx = Some scope" "sc_self scope"
    "matcher env = Some Match" "Match (sc_actor scope) (rd_target row) = Some True" and w1: "data w1 = data w"
    and run: "WithSelfInTenant env cx (rd_tenant row)
       (accept_body env row (token_Hash env token) (sc_actor scope) (clock env (ticks w))) w1 = (Inr (record, result), w')"
    using assms by (rule Accept_steps)
  obtain scope' acting cx1 w2 where sc: "cx_scope cx = Some scope'"
    and acting: "acting = zero_scope\<lparr>sc_tenant := rd_tenant row, sc_actor := sc_actor scope', sc_correlation := sc_correlation scope'\<rparr>"
    and cx1: "marked (cx\<lparr>cx_scope := Some acting\<rparr>) cx1" and w2: "entered [] w1 w2"
    and body: "accept_body env row (token_Hash env token) (sc_actor scope) (clock env (ticks w))
      (BoundTenant (rd_tenant row) None) cx1 w2 = (Inr (record, result), w')"
    using run by (rule WithSelfInTenant_enters)
  have act: "acting = acting_in (rd_tenant row) scope" using sc a(2) acting by (simp add: acting_in_def)
  have cs: "cx_scope cx1 = Some acting" using marked_fields[OF cx1] by simp
  have st: "sc_tenant acting = rd_tenant row" by (simp add: act acting_in_def)
  have d: "data w2 = data w" using w1 w2 by (simp add: entered_def with_audit_def)
  obtain i t e where i: "i \<in> set (invitations (store w2))" "iv_tokenHash i = token_Hash env token"
    "iv_tenant i = rd_tenant row" "iv_state i = InvitationPending" "clock env (ticks w) < iv_expiresAt i" "iv_target i = rd_target row"
    and t: "row_of TenantID (rd_tenant row) (tenants (store w2)) = Some t" "Status t = TenantActive"
    and rec: "record = acceptStatement (sc_actor scope) (clock env (ticks w)) i"
    and m: "mr_membership result = granted (acceptance env (sc_actor scope) (clock env (ticks w)) i) acting (m_id (mr_membership result))"
    and ins: "insertable (mr_membership result) (store w2)"
    and out: "data w' = taken env (sc_actor scope) (clock env (ticks w)) acting (SecurityVersion t) result e i (data w2)"
    using body cs st by (rule accept_body_run)
  have ins': "insertable (mr_membership result) (store w)"
    using ins data_fields[OF d] by (simp add: insertable_def references_def)
  show ?thesis
    using a i t rec m ins' out act unfolding data_fields[OF d] d
    by (intro exI[of _ scope] exI[of _ i] exI[of _ t] exI[of _ e] exI[of _ Match]) auto
qed

text \<open>
  (C32) A person takes an invitation only with the token of a pending invitation that has not
  expired, whose address identity confirms is theirs, into an active Tenant. Then the invitation is
  accepted in their name, one active Membership of theirs in that invitation's Tenant and Workspace is
  added that no row of the table forbids, and the grant and the acceptance are announced; nothing else of
  the store changes.
\<close>

theorem Accept_effect:
  assumes "Accept env cx token w = (Inr (record, result), w')"
  shows "\<exists>scope i t e Match. cx_scope cx = Some scope \<and> sc_self scope \<and> WellFormed token \<and>
    i \<in> set (invitations (store w)) \<and> iv_tokenHash i = token_Hash env token \<and> iv_state i = InvitationPending \<and>
    clock env (ticks w) < iv_expiresAt i \<and>
    matcher env = Some Match \<and> Match (sc_actor scope) (iv_target i) = Some True \<and>
    row_of TenantID (iv_tenant i) (tenants (store w)) = Some t \<and> Status t = TenantActive \<and>
    record = acceptStatement (sc_actor scope) (clock env (ticks w)) i \<and>
    mr_membership result = granted (acceptance env (sc_actor scope) (clock env (ticks w)) i)
      (acting_in (iv_tenant i) scope) (m_id (mr_membership result)) \<and>
    insertable (mr_membership result) (store w) \<and>
    data w' = taken env (sc_actor scope) (clock env (ticks w)) (acting_in (iv_tenant i) scope)
      (SecurityVersion t) result e i (data w)"
  using assms by (rule Accept_taken)

text \<open>
  (C37) One refusal for every token that cannot be taken: unknown, spent, revoked, lapsed, or of an
  address that is not the caller's, the answer is the same error and nothing is written.
\<close>

theorem Accept_uniform_refusal:
  assumes "cx_scope cx = Some scope" "sc_self scope" "WellFormed token" "token_Hash env token \<noteq> []"
    "commits env (Suc (ticks w))" "matcher env = Some Match" "\<forall>target. Match (sc_actor scope) target \<noteq> None"
    "\<not> (\<exists>i \<in> set (invitations (store w)). iv_tokenHash i = token_Hash env token \<and> iv_state i = InvitationPending \<and>
          clock env (ticks w) < iv_expiresAt i \<and> Match (sc_actor scope) (iv_target i) = Some True)"
  shows "Accept env cx token w = (Inl ErrNotAcceptable, w\<lparr>ticks := Suc (Suc (ticks w))\<rparr>)"
proof -
  let ?h = "token_Hash env token" and ?w = "w\<lparr>ticks := Suc (Suc (ticks w))\<rparr>"
  let ?found = "selectRedeemable (BoundInvitation ?h) ?h (store w)"
  have found: "WithSelfInvitation env cx ?h (\<lambda>b cx. read_db (selectRedeemable b ?h)) (w\<lparr>ticks := Suc (ticks w)\<rparr>) = (Inr ?found, ?w)"
    using assms by (auto simp: WithSelfInvitation_def run_simps)
  show ?thesis
  proof (cases "find (\<lambda>i. ?h = iv_tokenHash i) (invitations (store w))")
    case None
    have none: "?found = None" using None by (simp add: selectRedeemable_def conj_commute cong: conj_cong)
    show ?thesis
      using assms(1-3) found[unfolded none] by (auto simp: Accept_def run_simps Let_def)
  next
    case (Some i)
    define row where "row = \<lparr>rd_tenant = iv_tenant i, rd_target = iv_target i, rd_subject = iv_subject i,
      rd_state = iv_state i, rd_expiresAt = iv_expiresAt i\<rparr>"
    have row: "?found = Some row" using Some by (simp add: selectRedeemable_def row_def conj_commute cong: conj_cong)
    obtain yes where yes: "Match (sc_actor scope) (iv_target i) = Some yes" using assms(7) by fastforce
    have "i \<in> set (invitations (store w))" "iv_tokenHash i = ?h" using Some by (auto simp: find_Some_iff)
    then have "iv_state i \<noteq> InvitationPending \<or> \<not> clock env (ticks w) < iv_expiresAt i \<or> \<not> yes"
      using assms(8) yes by auto
    then show ?thesis
      using assms(1-3,6) found[unfolded row] yes by (auto simp: Accept_def run_simps Let_def row_def)
  qed
qed

end
