(* ===== verification/Projection_Registry.thy ===== *)
theory Projection_Registry
  imports Active_Context "HOL-Library.List_Lexorder" "HOL-Library.Char_ord"
begin

text \<open>
  The projection, \<open>src/internal/projection\<close>: the registry of its consumers with their subscriptions and
  progress (\<open>consumer.go\<close>), the snapshots of Memberships and of provider grants a consumer starts from
  (\<open>snapshot.go\<close>, \<open>provider_snapshot.go\<close>), a consumer's own access to them (\<open>consumer_access.go\<close>) and the
  comparison of its report with authority (\<open>reconcile.go\<close>).

  A position of the stream is the sequence the platform gave an outbox row, \<open>sequence_at\<close> of its index.
  Subscribing, unsubscribing and abandoning are the platform's, parameters that answer the table they write
  or fail.
\<close>

section \<open>Consumers\<close>

definition stale_Valid :: "stale_behavior \<Rightarrow> bool" where
  "stale_Valid b \<longleftrightarrow> b = StaleUseWithMarker \<or> b = StaleRevalidate \<or> b = StaleFailClosed"

definition ReconciledEventType :: string where
  "ReconciledEventType = ''com.scnehaux.organization.projection.repair.reconciled''"

definition organizationSnapshotTypes :: "string list" where
  "organizationSnapshotTypes =
     [''com.scnehaux.organization.membership.lifecycle.granted'',
      ''com.scnehaux.organization.membership.lifecycle.restored'',
      ''com.scnehaux.organization.membership.security.suspended'',
      ''com.scnehaux.organization.membership.security.revoked'',
      ''com.scnehaux.organization.tenant.lifecycle.activated'',
      ''com.scnehaux.organization.tenant.security.suspended'',
      ''com.scnehaux.organization.tenant.security.restored'',
      ''com.scnehaux.organization.tenant.lifecycle.retired'']"

definition ProviderEventTypes :: "string list" where
  "ProviderEventTypes =
     [''com.scnehaux.organization.provider.lifecycle.granted'',
      ''com.scnehaux.organization.provider.lifecycle.activated'',
      ''com.scnehaux.organization.provider.security.ended'',
      ''com.scnehaux.organization.provider.security.revoked'']"

definition AuthorityEventTypes :: "string list" where
  "AuthorityEventTypes = organizationSnapshotTypes @ ProviderEventTypes"

definition SubscribableEventTypes :: "string list" where
  "SubscribableEventTypes = AuthorityEventTypes @ [ReconciledEventType]"

definition MinReconciliationInterval :: int where "MinReconciliationInterval = 60 * Second"
definition MaxReconciliationInterval :: int where "MaxReconciliationInterval = 7 * 24 * 60 * 60 * Second"
definition DefaultReconciliationInterval :: int where "DefaultReconciliationInterval = 24 * 60 * 60 * Second"

record registration =
  cg_consumer :: string
  cg_principal :: uuid
  cg_projectionVersion :: string
  cg_maxAcceptedAge :: int
  cg_staleBehavior :: stale_behavior
  cg_eventTypes :: "string list"
  cg_interval :: int

definition registration_interval :: "registration \<Rightarrow> int" where
  "registration_interval r = (if cg_interval r = 0 then DefaultReconciliationInterval else cg_interval r)"

text \<open>The types trimmed, each once and in byte order; the first unknown one refuses.\<close>

definition registration_subscription :: "registration \<Rightarrow> error + string list" where
  "registration_subscription r =
     (if cg_eventTypes r = [] then Inl (ErrInvalid PkgProjection)
      else let types = map TrimSpace (cg_eventTypes r) in
        if list_ex (\<lambda>t. t \<notin> set SubscribableEventTypes) types then Inl (ErrInvalid PkgProjection)
        else Inr (sort (remdups types)))"

definition registration_validate :: "registration \<Rightarrow> error + unit" where
  "registration_validate r =
     (if blank (cg_consumer r) then Inl (ErrInvalid PkgProjection)
      else if IsNil (cg_principal r) then Inl (ErrInvalid PkgProjection)
      else if blank (cg_projectionVersion r) then Inl (ErrInvalid PkgProjection)
      else if cg_maxAcceptedAge r \<le> 0 then Inl (ErrInvalid PkgProjection)
      else if \<not> stale_Valid (cg_staleBehavior r) then Inl (ErrInvalid PkgProjection)
      else if registration_interval r < MinReconciliationInterval \<or> registration_interval r > MaxReconciliationInterval
      then Inl (ErrInvalid PkgProjection)
      else case registration_subscription r of Inl e \<Rightarrow> Inl e | Inr _ \<Rightarrow> Inr ())"

text \<open>The event types of a consumer's subscription that is not retired.\<close>

definition subscription_of :: "string \<Rightarrow> caller_records \<Rightarrow> string list option" where
  "subscription_of consumerID c =
     map_option su_types (find (\<lambda>s. su_consumer s = consumerID \<and> su_retiredAt s = None) (subscriptions c))"

definition identityConflict :: "registration \<Rightarrow> unit tx" where
  "identityConflict reg =
     seq (read_callers (\<lambda>c. list_ex (\<lambda>r. co_id r = cg_consumer reg \<and> co_principal r \<noteq> cg_principal reg \<or>
            co_id r \<noteq> cg_consumer reg \<and> co_principal r = cg_principal reg) (consumers c))) (\<lambda>conflict.
     ensure (\<not> conflict) (ErrInvalid PkgProjection))"

definition prior :: "string \<Rightarrow> caller_records \<Rightarrow> (bool \<times> string list option) option" where
  "prior consumerID c =
     map_option (\<lambda>r. (co_retiredAt r \<noteq> None, subscription_of consumerID c)) (row_of co_id consumerID (consumers c))"

definition declared :: "registration \<Rightarrow> instant \<Rightarrow> consumer" where
  "declared reg at =
     \<lparr>co_id = cg_consumer reg, co_principal = cg_principal reg, co_projectionVersion = cg_projectionVersion reg,
      co_maxAcceptedAge = cg_maxAcceptedAge reg, co_staleBehavior = cg_staleBehavior reg, co_registeredAt = at,
      co_retiredAt = None, co_snapshotMark = None, co_reportedMark = None, co_reportedAt = None,
      co_reconciledAt = None, co_reconciledMark = None, co_reconciledFindings = None, co_extraFindings = None,
      co_interval = registration_interval reg, co_reconcileRequested = None, co_calls = 0, co_requests = None,
      co_ratio = None\<rparr>"

definition redeclared :: "registration \<Rightarrow> consumer \<Rightarrow> consumer" where
  "redeclared reg r =
     r\<lparr>co_projectionVersion := cg_projectionVersion reg, co_maxAcceptedAge := cg_maxAcceptedAge reg,
       co_staleBehavior := cg_staleBehavior reg, co_interval := registration_interval reg, co_retiredAt := None\<rparr>"

definition upsertConsumer :: "registration \<Rightarrow> instant \<Rightarrow> instant tx" where
  "upsertConsumer reg t =
     seq (read_callers (\<lambda>c. row_of co_id (cg_consumer reg) (consumers c))) (\<lambda>row.
     case row of
       None \<Rightarrow> seq (on_callers (\<lambda>c. c\<lparr>consumers := consumers c @ [declared reg t]\<rparr>)) (\<lambda>_. return t)
     | Some r \<Rightarrow> seq (on_callers (\<lambda>c. c\<lparr>consumers := put_row co_id (redeclared reg r) (consumers c)\<rparr>)) (\<lambda>_.
                return (co_registeredAt r)))"

definition without_progress :: "consumer \<Rightarrow> consumer" where
  "without_progress r = r\<lparr>co_snapshotMark := None, co_reportedMark := None, co_reportedAt := None\<rparr>"

definition sameTypes :: "string list \<Rightarrow> string list \<Rightarrow> bool" where
  "sameTypes a b \<longleftrightarrow> sort a = sort b"

definition platform_subscriptions :: "(subscription list \<Rightarrow> subscription list option) \<Rightarrow> unit tx" where
  "platform_subscriptions f =
     seq (read_callers (\<lambda>c. f (subscriptions c))) (\<lambda>answer.
     case answer of
       None \<Rightarrow> raise (ErrInternal ''platform subscription'')
     | Some ss \<Rightarrow> on_callers (\<lambda>c. c\<lparr>subscriptions := ss\<rparr>))"

definition platform_deliveries :: "(delivery list \<Rightarrow> delivery list option) \<Rightarrow> unit tx" where
  "platform_deliveries f =
     seq (read_callers (\<lambda>c. f (deliveries c))) (\<lambda>answer.
     case answer of
       None \<Rightarrow> raise (ErrInternal ''platform delivery'')
     | Some ds \<Rightarrow> on_callers (\<lambda>c. c\<lparr>deliveries := ds\<rparr>))"

definition consumer_register_body :: "env \<Rightarrow> registration \<Rightarrow> string list \<Rightarrow> consumer body" where
  "consumer_register_body env reg types b cx =
     seq (db_now env) (\<lambda>t.
     seq (identityConflict reg) (\<lambda>_.
     seq (read_callers (prior (cg_consumer reg))) (\<lambda>before.
     seq (upsertConsumer reg t) (\<lambda>registeredAt.
     let consumer = declared reg registeredAt in
     case before of
       Some (False, Some current) \<Rightarrow>
         if sameTypes current types
         then seq (Respond env cx (ResConsumer consumer types)) (\<lambda>_. return consumer)
         else
           seq (platform_subscriptions (subscribe env (cg_consumer reg) types)) (\<lambda>_.
           seq (on_callers (\<lambda>c. c\<lparr>consumers := change_row co_id (cg_consumer reg) without_progress (consumers c)\<rparr>)) (\<lambda>_.
           seq (Respond env cx (ResConsumer consumer types)) (\<lambda>_. return consumer)))
     | _ \<Rightarrow>
         seq (platform_subscriptions (subscribe env (cg_consumer reg) types)) (\<lambda>_.
         seq (if before \<noteq> None
              then on_callers (\<lambda>c. c\<lparr>consumers := change_row co_id (cg_consumer reg) without_progress (consumers c)\<rparr>)
              else return ()) (\<lambda>_.
         seq (Respond env cx (ResConsumer consumer types)) (\<lambda>_. return consumer)))))))"

definition consumer_Register :: "env \<Rightarrow> ctx \<Rightarrow> registration \<Rightarrow> consumer tx" where
  "consumer_Register env cx reg =
     seq (lift (registration_validate reg)) (\<lambda>_.
     seq (lift (registration_subscription reg)) (\<lambda>types.
     WithProviderScope env cx (''register projection consumer '' @ cg_consumer reg)
       (consumer_register_body env reg types)))"

definition retired_consumer :: "instant \<Rightarrow> consumer \<Rightarrow> consumer" where
  "retired_consumer t r = (if co_retiredAt r = None then r\<lparr>co_retiredAt := Some t\<rparr> else r)"

definition consumer_retire_body :: "env \<Rightarrow> string \<Rightarrow> unit body" where
  "consumer_retire_body env consumerID b cx =
     seq (db_now env) (\<lambda>t.
     seq (read_callers (\<lambda>c. row_of co_id consumerID (consumers c))) (\<lambda>row.
     seq (ensure (row \<noteq> None) ErrConsumerUnregistered) (\<lambda>_.
     seq (on_callers (\<lambda>c. c\<lparr>consumers := change_row co_id consumerID (retired_consumer t) (consumers c)\<rparr>)) (\<lambda>_.
     seq (platform_subscriptions (unsubscribe env consumerID)) (\<lambda>_.
     platform_deliveries (abandon env consumerID (''projection consumer '' @ consumerID @ '' retired'')))))))"

definition consumer_Retire :: "env \<Rightarrow> ctx \<Rightarrow> string \<Rightarrow> unit tx" where
  "consumer_Retire env cx consumerID =
     seq (ensure (\<not> blank consumerID) (ErrInvalid PkgProjection)) (\<lambda>_.
     WithProviderScope env cx (''retire projection consumer '' @ consumerID) (consumer_retire_body env consumerID))"

text \<open>A retired consumer is read as one that is not registered. The answer carries its event types.\<close>

definition consumer_load :: "string \<Rightarrow> (consumer \<times> string list) tx" where
  "consumer_load consumerID =
     seq (read_callers (\<lambda>c. (row_of co_id consumerID (consumers c), subscription_of consumerID c))) (\<lambda>(row, types).
     case row of
       None \<Rightarrow> raise ErrConsumerUnregistered
     | Some r \<Rightarrow>
         seq (ensure (co_retiredAt r = None) ErrConsumerUnregistered) (\<lambda>_.
         seq (ensure (stale_Valid (co_staleBehavior r)) (ErrInternal ''projection: stored stale_behavior'')) (\<lambda>_.
         return (r, case types of None \<Rightarrow> [] | Some ts \<Rightarrow> ts))))"

definition consumer_Get :: "env \<Rightarrow> ctx \<Rightarrow> string \<Rightarrow> (consumer \<times> string list) tx" where
  "consumer_Get env cx consumerID =
     WithProviderScope env cx (''read projection consumer '' @ consumerID) (\<lambda>b cx. consumer_load consumerID)"

definition Age :: "instant \<Rightarrow> consumer \<Rightarrow> int \<times> bool" where
  "Age at c =
     (case co_reportedAt c of
        None \<Rightarrow> (0, True)
      | Some reported \<Rightarrow> (at - reported, at - reported > co_maxAcceptedAge c))"

definition ReconciliationOverdue :: "instant \<Rightarrow> consumer \<Rightarrow> bool" where
  "ReconciliationOverdue at c \<longleftrightarrow>
     co_reconcileRequested c \<noteq> None \<or>
     (let since = (case co_reconciledAt c of None \<Rightarrow> co_registeredAt c | Some r \<Rightarrow> r)
      in co_interval c > 0 \<and> at - since > co_interval c)"

definition ReconciliationAge :: "instant \<Rightarrow> consumer \<Rightarrow> int option" where
  "ReconciliationAge at c = map_option (\<lambda>r. at - r) (co_reconciledAt c)"

section \<open>The consumer list\<close>

datatype consumer_state = ConsumerActive | ConsumerRetired

record listed_consumer =
  lc_consumer :: consumer
  lc_types :: "string list"
  lc_state :: consumer_state
  lc_stale :: bool

text \<open>A state of the query is \<open>None\<close> for the empty text and \<open>Some None\<close> for one that is not valid.\<close>

record consumer_query =
  lq_after :: string
  lq_limit :: int
  lq_state :: "consumer_state option option"

definition consumer_matches :: "env \<Rightarrow> consumer_query \<Rightarrow> consumer \<Rightarrow> bool" where
  "consumer_matches env q r \<longleftrightarrow>
     (case lq_state q of
        None \<Rightarrow> True
      | Some (Some ConsumerActive) \<Rightarrow> co_retiredAt r = None
      | Some (Some ConsumerRetired) \<Rightarrow> co_retiredAt r \<noteq> None
      | Some None \<Rightarrow> False) \<and>
     (lq_after q = [] \<or> text_rank env (co_id r) > text_rank env (lq_after q))"

definition listed :: "instant \<Rightarrow> consumer \<times> string list \<Rightarrow> listed_consumer" where
  "listed at = (\<lambda>(r, types).
     \<lparr>lc_consumer = r, lc_types = types,
      lc_state = (if co_retiredAt r = None then ConsumerActive else ConsumerRetired),
      lc_stale = (co_retiredAt r = None \<and> snd (Age at r))\<rparr>)"

definition consumer_List :: "env \<Rightarrow> ctx \<Rightarrow> consumer_query \<Rightarrow> string \<Rightarrow> (listed_consumer list \<times> string option) tx" where
  "consumer_List env cx q reason =
     (case ListLimit (lq_limit q) of
        Inl _ \<Rightarrow> raise (ErrInvalid PkgProjection)
      | Inr limit \<Rightarrow>
          seq (ensure (lq_state q \<noteq> Some None) (ErrInvalid PkgProjection)) (\<lambda>_.
          seq (WithProviderScope env cx reason (\<lambda>b cx.
            seq (read_callers (\<lambda>c. map (\<lambda>r. (r, case subscription_of (co_id r) c of None \<Rightarrow> [] | Some ts \<Rightarrow> ts))
              (take (nat limit + 1) (sort_key (\<lambda>r. text_rank env (co_id r))
                (filter (consumer_matches env q) (consumers c)))))) (\<lambda>rows.
            seq (ensure (list_all (\<lambda>(r, _). stale_Valid (co_staleBehavior r)) rows)
              (ErrInternal ''projection: stored stale_behavior'')) (\<lambda>_.
            return rows)))) (\<lambda>rows.
          seq (now env) (\<lambda>at.
          return (page_of (\<lambda>l. co_id (lc_consumer l)) limit (map (listed at) rows))))))"

section \<open>Progress\<close>

record progress =
  pp_consumer :: string
  pp_appliedMark :: int

definition reported_progress :: "int \<Rightarrow> instant \<Rightarrow> consumer \<Rightarrow> consumer" where
  "reported_progress mark at r = r\<lparr>co_reportedMark := Some mark, co_reportedAt := Some at\<rparr>"

definition recordProgressIn :: "progress \<Rightarrow> instant \<Rightarrow> consumer tx" where
  "recordProgressIn report at =
     seq (consumer_load (pp_consumer report)) (\<lambda>(r, types).
     seq (ensure (co_snapshotMark r \<noteq> None) ErrNoSnapshotMark) (\<lambda>_.
     seq (ensure (case co_reportedMark r of None \<Rightarrow> True | Some m \<Rightarrow> \<not> pp_appliedMark report < m) ErrMarkWentBackwards) (\<lambda>_.
     seq (on_callers (\<lambda>c. c\<lparr>consumers :=
            put_row co_id (reported_progress (pp_appliedMark report) at r) (consumers c)\<rparr>)) (\<lambda>_.
     return (reported_progress (pp_appliedMark report) at r)))))"

definition RecordProgress :: "env \<Rightarrow> ctx \<Rightarrow> progress \<Rightarrow> consumer tx" where
  "RecordProgress env cx report =
     seq (ensure (\<not> blank (pp_consumer report)) (ErrInvalid PkgProjection)) (\<lambda>_.
     seq (now env) (\<lambda>at.
     WithProviderScope env cx (''record projection progress for '' @ pp_consumer report)
       (\<lambda>b cx. recordProgressIn report at)))"

section \<open>Snapshots\<close>

record snapshot_row =
  sn_membership :: uuid
  sn_principal :: uuid
  sn_tenant :: uuid
  sn_workspace :: "uuid option"
  sn_subject :: string
  sn_status :: membership_state
  sn_version :: int
  sn_tenantStatus :: tenant_state
  sn_tenantVersion :: int
  sn_securityVersion :: int

text \<open>A continuation cursor of the caller: none, an identifier, or a text that is not one.\<close>

datatype cursor = CursorStart | CursorAt uuid | CursorText string

record snapshot_request =
  sr_consumer :: string
  sr_pageSize :: int
  sr_cursor :: cursor
  sr_mark :: "int option"

record 'r page =
  pa_mark :: int
  pa_takenAt :: instant
  pa_rows :: "'r list"
  pa_cursor :: "uuid option"

definition DefaultPageSize :: int where "DefaultPageSize = 1000"
definition MaxPageSize :: int where "MaxPageSize = 5000"

definition startPage :: "snapshot_request \<Rightarrow> instant \<Rightarrow> error + int \<times> int \<times> instant" where
  "startPage req at =
     (let size = (if sr_pageSize req = 0 then DefaultPageSize else sr_pageSize req);
          mark = (case sr_mark req of None \<Rightarrow> 0 | Some m \<Rightarrow> m)
      in if size < 0 \<or> size > MaxPageSize then Inl ErrPageSize
         else case sr_cursor req of
           CursorStart \<Rightarrow> Inr (size, mark, at)
         | CursorText _ \<Rightarrow> Inl ErrCursor
         | CursorAt _ \<Rightarrow> (if sr_mark req = None then Inl ErrCursor
                        else if mark < 0 then Inl ErrCursor
                        else Inr (size, mark, at)))"

text \<open>\<open>markStatement\<close>: the greatest sequence of the outbox, 0 when it has none.\<close>

definition high_water :: "env \<Rightarrow> store \<Rightarrow> int" where
  "high_water env s = (if outbox s = [] then 0 else Max (set (map (sequence_at env) [0..<length (outbox s)])))"

definition snapshot_of :: "store \<Rightarrow> membership \<Rightarrow> snapshot_row option" where
  "snapshot_of s m =
     (if m_status m = MembershipActive
      then map_option (\<lambda>t. \<lparr>sn_membership = m_id m, sn_principal = m_principal m, sn_tenant = m_tenant m,
             sn_workspace = (if IsNil (m_workspace m) then None else Some (m_workspace m)),
             sn_subject = m_subject m, sn_status = m_status m, sn_version = m_version m,
             sn_tenantStatus = Status t, sn_tenantVersion = Version t, sn_securityVersion = SecurityVersion t\<rparr>)
             (row_of TenantID (m_tenant m) (tenants s))
      else None)"

definition after_cursor :: "cursor \<Rightarrow> uuid \<Rightarrow> bool" where
  "after_cursor c k \<longleftrightarrow> (case c of CursorStart \<Rightarrow> True | CursorAt j \<Rightarrow> k > j | CursorText _ \<Rightarrow> False)"

definition snapshot_rows :: "cursor \<Rightarrow> store \<Rightarrow> snapshot_row list" where
  "snapshot_rows c s =
     filter (\<lambda>r. after_cursor c (sn_membership r))
       (sort_key sn_membership (List.map_filter (snapshot_of s) (memberships s)))"

definition subscribesToAny :: "string list \<Rightarrow> string list \<Rightarrow> bool" where
  "subscribesToAny subscribed wanted = list_ex (\<lambda>h. list_ex (\<lambda>t. h = t) wanted) subscribed"

definition page_mark :: "env \<Rightarrow> snapshot_request \<Rightarrow> int \<Rightarrow> store \<Rightarrow> int" where
  "page_mark env req mark s = (if sr_cursor req = CursorStart then high_water env s else mark)"

definition snapshotIn :: "env \<Rightarrow> snapshot_request \<Rightarrow> int \<times> int \<times> instant \<Rightarrow> snapshot_row page tx" where
  "snapshotIn env req start =
     (case start of (n, mark, at) \<Rightarrow>
     seq (consumer_load (sr_consumer req)) (\<lambda>(r, types).
     seq (ensure (subscribesToAny types organizationSnapshotTypes) ErrNotSubscribed) (\<lambda>_.
     read_db (\<lambda>s. \<lparr>pa_mark = page_mark env req mark s, pa_takenAt = at,
                    pa_rows = take (nat n) (snapshot_rows (sr_cursor req) s), pa_cursor = None\<rparr>))))"

definition endPage :: "('r \<Rightarrow> uuid) \<Rightarrow> int \<Rightarrow> 'r page \<Rightarrow> 'r page" where
  "endPage key n page =
     (if int (length (pa_rows page)) = n then page\<lparr>pa_cursor := Some (key (last (pa_rows page)))\<rparr> else page)"

definition Snapshot :: "env \<Rightarrow> ctx \<Rightarrow> snapshot_request \<Rightarrow> snapshot_row page tx" where
  "Snapshot env cx req =
     seq (now env) (\<lambda>at.
     seq (lift (startPage req at)) (\<lambda>start.
     seq (WithProviderSnapshot env cx (''projection snapshot for '' @ sr_consumer req)
       (\<lambda>b cx. snapshotIn env req start)) (\<lambda>page.
     return (endPage sn_membership (fst start) page))))"

definition recordSnapshotMark :: "int \<Rightarrow> consumer \<Rightarrow> consumer" where
  "recordSnapshotMark mark r = r\<lparr>co_snapshotMark := Some mark\<rparr>"

definition bootstrapIn :: "string \<Rightarrow> int \<Rightarrow> consumer tx" where
  "bootstrapIn consumerID mark =
     seq (consumer_load consumerID) (\<lambda>(r, types).
     seq (ensure (case co_snapshotMark r of None \<Rightarrow> True | Some m \<Rightarrow> \<not> mark < m) ErrMarkWentBackwards) (\<lambda>_.
     seq (on_callers (\<lambda>c. c\<lparr>consumers := put_row co_id (recordSnapshotMark mark r) (consumers c)\<rparr>)) (\<lambda>_.
     return (recordSnapshotMark mark r))))"

definition projection_Bootstrap :: "env \<Rightarrow> ctx \<Rightarrow> string \<Rightarrow> int \<Rightarrow> consumer tx" where
  "projection_Bootstrap env cx consumerID mark =
     seq (ensure (\<not> mark < 0) (ErrInvalid PkgProjection)) (\<lambda>_.
     WithProviderScope env cx (''record projection bootstrap for '' @ consumerID) (\<lambda>b cx. bootstrapIn consumerID mark))"

section \<open>The provider authority snapshot\<close>

definition providerSnapshotScopes :: "string list" where
  "providerSnapshotScopes = [''provider:identity-control'']"

definition provider_rows :: "instant \<Rightarrow> cursor \<Rightarrow> caller_records \<Rightarrow> grant_state list" where
  "provider_rows t cu c =
     map (\<lambda>g. grantState t (pg_version g) g c)
       (filter (\<lambda>g. after_cursor cu (pg_id g))
         (sort_key pg_id (filter (\<lambda>g. unrevoked g \<and> pg_scope g \<in> set providerSnapshotScopes) (provider_grants c))))"

definition providerSnapshotIn :: "env \<Rightarrow> snapshot_request \<Rightarrow> int \<times> int \<times> instant \<Rightarrow> grant_state page tx" where
  "providerSnapshotIn env req start =
     (case start of (n, mark, at) \<Rightarrow>
     seq (db_now env) (\<lambda>t.
     seq (consumer_load (sr_consumer req)) (\<lambda>(r, types).
     seq (ensure (subscribesToAny types ProviderEventTypes) ErrNotSubscribed) (\<lambda>_.
     read_db (\<lambda>s. \<lparr>pa_mark = page_mark env req mark s, pa_takenAt = at,
                    pa_rows = take (nat n) (provider_rows t (sr_cursor req) (callers s)), pa_cursor = None\<rparr>)))))"

definition ProviderSnapshot :: "env \<Rightarrow> ctx \<Rightarrow> snapshot_request \<Rightarrow> grant_state page tx" where
  "ProviderSnapshot env cx req =
     seq (now env) (\<lambda>at.
     seq (lift (startPage req at)) (\<lambda>start.
     seq (WithProviderSnapshot env cx (''provider authority snapshot for '' @ sr_consumer req)
       (\<lambda>b cx. providerSnapshotIn env req start)) (\<lambda>page.
     return (endPage gs_grant (fst start) page))))"

section \<open>A consumer's own access\<close>

definition own_Get :: "env \<Rightarrow> ctx \<Rightarrow> string \<Rightarrow> (consumer \<times> string list) tx" where
  "own_Get env cx consumerID =
     WithConsumerScope env cx (''read own projection consumer '' @ consumerID) (\<lambda>b cx. consumer_load consumerID)"

definition own_RecordProgress :: "env \<Rightarrow> ctx \<Rightarrow> progress \<Rightarrow> consumer tx" where
  "own_RecordProgress env cx report =
     seq (ensure (\<not> blank (pp_consumer report)) (ErrInvalid PkgProjection)) (\<lambda>_.
     seq (now env) (\<lambda>at.
     WithConsumerScope env cx (''record own projection progress for '' @ pp_consumer report)
       (\<lambda>b cx. recordProgressIn report at)))"

definition own_Bootstrap :: "env \<Rightarrow> ctx \<Rightarrow> string \<Rightarrow> int \<Rightarrow> consumer tx" where
  "own_Bootstrap env cx consumerID mark =
     seq (ensure (\<not> mark < 0) (ErrInvalid PkgProjection)) (\<lambda>_.
     WithConsumerScope env cx (''record own projection bootstrap for '' @ consumerID) (\<lambda>b cx. bootstrapIn consumerID mark))"

definition own_Snapshot :: "env \<Rightarrow> ctx \<Rightarrow> snapshot_request \<Rightarrow> snapshot_row page tx" where
  "own_Snapshot env cx req =
     seq (now env) (\<lambda>at.
     seq (lift (startPage req at)) (\<lambda>start.
     seq (WithConsumerSnapshot env cx (''own projection snapshot for '' @ sr_consumer req)
       (\<lambda>b cx. snapshotIn env req start)) (\<lambda>page.
     return (endPage sn_membership (fst start) page))))"

definition own_ProviderSnapshot :: "env \<Rightarrow> ctx \<Rightarrow> snapshot_request \<Rightarrow> grant_state page tx" where
  "own_ProviderSnapshot env cx req =
     seq (now env) (\<lambda>at.
     seq (lift (startPage req at)) (\<lambda>start.
     seq (WithConsumerSnapshot env cx (''own provider authority snapshot for '' @ sr_consumer req)
       (\<lambda>b cx. providerSnapshotIn env req start)) (\<lambda>page.
     return (endPage gs_grant (fst start) page))))"

section \<open>Reconciliation\<close>

definition Security :: "finding_class \<Rightarrow> bool" where
  "Security c \<longleftrightarrow> c = ClassExtra"

record reported_row =
  rw_membership :: uuid
  rw_version :: int

record report =
  rt_reporter :: string
  rt_mark :: int
  rt_rows :: "reported_row list"

definition SecurityFindings :: "reconciliation \<Rightarrow> finding list" where
  "SecurityFindings r = filter (\<lambda>f. Security (fi_class f)) (rn_findings r)"

text \<open>The report as a map; a Membership named twice has the version it was named with last.\<close>

definition projected :: "report \<Rightarrow> uuid \<Rightarrow> int option" where
  "projected rep = map_of (rev (map (\<lambda>r. (rw_membership r, rw_version r)) (rt_rows rep)))"

definition projected_ids :: "report \<Rightarrow> uuid list" where
  "projected_ids rep = remdups (map rw_membership (rt_rows rep))"

definition state_of :: "store \<Rightarrow> membership \<Rightarrow> repaired_state option" where
  "state_of s m =
     map_option (\<lambda>t. \<lparr>rst_membership = m_id m, rst_principal = m_principal m, rst_tenant = m_tenant m,
       rst_workspace = (if IsNil (m_workspace m) then None else Some (m_workspace m)),
       rst_status = m_status m, rst_version = m_version m, rst_securityVersion = SecurityVersion t\<rparr>)
       (row_of TenantID (m_tenant m) (tenants s))"

text \<open>\<open>authoritativeStatement\<close> and \<open>withdrawnStatement\<close>.\<close>

definition authoritative :: "store \<Rightarrow> repaired_state list" where
  "authoritative s = List.map_filter (state_of s) (filter (\<lambda>m. m_status m = MembershipActive) (memberships s))"

definition withdrawn_states :: "uuid list \<Rightarrow> store \<Rightarrow> repaired_state list" where
  "withdrawn_states ids s = List.map_filter (state_of s) (filter (\<lambda>m. m_id m \<in> set ids) (memberships s))"

definition compare_body :: "scope \<Rightarrow> report \<Rightarrow> (repaired_state list \<times> repaired_state list) body" where
  "compare_body scope rep b cx =
     seq (consumer_load (rt_reporter rep)) (\<lambda>(r, types).
     seq (ensure (\<not> (sc_consumer scope \<and> co_principal r \<noteq> sc_actor scope)) ErrConsumerUnregistered) (\<lambda>_.
     seq (read_db authoritative) (\<lambda>authority.
     let unheld = filter (\<lambda>k. row_of rst_membership k authority = None) (projected_ids rep)
     in if unheld = [] then return (authority, [])
        else seq (read_db (withdrawn_states unheld)) (\<lambda>withdrawn. return (authority, withdrawn)))))"

definition authority_finding :: "report \<Rightarrow> repaired_state \<Rightarrow> finding option" where
  "authority_finding rep a =
     (case projected rep (rst_membership a) of
        None \<Rightarrow> Some \<lparr>fi_class = ClassMissing, fi_membership = rst_membership a, fi_tenant = rst_tenant a,
                  fi_principal = rst_principal a, fi_authoritative = rst_version a, fi_projected = 0, fi_state = Some a\<rparr>
      | Some v \<Rightarrow>
          if v \<noteq> rst_version a
          then Some \<lparr>fi_class = ClassMismatch, fi_membership = rst_membership a, fi_tenant = rst_tenant a,
                 fi_principal = rst_principal a, fi_authoritative = rst_version a, fi_projected = v, fi_state = Some a\<rparr>
          else None)"

definition extra_finding :: "report \<Rightarrow> repaired_state list \<Rightarrow> repaired_state list \<Rightarrow> uuid \<Rightarrow> finding option" where
  "extra_finding rep authority withdrawn k =
     (if row_of rst_membership k authority \<noteq> None then None
      else let v = (case projected rep k of None \<Rightarrow> 0 | Some v \<Rightarrow> v)
        in case row_of rst_membership k withdrawn of
             None \<Rightarrow> Some \<lparr>fi_class = ClassExtra, fi_membership = k, fi_tenant = 0, fi_principal = 0,
                       fi_authoritative = 0, fi_projected = v, fi_state = None\<rparr>
           | Some h \<Rightarrow> Some \<lparr>fi_class = ClassExtra, fi_membership = k, fi_tenant = rst_tenant h,
                         fi_principal = rst_principal h, fi_authoritative = rst_version h, fi_projected = v,
                         fi_state = Some h\<rparr>)"

text \<open>Extra first, then mismatch, then missing, as the texts of the classes are ordered.\<close>

fun class_rank :: "finding_class \<Rightarrow> nat" where
  "class_rank ClassExtra = 0"
| "class_rank ClassMismatch = 1"
| "class_rank ClassMissing = 2"

definition findings_of :: "report \<Rightarrow> repaired_state list \<Rightarrow> repaired_state list \<Rightarrow> finding list" where
  "findings_of rep authority withdrawn =
     sort_key (\<lambda>f. (class_rank (fi_class f), fi_membership f))
       (List.map_filter (authority_finding rep) authority @
        List.map_filter (extra_finding rep authority withdrawn) (projected_ids rep))"

definition Reconcile :: "env \<Rightarrow> ctx \<Rightarrow> report \<Rightarrow> reconciliation tx" where
  "Reconcile env cx rep =
     seq (ensure (rt_reporter rep \<noteq> []) (ErrInvalid PkgProjection)) (\<lambda>_.
     seq (ensure (\<not> rt_mark rep \<le> 0) ErrReportMarkRequired) (\<lambda>_.
     seq (now env) (\<lambda>at.
     seq (ScopeFrom cx) (\<lambda>scope.
     let reason = ''reconcile projection for '' @ rt_reporter rep in
     seq (if sc_consumer scope
          then WithConsumerReconciliationSnapshot env cx reason (compare_body scope rep)
          else WithProviderSnapshot env cx reason (compare_body scope rep)) (\<lambda>(authority, withdrawn).
     return \<lparr>rn_consumer = rt_reporter rep, rn_mark = rt_mark rep, rn_runAt = at,
             rn_findings = findings_of rep authority withdrawn\<rparr>)))))"

definition recordReconciliation :: "reconciliation \<Rightarrow> consumer \<Rightarrow> consumer" where
  "recordReconciliation result r =
     (if co_retiredAt r = None
      then r\<lparr>co_reconciledAt := Some (rn_runAt result), co_reconciledMark := Some (rn_mark result),
             co_reconciledFindings := Some (length (rn_findings result)),
             co_extraFindings := Some (length (SecurityFindings result)), co_reconcileRequested := None\<rparr>
      else r)"

definition recordRun :: "reconciliation \<Rightarrow> unit tx" where
  "recordRun result =
     on_callers (\<lambda>c. c\<lparr>consumers := change_row co_id (rn_consumer result) (recordReconciliation result) (consumers c)\<rparr>)"

definition consumerScope :: "ctx \<Rightarrow> bool" where
  "consumerScope cx = (case cx_scope cx of None \<Rightarrow> False | Some scope \<Rightarrow> sc_consumer scope)"

definition reconciled_in :: "env \<Rightarrow> ctx \<Rightarrow> string \<Rightarrow> unit body \<Rightarrow> unit tx" where
  "reconciled_in env cx reason body =
     (if consumerScope cx then WithConsumerReconciliation env cx reason body
      else WithProviderScope env cx reason body)"

definition PublishReconciled :: "env \<Rightarrow> ctx \<Rightarrow> reconciliation \<Rightarrow> unit tx" where
  "PublishReconciled env cx result =
     (if rn_findings result = []
      then reconciled_in env cx (''record reconciliation for '' @ rn_consumer result) (\<lambda>b cx. recordRun result)
      else
        seq (ensure (parses env ReconciledEventType) (ErrInternal ''projection: reconciled event type'')) (\<lambda>_.
        seq (newID env) (\<lambda>aggregate.
        seq (event_New env) (\<lambda>eventID.
        reconciled_in env cx (''publish reconciliation for '' @ rn_consumer result) (\<lambda>b cx.
          seq (recordRun result) (\<lambda>_.
          outbox_Append env \<lparr>msg_id = eventID, msg_aggregate = aggregate, msg_type = ReconciledEventType,
            msg_at = rn_runAt result, msg_payload = ReconciledPayload result, msg_priority = False\<rparr>))))))"

end
