(* ===== verification/Dead_Letters.thy ===== *)
theory Dead_Letters
  imports Projection_Registry
begin

text \<open>
  Deliveries that failed, \<open>src/internal/projection\<close>: replaying a dead letter (\<open>replay.go\<close>), closing one on a
  consumer's own evidence (\<open>resolve.go\<close>), waiving one for a time (\<open>waive.go\<close>), listing them
  (\<open>deadletters.go\<close>), the publication frontier (\<open>frontier.go\<close>) and the signals read from these tables
  (\<open>signals.go\<close>); and how far a Membership's latest change has been enforced
  (\<open>src/internal/membership/enforcement.go\<close>).

  \<open>clock_timestamp()\<close> is read once per statement; ages are in nanoseconds where the code has seconds.
\<close>

section \<open>Which dead letter\<close>

definition letter_of :: "uuid \<Rightarrow> string \<Rightarrow> dead_letter \<Rightarrow> bool" where
  "letter_of eventID consumer d \<longleftrightarrow> dl_event d = eventID \<and> dl_consumer d = Some consumer"

definition requireConsumerName :: "string \<Rightarrow> error + unit" where
  "requireConsumerName consumer = (if blank consumer then Inl (ErrInvalid PkgProjection) else Inr ())"

definition requireDeadLetter :: "uuid \<Rightarrow> string \<Rightarrow> dead_letter tx" where
  "requireDeadLetter eventID consumer =
     seq (read_callers (\<lambda>c. find (letter_of eventID consumer) (dead_letters c))) (\<lambda>row.
     case row of None \<Rightarrow> raise ErrDeadLetterNotFound | Some d \<Rightarrow> return d)"

section \<open>Replay\<close>

record replay =
  ry_event :: uuid
  ry_consumer :: string
  ry_type :: string
  ry_position :: int

text \<open>
  The event appended again for one consumer. \<open>owes\<close> says whether the platform finds that consumer
  subscribed; the new row's sequence is the last of the outbox.
\<close>

definition replay_append :: "env \<Rightarrow> string \<Rightarrow> message \<Rightarrow> unit tx" where
  "replay_append env consumer m =
     seq (read_callers (\<lambda>c. owes env consumer m (subscriptions c))) (\<lambda>owed.
     seq (ensure owed ErrConsumerNotSubscribed) (\<lambda>_.
     outbox_Append env m))"

text \<open>The sequence of the newest outbox row of an event.\<close>

definition position_of :: "env \<Rightarrow> uuid \<Rightarrow> store \<Rightarrow> int option" where
  "position_of env eventID s =
     map_option (sequence_at env)
       (first_row (rev (filter (\<lambda>i. msg_id (outbox s ! i) = eventID) [0..<length (outbox s)])))"

definition replay_body :: "env \<Rightarrow> uuid \<Rightarrow> string \<Rightarrow> replay body" where
  "replay_body env eventID consumer b cx =
     seq (requireDeadLetter eventID consumer) (\<lambda>d.
     seq (ensure (dl_resolvedAt d = None) ErrDeadLetterResolved) (\<lambda>_.
     seq (ensure (dl_envelope d \<noteq> []) ErrUnreplayable) (\<lambda>_.
     case (dl_aggregate d, dl_high d) of
       (Some aggregate, Some high) \<Rightarrow>
         (case envelope_of env (dl_envelope d) of
            None \<Rightarrow> raise ErrUnreplayable
          | Some m \<Rightarrow>
              seq (replay_append env consumer (m\<lparr>msg_aggregate := aggregate, msg_priority := high\<rparr>)) (\<lambda>_.
              seq (read_db (position_of env eventID)) (\<lambda>found.
              case found of
                None \<Rightarrow> raise (ErrInternal ''projection: reading the replayed position'')
              | Some position \<Rightarrow>
                  return \<lparr>ry_event = eventID, ry_consumer = consumer, ry_type = dl_type d, ry_position = position\<rparr>)))
     | _ \<Rightarrow> raise ErrUnreplayable)))"

definition Replay :: "env \<Rightarrow> ctx \<Rightarrow> uuid \<Rightarrow> string \<Rightarrow> replay tx" where
  "Replay env cx eventID consumer =
     seq (ensure (\<not> IsNil eventID) (ErrInvalid PkgProjection)) (\<lambda>_.
     seq (lift (requireConsumerName consumer)) (\<lambda>_.
     WithProviderScope env cx (''replay dead-lettered event '' @ uuid_text env eventID @ '' to '' @ consumer)
       (replay_body env eventID consumer)))"

section \<open>Closing on evidence\<close>

definition ConsumerApplied :: string where "ConsumerApplied = ''consumer_applied''"

definition ResolutionTypeReplayed :: string where "ResolutionTypeReplayed = ''REPLAYED''"
definition ResolutionTypeSuperseded :: string where "ResolutionTypeSuperseded = ''SUPERSEDED''"

record closure =
  cz_event :: uuid
  cz_consumer :: string
  cz_type :: string
  cz_reference :: string

definition applied_by :: "string \<Rightarrow> uuid \<Rightarrow> caller_records \<Rightarrow> bool" where
  "applied_by consumer eventID c =
     list_ex (\<lambda>r. rc_event r = eventID \<and> rc_consumer r = consumer \<and> rc_evidence r = ConsumerApplied) (receipts c)"

text \<open>What a closure rests on: the reference of the receipt and a sentence that says why.\<close>

type_synonym evidence_finder = "env \<Rightarrow> uuid \<Rightarrow> string \<Rightarrow> (string \<times> string) tx"

definition replayedEvidence :: evidence_finder where
  "replayedEvidence env eventID consumer =
     seq (read_callers (applied_by consumer eventID)) (\<lambda>applied.
     seq (ensure applied ErrNoAppliedEvidence) (\<lambda>_.
     return (receipt_reference env eventID consumer, [])))"

text \<open>
  A history: what its aggregate is called, and of each event the aggregate, the version it carried and its type. \<open>carried\<close> is the row of
  the failed event, looked for among the Membership, Tenant and provider grant histories in that order;
  \<open>superseding\<close> is the event with the lowest greater version of the same aggregate that the consumer
  applied.
\<close>

type_synonym history = "string \<times> (uuid \<times> uuid \<times> int \<times> string) list"

definition membership_history :: "store \<Rightarrow> history" where
  "membership_history s =
     (''Membership'', map (\<lambda>e. (me_event e, me_membership e, me_version e, me_type e)) (membership_events s))"

definition tenant_history :: "store \<Rightarrow> history" where
  "tenant_history s =
     (''Tenant'', map (\<lambda>e. (te_event e, te_tenant e, te_securityVersion e, te_type e)) (tenant_events s))"

definition grant_history :: "store \<Rightarrow> history" where
  "grant_history s =
     (''provider grant'', map (\<lambda>e. (ge_event e, ge_grant e, ge_version e, ge_type e)) (grant_events (callers s)))"

fun carried :: "uuid \<Rightarrow> history list \<Rightarrow> (history \<times> uuid \<times> int) option" where
  "carried eventID [] = None"
| "carried eventID (h # hs) =
     (case find (\<lambda>(e, _). e = eventID) (snd h) of
        Some (_, aggregate, version, _) \<Rightarrow> Some (h, aggregate, version)
      | None \<Rightarrow> carried eventID hs)"

definition superseding :: "caller_records \<Rightarrow> string \<Rightarrow> history \<Rightarrow> uuid \<Rightarrow> int \<Rightarrow> (uuid \<times> int \<times> string) option" where
  "superseding c consumer h aggregate version =
     map_option (\<lambda>(e, a, v, etype). (e, v, etype)) (first_row (sort_key (\<lambda>(e, a, v, etype). v)
       (filter (\<lambda>(e, a, v, etype). a = aggregate \<and> v > version \<and> applied_by consumer e c) (snd h))))"

definition superseded_why :: "env \<Rightarrow> string \<Rightarrow> uuid \<Rightarrow> int \<Rightarrow> int \<Rightarrow> string \<Rightarrow> string" where
  "superseded_why env name aggregate version newer etype =
     ''; '' @ name @ '' '' @ uuid_text env aggregate @ '' version '' @ decimal version @
     '' superseded by version '' @ decimal newer @ '' ('' @ etype @ '')''"

definition supersededEvidence :: evidence_finder where
  "supersededEvidence env eventID consumer =
     seq (read_db (\<lambda>s. carried eventID [membership_history s, tenant_history s, grant_history s])) (\<lambda>found.
     case found of
       None \<Rightarrow> raise ErrNotSuperseded
     | Some (h, aggregate, version) \<Rightarrow>
         seq (read_callers (\<lambda>c. superseding c consumer h aggregate version)) (\<lambda>newer.
         case newer of
           None \<Rightarrow> raise ErrNotSuperseded
         | Some (e, v, etype) \<Rightarrow>
             return (receipt_reference env e consumer, superseded_why env (fst h) aggregate version v etype)))"

definition closeDeadLetter :: "instant \<Rightarrow> string \<Rightarrow> uuid \<Rightarrow> string \<Rightarrow> dead_letter \<Rightarrow> dead_letter" where
  "closeDeadLetter t kind actor reference d =
     d\<lparr>dl_resolvedAt := Some t, dl_resolutionType := Some kind, dl_resolvedBy := Some actor, dl_reference := Some reference\<rparr>"

text \<open>An UPDATE of the open dead letters of the event and the consumer, which must be one.\<close>

definition update_open :: "uuid \<Rightarrow> string \<Rightarrow> (dead_letter \<Rightarrow> dead_letter) \<Rightarrow> unit tx" where
  "update_open eventID consumer f =
     (let hit = (\<lambda>d. letter_of eventID consumer d \<and> dl_resolvedAt d = None) in
     seq (read_callers (\<lambda>c. length (filter hit (dead_letters c)) = 1)) (\<lambda>one.
     seq (ensure one ErrDeadLetterResolved) (\<lambda>_.
     on_callers (\<lambda>c. c\<lparr>dead_letters := map (\<lambda>d. if hit d then f d else d) (dead_letters c)\<rparr>))))"

text \<open>The account of a closure, recorded in the transaction that made it.\<close>

definition closed_reason :: "env \<Rightarrow> uuid \<Rightarrow> string \<Rightarrow> string \<Rightarrow> string \<times> string \<Rightarrow> string" where
  "closed_reason env eventID consumer kind found =
     ''closed dead-lettered event '' @ uuid_text env eventID @ '' at '' @ consumer @ '' as '' @ kind @ '' on '' @ fst found @ snd found"

definition close_body :: "env \<Rightarrow> scope \<Rightarrow> uuid \<Rightarrow> string \<Rightarrow> string \<Rightarrow> evidence_finder \<Rightarrow> closure body" where
  "close_body env scope eventID consumer kind evidence b cx =
     seq (db_now env) (\<lambda>t.
     seq (requireDeadLetter eventID consumer) (\<lambda>d.
     seq (ensure (dl_resolvedAt d = None) ErrDeadLetterResolved) (\<lambda>_.
     seq (evidence env eventID consumer) (\<lambda>found.
     seq (update_open eventID consumer (closeDeadLetter t kind (sc_actor scope) (fst found))) (\<lambda>_.
     seq (RecordAccessInTx env (Evidence scope cx (closed_reason env eventID consumer kind found))) (\<lambda>_.
     return \<lparr>cz_event = eventID, cz_consumer = consumer, cz_type = kind, cz_reference = fst found\<rparr>))))))"

definition resolver_close :: "env \<Rightarrow> ctx \<Rightarrow> uuid \<Rightarrow> string \<Rightarrow> string \<Rightarrow> evidence_finder \<Rightarrow> closure tx" where
  "resolver_close env cx eventID consumer kind evidence =
     seq (ensure (\<not> IsNil eventID) (ErrInvalid PkgProjection)) (\<lambda>_.
     seq (lift (requireConsumerName consumer)) (\<lambda>_.
     seq (ScopeFrom cx) (\<lambda>scope.
     WithResolutionScope env cx (''resolve dead-lettered event '' @ uuid_text env eventID @ '' at '' @ consumer)
       (close_body env scope eventID consumer kind evidence))))"

definition letter_Resolve :: "env \<Rightarrow> ctx \<Rightarrow> uuid \<Rightarrow> string \<Rightarrow> closure tx" where
  "letter_Resolve env cx eventID consumer =
     resolver_close env cx eventID consumer ResolutionTypeReplayed replayedEvidence"

definition Supersede :: "env \<Rightarrow> ctx \<Rightarrow> uuid \<Rightarrow> string \<Rightarrow> closure tx" where
  "Supersede env cx eventID consumer =
     resolver_close env cx eventID consumer ResolutionTypeSuperseded supersededEvidence"

section \<open>Waivers\<close>

definition MaxWaiver :: int where "MaxWaiver = 90 * 24 * 60 * 60 * Second"

record waiver =
  wv_event :: uuid
  wv_consumer :: string
  wv_until :: instant
  wv_reason :: string

definition waiveDeadLetter :: "instant \<Rightarrow> instant \<Rightarrow> uuid \<Rightarrow> string \<Rightarrow> dead_letter \<Rightarrow> dead_letter" where
  "waiveDeadLetter t until actor reason d =
     d\<lparr>dl_waivedAt := Some t, dl_waivedUntil := Some until, dl_waivedBy := Some actor, dl_waiverReason := Some reason\<rparr>"

definition waived :: "instant \<Rightarrow> dead_letter \<Rightarrow> bool" where
  "waived t d \<longleftrightarrow> (case dl_waivedUntil d of None \<Rightarrow> False | Some until \<Rightarrow> until > t)"

definition consumerActive :: "string \<Rightarrow> caller_records \<Rightarrow> bool" where
  "consumerActive consumer c = list_ex (\<lambda>r. co_id r = consumer \<and> co_retiredAt r = None) (consumers c)"

definition waived_reason :: "env \<Rightarrow> uuid \<Rightarrow> string \<Rightarrow> instant \<Rightarrow> string \<Rightarrow> string" where
  "waived_reason env eventID consumer until reason =
     ''waived dead-lettered event '' @ uuid_text env eventID @ '' refused by '' @ quoted_text env consumer @
     '' until '' @ time_text env until @ '': '' @ reason"

definition waive_body :: "env \<Rightarrow> scope \<Rightarrow> uuid \<Rightarrow> string \<Rightarrow> string \<Rightarrow> instant \<Rightarrow> waiver body" where
  "waive_body env scope eventID consumer reason until b cx =
     seq (db_now env) (\<lambda>t.
     seq (requireDeadLetter eventID consumer) (\<lambda>d.
     seq (ensure (dl_resolvedAt d = None) ErrDeadLetterResolved) (\<lambda>_.
     seq (ensure (\<not> waived t d) ErrAlreadyWaived) (\<lambda>_.
     seq (ensure (\<not> (\<not> until > t \<or> until - t > MaxWaiver)) (ErrInvalid PkgProjection)) (\<lambda>_.
     seq (read_callers (consumerActive consumer)) (\<lambda>active.
     seq (ensure (\<not> active) ErrNotWaivable) (\<lambda>_.
     seq (update_open eventID consumer (waiveDeadLetter t until (sc_actor scope) reason)) (\<lambda>_.
     seq (RecordAccessInTx env (Evidence scope cx (waived_reason env eventID consumer until reason))) (\<lambda>_.
     return \<lparr>wv_event = eventID, wv_consumer = consumer, wv_until = until, wv_reason = reason\<rparr>)))))))))"

text \<open>An instant of the caller is \<open>None\<close> where Go has the zero time.\<close>

definition Waive :: "env \<Rightarrow> ctx \<Rightarrow> uuid \<Rightarrow> string \<Rightarrow> string \<Rightarrow> instant option \<Rightarrow> waiver tx" where
  "Waive env cx eventID consumer given until =
     (let reason = TrimSpace given in
     seq (ensure (\<not> IsNil eventID) (ErrInvalid PkgProjection)) (\<lambda>_.
     seq (lift (requireConsumerName consumer)) (\<lambda>_.
     seq (ensure (reason \<noteq> []) (ErrInvalid PkgProjection)) (\<lambda>_.
     case until of
       None \<Rightarrow> raise (ErrInvalid PkgProjection)
     | Some u \<Rightarrow>
         seq (ScopeFrom cx) (\<lambda>scope.
         WithResolutionScope env cx (''waive dead-lettered event '' @ uuid_text env eventID @ '' at '' @ consumer)
           (waive_body env scope eventID consumer reason u))))))"

section \<open>Listing\<close>

datatype letter_state = DeadLetterOpen | DeadLetterResolved

record letter_query =
  dq_consumer :: string
  dq_after :: uuid
  dq_limit :: int
  dq_state :: "letter_state option option"

record listed_letter =
  ll_letter :: dead_letter
  ll_authorityBearing :: bool

definition letter_matches :: "letter_query \<Rightarrow> dead_letter \<Rightarrow> bool" where
  "letter_matches q d \<longleftrightarrow>
     dl_consumer d = Some (dq_consumer q) \<and>
     (case dq_state q of
        None \<Rightarrow> True
      | Some (Some DeadLetterOpen) \<Rightarrow> dl_resolvedAt d = None
      | Some (Some DeadLetterResolved) \<Rightarrow> dl_resolvedAt d \<noteq> None
      | Some None \<Rightarrow> False)"

definition letter_List :: "env \<Rightarrow> ctx \<Rightarrow> letter_query \<Rightarrow> string \<Rightarrow> (listed_letter list \<times> uuid option) tx" where
  "letter_List env cx q reason =
     (case ListLimit (dq_limit q) of
        Inl _ \<Rightarrow> raise (ErrInvalid PkgProjection)
      | Inr limit \<Rightarrow>
          seq (ensure (dq_state q \<noteq> Some None) (ErrInvalid PkgProjection)) (\<lambda>_.
          seq (ensure (dq_consumer q \<noteq> []) (ErrInvalid PkgProjection)) (\<lambda>_.
          WithProviderScope env cx reason (\<lambda>b cx.
            seq (read_callers (\<lambda>c. list_ex (\<lambda>r. co_id r = dq_consumer q) (consumers c))) (\<lambda>known.
            seq (ensure known ErrConsumerNotFound) (\<lambda>_.
            read_callers (\<lambda>c. page_of (\<lambda>l. dl_event (ll_letter l)) limit
              (map (\<lambda>d. \<lparr>ll_letter = d, ll_authorityBearing = (dl_type d \<in> set AuthorityEventTypes)\<rparr>)
                (take (nat limit + 1) (keyset_rows dl_event (dq_after q) (letter_matches q) (dead_letters c)))))))))))"

section \<open>The publication frontier\<close>

record frontier =
  fr_highest :: int
  fr_oldestMark :: int
  fr_oldestAge :: int
  fr_unpublished :: bool
  fr_deadLettered :: nat
  fr_deadLetterAge :: int
  fr_debt :: bool
  fr_observedAt :: instant

definition owed_to :: "string \<Rightarrow> caller_records \<Rightarrow> delivery list" where
  "owed_to consumer c =
     filter (\<lambda>d. \<not> dv_published d \<and> (consumer = [] \<or> dv_consumer d = consumer)) (deliveries c)"

definition debt_of :: "string \<Rightarrow> caller_records \<Rightarrow> dead_letter list" where
  "debt_of consumer c =
     filter (\<lambda>d. dl_resolvedAt d = None \<and> dl_type d \<in> set AuthorityEventTypes \<and>
                  (consumer = [] \<or> dl_consumer d = None \<or> dl_consumer d = Some consumer)) (dead_letters c)"

definition oldest :: "('r \<Rightarrow> int) \<Rightarrow> 'r list \<Rightarrow> int option" where
  "oldest f rows = (if rows = [] then None else Some (Min (f ` set rows)))"

definition age_since :: "instant \<Rightarrow> int option \<Rightarrow> int" where
  "age_since at since = (case since of None \<Rightarrow> 0 | Some t \<Rightarrow> at - t)"

definition frontier_of :: "env \<Rightarrow> instant \<Rightarrow> string \<Rightarrow> store \<Rightarrow> frontier" where
  "frontier_of env at consumer s =
     (let owed = owed_to consumer (callers s); debt = debt_of consumer (callers s)
      in \<lparr>fr_highest = high_water env s,
          fr_oldestMark = (case oldest dv_sequence owed of None \<Rightarrow> 0 | Some m \<Rightarrow> m),
          fr_oldestAge = age_since at (oldest dv_createdAt owed), fr_unpublished = (owed \<noteq> []),
          fr_deadLettered = length debt, fr_deadLetterAge = age_since at (oldest dl_deadLetteredAt debt),
          fr_debt = (debt \<noteq> []), fr_observedAt = at\<rparr>)"

definition FrontierFor :: "env \<Rightarrow> string \<Rightarrow> frontier tx" where
  "FrontierFor env consumer = InTx env (seq (db_now env) (\<lambda>at. read_db (frontier_of env at consumer)))"

definition Frontier :: "env \<Rightarrow> frontier tx" where
  "Frontier env = FrontierFor env []"

section \<open>Signals\<close>

record lane_signal =
  ls_consumer :: string
  ls_high :: bool
  ls_count :: nat
  ls_age :: int

record consumer_signal =
  cs_consumer :: string
  cs_reportAge :: int
  cs_maxAcceptedAge :: int
  cs_ratio :: "float64 option"
  cs_extraFindings :: nat
  cs_reconciliationAge :: int
  cs_interval :: int
  cs_requested :: bool

record signals =
  sg_lanes :: "lane_signal list"
  sg_debt :: "(string \<times> nat \<times> int) list"
  sg_stale :: nat
  sg_staleAge :: int
  sg_consumers :: "consumer_signal list"
  sg_unapplied :: "(string \<times> int) list"

definition UnappliedWindow :: int where "UnappliedWindow = 24 * 60 * 60 * Second"

definition active_consumers :: "env \<Rightarrow> caller_records \<Rightarrow> consumer list" where
  "active_consumers env c = sort_key (\<lambda>r. text_rank env (co_id r)) (filter (\<lambda>r. co_retiredAt r = None) (consumers c))"

definition lanes_of :: "instant \<Rightarrow> caller_records \<Rightarrow> string \<Rightarrow> lane_signal list" where
  "lanes_of at c k =
     map (\<lambda>high. let lane = filter (\<lambda>d. dv_consumer d = k \<and> \<not> dv_published d \<and> dv_high d = high) (deliveries c)
       in \<lparr>ls_consumer = k, ls_high = high, ls_count = length lane, ls_age = age_since at (oldest dv_createdAt lane)\<rparr>)
       [True, False]"

definition stale_letters :: "instant \<Rightarrow> caller_records \<Rightarrow> dead_letter list" where
  "stale_letters at c = filter (\<lambda>d. dl_resolvedAt d = None \<and> \<not> waived at d) (dead_letters c)"

definition unapplied_of :: "instant \<Rightarrow> caller_records \<Rightarrow> string \<Rightarrow> delivery list" where
  "unapplied_of t c k =
     filter (\<lambda>d. dv_consumer d = k \<and> dv_high d \<and> dv_createdAt d \<ge> t - UnappliedWindow \<and>
       dv_failureClass d \<noteq> Some ''abandoned'' \<and> \<not> applied_by k (dv_event d) c \<and>
       \<not> list_ex (\<lambda>l. letter_of (dv_event d) k l \<and> dl_resolvedAt l = None) (dead_letters c)) (deliveries c)"

definition consumer_signal_of :: "instant \<Rightarrow> consumer \<Rightarrow> consumer_signal" where
  "consumer_signal_of at r =
     \<lparr>cs_consumer = co_id r,
      cs_reportAge = at - (case co_reportedAt r of None \<Rightarrow> co_registeredAt r | Some t \<Rightarrow> t),
      cs_maxAcceptedAge = co_maxAcceptedAge r, cs_ratio = co_ratio r,
      cs_extraFindings = (case co_extraFindings r of None \<Rightarrow> 0 | Some n \<Rightarrow> n),
      cs_reconciliationAge = at - (case co_reconciledAt r of None \<Rightarrow> co_registeredAt r | Some t \<Rightarrow> t),
      cs_interval = co_interval r, cs_requested = (co_reconcileRequested r \<noteq> None)\<rparr>"

definition signals_of :: "env \<Rightarrow> instant \<Rightarrow> caller_records \<Rightarrow> signals" where
  "signals_of env at c =
     (let active = active_consumers env c
      in \<lparr>sg_lanes = concat (map (\<lambda>r. lanes_of at c (co_id r)) active),
          sg_debt = map (\<lambda>r. let debt = debt_of (co_id r) c
                       in (co_id r, length debt, age_since at (oldest dl_deadLetteredAt debt))) active,
          sg_stale = length (stale_letters at c),
          sg_staleAge = age_since at (oldest dl_deadLetteredAt (stale_letters at c)),
          sg_consumers = map (consumer_signal_of at) active,
          sg_unapplied = map (\<lambda>r. (co_id r, age_since at (oldest dv_createdAt (unapplied_of at c (co_id r))))) active\<rparr>)"

definition signals_Read :: "env \<Rightarrow> signals tx" where
  "signals_Read env = InTx env (seq (db_now env) (\<lambda>at. read_callers (signals_of env at)))"

section \<open>Enforcement of a Membership's latest change\<close>

definition PropagationBudget :: int where "PropagationBudget = 10 * Second"

datatype enforcement_state = EnforcementAccepted | EnforcementPropagating | EnforcementEnforced | EnforcementOverBudget

datatype evidence_kind = EvidenceConsumerApplied | EvidenceTransportAccepted | EvidencePending | EvidenceDeadLettered

record consumer_evidence =
  ce_consumer :: string
  ce_evidence :: evidence_kind
  ce_recordedAt :: "instant option"

record enforcement =
  en_membership :: uuid
  en_event :: uuid
  en_transition :: membership_action
  en_acceptedAt :: instant
  en_publishedAt :: "instant option"
  en_budget :: int
  en_consumers :: "consumer_evidence list"
  en_state :: enforcement_state
  en_evaluatedAt :: instant

definition consumerEvidence :: "string \<Rightarrow> string option \<Rightarrow> instant option \<Rightarrow> bool \<Rightarrow> consumer_evidence" where
  "consumerEvidence consumer evidence recordedAt deadLettered =
     (if evidence = Some ConsumerApplied
      then \<lparr>ce_consumer = consumer, ce_evidence = EvidenceConsumerApplied, ce_recordedAt = recordedAt\<rparr>
      else if deadLettered
      then \<lparr>ce_consumer = consumer, ce_evidence = EvidenceDeadLettered, ce_recordedAt = None\<rparr>
      else if evidence = Some ''transport_accepted''
      then \<lparr>ce_consumer = consumer, ce_evidence = EvidenceTransportAccepted, ce_recordedAt = recordedAt\<rparr>
      else \<lparr>ce_consumer = consumer, ce_evidence = EvidencePending, ce_recordedAt = None\<rparr>)"

definition enforcement_derive :: "consumer_evidence list \<Rightarrow> int \<Rightarrow> instant option \<Rightarrow> enforcement_state" where
  "enforcement_derive evidence age publishedAt =
     (if list_all (\<lambda>e. ce_evidence e = EvidenceConsumerApplied) evidence then EnforcementEnforced
      else if list_ex (\<lambda>e. ce_evidence e = EvidenceDeadLettered) evidence \<or> age > PropagationBudget then EnforcementOverBudget
      else if publishedAt \<noteq> None then EnforcementPropagating
      else EnforcementAccepted)"

text \<open>
  \<open>evidenceStatement\<close>: each delivery of the event that was not abandoned, joined with its consumer's receipts
  and open dead letters. A left join has a row without a partner where there is none.
\<close>

definition joined :: "'r list \<Rightarrow> 'r option list" where
  "joined rows = (if rows = [] then [None] else map Some rows)"

definition evidence_of :: "uuid \<Rightarrow> caller_records \<Rightarrow> delivery \<Rightarrow> (delivery \<times> consumer_evidence) list" where
  "evidence_of eventID c d =
     [(d, consumerEvidence (dv_consumer d) (map_option rc_evidence r) (map_option rc_recordedAt r) (l \<noteq> None)).
       r \<leftarrow> joined (filter (\<lambda>r. rc_event r = eventID \<and> rc_consumer r = dv_consumer d) (receipts c)),
       l \<leftarrow> joined (filter (\<lambda>l. letter_of eventID (dv_consumer d) l \<and> dl_resolvedAt l = None) (dead_letters c))]"

definition evidence_rows :: "env \<Rightarrow> uuid \<Rightarrow> caller_records \<Rightarrow> (delivery \<times> consumer_evidence) list" where
  "evidence_rows env eventID c =
     concat (map (evidence_of eventID c) (sort_key (\<lambda>d. text_rank env (dv_consumer d))
       (filter (\<lambda>d. dv_event d = eventID \<and> dv_failureClass d \<noteq> Some ''abandoned'') (deliveries c))))"

definition actionOf :: "string \<Rightarrow> membership_action" where
  "actionOf etype =
     (case find (\<lambda>a. membership_eventTypes a = Some etype)
             [MembershipGrant, MembershipSuspend, MembershipRevoke, MembershipRestore] of
        None \<Rightarrow> MembershipActionOther etype
      | Some a \<Rightarrow> a)"

definition latest_event :: "binding \<Rightarrow> uuid \<Rightarrow> store \<Rightarrow> membership_event option" where
  "latest_event b membershipID s =
     first_row (order_desc me_version (filter (\<lambda>e. me_membership e = membershipID \<and> sees b (me_tenant e)) (membership_events s)))"

definition earliest :: "instant option list \<Rightarrow> instant option" where
  "earliest ts = oldest id (List.map_filter id ts)"

definition enforcementWithin :: "env \<Rightarrow> uuid \<Rightarrow> enforcement body" where
  "enforcementWithin env membershipID b cx =
     seq (read_db (latest_event b membershipID)) (\<lambda>found.
     case found of
       None \<Rightarrow> seq (membership_load b membershipID) (\<lambda>_. raise ErrNoTransition)
     | Some e \<Rightarrow>
         seq (read_callers (evidence_rows env (me_event e))) (\<lambda>rows.
         seq (now env) (\<lambda>at.
         return \<lparr>en_membership = membershipID, en_event = me_event e, en_transition = actionOf (me_type e), en_acceptedAt = me_recorded_at e,
                 en_publishedAt = earliest (map (\<lambda>(d, _). dv_publishedAt d) rows), en_budget = PropagationBudget,
                 en_consumers = map snd rows,
                 en_state = enforcement_derive (map snd rows) (at - me_recorded_at e)
                   (earliest (map (\<lambda>(d, _). dv_publishedAt d) rows)),
                 en_evaluatedAt = at\<rparr>)))"

definition Enforcement :: "env \<Rightarrow> ctx \<Rightarrow> uuid \<Rightarrow> enforcement tx" where
  "Enforcement env cx membershipID =
     seq (ensure (\<not> IsNil membershipID) (ErrInvalid PkgMembership)) (\<lambda>_.
     WithTenantRead env cx (enforcementWithin env membershipID))"

definition EnforcementInTenant :: "env \<Rightarrow> ctx \<Rightarrow> uuid \<Rightarrow> uuid \<Rightarrow> string \<Rightarrow> enforcement tx" where
  "EnforcementInTenant env cx tenantID membershipID reason =
     seq (ensure (\<not> (IsNil membershipID \<or> IsNil tenantID)) (ErrInvalid PkgMembership)) (\<lambda>_.
     WithProviderInTenant env cx tenantID reason (enforcementWithin env membershipID))"

end
