(* ===== verification/Projection_Relations.thy ===== *)
theory Projection_Relations
  imports Caller_Relations Dead_Letters
begin

text \<open>
  The operations of the projection and of dead letters as sequences of the steps of the caller records.
\<close>

lemma consumer_kept_by_statement:
  "consumer_kept r (redeclared reg r)" "consumer_kept r (without_progress r)" "consumer_kept r (retired_consumer t r)"
  "co_snapshotMark r \<noteq> None \<Longrightarrow> consumer_kept r (reported_progress mark at r)"
  "consumer_kept r (recordSnapshotMark mark r)" "consumer_kept r (recordReconciliation result r)"
  by (simp_all add: consumer_kept_def consumer_ok_def redeclared_def without_progress_def retired_consumer_def
      reported_progress_def recordSnapshotMark_def recordReconciliation_def)

lemma consumer_load_run:
  "consumer_load k w = (Inr (r, types), w') \<longleftrightarrow>
     row_of co_id k (consumers (callers (store w))) = Some r \<and> co_retiredAt r = None \<and> stale_Valid (co_staleBehavior r) \<and>
     types = (case subscription_of k (callers (store w)) of None \<Rightarrow> [] | Some ts \<Rightarrow> ts) \<and> w' = w"
  by (auto simp: consumer_load_def seq_run(1) read_callers_run required_run ensure_run return_run)

lemma letters_updated:
  "list_all (\<lambda>d. dl_resolvedAt d = None \<or> d \<in> set (map (\<lambda>d. if P d \<and> dl_resolvedAt d = None then f d else d) ls)) ls"
  by (auto simp: list_all_iff image_iff split: if_splits)

lemma quiet_event_New: "quiet (event_New env)"
  by (auto simp: quiet_def event_New_def)

context caller_relation
begin

lemma y_consumer_load: "yields (on_store R) (consumer_load k)"
  by (rule yieldsI) (auto simp: consumer_load_run sr.step_refl)

lemma y_consumers_changed:
  assumes "\<And>q. consumer_kept q (f q)"
  shows "yields (on_store R) (on_callers (\<lambda>c. c\<lparr>consumers := change_row co_id k f (consumers c)\<rparr>))"
  unfolding on_callers_def by (rule y_write_db) (intro caller_law caller_step.Consumer_changed allI assms)

lemma y_platform: "yields (on_store R) (platform_subscriptions f)" "yields (on_store R) (platform_deliveries g)"
proof -
  show "yields (on_store R) (platform_subscriptions f)"
    by (rule yieldsI) (auto simp: platform_subscriptions_def seq_run(1) read_callers_run required_run on_callers_run
        intro!: caller_stepped caller_step.Subscribed)
  show "yields (on_store R) (platform_deliveries g)"
    by (rule yieldsI) (auto simp: platform_deliveries_def seq_run(1) read_callers_run required_run on_callers_run
        intro!: caller_stepped caller_step.Delivered)
qed

lemma y_identified_upsert:
  "yields (on_store R) (seq (identityConflict reg) (\<lambda>_. seq (read_callers f) (\<lambda>before. seq (upsertConsumer reg t) (g before))))"
  if "\<And>before at. yields (on_store R) (g before at)"
proof (rule yieldsI)
  fix w x w'
  assume run: "seq (identityConflict reg) (\<lambda>_. seq (read_callers f) (\<lambda>before. seq (upsertConsumer reg t) (g before))) w = (Inr x, w')"
  let ?c = "callers (store w)"
  from run obtain at w1 where none: "\<not> list_ex (\<lambda>r. co_id r = cg_consumer reg \<and> co_principal r \<noteq> cg_principal reg \<or>
        co_id r \<noteq> cg_consumer reg \<and> co_principal r = cg_principal reg) (consumers ?c)"
    and up: "upsertConsumer reg t w = (Inr at, w1)" and rest: "g (f ?c) at w1 = (Inr x, w')"
    by (auto simp: identityConflict_def seq_run(1) read_callers_run ensure_run)
  have "on_store R w w1"
  proof (cases "row_of co_id (cg_consumer reg) (consumers ?c)")
    case None
    then have "w1 = w\<lparr>store := (store w)\<lparr>callers := ?c\<lparr>consumers := consumers ?c @ [declared reg t]\<rparr>\<rparr>\<rparr>"
      using up by (simp add: upsertConsumer_def seq_run(1) read_callers_run on_callers_run return_run)
    moreover have "co_principal r \<noteq> cg_principal reg" if "r \<in> set (consumers ?c)" for r
      using none None that by (metis (mono_tags, lifting) imageI list_ex_iff row_of_None_iff set_map)
    ultimately show ?thesis
      using None by (auto intro!: caller_stepped caller_step.Consumer_added simp: declared_def consumer_ok_def list_ex_iff)
  next
    case (Some r)
    then have "w1 = w\<lparr>store := (store w)\<lparr>callers := ?c\<lparr>consumers := put_row co_id (redeclared reg r) (consumers ?c)\<rparr>\<rparr>\<rparr>"
      using up by (simp add: upsertConsumer_def seq_run(1) read_callers_run on_callers_run return_run)
    then show ?thesis
      using Some by (auto intro!: caller_stepped caller_step.Counted consumer_kept_by_statement)
  qed
  then show "on_store R w w'" using rest that by (blast dest: yieldsD intro: sr.step_trans)
qed

lemma y_answered: "yields (on_store R) (seq (Respond env cx result) (\<lambda>_. return consumer))"
  by (intro y_authority)

lemma y_consumer_register_body: "yields (on_store R) (consumer_register_body env reg types b cx)"
  unfolding consumer_register_body_def Let_def
  by (intro y_store_intros y_identified_upsert)
    (auto intro!: y_answered y_platform y_consumers_changed consumer_kept_by_statement y_authority split: option.split bool.split)

lemma a_consumer_Register: "always R (consumer_Register env cx reg)"
  unfolding consumer_Register_def
  by (intro a_seq_quiet quiet_steps a_WithProviderScope y_consumer_register_body)

lemma a_consumer_Retire: "always R (consumer_Retire env cx k)"
  unfolding consumer_Retire_def consumer_retire_body_def
  by (intro a_seq_quiet quiet_steps a_WithProviderScope y_platform y_consumers_changed consumer_kept_by_statement y_authority)

lemma y_recordProgressIn: "yields (on_store R) (recordProgressIn report at)"
  by (rule yieldsI) (auto simp: recordProgressIn_def seq_run(1) consumer_load_run ensure_run on_callers_run return_run
      intro!: caller_stepped caller_step.Counted consumer_kept_by_statement)

lemma y_bootstrapIn: "yields (on_store R) (bootstrapIn k mark)"
  by (rule yieldsI) (auto simp: bootstrapIn_def seq_run(1) consumer_load_run ensure_run on_callers_run return_run
      intro!: caller_stepped caller_step.Counted consumer_kept_by_statement)

lemma a_progress:
  "always R (RecordProgress env cx report)" "always R (own_RecordProgress env cx report)"
  "always R (projection_Bootstrap env cx k mark)" "always R (own_Bootstrap env cx k mark)"
  unfolding RecordProgress_def own_RecordProgress_def projection_Bootstrap_def own_Bootstrap_def
  by (intro a_seq_quiet quiet_steps a_WithProviderScope a_WithConsumerScope y_recordProgressIn y_bootstrapIn)+

lemma y_recordRun: "yields (on_store R) (recordRun result)"
  unfolding recordRun_def by (intro y_consumers_changed consumer_kept_by_statement)

lemma y_outbox_row: "yields (on_store R) (outbox_Append env m)"
  by (intro y_store_intros keeps_outbox)

lemma a_PublishReconciled: "always R (PublishReconciled env cx result)"
  unfolding PublishReconciled_def reconciled_in_def WithConsumerReconciliation_def
  by (intro a_if a_seq_quiet quiet_steps quiet_event_New a_WithProviderScope a_withRecordedScope y_recordRun y_outbox_row y_authority)

lemma a_recorded_snapshot: "always R (withRecordedScope env cx reason True consumer fn)"
  unfolding withRecordedScope_def if_True
  by (intro a_ScopeFrom a_seq[OF a_RecordProviderAccess] a_seq_quiet[OF quiet_steps(4)] a_InTx_read_only)

lemma a_Reconcile: "always R (Reconcile env cx rep)"
  unfolding Reconcile_def Let_def WithConsumerReconciliationSnapshot_def WithProviderSnapshot_def
  by (intro a_seq_quiet quiet_steps a_ScopeFrom a_seq a_if a_recorded_snapshot) (simp add: a_return split: prod.split)

lemma a_snapshots:
  "always R (Snapshot env cx req)" "always R (own_Snapshot env cx req)"
  "always R (ProviderSnapshot env cx req)" "always R (own_ProviderSnapshot env cx req)"
  unfolding Snapshot_def own_Snapshot_def ProviderSnapshot_def own_ProviderSnapshot_def WithProviderSnapshot_def WithConsumerSnapshot_def
  by (intro a_seq_quiet quiet_steps a_seq a_recorded_snapshot a_return)+

lemma y_requireDeadLetter: "yields (on_store R) (requireDeadLetter k consumer)"
  unfolding requireDeadLetter_def by (intro y_authority)

lemma a_Replay: "always R (Replay env cx k consumer)"
proof -
  have "yields (on_store R) (replay_body env k consumer b cx')" for b cx'
    unfolding replay_body_def replay_append_def
    by (intro y_requireDeadLetter y_authority) (auto intro!: y_outbox_row y_authority split: option.split)
  then show ?thesis
    unfolding Replay_def by (intro a_seq_quiet quiet_steps a_WithProviderScope)
qed

lemma y_update_open: "yields (on_store R) (update_open k consumer f)"
  by (rule yieldsI) (auto simp: update_open_def Let_def seq_run(1) read_callers_run ensure_run on_callers_run
      intro!: caller_stepped caller_step.Dead_lettered letters_updated)

lemma y_evidence: "yields (on_store R) (replayedEvidence env k consumer)" "yields (on_store R) (supersededEvidence env k consumer)"
  unfolding replayedEvidence_def supersededEvidence_def
  by (intro y_authority) (auto intro!: y_authority split: option.split prod.split)

lemma y_close_body:
  "(\<And>k consumer. yields (on_store R) (evidence env k consumer)) \<Longrightarrow>
   yields (on_store R) (close_body env scope k consumer kind evidence b cx)"
  unfolding close_body_def by (intro y_requireDeadLetter y_update_open y_RecordAccessInTx y_authority)

lemma a_WithResolutionScope:
  assumes "\<And>scope cx'. cx_scope cx = Some scope \<Longrightarrow> marked cx cx' \<Longrightarrow> yields (on_store R) (fn BoundProvider cx')"
  shows "always R (WithResolutionScope env cx reason fn)"
  unfolding WithResolutionScope_def by (rule a_withRecordedScope) (rule assms)

lemma a_closures: "always R (letter_Resolve env cx k consumer)" "always R (Supersede env cx k consumer)"
  unfolding letter_Resolve_def Supersede_def resolver_close_def
  by (intro a_seq_quiet quiet_steps a_ScopeFrom a_WithResolutionScope y_close_body y_evidence)+

lemma a_Waive: "always R (Waive env cx k consumer given until)"
proof -
  have "yields (on_store R) (waive_body env scope k consumer reason u b cx')" for scope reason u b cx'
    unfolding waive_body_def by (intro y_requireDeadLetter y_update_open y_RecordAccessInTx y_authority)
  then show ?thesis
    unfolding Waive_def Let_def
    by (cases until) (auto intro!: a_seq_quiet quiet_steps a_ScopeFrom a_WithResolutionScope a_raise)
qed

end

end
