(* ===== verification/System.thy ===== *)
theory System
  imports Registry_Invariants Invitation_Acceptance Projection_Relations
begin

text \<open>
  The service as a whole: the operations it serves, in any order and with any outcome, and what holds of
  every state they reach.
\<close>

section \<open>The operations served\<close>

text \<open>
  One rule per operation that may write; each takes the world to the one the operation leaves, whether it
  returned or refused. A batch execution is served transaction by transaction, so that executions of one
  batch overlap as the lease lets them. Reads, which record the access at most, are served too. The platform's
  dispatcher moves between the operations: it delivers, records receipts and dead letters, and leaves a closed
  dead letter as it is. The platform's retention, which disposes of old rows, is not among the steps.
\<close>

inductive served :: "env \<Rightarrow> world \<Rightarrow> world \<Rightarrow> bool" for env where
  Tenant_request: "tenant_Request env cx rt w = (r1, w') \<Longrightarrow> served env w w'"
| Tenant_provision: "Provision env cx cmd w = (r2, w') \<Longrightarrow> served env w w'"
| Tenant_outcome: "coordinator_record env cx oc to detail w = (r3, w') \<Longrightarrow> served env w w'"
| Tenant_activate: "tenant_Activate env cx cmd w = (r4, w') \<Longrightarrow> served env w w'"
| Tenant_suspend: "tenant_Suspend env cx cmd w = (r4, w') \<Longrightarrow> served env w w'"
| Tenant_restore: "tenant_Restore env cx cmd w = (r4, w') \<Longrightarrow> served env w w'"
| Tenant_sweep: "SweepUnresolved env cx n w = (r5, w') \<Longrightarrow> served env w w'"
| Tenant_scheduled_sweep: "ScheduledSweepUnresolved env n w = (r5, w') \<Longrightarrow> served env w w'"
| Member_grant: "Grant env cx gr w = (r6, w') \<Longrightarrow> served env w w'"
| Member_suspend: "membership_Suspend env cx mc w = (r6, w') \<Longrightarrow> served env w w'"
| Member_revoke: "membership_Revoke env cx mc w = (r6, w') \<Longrightarrow> served env w w'"
| Member_restore: "membership_Restore env cx mc w = (r6, w') \<Longrightarrow> served env w w'"
| Member_provider: "providerTransition env cx tenantID ma mc w = (r6, w') \<Longrightarrow> served env w w'"
| Member_advance: "AdvanceVersions env cx advances reason w = (r7, w') \<Longrightarrow>
    list_all (\<lambda>a. av_above a < bigint_max) advances \<Longrightarrow> served env w w'"
| Offboarding_begin: "Begin env cx br w = (r8, w') \<Longrightarrow> served env w w'"
| Offboarding_freeze: "FreezeBatch env cx k tenantID n reason w = (r9, w') \<Longrightarrow> served env w w'"
| Offboarding_complete: "CompleteFreeze env cx k w = (r8, w') \<Longrightarrow> served env w w'"
| Offboarding_release: "Release env cx k w = (r8, w') \<Longrightarrow> served env w w'"
| Offboarding_deprovisioned: "RecordDeprovisioning env cx dep w = (r10, w') \<Longrightarrow> served env w w'"
| Offboarding_resend: "ResendDeprovisioning env cx k reason w = (r11, w') \<Longrightarrow> served env w w'"
| Offboarding_retire: "Retire env cx k v w = (r8, w') \<Longrightarrow> served env w w'"
| Offboarding_hold: "SetLegalHold env cx k hold reason w = (r12, w') \<Longrightarrow> served env w w'"
| Offboarding_raise: "Raise env cx rr w = (r13, w') \<Longrightarrow> served env w w'"
| Offboarding_resolve: "obligation_Resolve env cx res w = (r14, w') \<Longrightarrow> served env w w'"
| Offboarding_cancel: "offboarding_Cancel env cx cq w = (r8, w') \<Longrightarrow> served env w w'"
| Organization_register: "Register env cx rg w = (r15, w') \<Longrightarrow> served env w w'"
| Organization_change: "org_transition env cx oa gc w = (r15, w') \<Longrightarrow> served env w w'"
| Workspace_create: "Create env cx wc w = (r16, w') \<Longrightarrow> served env w w'"
| Workspace_change: "ws_transition env cx wa wcmd w = (r16, w') \<Longrightarrow> served env w w'"
| Invitation_issue: "Issue env cx iss w = (r17, w') \<Longrightarrow> served env w w'"
| Invitation_accept: "Accept env cx token w = (r18, w') \<Longrightarrow> served env w w'"
| Invitation_revoke: "invitation_Revoke env cx k w = (r19, w') \<Longrightarrow> served env w w'"
| Invitation_expire: "ExpireLapsed env cx size' w = (r20, w') \<Longrightarrow> served env w w'"
| Invitation_scheduled_expiry: "ScheduledExpireLapsed env size' w = (r20, w') \<Longrightarrow> served env w w'"
| Batch_preview: "PreviewBatch env cx bq classifier w = (r21, w') \<Longrightarrow> served env w w'"
| Batch_start: "WithTenantScope env cx (start_body k allowance actor lease at) w = (r22, w') \<Longrightarrow> served env w w'"
| Batch_item: "executeItem env cx batch lease item version reason w = (r23, w') \<Longrightarrow> batch_action_check batch \<Longrightarrow> served env w w'"
| Batch_failure: "record_failure env cx k lease position problem w = (r23, w') \<Longrightarrow> served env w w'"
| Batch_completion: "WithTenantScope env cx (complete_body k lease at) w = (r21, w') \<Longrightarrow> served env w w'"
| Authority_bootstrap: "Bootstrap env bs w = (r24, w') \<Longrightarrow> served env w w'"
| Authority_grant: "provider_Grant env cx principalID scope kind reason w = (r25, w') \<Longrightarrow> served env w w'"
| Authority_revoke: "provider_Revoke env cx k reason w = (r25, w') \<Longrightarrow> served env w w'"
| Authority_request: "activation_Request env cx k duration reason w = (r26, w') \<Longrightarrow> served env w w'"
| Authority_decide: "activation_Decide env cx k d reason w = (r26, w') \<Longrightarrow> served env w w'"
| Authority_end: "activation_End env cx k inForce reason w = (r26, w') \<Longrightarrow> served env w w'"
| Authority_emergency: "RecordEmergencyUse env principalID w = (r27, w') \<Longrightarrow> served env w w'"
| Authority_pause: "SetPause env cx paused reason w = (r28, w') \<Longrightarrow> served env w w'"
| Authority_withdrawn: "InTx env (PublishWithdrawnGrants env) w = (r29, w') \<Longrightarrow> served env w w'"
| Administrator_grant: "admin_Grant env cx tenantID principalID reason w = (r30, w') \<Longrightarrow> served env w w'"
| Administrator_revoke: "admin_Revoke env cx tenantID k reason w = (r31, w') \<Longrightarrow> served env w w'"
| Reporter_registered: "reporter_Register env cx rq w = (r32, w') \<Longrightarrow> served env w w'"
| Reporter_retired: "reporter_Retire env cx k version reason w = (r32, w') \<Longrightarrow> served env w w'"
| Access_reviewed: "review_Record env cx rw w = (r33, w') \<Longrightarrow> served env w w'"
| Context_verified: "Verify env cx vr w = (r34, w') \<Longrightarrow> served env w w'"
| Context_checked: "consumer_Verify env cx vr w = (r34, w') \<Longrightarrow> served env w w'"
| Context_rated: "RecordRate env cx rate w = (r35, w') \<Longrightarrow> served env w w'"
| Consumer_registered: "consumer_Register env cx reg w = (r36, w') \<Longrightarrow> served env w w'"
| Consumer_retired: "consumer_Retire env cx consumer w = (r37, w') \<Longrightarrow> served env w w'"
| Consumer_progressed: "RecordProgress env cx progress w = (r36, w') \<Longrightarrow> served env w w'"
| Consumer_own_progress: "own_RecordProgress env cx progress w = (r36, w') \<Longrightarrow> served env w w'"
| Consumer_bootstrapped: "projection_Bootstrap env cx consumer mark w = (r36, w') \<Longrightarrow> served env w w'"
| Consumer_own_bootstrap: "own_Bootstrap env cx consumer mark w = (r36, w') \<Longrightarrow> served env w w'"
| Snapshot_taken: "Snapshot env cx sr w = (r38, w') \<Longrightarrow> served env w w'"
| Snapshot_own: "own_Snapshot env cx sr w = (r38, w') \<Longrightarrow> served env w w'"
| Snapshot_provider: "ProviderSnapshot env cx sr w = (r39, w') \<Longrightarrow> served env w w'"
| Snapshot_own_provider: "own_ProviderSnapshot env cx sr w = (r39, w') \<Longrightarrow> served env w w'"
| Projection_reconciled: "Reconcile env cx rep w = (r40, w') \<Longrightarrow> served env w w'"
| Projection_published: "PublishReconciled env cx result w = (r41, w') \<Longrightarrow> served env w w'"
| Letter_replayed: "Replay env cx k consumer w = (r42, w') \<Longrightarrow> served env w w'"
| Letter_resolved: "letter_Resolve env cx k consumer w = (r43, w') \<Longrightarrow> served env w w'"
| Letter_superseded: "Supersede env cx k consumer w = (r43, w') \<Longrightarrow> served env w w'"
| Letter_waived: "Waive env cx k consumer reason until w = (r44, w') \<Longrightarrow> served env w w'"
| Dispatched: "letters_kept (dead_letters (callers (store w))) letters \<Longrightarrow> store w' = (store w)\<lparr>callers := (callers (store w))
    \<lparr>deliveries := delivered, receipts := received, dead_letters := letters\<rparr>\<rparr> \<Longrightarrow> served env w w'"
| Recorded: "store w' = (store w)\<lparr>audit := audit (store w) @ accesses, idem_log := calls\<rparr> \<Longrightarrow> served env w w'"
| Untouched: "store w' = store w \<Longrightarrow> served env w w'"

text \<open>Every relation under the contract of every service holds across any sequence of operations.\<close>

context system_relation
begin

lemma dispatched:
  assumes "letters_kept (dead_letters (callers s)) letters"
  shows "R s (s\<lparr>callers := (callers s)\<lparr>deliveries := ds, receipts := rs, dead_letters := letters\<rparr>\<rparr>)"
proof -
  let ?s1 = "s\<lparr>callers := (callers s)\<lparr>deliveries := ds\<rparr>\<rparr>"
  let ?s2 = "s\<lparr>callers := (callers s)\<lparr>deliveries := ds, receipts := rs\<rparr>\<rparr>"
  have "R s ?s1" by (intro caller_law caller_step.Delivered)
  moreover have "R ?s1 ?s2" using caller_law[OF caller_step.Acknowledged[where c = "callers ?s1" and rs = rs]] by simp
  moreover have "R ?s2 (s\<lparr>callers := (callers s)\<lparr>deliveries := ds, receipts := rs, dead_letters := letters\<rparr>\<rparr>)"
    using caller_law[OF caller_step.Dead_lettered[where c = "callers ?s2" and ls = letters]] assms by (simp add: letters_kept_def)
  ultimately show ?thesis by (blast intro: store_trans)
qed

lemma served_related: "served env w w' \<Longrightarrow> R (store w) (store w')"
proof (induction rule: served.induct)
  case (Member_advance cx advances reason w r7 w')
  then have "always R (AdvanceVersions env cx advances reason)"
    by (intro a_AdvanceVersions) (auto simp: list_all_iff)
  then show ?case using Member_advance(1) by (rule alwaysD)
next
  case (Batch_item cx batch lease item version reason w r23 w')
  then have "always R (executeItem env cx batch lease item version reason)"
    by (intro a_executeItem) (auto simp: batch_action_check_def)
  then show ?case using Batch_item(1) by (rule alwaysD)
next
  case (Dispatched w letters w' delivered received)
  then show ?case using dispatched by simp
next
  case (Recorded w' w accesses calls)
  then show ?case
    using store_trans[OF keeps_audit keeps_idem] by simp
next
  case (Untouched w' w)
  then show ?case by (simp add: store_refl)
qed (erule alwaysD[rotated], intro TrueI a_Request a_Provision a_record a_commands a_sweeps a_Grant a_membership_commands
    a_providerTransition a_Begin a_FreezeBatch a_CompleteFreeze a_Release a_RecordDeprovisioning a_Resend a_Retire
    a_SetLegalHold a_Raise a_Resolve a_Cancel a_Register a_org_transition a_Create a_ws_transition a_Issue a_Accept
    a_invitation_Revoke a_expiry a_PreviewBatch a_WithTenantScope y_start_body a_record_failure y_complete_body
    a_Bootstrap a_provider_Grant a_provider_Revoke a_activation_Request a_activation_Decide a_activation_End
    a_RecordEmergencyUse a_SetPause a_PublishWithdrawnGrants a_admin_Grant a_admin_Revoke a_reporter_Register
    a_reporter_Retire a_review_Record a_Verify a_RecordRate a_consumer_Register a_consumer_Retire a_progress a_snapshots
    a_Reconcile a_PublishReconciled a_Replay a_closures a_Waive)+

lemma reached_related: "(served env)\<^sup>*\<^sup>* w w' \<Longrightarrow> R (store w) (store w')"
  by (induction rule: rtranclp_induct) (auto intro: store_refl store_trans dest: served_related)

end

section \<open>What holds of every state\<close>

definition control_wf :: "store \<Rightarrow> bool" where
  "control_wf s \<longleftrightarrow>
     tenants_wf s \<and> memberships_wf s \<and> freezes_wf s \<and> coordinated s \<and> sponsored s \<and> invitations_wf s \<and>
     batches_ok s \<and> callers_wf (callers s)"

text \<open>The database as the migrations leave it.\<close>

definition empty_store :: store where
  "empty_store = \<lparr>tenants = [], provisioning = [], tenant_events = [], memberships = [], membership_events = [],
     organizations = [], workspaces = [], offboardings = [], obligations = [], freezes = [], invitations = [],
     batches = [], batch_items = [], callers = no_callers, outbox = [], audit = [], idem_log = []\<rparr>"

lemma empty_store_wf: "control_wf empty_store"
  by (simp add: control_wf_def empty_store_def tenants_wf_def memberships_wf_def freezes_wf_def freezes_ok_def
      no_callers_wf coordinated_def live_tenants_def leaving_tenants_def sponsored_def invitations_wf_def batches_ok_def keyed_def)

lemma reached_wf:
  assumes "(served env)\<^sup>*\<^sup>* w w'" "control_wf (store w)"
  shows "control_wf (store w')"
  using assms(2) system_stamps.reached_related[OF assms(1)] system_membership_stamps.reached_related[OF assms(1)]
    system_freezes.reached_related[OF assms(1)] system_coordination.reached_related[OF assms(1)]
    sponsorship.reached_related[OF assms(1)] system_invitations.reached_related[OF assms(1)]
    batch_actions.reached_related[OF assms(1)] system_records.reached_related[OF assms(1)]
  by (simp add: control_wf_def preserved_def invitations_advanced_def on_records_def)



lemma count_list_distinct: "distinct xs \<Longrightarrow> count_list xs x = (if x \<in> set xs then 1 else 0)"
  by (induction xs) auto

lemma live_count:
  "length (filter (\<lambda>r. ob_tenant r = k \<and> \<not> finished r) rows) = count_list (map ob_tenant (filter (\<lambda>r. \<not> finished r) rows)) k"
  by (induction rows) auto

text \<open>
  (C12) In every state reached from a well-formed one a Tenant is in the offboarding state exactly when one
  offboarding of it, and no more than one, is under way.
\<close>

theorem offboarding_under_way:
  assumes "control_wf (store w)" "(served env)\<^sup>*\<^sup>* w w'" "row_of TenantID k (tenants (store w')) = Some t"
  shows "Status t = TenantOffboarding \<longleftrightarrow>
    length (filter (\<lambda>r. ob_tenant r = k \<and> \<not> finished r) (offboardings (store w'))) = 1"
proof -
  have "control_wf (store w')"
    using assms(2,1) by (rule reached_wf)
  then have c: "keyed TenantID (tenants (store w'))" "distinct (live_tenants (store w'))"
    "set (live_tenants (store w')) = leaving_tenants (store w')" by (simp_all add: control_wf_def coordinated_def)
  have "length (filter (\<lambda>r. ob_tenant r = k \<and> \<not> finished r) (offboardings (store w'))) = count_list (live_tenants (store w')) k"
    unfolding live_tenants_def by (rule live_count)
  also have "\<dots> = (if k \<in> leaving_tenants (store w') then 1 else 0)"
    using c(2,3) by (simp add: count_list_distinct)
  finally show ?thesis using c(1) assms(3) by (simp add: leaving_iff)
qed

section \<open>A token is taken once\<close>

lemma accepted_row:
  assumes "data w' = taken env caller at scope sv result e i (data w)" "i \<in> set (invitations (store w))" "keyed iv_id (invitations (store w))"
  shows "row_of iv_id (iv_id i) (invitations (store w')) = Some (acceptStatement caller at i)"
proof -
  have "invitations (store w') = change_row iv_id (iv_id i) (acceptStatement caller at) (invitations (store w))"
    using arg_cong[OF assms(1), of invitations] by (simp add: data_def taken_def membership_written_def Let_def)
  then show ?thesis using row_of_keyed[OF assms(3,2)] by (simp add: row_of_change_row acceptStatement_def)
qed

text \<open>
  (C7) A token is taken at most once: after it was accepted, whatever the service does next and
  whoever presents it, no acceptance of it succeeds.
\<close>

theorem Accept_once:
  assumes "Accept env cx token w = (Inr (record, result), w')" "invitations_wf (store w)" "(served env)\<^sup>*\<^sup>* w' w''"
  shows "Accept env cx' token w'' \<noteq> (Inr x, w3)"
proof
  assume again: "Accept env cx' token w'' = (Inr x, w3)"
  obtain i :: invitation and scope and t :: tenant_record and e where i: "i \<in> set (invitations (store w))" "iv_tokenHash i = token_Hash env token"
    and d: "data w' = taken env (sc_actor scope) (clock env (ticks w)) (acting_in (iv_tenant i) scope) (SecurityVersion t) result e i (data w)"
    using Accept_taken[OF assms(1)] by blast
  let ?i = "acceptStatement (sc_actor scope) (clock env (ticks w)) i"
  have row: "row_of iv_id (iv_id i) (invitations (store w')) = Some ?i"
    using accepted_row[OF d i(1)] assms(2) by (simp add: invitations_wf_def)
  have "served env w w'" using assms(1) by (rule served.Invitation_accept)
  then have wf: "invitations_wf (store w')"
    using system_invitations.served_related assms(2) by (auto simp: invitations_advanced_def)
  have "invitations_advanced (store w') (store w'')"
    using assms(3) by (rule system_invitations.reached_related)
  then obtain i' where wf'': "invitations_wf (store w'')" and "row_of iv_id (iv_id i) (invitations (store w'')) = Some i'"
    and "invitation_advanced ?i i'"
    using wf row unfolding invitations_advanced_def by blast
  then have same: "row_of iv_id (iv_id i) (invitations (store w'')) = Some ?i"
    by (simp add: invitation_advanced_def acceptStatement_def)
  have key: "row_of iv_tokenHash (iv_tokenHash j) (invitations (store w'')) = Some j" if "j \<in> set (invitations (store w''))" for j
    by (rule row_of_keyed[OF _ that]) (use wf'' in \<open>simp add: invitations_wf_def\<close>)
  obtain j :: invitation where j: "j \<in> set (invitations (store w''))" "iv_tokenHash j = token_Hash env token" "iv_state j = InvitationPending"
    using Accept_taken[of env cx' token w'' "fst x" "snd x" w3] again by auto
  have "j = ?i"
    using key[OF j(1)] key[of ?i] row_of_SomeD[OF same] j(2) i(2) by (simp add: acceptStatement_def)
  then show False using j(3) by (simp add: acceptStatement_def)
qed

section \<open>An item is applied once\<close>

lemma found_item:
  assumes "keyed item_key items" "find (at_item b k p) items = Some j"
  shows "row_of item_key (k, p) items = Some j"
proof -
  have "j \<in> set items" "item_key j = (k, p)" using assms(2) by (auto simp: find_Some_iff at_item_def item_key_def)
  then show ?thesis using row_of_keyed[OF assms(1)] by metis
qed

lemma executed_item_settled:
  assumes "executeItem env cx batch lease item version reason w = (Inr u, w')" "batches_ok (store w)"
  shows "\<exists>j. row_of item_key (ba_id batch, bi_position item) (batch_items (store w')) = Some j \<and> bi_outcome j \<noteq> None"
  using assms(1)
proof (rule executeItem_run)
  fix at j scope
  assume j: "find (at_item (bindTenant scope) (ba_id batch) (bi_position item)) (batch_items (store w)) = Some j" "bi_outcome j \<noteq> None"
    and d: "data w' = renewed (ba_id batch) at (data w)"
  have "batch_items (store w') = batch_items (store w)"
    using arg_cong[OF d, of batch_items] by (simp add: data_def renewed_def)
  then show ?thesis using found_item[OF _ j(1)] j(2) assms(2) by (auto simp: batches_ok_def)
next
  fix at j m to p t scope m' acceptedAt e
  assume j: "find (at_item (bindTenant scope) (ba_id batch) (bi_position item)) (batch_items (store w)) = Some j" "bi_outcome j = None"
    and d: "data w' = applied (bindTenant scope) (ba_id batch) (bi_position item) (ba_action batch) scope (SecurityVersion t)
      at acceptedAt reason m' e (data w)"
  have "batch_items (store w') = settled (at_item (bindTenant scope) (ba_id batch) (bi_position item))
      (\<lambda>_. OutcomeSucceeded acceptedAt e (m_version m')) (batch_items (store w))"
    using arg_cong[OF d, of batch_items] by (simp add: data_def applied_def)
  moreover have "at_item (bindTenant scope) (ba_id batch) (bi_position item) j" using j(1) by (auto simp: find_Some_iff)
  ultimately show ?thesis using found_item[OF _ j(1)] j(2) assms(2) by (auto simp: batches_ok_def row_of_settled)
qed

text \<open>
  (C8) An item of a batch is applied at most once: after a request applied it, or found its outcome, whatever the
  service does next, a later request that comes to it, resuming the batch under any lease, changes no Membership
  and publishes nothing.
\<close>

theorem item_applied_once:
  assumes "executeItem env cx batch lease item version reason w = (Inr u, w')" "control_wf (store w)"
    "batch_action_check batch" "(served env)\<^sup>*\<^sup>* w' w''"
    "executeItem env cx' batch lease' item version reason w'' = (Inr u', w3)"
  shows "memberships (store w3) = memberships (store w'') \<and> outbox (store w3) = outbox (store w'') \<and>
    membership_events (store w3) = membership_events (store w'')"
proof -
  have "served env w w'" using assms(1,3) by (rule served.Batch_item)
  then have wf: "batches_ok (store w'')"
    using reached_wf[OF converse_rtranclp_into_rtranclp[of "served env", OF _ assms(4)] assms(2)] by (simp add: control_wf_def)
  have ok: "batches_ok (store w)" using assms(2) by (simp add: control_wf_def)
  obtain j where j: "row_of item_key (ba_id batch, bi_position item) (batch_items (store w')) = Some j" "bi_outcome j \<noteq> None"
    using executed_item_settled[OF assms(1) ok] by blast
  then have j'': "row_of item_key (ba_id batch, bi_position item) (batch_items (store w'')) = Some j"
    using system_batches.reached_related[OF assms(4)] by (fastforce simp: batches_advanced_def item_advanced_def)
  show ?thesis
    using assms(5)
  proof (rule executeItem_run)
    fix at i scope
    assume "data w3 = renewed (ba_id batch) at (data w'')"
    from arg_cong[OF this, of memberships] arg_cong[OF this, of outbox] arg_cong[OF this, of membership_events]
    show ?thesis by (simp add: data_def renewed_def)
  next
    fix at i m to p t scope m' acceptedAt e
    assume "find (at_item (bindTenant scope) (ba_id batch) (bi_position item)) (batch_items (store w'')) = Some i" "bi_outcome i = None"
    then have False using found_item[of "batch_items (store w'')"] wf j'' j(2) by (auto simp: batches_ok_def)
    then show ?thesis by simp
  qed
qed

section \<open>A whole execution is a sequence of served transactions\<close>

definition serves :: "env \<Rightarrow> 'a tx \<Rightarrow> bool" where
  "serves env m \<longleftrightarrow> (\<forall>w r w'. m w = (r, w') \<longrightarrow> (served env)\<^sup>*\<^sup>* w w')"

lemma serves_one: "(\<And>w r w'. m w = (r, w') \<Longrightarrow> served env w w') \<Longrightarrow> serves env m"
  by (auto simp: serves_def)

lemma serves_quiet: "quiet m \<Longrightarrow> serves env m"
  by (rule serves_one, rule served.Untouched) (auto simp: quiet_def)

lemmas serves_steps = quiet_steps[THEN serves_quiet]

lemma serves_seq:
  assumes "serves env m" "\<And>x. serves env (f x)"
  shows "serves env (seq m f)"
  unfolding serves_def
proof (intro allI impI)
  fix w r w' assume run: "seq m f w = (r, w')"
  obtain q w1 where m: "m w = (q, w1)" by fastforce
  have first: "(served env)\<^sup>*\<^sup>* w w1" using assms(1) m by (auto simp: serves_def)
  show "(served env)\<^sup>*\<^sup>* w w'"
  proof (cases q)
    case (Inl e)
    then show ?thesis using run m first by (simp add: seq_def)
  next
    case (Inr x)
    then have "f x w1 = (r, w')" using run m by (simp add: seq_def)
    then have "(served env)\<^sup>*\<^sup>* w1 w'" using assms(2) by (auto simp: serves_def)
    then show ?thesis using first by (rule rtranclp_trans[rotated])
  qed
qed

lemma serves_caught: "serves env m \<Longrightarrow> serves env (caught m)"
  by (auto simp: serves_def caught_def split: prod.splits)

lemma serves_execute_items:
  assumes "batch_action_check batch"
  shows "serves env (execute_items env cx batch lease classify reason failures items)"
proof (induction items arbitrary: failures)
  case (Cons item items)
  have item: "serves env (caught (executeItem env cx batch lease item (the (bi_versionRead item)) reason))"
    by (rule serves_caught, rule serves_one) (rule served.Batch_item[OF _ assms])
  have fail: "serves env (record_failure env cx (ba_id batch) lease (bi_position item) problem)" for problem
    by (rule serves_one) (rule served.Batch_failure)
  have "serves env (case r of Inr u \<Rightarrow> execute_items env cx batch lease classify reason failures items
        | Inl e \<Rightarrow> seq (gets (\<lambda>w. cancelled env (ticks w))) (\<lambda>ended.
            if ended \<or> e = ErrBatchLeaseLost \<or> e = haltError then raise e
            else seq (record_failure env cx (ba_id batch) lease (bi_position item) (classify e)) (\<lambda>_.
              execute_items env cx batch lease classify reason (Suc failures) items)))" for r :: "error + unit"
    by (cases r) (auto intro!: Cons.IH serves_seq fail serves_steps)
  then show ?case by (auto intro!: serves_seq item Cons.IH serves_steps)
qed (simp add: serves_steps)

lemma started_action:
  assumes "start_body k failOnErrors actor lease at b cx w = (Inr (r', items, answered), w')" "batches_ok (store w)"
  shows "batch_action_check r'"
proof -
  obtain r where r: "batch_of b k (store w) = Some r" using assms(1) by (rule start_body_loads)
  have "r \<in> set (batches (store w))" using batch_of_SomeD[OF r] row_of_SomeD by fastforce
  then have "batch_action_check r" using assms(2) by (auto simp: batches_ok_def list_all_iff)
  moreover have "ba_action r' = ba_action r"
    using assms(1)[unfolded start_body_def seq_loadBatch[OF r] prod.case]
    by (cases "ba_state r")
      (auto simp: seq_run(1) ensure_run put_batch_def write_db_run ClaimAdopted_def gets_run return_run raise_run split: if_splits)
  ultimately show ?thesis by (simp add: batch_action_check_def)
qed

text \<open>The same, from a given store on.\<close>

definition serves_from :: "env \<Rightarrow> store \<Rightarrow> 'a tx \<Rightarrow> bool" where
  "serves_from env s m \<longleftrightarrow> (\<forall>w r w'. store w = s \<longrightarrow> m w = (r, w') \<longrightarrow> (served env)\<^sup>*\<^sup>* w w')"

lemma serves_from_quiet:
  assumes "quiet m" "\<And>x. serves_from env s (f x)"
  shows "serves_from env s (seq m f)"
  unfolding serves_from_def
proof (intro allI impI)
  fix w r w' assume s: "store w = s" and run: "seq m f w = (r, w')"
  obtain q w1 where m: "m w = (q, w1)" by fastforce
  have st: "store w1 = store w" using assms(1) m by (auto simp: quiet_def)
  then have first: "served env w w1" by (rule served.Untouched)
  show "(served env)\<^sup>*\<^sup>* w w'"
  proof (cases q)
    case (Inl e)
    then show ?thesis using run m first by (auto simp: seq_def)
  next
    case (Inr x)
    then have "f x w1 = (r, w')" using run m by (simp add: seq_def)
    then have "(served env)\<^sup>*\<^sup>* w1 w'" using assms(2)[of x] st s by (auto simp: serves_from_def)
    then show ?thesis using first by (rule converse_rtranclp_into_rtranclp[of "served env", rotated])
  qed
qed

lemma serves_from_start:
  assumes "batches_ok s" "\<And>batch items answered. batch_action_check batch \<Longrightarrow> serves env (tail (batch, items, answered))"
  shows "serves_from env s (seq (WithTenantScope env cx (start_body k failOnErrors actor lease at)) tail)"
  unfolding serves_from_def
proof (intro allI impI)
  fix w r w' assume s: "store w = s" and run: "seq (WithTenantScope env cx (start_body k failOnErrors actor lease at)) tail w = (r, w')"
  obtain q w1 where m: "WithTenantScope env cx (start_body k failOnErrors actor lease at) w = (q, w1)" by fastforce
  then have first: "served env w w1" by (rule served.Batch_start)
  show "(served env)\<^sup>*\<^sup>* w w'"
  proof (cases q)
    case (Inl e)
    then show ?thesis using run m first by (auto simp: seq_def)
  next
    case (Inr x)
    obtain batch items answered where x: "x = (batch, items, answered)" by (cases x)
    obtain scope cx1 v where e: "entered [] w v"
      and body: "start_body k failOnErrors actor lease at (bindTenant scope) cx1 v = (Inr (batch, items, answered), w1)"
      using m[unfolded Inr x] by (rule WithTenantScope_enters)
    have "batches_ok (store v)" using assms(1) entered_fields[OF e] s by (simp add: batches_ok_def)
    then have "serves env (tail x)" using assms(2) started_action[OF body] x by simp
    moreover have "tail x w1 = (r, w')" using run m Inr by (simp add: seq_def)
    ultimately have "(served env)\<^sup>*\<^sup>* w1 w'" by (auto simp: serves_def)
    then show ?thesis using first by (rule converse_rtranclp_into_rtranclp[of "served env", rotated])
  qed
qed

lemma ExecuteBatch_serves:
  assumes "batches_ok s"
  shows "serves_from env s (ExecuteBatch env cx k failOnErrors classifier)"
proof -
  have raises: "serves_from env s (raise e)" for e by (auto simp: serves_from_def raise_def)
  have complete: "serves env (WithTenantScope env cx' (complete_body k lease completed))" for cx' lease completed
    by (rule serves_one) (rule served.Batch_completion)
  show ?thesis
    unfolding ExecuteBatch_def Let_def
    by (cases classifier)
      (auto intro!: raises serves_from_quiet quiet_steps serves_from_start assms complete serves_steps serves_seq
        serves_execute_items simp del: seq_return)
qed

end
