(* ===== verification/Lifecycle_Spec.thy ===== *)
theory Lifecycle_Spec
  imports System
begin

text \<open>
  The abstract specification of the service: every aggregate has a status, and a status moves along its
  lifecycle table, alone or, for a Tenant and its offboarding, together. The service refines it: forget
  everything but the statuses, and every operation is a sequence of such moves.
\<close>

section \<open>The specification\<close>

record lifecycles =
  lc_tenant :: "uuid \<Rightarrow> tenant_state option"
  lc_membership :: "uuid \<Rightarrow> membership_state option"
  lc_organization :: "uuid \<Rightarrow> org_state option"
  lc_workspace :: "uuid \<Rightarrow> ws_state option"
  lc_invitation :: "uuid \<Rightarrow> invitation_state option"
  lc_offboarding :: "uuid \<Rightarrow> (uuid \<times> stage) option"

inductive status_move :: "lifecycles \<Rightarrow> lifecycles \<Rightarrow> bool" where
  Tenant_requested: "lc_tenant a k = None \<Longrightarrow> status_move a (a\<lparr>lc_tenant := (lc_tenant a)(k \<mapsto> TenantRequested)\<rparr>)"
| Tenant_moves: "lc_tenant a k = Some st \<Longrightarrow> standalone act \<Longrightarrow> tenant_Resolve act st = Inr to \<Longrightarrow>
    status_move a (a\<lparr>lc_tenant := (lc_tenant a)(k \<mapsto> to)\<rparr>)"
| Membership_granted: "lc_membership a k = None \<Longrightarrow> status_move a (a\<lparr>lc_membership := (lc_membership a)(k \<mapsto> MembershipActive)\<rparr>)"
| Membership_moves: "lc_membership a k = Some st \<Longrightarrow> membership_Resolve act st = Inr (to, lane) \<Longrightarrow>
    status_move a (a\<lparr>lc_membership := (lc_membership a)(k \<mapsto> to)\<rparr>)"
| Organization_registered: "lc_organization a k = None \<Longrightarrow> status_move a (a\<lparr>lc_organization := (lc_organization a)(k \<mapsto> OrgActive)\<rparr>)"
| Organization_moves: "lc_organization a k = Some st \<Longrightarrow> org_Resolve act st = Inr to \<Longrightarrow>
    status_move a (a\<lparr>lc_organization := (lc_organization a)(k \<mapsto> to)\<rparr>)"
| Workspace_created: "lc_workspace a k = None \<Longrightarrow> status_move a (a\<lparr>lc_workspace := (lc_workspace a)(k \<mapsto> WsActive)\<rparr>)"
| Workspace_moves: "lc_workspace a k = Some st \<Longrightarrow> ws_Resolve act st = Inr to \<Longrightarrow>
    status_move a (a\<lparr>lc_workspace := (lc_workspace a)(k \<mapsto> to)\<rparr>)"
| Invitation_issued: "lc_invitation a k = None \<Longrightarrow> status_move a (a\<lparr>lc_invitation := (lc_invitation a)(k \<mapsto> InvitationPending)\<rparr>)"
| Invitation_settled: "lc_invitation a k = Some st \<Longrightarrow> invitation_Resolve act st = Inr to \<Longrightarrow>
    status_move a (a\<lparr>lc_invitation := (lc_invitation a)(k \<mapsto> to)\<rparr>)"
| Offboarding_begun: "lc_tenant a t = Some st \<Longrightarrow> tenant_Resolve TenantBeginOffboarding st = Inr to \<Longrightarrow> lc_offboarding a k = None \<Longrightarrow>
    status_move a (a\<lparr>lc_tenant := (lc_tenant a)(t \<mapsto> to), lc_offboarding := (lc_offboarding a)(k \<mapsto> (t, StageFreeze))\<rparr>)"
| Offboarding_advances: "lc_offboarding a k = Some (t, st) \<Longrightarrow> stage_Next st = Some next \<Longrightarrow> next \<noteq> StageRetired \<Longrightarrow>
    status_move a (a\<lparr>lc_offboarding := (lc_offboarding a)(k \<mapsto> (t, next))\<rparr>)"
| Offboarding_retires: "lc_offboarding a k = Some (t, StageRelease) \<Longrightarrow> lc_tenant a t = Some st \<Longrightarrow>
    tenant_Resolve TenantRetire st = Inr to \<Longrightarrow>
    status_move a (a\<lparr>lc_tenant := (lc_tenant a)(t \<mapsto> to), lc_offboarding := (lc_offboarding a)(k \<mapsto> (t, StageRetired))\<rparr>)"
| Offboarding_cancelled: "lc_offboarding a k = Some (t, stage) \<Longrightarrow> stage_Cancellable stage \<Longrightarrow> lc_tenant a t = Some st \<Longrightarrow>
    act = TenantCancelOffboardingToActive \<or> act = TenantCancelOffboardingToSuspended \<Longrightarrow> tenant_Resolve act st = Inr to \<Longrightarrow>
    status_move a (a\<lparr>lc_tenant := (lc_tenant a)(t \<mapsto> to), lc_offboarding := (lc_offboarding a)(k \<mapsto> (t, StageCancelled))\<rparr>)"

section \<open>The abstraction\<close>

definition column :: "('r \<Rightarrow> uuid) \<Rightarrow> ('r \<Rightarrow> 'c) \<Rightarrow> 'r list \<Rightarrow> uuid \<Rightarrow> 'c option" where
  "column key f rows k = map_option f (row_of key k rows)"

definition statuses :: "store \<Rightarrow> lifecycles" where
  "statuses s = \<lparr>lc_tenant = column TenantID Status (tenants s), lc_membership = column m_id m_status (memberships s),
     lc_organization = column o_id o_status (organizations s), lc_workspace = column ws_id ws_status (workspaces s),
     lc_invitation = column iv_id iv_state (invitations s),
     lc_offboarding = column ob_id (\<lambda>r. (ob_tenant r, ob_stage r)) (offboardings s)\<rparr>"

lemma column_append:
  "row_of key (key r) rows = None \<Longrightarrow> column key f (rows @ [r]) = (column key f rows)(key r \<mapsto> f r)"
  by (auto simp: column_def fun_eq_iff row_of_append split: option.splits)

lemma column_put:
  "row_of key (key r') rows = Some r \<Longrightarrow> column key f (put_row key r' rows) = (column key f rows)(key r' \<mapsto> f r')"
  by (auto simp: column_def fun_eq_iff row_of_put_row)

lemma column_change:
  "(\<And>x. key (g x) = key x) \<Longrightarrow> row_of key k rows = Some r \<Longrightarrow>
   column key f (change_row key k g rows) = (column key f rows)(k \<mapsto> f (g r))"
  by (auto simp: column_def fun_eq_iff row_of_change_row)

lemma column_change_same:
  "(\<And>x. key (g x) = key x) \<Longrightarrow> (\<And>x. f (g x) = f x) \<Longrightarrow> column key f (change_row key k g rows) = column key f rows"
  by (auto simp: column_def fun_eq_iff row_of_change_row option.map_comp comp_def)

text \<open>Refinement as a relation on stores; the invitations have unique identifiers.\<close>

definition refines :: "store \<Rightarrow> store \<Rightarrow> bool" where
  "refines s s' \<longleftrightarrow>
     keyed iv_id (invitations s) \<longrightarrow> keyed iv_id (invitations s') \<and> status_move\<^sup>*\<^sup>* (statuses s) (statuses s')"

lemma refines_same: "statuses s' = statuses s \<Longrightarrow> map iv_id (invitations s') = map iv_id (invitations s) \<Longrightarrow> refines s s'"
  by (simp add: refines_def keyed_def)

lemma refines_step:
  "status_move (statuses s) (statuses s') \<Longrightarrow> map iv_id (invitations s') = map iv_id (invitations s) \<Longrightarrow> refines s s'"
  by (auto simp: refines_def keyed_def)

lemma refines_trans: "refines s t \<Longrightarrow> refines t u \<Longrightarrow> refines s u"
  by (auto simp: refines_def)

lemma statuses_tenant:
  assumes "row_of TenantID (TenantID t) (tenants s) = Some t" "TenantID t' = TenantID t"
  shows "statuses (s\<lparr>tenants := put_row TenantID t' (tenants s)\<rparr>) =
    (statuses s)\<lparr>lc_tenant := (lc_tenant (statuses s))(TenantID t \<mapsto> Status t')\<rparr>" "lc_tenant (statuses s) (TenantID t) = Some (Status t)"
  using assms column_put[of TenantID t' "tenants s" t Status] by (simp_all add: statuses_def column_def)

lemma movable_rule:
  assumes "movable a t s"
  obtains rule where "tenant_transitions a = Some rule" "tenant_Resolve a (Status t) = Inr (r_to rule)"
    "statuses (moved a at t s) = (statuses s)\<lparr>lc_tenant := (lc_tenant (statuses s))(TenantID t \<mapsto> r_to rule)\<rparr>"
    "lc_tenant (statuses s) (TenantID t) = Some (Status t)"
  using assms statuses_tenant[of t s] unfolding movable_def moved_def by auto

lemma statuses_offboarding:
  "statuses (s\<lparr>offboardings := rows\<rparr>) = (statuses s)\<lparr>lc_offboarding := column ob_id (\<lambda>r. (ob_tenant r, ob_stage r)) rows\<rparr>"
  "lc_offboarding (statuses s) = column ob_id (\<lambda>r. (ob_tenant r, ob_stage r)) (offboardings s)"
  by (simp_all add: statuses_def)

lemma refines_begin:
  assumes "movable TenantBeginOffboarding t s" "row_of ob_id (ob_id r) (offboardings s) = None" "new_offboarding t r"
  shows "refines s (opened r (moved TenantBeginOffboarding at t s))"
proof (rule refines_step)
  obtain rule where r: "tenant_transitions TenantBeginOffboarding = Some rule"
      "tenant_Resolve TenantBeginOffboarding (Status t) = Inr (r_to rule)"
    and m: "statuses (moved TenantBeginOffboarding at t s) = (statuses s)\<lparr>lc_tenant := (lc_tenant (statuses s))(TenantID t \<mapsto> r_to rule)\<rparr>"
    and l: "lc_tenant (statuses s) (TenantID t) = Some (Status t)"
    using assms(1) by (rule movable_rule)
  have o: "lc_offboarding (statuses s) (ob_id r) = None" using assms(2) by (simp add: statuses_def column_def)
  have "statuses (opened r (moved TenantBeginOffboarding at t s)) =
    (statuses s)\<lparr>lc_tenant := (lc_tenant (statuses s))(TenantID t \<mapsto> r_to rule),
      lc_offboarding := (lc_offboarding (statuses s))(ob_id r \<mapsto> (TenantID t, StageFreeze))\<rparr>"
    using m assms(2,3) by (simp add: opened_def statuses_offboarding column_append new_offboarding_def moved_def)
  then show "status_move (statuses s) (statuses (opened r (moved TenantBeginOffboarding at t s)))"
    using status_move.Offboarding_begun[OF l r(2) o] by simp
qed (simp add: opened_def moved_def)

text \<open>Retirement and cancellation move a Tenant and its offboarding together.\<close>

lemma statuses_finished:
  assumes m: "movable a t s" and r: "row_of ob_id k (offboardings s) = Some r" "ob_tenant r = TenantID t"
    and f: "\<And>x. ob_id (f x) = ob_id x" "\<And>x. ob_tenant (f x) = ob_tenant x" "\<And>x. ob_stage (f x) = to"
    and s': "statuses s' = statuses ((moved a at t s)\<lparr>offboardings := change_row ob_id k f (offboardings s)\<rparr>)"
  obtains st where "lc_offboarding (statuses s) k = Some (TenantID t, ob_stage r)" "lc_tenant (statuses s) (TenantID t) = Some (Status t)"
    "tenant_Resolve a (Status t) = Inr st"
    "statuses s' = (statuses s)\<lparr>lc_tenant := (lc_tenant (statuses s))(TenantID t \<mapsto> st),
      lc_offboarding := (lc_offboarding (statuses s))(k \<mapsto> (TenantID t, to))\<rparr>"
proof -
  obtain rule :: tenant_rule where rule: "tenant_Resolve a (Status t) = Inr (r_to rule)"
    and mv: "statuses (moved a at t s) = (statuses s)\<lparr>lc_tenant := (lc_tenant (statuses s))(TenantID t \<mapsto> r_to rule)\<rparr>"
    and l: "lc_tenant (statuses s) (TenantID t) = Some (Status t)"
    using m by (rule movable_rule[where at = at])
  have o: "lc_offboarding (statuses s) k = Some (TenantID t, ob_stage r)" using r by (simp add: statuses_def column_def)
  have "statuses s' = (statuses s)\<lparr>lc_tenant := (lc_tenant (statuses s))(TenantID t \<mapsto> r_to rule),
      lc_offboarding := (lc_offboarding (statuses s))(k \<mapsto> (TenantID t, to))\<rparr>"
    using r f mv by (simp add: s' statuses_offboarding column_change[of ob_id f, OF f(1) r(1)])
  then show thesis using that[OF o l rule] by simp
qed

lemma refines_retire:
  assumes "movable TenantRetire t s" "row_of ob_id k (offboardings s) = Some r" "ob_stage r = StageRelease" "ob_tenant r = TenantID t"
  shows "refines s (staged k StageRetired at (moved TenantRetire at' t s))"
proof (rule refines_step)
  show "status_move (statuses s) (statuses (staged k StageRetired at (moved TenantRetire at' t s)))"
    by (rule statuses_finished[OF assms(1,2,4), of "stamp_stage StageRetired at" StageRetired _ at'])
      (use assms(3) in \<open>auto simp: staged_def moved_def intro: status_move.Offboarding_retires\<close>)
qed (simp add: staged_def moved_def)

lemma refines_cancel:
  assumes "movable a t s" "row_of ob_id k (offboardings s) = Some r" "stage_Cancellable (ob_stage r)" "ob_tenant r = TenantID t"
    "cancel_action (ob_priorStatus r) = Some a"
  shows "refines s (called_off k actor reason at (moved a at' t s))"
proof (rule refines_step)
  have act: "a = TenantCancelOffboardingToActive \<or> a = TenantCancelOffboardingToSuspended"
    using assms(5) by (auto simp: cancel_action_def split: if_splits)
  have eq: "statuses (called_off k actor reason at (moved a at' t s)) =
      statuses ((moved a at' t s)\<lparr>offboardings := change_row ob_id k (cancelStatement actor reason at) (offboardings s)\<rparr>)"
    by (simp add: called_off_def moved_def statuses_def)
  show "status_move (statuses s) (statuses (called_off k actor reason at (moved a at' t s)))"
    by (rule statuses_finished[OF assms(1,2,4), of "cancelStatement actor reason at" StageCancelled _ at'])
      (use assms(3) act eq in \<open>auto simp: cancelStatement_def intro: status_move.Offboarding_cancelled\<close>)
qed (simp add: called_off_def moved_def)

lemma refines_offboarding_step:
  assumes "row_of ob_id k (offboardings s) = Some r" "offboarding_step r f"
  shows "refines s (s\<lparr>offboardings := change_row ob_id k f (offboardings s)\<rparr>)"
proof -
  have o: "lc_offboarding (statuses s) k = Some (ob_tenant r, ob_stage r)" using assms(1) by (simp add: statuses_def column_def)
  from assms(2) consider (advance) to at where "stage_Next (ob_stage r) = Some to" "to \<noteq> StageRetired" "f = stamp_stage to at"
    | (hold) hold where "f = (\<lambda>r. r\<lparr>ob_legalHold := hold\<rparr>)"
    by (auto simp: offboarding_step_def)
  then show ?thesis
  proof cases
    case advance
    then show ?thesis
      using status_move.Offboarding_advances[OF o] assms(1)
      by (intro refines_step) (simp_all add: statuses_offboarding column_change)
  next
    case hold
    then show ?thesis by (intro refines_same) (simp_all add: statuses_def column_change_same)
  qed
qed

section \<open>The service refines the specification\<close>

lemma refines_untouched:
  "tenants s' = tenants s \<and> memberships s' = memberships s \<and> organizations s' = organizations s \<and>
   workspaces s' = workspaces s \<and> invitations s' = invitations s \<and> offboardings s' = offboardings s \<Longrightarrow> refines s s'"
  by (rule refines_same) (simp_all add: statuses_def)

lemma refines_tenant_insert:
  assumes "row_of TenantID (TenantID r) (tenants s) = None" "fresh_tenant r"
  shows "refines s (s\<lparr>tenants := tenants s @ [r]\<rparr>)"
  using assms status_move.Tenant_requested[of "statuses s" "TenantID r"] column_append[of TenantID r "tenants s" Status]
  by (intro refines_step) (simp_all add: statuses_def column_def fresh_tenant_def)

lemma refines_tenant_step:
  assumes "standalone a" "row_of TenantID (TenantID r) (tenants s) = Some r" "tenant_Resolve a (Status r) = Inr (r_to rule)"
  shows "refines s (s\<lparr>tenants := put_row TenantID (rule_effect rule at r) (tenants s)\<rparr>)"
  using assms status_move.Tenant_moves[of "statuses s" "TenantID r"] statuses_tenant[of r s "rule_effect rule at r"]
  by (intro refines_step) simp_all

lemma refines_membership_insert:
  assumes "insertable m s"
  shows "refines s (s\<lparr>memberships := memberships s @ [m]\<rparr>)"
  using assms status_move.Membership_granted[of "statuses s" "m_id m"] column_append[of m_id m "memberships s" m_status]
  by (intro refines_step) (simp_all add: statuses_def column_def insertable_def)

lemma refines_membership_step:
  assumes "status_step a m m' (memberships s)"
  shows "refines s (s\<lparr>memberships := put_row m_id m' (memberships s)\<rparr>)"
proof -
  obtain to p where m: "row_of m_id (m_id m) (memberships s) = Some m" "membership_Resolve a (m_status m) = Inr (to, p)"
    "m' = m\<lparr>m_status := to, m_version := m_version m + 1\<rparr>" using assms by (auto simp: status_step_def)
  then show ?thesis
    using status_move.Membership_moves[of "statuses s" "m_id m" "m_status m" a to p] column_put[of m_id m' "memberships s" m m_status]
    by (intro refines_step) (simp_all add: statuses_def column_def)
qed

lemma refines_membership_advance:
  assumes "row_of m_id (m_id m) (memberships s) = Some m"
  shows "refines s (s\<lparr>memberships := put_row m_id (m\<lparr>m_version := v\<rparr>) (memberships s)\<rparr>)"
  using assms by (intro refines_same) (auto simp: statuses_def column_def row_of_put_row fun_eq_iff)

lemma refines_invitation_insert:
  assumes "\<not> invitation_clash i (invitations s)" "iv_state i = InvitationPending"
  shows "refines s (s\<lparr>invitations := invitations s @ [i]\<rparr>)"
proof -
  have "row_of iv_id (iv_id i) (invitations s) = None"
    using assms by (auto simp: invitation_clash_def list_ex_iff row_of_None_iff)
  then show ?thesis
    using assms(2) status_move.Invitation_issued[of "statuses s" "iv_id i"] column_append[of iv_id i "invitations s" iv_state]
    by (auto simp: refines_def statuses_def column_def)
qed

lemma refines_invitation_settle:
  assumes i: "i \<in> set (invitations s)" "iv_state i = InvitationPending" and f: "settles f"
  shows "refines s (s\<lparr>invitations := change_row iv_id (iv_id i) f (invitations s)\<rparr>)"
  unfolding refines_def
proof (rule impI)
  let ?s = "s\<lparr>invitations := change_row iv_id (iv_id i) f (invitations s)\<rparr>"
  assume k: "keyed iv_id (invitations s)"
  have row: "row_of iv_id (iv_id i) (invitations s) = Some i" using row_of_keyed[OF k i(1)] .
  obtain act where "invitation_Resolve act InvitationPending = Inr (iv_state (f i))"
  proof -
    have "invitation_Resolve InvitationAccept InvitationPending = Inr InvitationAccepted"
      "invitation_Resolve InvitationRevoke InvitationPending = Inr InvitationRevoked"
      "invitation_Resolve InvitationExpire InvitationPending = Inr InvitationExpired"
      by (simp_all add: invitation_Resolve_def invitation_Outstanding_def)
    then show thesis using f that by (auto simp: settles_def acceptStatement_def revokeStatement_def)
  qed
  then have "status_move (statuses s) (statuses ?s)"
    using row i(2) status_move.Invitation_settled[of "statuses s" "iv_id i" InvitationPending act]
      column_change[of iv_id f "iv_id i" "invitations s" i iv_state, OF settles_fields(1)[OF f] row]
    by (simp add: statuses_def column_def)
  then show "keyed iv_id (invitations ?s) \<and> status_move\<^sup>*\<^sup>* (statuses s) (statuses ?s)"
    using k settles_fields(1)[OF f] by auto
qed

lemma refines_registries:
  "fresh_organization org s \<Longrightarrow> refines s (s\<lparr>organizations := organizations s @ [org]\<rparr>)"
  "org_stepped oa r r' s \<Longrightarrow> refines s (s\<lparr>organizations := put_row o_id r' (organizations s)\<rparr>)"
  "fresh_workspace ws s \<Longrightarrow> refines s (s\<lparr>workspaces := workspaces s @ [ws]\<rparr>)"
  "ws_stepped b wa q q' s \<Longrightarrow> refines s (s\<lparr>workspaces := put_row ws_id q' (workspaces s)\<rparr>)"
proof -
  assume "fresh_organization org s"
  then show "refines s (s\<lparr>organizations := organizations s @ [org]\<rparr>)"
    using status_move.Organization_registered[of "statuses s" "o_id org"] column_append[of o_id org "organizations s" o_status]
    by (intro refines_step) (simp_all add: statuses_def column_def fresh_organization_def)
next
  assume st: "org_stepped oa r r' s"
  then show "refines s (s\<lparr>organizations := put_row o_id r' (organizations s)\<rparr>)"
    using status_move.Organization_moves[of "statuses s" "o_id r" "o_status r" oa "o_status r'"] org_stepped_advanced[OF st]
      column_put[of o_id r' "organizations s" r o_status]
    by (intro refines_step) (simp_all add: statuses_def column_def org_stepped_def del: organization.update_convs)
next
  assume "fresh_workspace ws s"
  then show "refines s (s\<lparr>workspaces := workspaces s @ [ws]\<rparr>)"
    using status_move.Workspace_created[of "statuses s" "ws_id ws"] column_append[of ws_id ws "workspaces s" ws_status]
    by (intro refines_step) (simp_all add: statuses_def column_def fresh_workspace_def)
next
  assume st: "ws_stepped b wa q q' s"
  then show "refines s (s\<lparr>workspaces := put_row ws_id q' (workspaces s)\<rparr>)"
    using status_move.Workspace_moves[of "statuses s" "ws_id q" "ws_status q" wa "ws_status q'"] ws_stepped_advanced[OF st]
      column_put[of ws_id q' "workspaces s" q ws_status]
    by (intro refines_step) (simp_all add: statuses_def column_def ws_stepped_def)
qed

interpretation refinement: system_relation refines
proof unfold_locales
qed (erule (1) refines_trans | erule (1) refines_tenant_insert | erule (2) refines_tenant_step
    | erule refines_membership_insert | erule refines_membership_step | erule refines_membership_advance
    | erule (2) refines_begin | erule (3) refines_retire | erule (4) refines_cancel | erule (1) refines_offboarding_step
    | erule (1) refines_invitation_insert | erule (2) refines_invitation_settle | erule refines_registries
    | rule refines_untouched, simp | assumption)+


end
