(* ===== verification/System_Witnesses.thy ===== *)
theory System_Witnesses
  imports Example_World Offboarding_Witnesses Lifecycle_Spec
begin

text \<open>
  The example world with a Workspace and an invitation in it, and the theorems about the registries, the
  invitations and the service as a whole applied to it.
\<close>

definition ex_token :: string where
  "ex_token = replicate 43 CHR ''A''"

definition ex_invitation :: invitation where
  "ex_invitation = \<lparr>iv_id = 60, iv_tenant = 10, iv_workspace = None, iv_target = ''a@b'', iv_targetHash = ''ha@b'',
     iv_tokenHash = token_Hash ex_env ex_token, iv_subject = ''human'', iv_invitedBy = 6, iv_reason = ''new hire'',
     iv_state = InvitationPending, iv_correlation = 9, iv_principal = None, iv_expiresAt = 5000, iv_createdAt = 900,
     iv_acceptedAt = None, iv_revokedAt = None\<rparr>"

definition ex_invited :: world where
  "ex_invited = ex_world\<lparr>store := ex_store\<lparr>invitations := [ex_invitation],
     workspaces := [\<lparr>ws_id = 70, ws_tenant = 10, ws_name = ''lab'', ws_type = ''project'', ws_status = WsArchived,
       ws_version = 2, ws_created = 30\<rparr>]\<rparr>\<rparr>"

definition ex_invitee :: ctx where
  "ex_invitee = ex_context (Some (zero_scope\<lparr>sc_self := True, sc_actor := 15, sc_correlation := 9\<rparr>))"

definition ex_org_suspend :: org_command where
  "ex_org_suspend = \<lparr>gc_organization = 1, gc_reason = ''dispute'', gc_expectedVersion = 1\<rparr>"

definition ex_ws_retire :: ws_command where
  "ex_ws_retire = \<lparr>wk_workspace = 70, wk_expectedVersion = 2\<rparr>"

definition ex_register :: register_request where
  "ex_register = \<lparr>rg_displayName = ''acme'', rg_class = ClassificationCustomer, rg_parent = None, rg_reason = ''signed''\<rparr>"

definition ex_blank :: world where
  "ex_blank = ex_world\<lparr>store := empty_store\<rparr>"

lemma ex_org_runs: "succeeds (org_transition ex_env ex_provider OrgSuspend ex_org_suspend ex_world)"
  by code_simp

lemma ex_ws_runs: "succeeds (ws_transition ex_env ex_admin WsRetire ex_ws_retire ex_invited)"
  by code_simp

lemma ex_accept_runs: "succeeds (Accept ex_env ex_invitee ex_token ex_invited)"
  by code_simp

lemma ex_register_runs: "succeeds (Register ex_env ex_provider ex_register ex_blank)"
  by code_simp

lemma ex_token_runs: "succeeds (NewToken ex_env ex_world)"
  by code_simp

theorem org_transition_effect_witness:
  "\<exists>r' w'. org_transition ex_env ex_provider OrgSuspend ex_org_suspend ex_world = (Inr r', w') \<and>
    org_Resolve OrgSuspend OrgActive = Inr (o_status r')"
proof -
  obtain r' w' where run: "org_transition ex_env ex_provider OrgSuspend ex_org_suspend ex_world = (Inr r', w')"
    using ex_org_runs by (rule succeedsE)
  obtain r where "row_of o_id (gc_organization ex_org_suspend) (organizations (store ex_world)) = Some r"
    "org_Resolve OrgSuspend (o_status r) = Inr (o_status r')"
    using org_transition_effect[OF run] by (elim exE conjE) (rule that)
  then show ?thesis using run by (auto simp: ex_org_suspend_def ex_world_def ex_store_def)
qed

theorem ws_transition_effect_witness:
  "\<exists>r' w'. ws_transition ex_env ex_admin WsRetire ex_ws_retire ex_invited = (Inr r', w') \<and>
    ws_Resolve WsRetire WsArchived = Inr (ws_status r')"
proof -
  obtain r' w' where run: "ws_transition ex_env ex_admin WsRetire ex_ws_retire ex_invited = (Inr r', w')"
    using ex_ws_runs by (rule succeedsE)
  obtain r where "row_of ws_id (wk_workspace ex_ws_retire) (workspaces (store ex_invited)) = Some r"
    "ws_Resolve WsRetire (ws_status r) = Inr (ws_status r')"
    using ws_transition_effect[OF run] by (elim exE conjE) (rule that)
  then show ?thesis using run by (auto simp: ex_ws_retire_def ex_invited_def)
qed

theorem NewToken_round_trip_witness:
  "\<exists>token hash w'. NewToken ex_env ex_world = (Inr (token, hash), w') \<and> WellFormed token"
proof -
  obtain x w' where "NewToken ex_env ex_world = (Inr x, w')" using ex_token_runs by (rule succeedsE)
  then have run: "NewToken ex_env ex_world = (Inr (fst x, snd x), w')" by simp
  show ?thesis using NewToken_round_trip[OF run] run by blast
qed

theorem WellFormed_line_break_witness: "WellFormed (CHR 0x0A # EncodeToString (replicate 31 7))"
  by (rule WellFormed_line_break) simp_all

theorem Accept_effect_witness:
  "\<exists>record result w'. Accept ex_env ex_invitee ex_token ex_invited = (Inr (record, result), w') \<and>
    iv_state record = InvitationAccepted \<and> iv_principal record = Some 15"
proof -
  obtain x w' where "Accept ex_env ex_invitee ex_token ex_invited = (Inr x, w')" using ex_accept_runs by (rule succeedsE)
  then have run: "Accept ex_env ex_invitee ex_token ex_invited = (Inr (fst x, snd x), w')" by simp
  obtain scope i where "cx_scope ex_invitee = Some scope"
    "fst x = acceptStatement (sc_actor scope) (clock ex_env (ticks ex_invited)) i"
    using Accept_effect[OF run] by (elim exE conjE) (rule that)
  then have "iv_state (fst x) = InvitationAccepted \<and> iv_principal (fst x) = Some 15"
    by (auto simp: acceptStatement_def ex_invitee_def ex_context_def)
  then show ?thesis using run by blast
qed

lemma ex_invited_wf: "invitations_wf (store ex_invited)"
  by (simp add: invitations_wf_def keyed_def ex_invited_def ex_invitation_def)

theorem Accept_once_witness:
  "\<exists>x w'. Accept ex_env ex_invitee ex_token ex_invited = (Inr x, w') \<and>
    \<not> succeeds (Accept ex_env ex_self ex_token w')"
proof -
  obtain x w' where "Accept ex_env ex_invitee ex_token ex_invited = (Inr x, w')" using ex_accept_runs by (rule succeedsE)
  then have run: "Accept ex_env ex_invitee ex_token ex_invited = (Inr (fst x, snd x), w')" by simp
  have "\<not> succeeds (Accept ex_env ex_self ex_token w')"
    using Accept_once[OF run ex_invited_wf rtranclp.rtrancl_refl] by (auto elim: succeedsE)
  then show ?thesis using run by auto
qed

theorem Accept_uniform_refusal_witness:
  "Accept ex_env ex_invitee ex_token ex_world = (Inl ErrNotAcceptable, ex_world\<lparr>ticks := Suc (Suc (ticks ex_world))\<rparr>)"
  by (rule Accept_uniform_refusal[where scope = "zero_scope\<lparr>sc_self := True, sc_actor := 15, sc_correlation := 9\<rparr>"
        and Match = "\<lambda>_ _. Some True"])
    (simp_all add: ex_invitee_def ex_context_def ex_env_def token_Hash_def ex_world_def ex_store_def, code_simp)

lemma ex_registered: "\<exists>r w'. Register ex_env ex_provider ex_register ex_blank = (Inr r, w') \<and> served ex_env ex_blank w'"
  using ex_register_runs by (elim succeedsE) (auto intro: served.Organization_register)

lemma ex_blank_store: "store ex_blank = empty_store"
  by (simp add: ex_blank_def)




lemma ex_frozen_wf: "control_wf (store ex_frozen)"
  by (auto simp: control_wf_def no_callers_wf tenants_wf_def memberships_wf_def freezes_wf_def freezes_ok_def coordinated_def
      live_tenants_def leaving_tenants_def sponsored_def sponsor_lives_def invitations_wf_def batches_ok_def keyed_def reversible_def
      finished_def ex_leaving_def ex_world_def ex_store_def ex_tenant_def ex_membership_def tenant_stamps_def
      membership_ok_def active_clash_def bigint_max_def)

theorem offboarding_under_way_witness:
  "length (filter (\<lambda>r. ob_tenant r = 10 \<and> \<not> finished r) (offboardings (store ex_frozen))) = 1"
proof -
  obtain t where "row_of TenantID 10 (tenants (store ex_frozen)) = Some t" "Status t = TenantOffboarding"
    by (auto simp: ex_leaving_def ex_tenant_def)
  then show ?thesis using offboarding_under_way[OF ex_frozen_wf rtranclp.rtrancl_refl] by blast
qed

section \<open>Batches\<close>

definition ex_classify :: classifier where
  "ex_classify e = \<lparr>pb_type = ''conflict'', pb_title = ''conflict'', pb_status = 409, pb_detail = []\<rparr>"

definition ex_bulk :: batch_request where
  "ex_bulk = \<lparr>bq_action = MembershipSuspend, bq_memberships = [20, 21, 99], bq_continues = 0, bq_reason = ''audit''\<rparr>"

definition ex_batch :: "batch_state \<Rightarrow> batch_row" where
  "ex_batch st = \<lparr>ba_id = 80, ba_tenant = 10, ba_action = MembershipSuspend, ba_state = st, ba_reason = None,
     ba_correlation = 9, ba_continues = None, ba_createdBy = 6, ba_createdAt = 900, ba_expiresAt = 900 + BatchTTL,
     ba_wouldChange = 1, ba_wouldNotChange = 0, ba_failOnErrors = None, ba_executedBy = None, ba_executedAt = None,
     ba_completedAt = None, ba_heartbeatAt = None, ba_resumedBy = None, ba_resumedAt = None, ba_lease = Some 90\<rparr>"

definition ex_item :: "item_outcome option \<Rightarrow> batch_item" where
  "ex_item outcome = \<lparr>bi_batch = 80, bi_tenant = 10, bi_position = 0, bi_membership = 20, bi_principal = Some 5,
     bi_current = Some MembershipActive, bi_versionRead = Some 4, bi_resulting = Some MembershipSuspended,
     bi_refusal = None, bi_outcome = outcome\<rparr>"

definition ex_batched :: "batch_state \<Rightarrow> item_outcome option \<Rightarrow> world" where
  "ex_batched st outcome = ex_world\<lparr>store := ex_store\<lparr>batches := [ex_batch st], batch_items := [ex_item outcome]\<rparr>\<rparr>"

definition ex_done :: item_outcome where
  "ex_done = OutcomeSucceeded 950 501 5"

abbreviation "ex_run_item \<equiv> executeItem ex_env ex_admin (ex_batch BatchExecuting) 90 (ex_item None) 4 []"

lemma ex_preview_runs: "succeeds (PreviewBatch ex_env ex_admin ex_bulk (Some ex_classify) ex_world)"
  by code_simp

lemma ex_item_runs: "succeeds (ex_run_item (ex_batched BatchExecuting None))"
  by code_simp

lemma ex_item_again_runs:
  "succeeds (ex_run_item (ex_batched BatchExecuting (Some ex_done)))"
  "succeeds (ex_run_item (snd (ex_run_item (ex_batched BatchExecuting (Some ex_done)))))"
  by code_simp+

lemma ex_execute_runs: "succeeds (ExecuteBatch ex_env ex_admin 80 None (Some ex_classify) (ex_batched BatchPreviewed None))"
  by code_simp

theorem PreviewBatch_effect_witness:
  "\<exists>batch items w'. PreviewBatch ex_env ex_admin ex_bulk (Some ex_classify) ex_world = (Inr (batch, items), w') \<and>
    map bi_membership items = [20, 21, 99]"
proof -
  obtain x w' where "PreviewBatch ex_env ex_admin ex_bulk (Some ex_classify) ex_world = (Inr x, w')"
    using ex_preview_runs by (rule succeedsE)
  then have run: "PreviewBatch ex_env ex_admin ex_bulk (Some ex_classify) ex_world = (Inr (fst x, snd x), w')" by simp
  have "bq_memberships ex_bulk = [20, 21, 99]" by (simp add: ex_bulk_def)
  then have "map bi_membership (snd x) = [20, 21, 99]" using PreviewBatch_effect[OF run] by auto
  then show ?thesis using run by (intro exI[of _ "fst x"] exI[of _ "snd x"] exI[of _ w'] conjI)
qed

theorem executeItem_effect_witness:
  "\<exists>w' at acceptedAt e scope m. ex_run_item (ex_batched BatchExecuting None) = (Inr (), w') \<and>
    data w' = applied (bindTenant scope) 80 0 MembershipSuspend scope 2 at acceptedAt [] m e (data (ex_batched BatchExecuting None))"
proof -
  obtain u w' where run: "ex_run_item (ex_batched BatchExecuting None) = (Inr u, w')"
    using ex_item_runs by (rule succeedsE)
  have fresh: "bi_outcome j = None" if "find P (batch_items (store (ex_batched BatchExecuting None))) = Some j" for P j
    using that by (auto simp: ex_batched_def ex_item_def split: if_splits)
  have ten: "SecurityVersion t = 2" if "row_of TenantID k (tenants (store (ex_batched BatchExecuting None))) = Some t" for k t
    using that by (auto simp: ex_batched_def ex_store_def ex_tenant_def split: if_splits)
  have "ba_id (ex_batch BatchExecuting) = 80" "ba_action (ex_batch BatchExecuting) = MembershipSuspend" "bi_position (ex_item None) = 0"
    by (simp_all add: ex_batch_def ex_item_def)
  then show ?thesis using executeItem_effect[OF run] run fresh ten by (auto split: if_splits) metis
qed


lemma ex_batched_wf: "control_wf (store (ex_batched BatchExecuting (Some ex_done)))"
  by (auto simp: control_wf_def no_callers_wf tenants_wf_def memberships_wf_def freezes_wf_def freezes_ok_def coordinated_def
      live_tenants_def leaving_tenants_def sponsored_def sponsor_lives_def invitations_wf_def batches_ok_def keyed_def
      ex_batched_def ex_batch_def batch_action_check_def ex_world_def ex_store_def ex_tenant_def ex_membership_def
      tenant_stamps_def membership_ok_def active_clash_def active_key_def bigint_max_def)

theorem item_applied_once_witness:
  "\<exists>w' w''. ex_run_item (ex_batched BatchExecuting (Some ex_done)) = (Inr (), w') \<and> ex_run_item w' = (Inr (), w'') \<and>
    memberships (store w'') = memberships (store w')"
proof -
  obtain u w' where run: "ex_run_item (ex_batched BatchExecuting (Some ex_done)) = (Inr u, w')"
    using ex_item_again_runs(1) by (rule succeedsE)
  obtain u' w'' where again: "ex_run_item w' = (Inr u', w'')"
    using ex_item_again_runs(2)[unfolded run snd_conv] by (rule succeedsE)
  have "batch_action_check (ex_batch BatchExecuting)" by (simp add: ex_batch_def batch_action_check_def)
  from item_applied_once[OF run ex_batched_wf this rtranclp.rtrancl_refl again] show ?thesis using run again by auto
qed

section \<open>A retired Workspace can gain a Membership\<close>

definition ex_retired_workspace :: world where
  "ex_retired_workspace = ex_world\<lparr>store := ex_store\<lparr>
     workspaces := [\<lparr>ws_id = 70, ws_tenant = 10, ws_name = ''lab'', ws_type = ''project'', ws_status = WsRetired,
       ws_version = 3, ws_created = 30\<rparr>]\<rparr>\<rparr>"

lemma ex_retired_grant_runs:
  "succeeds (Grant ex_env ex_admin (ex_grant\<lparr>gr_workspace := 70\<rparr>) ex_retired_workspace)"
  by code_simp

text \<open>
  A grant into a Workspace that is retired goes through: the reference from Membership to Workspace asks
  that the row exists in the Tenant, not what its status is. Retirement is refused while a Membership of the
  Workspace is not revoked; nothing refuses one afterwards.
\<close>

theorem retired_workspace_granted:
  "\<exists>result w'. list_all (\<lambda>r. ws_status r = WsRetired) (workspaces (store ex_retired_workspace)) \<and>
    Grant ex_env ex_admin (ex_grant\<lparr>gr_workspace := 70\<rparr>) ex_retired_workspace = (Inr result, w') \<and>
    m_workspace (mr_membership result) = 70 \<and> m_status (mr_membership result) = MembershipActive"
proof -
  obtain result w' where run: "Grant ex_env ex_admin (ex_grant\<lparr>gr_workspace := 70\<rparr>) ex_retired_workspace = (Inr result, w')"
    using ex_retired_grant_runs by (rule succeedsE)
  have "fst (Grant ex_env ex_admin (ex_grant\<lparr>gr_workspace := 70\<rparr>) ex_retired_workspace) = Inr result" using run by simp
  moreover have "case fst (Grant ex_env ex_admin (ex_grant\<lparr>gr_workspace := 70\<rparr>) ex_retired_workspace) of
      Inl e \<Rightarrow> False | Inr r \<Rightarrow> m_workspace (mr_membership r) = 70 \<and> m_status (mr_membership r) = MembershipActive"
    by code_simp
  moreover have "list_all (\<lambda>r. ws_status r = WsRetired) (workspaces (store ex_retired_workspace))"
    by (simp add: ex_retired_workspace_def)
  ultimately show ?thesis using run by auto
qed

end
