(* ===== verification/Authority_Effects.thy ===== *)
theory Authority_Effects
  imports Caller_Invariants
begin

text \<open>
  The exact effects of the operations on provider authority and of the fresh context check, and what they
  do not protect against.
\<close>

section \<open>Publishing\<close>

definition grant_message :: "instant \<Rightarrow> string \<Rightarrow> provider_grant \<Rightarrow> caller_records \<Rightarrow> instant \<Rightarrow> uuid \<Rightarrow> message" where
  "grant_message t etype g c at e =
     \<lparr>msg_id = e, msg_aggregate = pg_id g, msg_type = etype, msg_at = at,
      msg_payload = GrantPayload (grantState t (pg_version g) g c),
      msg_priority = (etype = EventEnded \<or> etype = EventRevoked)\<rparr>"

text \<open>
  A transition of a grant announced: nothing for a scope that is not published; otherwise the version
  counted up, the event's version recorded, and the grant's state appended.
\<close>

definition announced_grant :: "instant \<Rightarrow> uuid \<Rightarrow> string \<Rightarrow> instant \<Rightarrow> uuid \<Rightarrow> store \<Rightarrow> store" where
  "announced_grant t k etype at e s =
     (case grant_of k (callers s) of
        None \<Rightarrow> s
      | Some g \<Rightarrow>
          if \<not> published (pg_scope g) then s
          else let g' = g\<lparr>pg_version := pg_version g + 1\<rparr>;
                   c = (callers s)\<lparr>provider_grants := put_row pg_id g' (provider_grants (callers s))\<rparr>
               in s\<lparr>outbox := outbox s @ [grant_message t etype g' c at e],
                    callers := c\<lparr>grant_events := grant_events c @
                      [\<lparr>ge_event = e, ge_grant = k, ge_version = pg_version g', ge_type = etype\<rparr>]\<rparr>\<rparr>)"

lemma grant_publish_run:
  assumes "grant_publish env t k etype w = (Inr u, w')"
  obtains at e where "store w' = announced_grant t k etype at e (store w)"
proof (cases "grant_of k (callers (store w))")
  case None
  then have "store w' = announced_grant t k etype 0 0 (store w)"
    using assms by (simp add: grant_publish_def run_simps announced_grant_def published_def PublishedScopes_def
        ScopeIdentityControl_def)
  then show thesis by (rule that)
next
  case (Some g)
  let ?g = "g\<lparr>pg_version := pg_version g + 1\<rparr>"
  let ?c = "(callers (store w))\<lparr>provider_grants := put_row pg_id ?g (provider_grants (callers (store w)))\<rparr>"
  show thesis
  proof (cases "published (pg_scope g)")
    case False
    then have "store w' = announced_grant t k etype 0 0 (store w)"
      using assms Some by (simp add: grant_publish_def run_simps announced_grant_def)
    then show thesis by (rule that)
  next
    case True
    from assms Some True obtain b where pub: "publishAt env t k etype (pg_version g + 1) (w\<lparr>store := (store w)\<lparr>callers := ?c\<rparr>\<rparr>) = (Inr b, w')"
      by (auto simp: grant_publish_def bumpVersion_def seq_run(1) read_callers_run on_callers_run lift_run return_run
          bigint_incr_Inr required_run)
    have k: "pg_id g = k" and row: "grant_of k ?c = Some ?g"
      using Some row_of_SomeD[of pg_id k "provider_grants (callers (store w))" g]
      by (auto simp: grant_of_def row_of_put_row)
    from pub row obtain e where "w' = w\<lparr>ticks := Suc (ticks w), minted := Suc (minted w), store := (store w)\<lparr>outbox := outbox (store w) @ [grant_message t etype ?g ?c (clock env (ticks w)) e],
        callers := ?c\<lparr>grant_events := grant_events ?c @
          [\<lparr>ge_event = e, ge_grant = k, ge_version = pg_version g + 1, ge_type = etype\<rparr>]\<rparr>\<rparr>\<rparr>"
      by (auto simp: publishAt_def recordGrantEvent_def grant_message_def k seq_run(1) read_callers_run on_callers_run
          now_run publish_run ensure_run return_run required_run Let_def)
    then have "store w' = announced_grant t k etype (clock env (ticks w)) e (store w)"
      using Some True by (simp add: announced_grant_def Let_def)
    then show thesis by (rule that)
  qed
qed

lemma announced_grant_activations [simp]:
  "activations (callers (announced_grant t k etype at e s)) = activations (callers s)"
  by (simp add: announced_grant_def Let_def split: option.split)

lemma data_announced: "store w' = announced_grant t k etype at e (store w) \<Longrightarrow> data w' = announced_grant t k etype at e (data w)"
  by (simp add: data_def announced_grant_def Let_def split: option.split)

lemma data_callers: "data (w\<lparr>store := (store w)\<lparr>callers := c\<rparr>\<rparr>) = (data w)\<lparr>callers := c\<rparr>"
  by (cases "store w") (simp add: data_def)

section \<open>Revoking a grant\<close>

lemma provider_revoke_body_run:
  assumes "provider_revoke_body env scope k reason b cx w = (Inr record, w')"
  obtains g t at e where
    "row_of pg_id k (lockActive (callers (store w))) = Some g"
    "\<not> (pg_scope g = Scope \<and> governing (lockActive (callers (store w))) = 1)"
    "data w' = announced_grant t k EventRevoked at e ((data w)\<lparr>callers := (callers (store w))\<lparr>provider_grants :=
       change_row pg_id k (revokeGrant t (sc_actor scope) (TrimSpace reason)) (provider_grants (callers (store w)))\<rparr>\<rparr>)"
    "grant_of k (callers (store w')) = Some record"
proof -
  let ?t = "db_clock env (ticks w)" and ?c = "callers (store w)"
  let ?w1 = "w\<lparr>store := (store w)\<lparr>callers := ?c\<lparr>provider_grants :=
      change_row pg_id k (revokeGrant ?t (sc_actor scope) (TrimSpace reason)) (provider_grants ?c)\<rparr>\<rparr>\<rparr>"
  from assms obtain g w2 where g: "row_of pg_id k (lockActive ?c) = Some g" "\<not> (pg_scope g = Scope \<and> governing (lockActive ?c) = 1)"
    and p: "grant_publish env ?t k EventRevoked ?w1 = (Inr (), w2)"
    and o: "grant_of k (callers (store w2)) = Some record" and r: "Respond env cx (ResGrant record) w2 = (Inr (), w')"
    unfolding provider_revoke_body_def oneGrant_def
    by (auto simp: seq_run(1)[of "db_now env"] seq_run(1)[of "read_callers f" for f] seq_run(1)[of "ensure P e" for P e]
        seq_run(1)[of "on_callers f" for f] seq_run(1)[of "grant_publish env t l q" for t l q] seq_run(1)[of "seq m f" for m f]
        seq_run(1)[of "Respond env cx q" for q] required_run
        return_run raise_run read_callers_run on_callers_run ensure_run db_now_run split: option.split_asm)
  from p obtain at e where "store w2 = announced_grant ?t k EventRevoked at e (store ?w1)" by (rule grant_publish_run)
  then have "data w2 = announced_grant ?t k EventRevoked at e (data ?w1)" by (rule data_announced)
  moreover have "data w' = data w2" using Respond_run[OF r] by (simp add: bookkept_def)
  ultimately have "data w' = announced_grant ?t k EventRevoked at e ((data w)\<lparr>callers := ?c\<lparr>provider_grants :=
      change_row pg_id k (revokeGrant ?t (sc_actor scope) (TrimSpace reason)) (provider_grants ?c)\<rparr>\<rparr>)"
    by (simp only: data_callers)
  moreover have "grant_of k (callers (store w')) = Some record" using o data_fields(16)[OF \<open>data w' = data w2\<close>] by simp
  ultimately show thesis by (rule that[OF g])
qed

text \<open>
  Revoking a grant needs a provider scope and an active grant that is not the last one for this
  service. It stamps that grant, and no other record, with the instant, the caller and the reason; a grant
  of a published scope gets one priority event that carries it revoked, with no activation, under a version
  one higher; a grant of this service's own scope is not published.
\<close>

theorem provider_Revoke_effect:
  assumes "provider_Revoke env cx k reason w = (Inr record, w')"
  shows "\<exists>scope g t i at e.
    cx_scope cx = Some scope \<and> sc_provider scope \<and> g \<in> set (provider_grants (callers (store w))) \<and> pg_id g = k \<and> unrevoked g \<and>
    \<not> (pg_scope g = Scope \<and> governing (lockActive (callers (store w))) = 1) \<and>
    data w' = announced_grant t k EventRevoked at e
      ((with_audit [(Evidence scope cx reason)\<lparr>ac_id := fst i, ac_occurredAt := snd i\<rparr>] (data w))
        \<lparr>callers := (callers (store w))\<lparr>provider_grants :=
           change_row pg_id k (revokeGrant t (sc_actor scope) (TrimSpace reason)) (provider_grants (callers (store w)))\<rparr>\<rparr>) \<and>
    grant_of k (callers (store w')) = Some record"
proof -
  from assms obtain scope where s: "cx_scope cx = Some scope"
    and run: "WithProviderScope env cx reason (provider_revoke_body env scope k reason) w = (Inr record, w')"
    by (auto simp: provider_Revoke_def run_simps)
  from run obtain scope' i cx1 w1 where s': "cx_scope cx = Some scope'" "sc_provider scope'"
    and en: "entered [(Evidence scope' cx reason)\<lparr>ac_id := fst i, ac_occurredAt := snd i\<rparr>] w w1"
    and b: "provider_revoke_body env scope k reason BoundProvider cx1 w1 = (Inr record, w')"
    by (rule WithProviderScope_enters)
  have c: "callers (store w1) = callers (store w)" using entered_fields[OF en] by simp
  from b obtain g t at e where g: "row_of pg_id k (lockActive (callers (store w))) = Some g"
    "\<not> (pg_scope g = Scope \<and> governing (lockActive (callers (store w))) = 1)"
    and d: "data w' = announced_grant t k EventRevoked at e ((data w1)\<lparr>callers := (callers (store w))\<lparr>provider_grants :=
       change_row pg_id k (revokeGrant t (sc_actor scope) (TrimSpace reason)) (provider_grants (callers (store w)))\<rparr>\<rparr>)"
    and o: "grant_of k (callers (store w')) = Some record"
    unfolding c[symmetric] by (rule provider_revoke_body_run)
  have "g \<in> set (provider_grants (callers (store w)))" "pg_id g = k" "unrevoked g"
    using row_of_SomeD[OF g(1)] by (auto simp: lockActive_def)
  then show ?thesis
    using s s' g(2) d o en unfolding entered_def by (intro exI[of _ scope] exI[of _ g] exI[of _ t] exI[of _ i] exI[of _ at] exI[of _ e]) simp
qed

section \<open>Deciding on an activation\<close>

definition decision_announced :: "decision \<Rightarrow> instant \<Rightarrow> uuid \<Rightarrow> instant \<Rightarrow> uuid \<Rightarrow> store \<Rightarrow> store" where
  "decision_announced d t k at e s = (if d = DecisionApproved then announced_grant t k EventActivated at e s else s)"

lemma data_decided:
  assumes "store w' = decision_announced d t k at e (store w)"
  shows "data w' = decision_announced d t k at e (data w)"
proof (cases "d = DecisionApproved")
  case True
  then have "store w' = announced_grant t k EventActivated at e (store w)" using assms by (simp add: decision_announced_def)
  from data_announced[OF this] show ?thesis using True by (simp add: decision_announced_def)
qed (use assms in \<open>simp add: decision_announced_def data_def\<close>)

lemma decide_body_run:
  assumes "decide_body env decider k d reason b cx w = (Inr a', w')"
  obtains a t at e where
    "activation_of k (callers (store w)) = Some a" "holds_scope decider (act_scope a) (callers (store w))"
    "act_principal a \<noteq> decider" "act_decision a = None" "clock env (ticks w) - act_requestedAt a \<le> PendingLifetime"
    "data w' = decision_announced d t (act_grant a) at e ((data w)\<lparr>callers := (callers (store w))\<lparr>activations :=
       change_row act_id k (decideActivation t decider d (TrimSpace reason)) (activations (callers (store w)))\<rparr>\<rparr>)"
    "a' = decideActivation t decider d (TrimSpace reason) a"
proof -
  let ?t = "db_clock env (ticks w)" and ?c = "callers (store w)"
  let ?acts = "change_row act_id k (decideActivation ?t decider d (TrimSpace reason)) (activations ?c)"
  let ?w1 = "w\<lparr>ticks := Suc (ticks w), store := (store w)\<lparr>callers := ?c\<lparr>activations := ?acts\<rparr>\<rparr>\<rparr>"
  let ?pub = "\<lambda>a. if d = DecisionApproved then grant_publish env ?t (act_grant a) EventActivated else return ()"
  from assms obtain a w2 where a: "activation_of k ?c = Some a" "holds_scope decider (act_scope a) ?c"
      "act_principal a \<noteq> decider" "act_decision a = None" "clock env (ticks w) - act_requestedAt a \<le> PendingLifetime"
    and p: "?pub a ?w1 = (Inr (), w2)" and o: "activation_of k (callers (store w2)) = Some a'"
    and r: "Respond env cx (ResActivation a') w2 = (Inr (), w')"
    unfolding decide_body_def lockActivation_def readActivation_def update_activation_def
    by (auto simp: seq_run(1)[of "db_now env"] seq_run(1)[of "now env"] seq_run(1)[of "read_callers f" for f]
        seq_run(1)[of "seq m f" for m f] seq_run(1)[of "ensure P e" for P e] seq_run(1)[of "on_callers f" for f]
        seq_run(1)[of "if P then q else m" for P q m] seq_run(1)[of "Respond env cx q" for q]
        return_run raise_run read_callers_run on_callers_run ensure_run db_now_run now_run required_run simp del: if_split)
  from p obtain at e where s2: "store w2 = decision_announced d ?t (act_grant a) at e (store ?w1)"
    unfolding decision_announced_def by (cases "d = DecisionApproved") (auto simp: return_run elim: grant_publish_run)
  then have "data w2 = decision_announced d ?t (act_grant a) at e (data ?w1)" by (rule data_decided)
  moreover have same: "data w' = data w2" using Respond_run[OF r] by (simp add: bookkept_def)
  moreover have "data ?w1 = (data w)\<lparr>callers := ?c\<lparr>activations := ?acts\<rparr>\<rparr>"
    by (cases "store w") (simp add: data_def)
  ultimately have "data w' = decision_announced d ?t (act_grant a) at e ((data w)\<lparr>callers := ?c\<lparr>activations := ?acts\<rparr>\<rparr>)"
    by simp
  moreover have "a' = decideActivation ?t decider d (TrimSpace reason) a"
    using o a(1) s2 by (simp add: decision_announced_def activation_of_def row_of_change_row split: if_splits)
  ultimately show thesis using that a by blast
qed

lemma activation_Decide_run:
  assumes "activation_Decide env cx k d reason w = (Inr a', w')"
  obtains scope a t i at e where
    "cx_scope cx = Some scope" "sc_provider scope" "d = DecisionApproved \<or> d = DecisionDenied"
    "activation_of k (callers (store w)) = Some a" "act_decision a = None" "act_principal a \<noteq> sc_actor scope"
    "holds_scope (sc_actor scope) (act_scope a) (callers (store w))"
    "clock env (Suc (Suc (ticks w))) - act_requestedAt a \<le> PendingLifetime"
    "data w' = decision_announced d t (act_grant a) at e
      ((with_audit [(Evidence scope cx reason)\<lparr>ac_id := fst i, ac_occurredAt := snd i\<rparr>] (data w))
        \<lparr>callers := (callers (store w))\<lparr>activations :=
           change_row act_id k (decideActivation t (sc_actor scope) d (TrimSpace reason)) (activations (callers (store w)))\<rparr>\<rparr>)"
    "a' = decideActivation t (sc_actor scope) d (TrimSpace reason) a"
proof -
  from assms obtain scope where s: "cx_scope cx = Some scope" and dec: "d = DecisionApproved \<or> d = DecisionDenied"
    and run: "WithProviderScope env cx reason (decide_body env (sc_actor scope) k d reason) w = (Inr a', w')"
    by (auto simp: activation_Decide_def run_simps)
  from run obtain scope' i cx1 w1 where s': "cx_scope cx = Some scope'" "sc_provider scope'"
    and en: "entered [(Evidence scope' cx reason)\<lparr>ac_id := fst i, ac_occurredAt := snd i\<rparr>] w w1"
    and b: "decide_body env (sc_actor scope) k d reason BoundProvider cx1 w1 = (Inr a', w')"
    and n: "ticks w1 = Suc (Suc (ticks w))"
    by (rule WithProviderScope_enters_at)
  have c: "callers (store w1) = callers (store w)" using entered_fields[OF en] by simp
  have e: "data w1 = with_audit [(Evidence scope cx reason)\<lparr>ac_id := fst i, ac_occurredAt := snd i\<rparr>] (data w)"
    using en s s' by (simp add: entered_def)
  from b obtain a t at e where
    "activation_of k (callers (store w)) = Some a" "holds_scope (sc_actor scope) (act_scope a) (callers (store w))"
    "act_principal a \<noteq> sc_actor scope" "act_decision a = None" "clock env (Suc (Suc (ticks w))) - act_requestedAt a \<le> PendingLifetime"
    "data w' = decision_announced d t (act_grant a) at e ((data w1)\<lparr>callers := (callers (store w))\<lparr>activations :=
       change_row act_id k (decideActivation t (sc_actor scope) d (TrimSpace reason)) (activations (callers (store w)))\<rparr>\<rparr>)"
    "a' = decideActivation t (sc_actor scope) d (TrimSpace reason) a"
    unfolding c[symmetric] n[symmetric] by (rule decide_body_run)
  then show thesis using that s s' dec unfolding e by simp
qed

text \<open>
  (C25) An activation is decided by a provider who holds an unrevoked grant for its scope and is not its
  holder, while it waits and at an instant within a day of the request; the decision, its reason and, when
  approved, its end are written on that activation alone, and an approval of a published grant is announced.
\<close>

theorem activation_Decide_effect:
  assumes "activation_Decide env cx k d reason w = (Inr a', w')"
  shows "\<exists>scope a t i at e.
    cx_scope cx = Some scope \<and> sc_provider scope \<and> (d = DecisionApproved \<or> d = DecisionDenied) \<and>
    activation_of k (callers (store w)) = Some a \<and> act_decision a = None \<and> act_principal a \<noteq> sc_actor scope \<and>
    holds_scope (sc_actor scope) (act_scope a) (callers (store w)) \<and>
    clock env (Suc (Suc (ticks w))) - act_requestedAt a \<le> PendingLifetime \<and>
    data w' = decision_announced d t (act_grant a) at e
      ((with_audit [(Evidence scope cx reason)\<lparr>ac_id := fst i, ac_occurredAt := snd i\<rparr>] (data w))
        \<lparr>callers := (callers (store w))\<lparr>activations :=
           change_row act_id k (decideActivation t (sc_actor scope) d (TrimSpace reason)) (activations (callers (store w)))\<rparr>\<rparr>) \<and>
    a' = decideActivation t (sc_actor scope) d (TrimSpace reason) a"
  using assms by (rule activation_Decide_run) blast

text \<open>
  A holder with nobody beside it stays without authority: while every unrevoked grant for this service is
  one Principal's, no request decides an activation of that Principal's. The guard on the last grant counts
  eligible grants too, so it does not prevent that state.
\<close>

theorem lone_holder_never_approved:
  assumes "\<And>q. holds_scope q Scope (callers (store w)) \<Longrightarrow> q = principalID"
    "activation_of k (callers (store w)) = Some a" "act_principal a = principalID" "act_scope a = Scope"
  shows "activation_Decide env cx k d reason w \<noteq> (Inr x, w')"
proof
  assume "activation_Decide env cx k d reason w = (Inr x, w')"
  then obtain scope :: scope and a' where "activation_of k (callers (store w)) = Some a'" "act_principal a' \<noteq> sc_actor scope"
    "holds_scope (sc_actor scope) (act_scope a') (callers (store w))"
    by (rule activation_Decide_run)
  then show False using assms by auto
qed

end
