(* ===== verification/Authority_Safety.thy ===== *)
theory Authority_Safety
  imports System Authority_Effects
begin

text \<open>
  Provider authority over every sequence of operations: it is never revoked entirely, and whoever holds it
  holds it by a record that names a grant of theirs.
\<close>

section \<open>Authority is never lost\<close>

text \<open>
  (C4) Provider authority over this service is never revoked entirely: from a state in which somebody holds an
  unrevoked grant for it, no sequence of operations, whatever their outcomes, reaches one in which nobody does.
\<close>

theorem provider_authority_kept:
  assumes "callers_wf (callers (store w))" "governed (callers (store w))" "(served env)\<^sup>*\<^sup>* w w'"
  shows "governed (callers (store w'))"
  using system_authority.reached_related[OF assms(3)] assms(1,2)
  by (simp add: on_records_def preserved_def callers_wf_def)

section \<open>Authority is traceable\<close>

definition emergency_holder :: "uuid \<Rightarrow> caller_records \<Rightarrow> bool" where
  "emergency_holder principalID c \<longleftrightarrow>
     (\<exists>g \<in> set (provider_grants c). pg_principal g = principalID \<and> pg_scope g = Scope \<and> unrevoked g \<and> pg_kind g = KindEmergency)"

definition activated_holder :: "instant \<Rightarrow> uuid \<Rightarrow> caller_records \<Rightarrow> bool" where
  "activated_holder t principalID c \<longleftrightarrow>
     (\<exists>g a decider. g \<in> set (provider_grants c) \<and> a \<in> set (activations c) \<and>
        pg_principal g = principalID \<and> pg_scope g = Scope \<and> unrevoked g \<and> pg_kind g \<noteq> KindEmergency \<and>
        act_grant a = pg_id g \<and> act_principal a = principalID \<and> InForce a t \<and>
        (\<not> act_approval a \<or> act_decidedBy a = Some decider \<and> decider \<noteq> principalID))"

lemma ProviderStanding_run:
  "ProviderStanding env principalID w = (Inr st, w') \<Longrightarrow>
     st = standing_of (db_clock env (Suc (ticks w))) principalID (callers (store w)) \<and> store w' = store w"
  by (auto simp: ProviderStanding_def run_simps)

lemma conferring_holder:
  assumes "grants_wf c" "activations_wf c" "a \<in> set (activations c)" "conferring t principalID c a"
  shows "activated_holder t principalID c"
proof -
  have ok: "activation_ok c a" using assms(2,3) by (auto simp: activations_wf_def list_all_iff)
  obtain g where g: "g \<in> set (provider_grants c)" "pg_id g = act_grant a" "unrevoked g"
    using assms(4) by (auto simp: conferring_def list_ex_iff)
  have "grant_of (act_grant a) c = Some g"
    using g(1) assms(1) row_of_keyed[of pg_id "provider_grants c" g] by (simp add: grants_wf_def grant_of_def g(2))
  then have own: "pg_principal g = act_principal a" "pg_scope g = act_scope a" "pg_kind g \<noteq> KindEmergency"
    using ok by (auto simp: activation_ok_def)
  have "act_approval a \<Longrightarrow> \<exists>decider. act_decidedBy a = Some decider \<and> decider \<noteq> act_principal a"
    using ok assms(4) by (auto simp: activation_ok_def conferring_def InForce_def)
  then show ?thesis
    using g own assms(3,4) unfolding activated_holder_def conferring_def by metis
qed

lemma standing_in_force:
  assumes "grants_wf c" "activations_wf c" "st_inForce (standing_of t principalID c)"
  shows "emergency_holder principalID c \<or> activated_holder t principalID c"
proof (cases "emergency_holder principalID c")
  case False
  let ?acts = "sort_key act_id (filter (conferring t principalID c) (activations c))"
  have "\<not> list_ex (\<lambda>g. pg_principal g = principalID \<and> pg_scope g = Scope \<and> unrevoked g \<and> pg_kind g = KindEmergency) (provider_grants c)"
    using False by (auto simp: emergency_holder_def list_ex_iff)
  then obtain a where "first_row ?acts = Some a"
    using assms(3) by (cases "first_row ?acts") (simp_all add: standing_of_def Let_def)
  then have "a \<in> set (activations c)" "conferring t principalID c a" using first_row_set by fastforce+
  then show ?thesis using conferring_holder assms(1,2) by blast
qed simp

text \<open>
  Nobody acts with provider authority on their own word: in every state reached from a well-formed one, a
  Principal whose standing is in force holds an unrevoked emergency grant for this service, or an unrevoked
  one of another kind with an activation of their own that runs at that instant and, where approval was required,
  was decided by somebody else.
\<close>

theorem authority_traceable:
  assumes "control_wf (store w)" "(served env)\<^sup>*\<^sup>* w w'"
    "ProviderStanding env principalID w' = (Inr st, w'')" "st_inForce st"
  shows "emergency_holder principalID (callers (store w')) \<or>
    activated_holder (db_clock env (Suc (ticks w'))) principalID (callers (store w'))"
proof (rule standing_in_force)
  have "callers_wf (callers (store w'))" using reached_wf[OF assms(2,1)] by (simp add: control_wf_def)
  then show "grants_wf (callers (store w'))" "activations_wf (callers (store w'))" by (simp_all add: callers_wf_def)
  show "st_inForce (standing_of (db_clock env (Suc (ticks w'))) principalID (callers (store w')))"
    using ProviderStanding_run[OF assms(3)] assms(4) by simp
qed

end
