(* ===== verification/Context_Effects.thy ===== *)
theory Context_Effects
  imports Caller_Invariants
begin

text \<open>
  The fresh context check and the context list: what they answer and write, and that they agree.
\<close>

section \<open>The fresh check\<close>

text \<open>The specification: an active Membership of the Principal in an active Tenant.\<close>

definition may_work :: "store \<Rightarrow> uuid \<Rightarrow> uuid \<Rightarrow> bool" where
  "may_work s tenantID principalID \<longleftrightarrow>
     (\<exists>t. row_of TenantID tenantID (tenants s) = Some t \<and> Status t = TenantActive) \<and>
     list_ex (\<lambda>m. m_tenant m = tenantID \<and> m_principal m = principalID \<and> m_status m = MembershipActive) (memberships s)"

lemma decided_granted:
  assumes "\<not> cd_granted d" "cd_refusal d = RefusalNone"
  shows "cd_granted (decided (verify_row k p s) d) \<longleftrightarrow> may_work s k p"
    "cd_refusal (decided (verify_row k p s) d) = RefusalNone \<longleftrightarrow> may_work s k p"
  using assms
  by (auto simp: decided_def verify_row_def may_work_def Let_def list_ex_iff find_None_iff find_Some_iff split: option.splits)

lemma decided_versions:
  assumes "verify_row k p s = Some (t, Some m)" "Status t = TenantActive"
  shows "cd_membership (decided (verify_row k p s) d) = Some (m_id m)"
    "cd_membershipVersion (decided (verify_row k p s) d) = m_version m"
    "cd_securityVersion (decided (verify_row k p s) d) = SecurityVersion t"
  using assms by (simp_all add: decided_def Let_def)

lemma decided_fields [simp]:
  "cd_tenant (decided row d) = cd_tenant d" "cd_principal (decided row d) = cd_principal d"
  "cd_checkedAt (decided row d) = cd_checkedAt d"
  by (simp_all add: decided_def Let_def split: option.split prod.split)

lemma verify_row_cong:
  "tenants s = tenants s' \<Longrightarrow> memberships s = memberships s' \<Longrightarrow> verify_row k p s = verify_row k p s'"
  unfolding verify_row_def by (simp only:)

lemma verifyIn_run:
  assumes "verifyIn req d w = (Inr d', w')"
  obtains r where "row_of co_id (vr_consumer req) (consumers (callers (store w))) = Some r"
    "d' = decided (verify_row (vr_tenant req) (vr_principal req) (store w)) d"
    "data w' = (data w)\<lparr>callers := (callers (store w))\<lparr>consumers :=
       put_row co_id (r\<lparr>co_calls := co_calls r + 1\<rparr>) (consumers (callers (store w)))\<rparr>\<rparr>"
proof -
  let ?c = "callers (store w)"
  from assms obtain r where r: "row_of co_id (vr_consumer req) (consumers ?c) = Some r"
    and w': "w' = w\<lparr>store := (store w)\<lparr>callers := ?c\<lparr>consumers := put_row co_id (r\<lparr>co_calls := co_calls r + 1\<rparr>) (consumers ?c)\<rparr>\<rparr>\<rparr>"
    and d: "d' = decided (verify_row (vr_tenant req) (vr_principal req) (store w')) d"
    by (cases "row_of co_id (vr_consumer req) (consumers ?c)")
      (auto simp: verifyIn_def countVerify_def seq_run(1) read_callers_run on_callers_run read_db_run lift_run
        ensure_run return_run bigint_incr_Inr)
  have "verify_row (vr_tenant req) (vr_principal req) (store w') = verify_row (vr_tenant req) (vr_principal req) (store w)"
    by (rule verify_row_cong) (simp_all add: w')
  moreover have "data w' = (data w)\<lparr>callers := ?c\<lparr>consumers := put_row co_id (r\<lparr>co_calls := co_calls r + 1\<rparr>) (consumers ?c)\<rparr>\<rparr>"
    unfolding w' by (cases "store w") (simp add: data_def)
  ultimately show thesis using that r d by simp
qed

lemma Verify_run:
  assumes "Verify env cx req w = (Inr d, w')"
  obtains scope i r start where
    "cx_scope cx = Some scope" "sc_provider scope" "startDecision req (clock env (ticks w)) = Inr start"
    "row_of co_id (vr_consumer req) (consumers (callers (store w))) = Some r"
    "d = decided (verify_row (vr_tenant req) (vr_principal req) (store w)) start"
    "data w' = (with_audit [(Evidence scope cx (''authoritative context check for consumer '' @ vr_consumer req))
         \<lparr>ac_id := fst i, ac_occurredAt := snd i\<rparr>] (data w))
       \<lparr>callers := (callers (store w))\<lparr>consumers :=
          put_row co_id (r\<lparr>co_calls := co_calls r + 1\<rparr>) (consumers (callers (store w)))\<rparr>\<rparr>"
proof -
  let ?reason = "''authoritative context check for consumer '' @ vr_consumer req"
  define w0 where "w0 = w\<lparr>ticks := Suc (ticks w)\<rparr>"
  from assms obtain start where start: "startDecision req (clock env (ticks w)) = Inr start"
    and run: "WithProviderScope env cx ?reason (\<lambda>b cx. verifyIn req start) w0 = (Inr d, w')"
    by (auto simp: Verify_def run_simps w0_def)
  from run obtain scope i cx1 w1 where s: "cx_scope cx = Some scope" "sc_provider scope"
    and en: "entered [(Evidence scope cx ?reason)\<lparr>ac_id := fst i, ac_occurredAt := snd i\<rparr>] w0 w1"
    and b: "verifyIn req start w1 = (Inr d, w')"
    by (rule WithProviderScope_enters)
  have c: "callers (store w1) = callers (store w)" and t: "tenants (store w1) = tenants (store w)"
    and m: "memberships (store w1) = memberships (store w)" using entered_fields[OF en] by (simp_all add: w0_def)
  have e: "data w1 = with_audit [(Evidence scope cx ?reason)\<lparr>ac_id := fst i, ac_occurredAt := snd i\<rparr>] (data w)"
    using en by (simp add: entered_def w0_def data_def)
  from b obtain r where r: "row_of co_id (vr_consumer req) (consumers (callers (store w))) = Some r"
    "d = decided (verify_row (vr_tenant req) (vr_principal req) (store w1)) start"
    "data w' = (data w1)\<lparr>callers := (callers (store w))\<lparr>consumers :=
       put_row co_id (r\<lparr>co_calls := co_calls r + 1\<rparr>) (consumers (callers (store w)))\<rparr>\<rparr>"
    unfolding c[symmetric] by (rule verifyIn_run)
  have "verify_row (vr_tenant req) (vr_principal req) (store w1) = verify_row (vr_tenant req) (vr_principal req) (store w)"
    by (rule verify_row_cong) (fact t m)+
  then show thesis using that s start r unfolding e by simp
qed

lemma startDecision_run:
  "startDecision req at = Inr d \<Longrightarrow>
     \<not> cd_granted d \<and> cd_refusal d = RefusalNone \<and> cd_tenant d = vr_tenant req \<and> cd_principal d = vr_principal req \<and>
     cd_checkedAt d = at \<and> cd_securityVersion d = 0"
  by (auto simp: startDecision_def split: if_splits)

text \<open>
  (C23) The fresh check grants exactly when the Principal has an active Membership in a Tenant that exists
  and is active, and gives a reason exactly when it does not; it needs a registered consumer, counts the
  call on that consumer and records the access, and writes nothing else.
\<close>

theorem Verify_effect:
  assumes "Verify env cx req w = (Inr d, w')"
  shows "(cd_granted d \<longleftrightarrow> may_work (store w) (vr_tenant req) (vr_principal req)) \<and>
    (cd_refusal d = RefusalNone \<longleftrightarrow> cd_granted d) \<and>
    cd_tenant d = vr_tenant req \<and> cd_principal d = vr_principal req \<and> cd_checkedAt d = clock env (ticks w) \<and>
    (\<exists>scope i r. cx_scope cx = Some scope \<and> sc_provider scope \<and>
      row_of co_id (vr_consumer req) (consumers (callers (store w))) = Some r \<and>
      data w' = (with_audit [(Evidence scope cx (''authoritative context check for consumer '' @ vr_consumer req))
           \<lparr>ac_id := fst i, ac_occurredAt := snd i\<rparr>] (data w))
         \<lparr>callers := (callers (store w))\<lparr>consumers :=
            put_row co_id (r\<lparr>co_calls := co_calls r + 1\<rparr>) (consumers (callers (store w)))\<rparr>\<rparr>)"
  using assms
proof (rule Verify_run)
  fix scope i r start
  assume a: "cx_scope cx = Some scope" "sc_provider scope" "startDecision req (clock env (ticks w)) = Inr start"
    "row_of co_id (vr_consumer req) (consumers (callers (store w))) = Some r"
    and d: "d = decided (verify_row (vr_tenant req) (vr_principal req) (store w)) start"
    and e: "data w' = (with_audit [(Evidence scope cx (''authoritative context check for consumer '' @ vr_consumer req))
         \<lparr>ac_id := fst i, ac_occurredAt := snd i\<rparr>] (data w))
       \<lparr>callers := (callers (store w))\<lparr>consumers :=
          put_row co_id (r\<lparr>co_calls := co_calls r + 1\<rparr>) (consumers (callers (store w)))\<rparr>\<rparr>"
  show ?thesis using startDecision_run[OF a(3)] decided_granted[of start] a e by (simp add: d) blast
qed

section \<open>The list agrees with the check\<close>

lemma page_complete:
  assumes "page_of key limit (take (nat limit + 1) rows) = (items, None)" "1 \<le> limit"
  shows "items = rows"
  using assms by (auto simp: page_of_def split: if_splits)

lemma context_of_Some:
  "context_of s p m = Some i \<Longrightarrow> ci_tenant i = m_tenant m"
  "(\<exists>i. context_of s p m = Some i) \<longleftrightarrow> m_principal m = p \<and> m_status m = MembershipActive \<and>
     (\<exists>t. row_of TenantID (m_tenant m) (tenants s) = Some t \<and> Status t = TenantActive)"
  by (auto simp: context_of_def split: option.splits if_splits)

lemma contexts_listed:
  "(\<exists>i \<in> set (List.map_filter (context_of s p) (memberships s)). ci_tenant i = k) \<longleftrightarrow> may_work s k p"
proof -
  have "(\<exists>i \<in> set (List.map_filter (context_of s p) (memberships s)). ci_tenant i = k) \<longleftrightarrow>
      (\<exists>m \<in> set (memberships s). m_tenant m = k \<and> (\<exists>i. context_of s p m = Some i))"
    by (force simp: map_filter_def dest: context_of_Some(1))
  also have "\<dots> \<longleftrightarrow> may_work s k p"
    unfolding context_of_Some(2) may_work_def list_ex_iff by blast
  finally show ?thesis .
qed

text \<open>
  (C24) The list a person reads of where they may work and the check a consumer makes agree: on one page
  that is the whole list, a Tenant is listed exactly when the fresh check grants it.
\<close>

theorem Own_agrees_with_Verify:
  assumes "Own env cx q w = (Inr (items, None), w1)" "IsNil (cq_after q)"
    "Verify env cx' req w = (Inr d, w2)" "cx_scope cx = Some scope" "vr_principal req = sc_actor scope"
  shows "cd_granted d \<longleftrightarrow> (\<exists>i \<in> set items. ci_tenant i = vr_tenant req)"
proof -
  from assms(1,4) obtain limit where l: "ListLimit (cq_limit q) = Inr limit"
    and run: "WithSelfRead env cx (\<lambda>b cx. contextsIn (sc_actor scope) (cq_after q) limit) w = (Inr (items, None), w1)"
    by (auto simp: Own_def run_simps split: sum.splits)
  let ?rows = "keyset_rows ci_membership (cq_after q) (\<lambda>_. True) (List.map_filter (context_of (store w) (sc_actor scope)) (memberships (store w)))"
  from run have "page_of ci_membership limit (take (nat limit + 1) ?rows) = (items, None)"
    by (auto simp: WithSelfRead_def run_simps contextsIn_def)
  then have "items = ?rows" using ListLimit_range[OF l] by (intro page_complete) auto
  then have "set items = set (List.map_filter (context_of (store w) (sc_actor scope)) (memberships (store w)))"
    using assms(2) by (simp add: keyset_rows_def Keyset_def)
  moreover have "cd_granted d \<longleftrightarrow> may_work (store w) (vr_tenant req) (vr_principal req)"
    using assms(3) by (rule Verify_run) (auto simp: decided_granted dest: startDecision_run)
  ultimately show ?thesis using contexts_listed[of "store w" "sc_actor scope" "vr_tenant req"] assms(5) by simp
qed

section \<open>What the check gives away\<close>

text \<open>
  A decision carries the security version of the Tenant it was asked about whenever that Tenant exists,
  granted or refused, and 0 when it does not: a refusal for want of a Membership tells the two apart.
\<close>

theorem refusal_carries_version:
  assumes "Verify env cx req w = (Inr d, w')"
  shows "cd_securityVersion d =
    (case row_of TenantID (vr_tenant req) (tenants (store w)) of None \<Rightarrow> 0 | Some t \<Rightarrow> SecurityVersion t)"
  using assms
  by (rule Verify_run) (auto simp: decided_def verify_row_def Let_def dest: startDecision_run split: option.splits)

text \<open>
  The check does not look at a Membership's validity window, which the standing of a Tenant administrator
  does: a Principal whose Memberships are active and outside their window is granted the context.
\<close>

theorem lapsed_membership_verified:
  assumes "Verify env cx req w = (Inr d, w')"
    "row_of TenantID (vr_tenant req) (tenants (store w)) = Some t" "Status t = TenantActive"
    "m \<in> set (memberships (store w))" "m_tenant m = vr_tenant req" "m_principal m = vr_principal req" "m_status m = MembershipActive"
    "list_all (\<lambda>m. m_principal m = vr_principal req \<longrightarrow> \<not> within_window at m) (memberships (store w))"
  shows "cd_granted d \<and> \<not> ts_member (tenant_standing_of at (vr_principal req) (vr_tenant req) (store w))"
proof -
  have "may_work (store w) (vr_tenant req) (vr_principal req)"
    using assms(2-7) by (auto simp: may_work_def list_ex_iff)
  moreover have "cd_granted d \<longleftrightarrow> may_work (store w) (vr_tenant req) (vr_principal req)"
    using assms(1) by (rule Verify_run) (auto simp: decided_granted dest: startDecision_run)
  ultimately show ?thesis using assms(8) by (auto simp: tenant_standing_of_def list_ex_iff list_all_iff)
qed

end
