(* ===== verification/Sweep.thy ===== *)
theory Sweep
  imports Provisioning Invitation_Service
begin

text \<open>
  The scheduled sweeps, \<open>src/internal/sweep/sweep.go\<close>: one run of a job is a sequence of batches, bounded
  in number, and what the run did is kept for the alert that watches it. The jobs are the two the
  composition root gives the runner. Counters, gauges and log lines are telemetry and are not modelled.
\<close>

definition BatchSize :: int where "BatchSize = 100"
definition MaxBatches :: nat where "MaxBatches = 50"

definition ProvisioningUnresolved :: string where "ProvisioningUnresolved = ''provisioning_unresolved''"
definition InvitationExpiry :: string where "InvitationExpiry = ''invitation_expiry''"

datatype run_outcome = RunSuccess | RunFailure

record run_result =
  rs_outcome :: run_outcome
  rs_affected :: int
  rs_batches :: nat
  rs_bounded :: bool

text \<open>A job with what its last runs did.\<close>

record job_state =
  js_name :: string
  js_interval :: int
  js_lastSuccess :: instant
  js_lastRun :: instant

type_synonym batch_fn = "int \<Rightarrow> int tx"

text \<open>
  The loop of \<open>Run\<close>. A batch that fails ends it with the error; the store the batch left is the one it
  rolled back to.
\<close>

function batches_from :: "batch_fn \<Rightarrow> run_result \<Rightarrow> world \<Rightarrow> (run_result \<times> error option) \<times> world" where
  "batches_from batch r w =
     (if \<not> rs_batches r < MaxBatches then ((r, None), w)
      else case batch BatchSize w of
        (Inl e, w') \<Rightarrow> ((r, Some e), w')
      | (Inr n, w') \<Rightarrow>
          let r1 = r\<lparr>rs_batches := Suc (rs_batches r), rs_affected := rs_affected r + n\<rparr>
          in if n < BatchSize then ((r1, None), w')
             else batches_from batch (if rs_batches r1 = MaxBatches then r1\<lparr>rs_bounded := True\<rparr> else r1) w')"
  by pat_completeness auto

termination
  by (relation "measure (\<lambda>(batch, r, w). MaxBatches - rs_batches r)") (auto split: if_splits)

declare batches_from.simps [simp del]

definition ran :: "instant \<Rightarrow> error option \<Rightarrow> job_state \<Rightarrow> job_state" where
  "ran at failure j =
     j\<lparr>js_lastRun := at, js_lastSuccess := (if failure = None then at else js_lastSuccess j)\<rparr>"

text \<open>\<open>Run\<close> of one of the runner's jobs: the result, the error if a batch failed, and the jobs after it.\<close>

definition Run ::
  "env \<Rightarrow> (string \<Rightarrow> batch_fn option) \<Rightarrow> string \<Rightarrow> job_state list \<Rightarrow>
   world \<Rightarrow> (error + run_result \<times> error option) \<times> job_state list \<times> world" where
  "Run env batch name jobs w =
     (case (row_of js_name name jobs, batch name) of
        (Some j, Some b) \<Rightarrow>
          let ((r, failure), w1) = batches_from b \<lparr>rs_outcome = RunSuccess, rs_affected = 0, rs_batches = 0, rs_bounded = False\<rparr> w;
              at = clock env (ticks w1);
              r1 = r\<lparr>rs_outcome := (if failure = None then RunSuccess else RunFailure)\<rparr>
          in (Inr (r1, failure), change_row js_name name (ran at failure) jobs, w1\<lparr>ticks := Suc (ticks w1)\<rparr>)
      | _ \<Rightarrow> (Inl (ErrInternal ''sweep: no job of this name''), jobs, w))"

text \<open>The two jobs of \<open>cmd/organization-control/main.go\<close>.\<close>

definition sweep_jobs :: "env \<Rightarrow> string \<Rightarrow> batch_fn option" where
  "sweep_jobs env name =
     (if name = ProvisioningUnresolved
      then Some (ScheduledSweepUnresolved env)
      else if name = InvitationExpiry
      then Some (\<lambda>size. seq (ScheduledExpireLapsed env size) (\<lambda>n. return (int n)))
      else None)"

section \<open>What a run does\<close>

text \<open>A sequence of successful batches, with how many rows each changed.\<close>

inductive batched :: "batch_fn \<Rightarrow> world \<Rightarrow> int list \<Rightarrow> world \<Rightarrow> bool" for batch where
  Batched_none: "batched batch w [] w"
| Batched_one: "batch BatchSize w = (Inr n, w1) \<Longrightarrow> batched batch w1 ns w2 \<Longrightarrow> batched batch w (n # ns) w2"

inductive_cases batched_ConsE: "batched batch w (n # ns) w2"

definition stopped :: "batch_fn \<Rightarrow> int list \<Rightarrow> nat \<Rightarrow> bool \<Rightarrow> error option \<Rightarrow> world \<Rightarrow> world \<Rightarrow> bool" where
  "stopped batch ns done bounded failure w1 w' \<longleftrightarrow>
     (case failure of
        Some e \<Rightarrow> list_all (\<lambda>n. BatchSize \<le> n) ns \<and> done < MaxBatches \<and> batch BatchSize w1 = (Inl e, w') \<and> \<not> bounded
      | None \<Rightarrow> w' = w1 \<and>
          (if bounded then done = MaxBatches \<and> list_all (\<lambda>n. BatchSize \<le> n) ns
           else ns \<noteq> [] \<and> last ns < BatchSize \<and> list_all (\<lambda>n. BatchSize \<le> n) (butlast ns)))"

lemma stopped_Cons: "stopped batch ns done bounded failure w1 w' \<Longrightarrow> BatchSize \<le> n \<Longrightarrow> stopped batch (n # ns) done bounded failure w1 w'"
  by (auto simp: stopped_def split: option.splits if_splits)

lemma batches_from_stops:
  assumes "batches_from batch r w = ((r', failure), w')" "rs_batches r < MaxBatches" "\<not> rs_bounded r"
  shows "\<exists>ns w1. batched batch w ns w1 \<and> rs_batches r' = rs_batches r + length ns \<and> rs_batches r' \<le> MaxBatches \<and>
    rs_affected r' = rs_affected r + sum_list ns \<and> stopped batch ns (rs_batches r') (rs_bounded r') failure w1 w'"
  using assms
proof (induction batch r w rule: batches_from.induct)
  case (1 batch r w)
  note IH = 1(1) and run = 1(2) and room = 1(3) and unbounded = 1(4)
  obtain q w1 where b: "batch BatchSize w = (q, w1)" by fastforce
  show ?case
  proof (cases q)
    case (Inl e)
    then have "r' = r" "failure = Some e" "w' = w1" using run b room by (simp_all add: batches_from.simps[of batch r w])
    then show ?thesis
      using b Inl room unbounded by (intro exI[of _ "[]"] exI[of _ w]) (simp add: batched.Batched_none stopped_def)
  next
    case (Inr n)
    have one: "batched batch w (n # ns) w2" if "batched batch w1 ns w2" for ns w2
      using b Inr that by (intro batched.Batched_one) simp_all
    let ?r = "r\<lparr>rs_batches := Suc (rs_batches r), rs_affected := rs_affected r + n\<rparr>"
    consider "n < BatchSize" | "BatchSize \<le> n" "Suc (rs_batches r) = MaxBatches" | "BatchSize \<le> n" "Suc (rs_batches r) < MaxBatches"
      using room by linarith
    then show ?thesis
    proof cases
      case 1
      then have "r' = ?r" "failure = None" "w' = w1" using run b Inr room by (simp_all add: batches_from.simps[of batch r w] Let_def)
      then show ?thesis
        using b Inr room unbounded 1 one[OF batched.Batched_none]
        by (intro exI[of _ "[n]"] exI[of _ w1]) (simp add: stopped_def)
    next
      case 2
      then have "r' = ?r\<lparr>rs_bounded := True\<rparr>" "failure = None" "w' = w1"
        using run b Inr room by (simp_all add: batches_from.simps[of batch r w] batches_from.simps[of batch "r\<lparr>rs_batches := q, rs_affected := a, rs_bounded := True\<rparr>" v for q a v] Let_def)
      then show ?thesis
        using b Inr 2 one[OF batched.Batched_none]
        by (intro exI[of _ "[n]"] exI[of _ w1]) (simp add: stopped_def)
    next
      case 3
      then have "batches_from batch ?r w1 = ((r', failure), w')"
        using run b Inr room by (simp add: batches_from.simps[of batch r w] Let_def)
      then have "\<exists>ns w2. batched batch w1 ns w2 \<and> rs_batches r' = rs_batches ?r + length ns \<and> rs_batches r' \<le> MaxBatches \<and>
          rs_affected r' = rs_affected ?r + sum_list ns \<and> stopped batch ns (rs_batches r') (rs_bounded r') failure w2 w'"
        using IH b Inr 3 room unbounded by simp
      then obtain ns w2 where "batched batch w1 ns w2" "rs_batches r' = rs_batches ?r + length ns" "rs_batches r' \<le> MaxBatches"
          "rs_affected r' = rs_affected ?r + sum_list ns" "stopped batch ns (rs_batches r') (rs_bounded r') failure w2 w'" by blast
      then show ?thesis
        using one stopped_Cons[of batch ns "rs_batches r'" "rs_bounded r'" failure w2 w' n] 3(1)
        by (intro exI[of _ "n # ns"] exI[of _ w2]) simp
    qed
  qed
qed

text \<open>
  (C40) One run of a scheduled sweep ends: it makes at most fifty batches of a hundred rows, goes on only
  after a full batch, and stops at the first short one, at a failing one, or at the bound with every batch
  full; it reports what its batches changed, says whether it was bounded, and counts as the last success
  only when no batch failed.
\<close>

theorem Run_stops:
  assumes "Run env batch name jobs w = (Inr (r, failure), jobs', w')"
  shows "\<exists>b ns w1 w2. batch name = Some b \<and> batched b w ns w1 \<and> rs_batches r = length ns \<and> length ns \<le> MaxBatches \<and>
    rs_affected r = sum_list ns \<and> stopped b ns (length ns) (rs_bounded r) failure w1 w2 \<and>
    w' = w2\<lparr>ticks := Suc (ticks w2)\<rparr> \<and> (rs_outcome r = RunSuccess \<longleftrightarrow> failure = None) \<and>
    jobs' = change_row js_name name (ran (clock env (ticks w2)) failure) jobs"
proof -
  let ?r = "\<lparr>rs_outcome = RunSuccess, rs_affected = 0, rs_batches = 0, rs_bounded = False\<rparr>"
  from assms obtain j b where b: "batch name = Some b" by (auto simp: Run_def split: option.splits)
  obtain r1 f w2 where run: "batches_from b ?r w = ((r1, f), w2)" by (metis surj_pair)
  with assms b have r: "r = r1\<lparr>rs_outcome := (if failure = None then RunSuccess else RunFailure)\<rparr>" "f = failure"
    "w' = w2\<lparr>ticks := Suc (ticks w2)\<rparr>" "jobs' = change_row js_name name (ran (clock env (ticks w2)) failure) jobs"
    by (auto simp: Run_def Let_def split: option.splits)
  from batches_from_stops[OF run] obtain ns w1 where "batched b w ns w1" "rs_batches r1 = length ns" "length ns \<le> MaxBatches"
    "rs_affected r1 = sum_list ns" "stopped b ns (length ns) (rs_bounded r1) failure w1 w2"
    by (auto simp: MaxBatches_def r(2))
  then show ?thesis using b r by (intro exI[of _ b] exI[of _ ns] exI[of _ w1] exI[of _ w2]) simp
qed

end
