(* ===== verification/Authority_Witnesses.thy ===== *)
theory Authority_Witnesses
  imports Authority_Safety Context_Effects Sweep Example_World
begin

text \<open>
  The theorems on provider authority, on the active context and on the scheduled sweeps, applied to the
  world of \<open>Example_World\<close> with callers in it: an emergency holder, an eligible holder with a request
  that waits, a holder of a published scope, and a consumer.
\<close>

definition ex_pgrant :: "uuid \<Rightarrow> uuid \<Rightarrow> string \<Rightarrow> grant_kind \<Rightarrow> provider_grant" where
  "ex_pgrant k who scope kind = \<lparr>pg_id = k, pg_principal = who, pg_scope = scope, pg_kind = kind, pg_grantedBy = None,
     pg_operator = ''ops'', pg_reason = ''first'', pg_grantedAt = 100, pg_revokedAt = None, pg_revokedBy = None,
     pg_revokeReason = [], pg_version = 0\<rparr>"

definition ex_activation :: activation where
  "ex_activation = \<lparr>act_id = 70, act_grant = 62, act_principal = 8, act_scope = Scope, act_reason = ''incident'',
     act_duration = 100, act_approval = True, act_requestedAt = 900, act_decidedBy = None, act_decision = None,
     act_decisionReason = [], act_decidedAt = None, act_endsAt = None, act_endedBy = None, act_endReason = [],
     act_endedAt = None\<rparr>"

definition ex_consumer :: consumer where
  "ex_consumer = \<lparr>co_id = ''app'', co_principal = 90, co_projectionVersion = ''v1'', co_maxAcceptedAge = 60,
     co_staleBehavior = StaleFailClosed, co_registeredAt = 50, co_retiredAt = None, co_snapshotMark = None,
     co_reportedMark = None, co_reportedAt = None, co_reconciledAt = None, co_reconciledMark = None,
     co_reconciledFindings = None, co_extraFindings = None, co_interval = 60, co_reconcileRequested = None, co_calls = 3, co_requests = None,
     co_ratio = None\<rparr>"

definition ex_callers :: caller_records where
  "ex_callers = no_callers\<lparr>provider_grants := [ex_pgrant 60 7 Scope KindEmergency,
       ex_pgrant 61 9 ScopeIdentityControl KindEligible, ex_pgrant 62 8 Scope KindEligible],
     activations := [ex_activation], consumers := [ex_consumer]\<rparr>"

definition ex_called :: world where
  "ex_called = ex_world\<lparr>store := ex_store\<lparr>callers := ex_callers\<rparr>\<rparr>"

lemma ex_called_fields:
  "callers (store ex_called) = ex_callers" "tenants (store ex_called) = tenants ex_store"
  "memberships (store ex_called) = memberships ex_store"
  by (simp_all add: ex_called_def)

lemma ex_callers_wf: "callers_wf ex_callers"
  by (simp add: callers_wf_def grants_wf_def activations_wf_def records_wf_def ex_callers_def no_callers_def ex_pgrant_def
      ex_activation_def activation_ok_def grant_of_def keyed_def registeredScope_def Scopes_def Scope_def ScopeIdentityControl_def
      ex_consumer_def consumer_ok_def)

lemma ex_callers_governed: "governed ex_callers"
  by (simp add: governed_def ex_callers_def ex_pgrant_def unrevoked_def)

lemma ex_called_wf: "control_wf (store ex_called)"
  by (auto simp: control_wf_def ex_callers_wf ex_called_def tenants_wf_def memberships_wf_def freezes_wf_def freezes_ok_def coordinated_def
      live_tenants_def leaving_tenants_def sponsored_def sponsor_lives_def invitations_wf_def batches_ok_def keyed_def
      ex_store_def ex_tenant_def ex_membership_def tenant_stamps_def membership_ok_def active_clash_def active_key_def bigint_max_def)

section \<open>Provider authority\<close>

lemma ex_provider_revoke_runs: "succeeds (provider_Revoke ex_env ex_provider 61 ''left'' ex_called)"
  by code_simp

theorem provider_Revoke_effect_witness:
  "\<exists>record w' t at e i scope. provider_Revoke ex_env ex_provider 61 ''left'' ex_called = (Inr record, w') \<and>
    data w' = announced_grant t 61 EventRevoked at e
      ((with_audit [(Evidence scope ex_provider ''left'')\<lparr>ac_id := fst i, ac_occurredAt := snd i\<rparr>] (data ex_called))
        \<lparr>callers := ex_callers\<lparr>provider_grants :=
           change_row pg_id 61 (revokeGrant t (sc_actor scope) (TrimSpace ''left'')) (provider_grants ex_callers)\<rparr>\<rparr>)"
proof -
  obtain g w' where run: "provider_Revoke ex_env ex_provider 61 ''left'' ex_called = (Inr g, w')"
    using ex_provider_revoke_runs by (rule succeedsE)
  show ?thesis using provider_Revoke_effect[OF run] run unfolding ex_called_fields by blast
qed

lemma ex_decide_runs: "succeeds (activation_Decide ex_env ex_provider 70 DecisionApproved ''agreed'' ex_called)"
  by code_simp

theorem activation_Decide_effect_witness:
  "\<exists>a' w' t (scope :: scope). activation_Decide ex_env ex_provider 70 DecisionApproved ''agreed'' ex_called = (Inr a', w') \<and>
    a' = decideActivation t (sc_actor scope) DecisionApproved (TrimSpace ''agreed'') ex_activation \<and> act_principal ex_activation \<noteq> sc_actor scope"
proof -
  obtain a' w' where run: "activation_Decide ex_env ex_provider 70 DecisionApproved ''agreed'' ex_called = (Inr a', w')"
    using ex_decide_runs by (rule succeedsE)
  have "activation_of 70 ex_callers = Some ex_activation"
    by (simp add: activation_of_def ex_callers_def ex_activation_def)
  then show ?thesis using activation_Decide_effect[OF run] run unfolding ex_called_fields by auto
qed

theorem provider_authority_kept_witness:
  "governed (callers (store (snd (provider_Revoke ex_env ex_provider 60 ''left'' ex_called))))"
proof -
  have "served ex_env ex_called (snd (provider_Revoke ex_env ex_provider 60 ''left'' ex_called))"
    by (rule served.Authority_revoke) (rule prod.collapse[symmetric])
  then show ?thesis
    using provider_authority_kept[of ex_called ex_env] ex_callers_wf ex_callers_governed by (auto simp: ex_called_fields)
qed

lemma ex_standing_runs:
  "case ProviderStanding ex_env 7 ex_called of (Inr st, w) \<Rightarrow> st_inForce st | _ \<Rightarrow> False"
  by code_simp

theorem authority_traceable_witness:
  "\<exists>st w'. ProviderStanding ex_env 7 ex_called = (Inr st, w') \<and> st_inForce st \<and>
    (emergency_holder 7 ex_callers \<or> activated_holder (db_clock ex_env (Suc (ticks ex_called))) 7 ex_callers)"
proof -
  obtain st w' where run: "ProviderStanding ex_env 7 ex_called = (Inr st, w')" "st_inForce st"
    using ex_standing_runs by (auto split: prod.splits sum.splits)
  show ?thesis
    using authority_traceable[OF ex_called_wf rtranclp.rtrancl_refl run] run by (auto simp: ex_called_fields)
qed

section \<open>The active context\<close>

definition ex_verify :: verify_request where
  "ex_verify = \<lparr>vr_consumer = ''app'', vr_tenant = 10, vr_principal = 5\<rparr>"

definition ex_contexts :: context_query where
  "ex_contexts = \<lparr>cq_after = 0, cq_limit = 0\<rparr>"

lemma ex_verify_runs: "succeeds (Verify ex_env ex_provider ex_verify ex_called)"
  by code_simp

lemma ex_may_work: "may_work (store ex_called) 10 5"
  by (simp add: may_work_def ex_called_fields ex_store_def ex_tenant_def ex_membership_def)

theorem Verify_effect_witness:
  "\<exists>d w'. Verify ex_env ex_provider ex_verify ex_called = (Inr d, w') \<and> cd_granted d \<and> cd_refusal d = RefusalNone"
proof -
  obtain d w' where run: "Verify ex_env ex_provider ex_verify ex_called = (Inr d, w')"
    using ex_verify_runs by (rule succeedsE)
  have "vr_tenant ex_verify = 10" "vr_principal ex_verify = 5" by (simp_all add: ex_verify_def)
  then show ?thesis using Verify_effect[OF run] run ex_may_work by auto
qed

lemma ex_own_runs:
  "case Own ex_env ex_self ex_contexts ex_called of (Inr (items, None), w) \<Rightarrow> True | _ \<Rightarrow> False"
  by code_simp

theorem Own_agrees_with_Verify_witness:
  "\<exists>items d w1 w2. Own ex_env ex_self ex_contexts ex_called = (Inr (items, None), w1) \<and>
    Verify ex_env ex_provider ex_verify ex_called = (Inr d, w2) \<and> (cd_granted d \<longleftrightarrow> (\<exists>i \<in> set items. ci_tenant i = 10))"
proof -
  obtain items w1 where own: "Own ex_env ex_self ex_contexts ex_called = (Inr (items, None), w1)"
    using ex_own_runs by (auto split: prod.splits sum.splits option.splits)
  obtain d w2 where run: "Verify ex_env ex_provider ex_verify ex_called = (Inr d, w2)"
    using ex_verify_runs by (rule succeedsE)
  have "cd_granted d \<longleftrightarrow> (\<exists>i \<in> set items. ci_tenant i = vr_tenant ex_verify)"
    by (rule Own_agrees_with_Verify[OF own _ run, where scope = "zero_scope\<lparr>sc_self := True, sc_actor := 5, sc_correlation := 9\<rparr>"])
      (simp_all add: ex_contexts_def ex_self_def ex_context_def ex_verify_def)
  then show ?thesis using own run by (auto simp: ex_verify_def)
qed

section \<open>The sweeps\<close>

definition ex_jobs :: "job_state list" where
  "ex_jobs = [\<lparr>js_name = ProvisioningUnresolved, js_interval = 60, js_lastSuccess = 0, js_lastRun = 0\<rparr>]"

lemma ex_scheduled_runs:
  "case Run ex_env (sweep_jobs ex_env) ProvisioningUnresolved ex_jobs ex_called of (Inr (r, None), js, w) \<Rightarrow> True | _ \<Rightarrow> False"
  by code_simp

theorem Run_stops_witness:
  "\<exists>r js w' ns. Run ex_env (sweep_jobs ex_env) ProvisioningUnresolved ex_jobs ex_called = (Inr (r, None), js, w') \<and>
    rs_batches r = length ns \<and> length ns \<le> MaxBatches \<and> rs_affected r = sum_list ns \<and> rs_outcome r = RunSuccess"
proof -
  obtain r js w' where run: "Run ex_env (sweep_jobs ex_env) ProvisioningUnresolved ex_jobs ex_called = (Inr (r, None), js, w')"
    using ex_scheduled_runs by (auto split: prod.splits sum.splits option.splits)
  show ?thesis using Run_stops[OF run] run by blast
qed

end
