(* ===== verification/Projection_Effects.thy ===== *)
theory Projection_Effects
  imports Context_Effects Projection_Relations
begin

text \<open>
  What the operations of the projection do: a reconciliation finds exactly the differences between a
  consumer's report and authority, a snapshot tells a consumer what the fresh check would, a dead letter is
  closed only on the evidence that closes it and a waiver leaves the frontier as it is, and the enforcement
  of a change is read from its consumers' receipts.
\<close>

lemma snapshot_scope_enters:
  assumes "withRecordedScope env cx reason True consumer fn w = (Inr x, w')"
  obtains scope i v where "cx_scope cx = Some scope" "if consumer then sc_consumer scope else sc_provider scope"
    "store v = with_audit [(Evidence scope cx reason)\<lparr>ac_id := fst i, ac_occurredAt := snd i\<rparr>] (store w)"
    "fn BoundProvider cx v = (Inr x, w')" "store w' = store v"
proof -
  from assms obtain scope w0 where s: "cx_scope cx = Some scope" "consumer \<longrightarrow> sc_consumer scope" "\<not> consumer \<longrightarrow> sc_provider scope"
    and p: "RecordProviderAccess env (Evidence scope cx reason) w = (Inr (), w0)"
    and f: "fn BoundProvider cx (w0\<lparr>ticks := Suc (ticks w0)\<rparr>) = (Inr x, w')" "store w' = store w0"
    unfolding withRecordedScope_def by (simp add: seq_run(1) ScopeFrom_run ensure_run InTx_run read_only_run) blast
  from p obtain i where "store w0 = with_audit [(Evidence scope cx reason)\<lparr>ac_id := fst i, ac_occurredAt := snd i\<rparr>] (store w)"
    by (rule RecordProviderAccess_writes)
  then show thesis using that[OF s(1) _ _ f(1)] s f(2) by simp
qed

section \<open>The findings of a reconciliation\<close>

text \<open>The version at which authority holds a Membership active, and the difference a report's version is.\<close>

definition active_version :: "store \<Rightarrow> uuid \<Rightarrow> int option" where
  "active_version s k =
     (case row_of m_id k (memberships s) of
        None \<Rightarrow> None
      | Some m \<Rightarrow> if m_status m = MembershipActive \<and> row_of TenantID (m_tenant m) (tenants s) \<noteq> None
                 then Some (m_version m) else None)"

definition held_state :: "store \<Rightarrow> uuid \<Rightarrow> repaired_state option" where
  "held_state s k = Option.bind (row_of m_id k (memberships s)) (state_of s)"

fun divergence :: "int option \<Rightarrow> int option \<Rightarrow> finding_class option" where
  "divergence None None = None"
| "divergence (Some v) None = Some ClassMissing"
| "divergence None (Some u) = Some ClassExtra"
| "divergence (Some v) (Some u) = (if u \<noteq> v then Some ClassMismatch else None)"

lemma row_of_map_filter:
  assumes "keyed key rows" "\<And>r y. f r = Some y \<Longrightarrow> key' y = key r"
  shows "row_of key' k (List.map_filter f (filter P rows)) =
    (case row_of key k rows of None \<Rightarrow> None | Some r \<Rightarrow> if P r then f r else None)"
  using assms(1)
proof (induction rows)
  case (Cons r rows)
  have k: "key' y = k \<longleftrightarrow> key r = k" if "f r = Some y" for y using assms(2) that by auto
  have "row_of key k rows = None" if "key r = k" using Cons.prems that by (auto simp: keyed_def row_of_None_iff)
  moreover have "keyed key rows" using Cons.prems by (simp add: keyed_def)
  ultimately show ?case
    using Cons.IH k by (cases "f r") (auto simp: row_of_def map_filter_def)
qed (simp add: row_of_def map_filter_def)

lemma state_of_key: "state_of s m = Some a \<Longrightarrow> rst_membership a = m_id m \<and> rst_version a = m_version m"
  by (auto simp: state_of_def)

lemma state_of_None: "state_of s m = None \<longleftrightarrow> row_of TenantID (m_tenant m) (tenants s) = None"
  by (simp add: state_of_def)

lemma authoritative_row:
  assumes "keyed m_id (memberships s)"
  shows "row_of rst_membership k (authoritative s) = (if active_version s k = None then None else held_state s k)"
    "map_option rst_version (row_of rst_membership k (authoritative s)) = active_version s k"
proof -
  have "row_of rst_membership k (authoritative s) =
      (case row_of m_id k (memberships s) of None \<Rightarrow> None | Some m \<Rightarrow> if m_status m = MembershipActive then state_of s m else None)"
    unfolding authoritative_def by (rule row_of_map_filter[OF assms]) (simp add: state_of_key)
  then show "row_of rst_membership k (authoritative s) = (if active_version s k = None then None else held_state s k)"
    "map_option rst_version (row_of rst_membership k (authoritative s)) = active_version s k"
    by (auto simp: active_version_def held_state_def state_of_def split: option.split)
qed

lemma withdrawn_row:
  assumes "keyed m_id (memberships s)" "k \<in> set ids"
  shows "row_of rst_membership k (withdrawn_states ids s) = held_state s k"
  using row_of_map_filter[OF assms(1), of "state_of s" rst_membership k "\<lambda>m. m_id m \<in> set ids"] state_of_key assms(2)
  by (auto simp: withdrawn_states_def held_state_def dest: row_of_SomeD split: option.splits)

lemma keyed_states: "keyed m_id ms \<Longrightarrow> keyed rst_membership (List.map_filter (state_of s) (filter P ms))"
proof (induction ms)
  case (Cons m ms)
  have "set (map rst_membership (List.map_filter (state_of s) (filter P ms))) \<subseteq> m_id ` set ms"
    using state_of_key by (force simp: map_filter_def)
  then show ?case
    using Cons state_of_key[of s m] by (cases "state_of s m") (auto simp: keyed_def map_filter_def)
qed (simp add: keyed_def map_filter_def)

lemma projected_None: "projected rep k = None \<longleftrightarrow> k \<notin> set (projected_ids rep)"
  by (force simp: projected_def projected_ids_def map_of_eq_None_iff)

text \<open>The finding a reconciliation owes for one Membership: the state in it is whatever authority holds.\<close>

definition finding_at :: "report \<Rightarrow> store \<Rightarrow> uuid \<Rightarrow> finding option" where
  "finding_at rep s k =
     (case divergence (active_version s k) (projected rep k) of
        None \<Rightarrow> None
      | Some c \<Rightarrow>
          Some \<lparr>fi_class = c, fi_membership = k,
            fi_tenant = (case held_state s k of None \<Rightarrow> 0 | Some h \<Rightarrow> rst_tenant h),
            fi_principal = (case held_state s k of None \<Rightarrow> 0 | Some h \<Rightarrow> rst_principal h),
            fi_authoritative = (case held_state s k of None \<Rightarrow> 0 | Some h \<Rightarrow> rst_version h),
            fi_projected = (case projected rep k of None \<Rightarrow> 0 | Some v \<Rightarrow> v), fi_state = held_state s k\<rparr>)"

lemma finding_at_key: "finding_at rep s k = Some f \<Longrightarrow> fi_membership f = k"
  by (auto simp: finding_at_def split: option.splits)

lemma authority_finding_at:
  assumes "keyed m_id (memberships s)" "row_of rst_membership k (authoritative s) = Some a"
  shows "authority_finding rep a = finding_at rep s k"
proof -
  have "held_state s k = Some a" "active_version s k = Some (rst_version a)" "rst_membership a = k"
    using authoritative_row[OF assms(1), of k] assms(2) row_of_SomeD[OF assms(2)] by (auto split: if_splits)
  then show ?thesis by (simp add: authority_finding_def finding_at_def split: option.split)
qed

lemma extra_finding_at:
  assumes "keyed m_id (memberships s)" "row_of rst_membership k (authoritative s) = None"
    "k \<in> set (projected_ids rep)" "row_of rst_membership k withdrawn = held_state s k"
  shows "extra_finding rep (authoritative s) withdrawn k = finding_at rep s k"
proof -
  have "active_version s k = None" using authoritative_row(2)[OF assms(1), of k] assms(2) by simp
  moreover obtain v where "projected rep k = Some v" using assms(3) projected_None[of rep k] by auto
  ultimately show ?thesis
    using assms(2,4) by (cases "held_state s k") (simp_all add: extra_finding_def finding_at_def)
qed

lemma set_map_filter_Some: "y \<in> set (List.map_filter f xs) \<longleftrightarrow> (\<exists>x \<in> set xs. f x = Some y)"
  by (force simp: map_filter_def)

lemma distinct_map_filter_key:
  "distinct (map key xs) \<Longrightarrow> (\<And>x y. g x = Some y \<Longrightarrow> x \<in> set xs \<Longrightarrow> key' y = key x) \<Longrightarrow> distinct (map key' (List.map_filter g xs))"
proof (induction xs)
  case (Cons x xs)
  have "set (map key' (List.map_filter g xs)) \<subseteq> key ` set xs" using Cons.prems(2) by (force simp: set_map_filter_Some)
  then show ?case using Cons by (cases "g x") (auto simp: map_filter_def)
qed (simp add: map_filter_def)

text \<open>The second list answers for every reported Membership that authority does not hold active.\<close>

definition answered :: "store \<Rightarrow> report \<Rightarrow> repaired_state list \<Rightarrow> bool" where
  "answered s rep withheld \<longleftrightarrow>
     keyed m_id (memberships s) \<and>
     (\<forall>k \<in> set (projected_ids rep). row_of rst_membership k (authoritative s) = None \<longrightarrow> row_of rst_membership k withheld = held_state s k)"

lemma authority_keyed: "keyed m_id (memberships s) \<Longrightarrow> keyed rst_membership (authoritative s)"
  unfolding authoritative_def by (rule keyed_states)

lemma authority_findings:
  assumes unique: "keyed m_id (memberships s)"
  shows "f \<in> set (List.map_filter (authority_finding rep) (authoritative s)) \<longleftrightarrow>
   row_of rst_membership (fi_membership f) (authoritative s) \<noteq> None \<and> finding_at rep s (fi_membership f) = Some f"
proof
  assume "f \<in> set (List.map_filter (authority_finding rep) (authoritative s))"
  then obtain a where a: "a \<in> set (authoritative s)" "authority_finding rep a = Some f" by (auto simp: set_map_filter_Some)
  have "row_of rst_membership (rst_membership a) (authoritative s) = Some a" using row_of_keyed[OF authority_keyed[OF unique] a(1)] .
  moreover from this have "finding_at rep s (rst_membership a) = Some f" using authority_finding_at[OF unique] a(2) by metis
  ultimately show "row_of rst_membership (fi_membership f) (authoritative s) \<noteq> None \<and> finding_at rep s (fi_membership f) = Some f"
    using finding_at_key by auto
next
  assume "row_of rst_membership (fi_membership f) (authoritative s) \<noteq> None \<and> finding_at rep s (fi_membership f) = Some f"
  then obtain a where a: "row_of rst_membership (fi_membership f) (authoritative s) = Some a" "finding_at rep s (fi_membership f) = Some f"
    by auto
  then have "a \<in> set (authoritative s)" "authority_finding rep a = Some f"
    using row_of_SomeD[OF a(1)] authority_finding_at[OF unique a(1), of rep] by auto
  then show "f \<in> set (List.map_filter (authority_finding rep) (authoritative s))" by (auto simp: set_map_filter_Some)
qed

lemma extra_findings:
  assumes a: "answered s rep withheld"
  shows "f \<in> set (List.map_filter (extra_finding rep (authoritative s) withheld) (projected_ids rep)) \<longleftrightarrow>
   row_of rst_membership (fi_membership f) (authoritative s) = None \<and> finding_at rep s (fi_membership f) = Some f"
proof -
  have unique: "keyed m_id (memberships s)" using a by (simp add: answered_def)
  have at: "extra_finding rep (authoritative s) withheld k = finding_at rep s k"
    if "k \<in> set (projected_ids rep)" "row_of rst_membership k (authoritative s) = None" for k
    using extra_finding_at[OF unique that(2,1)] a that by (simp add: answered_def)
  have known: "k \<in> set (projected_ids rep)" if "row_of rst_membership k (authoritative s) = None" "finding_at rep s k = Some f" for k
  proof (rule ccontr)
    assume "k \<notin> set (projected_ids rep)"
    then have "projected rep k = None" by (simp add: projected_None)
    moreover have "active_version s k = None" using authoritative_row(2)[OF unique, of k] that(1) by simp
    ultimately show False using that(2) by (simp add: finding_at_def)
  qed
  have none: "row_of rst_membership k (authoritative s) = None" if "extra_finding rep (authoritative s) withheld k = Some f" for k
    using that by (auto simp: extra_finding_def split: if_splits)
  have "row_of rst_membership (fi_membership f) (authoritative s) = None \<and> finding_at rep s (fi_membership f) = Some f"
    if k: "k \<in> set (projected_ids rep)" "extra_finding rep (authoritative s) withheld k = Some f" for k
  proof -
    have "finding_at rep s k = Some f" using at[OF k(1) none[OF k(2)]] k(2) by simp
    then show ?thesis using finding_at_key[of rep s k f] none[OF k(2)] by simp
  qed
  moreover have "\<exists>k \<in> set (projected_ids rep). extra_finding rep (authoritative s) withheld k = Some f"
    if f: "row_of rst_membership (fi_membership f) (authoritative s) = None" "finding_at rep s (fi_membership f) = Some f"
    using known[OF f] at[OF known[OF f] f(1)] f(2) by (intro bexI[of _ "fi_membership f"]) simp_all
  ultimately show ?thesis unfolding set_map_filter_Some by blast
qed

lemma findings_exact:
  "answered s rep withheld \<Longrightarrow> f \<in> set (findings_of rep (authoritative s) withheld) \<longleftrightarrow> finding_at rep s (fi_membership f) = Some f"
  unfolding findings_of_def using authority_findings[of s f rep] extra_findings[of s rep withheld f] by (auto simp: answered_def)

lemma findings_distinct:
  assumes "answered s rep withheld"
  shows "distinct (map fi_membership (findings_of rep (authoritative s) withheld))"
proof -
  have unique: "keyed m_id (memberships s)" using assms by (simp add: answered_def)
  let ?A = "List.map_filter (authority_finding rep) (authoritative s)"
  let ?E = "List.map_filter (extra_finding rep (authoritative s) withheld) (projected_ids rep)"
  have "distinct (map fi_membership ?A)"
    using authority_keyed[OF unique] by (intro distinct_map_filter_key[of rst_membership]) (auto simp: keyed_def authority_finding_def split: option.splits if_splits)
  moreover have "distinct (map fi_membership ?E)"
    by (intro distinct_map_filter_key[of "\<lambda>k. k"]) (auto simp: projected_ids_def extra_finding_def split: option.splits if_splits)
  moreover have "set (map fi_membership ?A) \<inter> set (map fi_membership ?E) = {}"
    using authority_findings[OF unique] extra_findings[OF assms] by auto
  ultimately have "distinct (map fi_membership (?A @ ?E))" by simp
  then show ?thesis unfolding findings_of_def distinct_map distinct_sort set_sort .
qed

lemma sorted_lexicographic: "sorted (map f xs) \<Longrightarrow> sorted (map (fst \<circ> f) xs)" for f :: "'x \<Rightarrow> nat \<times> nat"
  by (induction xs) (auto simp: less_eq_prod_def)

lemma findings_ranked: "sorted (map (class_rank \<circ> fi_class) (findings_of rep authority withheld))"
  unfolding findings_of_def
  using sorted_lexicographic[OF sorted_sort_key, of "\<lambda>f. (class_rank (fi_class f), fi_membership f)"] by (simp add: comp_def)

lemma compare_run:
  assumes "compare_body scope rep b cx v = (Inr (authority, withheld), w')" "keyed m_id (memberships (store v))"
  shows "authority = authoritative (store v)" "answered (store v) rep withheld"
    "\<exists>r types. consumer_load (rt_reporter rep) v = (Inr (r, types), v) \<and> (sc_consumer scope \<longrightarrow> co_principal r = sc_actor scope)"
proof -
  let ?unheld = "filter (\<lambda>k. row_of rst_membership k (authoritative (store v)) = None) (projected_ids rep)"
  from assms(1) obtain r types where load: "consumer_load (rt_reporter rep) v = (Inr (r, types), v)"
    "sc_consumer scope \<longrightarrow> co_principal r = sc_actor scope"
    and a: "authority = authoritative (store v)"
      "withheld = (if ?unheld = [] then [] else withdrawn_states ?unheld (store v))"
    unfolding compare_body_def Let_def
    by (auto simp: seq_run(1) consumer_load_run ensure_run read_db_run return_run split: if_splits)
  show "authority = authoritative (store v)" by (rule a(1))
  show "\<exists>r types. consumer_load (rt_reporter rep) v = (Inr (r, types), v) \<and> (sc_consumer scope \<longrightarrow> co_principal r = sc_actor scope)"
    using load by blast
  show "answered (store v) rep withheld"
  proof -
    have "row_of rst_membership k withheld = held_state (store v) k"
      if "k \<in> set (projected_ids rep)" "row_of rst_membership k (authoritative (store v)) = None" for k
    proof -
      have k: "k \<in> set ?unheld" using that by simp
      have "?unheld \<noteq> []" using length_pos_if_in_set[OF k] by (simp only: length_greater_0_conv not_False_eq_True)
      then have "withheld = withdrawn_states ?unheld (store v)" unfolding a(2) by (rule if_not_P)
      then show ?thesis using withdrawn_row[OF assms(2) k] by simp
    qed
    then show ?thesis using assms(2) by (simp add: answered_def)
  qed
qed

lemma held_cong: "memberships s' = memberships s \<Longrightarrow> tenants s' = tenants s \<Longrightarrow> held_state s' k = held_state s k"
  unfolding held_state_def by (rule arg_cong2[of _ _ _ _ Option.bind]) (auto simp: state_of_def fun_eq_iff)

lemma authority_cong:
  assumes "memberships s' = memberships s" "tenants s' = tenants s"
  shows "authoritative s' = authoritative s"
proof -
  have "state_of s' = state_of s" by (rule ext) (simp add: state_of_def assms)
  then show ?thesis by (simp add: authoritative_def assms)
qed

lemma compared_in:
  "(if sc_consumer scope then WithConsumerReconciliationSnapshot env cx reason fn else WithProviderSnapshot env cx reason fn) =
   withRecordedScope env cx reason True (sc_consumer scope) fn"
  by (simp add: WithConsumerReconciliationSnapshot_def WithProviderSnapshot_def)

lemma Reconcile_findings:
  assumes "Reconcile env cx rep w = (Inr result, w')" "keyed m_id (memberships (store w))"
  shows "\<exists>withheld. rn_findings result = findings_of rep (authoritative (store w)) withheld \<and> answered (store w) rep withheld \<and>
    (\<exists>scope i r. cx_scope cx = Some scope \<and> (sc_consumer scope \<or> sc_provider scope) \<and>
       row_of co_id (rt_reporter rep) (consumers (callers (store w))) = Some r \<and> co_retiredAt r = None \<and>
       (sc_consumer scope \<longrightarrow> co_principal r = sc_actor scope) \<and>
       store w' = with_audit [(Evidence scope cx (''reconcile projection for '' @ rt_reporter rep))
         \<lparr>ac_id := fst i, ac_occurredAt := snd i\<rparr>] (store w))"
proof -
  let ?reason = "''reconcile projection for '' @ rt_reporter rep"
  from assms(1) obtain scope authority withheld w1 where s: "cx_scope cx = Some scope"
    and run: "withRecordedScope env cx ?reason True (sc_consumer scope) (compare_body scope rep) w1 = (Inr (authority, withheld), w')"
    and w1: "store w1 = store w" and res: "rn_findings result = findings_of rep authority withheld"
    unfolding Reconcile_def Let_def compared_in
    by (auto simp: seq_run(1) ensure_run now_run ScopeFrom_run return_run)
  from run obtain i v where en: "if sc_consumer scope then sc_consumer scope else sc_provider scope"
    "store v = with_audit [(Evidence scope cx ?reason)\<lparr>ac_id := fst i, ac_occurredAt := snd i\<rparr>] (store w)"
    "store w' = store v" and body: "compare_body scope rep BoundProvider cx v = (Inr (authority, withheld), w')"
    by (rule snapshot_scope_enters) (use s w1 in auto)
  have same: "memberships (store v) = memberships (store w)" "tenants (store v) = tenants (store w)"
    "callers (store v) = callers (store w)" by (simp_all add: en(2) with_audit_def)
  from compare_run[OF body] assms(2) same(1) have a: "authority = authoritative (store v)" "answered (store v) rep withheld"
    and l: "\<exists>r types. consumer_load (rt_reporter rep) v = (Inr (r, types), v) \<and> (sc_consumer scope \<longrightarrow> co_principal r = sc_actor scope)"
    by auto
  have "authoritative (store v) = authoritative (store w)" "answered (store w) rep withheld"
    using a(2) unfolding answered_def by (simp_all add: authority_cong[OF same(1,2)] held_cong(1)[OF same(1,2)] same(1))
  moreover obtain r where "row_of co_id (rt_reporter rep) (consumers (callers (store w))) = Some r" "co_retiredAt r = None"
      "sc_consumer scope \<longrightarrow> co_principal r = sc_actor scope"
    using l by (auto simp: consumer_load_run same(3))
  ultimately show ?thesis using s en res a(1) by (auto split: if_splits)
qed

text \<open>
  (C14) A reconciliation is exact: it answers for every Membership that authority and the report disagree
  on, and for no other, once each, extra before mismatched before missing ones, each with the state authority
  holds of it whatever its status; a consumer is compared only on its own behalf, and comparing records the
  access and writes nothing else.
\<close>

theorem Reconcile_exact:
  assumes "Reconcile env cx rep w = (Inr result, w')" "keyed m_id (memberships (store w))"
  shows "(\<forall>f. f \<in> set (rn_findings result) \<longleftrightarrow> finding_at rep (store w) (fi_membership f) = Some f) \<and>
    distinct (map fi_membership (rn_findings result)) \<and> sorted (map (class_rank \<circ> fi_class) (rn_findings result)) \<and>
    (\<exists>scope i r. cx_scope cx = Some scope \<and> (sc_consumer scope \<or> sc_provider scope) \<and>
       row_of co_id (rt_reporter rep) (consumers (callers (store w))) = Some r \<and> co_retiredAt r = None \<and>
       (sc_consumer scope \<longrightarrow> co_principal r = sc_actor scope) \<and>
       store w' = with_audit [(Evidence scope cx (''reconcile projection for '' @ rt_reporter rep))
         \<lparr>ac_id := fst i, ac_occurredAt := snd i\<rparr>] (store w))"
proof -
  obtain withheld where f: "rn_findings result = findings_of rep (authoritative (store w)) withheld" "answered (store w) rep withheld"
    using Reconcile_findings[OF assms] by blast
  show ?thesis
    using Reconcile_findings[OF assms] unfolding f(1)
    by (auto simp: findings_exact[OF f(2)] findings_distinct[OF f(2)] findings_ranked)
qed

section \<open>The snapshot\<close>

lemma snapshot_of_Some:
  "snapshot_of s m = Some r \<longleftrightarrow> m_status m = MembershipActive \<and> (\<exists>t. row_of TenantID (m_tenant m) (tenants s) = Some t \<and>
     r = \<lparr>sn_membership = m_id m, sn_principal = m_principal m, sn_tenant = m_tenant m,
       sn_workspace = (if IsNil (m_workspace m) then None else Some (m_workspace m)), sn_subject = m_subject m,
       sn_status = m_status m, sn_version = m_version m, sn_tenantStatus = Status t, sn_tenantVersion = Version t,
       sn_securityVersion = SecurityVersion t\<rparr>)"
  by (auto simp: snapshot_of_def)

lemma startPage_start: "startPage req at = Inr (size', mark, at') \<Longrightarrow> 0 < size'"
  by (auto simp: startPage_def Let_def DefaultPageSize_def split: if_splits cursor.splits)

lemma snapshotIn_run:
  "snapshotIn env req (n, mark, at) v = (Inr page, w') \<longleftrightarrow>
     (\<exists>r types. consumer_load (sr_consumer req) v = (Inr (r, types), v) \<and> subscribesToAny types organizationSnapshotTypes \<and>
       page = \<lparr>pa_mark = page_mark env req mark (store v), pa_takenAt = at,
         pa_rows = take (nat n) (snapshot_rows (sr_cursor req) (store v)), pa_cursor = None\<rparr>) \<and> w' = v"
  by (auto simp: snapshotIn_def seq_run(1) consumer_load_run ensure_run read_db_run)

lemma snapshot_rows_cong:
  assumes "memberships s' = memberships s" "tenants s' = tenants s"
  shows "snapshot_rows c s' = snapshot_rows c s"
proof -
  have "snapshot_of s' = snapshot_of s" by (rule ext) (simp add: snapshot_of_def assms)
  then show ?thesis by (simp add: snapshot_rows_def assms)
qed

text \<open>A page somebody took while the tables were as in a store, and the rows of the pages whose cursors were followed to the end.\<close>

definition page_taken :: "store \<Rightarrow> snapshot_request \<Rightarrow> snapshot_row page \<Rightarrow> bool" where
  "page_taken s req page \<longleftrightarrow>
     (\<exists>env cx w w'. (Snapshot env cx req w = (Inr page, w') \<or> own_Snapshot env cx req w = (Inr page, w')) \<and>
        memberships (store w) = memberships s \<and> tenants (store w) = tenants s)"

inductive followed :: "store \<Rightarrow> cursor \<Rightarrow> snapshot_row list \<Rightarrow> bool" for s where
  Last_page: "page_taken s req page \<Longrightarrow> pa_cursor page = None \<Longrightarrow> followed s (sr_cursor req) (pa_rows page)"
| Next_page: "page_taken s req page \<Longrightarrow> pa_cursor page = Some k \<Longrightarrow> followed s (CursorAt k) rows \<Longrightarrow>
    followed s (sr_cursor req) (pa_rows page @ rows)"

lemma page_taken_rows:
  assumes "page_taken s req page"
  obtains n where "0 < n" "pa_rows page = take n (snapshot_rows (sr_cursor req) s)"
    "pa_cursor page = (if length (pa_rows page) = n then Some (sn_membership (last (pa_rows page))) else None)"
proof -
  from assms obtain env cx w w' where run: "Snapshot env cx req w = (Inr page, w') \<or> own_Snapshot env cx req w = (Inr page, w')"
    and same: "memberships (store w) = memberships s" "tenants (store w) = tenants s" by (auto simp: page_taken_def)
  from run obtain size' mark at page0 w0 w1 consumer reason where start: "startPage req at = Inr (size', mark, at)"
    and run: "withRecordedScope env cx reason True consumer (\<lambda>b cx. snapshotIn env req (size', mark, at)) w0 = (Inr page0, w1)"
    and w0: "store w0 = store w" and page: "page = endPage sn_membership size' page0"
    unfolding Snapshot_def own_Snapshot_def WithProviderSnapshot_def WithConsumerSnapshot_def
    by (auto simp: seq_run(1) now_run lift_run return_run startPage_def Let_def split: if_splits cursor.splits)
  from run obtain scope i v where v: "store v = with_audit [(Evidence scope cx reason)\<lparr>ac_id := fst i, ac_occurredAt := snd i\<rparr>] (store w)"
    and body: "snapshotIn env req (size', mark, at) v = (Inr page0, w1)"
    by (rule snapshot_scope_enters) (use w0 in auto)
  have "snapshot_rows (sr_cursor req) (store v) = snapshot_rows (sr_cursor req) s"
    using same by (intro snapshot_rows_cong) (simp_all add: v with_audit_def)
  then have p0: "pa_rows page0 = take (nat size') (snapshot_rows (sr_cursor req) s)" "pa_cursor page0 = None"
    using body by (auto simp: snapshotIn_run)
  have pos: "0 < size'" using start by (rule startPage_start)
  then have "int (length (pa_rows page0)) = size' \<longleftrightarrow> length (pa_rows page0) = nat size'" by auto
  then show thesis
    using pos p0 by (intro that[of "nat size'"]) (auto simp: page endPage_def)
qed

lemma snapshot_rows_sorted:
  assumes "keyed m_id (memberships s)"
  shows "sorted_wrt (<) (map sn_membership (snapshot_rows c s))"
proof -
  have "distinct (map sn_membership (List.map_filter (snapshot_of s) (memberships s)))"
    using assms by (intro distinct_map_filter_key[of m_id]) (auto simp: keyed_def snapshot_of_Some)
  then have "distinct (map sn_membership (snapshot_rows c s))"
    by (simp add: snapshot_rows_def distinct_map inj_on_def)
  moreover have "sorted (map sn_membership (snapshot_rows c s))"
    unfolding snapshot_rows_def by (rule sorted_filter) (rule sorted_sort_key)
  ultimately show ?thesis by (simp add: strict_sorted_iff)
qed

lemma snapshot_rows_after:
  assumes "r \<in> set (snapshot_rows c s)"
  shows "snapshot_rows (CursorAt (sn_membership r)) s = filter (\<lambda>q. sn_membership q > sn_membership r) (snapshot_rows c s)"
proof -
  have "after_cursor c (sn_membership r)" using assms by (simp add: snapshot_rows_def)
  then have "sn_membership r < k \<longleftrightarrow> after_cursor c k \<and> sn_membership r < k" for k
    by (cases c) (auto simp: after_cursor_def)
  then show ?thesis
    unfolding snapshot_rows_def filter_filter by (auto simp: after_cursor_def intro!: filter_cong)
qed

lemma followed_rows:
  assumes "followed s c rows" "keyed m_id (memberships s)"
  shows "rows = snapshot_rows c s"
  using assms(1)
proof induction
  case (Last_page req page)
  from Last_page(1) obtain n where n: "0 < n" "pa_rows page = take n (snapshot_rows (sr_cursor req) s)"
    "pa_cursor page = (if length (pa_rows page) = n then Some (sn_membership (last (pa_rows page))) else None)"
    by (rule page_taken_rows)
  then have "length (snapshot_rows (sr_cursor req) s) < n" using Last_page(2) by (auto split: if_splits)
  then show ?case using n(2) by simp
next
  case (Next_page req page k rows)
  let ?all = "snapshot_rows (sr_cursor req) s"
  from Next_page(1) obtain n where n: "0 < n" "pa_rows page = take n ?all"
    "pa_cursor page = (if length (pa_rows page) = n then Some (sn_membership (last (pa_rows page))) else None)"
    by (rule page_taken_rows)
  then obtain m where m: "n = Suc m" by (cases n) auto
  have len: "m < length ?all" and k: "k = sn_membership (last (take n ?all))"
    using n Next_page(2) m by (auto split: if_splits)
  then have "k = sn_membership (?all ! m)" by (simp add: m take_Suc_conv_app_nth)
  then have "rows = drop n ?all"
    using Next_page.IH snapshot_rows_after[OF nth_mem[OF len]] drop_is_filter[OF snapshot_rows_sorted[OF assms(2)] len] m by simp
  then show ?case using n(2) by simp
qed

lemma snapshot_has:
  "(\<exists>r \<in> set (snapshot_rows CursorStart s). P r) \<longleftrightarrow> (\<exists>m \<in> set (memberships s). \<exists>r. snapshot_of s m = Some r \<and> P r)"
  by (simp add: snapshot_rows_def after_cursor_def Bex_def set_map_filter_Some) blast

text \<open>
  (C15) A consumer that followed the pages of a snapshot to the end knows what the fresh check would tell it: the check grants a
  Tenant to a Principal exactly when they have a row of both in an active Tenant.
\<close>

theorem Snapshot_agrees_with_Verify:
  assumes "followed (store w) CursorStart rows" "Verify env cx check w = (Inr d, w')" "keyed m_id (memberships (store w))"
  shows "cd_granted d \<longleftrightarrow> (\<exists>row \<in> set rows. sn_tenant row = vr_tenant check \<and>
    sn_principal row = vr_principal check \<and> sn_tenantStatus row = TenantActive)"
proof -
  have "cd_granted d \<longleftrightarrow> may_work (store w) (vr_tenant check) (vr_principal check)"
    using assms(2) by (rule Verify_run) (auto simp: decided_granted dest: startDecision_run)
  then show ?thesis
    unfolding followed_rows[OF assms(1,3)] snapshot_has snapshot_of_Some may_work_def list_ex_iff by auto
qed

section \<open>A snapshot reconciles\<close>

definition reports :: "snapshot_row list \<Rightarrow> report \<Rightarrow> bool" where
  "reports rows rep \<longleftrightarrow> rt_rows rep = map (\<lambda>r. \<lparr>rw_membership = sn_membership r, rw_version = sn_version r\<rparr>) rows"

lemma keyed_ex: "keyed key rows \<Longrightarrow> (\<exists>r \<in> set rows. key r = k \<and> P r) \<longleftrightarrow> (\<exists>r. row_of key k rows = Some r \<and> P r)"
  by (blast dest: row_of_SomeD row_of_keyed)

lemma snapshot_reported:
  assumes "keyed m_id (memberships s)" "reports (snapshot_rows CursorStart s) rep"
  shows "projected rep k = active_version s k"
proof -
  let ?rows = "snapshot_rows CursorStart s"
  have "distinct (map sn_membership ?rows)"
    using snapshot_rows_sorted[OF assms(1)] by (simp add: strict_sorted_iff)
  then have d: "distinct (map fst (rev (map (\<lambda>r. (sn_membership r, sn_version r)) ?rows)))"
    by (simp add: rev_map[symmetric] comp_def)
  have p: "projected rep = map_of (rev (map (\<lambda>r. (sn_membership r, sn_version r)) ?rows))"
    using assms(2) by (simp add: projected_def reports_def comp_def)
  have "projected rep k = Some v \<longleftrightarrow> active_version s k = Some v" for v
  proof -
    have "projected rep k = Some v \<longleftrightarrow> (\<exists>r \<in> set ?rows. sn_membership r = k \<and> sn_version r = v)"
      unfolding p map_of_eq_Some_iff[OF d] by auto
    also have "\<dots> \<longleftrightarrow> (\<exists>m \<in> set (memberships s). m_id m = k \<and> m_status m = MembershipActive \<and>
        row_of TenantID (m_tenant m) (tenants s) \<noteq> None \<and> m_version m = v)"
      unfolding snapshot_has snapshot_of_Some by auto
    also have "\<dots> \<longleftrightarrow> active_version s k = Some v"
      unfolding keyed_ex[OF assms(1)] by (auto simp: active_version_def split: option.splits)
    finally show ?thesis .
  qed
  then show ?thesis by (metis not_None_eq)
qed

text \<open>
  (C31) A consumer that applied the whole snapshot and reports it back reconciles without a finding while
  authority has not moved.
\<close>

theorem snapshot_reconciles:
  assumes "followed (store w) CursorStart rows" "reports rows rep" "Reconcile env cx rep w = (Inr result, w')"
    "keyed m_id (memberships (store w))"
  shows "rn_findings result = []"
proof -
  have "projected rep k = active_version (store w) k" for k
    using assms(2) unfolding followed_rows[OF assms(1,4)] by (rule snapshot_reported[OF assms(4)])
  then have "finding_at rep (store w) k = None" for k
    by (cases "active_version (store w) k") (simp_all add: finding_at_def)
  moreover obtain withheld where f: "rn_findings result = findings_of rep (authoritative (store w)) withheld" "answered (store w) rep withheld"
    using Reconcile_findings[OF assms(3,4)] by blast
  ultimately have "f \<notin> set (rn_findings result)" for f using findings_exact[OF f(2)] by (simp add: f(1))
  then show ?thesis by (cases "rn_findings result") auto
qed

end
