(* ===== verification/Dead_Letter_Effects.thy ===== *)
theory Dead_Letter_Effects
  imports Projection_Relations
begin

text \<open>
  What the operations on failed deliveries do: a dead letter is closed only on the evidence that closes it,
  a waiver is bounded, only for a consumer that is gone, and leaves the frontier as it is; and the enforcement
  of a Membership's change is read from its consumers' receipts.
\<close>

section \<open>Closing a dead letter\<close>

definition open_letter :: "uuid \<Rightarrow> string \<Rightarrow> dead_letter \<Rightarrow> bool" where
  "open_letter k consumer d \<longleftrightarrow> letter_of k consumer d \<and> dl_resolvedAt d = None"

lemma update_open_run:
  "update_open k consumer f w = (Inr u, w') \<longleftrightarrow>
     length (filter (open_letter k consumer) (dead_letters (callers (store w)))) = 1 \<and>
     w' = w\<lparr>store := (store w)\<lparr>callers := (callers (store w))\<lparr>dead_letters :=
       map (\<lambda>d. if open_letter k consumer d then f d else d) (dead_letters (callers (store w)))\<rparr>\<rparr>\<rparr>"
  by (auto simp: update_open_def open_letter_def[abs_def] Let_def seq_run(1) read_callers_run ensure_run on_callers_run)

lemma requireDeadLetter_run:
  "requireDeadLetter k consumer w = (Inr d, w') \<longleftrightarrow>
     find (letter_of k consumer) (dead_letters (callers (store w))) = Some d \<and> w' = w"
  by (auto simp: requireDeadLetter_def seq_run(1) read_callers_run required_run return_run)

lemma replayedEvidence_run:
  "replayedEvidence env k consumer w = (Inr x, w') \<longleftrightarrow>
     applied_by consumer k (callers (store w)) \<and> x = (receipt_reference env k consumer, []) \<and> w' = w"
  by (auto simp: replayedEvidence_def seq_run(1) read_callers_run ensure_run return_run)

definition histories :: "store \<Rightarrow> history list" where
  "histories s = [membership_history s, tenant_history s, grant_history s]"

text \<open>The consumer applied a version of the same aggregate that is newer than the event's.\<close>

definition superseded :: "store \<Rightarrow> uuid \<Rightarrow> string \<Rightarrow> uuid \<Rightarrow> bool" where
  "superseded s k consumer newer \<longleftrightarrow>
     list_ex (\<lambda>h. list_ex (\<lambda>(e, aggregate, version, _). e = k \<and>
       list_ex (\<lambda>(e', aggregate', version', _). e' = newer \<and> aggregate' = aggregate \<and> version < version') (snd h)) (snd h))
       (histories s) \<and> applied_by consumer newer (callers s)"

lemma carried_SomeD:
  "carried k hs = Some (h, aggregate, version) \<Longrightarrow> h \<in> set hs \<and> (\<exists>etype. (k, aggregate, version, etype) \<in> set (snd h))"
proof (induction hs)
  case (Cons h' hs)
  show ?case
  proof (cases "find (\<lambda>(e, _). e = k) (snd h')")
    case None
    then show ?thesis using Cons by simp
  next
    case (Some x)
    obtain e a v etype where x: "x = (e, a, v, etype)" by (cases x)
    then have "(k, a, v, etype) \<in> set (snd h')" using find_in[OF Some] by auto
    then show ?thesis using Some Cons.prems by (auto simp: x)
  qed
qed simp

lemma superseding_SomeD:
  assumes "superseding c consumer h aggregate version = Some (e, v, etype)"
  shows "(e, aggregate, v, etype) \<in> set (snd h)" "version < v" "applied_by consumer e c"
proof -
  from assms obtain x where "first_row (sort_key (\<lambda>(e, a, v, etype). v)
      (filter (\<lambda>(e, a, v, etype). a = aggregate \<and> v > version \<and> applied_by consumer e c) (snd h))) = Some x"
    "(\<lambda>(e, a, v, etype). (e, v, etype)) x = (e, v, etype)" by (auto simp: superseding_def)
  from first_row_set[OF this(1)] this(2)
  show "(e, aggregate, v, etype) \<in> set (snd h)" "version < v" "applied_by consumer e c" by auto
qed

lemma superseded_intro:
  assumes "h \<in> set (histories s)" "(k, aggregate, version, etype) \<in> set (snd h)" "(newer, aggregate, version', etype') \<in> set (snd h)"
    "version < version'" "applied_by consumer newer (callers s)"
  shows "superseded s k consumer newer"
  unfolding superseded_def list_ex_iff
  using assms(4,5) by (intro conjI bexI[OF _ assms(1)] bexI[OF _ assms(2)]) (auto intro!: bexI[OF _ assms(3)])

lemma supersededEvidence_run:
  assumes "supersededEvidence env k consumer w = (Inr x, w')"
  obtains newer where "w' = w" "superseded (store w) k consumer newer" "fst x = receipt_reference env newer consumer"
proof -
  from assms obtain h aggregate version e v etype where c: "carried k (histories (store w)) = Some (h, aggregate, version)"
    "superseding (callers (store w)) consumer h aggregate version = Some (e, v, etype)"
    and x: "w' = w" "fst x = receipt_reference env e consumer"
    by (auto simp: supersededEvidence_def histories_def seq_run(1) read_db_run read_callers_run required_run return_run split: option.splits)
  have "superseded (store w) k consumer e"
    using carried_SomeD[OF c(1)] superseding_SomeD[OF c(2)] by (auto intro: superseded_intro)
  then show thesis by (rule that[OF x(1) _ x(2)])
qed

text \<open>The one open dead letter of the event and the consumer closed, with the account of it, and nothing else.\<close>

definition letter_closed :: "env \<Rightarrow> ctx \<Rightarrow> uuid \<Rightarrow> string \<Rightarrow> string \<Rightarrow> string \<Rightarrow> world \<Rightarrow> world \<Rightarrow> bool" where
  "letter_closed env cx k consumer kind reference w w' \<longleftrightarrow>
     (\<exists>scope t attempt account. cx_scope cx = Some scope \<and> sc_provider scope \<and>
        length (filter (open_letter k consumer) (dead_letters (callers (store w)))) = 1 \<and>
        ac_actor attempt = sc_actor scope \<and> ac_actor account = sc_actor scope \<and>
        data w' = (with_audit [attempt, account] (data w))\<lparr>callers := (callers (store w))\<lparr>dead_letters :=
          map (\<lambda>d. if open_letter k consumer d then closeDeadLetter t kind (sc_actor scope) reference d else d)
            (dead_letters (callers (store w)))\<rparr>\<rparr>)"

lemma resolver_close_run:
  assumes "resolver_close env cx k consumer kind evidence w = (Inr z, w')"
    and quiet: "\<And>v x v'. evidence env k consumer v = (Inr x, v') \<Longrightarrow> v' = v"
  obtains v found where "evidence env k consumer v = (Inr found, v)" "letter_closed env cx k consumer kind (fst found) w w'"
    "cz_reference z = fst found" "data v = (data w)\<lparr>audit := audit (data v)\<rparr>"
proof -
  let ?reason = "''resolve dead-lettered event '' @ uuid_text env k @ '' at '' @ consumer"
  from assms(1) obtain scope where s: "cx_scope cx = Some scope"
    and run: "withRecordedScope env cx ?reason False False (close_body env scope k consumer kind evidence) w = (Inr z, w')"
    unfolding resolver_close_def WithResolutionScope_def by (auto simp: seq_run(1) ensure_run lift_run ScopeFrom_run)
  from run obtain i cx1 v where "sc_provider scope"
    and en: "entered [(Evidence scope cx ?reason)\<lparr>ac_id := fst i, ac_occurredAt := snd i\<rparr>] w v"
    and body: "close_body env scope k consumer kind evidence BoundProvider cx1 v = (Inr z, w')"
    by (rule withRecordedScope_enters) (use s in auto)
  define t where "t = db_clock env (ticks v)"
  from body obtain found v1 v2 where ev: "evidence env k consumer v = (Inr found, v1)"
    and up: "update_open k consumer (closeDeadLetter t kind (sc_actor scope) (fst found)) v1 = (Inr (), v2)"
    and acc: "RecordAccessInTx env (Evidence scope cx1 (closed_reason env k consumer kind found)) v2 = (Inr (), w')"
    and z: "cz_reference z = fst found"
    by (auto simp: close_body_def seq_run(1) db_now_run requireDeadLetter_run ensure_run return_run t_def)
  have v1: "v1 = v" using ev by (rule quiet)
  have d: "data v = with_audit [(Evidence scope cx ?reason)\<lparr>ac_id := fst i, ac_occurredAt := snd i\<rparr>] (data w)"
    using en by (simp add: entered_def)
  from up[unfolded v1 update_open_run] have one: "length (filter (open_letter k consumer) (dead_letters (callers (store v)))) = 1"
    and v2: "v2 = v\<lparr>store := (store v)\<lparr>callers := (callers (store v))\<lparr>dead_letters :=
       map (\<lambda>d. if open_letter k consumer d then closeDeadLetter t kind (sc_actor scope) (fst found) d else d)
         (dead_letters (callers (store v)))\<rparr>\<rparr>\<rparr>" by auto
  from acc obtain j where w': "store w' = with_audit [(Evidence scope cx1 (closed_reason env k consumer kind found))
      \<lparr>ac_id := fst j, ac_occurredAt := snd j\<rparr>] (store v2)" by (auto simp: RecordAccessInTx_run)
  have c: "callers (store v) = callers (store w)" using entered_fields[OF en] by simp
  have "data w' = with_audit [(Evidence scope cx1 (closed_reason env k consumer kind found))\<lparr>ac_id := fst j, ac_occurredAt := snd j\<rparr>]
      ((data v)\<lparr>callers := (callers (store v))\<lparr>dead_letters :=
       map (\<lambda>d. if open_letter k consumer d then closeDeadLetter t kind (sc_actor scope) (fst found) d else d)
         (dead_letters (callers (store v)))\<rparr>\<rparr>)"
    by (simp add: data_def w' v2 with_audit_def)
  then have "letter_closed env cx k consumer kind (fst found) w w'"
    unfolding letter_closed_def
    using s \<open>sc_provider scope\<close> one
    by (intro exI[of _ scope] exI[of _ t] exI[of _ "(Evidence scope cx ?reason)\<lparr>ac_id := fst i, ac_occurredAt := snd i\<rparr>"]
        exI[of _ "(Evidence scope cx1 (closed_reason env k consumer kind found))\<lparr>ac_id := fst j, ac_occurredAt := snd j\<rparr>"])
      (simp add: c d with_audit_def Evidence_def)
  moreover have "data v = (data w)\<lparr>audit := audit (data v)\<rparr>" unfolding d with_audit_def by simp
  ultimately show thesis using that[OF ev[unfolded v1] _ z] by blast
qed

text \<open>
  (C29) A dead letter is closed as superseded only on the consumer's own evidence: the consumer applied an event
  of the same aggregate with a greater version than the one that failed; its receipt is the reference, and
  apart from the two records of the act nothing but that open dead letter changes.
\<close>

theorem Supersede_on_evidence:
  assumes "Supersede env cx k consumer w = (Inr z, w')"
  shows "\<exists>newer. superseded (store w) k consumer newer \<and> cz_reference z = receipt_reference env newer consumer \<and>
    letter_closed env cx k consumer ResolutionTypeSuperseded (cz_reference z) w w'"
  using assms unfolding Supersede_def
proof (rule resolver_close_run)
  fix v x v' assume "supersededEvidence env k consumer v = (Inr x, v')"
  then show "v' = v" by (rule supersededEvidence_run)
next
  fix v found
  assume ev: "supersededEvidence env k consumer v = (Inr found, v)" and closed: "letter_closed env cx k consumer ResolutionTypeSuperseded (fst found) w w'"
    and z: "cz_reference z = fst found" and d: "data v = (data w)\<lparr>audit := audit (data v)\<rparr>"
  from ev obtain newer where n: "superseded (store v) k consumer newer" "fst found = receipt_reference env newer consumer"
    by (rule supersededEvidence_run)
  have "callers (store v) = callers (store w)" "membership_events (store v) = membership_events (store w)"
    "tenant_events (store v) = tenant_events (store w)"
    using arg_cong[OF d, of callers] arg_cong[OF d, of membership_events] arg_cong[OF d, of tenant_events] by (simp_all add: data_def)
  then have "superseded (store w) k consumer newer"
    using n(1) by (simp add: superseded_def histories_def membership_history_def tenant_history_def grant_history_def)
  then show ?thesis using n(2) closed z by auto
qed

text \<open>A dead letter is closed as replayed only when the consumer's receipt for that event says it was applied.\<close>

theorem Resolve_on_evidence:
  assumes "letter_Resolve env cx k consumer w = (Inr z, w')"
  shows "applied_by consumer k (callers (store w)) \<and> cz_reference z = receipt_reference env k consumer \<and>
    letter_closed env cx k consumer ResolutionTypeReplayed (cz_reference z) w w'"
  using assms unfolding letter_Resolve_def
proof (rule resolver_close_run)
  fix v found
  assume ev: "replayedEvidence env k consumer v = (Inr found, v)" and closed: "letter_closed env cx k consumer ResolutionTypeReplayed (fst found) w w'"
    and z: "cz_reference z = fst found" and d: "data v = (data w)\<lparr>audit := audit (data v)\<rparr>"
  have "callers (store v) = callers (store w)" using arg_cong[OF d, of callers] by (simp add: data_def)
  then show ?thesis using ev closed z by (simp add: replayedEvidence_run)
qed (simp add: replayedEvidence_run)

section \<open>Waiving\<close>

lemma debt_waived:
  "debt_of who (c\<lparr>dead_letters := map (\<lambda>d. if P d then waiveDeadLetter t until actor reason d else d) (dead_letters c)\<rparr>) =
   map (\<lambda>d. if P d then waiveDeadLetter t until actor reason d else d) (debt_of who c)"
  by (simp add: debt_of_def filter_map comp_def waiveDeadLetter_def if_distrib cong: if_cong)

lemma oldest_map: "(\<And>r. f (g r) = f r) \<Longrightarrow> oldest f (map g rows) = oldest f rows"
  by (simp add: oldest_def image_image)

lemma frontier_waived:
  assumes "outbox s' = outbox s" "callers s' = (callers s)\<lparr>dead_letters :=
    map (\<lambda>d. if P d then waiveDeadLetter t until actor reason d else d) (dead_letters (callers s))\<rparr>"
  shows "frontier_of env at who s' = frontier_of env at who s"
proof -
  have "owed_to who (callers s') = owed_to who (callers s)" by (simp add: owed_to_def assms(2))
  moreover have "high_water env s' = high_water env s" by (simp add: high_water_def assms(1))
  moreover have "oldest dl_deadLetteredAt (map (\<lambda>d. if P d then waiveDeadLetter t until actor reason d else d) ds) = oldest dl_deadLetteredAt ds" for ds
    by (rule oldest_map) (simp add: waiveDeadLetter_def)
  ultimately show ?thesis by (simp add: frontier_of_def Let_def assms(2) debt_waived)
qed

text \<open>
  (C30) A waiver ends, within ninety days of the instant it is stamped with, is given only for a consumer that is
  not in use, needs a reason, changes the waiver columns of the one open dead letter, and hides nothing: the frontier every consumer polls, its security debt included, reads as before.
\<close>

theorem Waive_keeps_frontier:
  assumes "Waive env cx k consumer given until w = (Inr z, w')"
  shows "\<not> consumerActive consumer (callers (store w)) \<and> TrimSpace given \<noteq> [] \<and>
    (\<exists>t u actor. until = Some u \<and> t < u \<and> u \<le> t + MaxWaiver \<and> wv_until z = u \<and>
       length (filter (open_letter k consumer) (dead_letters (callers (store w)))) = 1 \<and>
       callers (store w') = (callers (store w))\<lparr>dead_letters := map (\<lambda>d. if open_letter k consumer d
         then waiveDeadLetter t u actor (TrimSpace given) d else d) (dead_letters (callers (store w)))\<rparr>) \<and>
    (\<forall>at who. frontier_of env at who (store w') = frontier_of env at who (store w)) \<and>
    (\<forall>d \<in> set (dead_letters (callers (store w))). dl_resolvedAt d = None \<longrightarrow>
      (\<exists>d' \<in> set (dead_letters (callers (store w'))). dl_event d' = dl_event d \<and> dl_resolvedAt d' = None))"
proof -
  let ?reason = "''waive dead-lettered event '' @ uuid_text env k @ '' at '' @ consumer"
  from assms obtain scope u where s: "cx_scope cx = Some scope" and u: "until = Some u" "TrimSpace given \<noteq> []"
    and run: "withRecordedScope env cx ?reason False False (waive_body env scope k consumer (TrimSpace given) u) w = (Inr z, w')"
    unfolding Waive_def WithResolutionScope_def Let_def
    by (cases until) (auto simp: seq_run(1) ensure_run lift_run ScopeFrom_run raise_run)
  from run obtain i cx1 v where en: "entered [(Evidence scope cx ?reason)\<lparr>ac_id := fst i, ac_occurredAt := snd i\<rparr>] w v"
    and body: "waive_body env scope k consumer (TrimSpace given) u BoundProvider cx1 v = (Inr z, w')"
    by (rule withRecordedScope_enters) (use s in auto)
  define t where "t = db_clock env (ticks v)"
  let ?waive = "\<lambda>d. if open_letter k consumer d then waiveDeadLetter t u (sc_actor scope) (TrimSpace given) d else d"
  from body obtain v2 where b: "t < u" "u - t \<le> MaxWaiver" "\<not> consumerActive consumer (callers (store v))" "wv_until z = u"
    and up: "update_open k consumer (waiveDeadLetter t u (sc_actor scope) (TrimSpace given)) v = (Inr (), v2)"
    and acc: "RecordAccessInTx env (Evidence scope cx1 (waived_reason env k consumer u (TrimSpace given))) v2 = (Inr (), w')"
    by (auto simp: waive_body_def seq_run(1) db_now_run requireDeadLetter_run read_callers_run ensure_run return_run t_def)
  have c: "callers (store v) = callers (store w)" "outbox (store v) = outbox (store w)" using entered_fields[OF en] by simp_all
  have w': "outbox (store w') = outbox (store w)"
    "callers (store w') = (callers (store w))\<lparr>dead_letters := map ?waive (dead_letters (callers (store w)))\<rparr>"
    "length (filter (open_letter k consumer) (dead_letters (callers (store w)))) = 1"
    using up[unfolded update_open_run] acc c by (auto simp: RecordAccessInTx_run with_audit_def)
  have "\<exists>d' \<in> set (dead_letters (callers (store w'))). dl_event d' = dl_event d \<and> dl_resolvedAt d' = None"
    if "d \<in> set (dead_letters (callers (store w)))" "dl_resolvedAt d = None" for d
    using that by (intro bexI[of _ "?waive d"]) (auto simp: w'(2) waiveDeadLetter_def)
  then show ?thesis
    using b c u frontier_waived[OF w'(1,2)] w'(3)
    by (intro conjI exI[of _ t] exI[of _ u] exI[of _ "sc_actor scope"]) (simp_all add: w'(2))
qed

section \<open>Enforcement\<close>

text \<open>
  The reference: of the deliveries an event is owed to, the ones whose consumer confirmed it, and the state
  they add up to.
\<close>

definition owed_deliveries :: "uuid \<Rightarrow> caller_records \<Rightarrow> delivery list" where
  "owed_deliveries eventID c = filter (\<lambda>d. dv_event d = eventID \<and> dv_failureClass d \<noteq> Some ''abandoned'') (deliveries c)"

definition receipts_for :: "uuid \<Rightarrow> caller_records \<Rightarrow> delivery \<Rightarrow> receipt list" where
  "receipts_for eventID c d = filter (\<lambda>r. rc_event r = eventID \<and> rc_consumer r = dv_consumer d) (receipts c)"

definition confirmed :: "uuid \<Rightarrow> caller_records \<Rightarrow> delivery \<Rightarrow> bool" where
  "confirmed eventID c d \<longleftrightarrow> receipts_for eventID c d \<noteq> [] \<and> list_all (\<lambda>r. rc_evidence r = ConsumerApplied) (receipts_for eventID c d)"

definition refused :: "uuid \<Rightarrow> caller_records \<Rightarrow> delivery \<Rightarrow> bool" where
  "refused eventID c d \<longleftrightarrow> \<not> confirmed eventID c d \<and> list_ex (open_letter eventID (dv_consumer d)) (dead_letters c)"

definition enforcement_of :: "uuid \<Rightarrow> caller_records \<Rightarrow> int \<Rightarrow> enforcement_state" where
  "enforcement_of eventID c age =
     (let owed = owed_deliveries eventID c in
      if list_all (confirmed eventID c) owed then EnforcementEnforced
      else if list_ex (refused eventID c) owed \<or> age > PropagationBudget then EnforcementOverBudget
      else if list_ex (\<lambda>d. dv_publishedAt d \<noteq> None) owed then EnforcementPropagating
      else EnforcementAccepted)"

lemma joined_members: "\<exists>l. l \<in> set (joined rows)" "(\<exists>l \<in> set (joined rows). l \<noteq> None) \<longleftrightarrow> rows \<noteq> []"
  by (cases rows, auto simp: joined_def)+

lemma evidence_of_confirmed:
  "list_all (\<lambda>(_, e). ce_evidence e = EvidenceConsumerApplied) (evidence_of eventID c d) \<longleftrightarrow> confirmed eventID c d"
  "list_ex (\<lambda>(_, e). ce_evidence e = EvidenceDeadLettered) (evidence_of eventID c d) \<longleftrightarrow> refused eventID c d"
  "\<forall>x \<in> set (evidence_of eventID c d). fst x = d" "evidence_of eventID c d \<noteq> []"
proof -
  let ?ls = "filter (\<lambda>l. letter_of eventID (dv_consumer d) l \<and> dl_resolvedAt l = None) (dead_letters c)"
  have ls: "?ls = [] \<longleftrightarrow> \<not> list_ex (open_letter eventID (dv_consumer d)) (dead_letters c)"
    by (auto simp: filter_empty_conv list_ex_iff open_letter_def)
  have k: "ce_evidence (consumerEvidence consumer ev at dead) = EvidenceConsumerApplied \<longleftrightarrow> ev = Some ConsumerApplied"
    "ce_evidence (consumerEvidence consumer ev at dead) = EvidenceDeadLettered \<longleftrightarrow> ev \<noteq> Some ConsumerApplied \<and> dead" for consumer ev at dead
    by (simp_all add: consumerEvidence_def)
  let ?rs = "joined (receipts_for eventID c d)" and ?js = "joined ?ls"
  have ball: "(\<forall>x \<in> set (evidence_of eventID c d). Q x) \<longleftrightarrow> (\<forall>r \<in> set ?rs. \<forall>l \<in> set ?js.
      Q (d, consumerEvidence (dv_consumer d) (map_option rc_evidence r) (map_option rc_recordedAt r) (l \<noteq> None)))"
    and bex: "(\<exists>x \<in> set (evidence_of eventID c d). Q x) \<longleftrightarrow> (\<exists>r \<in> set ?rs. \<exists>l \<in> set ?js.
      Q (d, consumerEvidence (dv_consumer d) (map_option rc_evidence r) (map_option rc_recordedAt r) (l \<noteq> None)))" for Q
    by (auto simp: evidence_of_def receipts_for_def)
  note js = joined_members[of ?ls]
  have rs: "(\<forall>r \<in> set ?rs. map_option rc_evidence r = Some ConsumerApplied) \<longleftrightarrow> confirmed eventID c d"
    by (auto simp: joined_def confirmed_def list_all_iff)
  show "\<forall>x \<in> set (evidence_of eventID c d). fst x = d" unfolding ball by simp
  show "list_all (\<lambda>(_, e). ce_evidence e = EvidenceConsumerApplied) (evidence_of eventID c d) \<longleftrightarrow> confirmed eventID c d"
  proof -
    have "list_all (\<lambda>(_, e). ce_evidence e = EvidenceConsumerApplied) (evidence_of eventID c d) \<longleftrightarrow>
        (\<forall>r \<in> set ?rs. \<forall>l \<in> set ?js. map_option rc_evidence r = Some ConsumerApplied)"
      unfolding list_all_iff ball k[symmetric] by (simp add: k)
    also have "\<dots> \<longleftrightarrow> confirmed eventID c d" using js(1) rs by auto
    finally show ?thesis .
  qed
  show "list_ex (\<lambda>(_, e). ce_evidence e = EvidenceDeadLettered) (evidence_of eventID c d) \<longleftrightarrow> refused eventID c d"
  proof -
    have "list_ex (\<lambda>(_, e). ce_evidence e = EvidenceDeadLettered) (evidence_of eventID c d) \<longleftrightarrow>
        (\<exists>r \<in> set ?rs. map_option rc_evidence r \<noteq> Some ConsumerApplied) \<and> (\<exists>l \<in> set ?js. l \<noteq> None)"
      unfolding list_ex_iff bex by (simp add: k)
    also have "\<dots> \<longleftrightarrow> refused eventID c d" using js(2) rs ls by (auto simp: refused_def)
    finally show ?thesis .
  qed
  show "evidence_of eventID c d \<noteq> []"
    using bex[of "\<lambda>_. True"] js(1) joined_members(1)[of "receipts_for eventID c d"] by auto
qed

lemma published_of: "list_ex (\<lambda>(d, _). dv_publishedAt d \<noteq> None) (evidence_of eventID c d) \<longleftrightarrow> dv_publishedAt d \<noteq> None"
  using evidence_of_confirmed(3,4)[where eventID = eventID and c = c and d = d]
  by (cases "evidence_of eventID c d") (auto simp: list_ex_iff)

lemma evidence_rows_lists:
  "list_all P (evidence_rows env eventID c) \<longleftrightarrow> list_all (\<lambda>d. list_all P (evidence_of eventID c d)) (owed_deliveries eventID c)"
  "list_ex P (evidence_rows env eventID c) \<longleftrightarrow> list_ex (\<lambda>d. list_ex P (evidence_of eventID c d)) (owed_deliveries eventID c)"
  by (auto simp: evidence_rows_def owed_deliveries_def list_all_iff list_ex_iff)

lemma earliest_None: "earliest ts = None \<longleftrightarrow> list_all (\<lambda>t. t = None) ts"
  by (auto simp: earliest_def oldest_def list_all_iff map_filter_def filter_empty_conv)

lemma derived:
  "enforcement_derive (map snd (evidence_rows env eventID c)) age (earliest (map (\<lambda>(d, _). dv_publishedAt d) (evidence_rows env eventID c))) =
   enforcement_of eventID c age"
proof -
  let ?rows = "evidence_rows env eventID c"
  note ev = evidence_of_confirmed[unfolded case_prod_unfold]
  have "list_all (\<lambda>e. ce_evidence e = EvidenceConsumerApplied) (map snd ?rows) \<longleftrightarrow> list_all (confirmed eventID c) (owed_deliveries eventID c)"
    using evidence_rows_lists(1)[of "\<lambda>(_, e). ce_evidence e = EvidenceConsumerApplied" env eventID c]
    by (simp add: list.pred_map comp_def ev case_prod_unfold)
  moreover have "list_ex (\<lambda>e. ce_evidence e = EvidenceDeadLettered) (map snd ?rows) \<longleftrightarrow> list_ex (refused eventID c) (owed_deliveries eventID c)"
    using evidence_rows_lists(2)[of "\<lambda>(_, e). ce_evidence e = EvidenceDeadLettered" env eventID c]
    by (simp add: list_ex_iff ev[unfolded list_ex_iff] case_prod_unfold)
  moreover have "earliest (map (\<lambda>(d, _). dv_publishedAt d) ?rows) \<noteq> None \<longleftrightarrow>
      list_ex (\<lambda>d. dv_publishedAt d \<noteq> None) (owed_deliveries eventID c)"
  proof -
    have "earliest (map (\<lambda>(d, _). dv_publishedAt d) ?rows) \<noteq> None \<longleftrightarrow> list_ex (\<lambda>(d, _). dv_publishedAt d \<noteq> None) ?rows"
      by (simp add: earliest_None list_all_iff list_ex_iff case_prod_unfold)
    also have "\<dots> \<longleftrightarrow> list_ex (\<lambda>d. list_ex (\<lambda>(d, _). dv_publishedAt d \<noteq> None) (evidence_of eventID c d)) (owed_deliveries eventID c)"
      by (rule evidence_rows_lists)
    also have "\<dots> \<longleftrightarrow> list_ex (\<lambda>d. dv_publishedAt d \<noteq> None) (owed_deliveries eventID c)"
      by (simp only: published_of)
    finally show ?thesis .
  qed
  ultimately show ?thesis by (simp add: enforcement_derive_def enforcement_of_def Let_def)
qed

text \<open>
  (C27) The enforcement of a Membership is that of its latest event in the caller's own Tenant, with the state
  its consumers' receipts add up to: enforced exactly when every delivery that was not abandoned has a receipt
  and every receipt of it says applied, over budget when one was refused or ten seconds passed before that;
  and reading it writes nothing.
\<close>

theorem Enforcement_reads_evidence:
  assumes "Enforcement env cx k w = (Inr r, w')"
  shows "store w' = store w \<and>
    (\<exists>scope e at. cx_scope cx = Some scope \<and> e \<in> set (membership_events (store w)) \<and> me_membership e = k \<and>
       me_tenant e = sc_tenant scope \<and>
       (\<forall>e' \<in> set (membership_events (store w)). me_membership e' = k \<and> me_tenant e' = sc_tenant scope \<longrightarrow>
          me_version e' \<le> me_version e) \<and>
       en_membership r = k \<and> en_event r = me_event e \<and> en_evaluatedAt r = at \<and>
       en_state r = enforcement_of (me_event e) (callers (store w)) (at - me_recorded_at e))"
proof -
  let ?v = "w\<lparr>ticks := Suc (ticks w)\<rparr>" and ?c = "callers (store w)"
  from assms obtain scope where s: "cx_scope cx = Some scope" and same: "store w' = store w"
    and body: "enforcementWithin env k (bindTenant scope) cx ?v = (Inr r, w')"
    unfolding Enforcement_def WithTenantRead_def by (auto simp: seq_run(1) ensure_run ScopeFrom_run InTx_run read_only_run)
  from body obtain e where e: "latest_event (bindTenant scope) k (store w) = Some e"
    and r: "en_membership r = k" "en_event r = me_event e"
      "en_state r = enforcement_derive (map snd (evidence_rows env (me_event e) ?c)) (en_evaluatedAt r - me_recorded_at e)
         (earliest (map (\<lambda>(d, _). dv_publishedAt d) (evidence_rows env (me_event e) ?c)))"
    unfolding enforcementWithin_def
    by (auto simp: seq_run(1) read_db_run read_callers_run now_run return_run raise_run split: option.splits)
  have sees: "sees (bindTenant scope) t \<longleftrightarrow> t = sc_tenant scope" for t by (auto simp: bindTenant_def)
  let ?es = "filter (\<lambda>e. me_membership e = k \<and> sees (bindTenant scope) (me_tenant e)) (membership_events (store w))"
  have "e \<in> set (order_desc me_version ?es)" using e unfolding latest_event_def by (rule first_row_set)
  then have "e \<in> set ?es" by (simp add: order_desc_def)
  moreover have "me_version e' \<le> me_version e" if "e' \<in> set ?es" for e'
    using e that unfolding latest_event_def by (rule first_desc_max)
  ultimately show ?thesis using s same r by (auto simp: sees derived)
qed

end
