(* ===== verification/Restore.thy ===== *)
theory Restore
  imports Provisioning Caller_Registry
begin

text \<open>
  After a restore to an older point, \<open>src/internal/restore/restore.go\<close>: before the service serves, every
  Tenant and provider grant version moves past what a consumer can hold, what withholds access is published
  at its new version, and every active consumer is asked to reconcile.
\<close>

section \<open>The bump\<close>

definition Margin :: int where "Margin = 1000000000"

record bump_report =
  bu_observedAt :: instant
  bu_tenants :: nat
  bu_grants :: nat
  bu_tenantsPublished :: nat
  bu_grantsPublished :: nat
  bu_consumersRequested :: nat

text \<open>An UPDATE of every row fails as a whole where one sum leaves \<open>bigint\<close>.\<close>

definition bumped_tenant :: "tenant_record \<Rightarrow> tenant_record" where
  "bumped_tenant r = r\<lparr>Version := Version r + Margin, SecurityVersion := SecurityVersion r + Margin\<rparr>"

definition bumpTenants :: "nat tx" where
  "bumpTenants =
     seq (read_db tenants) (\<lambda>rows.
     seq (ensure (list_all (\<lambda>r. Version r + Margin \<le> bigint_max \<and> SecurityVersion r + Margin \<le> bigint_max) rows)
           (ErrInternal ''bigint out of range'')) (\<lambda>_.
     seq (write_db (\<lambda>s. s\<lparr>tenants := map bumped_tenant (tenants s)\<rparr>)) (\<lambda>_.
     return (length rows))))"

definition bumped_grant :: "provider_grant \<Rightarrow> provider_grant" where
  "bumped_grant g = g\<lparr>pg_version := pg_version g + Margin\<rparr>"

definition bumpGrants :: "nat tx" where
  "bumpGrants =
     seq (read_callers provider_grants) (\<lambda>rows.
     seq (ensure (list_all (\<lambda>g. pg_version g + Margin \<le> bigint_max) rows) (ErrInternal ''bigint out of range'')) (\<lambda>_.
     seq (on_callers (\<lambda>c. c\<lparr>provider_grants := map bumped_grant (provider_grants c)\<rparr>)) (\<lambda>_.
     return (length rows))))"

definition asked_to_reconcile :: "instant \<Rightarrow> consumer \<Rightarrow> consumer" where
  "asked_to_reconcile t q = (if co_retiredAt q = None then q\<lparr>co_reconcileRequested := Some t\<rparr> else q)"

definition requestReconciliation :: "instant \<Rightarrow> nat tx" where
  "requestReconciliation t =
     seq (read_callers (\<lambda>c. length (filter (\<lambda>q. co_retiredAt q = None) (consumers c)))) (\<lambda>n.
     seq (on_callers (\<lambda>c. c\<lparr>consumers := map (asked_to_reconcile t) (consumers c)\<rparr>)) (\<lambda>_.
     return n))"

definition BumpWithin :: "env \<Rightarrow> bump_report tx" where
  "BumpWithin env =
     seq (db_now env) (\<lambda>t.
     seq bumpTenants (\<lambda>rows.
     seq bumpGrants (\<lambda>grants.
     seq (PublishWithdrawn env t) (\<lambda>rowsPublished.
     seq (PublishWithdrawnGrants env) (\<lambda>grantsPublished.
     seq (requestReconciliation t) (\<lambda>requested.
     return \<lparr>bu_observedAt = t, bu_tenants = rows, bu_grants = grants, bu_tenantsPublished = rowsPublished,
             bu_grantsPublished = grantsPublished, bu_consumersRequested = requested\<rparr>))))))"

definition Bump :: "env \<Rightarrow> bump_report tx" where
  "Bump env = InTx env (BumpWithin env)"

section \<open>What is published\<close>

definition withholds :: "grant_state \<Rightarrow> bool" where
  "withholds st \<longleftrightarrow> gs_revoked st \<or> gs_kind st = KindEligible \<and> gs_activation st = None"

lemma publish_withdrawal_writes:
  assumes "publish_withdrawal env at r w = (Inr u, w')"
  obtains e m where "store w' = (store w)\<lparr>outbox := outbox (store w) @ [m], tenant_events := tenant_events (store w) @ [e]\<rparr>"
    "msg_aggregate m = th_tenant r" "msg_payload m = TenantPayload (tenant_NewPayload r)" "ticks w' = ticks w"
proof -
  from assms obtain etype eventID where w': "w' = w\<lparr>minted := Suc (minted w), store := (store w)
      \<lparr>outbox := outbox (store w) @ [\<lparr>msg_id = eventID, msg_aggregate = th_tenant r, msg_type = etype, msg_at = at,
         msg_payload = TenantPayload (tenant_NewPayload r),
         msg_priority = tenant_Priority (case restoreActions (th_status r) of None \<Rightarrow> TenantActionOther [] | Some a \<Rightarrow> a)\<rparr>],
       tenant_events := tenant_events (store w) @ [\<lparr>te_event = eventID, te_tenant = th_tenant r,
         te_securityVersion = th_securityVersion r, te_type = etype\<rparr>]\<rparr>\<rparr>"
    unfolding publish_withdrawal_def recordTenantEvent_def Let_def
    by (simp add: seq_run(1) lift_run publish_run read_db_run ensure_run write_db_run Let_def) blast
  show thesis by (rule that, simp add: w', simp_all add: w')
qed

lemma withdrawals_published:
  assumes "foreach (publish_withdrawal env at) rs w = (Inr us, w')"
  shows "\<exists>es ms. store w' = (store w)\<lparr>outbox := outbox (store w) @ ms, tenant_events := tenant_events (store w) @ es\<rparr> \<and>
    map (\<lambda>m. (msg_aggregate m, msg_payload m)) ms = map (\<lambda>r. (th_tenant r, TenantPayload (tenant_NewPayload r))) rs \<and>
    ticks w' = ticks w"
  using assms
proof (induction rs arbitrary: w us)
  case Nil
  then show ?case by (intro exI[of _ "[]"]) (simp add: return_run)
next
  case (Cons r rs)
  then obtain w1 vs where one: "publish_withdrawal env at r w = (Inr (), w1)"
    and rest: "foreach (publish_withdrawal env at) rs w1 = (Inr vs, w')" by (auto simp: seq_run(1) return_run)
  obtain es ms where *: "store w' = (store w1)\<lparr>outbox := outbox (store w1) @ ms, tenant_events := tenant_events (store w1) @ es\<rparr>"
    "map (\<lambda>m. (msg_aggregate m, msg_payload m)) ms = map (\<lambda>r. (th_tenant r, TenantPayload (tenant_NewPayload r))) rs"
    "ticks w' = ticks w1"
    using Cons.IH[OF rest] by blast
  obtain e m where w1: "store w1 = (store w)\<lparr>outbox := outbox (store w) @ [m], tenant_events := tenant_events (store w) @ [e]\<rparr>"
    "msg_aggregate m = th_tenant r" "msg_payload m = TenantPayload (tenant_NewPayload r)" "ticks w1 = ticks w"
    by (rule publish_withdrawal_writes[OF one])
  show ?case
    by (rule exI[of _ "e # es"], rule exI[of _ "m # ms"]) (simp add: * w1)
qed

lemma publishAt_writes:
  assumes "publishAt env t k etype v w = (Inr u, w')"
  obtains g e m where "grant_of k (callers (store w)) = Some g"
    "store w' = (store w)\<lparr>outbox := outbox (store w) @ [m], callers := (callers (store w))\<lparr>grant_events := grant_events (callers (store w)) @ [e]\<rparr>\<rparr>"
    "msg_aggregate m = k" "msg_payload m = GrantPayload (grantState t v g (callers (store w)))"
proof -
  from assms obtain g at eventID where g: "grant_of k (callers (store w)) = Some g"
    and w': "store w' = (store w)\<lparr>outbox := outbox (store w) @ [\<lparr>msg_id = eventID, msg_aggregate = k, msg_type = etype, msg_at = at,
         msg_payload = GrantPayload (grantState t v g (callers (store w))), msg_priority = (etype = EventEnded \<or> etype = EventRevoked)\<rparr>],
       callers := (callers (store w))\<lparr>grant_events := grant_events (callers (store w)) @
         [\<lparr>ge_event = eventID, ge_grant = k, ge_version = v, ge_type = etype\<rparr>]\<rparr>\<rparr>"
    unfolding publishAt_def recordGrantEvent_def
    by (clarsimp simp: seq_run(1) read_callers_run required_run now_run publish_run ensure_run on_callers_run return_run Let_def)
  show thesis by (rule that[OF g], simp add: w', simp_all)
qed

definition published_grant :: "instant \<Rightarrow> provider_grant \<Rightarrow> caller_records \<Rightarrow> uuid \<times> payload" where
  "published_grant t g c = (pg_id g, GrantPayload (grantState t (pg_version g) g c))"

lemma grants_published:
  assumes "foreach (\<lambda>g. publishAt env t (pg_id g) (etype g) (pg_version g)) gs w = (Inr us, w')"
    and "\<forall>g\<in>set gs. grant_of (pg_id g) (callers (store w)) = Some g"
  shows "\<exists>es ms. store w' = (store w)\<lparr>outbox := outbox (store w) @ ms,
      callers := (callers (store w))\<lparr>grant_events := grant_events (callers (store w)) @ es\<rparr>\<rparr> \<and>
    map (\<lambda>m. (msg_aggregate m, msg_payload m)) ms = map (\<lambda>g. published_grant t g (callers (store w))) gs"
  using assms
proof (induction gs arbitrary: w us)
  case Nil
  then show ?case by (intro exI[of _ "[]"]) (simp add: return_run)
next
  case (Cons g gs)
  let ?c = "callers (store w)"
  from Cons.prems(1) obtain u w1 vs where one: "publishAt env t (pg_id g) (etype g) (pg_version g) w = (Inr u, w1)"
    and rest: "foreach (\<lambda>g. publishAt env t (pg_id g) (etype g) (pg_version g)) gs w1 = (Inr vs, w')"
    by (auto simp: seq_run(1) return_run)
  obtain g' e m where w1: "store w1 = (store w)\<lparr>outbox := outbox (store w) @ [m], callers := ?c\<lparr>grant_events := grant_events ?c @ [e]\<rparr>\<rparr>"
    and g': "grant_of (pg_id g) ?c = Some g'" "msg_aggregate m = pg_id g" "msg_payload m = GrantPayload (grantState t (pg_version g) g' ?c)"
    by (rule publishAt_writes[OF one])
  then have m: "(msg_aggregate m, msg_payload m) = published_grant t g ?c"
    using Cons.prems(2) by (simp add: published_grant_def)
  have same: "published_grant t h (callers (store w1)) = published_grant t h ?c" for h
    by (simp add: published_grant_def w1 grantState_def)
  have "\<forall>h\<in>set gs. grant_of (pg_id h) (callers (store w1)) = Some h"
    using Cons.prems(2) by (simp add: w1 grant_of_def)
  from Cons.IH[OF rest this] obtain es ms where
    "store w' = (store w1)\<lparr>outbox := outbox (store w1) @ ms,
      callers := (callers (store w1))\<lparr>grant_events := grant_events (callers (store w1)) @ es\<rparr>\<rparr>"
    "map (\<lambda>m. (msg_aggregate m, msg_payload m)) ms = map (\<lambda>h. published_grant t h ?c) gs"
    unfolding same by blast
  then show ?case
    by (intro exI[of _ "e # es"] exI[of _ "m # ms"]) (simp add: w1 m)
qed

lemma withdrawn_grant_withholds: "withdrawn_grant t c g \<Longrightarrow> withholds (grantState t v g c)"
  by (auto simp: withdrawn_grant_def withholds_def grantState_def list_ex_iff unrevoked_def filter_empty_conv order_desc_def)

section \<open>The effect\<close>

text \<open>The stages before anything is published, and what each message of the bump may carry.\<close>

definition bumped_callers :: "caller_records \<Rightarrow> caller_records" where
  "bumped_callers c = c\<lparr>provider_grants := map bumped_grant (provider_grants c)\<rparr>"

definition bumped_store :: "store \<Rightarrow> store" where
  "bumped_store s = s\<lparr>tenants := map bumped_tenant (tenants s), callers := bumped_callers (callers s)\<rparr>"

definition withheld_payload :: "payload \<Rightarrow> bool" where
  "withheld_payload p =
     (case p of TenantPayload q \<Rightarrow> tp_status q \<noteq> TenantActive | GrantPayload st \<Rightarrow> withholds st | _ \<Rightarrow> False)"

definition tenant_withdrawals :: "store \<Rightarrow> (uuid \<times> payload) list" where
  "tenant_withdrawals s = map (\<lambda>r. (th_tenant r, TenantPayload (tenant_NewPayload r))) (withdrawn s)"

definition grant_withdrawals :: "instant \<Rightarrow> caller_records \<Rightarrow> (uuid \<times> payload) list" where
  "grant_withdrawals t c =
     map (\<lambda>g. published_grant t g c) (sort_key pg_id (filter (withdrawn_grant t c) (provider_grants c)))"

lemma withdrawals_withhold:
  "p \<in> set (tenant_withdrawals s @ grant_withdrawals t c) \<Longrightarrow> withheld_payload (snd p)"
  by (auto simp: tenant_withdrawals_def grant_withdrawals_def withdrawn_def withheld_payload_def tenant_NewPayload_def
      Narrow_def published_grant_def withdrawn_grant_withholds)

text \<open>
  The restore bump (C16): when it commits, every Tenant's two versions and every grant's version have gained
  the margin, the only messages appended are one for each Tenant and grant that withholds access, in the state
  with its new version, and none for one that gives access; every consumer in use is asked to reconcile and
  nothing else changed.
\<close>

theorem Bump_effect:
  assumes "Bump env w = (Inr report, w')" and "keyed pg_id (provider_grants (callers (store w)))"
  shows "\<exists>events messages recorded.
    let s = store w; t = bu_observedAt report; s1 = bumped_store s; c1 = callers s1 in
    store w' = s1\<lparr>outbox := outbox s @ messages, tenant_events := tenant_events s @ events,
      callers := c1\<lparr>grant_events := grant_events c1 @ recorded, consumers := map (asked_to_reconcile t) (consumers c1)\<rparr>\<rparr> \<and>
    map (\<lambda>m. (msg_aggregate m, msg_payload m)) messages = tenant_withdrawals s1 @ grant_withdrawals t c1 \<and>
    list_all (\<lambda>m. withheld_payload (msg_payload m)) messages \<and>
    list_all (\<lambda>r. Version r \<le> bigint_max \<and> SecurityVersion r \<le> bigint_max) (tenants s1)"
proof -
  define t where "t = db_clock env (Suc (ticks w))"
  define s1 where "s1 = bumped_store (store w)"
  let ?gs = "sort_key pg_id (filter (withdrawn_grant t (callers s1)) (provider_grants (callers s1)))"
  from assms(1) obtain w1 w2 us vs where fits: "list_all (\<lambda>r. Version r + Margin \<le> bigint_max \<and> SecurityVersion r + Margin \<le> bigint_max) (tenants (store w))"
    and w1: "foreach (publish_withdrawal env t) (withdrawn s1) (w\<lparr>ticks := Suc (ticks w), store := s1\<rparr>) = (Inr us, w1)"
    and w2: "foreach (\<lambda>g. publishAt env (db_clock env (ticks w1)) (pg_id g) (if unrevoked g then EventEnded else EventRevoked) (pg_version g))
        (sort_key pg_id (filter (withdrawn_grant (db_clock env (ticks w1)) (callers (store w1))) (provider_grants (callers (store w1))))) w1 = (Inr vs, w2)"
    and w': "store w' = (store w2)\<lparr>callers := (callers (store w2))\<lparr>consumers := map (asked_to_reconcile t) (consumers (callers (store w2)))\<rparr>\<rparr>"
    and rep: "bu_observedAt report = t"
    unfolding Bump_def BumpWithin_def bumpTenants_def bumpGrants_def PublishWithdrawn_def PublishWithdrawnGrants_def
      requestReconciliation_def s1_def bumped_store_def bumped_callers_def t_def
    by (auto simp: InTx_run seq_run(1) db_now_run read_db_run read_callers_run ensure_run write_db_run on_callers_run return_run)
  from withdrawals_published[OF w1] obtain es ms where
    1: "store w1 = s1\<lparr>outbox := outbox s1 @ ms, tenant_events := tenant_events s1 @ es\<rparr>" "ticks w1 = Suc (ticks w)"
      "map (\<lambda>m. (msg_aggregate m, msg_payload m)) ms = tenant_withdrawals s1"
    by (auto simp: tenant_withdrawals_def)
  have "keyed pg_id (provider_grants (callers s1))"
    using assms(2) by (simp add: s1_def bumped_store_def bumped_callers_def keyed_def comp_def bumped_grant_def)
  then have "\<forall>g\<in>set ?gs. grant_of (pg_id g) (callers (store w1)) = Some g"
    by (simp add: 1 grant_of_def row_of_keyed)
  from grants_published[OF w2[unfolded 1 select_convs update_convs] ] this obtain ges gms where
    2: "store w2 = (store w1)\<lparr>outbox := outbox (store w1) @ gms, callers := (callers (store w1))\<lparr>grant_events := grant_events (callers (store w1)) @ ges\<rparr>\<rparr>"
      "map (\<lambda>m. (msg_aggregate m, msg_payload m)) gms = grant_withdrawals t (callers s1)"
    by (auto simp: 1 t_def grant_withdrawals_def)
  have all: "map (\<lambda>m. (msg_aggregate m, msg_payload m)) (ms @ gms) = tenant_withdrawals s1 @ grant_withdrawals t (callers s1)"
    by (simp add: 1 2)
  have "withheld_payload (msg_payload m)" if "m \<in> set (ms @ gms)" for m
    using withdrawals_withhold[of "(msg_aggregate m, msg_payload m)" s1 t "callers s1"] that unfolding all[symmetric] by force
  then show ?thesis
    using all fits
    by (intro exI[of _ es] exI[of _ "ms @ gms"] exI[of _ ges])
      (simp add: Let_def rep w' 1 2 s1_def bumped_store_def bumped_callers_def bumped_tenant_def list_all_iff)
qed

end
