(* ===== verification/Projection_Witnesses.thy ===== *)
theory Projection_Witnesses
  imports Projection_Effects Dead_Letter_Effects Restore Authority_Witnesses
begin

text \<open>
  The theorems on the projection, on dead letters, on enforcement and on the restore bump, applied to the
  world of \<open>Example_World\<close> with a subscribed consumer, two dead letters, a delivery and its receipt in it.
\<close>

definition ex_letter :: "string \<Rightarrow> dead_letter" where
  "ex_letter consumer = \<lparr>dl_event = 901, dl_consumer = Some consumer,
     dl_type = ''com.scnehaux.organization.membership.security.suspended'', dl_envelope = ''e'', dl_aggregate = Some 20,
     dl_high = Some True, dl_version = Some 3, dl_failureClass = ''refused'', dl_failureDetail = [], dl_attempts = 3, dl_firstFailedAt = 700, dl_deadLetteredAt = 800,
     dl_resolvedAt = None, dl_resolutionType = None, dl_resolvedBy = None, dl_reference = None, dl_waivedAt = None,
     dl_waivedUntil = None, dl_waivedBy = None, dl_waiverReason = None\<rparr>"

definition ex_event :: "uuid \<Rightarrow> int \<Rightarrow> membership_event" where
  "ex_event k v = \<lparr>me_event = k, me_membership = 20, me_tenant = 10, me_version = v,
     me_type = ''com.scnehaux.organization.membership.lifecycle.restored'', me_actor = 6, me_correlation = 9,
     me_reason = ''r'', me_recorded_at = 950\<rparr>"

definition ex_projecting :: caller_records where
  "ex_projecting = ex_callers\<lparr>
     subscriptions := [\<lparr>su_consumer = ''app'', su_types = organizationSnapshotTypes, su_retiredAt = None\<rparr>],
     deliveries := [\<lparr>dv_event = 902, dv_consumer = ''app'', dv_sequence = 1, dv_high = True, dv_published = True,
       dv_publishedAt = Some 960, dv_createdAt = 950, dv_failureClass = None\<rparr>],
     receipts := [\<lparr>rc_event = 902, rc_consumer = ''app'', rc_evidence = ConsumerApplied, rc_recordedAt = 970\<rparr>],
     dead_letters := [ex_letter ''app'', ex_letter ''old'']\<rparr>"

definition ex_projected :: world where
  "ex_projected = ex_world\<lparr>store := ex_store\<lparr>callers := ex_projecting, membership_events := [ex_event 901 3, ex_event 902 4]\<rparr>\<rparr>"

lemma ex_projected_keyed:
  "keyed m_id (memberships (store ex_projected))" "keyed pg_id (provider_grants (callers (store ex_projected)))"
  by (simp_all add: ex_projected_def ex_store_def ex_membership_def keyed_def ex_projecting_def ex_callers_def ex_pgrant_def)

section \<open>Snapshots and reconciliation\<close>

definition ex_report :: report where
  "ex_report = \<lparr>rt_reporter = ''app'', rt_mark = 1,
     rt_rows = [\<lparr>rw_membership = 20, rw_version = 3\<rparr>, \<lparr>rw_membership = 99, rw_version = 1\<rparr>]\<rparr>"

lemma ex_reconcile_runs: "succeeds (Reconcile ex_env ex_provider ex_report ex_projected)"
  by code_simp

theorem Reconcile_exact_witness:
  "\<exists>result w'. Reconcile ex_env ex_provider ex_report ex_projected = (Inr result, w') \<and>
    distinct (map fi_membership (rn_findings result)) \<and>
    (\<forall>f. f \<in> set (rn_findings result) \<longleftrightarrow> finding_at ex_report (store ex_projected) (fi_membership f) = Some f)"
proof -
  obtain result w' where run: "Reconcile ex_env ex_provider ex_report ex_projected = (Inr result, w')"
    using ex_reconcile_runs by (rule succeedsE)
  show ?thesis using Reconcile_exact[OF run ex_projected_keyed(1)] run by blast
qed

definition ex_snapshot :: "cursor \<Rightarrow> snapshot_request" where
  "ex_snapshot c = \<lparr>sr_consumer = ''app'', sr_pageSize = 2, sr_cursor = c, sr_mark = Some 0\<rparr>"

lemma ex_snapshot_runs:
  "case Snapshot ex_env ex_provider (ex_snapshot CursorStart) ex_projected of (Inr page, w) \<Rightarrow> pa_cursor page = Some 21 | _ \<Rightarrow> False"
  "case Snapshot ex_env ex_provider (ex_snapshot (CursorAt 21)) ex_projected of (Inr page, w) \<Rightarrow> pa_cursor page = None | _ \<Rightarrow> False"
  by code_simp+

lemma ex_followed: "\<exists>rows. followed (store ex_projected) CursorStart rows"
proof -
  obtain p1 p2 w1 w2 where run: "Snapshot ex_env ex_provider (ex_snapshot CursorStart) ex_projected = (Inr p1, w1)"
      "Snapshot ex_env ex_provider (ex_snapshot (CursorAt 21)) ex_projected = (Inr p2, w2)"
    and c: "pa_cursor p1 = Some 21" "pa_cursor p2 = None"
    using ex_snapshot_runs by (auto split: prod.splits sum.splits)
  have "page_taken (store ex_projected) (ex_snapshot CursorStart) p1" "page_taken (store ex_projected) (ex_snapshot (CursorAt 21)) p2"
    using run unfolding page_taken_def by blast+
  then have "followed (store ex_projected) (sr_cursor (ex_snapshot CursorStart)) (pa_rows p1 @ pa_rows p2)"
    using followed.Last_page[of "store ex_projected" "ex_snapshot (CursorAt 21)" p2] c
    by (intro followed.Next_page[of _ _ _ 21]) (simp_all add: ex_snapshot_def)
  then show ?thesis by (auto simp: ex_snapshot_def)
qed

lemma ex_check_runs: "succeeds (Verify ex_env ex_provider ex_verify ex_projected)"
  by code_simp

theorem Snapshot_agrees_with_Verify_witness:
  "\<exists>rows d w'. followed (store ex_projected) CursorStart rows \<and> Verify ex_env ex_provider ex_verify ex_projected = (Inr d, w') \<and>
    (cd_granted d \<longleftrightarrow> (\<exists>row \<in> set rows. sn_tenant row = vr_tenant ex_verify \<and> sn_principal row = vr_principal ex_verify \<and>
      sn_tenantStatus row = TenantActive))"
proof -
  obtain rows where rows: "followed (store ex_projected) CursorStart rows" using ex_followed by blast
  obtain d w' where run: "Verify ex_env ex_provider ex_verify ex_projected = (Inr d, w')"
    using ex_check_runs by (rule succeedsE)
  show ?thesis using Snapshot_agrees_with_Verify[OF rows run ex_projected_keyed(1)] rows run by blast
qed

definition ex_applied :: report where
  "ex_applied = \<lparr>rt_reporter = ''app'', rt_mark = 1,
     rt_rows = map (\<lambda>r. \<lparr>rw_membership = sn_membership r, rw_version = sn_version r\<rparr>)
       (snapshot_rows CursorStart (store ex_projected))\<rparr>"

lemma ex_applied_runs: "succeeds (Reconcile ex_env ex_provider ex_applied ex_projected)"
  by code_simp

theorem snapshot_reconciles_witness:
  "\<exists>rows result w'. followed (store ex_projected) CursorStart rows \<and> reports rows ex_applied \<and>
    Reconcile ex_env ex_provider ex_applied ex_projected = (Inr result, w') \<and> rn_findings result = []"
proof -
  obtain rows where rows: "followed (store ex_projected) CursorStart rows" using ex_followed by blast
  have "reports rows ex_applied"
    unfolding followed_rows[OF rows ex_projected_keyed(1)] by (simp add: reports_def ex_applied_def)
  moreover obtain result w' where run: "Reconcile ex_env ex_provider ex_applied ex_projected = (Inr result, w')"
    using ex_applied_runs by (rule succeedsE)
  ultimately show ?thesis using snapshot_reconciles[OF rows _ run ex_projected_keyed(1)] rows by blast
qed

section \<open>Dead letters\<close>

lemma ex_supersede_runs: "succeeds (Supersede ex_env ex_provider 901 ''app'' ex_projected)"
  by code_simp

theorem Supersede_on_evidence_witness:
  "\<exists>z w' newer. Supersede ex_env ex_provider 901 ''app'' ex_projected = (Inr z, w') \<and> superseded (store ex_projected) 901 ''app'' newer \<and>
    letter_closed ex_env ex_provider 901 ''app'' ResolutionTypeSuperseded (cz_reference z) ex_projected w'"
proof -
  obtain z w' where run: "Supersede ex_env ex_provider 901 ''app'' ex_projected = (Inr z, w')"
    using ex_supersede_runs by (rule succeedsE)
  show ?thesis using Supersede_on_evidence[OF run] run by blast
qed

lemma ex_waive_runs: "succeeds (Waive ex_env ex_provider 901 ''old'' ''gone'' (Some 5000) ex_projected)"
  by code_simp

theorem Waive_keeps_frontier_witness:
  "\<exists>z w'. Waive ex_env ex_provider 901 ''old'' ''gone'' (Some 5000) ex_projected = (Inr z, w') \<and>
    frontier_of ex_env 2000 ''old'' (store w') = frontier_of ex_env 2000 ''old'' (store ex_projected)"
proof -
  obtain z w' where run: "Waive ex_env ex_provider 901 ''old'' ''gone'' (Some 5000) ex_projected = (Inr z, w')"
    using ex_waive_runs by (rule succeedsE)
  show ?thesis using Waive_keeps_frontier[OF run] run by blast
qed

section \<open>Enforcement and the restore bump\<close>

lemma ex_enforcement_runs: "succeeds (Enforcement ex_env ex_admin 20 ex_projected)"
  by code_simp

theorem Enforcement_reads_evidence_witness:
  "\<exists>r w' e at. Enforcement ex_env ex_admin 20 ex_projected = (Inr r, w') \<and> e \<in> set (membership_events (store ex_projected)) \<and>
    en_event r = me_event e \<and> en_state r = enforcement_of (me_event e) (callers (store ex_projected)) (at - me_recorded_at e)"
proof -
  obtain r w' where run: "Enforcement ex_env ex_admin 20 ex_projected = (Inr r, w')"
    using ex_enforcement_runs by (rule succeedsE)
  show ?thesis using Enforcement_reads_evidence[OF run] run by blast
qed

lemma ex_bump_runs: "succeeds (Bump ex_env ex_projected)"
  by code_simp

theorem Bump_effect_witness:
  "\<exists>report w' messages. Bump ex_env ex_projected = (Inr report, w') \<and> outbox (store w') = outbox (store ex_projected) @ messages \<and>
    list_all (\<lambda>m. withheld_payload (msg_payload m)) messages"
proof -
  obtain report w' where run: "Bump ex_env ex_projected = (Inr report, w')"
    using ex_bump_runs by (rule succeedsE)
  obtain events messages recorded where "store w' = (bumped_store (store ex_projected))
      \<lparr>outbox := outbox (store ex_projected) @ messages, tenant_events := tenant_events (store ex_projected) @ events,
       callers := (callers (bumped_store (store ex_projected)))\<lparr>grant_events := grant_events (callers (bumped_store (store ex_projected))) @ recorded,
         consumers := map (asked_to_reconcile (bu_observedAt report)) (consumers (callers (bumped_store (store ex_projected))))\<rparr>\<rparr>"
    "list_all (\<lambda>m. withheld_payload (msg_payload m)) messages"
    using Bump_effect[OF run ex_projected_keyed(2)] unfolding Let_def by blast
  then show ?thesis using run by auto
qed

end
