(* ===== verification/Http_Caller.thy ===== *)
theory Http_Caller
  imports Caller_Registry
begin

text \<open>
  Who a request is, \<open>src/internal/httpapi/authentication.go\<close> and \<open>caller.go\<close>: the claims a bearer token
  presents, the caller the records make of them, the few routes that are answered before any record is read,
  and the isolation scope a caller resolves to.

  The token library is a parameter: \<open>vf_verify\<close> answers the claims of a token or why it was not accepted.
  So is \<open>vf_parse\<close>, the parser of identifiers. A claim is a text, a number or something else.
\<close>

section \<open>Requests and answers\<close>

record http_request =
  hr_method :: string
  hr_path :: string
  hr_authorization :: string
  hr_reason :: "string list"
  hr_key :: string
  hr_correlation :: "uuid option"
  hr_body :: "string option"

datatype http_problem =
    AuthenticationRequired | Forbidden | NotFound | ValidationFailed | StateTransitionRefused | VersionConflict
  | PreconditionUnmet | IdempotencyKeyConflict | RequestInProgress | PayloadTooLarge | InvitationNotAcceptable
  | DependencyUnavailable | InternalProblem

type_synonym 'a http = "(world, http_problem, 'a) comp"

datatype claim_value = ClaimText string | ClaimNumber int | ClaimOther

type_synonym claims = "string \<Rightarrow> claim_value option"

datatype verdict = Accepted claims | Requirement_failed | Not_accepted

record verifier =
  vf_verify :: "string \<Rightarrow> verdict"
  vf_parse :: "string \<Rightarrow> uuid option"
  vf_consumers :: bool
  vf_recordsUses :: bool

record caller =
  ca_subject :: uuid
  ca_tenant :: uuid
  ca_consumer :: string
  ca_provider :: bool
  ca_eligible :: bool
  ca_emergency :: bool
  ca_activation :: uuid
  ca_reporter :: uuid
  ca_reports :: string
  ca_self :: bool

definition no_caller :: caller where
  "no_caller = \<lparr>ca_subject = 0, ca_tenant = 0, ca_consumer = [], ca_provider = False, ca_eligible = False,
     ca_emergency = False, ca_activation = 0, ca_reporter = 0, ca_reports = [], ca_self = False\<rparr>"

section \<open>Routes that need no record, and reports\<close>

definition HasPrefix :: "string \<Rightarrow> string \<Rightarrow> bool" where
  "HasPrefix s prefix \<longleftrightarrow> CutPrefix s prefix \<noteq> None"

definition CutSuffix :: "string \<Rightarrow> string \<Rightarrow> string option" where
  "CutSuffix s suffix = map_option rev (CutPrefix (rev s) (rev suffix))"

definition activationRoute :: "string \<Rightarrow> bool" where
  "activationRoute path \<longleftrightarrow> path = ''/v1/provider-activations'' \<or> HasPrefix path ''/v1/provider-activations/''"

text \<open>The one segment between a prefix and a suffix, when it is one and not empty.\<close>

definition segment_between :: "string \<Rightarrow> string \<Rightarrow> string \<Rightarrow> string option" where
  "segment_between path prefix suffix =
     (case CutPrefix path prefix of
        None \<Rightarrow> None
      | Some rest \<Rightarrow>
          (case CutSuffix rest suffix of
             None \<Rightarrow> None
           | Some segment \<Rightarrow> if segment = [] \<or> CHR ''/'' \<in> set segment then None else Some segment))"

definition selfTarget :: "verifier \<Rightarrow> http_request \<Rightarrow> uuid option" where
  "selfTarget vf r =
     (if hr_method r \<noteq> ''GET'' then None
      else case segment_between (hr_path r) ''/v1/principals/'' ''/contexts'' of
        None \<Rightarrow> None
      | Some segment \<Rightarrow>
          (case vf_parse vf segment of
             None \<Rightarrow> None
           | Some who \<Rightarrow> if IsNil who then None else Some who))"

definition acceptRoute :: "http_request \<Rightarrow> bool" where
  "acceptRoute r \<longleftrightarrow> hr_method r = ''POST'' \<and> hr_path r = ''/v1/invitations/accept''"

datatype report_kind = ReportProvisioning | ReportObligation | ReportInvitation

definition reportRoute :: "http_request \<Rightarrow> report_kind option" where
  "reportRoute r =
     (if hr_method r \<noteq> ''POST'' then None
      else if hr_path r = ''/v1/provisioning/realized'' \<or> hr_path r = ''/v1/provisioning/failed'' then Some ReportProvisioning
      else if hr_path r = ''/v1/invitations/resolve'' then Some ReportInvitation
      else if segment_between (hr_path r) ''/v1/offboardings/'' ''/deprovisioning'' \<noteq> None then Some ReportProvisioning
      else if segment_between (hr_path r) ''/v1/obligations/'' ''/resolve'' \<noteq> None then Some ReportObligation
      else None)"

section \<open>The bearer token and its claims\<close>

text \<open>\<open>strings.EqualFold\<close> against a text of letters whose only other case is the ASCII one.\<close>

definition ascii_lower :: "char \<Rightarrow> char" where
  "ascii_lower ch = (let n = of_char ch :: nat in if 65 \<le> n \<and> n \<le> 90 then char_of (n + 32) else ch)"

definition EqualFold :: "string \<Rightarrow> string \<Rightarrow> bool" where
  "EqualFold a b \<longleftrightarrow> map ascii_lower a = map ascii_lower b"

definition bearer :: "http_request \<Rightarrow> string option" where
  "bearer r =
     (let scheme = takeWhile (\<lambda>ch. ch \<noteq> CHR '' '') (hr_authorization r);
          rest = dropWhile (\<lambda>ch. ch \<noteq> CHR '' '') (hr_authorization r)
      in if rest = [] \<or> \<not> EqualFold scheme ''Bearer'' \<or> tl rest = [] then None else Some (tl rest))"

definition claim_text :: "claims \<Rightarrow> string \<Rightarrow> string option" where
  "claim_text c name = (case c name of Some (ClaimText t) \<Rightarrow> Some t | _ \<Rightarrow> None)"

definition claim_number :: "claims \<Rightarrow> string \<Rightarrow> int option" where
  "claim_number c name = (case c name of Some (ClaimNumber n) \<Rightarrow> Some n | _ \<Rightarrow> None)"

text \<open>The text of a claim, empty where it is absent or no text: Go drops the flag.\<close>

definition claim_text_or_empty :: "claims \<Rightarrow> string \<Rightarrow> string" where
  "claim_text_or_empty c name = (case claim_text c name of None \<Rightarrow> [] | Some t \<Rightarrow> t)"

definition PrincipalIDClaim :: string where "PrincipalIDClaim = ''principal_id''"
definition SubjectTypeClaim :: string where "SubjectTypeClaim = ''subject_type''"
definition TenantIDClaim :: string where "TenantIDClaim = ''tenant_id''"
definition AuthContextClassClaim :: string where "AuthContextClassClaim = ''acr''"
definition AuthTimeClaim :: string where "AuthTimeClaim = ''auth_time''"
definition WorkloadOwnerClaim :: string where "WorkloadOwnerClaim = ''workload_owner''"

definition atLeastAAL2 :: "string \<Rightarrow> bool" where
  "atLeastAAL2 acr \<longleftrightarrow> acr = ''aal2'' \<or> acr = ''phr''"

record presented =
  ps_principal :: uuid
  ps_workload :: bool
  ps_tenant :: uuid

text \<open>An identifier read from a claim: trimmed, parsed and not nil.\<close>

definition claimed_id :: "verifier \<Rightarrow> claims \<Rightarrow> string \<Rightarrow> uuid option" where
  "claimed_id vf c name =
     (case vf_parse vf (TrimSpace (claim_text_or_empty c name)) of
        None \<Rightarrow> None
      | Some u \<Rightarrow> if IsNil u then None else Some u)"

definition presentedFromClaims :: "verifier \<Rightarrow> claims \<Rightarrow> presented option" where
  "presentedFromClaims vf c =
     (case claimed_id vf c PrincipalIDClaim of
        None \<Rightarrow> None
      | Some who \<Rightarrow>
          let subjectType = claim_text_or_empty c SubjectTypeClaim; workload = (subjectType = ''workload'') in
          if subjectType \<noteq> ''human'' \<and> subjectType \<noteq> ''workload'' then None
          else if c TenantIDClaim \<noteq> None then
            (case claimed_id vf c TenantIDClaim of
               None \<Rightarrow> None
             | Some tenant \<Rightarrow>
                 if workload then None
                 else if \<not> atLeastAAL2 (claim_text_or_empty c AuthContextClassClaim) then None
                 else if claim_number c AuthTimeClaim = None then None
                 else Some \<lparr>ps_principal = who, ps_workload = False, ps_tenant = tenant\<rparr>)
          else if workload then
            (if blank (claim_text_or_empty c WorkloadOwnerClaim) then None
             else Some \<lparr>ps_principal = who, ps_workload = True, ps_tenant = 0\<rparr>)
          else if blank (claim_text_or_empty c AuthContextClassClaim) then None
          else if claim_number c AuthTimeClaim = None then None
          else Some \<lparr>ps_principal = who, ps_workload = False, ps_tenant = 0\<rparr>)"

section \<open>Authority from the records\<close>

text \<open>A read of the records that fails admits nobody: \<open>errRecords\<close>, answered as an unavailable dependency.\<close>

definition reading :: "'a tx \<Rightarrow> 'a http" where
  "reading m w = (case m w of (Inl _, w') \<Rightarrow> (Inl DependencyUnavailable, w') | (Inr x, w') \<Rightarrow> (Inr x, w'))"

definition tenant_caller :: "env \<Rightarrow> ctx \<Rightarrow> http_request \<Rightarrow> presented \<Rightarrow> caller http" where
  "tenant_caller env cx r p =
     seq (reading (TenantStanding env cx (ps_principal p) (ps_tenant p)
           (case hr_correlation r of None \<Rightarrow> 0 | Some u \<Rightarrow> u))) (\<lambda>standing.
     seq (ensure (Administers standing) Forbidden) (\<lambda>_.
     return (no_caller\<lparr>ca_subject := ps_principal p, ca_tenant := ps_tenant p\<rparr>)))"

definition admits :: "report_kind \<Rightarrow> string \<Rightarrow> bool" where
  "admits kind reports =
     (case kind of
        ReportProvisioning \<Rightarrow> reports_Provisioning reports
      | ReportObligation \<Rightarrow> reports_Domain reports \<noteq> []
      | ReportInvitation \<Rightarrow> reports_InvitationResolve reports)"

definition reporter_caller :: "env \<Rightarrow> presented \<Rightarrow> report_kind \<Rightarrow> caller http" where
  "reporter_caller env p kind =
     seq (reading (ReporterFor env (ps_principal p))) (\<lambda>(reporter, reports).
     seq (ensure (\<not> IsNil reporter) Forbidden) (\<lambda>_.
     seq (ensure (admits kind reports) Forbidden) (\<lambda>_.
     return (no_caller\<lparr>ca_subject := ps_principal p, ca_reporter := reporter, ca_reports := reports\<rparr>))))"

definition consumer_caller :: "env \<Rightarrow> verifier \<Rightarrow> presented \<Rightarrow> caller http" where
  "consumer_caller env vf p =
     seq (ensure (vf_consumers vf) Forbidden) (\<lambda>_.
     seq (reading (ConsumerFor env (ps_principal p))) (\<lambda>consumer.
     seq (ensure (consumer \<noteq> []) Forbidden) (\<lambda>_.
     return (no_caller\<lparr>ca_subject := ps_principal p, ca_consumer := consumer\<rparr>))))"

definition provider_caller :: "env \<Rightarrow> presented \<Rightarrow> caller http" where
  "provider_caller env p =
     seq (reading (ProviderStanding env (ps_principal p))) (\<lambda>standing.
     seq (ensure (st_holder standing) Forbidden) (\<lambda>_.
     return (no_caller\<lparr>ca_subject := ps_principal p, ca_provider := st_inForce standing,
       ca_eligible := \<not> st_inForce standing, ca_emergency := st_emergency standing,
       ca_activation := st_activation standing\<rparr>)))"

definition authorize :: "env \<Rightarrow> verifier \<Rightarrow> ctx \<Rightarrow> http_request \<Rightarrow> presented \<Rightarrow> caller http" where
  "authorize env vf cx r p =
     (if \<not> IsNil (ps_tenant p) then tenant_caller env cx r p
      else if ps_workload p then
        (case reportRoute r of Some kind \<Rightarrow> reporter_caller env p kind | None \<Rightarrow> consumer_caller env vf p)
      else provider_caller env p)"

section \<open>Authentication\<close>

definition changes :: "http_request \<Rightarrow> bool" where
  "changes r \<longleftrightarrow> hr_method r \<noteq> ''GET'' \<and> hr_method r \<noteq> ''HEAD'' \<and> hr_method r \<noteq> ''OPTIONS''"

definition self_caller :: "presented \<Rightarrow> caller" where
  "self_caller p = no_caller\<lparr>ca_subject := ps_principal p, ca_self := True\<rparr>"

definition identified :: "env \<Rightarrow> verifier \<Rightarrow> ctx \<Rightarrow> http_request \<Rightarrow> presented \<Rightarrow> caller http" where
  "identified env vf cx r p =
     (if selfTarget vf r = Some (ps_principal p) \<and> \<not> ps_workload p then return (self_caller p)
      else if acceptRoute r then seq (ensure (\<not> ps_workload p) Forbidden) (\<lambda>_. return (self_caller p))
      else authorize env vf cx r p)"

text \<open>
  What is refused of a caller before the route is reached. The use of an emergency grant is recorded and a
  failure to record it does not refuse; that it is logged is not modelled.
\<close>

definition admitted :: "env \<Rightarrow> verifier \<Rightarrow> http_request \<Rightarrow> caller \<Rightarrow> unit http" where
  "admitted env vf r caller =
     (if \<not> IsNil (ca_tenant caller) \<and> changes r then
        seq (reading (TenantAdministrationPaused env)) (\<lambda>paused.
        ensure (\<not> paused) DependencyUnavailable)
      else if ca_eligible caller \<and> \<not> activationRoute (hr_path r) then raise Forbidden
      else if ca_emergency caller \<and> vf_recordsUses vf then
        (\<lambda>w. (Inr (), snd (RecordEmergencyUse env (ca_subject caller) w)))
      else return ())"

definition presented_by :: "verifier \<Rightarrow> http_request \<Rightarrow> http_problem + presented" where
  "presented_by vf r =
     (case bearer r of
        None \<Rightarrow> Inl AuthenticationRequired
      | Some token \<Rightarrow>
          (case vf_verify vf token of
             Requirement_failed \<Rightarrow> Inl Forbidden
           | Not_accepted \<Rightarrow> Inl AuthenticationRequired
           | Accepted claims \<Rightarrow>
               (case presentedFromClaims vf claims of None \<Rightarrow> Inl Forbidden | Some p \<Rightarrow> Inr p)))"

definition Authenticate :: "env \<Rightarrow> verifier \<Rightarrow> ctx \<Rightarrow> http_request \<Rightarrow> caller http" where
  "Authenticate env vf cx r =
     seq (lift (presented_by vf r)) (\<lambda>p.
     seq (identified env vf cx r p) (\<lambda>caller.
     seq (admitted env vf r caller) (\<lambda>_.
     return caller)))"

section \<open>The scope of a caller\<close>

definition caller_resolve :: "caller \<Rightarrow> uuid \<Rightarrow> error + scope" where
  "caller_resolve caller correlation =
     (if ca_self caller then
        if ca_provider caller \<or> ca_eligible caller \<or> ca_consumer caller \<noteq> [] \<or> \<not> IsNil (ca_tenant caller) \<or> \<not> IsNil (ca_reporter caller)
        then Inl (ErrInternal ''httpapi: a self caller carries no other authority'')
        else SelfScope (ca_subject caller) correlation
      else if \<not> IsNil (ca_reporter caller) then
        if ca_provider caller \<or> ca_eligible caller \<or> ca_consumer caller \<noteq> [] \<or> \<not> IsNil (ca_tenant caller)
        then Inl (ErrInternal ''httpapi: a reporter caller carries no other authority'')
        else if reports_InvitationResolve (ca_reports caller) then InvitationResolverScope (ca_subject caller) correlation
        else ProviderScope (ca_subject caller) correlation ReporterAuthority
      else if ca_consumer caller \<noteq> [] then
        if ca_provider caller \<or> \<not> IsNil (ca_tenant caller)
        then Inl (ErrInternal ''httpapi: a consumer caller must carry neither provider authority nor a Tenant'')
        else ConsumerScope (ca_subject caller) correlation
      else if ca_provider caller \<or> ca_eligible caller then
        if \<not> IsNil (ca_tenant caller) then Inl (ErrInternal ''httpapi: a provider caller must not also carry a Tenant'')
        else ProviderScope (ca_subject caller) correlation
          (if ca_eligible caller \<and> \<not> ca_provider caller then EligibleAuthority
           else if ca_emergency caller then EmergencyAuthority
           else ActivationAuthority (ca_activation caller))
      else TenantScope (ca_tenant caller) (ca_subject caller) correlation)"

text \<open>\<open>ResolveScope\<close>; its callers are all authenticated. An error of \<open>caller_resolve\<close> is answered as an internal one.\<close>

definition ResolveScope :: "http_request \<Rightarrow> caller \<Rightarrow> scope http" where
  "ResolveScope r caller =
     (case hr_correlation r of
        None \<Rightarrow> raise InternalProblem
      | Some correlation \<Rightarrow>
          (case caller_resolve caller correlation of Inl _ \<Rightarrow> raise InternalProblem | Inr scope \<Rightarrow> return scope))"

definition received :: "env \<Rightarrow> verifier \<Rightarrow> ctx \<Rightarrow> http_request \<Rightarrow> (caller \<times> scope) http" where
  "received env vf cx r =
     seq (Authenticate env vf cx r) (\<lambda>caller.
     seq (ResolveScope r caller) (\<lambda>scope.
     return (caller, scope)))"

end
