(* ===== verification/Http_Surface.thy ===== *)
theory Http_Surface
  imports Http_Caller
begin

text \<open>
  What a request passes before a service is called, \<open>src/internal/httpapi\<close>: the table of routes
  (\<open>routes.go\<close>), the caller check each handler opens with (\<open>handlers.go\<close>, \<open>handlers_reporters.go\<close>,
  \<open>handlers_provider_activations.go\<close> and the handlers with a check of their own), the key a command must
  carry (\<open>commands.go\<close>), the reason header (\<open>reason.go\<close>), the owner of a key (\<open>idempotency.go\<close>) and the
  problem an error becomes (\<open>problem.go\<close>).

  A path is the decoded, cleaned path Go's mux matches; a wildcard takes one segment that is not empty. A
  request no pattern matches reaches no handler; whether the mux answers 404 or 405 is not distinguished. A
  handler that reads the consumer it is about decodes it before the check: \<open>guarded\<close> takes it as given.
\<close>

section \<open>Patterns\<close>

fun segments :: "string \<Rightarrow> string list" where
  "segments [] = [[]]"
| "segments (ch # rest) =
     (if ch = CHR ''/'' then [] # segments rest
      else case segments rest of [] \<Rightarrow> [[ch]] | s # ss \<Rightarrow> (ch # s) # ss)"

definition wildcard :: "string \<Rightarrow> bool" where
  "wildcard p \<longleftrightarrow> p \<noteq> [] \<and> hd p = CHR ''{''"

definition segment_matches :: "string \<Rightarrow> string \<Rightarrow> bool" where
  "segment_matches p s \<longleftrightarrow> (if wildcard p then s \<noteq> [] else p = s)"

definition pattern_matches :: "string \<Rightarrow> string \<Rightarrow> bool" where
  "pattern_matches pattern path \<longleftrightarrow> list_all2 segment_matches (segments pattern) (segments path)"

text \<open>A pattern for GET is one for HEAD too.\<close>

definition method_matches :: "string \<Rightarrow> string \<Rightarrow> bool" where
  "method_matches m given \<longleftrightarrow> m = given \<or> m = ''GET'' \<and> given = ''HEAD''"

section \<open>Routes\<close>

text \<open>The caller checks, named after the functions the handlers call or the handlers that have their own.\<close>

datatype guard =
    GuardTenant | GuardProvider | GuardConsumer | GuardHolder | GuardProvisioningReport | GuardObligationReporter
  | GuardResolver | GuardAccept | GuardContexts

record http_route =
  ro_method :: string
  ro_pattern :: string
  ro_command :: bool
  ro_guard :: guard

definition route :: "string \<Rightarrow> string \<Rightarrow> guard \<Rightarrow> http_route" where
  "route m p g = \<lparr>ro_method = m, ro_pattern = p, ro_command = False, ro_guard = g\<rparr>"

text \<open>A route whose request must carry an \<open>Idempotency-Key\<close>.\<close>

definition command :: "string \<Rightarrow> string \<Rightarrow> guard \<Rightarrow> http_route" where
  "command m p g = \<lparr>ro_method = m, ro_pattern = p, ro_command = True, ro_guard = g\<rparr>"

definition Routes :: "http_route list" where
  "Routes =
     [
      route ''GET'' ''/v1/memberships'' GuardTenant,
      route ''GET'' ''/v1/memberships/{membership_id}'' GuardTenant,
      command ''POST'' ''/v1/memberships'' GuardTenant,
      command ''POST'' ''/v1/memberships/{membership_id}/suspend'' GuardTenant,
      command ''POST'' ''/v1/memberships/{membership_id}/restore'' GuardTenant,
      command ''POST'' ''/v1/memberships/{membership_id}/revoke'' GuardTenant,
      route ''GET'' ''/v1/memberships/{membership_id}/enforcement'' GuardTenant,
      command ''POST'' ''/v1/membership-batches'' GuardTenant,
      route ''GET'' ''/v1/membership-batches/{batch_id}'' GuardTenant,
      command ''POST'' ''/v1/membership-batches/{batch_id}/execute'' GuardTenant,
      route ''GET'' ''/v1/workspaces'' GuardTenant,
      command ''POST'' ''/v1/workspaces'' GuardTenant,
      route ''GET'' ''/v1/workspaces/{workspace_id}'' GuardTenant,
      command ''POST'' ''/v1/workspaces/{workspace_id}/archive'' GuardTenant,
      command ''POST'' ''/v1/workspaces/{workspace_id}/restore'' GuardTenant,
      command ''POST'' ''/v1/workspaces/{workspace_id}/retire'' GuardTenant,
      route ''GET'' ''/v1/invitations'' GuardTenant,
      command ''POST'' ''/v1/invitations'' GuardTenant,
      route ''GET'' ''/v1/invitations/{invitation_id}'' GuardTenant,
      command ''POST'' ''/v1/invitations/{invitation_id}/revoke'' GuardTenant,
      command ''POST'' ''/v1/invitations/accept'' GuardAccept,
      route ''POST'' ''/v1/invitations/resolve'' GuardResolver,
      route ''POST'' ''/v1/invitations/expire-lapsed'' GuardProvider,
      route ''GET'' ''/v1/organizations'' GuardProvider,
      command ''POST'' ''/v1/organizations'' GuardProvider,
      route ''GET'' ''/v1/organizations/{organization_id}'' GuardProvider,
      command ''POST'' ''/v1/organizations/{organization_id}/suspend'' GuardProvider,
      command ''POST'' ''/v1/organizations/{organization_id}/restore'' GuardProvider,
      command ''POST'' ''/v1/organizations/{organization_id}/retire'' GuardProvider,
      route ''GET'' ''/v1/tenants'' GuardProvider,
      command ''POST'' ''/v1/tenants'' GuardProvider,
      route ''GET'' ''/v1/tenants/{tenant_id}'' GuardProvider,
      command ''POST'' ''/v1/tenants/{tenant_id}/activate'' GuardProvider,
      command ''POST'' ''/v1/tenants/{tenant_id}/suspend'' GuardProvider,
      command ''POST'' ''/v1/tenants/{tenant_id}/restore'' GuardProvider,
      route ''GET'' ''/v1/tenants/{tenant_id}/administrators'' GuardProvider,
      command ''POST'' ''/v1/tenants/{tenant_id}/administrators'' GuardProvider,
      command ''POST'' ''/v1/tenants/{tenant_id}/administrators/{grant_id}/revoke'' GuardProvider,
      route ''GET'' ''/v1/tenants/{tenant_id}/memberships/{membership_id}/enforcement'' GuardProvider,
      route ''GET'' ''/v1/tenants/{tenant_id}/memberships/{membership_id}'' GuardProvider,
      command ''POST'' ''/v1/tenants/{tenant_id}/memberships/{membership_id}/suspend'' GuardProvider,
      command ''POST'' ''/v1/tenants/{tenant_id}/memberships/{membership_id}/revoke'' GuardProvider,
      command ''POST'' ''/v1/tenants/{tenant_id}/provisioning'' GuardProvider,
      route ''POST'' ''/v1/provisioning/realized'' GuardProvisioningReport,
      route ''POST'' ''/v1/provisioning/failed'' GuardProvisioningReport,
      route ''POST'' ''/v1/provisioning/sweep-unresolved'' GuardProvider,
      route ''GET'' ''/v1/offboardings'' GuardProvider,
      command ''POST'' ''/v1/offboardings'' GuardProvider,
      route ''GET'' ''/v1/offboardings/{offboarding_id}'' GuardProvider,
      command ''POST'' ''/v1/offboardings/{offboarding_id}/freeze'' GuardProvider,
      command ''POST'' ''/v1/offboardings/{offboarding_id}/complete-freeze'' GuardProvider,
      command ''POST'' ''/v1/offboardings/{offboarding_id}/release'' GuardProvider,
      command ''POST'' ''/v1/offboardings/{offboarding_id}/retire'' GuardProvider,
      command ''POST'' ''/v1/offboardings/{offboarding_id}/cancel'' GuardProvider,
      command ''POST'' ''/v1/offboardings/{offboarding_id}/legal-hold'' GuardProvider,
      command ''POST'' ''/v1/offboardings/{offboarding_id}/obligations'' GuardProvider,
      route ''GET'' ''/v1/offboardings/{offboarding_id}/obligations'' GuardProvider,
      route ''POST'' ''/v1/offboardings/{offboarding_id}/deprovisioning'' GuardProvisioningReport,
      command ''POST'' ''/v1/offboardings/{offboarding_id}/deprovisioning/resend'' GuardProvider,
      command ''POST'' ''/v1/obligations/{obligation_id}/resolve'' GuardObligationReporter,
      route ''GET'' ''/v1/provider-grants'' GuardProvider,
      command ''POST'' ''/v1/provider-grants'' GuardProvider,
      command ''POST'' ''/v1/provider-grants/{grant_id}/revoke'' GuardProvider,
      route ''GET'' ''/v1/provider-grants:emergency-validation'' GuardProvider,
      route ''GET'' ''/v1/reporters'' GuardProvider,
      command ''POST'' ''/v1/reporters'' GuardProvider,
      route ''GET'' ''/v1/reporters/{reporter_id}'' GuardProvider,
      command ''POST'' ''/v1/reporters/{reporter_id}/retire'' GuardProvider,
      route ''GET'' ''/v1/privileged-access'' GuardProvider,
      route ''GET'' ''/v1/privileged-access:unreviewed'' GuardProvider,
      route ''GET'' ''/v1/privileged-access/reviews'' GuardProvider,
      command ''POST'' ''/v1/privileged-access/reviews'' GuardProvider,
      route ''GET'' ''/v1/provider-access'' GuardTenant,
      route ''GET'' ''/v1/provider-activations'' GuardHolder,
      command ''POST'' ''/v1/provider-activations'' GuardHolder,
      route ''GET'' ''/v1/provider-activations/grants'' GuardHolder,
      command ''POST'' ''/v1/provider-activations/{activation_id}/approve'' GuardHolder,
      command ''POST'' ''/v1/provider-activations/{activation_id}/deny'' GuardHolder,
      command ''POST'' ''/v1/provider-activations/{activation_id}/end'' GuardHolder,
      route ''GET'' ''/v1/projections/consumers'' GuardProvider,
      command ''POST'' ''/v1/projections/consumers'' GuardProvider,
      route ''GET'' ''/v1/projections/consumers/{consumer_id}'' GuardConsumer,
      command ''POST'' ''/v1/projections/consumers/{consumer_id}/retire'' GuardProvider,
      route ''POST'' ''/v1/projections/consumers/{consumer_id}/progress'' GuardConsumer,
      route ''POST'' ''/v1/projections/consumers/{consumer_id}/bootstrap'' GuardConsumer,
      route ''POST'' ''/v1/projections/snapshot'' GuardConsumer,
      route ''POST'' ''/v1/projections/provider-authority/snapshot'' GuardConsumer,
      route ''GET'' ''/v1/projections/frontier'' GuardConsumer,
      route ''POST'' ''/v1/projections/reconcile'' GuardConsumer,
      command ''POST'' ''/v1/projections/advance-versions'' GuardProvider,
      route ''GET'' ''/v1/tenant-administration-pause'' GuardProvider,
      command ''POST'' ''/v1/tenant-administration-pause'' GuardProvider,
      route ''GET'' ''/v1/projections/consumers/{consumer_id}/dead-letters'' GuardProvider,
      route ''POST'' ''/v1/dead-letters/{event_id}/consumers/{consumer}/replay'' GuardProvider,
      route ''POST'' ''/v1/dead-letters/{event_id}/consumers/{consumer}/resolve'' GuardProvider,
      route ''POST'' ''/v1/dead-letters/{event_id}/consumers/{consumer}/waive'' GuardProvider,
      route ''GET'' ''/v1/principals/{principal_id}/contexts'' GuardContexts,
      route ''POST'' ''/v1/context/verify'' GuardConsumer,
      route ''POST'' ''/v1/context/switch-eligible'' GuardConsumer,
      route ''POST'' ''/v1/context/rate'' GuardProvider,
      route ''GET'' ''/v1/context/rate/over-threshold'' GuardProvider
     ]"

definition keyOptional :: "string list" where
  "keyOptional =
     [
      ''/v1/projections/snapshot'',
      ''/v1/projections/provider-authority/snapshot'',
      ''/v1/context/verify'',
      ''/v1/context/switch-eligible'',
      ''/v1/context/rate'',
      ''/v1/projections/consumers/{consumer_id}/progress'',
      ''/v1/projections/consumers/{consumer_id}/bootstrap'',
      ''/v1/projections/reconcile'',
      ''/v1/provisioning/realized'',
      ''/v1/provisioning/failed'',
      ''/v1/offboardings/{offboarding_id}/deprovisioning'',
      ''/v1/provisioning/sweep-unresolved'',
      ''/v1/invitations/expire-lapsed'',
      ''/v1/invitations/resolve'',
      ''/v1/dead-letters/{event_id}/consumers/{consumer}/replay'',
      ''/v1/dead-letters/{event_id}/consumers/{consumer}/resolve'',
      ''/v1/dead-letters/{event_id}/consumers/{consumer}/waive''
     ]"

definition lookup :: "string \<Rightarrow> string \<Rightarrow> http_route option" where
  "lookup m path =
     find (\<lambda>ro. method_matches (ro_method ro) m \<and> pattern_matches (ro_pattern ro) path) Routes"

definition route_of :: "http_request \<Rightarrow> http_route option" where
  "route_of r = lookup (hr_method r) (hr_path r)"

section \<open>Caller checks\<close>

text \<open>What a handler finds in the context: the caller, the scope resolved for it, and whether it is a command.\<close>

record incoming =
  in_request :: http_request
  in_caller :: "caller option"
  in_scope :: "scope option"
  in_command :: bool

definition reason_header :: "http_request \<Rightarrow> string" where
  "reason_header r = (case hr_reason r of [] \<Rightarrow> [] | v # _ \<Rightarrow> v)"

definition requireKey :: "incoming \<Rightarrow> http_problem + unit" where
  "requireKey i =
     (if \<not> in_command i then Inr ()
      else if TrimSpace (hr_key (in_request i)) \<noteq> [] then Inr ()
      else Inl ValidationFailed)"

definition requireProvider :: "incoming \<Rightarrow> http_problem + scope" where
  "requireProvider i =
     (case in_scope i of
        None \<Rightarrow> Inl InternalProblem
      | Some scope \<Rightarrow>
          if \<not> sc_provider scope then Inl Forbidden
          else if (case in_caller i of None \<Rightarrow> True | Some caller \<Rightarrow> \<not> ca_provider caller) then Inl Forbidden
          else if TrimSpace (reason_header (in_request i)) = [] then Inl ValidationFailed
          else case requireKey i of Inl p \<Rightarrow> Inl p | Inr _ \<Rightarrow> Inr scope)"

definition requireConsumerSelfOrProvider :: "incoming \<Rightarrow> string \<Rightarrow> http_problem + scope \<times> string" where
  "requireConsumerSelfOrProvider i requested =
     (case (in_scope i, in_caller i) of
        (None, _) \<Rightarrow> Inl InternalProblem
      | (Some _, None) \<Rightarrow> Inl AuthenticationRequired
      | (Some scope, Some caller) \<Rightarrow>
          let trimmed = TrimSpace requested in
          if ca_consumer caller \<noteq> [] then
            if trimmed \<noteq> [] \<and> trimmed \<noteq> ca_consumer caller then Inl Forbidden
            else Inr (scope, ca_consumer caller)
          else if \<not> sc_provider scope \<or> \<not> ca_provider caller then Inl Forbidden
          else if TrimSpace (reason_header (in_request i)) = [] then Inl ValidationFailed
          else Inr (scope, trimmed))"

definition requireTenant :: "incoming \<Rightarrow> http_problem + scope" where
  "requireTenant i =
     (case in_scope i of
        None \<Rightarrow> Inl InternalProblem
      | Some scope \<Rightarrow>
          if sc_provider scope \<or> sc_consumer scope \<or> sc_self scope then Inl Forbidden
          else case requireKey i of Inl p \<Rightarrow> Inl p | Inr _ \<Rightarrow> Inr scope)"

definition requireGrantHolder :: "incoming \<Rightarrow> http_problem + caller" where
  "requireGrantHolder i =
     (case in_caller i of
        None \<Rightarrow> Inl Forbidden
      | Some caller \<Rightarrow>
          if \<not> ca_provider caller \<and> \<not> ca_eligible caller then Inl Forbidden
          else if TrimSpace (reason_header (in_request i)) = [] then Inl ValidationFailed
          else case requireKey i of Inl p \<Rightarrow> Inl p | Inr _ \<Rightarrow> Inr caller)"

text \<open>Go's zero caller stands for an absent one.\<close>

definition caller_or_zero :: "incoming \<Rightarrow> caller" where
  "caller_or_zero i = (case in_caller i of None \<Rightarrow> no_caller | Some caller \<Rightarrow> caller)"

definition http_reason :: "http_request \<Rightarrow> string" where
  "http_reason r = take 1000 (TrimSpace (reason_header r))"

definition reporterReason :: "env \<Rightarrow> http_request \<Rightarrow> caller \<Rightarrow> string" where
  "reporterReason env r caller =
     (if http_reason r \<noteq> [] then http_reason r
      else ''reported by the registered '' @ ca_reports caller @ '' reporter '' @ uuid_text env (ca_reporter caller))"

definition requireProvisioningReport :: "env \<Rightarrow> incoming \<Rightarrow> http_problem + scope \<times> string" where
  "requireProvisioningReport env i =
     (let caller = caller_or_zero i in
      if IsNil (ca_reporter caller) then
        (case requireProvider i of Inl p \<Rightarrow> Inl p | Inr scope \<Rightarrow> Inr (scope, http_reason (in_request i)))
      else case in_scope i of
        None \<Rightarrow> Inl InternalProblem
      | Some scope \<Rightarrow>
          if \<not> reports_Provisioning (ca_reports caller) then Inl Forbidden
          else case requireKey i of
            Inl p \<Rightarrow> Inl p
          | Inr _ \<Rightarrow> Inr (scope, reporterReason env (in_request i) caller))"

definition requireObligationReporter :: "incoming \<Rightarrow> http_problem + string" where
  "requireObligationReporter i =
     (let caller = caller_or_zero i; domain = reports_Domain (ca_reports caller) in
      if IsNil (ca_reporter caller) \<or> domain = [] then Inl Forbidden
      else case requireKey i of Inl p \<Rightarrow> Inl p | Inr _ \<Rightarrow> Inr domain)"

text \<open>The checks of \<open>resolveInvitation\<close>, \<open>acceptInvitation\<close> and \<open>listContexts\<close>.\<close>

definition resolver_check :: "incoming \<Rightarrow> http_problem + unit" where
  "resolver_check i =
     (let caller = caller_or_zero i in
      if IsNil (ca_reporter caller) \<or> \<not> reports_InvitationResolve (ca_reports caller) then Inl Forbidden else Inr ())"

definition accept_check :: "incoming \<Rightarrow> http_problem + unit" where
  "accept_check i = (if \<not> ca_self (caller_or_zero i) then Inl Forbidden else requireKey i)"

text \<open>The segment of a path at a wildcard's position.\<close>

definition path_principal :: "http_request \<Rightarrow> string" where
  "path_principal r = (case segments (hr_path r) of [_, _, _, who, _] \<Rightarrow> who | _ \<Rightarrow> [])"

definition contexts_check :: "verifier \<Rightarrow> incoming \<Rightarrow> http_problem + unit" where
  "contexts_check vf i =
     (case vf_parse vf (path_principal (in_request i)) of
        None \<Rightarrow> Inl ValidationFailed
      | Some who \<Rightarrow>
          let caller = caller_or_zero i in
          if ca_self caller then (if ca_subject caller \<noteq> who then Inl Forbidden else Inr ())
          else case requireProvider i of Inl p \<Rightarrow> Inl p | Inr _ \<Rightarrow> Inr ())"

text \<open>The check of a route, with the consumer the request names where the handler reads one.\<close>

definition guarded :: "env \<Rightarrow> verifier \<Rightarrow> guard \<Rightarrow> incoming \<Rightarrow> string \<Rightarrow> http_problem + unit" where
  "guarded env vf g i requested =
     (case g of
        GuardTenant \<Rightarrow> map_sum id (\<lambda>_. ()) (requireTenant i)
      | GuardProvider \<Rightarrow> map_sum id (\<lambda>_. ()) (requireProvider i)
      | GuardConsumer \<Rightarrow> map_sum id (\<lambda>_. ()) (requireConsumerSelfOrProvider i requested)
      | GuardHolder \<Rightarrow> map_sum id (\<lambda>_. ()) (requireGrantHolder i)
      | GuardProvisioningReport \<Rightarrow> map_sum id (\<lambda>_. ()) (requireProvisioningReport env i)
      | GuardObligationReporter \<Rightarrow> map_sum id (\<lambda>_. ()) (requireObligationReporter i)
      | GuardResolver \<Rightarrow> resolver_check i
      | GuardAccept \<Rightarrow> accept_check i
      | GuardContexts \<Rightarrow> contexts_check vf i)"

section \<open>The way to a handler\<close>

text \<open>
  \<open>visibleASCII\<close> ranges over bytes. A key on a read is refused before the mux; the body of a request with a
  key is bounded.
\<close>

definition visibleASCII :: "string \<Rightarrow> bool" where
  "visibleASCII value \<longleftrightarrow> list_all (\<lambda>ch. let n = of_char ch :: nat in n = 9 \<or> 32 \<le> n \<and> n \<le> 126) value"

definition reasonHeaders :: "http_request \<Rightarrow> http_problem + unit" where
  "reasonHeaders r = (if list_all visibleASCII (hr_reason r) then Inr () else Inl ValidationFailed)"

definition maxIdempotentBody :: nat where "maxIdempotentBody = 2 ^ 20"

definition key_check :: "http_request \<Rightarrow> http_problem + unit" where
  "key_check r =
     (if hr_key r = [] then Inr ()
      else if hr_method r = ''GET'' \<or> hr_method r = ''HEAD'' then Inl ValidationFailed
      else if (case hr_body r of None \<Rightarrow> False | Some body \<Rightarrow> length body > maxIdempotentBody) then Inl ValidationFailed
      else Inr ())"

definition claimScope :: "env \<Rightarrow> caller \<Rightarrow> string" where
  "claimScope env caller =
     (if ca_self caller then ''self:'' @ uuid_text env (ca_subject caller)
      else if ca_provider caller then ''provider:'' @ uuid_text env (ca_subject caller)
      else ''tenant:'' @ uuid_text env (ca_tenant caller) @ '':'' @ uuid_text env (ca_subject caller))"

record arrival =
  ar_route :: http_route
  ar_caller :: caller
  ar_scope :: scope

definition surface :: "env \<Rightarrow> verifier \<Rightarrow> ctx \<Rightarrow> string \<Rightarrow> http_request \<Rightarrow> arrival http" where
  "surface env vf cx requested r =
     seq (received env vf cx r) (\<lambda>(caller, scope).
     seq (lift (key_check r)) (\<lambda>_.
     seq (lift (reasonHeaders r)) (\<lambda>_.
     case route_of r of
       None \<Rightarrow> raise NotFound
     | Some ro \<Rightarrow>
         seq (lift (guarded env vf (ro_guard ro)
               \<lparr>in_request = r, in_caller = Some caller, in_scope = Some scope, in_command = ro_command ro\<rparr> requested)) (\<lambda>_.
         return \<lparr>ar_route = ro, ar_caller = caller, ar_scope = scope\<rparr>))))"

section \<open>Problems\<close>

text \<open>\<open>mapping\<close>: the problem of each sentinel, \<open>None\<close> for an error that is none of them.\<close>

fun problemFor :: "error \<Rightarrow> http_problem option" where
  "problemFor ErrNoScope = Some InternalProblem"
| "problemFor ErrWrongScope = Some InternalProblem"
| "problemFor (ErrReasonRequired p) = (if p = PkgDb \<or> p = PkgMembership then Some ValidationFailed else None)"
| "problemFor ErrListLimit = Some ValidationFailed"
| "problemFor ErrIdempotencyConflict = Some IdempotencyKeyConflict"
| "problemFor ErrIdempotencyInProgress = Some RequestInProgress"
| "problemFor (ErrInvalid p) =
     (if p \<in> {PkgMembership, PkgTenant, PkgOrganization, PkgWorkspace, PkgInvitation, PkgOffboarding, PkgProjection, PkgContext, PkgAuthority}
      then Some ValidationFailed else None)"
| "problemFor (ErrNotFound p) =
     (if p \<in> {PkgMembership, PkgTenant, PkgOrganization, PkgWorkspace, PkgInvitation, PkgOffboarding} then Some NotFound else None)"
| "problemFor (ErrVersionMismatch p) =
     (if p \<in> {PkgMembership, PkgTenant, PkgOrganization, PkgWorkspace} then Some VersionConflict else None)"
| "problemFor (ErrTransitionRefused p) =
     (if p \<in> {PkgMembership, PkgTenant, PkgOrganization, PkgWorkspace, PkgInvitation} then Some StateTransitionRefused else None)"
| "problemFor (ErrRetired p) =
     (if p \<in> {PkgTenant, PkgOrganization, PkgWorkspace} then Some StateTransitionRefused else None)"
| "problemFor (ErrUnknownAction p) =
     (if p \<in> {PkgMembership, PkgTenant, PkgOrganization, PkgWorkspace, PkgInvitation} then Some InternalProblem else None)"
| "problemFor ErrRevoked = Some StateTransitionRefused"
| "problemFor ErrAdvanceReasonRequired = Some ValidationFailed"
| "problemFor ErrBatchNotFound = Some NotFound"
| "problemFor ErrBatchTooLarge = Some PayloadTooLarge"
| "problemFor ErrBatchNotPreviewed = Some StateTransitionRefused"
| "problemFor ErrBatchExpired = Some StateTransitionRefused"
| "problemFor ErrBatchExecuting = Some RequestInProgress"
| "problemFor ErrBatchLeaseLost = Some RequestInProgress"
| "problemFor ErrNoTransition = Some NotFound"
| "problemFor ErrProvisioningNotRealized = Some PreconditionUnmet"
| "problemFor ErrSponsorNotActive = Some PreconditionUnmet"
| "problemFor ErrNoProvisioningRequest = Some NotFound"
| "problemFor ErrOutcomeAlreadyRecorded = Some StateTransitionRefused"
| "problemFor ErrAmbiguousCorrelation = Some PreconditionUnmet"
| "problemFor ErrProvisioningNotRequested = Some PreconditionUnmet"
| "problemFor ErrTenantsNotRetired = Some PreconditionUnmet"
| "problemFor ErrMembershipsPresent = Some PreconditionUnmet"
| "problemFor ErrSettled = Some StateTransitionRefused"
| "problemFor ErrExpired = Some PreconditionUnmet"
| "problemFor ErrNotAcceptable = Some InvitationNotAcceptable"
| "problemFor ErrIdentityUnavailable = Some DependencyUnavailable"
| "problemFor ErrTenantNotActive = Some StateTransitionRefused"
| "problemFor ErrAlreadyMember = Some StateTransitionRefused"
| "problemFor ErrTTL = Some ValidationFailed"
| "problemFor ErrToken = Some ValidationFailed"
| "problemFor ErrStageRefused = Some StateTransitionRefused"
| "problemFor ErrObligationsOutstanding = Some PreconditionUnmet"
| "problemFor ErrLegalHold = Some PreconditionUnmet"
| "problemFor ErrDeprovisioningIncomplete = Some PreconditionUnmet"
| "problemFor ErrAmbiguousOutcome = Some PreconditionUnmet"
| "problemFor ErrResendRefused = Some StateTransitionRefused"
| "problemFor ErrWrongDomain = Some Forbidden"
| "problemFor ErrAlreadyResolved = Some StateTransitionRefused"
| "problemFor ErrNotReversible = Some StateTransitionRefused"
| "problemFor ErrConsumerUnregistered = Some Forbidden"
| "problemFor ErrNotSubscribed = Some Forbidden"
| "problemFor ErrNoSnapshotMark = Some PreconditionUnmet"
| "problemFor ErrMarkWentBackwards = Some ValidationFailed"
| "problemFor ErrPageSize = Some ValidationFailed"
| "problemFor ErrCursor = Some ValidationFailed"
| "problemFor ErrReportMarkRequired = Some ValidationFailed"
| "problemFor ErrDeadLetterNotFound = Some NotFound"
| "problemFor ErrConsumerNotFound = Some NotFound"
| "problemFor ErrDeadLetterResolved = Some StateTransitionRefused"
| "problemFor ErrUnreplayable = Some PreconditionUnmet"
| "problemFor ErrConsumerNotSubscribed = Some PreconditionUnmet"
| "problemFor ErrNoAppliedEvidence = Some PreconditionUnmet"
| "problemFor ErrNotSuperseded = Some PreconditionUnmet"
| "problemFor ErrNotWaivable = Some PreconditionUnmet"
| "problemFor ErrAlreadyWaived = Some StateTransitionRefused"
| "problemFor ErrGrantNotFound = Some NotFound"
| "problemFor ErrAlreadyGranted = Some StateTransitionRefused"
| "problemFor ErrAlreadyRevoked = Some StateTransitionRefused"
| "problemFor ErrReporterInvalid = Some ValidationFailed"
| "problemFor ErrReporterRegistered = Some StateTransitionRefused"
| "problemFor ErrReporterNotFound = Some NotFound"
| "problemFor ErrReporterRetired = Some StateTransitionRefused"
| "problemFor ErrReporterVersion = Some VersionConflict"
| "problemFor ErrLastGrant = Some StateTransitionRefused"
| "problemFor ErrActivationInvalid = Some ValidationFailed"
| "problemFor ErrActivationTooLong = Some ValidationFailed"
| "problemFor ErrEmergencyGrant = Some StateTransitionRefused"
| "problemFor ErrNotHolder = Some Forbidden"
| "problemFor ErrActivationInForce = Some StateTransitionRefused"
| "problemFor ErrActivationPending = Some StateTransitionRefused"
| "problemFor ErrActivationNotFound = Some NotFound"
| "problemFor ErrActivationDecided = Some StateTransitionRefused"
| "problemFor ErrSelfApproval = Some Forbidden"
| "problemFor ErrActivationNotInForce = Some StateTransitionRefused"
| "problemFor ErrAccessQueryInvalid = Some ValidationFailed"
| "problemFor ErrReviewInvalid = Some ValidationFailed"
| "problemFor ErrSelfReview = Some Forbidden"
| "problemFor ErrPauseInvalid = Some ValidationFailed"
| "problemFor ErrTenantAdminInvalid = Some ValidationFailed"
| "problemFor ErrAdminTenantNotFound = Some NotFound"
| "problemFor ErrAdminTenantNotActive = Some StateTransitionRefused"
| "problemFor ErrAlreadyAdministrator = Some StateTransitionRefused"
| "problemFor ErrMembershipSuspended = Some StateTransitionRefused"
| "problemFor ErrAdminGrantNotFound = Some NotFound"
| "problemFor ErrAdminGrantRevoked = Some StateTransitionRefused"
| "problemFor ErrNotRegistered = Some Forbidden"
| "problemFor ErrRequestRequired = Some ValidationFailed"
| "problemFor _ = None"

text \<open>What the caller is sent: a problem, or the stored response of a replay.\<close>

datatype http_answer = Problem http_problem | Replayed int string

definition writeError :: "error \<Rightarrow> http_answer" where
  "writeError e =
     (case e of
        ErrReplayed status body \<Rightarrow> Replayed status body
      | _ \<Rightarrow> (case problemFor e of None \<Rightarrow> Problem InternalProblem | Some p \<Rightarrow> Problem p))"

end
