(* ===== verification/Http_Effects.thy ===== *)
theory Http_Effects
  imports Http_Caller Authority_Safety
begin

text \<open>
  What authentication establishes: a caller has one authority, that authority is what the records say at the
  request, and the scope made of it is one the services know.
\<close>

section \<open>Claims\<close>

lemma reading_run [run_simps]: "reading m w = (Inr x, w') \<longleftrightarrow> m w = (Inr x, w')"
  by (auto simp: reading_def split: prod.splits sum.splits)

lemma claimed_id_SomeD: "claimed_id vf c name = Some u \<Longrightarrow> \<not> IsNil u"
  by (auto simp: claimed_id_def split: option.splits if_splits)

lemma presentedFromClaims_SomeD:
  assumes "presentedFromClaims vf c = Some p"
  shows "\<not> IsNil (ps_principal p) \<and> (ps_workload p \<longrightarrow> IsNil (ps_tenant p))"
  using assms by (auto simp: presentedFromClaims_def Let_def dest: claimed_id_SomeD split: option.splits if_splits)

lemma presented_by_InrD:
  assumes "presented_by vf r = Inr p"
  shows "\<not> IsNil (ps_principal p) \<and> (ps_workload p \<longrightarrow> IsNil (ps_tenant p))"
  using assms by (auto simp: presented_by_def dest: presentedFromClaims_SomeD split: option.splits verdict.splits)

section \<open>One authority\<close>

text \<open>How a caller is a caller: as itself, in a Tenant, as a consumer, as a reporter or on a provider grant.\<close>

definition authorities :: "caller \<Rightarrow> bool list" where
  "authorities c =
     filter id [ca_self c, \<not> IsNil (ca_tenant c), ca_consumer c \<noteq> [], \<not> IsNil (ca_reporter c), ca_provider c \<or> ca_eligible c]"

definition caller_typed :: "caller \<Rightarrow> bool" where
  "caller_typed c \<longleftrightarrow>
     \<not> IsNil (ca_subject c) \<and> length (authorities c) = 1 \<and> \<not> (ca_provider c \<and> ca_eligible c) \<and>
     (ca_emergency c \<longrightarrow> ca_provider c) \<and> (ca_provider c \<longrightarrow> ca_emergency c \<or> \<not> IsNil (ca_activation c)) \<and>
     (IsNil (ca_reporter c) \<longrightarrow> ca_reports c = [])"

text \<open>The scope a caller is given: its kind, its Tenant, its actor and the authority its evidence will name.\<close>

definition scope_of :: "caller \<Rightarrow> uuid \<Rightarrow> scope" where
  "scope_of c correlation =
     zero_scope\<lparr>sc_tenant := ca_tenant c, sc_provider := ca_provider c \<or> ca_eligible c \<or>
         \<not> IsNil (ca_reporter c) \<and> \<not> reports_InvitationResolve (ca_reports c),
       sc_consumer := ca_consumer c \<noteq> [], sc_self := ca_self c, sc_resolver := reports_InvitationResolve (ca_reports c),
       sc_actor := ca_subject c, sc_correlation := correlation,
       sc_authority := (if \<not> IsNil (ca_reporter c) then ReporterAuthority
         else if ca_consumer c \<noteq> [] then \<lparr>au_kind = AuthorityConsumer, au_activation = 0\<rparr>
         else if ca_eligible c then EligibleAuthority
         else if ca_emergency c then EmergencyAuthority
         else if ca_provider c then ActivationAuthority (ca_activation c)
         else no_authority)\<rparr>"

lemmas scope_defs = SelfScope_def InvitationResolverScope_def ProviderScope_def ConsumerScope_def TenantScope_def
  EmergencyAuthority_def ActivationAuthority_def EligibleAuthority_def ReporterAuthority_def authority_valid_def
  zero_scope_def no_authority_def reports_InvitationResolve_def ReportsInvitationResolve_def

lemma caller_typed_resolves:
  assumes "caller_typed c" "\<not> IsNil correlation"
  shows "caller_resolve c correlation = Inr (scope_of c correlation)"
  using assms by (auto simp: caller_typed_def authorities_def caller_resolve_def scope_of_def scope_defs split: if_splits)

lemma caller_resolve_scope:
  assumes "caller_typed c" "caller_resolve c correlation = Inr scope"
  shows "scope = scope_of c correlation"
  using assms by (auto simp: caller_typed_def authorities_def caller_resolve_def scope_of_def scope_defs split: if_splits)

lemma caller_resolve_constructed: "caller_resolve c correlation = Inr scope \<Longrightarrow> constructed scope"
  unfolding caller_resolve_def constructed_def by (auto split: if_splits)

section \<open>Records behind it\<close>

lemma TenantStanding_run:
  "TenantStanding env cx principalID tenantID correlation w = (Inr st, w') \<Longrightarrow>
     st = tenant_standing_of (db_clock env (Suc (ticks w))) principalID tenantID (store w) \<and> store w' = store w"
  by (auto simp: TenantStanding_def WithTenantRead_def run_simps)

definition consumer_of :: "uuid \<Rightarrow> string \<Rightarrow> caller_records \<Rightarrow> bool" where
  "consumer_of who k c \<longleftrightarrow> (\<exists>r \<in> set (consumers c). co_id r = k \<and> co_principal r = who \<and> co_retiredAt r = None)"

definition reporter_for :: "uuid \<Rightarrow> uuid \<Rightarrow> string \<Rightarrow> caller_records \<Rightarrow> bool" where
  "reporter_for who k reports c \<longleftrightarrow>
     (\<exists>r \<in> set (reporters c). rp_id r = k \<and> rp_principal r = who \<and> reporter_Active r \<and> rp_reports r = reports)"

definition paused_in :: "caller_records \<Rightarrow> bool" where
  "paused_in c = (case first_row (order_desc pause_key (pauses c)) of None \<Rightarrow> False | Some p \<Rightarrow> pz_paused p)"

lemma ConsumerFor_run:
  "ConsumerFor env who w = (Inr k, w') \<Longrightarrow> store w' = store w \<and> (k \<noteq> [] \<longrightarrow> consumer_of who k (callers (store w)))"
  by (auto simp: ConsumerFor_def consumer_of_def run_simps split: option.splits dest: find_in)

lemma ReporterFor_run:
  "ReporterFor env who w = (Inr (k, reports), w') \<Longrightarrow>
     store w' = store w \<and> (\<not> IsNil k \<longrightarrow> reporter_for who k reports (callers (store w)))"
  by (auto simp: ReporterFor_def reporter_for_def run_simps split: option.splits dest: find_in)

lemma TenantAdministrationPaused_run:
  "TenantAdministrationPaused env w = (Inr p, w') \<Longrightarrow> store w' = store w \<and> p = paused_in (callers (store w))"
  by (auto simp: TenantAdministrationPaused_def readPause_def paused_in_def no_pause_def run_simps split: option.splits)

text \<open>What the records say of a caller at an instant.\<close>

definition backed :: "instant \<Rightarrow> caller \<Rightarrow> store \<Rightarrow> bool" where
  "backed t c s \<longleftrightarrow>
     (\<not> IsNil (ca_tenant c) \<longrightarrow> Administers (tenant_standing_of t (ca_subject c) (ca_tenant c) s)) \<and>
     (ca_consumer c \<noteq> [] \<longrightarrow> consumer_of (ca_subject c) (ca_consumer c) (callers s)) \<and>
     (\<not> IsNil (ca_reporter c) \<longrightarrow> reporter_for (ca_subject c) (ca_reporter c) (ca_reports c) (callers s)) \<and>
     (ca_provider c \<or> ca_eligible c \<longrightarrow>
        (let st = standing_of t (ca_subject c) (callers s)
         in st_holder st \<and> ca_provider c = st_inForce st \<and> ca_emergency c = st_emergency st \<and> ca_activation c = st_activation st))"

text \<open>Where a request may go as the caller it is.\<close>

definition confined :: "verifier \<Rightarrow> http_request \<Rightarrow> caller \<Rightarrow> store \<Rightarrow> bool" where
  "confined vf r c s \<longleftrightarrow>
     (ca_self c \<longrightarrow> acceptRoute r \<or> selfTarget vf r = Some (ca_subject c)) \<and>
     (ca_eligible c \<longrightarrow> activationRoute (hr_path r)) \<and>
     (\<not> IsNil (ca_reporter c) \<longrightarrow> (\<exists>kind. reportRoute r = Some kind \<and> admits kind (ca_reports c))) \<and>
     (\<not> IsNil (ca_tenant c) \<and> changes r \<longrightarrow> \<not> paused_in (callers s))"

lemma tenant_caller_run:
  assumes "tenant_caller env cx r p w = (Inr c, w')"
  shows "store w' = store w \<and> c = no_caller\<lparr>ca_subject := ps_principal p, ca_tenant := ps_tenant p\<rparr> \<and>
    Administers (tenant_standing_of (db_clock env (Suc (ticks w))) (ps_principal p) (ps_tenant p) (store w))"
  using assms by (auto simp: tenant_caller_def run_simps dest!: TenantStanding_run)

lemma reporter_caller_run:
  assumes "reporter_caller env p kind w = (Inr c, w')"
  obtains k reports where "store w' = store w" "c = no_caller\<lparr>ca_subject := ps_principal p, ca_reporter := k, ca_reports := reports\<rparr>"
    "\<not> IsNil k" "admits kind reports" "reporter_for (ps_principal p) k reports (callers (store w))"
proof -
  from assms obtain k reports w1 where r: "ReporterFor env (ps_principal p) w = (Inr (k, reports), w1)" and w1: "w' = w1"
    and c: "c = no_caller\<lparr>ca_subject := ps_principal p, ca_reporter := k, ca_reports := reports\<rparr>" "\<not> IsNil k" "admits kind reports"
    by (auto simp: reporter_caller_def run_simps)
  show thesis using ReporterFor_run[OF r] c w1 by (intro that) auto
qed

lemma consumer_caller_run:
  assumes "consumer_caller env vf p w = (Inr c, w')"
  obtains k where "store w' = store w" "c = no_caller\<lparr>ca_subject := ps_principal p, ca_consumer := k\<rparr>" "k \<noteq> []"
    "consumer_of (ps_principal p) k (callers (store w))"
proof -
  from assms obtain k w1 where r: "ConsumerFor env (ps_principal p) w = (Inr k, w1)" and w1: "w' = w1"
    and c: "c = no_caller\<lparr>ca_subject := ps_principal p, ca_consumer := k\<rparr>" "k \<noteq> []"
    by (auto simp: consumer_caller_def run_simps)
  show thesis using ConsumerFor_run[OF r] c w1 by (intro that) auto
qed

lemma provider_caller_run:
  assumes "provider_caller env p w = (Inr c, w')"
  shows "store w' = store w \<and>
    (let st = standing_of (db_clock env (Suc (ticks w))) (ps_principal p) (callers (store w))
     in st_holder st \<and> c = no_caller\<lparr>ca_subject := ps_principal p, ca_provider := st_inForce st, ca_eligible := \<not> st_inForce st,
          ca_emergency := st_emergency st, ca_activation := st_activation st\<rparr>)"
  using assms by (auto simp: provider_caller_def run_simps Let_def dest!: ProviderStanding_run)

lemma standing_consistent:
  "(st_emergency (standing_of t who c) \<longrightarrow> st_inForce (standing_of t who c)) \<and>
   (st_inForce (standing_of t who c) \<longrightarrow> st_emergency (standing_of t who c) \<or> \<not> IsNil (st_activation (standing_of t who c)))"
  by (simp add: standing_of_def Let_def)

lemmas caller_fields = no_caller_def caller_typed_def authorities_def backed_def Let_def

lemma identified_run:
  assumes "identified env vf cx r p w = (Inr c, w')" and "\<not> IsNil (ps_principal p)" and "ps_workload p \<longrightarrow> IsNil (ps_tenant p)"
  shows "store w' = store w \<and> caller_typed c \<and> backed (db_clock env (Suc (ticks w))) c (store w) \<and>
    (ca_self c \<longrightarrow> acceptRoute r \<or> selfTarget vf r = Some (ca_subject c)) \<and>
    (\<not> IsNil (ca_reporter c) \<longrightarrow> (\<exists>kind. reportRoute r = Some kind \<and> admits kind (ca_reports c)))"
proof -
  consider (self) "c = self_caller p" "store w' = store w" "acceptRoute r \<or> selfTarget vf r = Some (ps_principal p)"
    | (tenant) "tenant_caller env cx r p w = (Inr c, w')" "\<not> IsNil (ps_tenant p)"
    | (reporter) kind where "reporter_caller env p kind w = (Inr c, w')" "reportRoute r = Some kind"
    | (consumer) "consumer_caller env vf p w = (Inr c, w')"
    | (provider) "provider_caller env p w = (Inr c, w')"
    using assms(1) by (auto simp: identified_def authorize_def run_simps split: if_splits option.splits)
  then show ?thesis
  proof cases
    case self
    then show ?thesis using assms(2) by (simp add: self_caller_def caller_fields)
  next
    case tenant
    then show ?thesis using tenant_caller_run[OF tenant(1)] assms(2) by (simp add: caller_fields)
  next
    case reporter
    from reporter(1) show ?thesis
      by (rule reporter_caller_run) (use assms(2) reporter(2) in \<open>simp add: caller_fields\<close>)
  next
    case consumer
    from consumer show ?thesis
      by (rule consumer_caller_run) (use assms(2) in \<open>simp add: caller_fields\<close>)
  next
    case provider
    then show ?thesis
      using provider_caller_run[OF provider] assms(2)
        standing_consistent[of "db_clock env (Suc (ticks w))" "ps_principal p" "callers (store w)"]
      by (auto simp: caller_fields)
  qed
qed

section \<open>Authentication\<close>

lemma admitted_run:
  assumes "admitted env vf r c w = (Inr u, w')" "caller_typed c"
  shows "(\<not> ca_emergency c \<longrightarrow> store w' = store w) \<and> (ca_eligible c \<longrightarrow> activationRoute (hr_path r)) \<and>
    (\<not> IsNil (ca_tenant c) \<and> changes r \<longrightarrow> \<not> paused_in (callers (store w)))"
proof -
  have "\<not> ca_eligible c" if "\<not> IsNil (ca_tenant c)"
    using assms(2) that by (auto simp: caller_typed_def authorities_def split: if_splits)
  then show ?thesis
    using assms(1) by (auto simp: admitted_def run_simps split: if_splits dest!: TenantAdministrationPaused_run)
qed

lemma Authenticate_run:
  assumes "Authenticate env vf cx r w = (Inr c, w')"
  shows "(\<not> ca_emergency c \<longrightarrow> store w' = store w) \<and> caller_typed c \<and>
    backed (db_clock env (Suc (ticks w))) c (store w) \<and> confined vf r c (store w)"
proof -
  from assms obtain p w1 where p: "presented_by vf r = Inr p" and c: "identified env vf cx r p w = (Inr c, w1)"
    and a: "admitted env vf r c w1 = (Inr (), w')"
    by (auto simp: Authenticate_def run_simps)
  from presented_by_InrD[OF p] have "\<not> IsNil (ps_principal p)" "ps_workload p \<longrightarrow> IsNil (ps_tenant p)" by auto
  from identified_run[OF c this] have i: "store w1 = store w" "caller_typed c" "backed (db_clock env (Suc (ticks w))) c (store w)"
    "ca_self c \<longrightarrow> acceptRoute r \<or> selfTarget vf r = Some (ca_subject c)"
    "\<not> IsNil (ca_reporter c) \<longrightarrow> (\<exists>kind. reportRoute r = Some kind \<and> admits kind (ca_reports c))"
    by auto
  show ?thesis using admitted_run[OF a i(2)] i by (simp add: confined_def)
qed

text \<open>
  (C17) Authentication is typed: a caller it admits names a person or workload, has exactly one of the five
  authorities, names an emergency grant only as a provider and is a provider only by one or by an activation;
  and with a correlation identifier it resolves to the scope of that authority, one the services know.
\<close>

theorem Authenticate_typed:
  assumes "Authenticate env vf cx r w = (Inr c, w')" "\<not> IsNil correlation"
  shows "caller_typed c \<and> caller_resolve c correlation = Inr (scope_of c correlation) \<and> constructed (scope_of c correlation)"
proof -
  have "caller_typed c" using Authenticate_run[OF assms(1)] by simp
  then show ?thesis
    using caller_typed_resolves[OF _ assms(2)] caller_resolve_constructed by blast
qed

text \<open>
  Authority is the records' at the request: whoever is admitted in a Tenant administers it at that instant
  and changes nothing while administration is paused, a consumer or reporter is registered and in use, a
  reporter sends only the reports its record names, a provider has the standing its grants and activations
  give, an eligible holder reaches only the activation routes and a person acts for themselves only on the two
  routes that need no record; and unless an emergency grant was used, nothing is written.
\<close>

lemma Authenticate_backed:
  assumes "Authenticate env vf cx r w = (Inr c, w')"
  shows "backed (db_clock env (Suc (ticks w))) c (store w) \<and> confined vf r c (store w) \<and>
    (\<not> ca_emergency c \<longrightarrow> store w' = store w)"
  using Authenticate_run[OF assms] by simp

end
