(* ===== verification/Http_Surface_Effects.thy ===== *)
theory Http_Surface_Effects
  imports Http_Surface Http_Effects
begin

text \<open>
  What a request that reaches a handler has shown: the routes are unambiguous, the routes authentication takes
  for reports are those whose handlers take them, every command carries a key, and whoever passes a route's
  check holds what the records ask for it.
\<close>

section \<open>Paths and segments\<close>

fun joined_path :: "string list \<Rightarrow> string" where
  "joined_path [] = []"
| "joined_path [s] = s"
| "joined_path (s # ss) = s @ CHR ''/'' # joined_path ss"

lemma segments_Cons: "\<exists>s ss. segments p = s # ss"
  by (induction p) (auto split: list.splits)

lemma segments_no_slash: "s \<in> set (segments p) \<Longrightarrow> CHR ''/'' \<notin> set s"
  by (induction p arbitrary: s) (auto split: if_splits list.splits)

lemma segments_append: "CHR ''/'' \<notin> set s \<Longrightarrow> segments (s @ CHR ''/'' # rest) = s # segments rest"
  by (induction s) auto

lemma segments_single: "CHR ''/'' \<notin> set s \<Longrightarrow> segments s = [s]"
  by (induction s) auto

lemma joined_segments: "joined_path (segments p) = p"
proof (induction p)
  case (Cons ch p)
  obtain s ss where "segments p = s # ss" using segments_Cons by blast
  then show ?case using Cons by (cases ss) auto
qed simp

lemma CutPrefix_Some: "CutPrefix s p = Some r \<longleftrightarrow> s = p @ r"
  unfolding CutPrefix_def by (auto simp: append_eq_conv_conj) (metis append_take_drop_id)

lemma CutSuffix_Some: "CutSuffix s p = Some r \<longleftrightarrow> s = r @ p"
proof -
  have "rev s = rev p @ rev r \<longleftrightarrow> s = r @ p" by (metis rev_append rev_rev_ident)
  then show ?thesis by (auto simp: CutSuffix_def CutPrefix_Some)
qed

lemma segment_between_Some:
  "segment_between path a b = Some s \<longleftrightarrow> path = a @ s @ b \<and> s \<noteq> [] \<and> CHR ''/'' \<notin> set s"
  by (auto simp: segment_between_def CutPrefix_Some CutSuffix_Some split: option.splits)
    (metis CutPrefix_Some CutSuffix_Some option.distinct(1) option.inject)+

section \<open>The table\<close>

definition clash :: "http_route \<Rightarrow> http_route \<Rightarrow> bool" where
  "clash a b \<longleftrightarrow> ro_method a = ro_method b \<and>
     list_all2 (\<lambda>x y. wildcard x \<or> wildcard y \<or> x = y) (segments (ro_pattern a)) (segments (ro_pattern b))"

definition takes :: "http_route \<Rightarrow> string \<Rightarrow> string \<Rightarrow> bool" where
  "takes ro m path \<longleftrightarrow> method_matches (ro_method ro) m \<and> pattern_matches (ro_pattern ro) path"

lemma matched_clash:
  assumes "pattern_matches p path" "pattern_matches q path"
  shows "list_all2 (\<lambda>x y. wildcard x \<or> wildcard y \<or> x = y) (segments p) (segments q)"
  using assms unfolding pattern_matches_def list_all2_conv_all_nth segment_matches_def by (metis (full_types))

lemma takes_clash:
  assumes "takes a m path" "takes b m path" "ro_method a = ''POST''"
  shows "clash a b"
  using assms matched_clash[of "ro_pattern a" path "ro_pattern b"] by (auto simp: takes_def clash_def method_matches_def)

lemma route_of_takes: "route_of r = Some ro \<Longrightarrow> ro \<in> set Routes \<and> takes ro (hr_method r) (hr_path r)"
  by (auto simp: route_of_def lookup_def takes_def dest: find_in)

section \<open>Reports\<close>

fun report_of :: "guard \<Rightarrow> report_kind option" where
  "report_of GuardProvisioningReport = Some ReportProvisioning"
| "report_of GuardObligationReporter = Some ReportObligation"
| "report_of GuardResolver = Some ReportInvitation"
| "report_of _ = None"

definition report_table :: "http_route list" where
  "report_table =
     [route ''POST'' ''/v1/invitations/resolve'' GuardResolver,
      route ''POST'' ''/v1/provisioning/realized'' GuardProvisioningReport,
      route ''POST'' ''/v1/provisioning/failed'' GuardProvisioningReport,
      route ''POST'' ''/v1/offboardings/{offboarding_id}/deprovisioning'' GuardProvisioningReport,
      command ''POST'' ''/v1/obligations/{obligation_id}/resolve'' GuardObligationReporter]"

lemma report_routes: "filter (\<lambda>ro. report_of (ro_guard ro) \<noteq> None) Routes = report_table"
  by code_simp

lemma report_table_apart: "list_all (\<lambda>ro. ro_method ro = ''POST'' \<and> list_all (\<lambda>other. clash ro other \<longrightarrow> other = ro) Routes) report_table"
  by code_simp

lemma report_route_found:
  assumes "ro \<in> set report_table" "takes ro (hr_method r) (hr_path r)"
  shows "route_of r = Some ro"
proof -
  have "ro \<in> set Routes" using assms(1) unfolding report_routes[symmetric] by simp
  then obtain other where other: "route_of r = Some other"
    using assms(2) by (cases "route_of r") (auto simp: route_of_def lookup_def takes_def find_None_iff)
  then have "clash ro other" "other \<in> set Routes"
    using takes_clash[OF assms(2)] route_of_takes[OF other] report_table_apart assms(1) by (auto simp: list_all_iff)
  then show ?thesis using other report_table_apart assms(1) by (auto simp: list_all_iff)
qed

lemma report_segments:
  "segments ''/v1/invitations/resolve'' = [[], ''v1'', ''invitations'', ''resolve'']"
  "segments ''/v1/provisioning/realized'' = [[], ''v1'', ''provisioning'', ''realized'']"
  "segments ''/v1/provisioning/failed'' = [[], ''v1'', ''provisioning'', ''failed'']"
  "segments ''/v1/offboardings/{offboarding_id}/deprovisioning'' = [[], ''v1'', ''offboardings'', ''{offboarding_id}'', ''deprovisioning'']"
  "segments ''/v1/obligations/{obligation_id}/resolve'' = [[], ''v1'', ''obligations'', ''{obligation_id}'', ''resolve'']"
  by simp_all

lemma segments_eq: "segments path = ss \<Longrightarrow> path = joined_path ss \<and> (\<forall>s \<in> set ss. CHR ''/'' \<notin> set s)"
  using joined_segments[of path] segments_no_slash[of _ path] by auto

lemma literal_pattern:
  assumes "list_all (\<lambda>s. \<not> wildcard s) (segments p)"
  shows "pattern_matches p path \<longleftrightarrow> path = p"
proof -
  have "pattern_matches p path \<longleftrightarrow> segments p = segments path"
    using assms unfolding pattern_matches_def list_all2_conv_all_nth list_eq_iff_nth_eq segment_matches_def list_all_length by auto
  then show ?thesis by (metis joined_segments)
qed

lemma deprovisioning_pattern:
  "pattern_matches ''/v1/offboardings/{offboarding_id}/deprovisioning'' path \<longleftrightarrow>
     segment_between path ''/v1/offboardings/'' ''/deprovisioning'' \<noteq> None"
proof -
  have "pattern_matches ''/v1/offboardings/{offboarding_id}/deprovisioning'' path \<longleftrightarrow>
      (\<exists>s. segments path = [[], ''v1'', ''offboardings'', s, ''deprovisioning''] \<and> s \<noteq> [])"
    unfolding pattern_matches_def report_segments by (auto simp: list_all2_Cons1 segment_matches_def wildcard_def)
  also have "\<dots> \<longleftrightarrow> (\<exists>s. path = ''/v1/offboardings/'' @ s @ ''/deprovisioning'' \<and> s \<noteq> [] \<and> CHR ''/'' \<notin> set s)"
    by (auto dest!: segments_eq simp: segments_append)
  finally show ?thesis by (simp add: not_None_eq segment_between_Some)
qed

lemma obligation_pattern:
  "pattern_matches ''/v1/obligations/{obligation_id}/resolve'' path \<longleftrightarrow>
     segment_between path ''/v1/obligations/'' ''/resolve'' \<noteq> None"
proof -
  have "pattern_matches ''/v1/obligations/{obligation_id}/resolve'' path \<longleftrightarrow>
      (\<exists>s. segments path = [[], ''v1'', ''obligations'', s, ''resolve''] \<and> s \<noteq> [])"
    unfolding pattern_matches_def report_segments by (auto simp: list_all2_Cons1 segment_matches_def wildcard_def)
  also have "\<dots> \<longleftrightarrow> (\<exists>s. path = ''/v1/obligations/'' @ s @ ''/resolve'' \<and> s \<noteq> [] \<and> CHR ''/'' \<notin> set s)"
    by (auto dest!: segments_eq simp: segments_append)
  finally show ?thesis by (simp add: not_None_eq segment_between_Some)
qed

lemma report_taken:
  "(\<exists>ro \<in> set report_table. takes ro (hr_method r) (hr_path r) \<and> report_of (ro_guard ro) = Some kind) \<longleftrightarrow> reportRoute r = Some kind"
proof -
  have literal: "pattern_matches ''/v1/invitations/resolve'' path \<longleftrightarrow> path = ''/v1/invitations/resolve''"
    "pattern_matches ''/v1/provisioning/realized'' path \<longleftrightarrow> path = ''/v1/provisioning/realized''"
    "pattern_matches ''/v1/provisioning/failed'' path \<longleftrightarrow> path = ''/v1/provisioning/failed''" for path
    by (rule literal_pattern, simp add: report_segments wildcard_def)+
  have apart: "segment_between path ''/v1/offboardings/'' ''/deprovisioning'' = None"
      "segment_between path ''/v1/obligations/'' ''/resolve'' = None"
    if "path \<in> {''/v1/invitations/resolve'', ''/v1/provisioning/realized'', ''/v1/provisioning/failed''}" for path
    using that by (auto simp: segment_between_def CutPrefix_def)
  have one: "segment_between path ''/v1/obligations/'' ''/resolve'' = None"
    if "segment_between path ''/v1/offboardings/'' ''/deprovisioning'' \<noteq> None" for path
    using that by (cases "segment_between path ''/v1/obligations/'' ''/resolve''") (auto simp: segment_between_Some)
  show ?thesis
    using apart[of "hr_path r"] one[of "hr_path r"]
    by (cases kind; auto simp: report_table_def route_def command_def takes_def method_matches_def literal
        deprovisioning_pattern obligation_pattern reportRoute_def split: if_splits)
qed

lemma reports_agree:
  "reportRoute r = Some kind \<longleftrightarrow> (\<exists>ro. route_of r = Some ro \<and> report_of (ro_guard ro) = Some kind)"
proof -
  have "ro \<in> set report_table \<longleftrightarrow> ro \<in> set Routes \<and> report_of (ro_guard ro) \<noteq> None" for ro
    unfolding report_routes[symmetric] by simp
  then show ?thesis
    unfolding report_taken[symmetric] using route_of_takes[of r] report_route_found[of _ r] by (metis option.distinct(1) option.inject)
qed


section \<open>The caller check\<close>

definition reasoned :: "http_request \<Rightarrow> bool" where
  "reasoned r \<longleftrightarrow> TrimSpace (reason_header r) \<noteq> []"

lemma requireKey_Inr: "requireKey i = Inr u \<longleftrightarrow> (in_command i \<longrightarrow> TrimSpace (hr_key (in_request i)) \<noteq> [])"
  by (simp add: requireKey_def)

lemma requireTenant_Inr:
  "requireTenant i = Inr scope \<longleftrightarrow>
     in_scope i = Some scope \<and> \<not> (sc_provider scope \<or> sc_consumer scope \<or> sc_self scope) \<and> requireKey i = Inr ()"
  by (auto simp: requireTenant_def split: option.splits sum.splits if_splits)

lemma requireProvider_Inr:
  "requireProvider i = Inr scope \<longleftrightarrow>
     in_scope i = Some scope \<and> sc_provider scope \<and> (\<exists>c. in_caller i = Some c \<and> ca_provider c) \<and> reasoned (in_request i) \<and>
     requireKey i = Inr ()"
  by (auto simp: requireProvider_def reasoned_def split: option.splits sum.splits if_splits)

lemma requireConsumerSelfOrProvider_Inr:
  "requireConsumerSelfOrProvider i requested = Inr x \<longleftrightarrow>
     (\<exists>scope c. in_scope i = Some scope \<and> in_caller i = Some c \<and>
        (if ca_consumer c \<noteq> [] then (TrimSpace requested = [] \<or> TrimSpace requested = ca_consumer c) \<and> x = (scope, ca_consumer c)
         else sc_provider scope \<and> ca_provider c \<and> reasoned (in_request i) \<and> x = (scope, TrimSpace requested)))"
  by (auto simp: requireConsumerSelfOrProvider_def reasoned_def Let_def split: option.splits if_splits)

lemma requireGrantHolder_Inr:
  "requireGrantHolder i = Inr c \<longleftrightarrow>
     in_caller i = Some c \<and> (ca_provider c \<or> ca_eligible c) \<and> reasoned (in_request i) \<and> requireKey i = Inr ()"
  by (auto simp: requireGrantHolder_def reasoned_def split: option.splits sum.splits if_splits)

lemma requireProvisioningReport_Inr:
  "requireProvisioningReport env i = Inr x \<Longrightarrow>
     requireKey i = Inr () \<and> (if IsNil (ca_reporter (caller_or_zero i)) then \<exists>scope. requireProvider i = Inr scope
       else reports_Provisioning (ca_reports (caller_or_zero i)))"
  by (auto simp: requireProvisioningReport_def requireProvider_Inr Let_def split: option.splits sum.splits if_splits)

lemma requireObligationReporter_Inr:
  "requireObligationReporter i = Inr domain \<longleftrightarrow>
     \<not> IsNil (ca_reporter (caller_or_zero i)) \<and> domain = reports_Domain (ca_reports (caller_or_zero i)) \<and> domain \<noteq> [] \<and>
     requireKey i = Inr ()"
  by (auto simp: requireObligationReporter_def Let_def split: sum.splits if_splits)

lemma contexts_check_Inr:
  "contexts_check vf i = Inr u \<longleftrightarrow>
     (\<exists>who. vf_parse vf (path_principal (in_request i)) = Some who \<and>
        (if ca_self (caller_or_zero i) then ca_subject (caller_or_zero i) = who else \<exists>scope. requireProvider i = Inr scope))"
  by (auto simp: contexts_check_def Let_def split: option.splits sum.splits if_splits)

lemma map_sum_Inr: "map_sum id (\<lambda>_. ()) x = Inr u \<longleftrightarrow> (\<exists>y. x = Inr y)"
  by (cases x) auto

lemmas guards = requireTenant_Inr requireProvider_Inr requireConsumerSelfOrProvider_Inr requireGrantHolder_Inr
  requireObligationReporter_Inr contexts_check_Inr map_sum_Inr

lemma surface_run:
  assumes "surface env vf cx requested r w = (Inr a, w')"
  obtains k where "Authenticate env vf cx r w = (Inr (ar_caller a), w')" "hr_correlation r = Some k"
    "caller_resolve (ar_caller a) k = Inr (ar_scope a)" "route_of r = Some (ar_route a)"
    "guarded env vf (ro_guard (ar_route a)) \<lparr>in_request = r, in_caller = Some (ar_caller a), in_scope = Some (ar_scope a),
       in_command = ro_command (ar_route a)\<rparr> requested = Inr ()"
  using assms
  by (auto simp: surface_def received_def ResolveScope_def run_simps raise_run split: option.splits sum.splits intro: that)

text \<open>The caller check reads the context alone: what it says of a typed caller in its own scope.\<close>

lemma guarded_key:
  assumes "guarded env vf g i requested = Inr ()" "in_command i" "g \<notin> {GuardConsumer, GuardResolver, GuardContexts}"
  shows "TrimSpace (hr_key (in_request i)) \<noteq> []"
proof -
  have "requireKey i = Inr ()"
    using assms(1,3)
    by (cases g) (auto simp: guarded_def guards accept_check_def dest: requireProvisioningReport_Inr split: if_splits)
  then show ?thesis using assms(2) by (simp add: requireKey_Inr)
qed

definition passes :: "verifier \<Rightarrow> http_request \<Rightarrow> string \<Rightarrow> guard \<Rightarrow> caller \<Rightarrow> bool" where
  "passes vf r requested g c \<longleftrightarrow>
     (case g of
        GuardTenant \<Rightarrow> \<not> IsNil (ca_tenant c) \<or> reports_InvitationResolve (ca_reports c)
      | GuardProvider \<Rightarrow> ca_provider c \<and> reasoned r
      | GuardConsumer \<Rightarrow> ca_consumer c \<noteq> [] \<and> (TrimSpace requested = [] \<or> TrimSpace requested = ca_consumer c) \<or>
          ca_provider c \<and> reasoned r
      | GuardHolder \<Rightarrow> (ca_provider c \<or> ca_eligible c) \<and> reasoned r
      | GuardProvisioningReport \<Rightarrow> \<not> IsNil (ca_reporter c) \<and> reports_Provisioning (ca_reports c) \<or> ca_provider c \<and> reasoned r
      | GuardObligationReporter \<Rightarrow> \<not> IsNil (ca_reporter c) \<and> reports_Domain (ca_reports c) \<noteq> []
      | GuardResolver \<Rightarrow> \<not> IsNil (ca_reporter c) \<and> reports_InvitationResolve (ca_reports c)
      | GuardAccept \<Rightarrow> ca_self c
      | GuardContexts \<Rightarrow> ca_self c \<and> vf_parse vf (path_principal r) = Some (ca_subject c) \<or> ca_provider c \<and> reasoned r)"

lemma scope_of_fields:
  "sc_tenant (scope_of c k) = ca_tenant c" "sc_self (scope_of c k) = ca_self c" "sc_consumer (scope_of c k) \<longleftrightarrow> ca_consumer c \<noteq> []"
  "sc_provider (scope_of c k) \<longleftrightarrow> ca_provider c \<or> ca_eligible c \<or> \<not> IsNil (ca_reporter c) \<and> \<not> reports_InvitationResolve (ca_reports c)"
  by (simp_all add: scope_of_def)

lemma typed_somehow:
  "caller_typed c \<Longrightarrow> ca_self c \<or> \<not> IsNil (ca_tenant c) \<or> ca_consumer c \<noteq> [] \<or> \<not> IsNil (ca_reporter c) \<or> ca_provider c \<or> ca_eligible c"
  by (auto simp: caller_typed_def authorities_def split: if_splits)

lemma guarded_passes:
  assumes "caller_typed c" "scope = scope_of c k"
    and "guarded env vf g \<lparr>in_request = r, in_caller = Some c, in_scope = Some scope, in_command = cmd\<rparr> requested = Inr ()"
  shows "passes vf r requested g c"
  using assms(3) typed_somehow[OF assms(1)]
  by (cases g) (auto simp: guarded_def guards assms(2) scope_of_fields passes_def resolver_check_def accept_check_def caller_or_zero_def
      dest!: requireProvisioningReport_Inr split: if_splits)

section \<open>Commands\<close>

lemma posts_classified:
  "list_all (\<lambda>ro. ro_method ro = ''POST'' \<longrightarrow> ro_command ro \<or> ro_pattern ro \<in> set keyOptional) Routes"
  by code_simp

lemma commands_checked:
  "list_all (\<lambda>ro. ro_command ro \<longrightarrow> ro_guard ro \<notin> {GuardConsumer, GuardResolver, GuardContexts}) Routes"
  by code_simp

text \<open>
  A POST that reaches a handler carries an idempotency key, unless its route is one of those named with
  the reason the key is optional there: every other route is a command and its handler's check asks for the key.
\<close>

lemma commands_carry_key:
  assumes "surface env vf cx requested r w = (Inr a, w')" "hr_method r = ''POST''"
  shows "ro_pattern (ar_route a) \<in> set keyOptional \<or> TrimSpace (hr_key r) \<noteq> []"
proof -
  from assms(1) obtain k where ro: "route_of r = Some (ar_route a)"
    and g: "guarded env vf (ro_guard (ar_route a)) \<lparr>in_request = r, in_caller = Some (ar_caller a), in_scope = Some (ar_scope a),
       in_command = ro_command (ar_route a)\<rparr> requested = Inr ()"
    by (rule surface_run)
  have "ar_route a \<in> set Routes" "ro_method (ar_route a) = ''POST''"
    using route_of_takes[OF ro] assms(2) by (auto simp: takes_def method_matches_def)
  then show ?thesis
    using posts_classified commands_checked guarded_key[OF g] by (auto simp: list_all_iff)
qed

section \<open>Entitlement\<close>

definition in_force :: "instant \<Rightarrow> uuid \<Rightarrow> store \<Rightarrow> bool" where
  "in_force t who s \<longleftrightarrow> st_inForce (standing_of t who (callers s))"

text \<open>What each check means in the records.\<close>

definition entitled :: "verifier \<Rightarrow> http_request \<Rightarrow> string \<Rightarrow> instant \<Rightarrow> arrival \<Rightarrow> store \<Rightarrow> bool" where
  "entitled vf r requested t a s \<longleftrightarrow>
     (let c = ar_caller a; who = ca_subject c in
      case ro_guard (ar_route a) of
        GuardTenant \<Rightarrow> Administers (tenant_standing_of t who (sc_tenant (ar_scope a)) s) \<and>
          (changes r \<longrightarrow> \<not> paused_in (callers s))
      | GuardProvider \<Rightarrow> in_force t who s \<and> reasoned r
      | GuardConsumer \<Rightarrow> in_force t who s \<and> reasoned r \<or>
          consumer_of who (ca_consumer c) (callers s) \<and> (TrimSpace requested = [] \<or> TrimSpace requested = ca_consumer c)
      | GuardHolder \<Rightarrow> st_holder (standing_of t who (callers s)) \<and> reasoned r
      | GuardProvisioningReport \<Rightarrow> in_force t who s \<and> reasoned r \<or>
          reporter_for who (ca_reporter c) ReportsProvisioning (callers s)
      | GuardObligationReporter \<Rightarrow> (\<exists>domain. domain \<noteq> [] \<and> reporter_for who (ca_reporter c) (obligationPrefix @ domain) (callers s))
      | GuardResolver \<Rightarrow> reporter_for who (ca_reporter c) ReportsInvitationResolve (callers s)
      | GuardAccept \<Rightarrow> ca_self c
      | GuardContexts \<Rightarrow> in_force t who s \<and> reasoned r \<or> ca_self c \<and> vf_parse vf (path_principal r) = Some who)"

lemma not_a_tenant_route:
  assumes "reportRoute r = Some kind" "admits kind reports" "reports_InvitationResolve reports" "route_of r = Some ro"
  shows "ro_guard ro \<noteq> GuardTenant"
  using assms(1,4) by (auto simp: reports_agree)

text \<open>
  (C5) Whoever reaches a handler is entitled to it by the records of that instant: on a Tenant's route an
  administrator of the Tenant the scope is bound to, and no command while administration is paused; on a
  provider's a provider in force who gave a reason; on a consumer's that consumer naming itself, or a provider;
  on an activation route a holder; on a report's the reporter registered for that report; on the two routes of
  a person for themselves that person.
\<close>

theorem surface_entitled:
  assumes "surface env vf cx requested r w = (Inr a, w')"
  shows "entitled vf r requested (db_clock env (Suc (ticks w))) a (store w)"
proof -
  from assms obtain k where auth: "Authenticate env vf cx r w = (Inr (ar_caller a), w')"
    and scope: "caller_resolve (ar_caller a) k = Inr (ar_scope a)" and ro: "route_of r = Some (ar_route a)"
    and g: "guarded env vf (ro_guard (ar_route a)) \<lparr>in_request = r, in_caller = Some (ar_caller a), in_scope = Some (ar_scope a),
       in_command = ro_command (ar_route a)\<rparr> requested = Inr ()"
    by (rule surface_run)
  from Authenticate_run[OF auth] have c: "caller_typed (ar_caller a)"
      "backed (db_clock env (Suc (ticks w))) (ar_caller a) (store w)" "confined vf r (ar_caller a) (store w)"
    by auto
  let ?c = "ar_caller a" and ?t = "db_clock env (Suc (ticks w))" and ?s = "store w"
  have s: "ar_scope a = scope_of ?c k" by (rule caller_resolve_scope[OF c(1) scope])
  note p = guarded_passes[OF c(1) s g]
  have records: "ca_provider ?c \<Longrightarrow> in_force ?t (ca_subject ?c) ?s"
    "ca_provider ?c \<or> ca_eligible ?c \<Longrightarrow> st_holder (standing_of ?t (ca_subject ?c) (callers ?s))"
    "ca_consumer ?c \<noteq> [] \<Longrightarrow> consumer_of (ca_subject ?c) (ca_consumer ?c) (callers ?s)"
    "\<not> IsNil (ca_reporter ?c) \<Longrightarrow> reporter_for (ca_subject ?c) (ca_reporter ?c) (ca_reports ?c) (callers ?s)"
    "\<not> IsNil (ca_tenant ?c) \<Longrightarrow> Administers (tenant_standing_of ?t (ca_subject ?c) (ca_tenant ?c) ?s) \<and>
       (changes r \<longrightarrow> \<not> paused_in (callers ?s))"
    using c(2,3) by (simp_all add: backed_def confined_def in_force_def Let_def)
  have domain: "\<exists>domain. domain \<noteq> [] \<and> ca_reports ?c = obligationPrefix @ domain" if "reports_Domain (ca_reports ?c) \<noteq> []"
    using that by (cases "CutPrefix (ca_reports ?c) obligationPrefix") (auto simp: reports_Domain_def CutPrefix_Some)
  have tenant: "\<not> IsNil (ca_tenant ?c)" if "ro_guard (ar_route a) = GuardTenant"
  proof (rule ccontr)
    assume nil: "\<not> \<not> IsNil (ca_tenant ?c)"
    then have resolver: "reports_InvitationResolve (ca_reports ?c)" using p that by (simp add: passes_def)
    then have "\<not> IsNil (ca_reporter ?c)"
      using c(1) by (auto simp: caller_typed_def reports_InvitationResolve_def ReportsInvitationResolve_def)
    then obtain kind where "reportRoute r = Some kind" "admits kind (ca_reports ?c)" using c(3) by (auto simp: confined_def)
    then show False using not_a_tenant_route[OF _ _ resolver ro] that by blast
  qed
  show ?thesis
  proof (cases "ro_guard (ar_route a)")
    case GuardObligationReporter
    then show ?thesis using p domain records(4) by (auto simp: entitled_def passes_def Let_def)
  next
    case GuardTenant
    then show ?thesis using tenant records(5) by (simp add: entitled_def s scope_of_fields Let_def)
  qed (use p records(1-4) in \<open>auto simp: entitled_def passes_def Let_def reports_Provisioning_def reports_InvitationResolve_def\<close>)
qed

text \<open>
  (C6) From the bearer token to the decision: in every state that sequences of operations reach from an empty
  database, whoever reaches a provider's route, a suspension of a Tenant say, holds an unrevoked emergency grant,
  or an unrevoked grant with a running activation of their own that somebody else decided where approval was
  required.
\<close>

theorem provider_routes_traceable:
  assumes "control_wf (store w)" "(served env)\<^sup>*\<^sup>* w w1"
    and "surface env vf cx requested r w1 = (Inr a, w2)" "ro_guard (ar_route a) = GuardProvider"
  shows "emergency_holder (ca_subject (ar_caller a)) (callers (store w1)) \<or>
    activated_holder (db_clock env (Suc (ticks w1))) (ca_subject (ar_caller a)) (callers (store w1))"
proof (rule standing_in_force)
  have "callers_wf (callers (store w1))" using reached_wf[OF assms(2,1)] by (simp add: control_wf_def)
  then show "grants_wf (callers (store w1))" "activations_wf (callers (store w1))" by (simp_all add: callers_wf_def)
  from assms(3) obtain k where auth: "Authenticate env vf cx r w1 = (Inr (ar_caller a), w2)"
    and scope: "caller_resolve (ar_caller a) k = Inr (ar_scope a)"
    and g: "guarded env vf (ro_guard (ar_route a)) \<lparr>in_request = r, in_caller = Some (ar_caller a), in_scope = Some (ar_scope a),
       in_command = ro_command (ar_route a)\<rparr> requested = Inr ()"
    by (rule surface_run)
  from Authenticate_run[OF auth] have c: "caller_typed (ar_caller a)" "backed (db_clock env (Suc (ticks w1))) (ar_caller a) (store w1)"
    by auto
  show "st_inForce (standing_of (db_clock env (Suc (ticks w1))) (ca_subject (ar_caller a)) (callers (store w1)))"
    using guarded_passes[OF c(1) caller_resolve_scope[OF c(1) scope] g] c(2) assms(4)
    by (simp add: passes_def backed_def Let_def)
qed

section \<open>Whose key it is\<close>

text \<open>
  Keys of different callers never meet: two callers whose claims have the same owner are the same subject
  with the same authority, in the same Tenant where they act in one. The text of an identifier is only assumed
  to determine it and to hold no colon.
\<close>

lemma claimScope_separates:
  assumes "inj (uuid_text env)" "\<And>u. CHR '':'' \<notin> set (uuid_text env u)"
    and "caller_typed a" "caller_typed b" "claimScope env a = claimScope env b"
  shows "ca_subject a = ca_subject b \<and> ca_tenant a = ca_tenant b \<and> ca_self a = ca_self b \<and> ca_provider a = ca_provider b"
proof -
  have split: "t = t' \<and> u = u'" if "uuid_text env t @ CHR '':'' # uuid_text env u = uuid_text env t' @ CHR '':'' # uuid_text env u'" for t u t' u'
  proof -
    have first: "takeWhile (\<lambda>ch. ch \<noteq> CHR '':'') (uuid_text env t @ CHR '':'' # v) = uuid_text env t" for t v
      using assms(2)[of t] by (subst takeWhile_append2) auto
    have "uuid_text env t = uuid_text env t'"
      using arg_cong[OF that, of "takeWhile (\<lambda>ch. ch \<noteq> CHR '':'')"] unfolding first .
    then show ?thesis using that assms(1) by (auto dest: injD)
  qed
  have exclusive: "(ca_self c \<longrightarrow> IsNil (ca_tenant c) \<and> \<not> ca_provider c) \<and> (ca_provider c \<longrightarrow> IsNil (ca_tenant c) \<and> \<not> ca_self c)"
    if "caller_typed c" for c
    using that by (auto simp: caller_typed_def authorities_def split: if_splits)
  consider "ca_self a" "ca_self b" | "ca_provider a" "ca_provider b" "\<not> ca_self a" "\<not> ca_self b"
    | "\<not> ca_self a" "\<not> ca_self b" "\<not> ca_provider a" "\<not> ca_provider b"
    using assms(5) by (simp add: claimScope_def split: if_splits)
  then show ?thesis
    using assms(5) exclusive[OF assms(3)] exclusive[OF assms(4)]
    by cases (auto simp: claimScope_def dest: split injD[OF assms(1)])
qed

text \<open>
  The owner is not the subject alone: a holder whose activation came into force is another owner than the same
  holder before it, so a retry of the request that put it in force does not find that request's key.
\<close>

lemma activation_changes_owner:
  assumes "ca_eligible c" "\<not> ca_provider c" "\<not> ca_self c" "ca_provider c'" "\<not> ca_self c'"
  shows "claimScope env c \<noteq> claimScope env c'"
  using assms by (simp add: claimScope_def)

end
