(* ===== verification/Http_Witnesses.thy ===== *)
theory Http_Witnesses
  imports Http_Surface_Effects Authority_Witnesses
begin

text \<open>
  The theorems on authentication and on the way to a handler, applied to a provider's suspension of a Tenant in
  the world of \<open>Authority_Witnesses\<close>.
\<close>

definition ex_claims :: claims where
  "ex_claims name =
     (if name = PrincipalIDClaim then Some (ClaimText ''7'')
      else if name = SubjectTypeClaim then Some (ClaimText ''human'')
      else if name = AuthContextClassClaim then Some (ClaimText ''aal2'')
      else if name = AuthTimeClaim then Some (ClaimNumber 900)
      else None)"

definition ex_verifier :: verifier where
  "ex_verifier = \<lparr>vf_verify = (\<lambda>t. if t = ''p'' then Accepted ex_claims else Not_accepted),
     vf_parse = (\<lambda>s. if s = ''7'' then Some 7 else None), vf_consumers = True, vf_recordsUses = True\<rparr>"

definition ex_http :: http_request where
  "ex_http = \<lparr>hr_method = ''POST'', hr_path = ''/v1/tenants/x/suspend'', hr_authorization = ''Bearer p'', hr_reason = [''r''],
     hr_key = ''k'', hr_correlation = Some 8, hr_body = None\<rparr>"

definition ex_surface :: "http_problem + arrival" where
  "ex_surface = fst (surface ex_env ex_verifier ex_provider [] ex_http ex_called)"

lemma ex_surface_runs:
  "case ex_surface of Inl _ \<Rightarrow> False | Inr a \<Rightarrow> ro_guard (ar_route a) = GuardProvider"
  by code_simp

lemma ex_arrival:
  obtains a w' where "surface ex_env ex_verifier ex_provider [] ex_http ex_called = (Inr a, w')" "ro_guard (ar_route a) = GuardProvider"
  using ex_surface_runs unfolding ex_surface_def
  by (cases "surface ex_env ex_verifier ex_provider [] ex_http ex_called") (auto split: sum.splits intro: that)

lemma ex_authenticates: "succeeds (Authenticate ex_env ex_verifier ex_provider ex_http ex_called)"
  by code_simp

theorem Authenticate_typed_witness:
  "\<exists>c w'. Authenticate ex_env ex_verifier ex_provider ex_http ex_called = (Inr c, w') \<and> caller_typed c \<and> constructed (scope_of c 8)"
proof -
  obtain c w' where run: "Authenticate ex_env ex_verifier ex_provider ex_http ex_called = (Inr c, w')"
    using ex_authenticates by (rule succeedsE)
  show ?thesis using Authenticate_typed[OF run, of 8] run by auto
qed

theorem surface_entitled_witness:
  "\<exists>a w'. surface ex_env ex_verifier ex_provider [] ex_http ex_called = (Inr a, w') \<and>
    entitled ex_verifier ex_http [] (db_clock ex_env (Suc (ticks ex_called))) a (store ex_called)"
proof -
  obtain a w' where run: "surface ex_env ex_verifier ex_provider [] ex_http ex_called = (Inr a, w')" by (rule ex_arrival)
  show ?thesis using surface_entitled[OF run] run by blast
qed

theorem provider_routes_traceable_witness:
  "\<exists>a w'. surface ex_env ex_verifier ex_provider [] ex_http ex_called = (Inr a, w') \<and>
    (emergency_holder (ca_subject (ar_caller a)) (callers (store ex_called)) \<or>
     activated_holder (db_clock ex_env (Suc (ticks ex_called))) (ca_subject (ar_caller a)) (callers (store ex_called)))"
proof -
  obtain a w' where run: "surface ex_env ex_verifier ex_provider [] ex_http ex_called = (Inr a, w')" "ro_guard (ar_route a) = GuardProvider"
    by (rule ex_arrival)
  show ?thesis using provider_routes_traceable[OF ex_called_wf rtranclp.rtrancl_refl run] run(1) by blast
qed

end
