(* ===== verification/Spec2Isabelle.thy ===== *)
theory Spec2Isabelle
  imports Witnesses Offboarding_Witnesses System_Witnesses Authority_Witnesses Projection_Witnesses Http_Witnesses
begin

text \<open>
  Verification of the organization control plane (\<open>src/\<close>).

  \<^bold>\<open>The program.\<close> The service is the authority on Tenants, Memberships, Organizations, Workspaces,
  Invitations, Offboardings and on who may act with provider authority. Each package under
  \<open>src/internal\<close> owns one lifecycle. A request arrives over HTTP with a scope (tenant, provider, consumer,
  self, resolver) in its context and, for a command, an idempotency claim. The package validates it, opens
  one transaction through \<open>internal/db\<close>, which binds the scope for row-level security and records privileged
  access first, loads the row with \<open>FOR UPDATE\<close>, asks the lifecycle table, compares the version the caller
  was shown, updates, appends the event to the outbox in the same transaction, records the event's version
  and the response, and commits. Packages call one another inside a transaction: an offboarding moves its
  Tenant and suspends its Memberships, an acceptance grants a Membership, a batch item is a Membership
  command.

  \<^bold>\<open>Foundations.\<close>
  \<^item> \<open>Prelude\<close>: state-and-error computations, the step-relation calculus, keyed tables.
  \<^item> \<open>Failure\<close>: the sentinel errors of the packages, identifiers, instants, \<open>bigint\<close>.
  \<^item> \<open>Lifecycle\<close>, \<open>Tenant_Machine\<close>, \<open>Membership_Machine\<close>, \<open>Registry_Machines\<close>, \<open>Process_Machines\<close>: the
    transition tables, event types and lanes of \<open>tenant/state.go\<close>, \<open>membership/state.go\<close>,
    \<open>organization.go\<close>, \<open>workspace.go\<close>, \<open>invitation/state.go\<close> and \<open>offboarding/state.go\<close>.
  \<^item> \<open>World\<close>: rows, messages, scopes, the store, the environment and the primitive steps.
  \<^item> \<open>Scope_Binding\<close>: \<open>db/binding.go\<close>, \<open>db/idempotency.go\<close>, \<open>access/access.go\<close>.
  \<^item> \<open>Paging\<close>: \<open>db/page.go\<close> and the page cut of every \<open>List\<close>. \<open>Optimistic\<close>: the interface under which a
    versioned operation loses no update.

  \<^bold>\<open>Components.\<close>
  \<^item> \<open>Tenant_Service\<close>: \<open>tenant/service.go\<close>. \<open>Provisioning\<close>: \<open>tenant/intake.go\<close>, \<open>tenant/coordinator.go\<close>,
    \<open>tenant/restore.go\<close>. \<open>Membership_Service\<close>: \<open>membership/service.go\<close>, \<open>membership/advance.go\<close>.
  \<^item> \<open>Registry_Service\<close>: \<open>organization.go\<close> and \<open>workspace.go\<close>; \<open>Registry_Relations\<close> has their effects.
  \<^item> \<open>Token\<close> and \<open>Invitation_Service\<close>: \<open>invitation/\<close>; \<open>Invitation_Relations\<close> and \<open>Invitation_Acceptance\<close> have
    what its operations do.
  \<^item> \<open>Offboarding\<close>: \<open>offboarding/\<close>; \<open>Offboarding_Stages\<close>, \<open>Offboarding_Freeze\<close>, \<open>Offboarding_Cancel\<close> have the
    effects, \<open>Offboarding_Invariants\<close> what every operation keeps.
  \<^item> \<open>Membership_Batch\<close>: \<open>membership/batch.go\<close>; \<open>Batch_Relations\<close> has its effects.
  \<^item> \<open>Provider_Authority\<close> and \<open>Caller_Registry\<close>: \<open>authority/\<close>, the grants, activations, emergency use and
    pause, and the Tenant administrators, reporters and access reviews; \<open>Active_Context\<close>: \<open>context/\<close>, the
    fresh check and the context lists. \<open>Authority_Relations\<close>, \<open>Caller_Relations\<close> and \<open>Caller_Invariants\<close>
    show that each of their operations is a sequence of the steps \<open>caller_step\<close> and what such a step keeps;
    \<open>Authority_Effects\<close> and \<open>Context_Effects\<close> have the effects.
  \<^item> \<open>Projection_Registry\<close>: \<open>projection/\<close>, the consumers, their snapshots and the reconciliation of what they
    hold; \<open>Dead_Letters\<close>: replaying, closing and waiving what a consumer refused, the frontier and the signals,
    and \<open>membership/enforcement.go\<close>; \<open>Restore\<close>: \<open>restore/restore.go\<close>, the bump. \<open>Projection_Relations\<close> shows
    that their operations are sequences of \<open>caller_step\<close>; \<open>Projection_Effects\<close> and \<open>Dead_Letter_Effects\<close> have
    what they answer and change.
  \<^item> \<open>Sweep\<close>: \<open>sweep/sweep.go\<close>, one run of a scheduled job.
  \<^item> \<open>Http_Caller\<close>: \<open>httpapi/authentication.go\<close> and \<open>caller.go\<close>, who a request is and the scope it acts in.
    \<open>Http_Surface\<close>: the table of \<open>routes.go\<close>, the check of the caller each handler opens with
    (\<open>handlers.go\<close>, \<open>handlers_reporters.go\<close>, \<open>handlers_provider_activations.go\<close> and three handlers of their
    own), the key of a command (\<open>commands.go\<close>), its owner (\<open>idempotency.go\<close>), the reason (\<open>reason.go\<close>)
    and the problem an error becomes (\<open>problem.go\<close>). \<open>Http_Effects\<close> and \<open>Http_Surface_Effects\<close> have what
    whoever reaches a handler has shown.

  \<^bold>\<open>The whole.\<close> \<open>Registry_Invariants\<close> interprets the step locales for every invariant under every service;
  \<open>System\<close> has the operations as one step relation \<open>served\<close> and what holds of every state it reaches;
  \<open>Lifecycle_Spec\<close> has the abstract specification, the lifecycles of the aggregates alone, and that every
  operation refines it; \<open>Authority_Safety\<close> has provider authority over every sequence of operations.
  \<open>Example_World\<close>, \<open>Witnesses\<close>, \<open>Offboarding_Witnesses\<close>, \<open>System_Witnesses\<close>, \<open>Authority_Witnesses\<close>,
  \<open>Projection_Witnesses\<close>, \<open>Http_Witnesses\<close> apply each theorem with hypotheses to a concrete world.

  \<^bold>\<open>How the model corresponds to the code.\<close> A function that takes a transaction is a computation on
  \<open>world\<close>, whose store has one list of rows per table. A statement is a function of the store: a
  \<open>SELECT\<close> filters and orders, an \<open>UPDATE\<close> replaces the row of a key, an \<open>INSERT\<close> appends and may meet
  the constraints of \<open>schema.hcl\<close>; \<open>sees\<close> is the row-level policy of the binding. \<open>ORDER BY\<close> is a stable
  sort, so rows that tie keep table order. A statement that fails for a reason no branch of the code
  looks at (a lost connection, a lock timeout) is a transaction whose commit fails: in both the store is
  the one the transaction began with and the error has no sentinel. Instants are nanoseconds and the
  database's rounding to microseconds is not modelled. \<open>bigint\<close> arithmetic raises at the end of its range,
  Go's \<open>int64\<close> wraps; both are written out. Transactions are atomic steps: \<open>FOR UPDATE\<close> serialises the
  writers of a row, and the lemmas about callers that overlap are about the order their transactions
  commit in. An operation of several transactions is served transaction by transaction where executions of
  it may overlap, as those of a batch do under its lease; \<open>ExecuteBatch_serves\<close> shows that a whole execution
  is such a sequence.

  \<^bold>\<open>Parameters.\<close> The shared platform module is not under \<open>src/\<close>. Which identifiers it mints, whether an
  event type parses, whether an append succeeds and what an idempotency claim answers are fields of
  \<open>env\<close>, and so are the random source, SHA-256, the identity service that matches an address, the division
  of a rate, the error classifier of a batch, the cancellation of a request and the configured limits; no
  theorem assumes more of them than its statement says. \<open>seam\<close> stands for the hooks tests set, \<open>locked\<close>
  for the rows other transactions hold under \<open>SKIP LOCKED\<close>.

  \<^bold>\<open>What is shown.\<close> For every operation its exact effect on every table when it succeeds, and that a
  refused one leaves nothing but evidence of the attempt; that the columns of every aggregate agree with its
  status, that identifiers and active rows are unique, that Tenants and offboardings, Organizations and the
  Tenants they sponsor, grants and activations agree, in every state any sequence of operations reaches; that
  versions only grow, no update is lost and terminal states stay; that every operation is a sequence of moves
  of the abstract lifecycles; that a tenant caller reaches no other Tenant; that a token is taken once and a
  batch item applied once; that provider authority is never lost and never self-made; that a cancellation
  restores what the freeze took; that what a consumer reads agrees with the fresh check, that a reconciliation
  finds every difference and that a dead letter is closed on evidence only; that whoever reaches a handler is
  entitled to it by the records, down to the grant a provider acts on; that sweeps and pages are bounded. Loops
  of the code are structural recursions over the rows they range over, or, for the batches of a sweep and of a cancellation, recursions
  with a proved measure, so no fuel is needed. Each component states what its operations may do to the store
  once, as a locale over a step relation (\<open>store_relation\<close>, \<open>table_relation\<close>, \<open>tenant_relation\<close>,
  \<open>provisioning_relation\<close>, \<open>membership_relation\<close>, \<open>caller_relation\<close> and their extensions up to
  \<open>system_relation\<close>), and every invariant and monotonicity result is an interpretation of it.

  \<^bold>\<open>Not modelled.\<close> Of the HTTP surface the decoding of bodies, the call of the service from its handler, the
  rendering of views, the recording of a response and the routes without a caller; \<open>ReadLifecycle\<close>, which reads a view the migration defines; configuration, telemetry, posture,
  process wiring and the migration and checking tools: I/O around the services. What the platform does on
  its own, delivering messages and dropping what its retention lets go, is no step of the runs.
\<close>

end
